(* ===== verification/Prelude.thy ===== *)
theory Prelude
  imports Main "HOL-Library.Word" "HOL-Library.Signed_Division"
begin

section \<open>Shared vocabulary: Go's machine integers, strings, time and errors\<close>

text \<open>
  What every component uses of the Go language and its standard library:
  \<^item> \<open>int32\<close> and \<open>int64\<close> as words read by \<^const>\<open>sint\<close>, so that \<open>+\<close>, \<open>-\<close> and \<open>*\<close>
    wrap around as they do in Go, and \<open>/\<close> as the truncated quotient;
  \<^item> \<open>time.Time\<close> as an integer number of nanoseconds and \<open>time.Duration\<close> as an
    \<open>int64\<close> number of nanoseconds, with the saturation of \<open>Time.Sub\<close> and the text of
    \<open>Duration.String\<close>;
  \<^item> the parts of \<open>fmt\<close>, \<open>strconv\<close> and \<open>strings\<close> the sources call (\<open>%d\<close>, \<open>Atoi\<close>,
    \<open>Sscanf\<close> with one \<open>%d\<close>, \<open>Split\<close>);
  \<^item> errors as values carrying the API machinery's reason, which wrapping with \<open>%w\<close> keeps;
  \<^item> JSON values, for the \<open>map[string]any\<close> trees the sources walk.
  The lemma collections \<open>go_arith\<close> (signed words), \<open>go_fmt\<close> (printing and parsing) and
  \<open>drain_ops\<close> (the operations of the drain components) are declared here.
\<close>

named_theorems go_arith
named_theorems go_fmt
named_theorems drain_ops

subsection \<open>Signed machine integers\<close>

type_synonym i32 = "32 word"
type_synonym i64 = "64 word"

definition go_div :: "'n::len word \<Rightarrow> 'n word \<Rightarrow> 'n word" where
  "go_div a b = word_of_int (sint a sdiv sint b)"

definition to_i32 :: "int \<Rightarrow> i32" where
  "to_i32 k = word_of_int k"

lemma sint_of_int_in_range:
  "- (2 ^ (LENGTH('n::len) - 1)) \<le> k \<Longrightarrow> k < 2 ^ (LENGTH('n) - 1) \<Longrightarrow>
    sint (word_of_int k :: 'n word) = k"
  by (simp add: sint_sbintrunc' signed_take_bit_int_eq_self)

lemma sint_to_i32 [go_arith]:
  "- (2 ^ 31) \<le> k \<Longrightarrow> k < 2 ^ 31 \<Longrightarrow> sint (to_i32 k) = k"
  unfolding to_i32_def by (rule sint_of_int_in_range) simp_all

lemma i32_lower: "- (2 ^ 31) \<le> sint (w :: i32)"
  using sint_ge [of w] by simp

lemma i32_upper: "sint (w :: i32) < 2 ^ 31"
  using sint_lt [of w] by simp

lemma i64_lower: "- (2 ^ 63) \<le> sint (w :: i64)"
  using sint_ge [of w] by simp

lemma i64_upper: "sint (w :: i64) < 2 ^ 63"
  using sint_lt [of w] by simp

lemma sint_i32_diff [go_arith]:
  "- (2 ^ 31) \<le> sint a - sint b \<Longrightarrow> sint a - sint b < 2 ^ 31 \<Longrightarrow>
    sint (a - b :: i32) = sint a - sint b"
  by (simp add: sint_word_diff signed_take_bit_int_eq_self)

lemma sint_i32_add [go_arith]:
  "- (2 ^ 31) \<le> sint a + sint b \<Longrightarrow> sint a + sint b < 2 ^ 31 \<Longrightarrow>
    sint (a + b :: i32) = sint a + sint b"
  by (simp add: sint_word_add signed_take_bit_int_eq_self)

lemma sint_i32_mult [go_arith]:
  "- (2 ^ 31) \<le> sint a * sint b \<Longrightarrow> sint a * sint b < 2 ^ 31 \<Longrightarrow>
    sint (a * b :: i32) = sint a * sint b"
  by (simp add: sint_word_mult signed_take_bit_int_eq_self)

lemma sint_i64_diff [go_arith]:
  "- (2 ^ 63) \<le> sint a - sint b \<Longrightarrow> sint a - sint b < 2 ^ 63 \<Longrightarrow>
    sint (a - b :: i64) = sint a - sint b"
  by (simp add: sint_word_diff signed_take_bit_int_eq_self)

lemma sint_i64_mult [go_arith]:
  "- (2 ^ 63) \<le> sint a * sint b \<Longrightarrow> sint a * sint b < 2 ^ 63 \<Longrightarrow>
    sint (a * b :: i64) = sint a * sint b"
  by (simp add: sint_word_mult signed_take_bit_int_eq_self)

text \<open>Truncated division of non-negative numbers is the floor.\<close>

lemma sdiv_nonneg: "0 \<le> a \<Longrightarrow> 0 < b \<Longrightarrow> a sdiv b = (a div b :: int)"
  by (simp add: signed_divide_int_def sgn_if)

text \<open>A percentage computed as \<open>part * 100 / whole\<close> on words stays between 0 and 100.\<close>

lemma percent_bounds:
  fixes part whole :: int
  assumes "0 \<le> part" and "part \<le> whole" and "0 < whole"
  shows "0 \<le> part * 100 sdiv whole" and "part * 100 sdiv whole \<le> 100"
proof -
  have eq: "part * 100 sdiv whole = part * 100 div whole"
    using assms by (simp add: sdiv_nonneg)
  show "0 \<le> part * 100 sdiv whole"
    using assms by (simp add: eq pos_imp_zdiv_nonneg_iff)
  have "part * 100 div whole \<le> whole * 100 div whole"
    using assms by (intro zdiv_mono1) simp_all
  then show "part * 100 sdiv whole \<le> 100"
    using assms by (simp add: eq)
qed

subsection \<open>Printing and parsing numbers\<close>

definition digit_char :: "nat \<Rightarrow> char" where
  "digit_char n = char_of (48 + n)"

lemma digit_char_eval [simp]:
  "digit_char 0 = CHR ''0''" "digit_char (Suc 0) = CHR ''1''" "digit_char 1 = CHR ''1''"
  "digit_char 2 = CHR ''2''" "digit_char 3 = CHR ''3''" "digit_char 4 = CHR ''4''"
  "digit_char 5 = CHR ''5''" "digit_char 6 = CHR ''6''" "digit_char 7 = CHR ''7''"
  "digit_char 8 = CHR ''8''" "digit_char 9 = CHR ''9''"
  by code_simp+

definition is_digit :: "char \<Rightarrow> bool" where
  "is_digit c = (48 \<le> (of_char c :: nat) \<and> (of_char c :: nat) \<le> 57)"

definition digit_val :: "char \<Rightarrow> nat" where
  "digit_val c = of_char c - 48"

fun show_nat :: "nat \<Rightarrow> string" where
  "show_nat n = (if n < 10 then [digit_char n] else show_nat (n div 10) @ [digit_char (n mod 10)])"

declare show_nat.simps [simp del]

text \<open>\<open>fmt.Sprintf("%d", k)\<close>.\<close>

definition show_int :: "int \<Rightarrow> string" where
  "show_int k = (if k < 0 then CHR ''-'' # show_nat (nat (- k)) else show_nat (nat k))"

text \<open>The same digits computed on integers, which is what evaluation uses.\<close>

function show_pos :: "int \<Rightarrow> string" where
  "show_pos k = (if k < 10 then [digit_char (nat k)] else show_pos (k div 10) @ [digit_char (nat (k mod 10))])"
  by pat_completeness auto
termination
  by (relation "measure nat") auto

declare show_pos.simps [simp del]

lemma show_pos_nat: "0 \<le> k \<Longrightarrow> show_pos k = show_nat (nat k)"
proof (induction k rule: show_pos.induct)
  case (1 k)
  show ?case
  proof (cases "k < 10")
    case True
    then have "nat k < 10"
      by linarith
    with True show ?thesis
      by (simp add: show_pos.simps [of k] show_nat.simps [of "nat k"])
  next
    case False
    then have "\<not> nat k < 10"
      by linarith
    with False "1.IH" "1.prems" show ?thesis
      by (simp add: show_pos.simps [of k] show_nat.simps [of "nat k"] nat_div_distrib nat_mod_distrib)
  qed
qed

lemma show_int_code [code]:
  "show_int k = (if k < 0 then CHR ''-'' # show_pos (- k) else show_pos k)"
  by (simp add: show_int_def show_pos_nat)

definition show_i32 :: "i32 \<Rightarrow> string" where
  "show_i32 w = show_int (sint w)"

definition show_i64 :: "i64 \<Rightarrow> string" where
  "show_i64 w = show_int (sint w)"

definition digits_val :: "string \<Rightarrow> nat" where
  "digits_val ds = foldl (\<lambda>acc c. 10 * acc + digit_val c) 0 ds"

lemma digit_char_props [go_fmt]:
  "n < 10 \<Longrightarrow> is_digit (digit_char n)" "n < 10 \<Longrightarrow> digit_val (digit_char n) = n"
  by (simp_all add: is_digit_def digit_char_def digit_val_def)

lemma digits_val_append [go_fmt]: "digits_val (ds @ [c]) = 10 * digits_val ds + digit_val c"
  by (simp add: digits_val_def)

lemma show_nat_digits: "list_all is_digit (show_nat n)"
proof (induction n rule: show_nat.induct)
  case (1 n)
  then show ?case
    by (cases "n < 10") (simp_all add: show_nat.simps [of n] digit_char_props)
qed

lemma digits_val_show_nat [go_fmt]: "digits_val (show_nat n) = n"
proof (induction n rule: show_nat.induct)
  case (1 n)
  show ?case
  proof (cases "n < 10")
    case True
    then show ?thesis
      by (simp add: show_nat.simps [of n] digits_val_def digit_char_props)
  next
    case False
    with "1.IH" show ?thesis
      by (simp add: show_nat.simps [of n] digits_val_append digit_char_props)
  qed
qed

lemma show_nat_nonempty [go_fmt]: "show_nat n \<noteq> []"
  by (subst show_nat.simps) simp

lemma show_nat_inject [go_fmt]: "show_nat m = show_nat n \<longleftrightarrow> m = n"
  by (metis digits_val_show_nat)

lemma show_nat_Cons:
  obtains c cs where "show_nat n = c # cs" and "is_digit c" and "list_all is_digit cs"
  using show_nat_digits [of n] show_nat_nonempty [of n] by (cases "show_nat n") auto

lemma sign_not_digit [simp]: "\<not> is_digit CHR ''-''" "\<not> is_digit CHR ''+''"
  by (simp_all add: is_digit_def)

lemma is_digit_not_sign: "is_digit c \<Longrightarrow> c \<noteq> CHR ''-'' \<and> c \<noteq> CHR ''+''"
  using sign_not_digit by blast

text \<open>
  \<open>strconv.Atoi\<close>: an optional sign and at least one decimal digit, the value within
  \<open>int64\<close>; \<open>None\<close> is the error.
\<close>

definition parse_digits :: "string \<Rightarrow> nat option" where
  "parse_digits ds = (if ds \<noteq> [] \<and> list_all is_digit ds then Some (digits_val ds) else None)"

definition in_i64 :: "int \<Rightarrow> bool" where
  "in_i64 k = (- (2 ^ 63) \<le> k \<and> k < 2 ^ 63)"

definition signed_part :: "string \<Rightarrow> bool \<times> string" where
  "signed_part s = (case s of [] \<Rightarrow> (False, [])
     | c # cs \<Rightarrow> if c = CHR ''-'' then (True, cs) else if c = CHR ''+'' then (False, cs) else (False, c # cs))"

definition atoi :: "string \<Rightarrow> int option" where
  "atoi s = (case signed_part s of (neg, ds) \<Rightarrow>
     (case parse_digits ds of None \<Rightarrow> None
      | Some n \<Rightarrow> (let k = (if neg then - int n else int n) in if in_i64 k then Some k else None)))"

lemma signed_part_show_nat [go_fmt]: "signed_part (show_nat n) = (False, show_nat n)"
  by (rule show_nat_Cons [of n]) (simp add: signed_part_def is_digit_not_sign)

lemma parse_digits_show_nat [go_fmt]: "parse_digits (show_nat n) = Some n"
  by (simp add: parse_digits_def show_nat_nonempty show_nat_digits digits_val_show_nat)

lemma atoi_show_int [go_fmt]: "in_i64 k \<Longrightarrow> atoi (show_int k) = Some k"
proof (cases "k < 0")
  case True
  moreover assume "in_i64 k"
  ultimately show ?thesis
    by (simp add: atoi_def show_int_def signed_part_def parse_digits_show_nat)
next
  case False
  moreover assume "in_i64 k"
  ultimately show ?thesis
    by (simp add: atoi_def show_int_def signed_part_show_nat parse_digits_show_nat)
qed

lemma in_i64_i32 [go_fmt]: "in_i64 (sint (w :: i32))"
  using i32_lower [of w] i32_upper [of w] by (simp add: in_i64_def)

lemma show_int_inject: "in_i64 j \<Longrightarrow> in_i64 k \<Longrightarrow> show_int j = show_int k \<longleftrightarrow> j = k"
  by (metis atoi_show_int option.inject)

lemma show_int_nonempty [go_fmt]: "show_int k \<noteq> []"
  by (simp add: show_int_def show_nat_nonempty)

text \<open>\<open>strings.Split(s, sep)\<close> for a one-character separator: never the empty list.\<close>

fun split_on :: "char \<Rightarrow> string \<Rightarrow> string list" where
  "split_on sep [] = [[]]"
| "split_on sep (c # cs) =
     (if c = sep then [] # split_on sep cs
      else (case split_on sep cs of [] \<Rightarrow> [[c]] | p # ps \<Rightarrow> (c # p) # ps))"

lemma split_on_nonempty [simp]: "split_on sep s \<noteq> []"
  by (induction s) (auto split: list.splits)

lemma split_on_append [go_fmt]:
  "split_on sep (s @ sep # t) = split_on sep s @ split_on sep t"
  by (induction s) (auto split: list.splits)

lemma split_on_free [go_fmt]: "sep \<notin> set s \<Longrightarrow> split_on sep s = [s]"
  by (induction s) auto

lemma append_eq_marker: "c \<notin> set k \<Longrightarrow> c \<notin> set k' \<Longrightarrow> k @ c # v = k' @ c # v' \<longleftrightarrow> k = k' \<and> v = v'"
proof (induction k arbitrary: k')
  case Nil
  then show ?case by (cases k') auto
next
  case (Cons a k)
  then show ?case by (cases k') auto
qed

lemma dash_notin_show_nat [go_fmt]: "CHR ''-'' \<notin> set (show_nat n)"
proof
  assume "CHR ''-'' \<in> set (show_nat n)"
  with show_nat_digits [of n] have "is_digit CHR ''-''"
    by (auto simp: list_all_iff)
  then show False by simp
qed

text \<open>
  \<open>fmt.Sscanf(input, prefix + "%d", &x)\<close> with \<open>x\<close> an \<open>int32\<close>, for a prefix with no
  \<open>%\<close> and no white space: the prefix is matched literally, blanks before the number are
  skipped (a newline is an error), a sign and digits follow, and the value must fit; what
  is left of the input is ignored. The left component is the text of the error.
\<close>

definition is_blank :: "char \<Rightarrow> bool" where
  "is_blank c = ((of_char c :: nat) \<in> {9, 11, 12, 13, 32})"

definition newline :: char where
  "newline = CHR 0x0A"

definition quote :: char where
  "quote = CHR 0x22"

fun match_literal :: "string \<Rightarrow> string \<Rightarrow> string + string" where
  "match_literal [] s = Inr s"
| "match_literal (p # ps) [] = Inl ''unexpected EOF''"
| "match_literal (p # ps) (c # cs) = (if p = c then match_literal ps cs else Inl ''input does not match format'')"

definition scan_i32 :: "string \<Rightarrow> string + int" where
  "scan_i32 s = (let t = dropWhile is_blank s in
     if t = [] then Inl ''unexpected EOF''
     else if hd t = newline then Inl ''unexpected newline''
     else case signed_part t of (neg, u) \<Rightarrow>
       (let ds = takeWhile is_digit u; tok = takeWhile (\<lambda>c. \<not> is_digit c) (take 1 t) @ ds;
            k = (if neg then - int (digits_val ds) else int (digits_val ds))
        in if u = [] then Inl ''unexpected EOF''
           else if ds = [] then Inl ''expected integer''
           else if \<not> in_i64 k then Inl (''strconv.ParseInt: parsing '' @ [quote] @ tok @ [quote] @ '': value out of range'')
           else if - (2 ^ 31) \<le> k \<and> k < 2 ^ 31 then Inr k
           else Inl (''integer overflow on token '' @ tok)))"

definition sscanf_i32 :: "string \<Rightarrow> string \<Rightarrow> string + int" where
  "sscanf_i32 prefix s = (case match_literal prefix s of Inl e \<Rightarrow> Inl e | Inr t \<Rightarrow> scan_i32 t)"

lemma match_literal_append [go_fmt]: "match_literal p (p @ s) = Inr s"
  by (induction p) auto

lemma is_digit_not_blank: "is_digit c \<Longrightarrow> \<not> is_blank c"
  by (auto simp: is_digit_def is_blank_def)

lemma is_digit_not_newline: "is_digit c \<Longrightarrow> c \<noteq> newline"
  by (auto simp: is_digit_def newline_def)

lemma takeWhile_show_nat [go_fmt]: "takeWhile is_digit (show_nat n) = show_nat n"
  using show_nat_digits [of n] by (simp add: takeWhile_eq_all_conv list_all_iff)

lemma dropWhile_show_nat [go_fmt]: "dropWhile is_blank (show_nat n) = show_nat n"
  by (rule show_nat_Cons [of n]) (simp add: is_digit_not_blank)

lemma hd_show_nat: "hd (show_nat n) \<noteq> newline"
  by (rule show_nat_Cons [of n]) (simp add: is_digit_not_newline)

lemma dash_not_blank [simp]: "\<not> is_blank CHR ''-''" "CHR ''-'' \<noteq> newline"
  by (simp_all add: is_blank_def newline_def)

lemma scan_i32_show_int [go_fmt]:
  "- (2 ^ 31) \<le> k \<Longrightarrow> k < 2 ^ 31 \<Longrightarrow> scan_i32 (show_int k) = Inr k"
  by (cases "k < 0")
     (simp_all add: scan_i32_def show_int_def signed_part_def [of "_ # _"] dropWhile_show_nat Let_def
        hd_show_nat signed_part_show_nat takeWhile_show_nat digits_val_show_nat show_nat_nonempty in_i64_def)

lemma sscanf_i32_print [go_fmt]:
  "sscanf_i32 p (p @ show_i32 w) = Inr (sint w)"
  using scan_i32_show_int [OF i32_lower i32_upper, of w]
  by (simp add: sscanf_i32_def match_literal_append show_i32_def)

subsection \<open>Time\<close>

text \<open>
  Instants are nanoseconds since the epoch, unbounded; durations are \<open>int64\<close> nanoseconds.
  \<open>Time.Sub\<close> (and \<open>time.Since\<close>, \<open>time.Until\<close>) saturates at the ends of the \<open>int64\<close> range.
\<close>

type_synonym time = int
type_synonym duration = i64

definition nanosecond :: duration where "nanosecond = 1"
definition second :: duration where "second = 1000000000"
definition minute :: duration where "minute = 60 * second"
definition hour :: duration where "hour = 60 * minute"

lemma unit_values [simp]:
  "sint second = 1000000000" "sint minute = 60000000000" "sint hour = 3600000000000"
  by (simp_all add: second_def minute_def hour_def)

definition time_sub :: "time \<Rightarrow> time \<Rightarrow> duration" where
  "time_sub t u = word_of_int (max (- (2 ^ 63)) (min (2 ^ 63 - 1) (t - u)))"

definition time_add :: "time \<Rightarrow> duration \<Rightarrow> time" where
  "time_add t d = t + sint d"

lemma sint_time_sub [go_arith]: "sint (time_sub t u) = max (- (2 ^ 63)) (min (2 ^ 63 - 1) (t - u))"
  unfolding time_sub_def by (rule sint_of_int_in_range) simp_all

lemma time_sub_le_iff [go_arith]:
  "sint (time_sub t u) \<le> sint d \<longleftrightarrow> t - u \<le> sint d" if "sint d < 2 ^ 63 - 1" for d :: duration
  using that i64_lower [of d] by (auto simp: sint_time_sub min_def max_def)

lemma time_sub_ge_iff [go_arith]:
  "sint d \<le> sint (time_sub t u) \<longleftrightarrow> sint d \<le> t - u" if "- (2 ^ 63) < sint d" for d :: duration
  using that i64_upper [of d] by (auto simp: sint_time_sub min_def max_def)

text \<open>\<open>Duration.String\<close>: hours, minutes and seconds from one second up, a smaller unit below.\<close>

definition strip_zeros :: "string \<Rightarrow> string" where
  "strip_zeros s = rev (dropWhile (\<lambda>c. c = CHR ''0'') (rev s))"

definition frac_string :: "nat \<Rightarrow> int \<Rightarrow> string" where
  "frac_string prec v = (let f = v mod 10 ^ prec; ds = show_int f in
     if f = 0 then [] else CHR ''.'' # strip_zeros (replicate (prec - length ds) CHR ''0'' @ ds))"

definition micro_unit :: string where
  "micro_unit = [char_of (194::nat), char_of (181::nat), CHR ''s'']"

definition small_duration_string :: "int \<Rightarrow> string" where
  "small_duration_string u =
     (if u = 0 then ''0s''
      else if u < 1000 then show_int u @ ''ns''
      else if u < 1000000 then show_int (u div 1000) @ frac_string 3 u @ micro_unit
      else show_int (u div 1000000) @ frac_string 6 u @ ''ms'')"

definition large_duration_string :: "int \<Rightarrow> string" where
  "large_duration_string u =
     (let secs = u div 1000000000; mins = secs div 60; hours = mins div 60 in
      (if 0 < hours then show_int hours @ ''h'' else []) @
      (if 0 < mins then show_int (mins mod 60) @ ''m'' else []) @
      show_int (secs mod 60) @ frac_string 9 u @ ''s'')"

definition duration_string :: "duration \<Rightarrow> string" where
  "duration_string d = (let k = sint d; u = \<bar>k\<bar> in
     (if k < 0 then ''-'' else []) @
     (if u < 1000000000 then small_duration_string u else large_duration_string u))"

text \<open>\<open>Duration.Round(m)\<close>: to the nearest multiple, halves away from zero, saturating.\<close>

definition duration_round :: "duration \<Rightarrow> duration \<Rightarrow> duration" where
  "duration_round d m =
     (let k = sint d; n = sint m; r = \<bar>k\<bar> mod n in
      if n \<le> 0 then d
      else if k < 0 then
        (if 2 * r < n then word_of_int (k + r)
         else if - (2 ^ 63) \<le> k - n + r then word_of_int (k - n + r) else word_of_int (- (2 ^ 63)))
      else if 2 * r < n then word_of_int (k - r)
      else if k + n - r < 2 ^ 63 then word_of_int (k + n - r) else word_of_int (2 ^ 63 - 1))"

subsection \<open>Errors\<close>

text \<open>
  An error is its text and the reason the API machinery's predicates (\<open>IsNotFound\<close>,
  \<open>IsConflict\<close>, \<dots>) look for; wrapping with \<open>%w\<close> extends the text and keeps the reason.
\<close>

datatype err_reason = NotFound | Conflict | AlreadyExists | ServerTimeout | TooManyRequests
  | ServiceUnavailable | InternalError | Invalid | Forbidden | Canceled | OtherReason

datatype gerror = GErr (reason_of: err_reason) (text_of: string)

type_synonym 'a result = "gerror + 'a"

definition errorf :: "string \<Rightarrow> gerror" where
  "errorf msg = GErr OtherReason msg"

definition wrapf :: "string \<Rightarrow> gerror \<Rightarrow> gerror" where
  "wrapf prefix e = GErr (reason_of e) (prefix @ text_of e)"

definition IsNotFound :: "gerror \<Rightarrow> bool" where
  "IsNotFound e = (reason_of e = NotFound)"

lemma wrapf_reason [simp]: "reason_of (wrapf p e) = reason_of e" "IsNotFound (wrapf p e) = IsNotFound e"
  by (simp_all add: wrapf_def IsNotFound_def)

subsection \<open>JSON values\<close>

datatype json = JNull | JBool bool | JNum int | JStr string | JArr "json list"
  | JObj "(string \<times> json) list"

definition json_obj :: "json option \<Rightarrow> (string \<times> json) list option" where
  "json_obj v = (case v of Some (JObj m) \<Rightarrow> Some m | _ \<Rightarrow> None)"

definition json_str :: "json option \<Rightarrow> string option" where
  "json_str v = (case v of Some (JStr t) \<Rightarrow> Some t | _ \<Rightarrow> None)"

subsection \<open>Maps of strings\<close>

text \<open>
  A \<open>map[string]string\<close> is an association list with distinct keys; read at a missing key
  it gives the zero value.
\<close>

type_synonym labels = "(string \<times> string) list"

definition label_get :: "labels \<Rightarrow> string \<Rightarrow> string" where
  "label_get m k = (case map_of m k of None \<Rightarrow> [] | Some v \<Rightarrow> v)"

end
