(* ===== verification/DrainState.thy ===== *)
theory DrainState
  imports Prelude
begin

section \<open>The drain life cycle (internal/shared/drain/state.go)\<close>

text \<open>
  The status record of one drained component, the transition table and the operations that
  move it, each as a function from the old status to the new one; an operation that returns
  an error leaves the status as it was. \<open>time.Now()\<close> is the argument \<open>now\<close>. The abstract
  life cycle is the inductive relation \<open>drain_edge\<close>; the operations are shown to follow it,
  and what every sequence of them keeps of the record is \<open>status_inv\<close>.
\<close>

text \<open>
  \<open>DrainPhase\<close> is a string type with seven constants; \<open>DrainPhaseText t\<close> is any other
  text, and \<open>DrainPhaseText []\<close> the zero value of a status never written.
\<close>

datatype DrainPhase = DrainPhaseIdle | DrainPhasePending | DrainPhaseDraining
  | DrainPhaseVerifying | DrainPhaseComplete | DrainPhaseFailed | DrainPhaseRollingBack
  | DrainPhaseText string

fun phase_text :: "DrainPhase \<Rightarrow> string" where
  "phase_text DrainPhaseIdle = ''Idle''"
| "phase_text DrainPhasePending = ''Pending''"
| "phase_text DrainPhaseDraining = ''Draining''"
| "phase_text DrainPhaseVerifying = ''Verifying''"
| "phase_text DrainPhaseComplete = ''Complete''"
| "phase_text DrainPhaseFailed = ''Failed''"
| "phase_text DrainPhaseRollingBack = ''RollingBack''"
| "phase_text (DrainPhaseText t) = t"

record ComponentDrainStatus =
  ds_Phase :: DrainPhase
  ds_TargetPod :: string
  ds_PreviousReplicas :: "i32 option"
  ds_TargetReplicas :: "i32 option"
  ds_Progress :: i32
  ds_StartTime :: "time option"
  ds_LastTransitionTime :: "time option"
  ds_AttemptCount :: i32
  ds_NextRetryTime :: "time option"
  ds_Message :: string
  ds_ShardCount :: "i32 option"
  ds_QueueDepth :: "i64 option"

definition zero_status :: ComponentDrainStatus where
  "zero_status = \<lparr>ds_Phase = DrainPhaseText [], ds_TargetPod = [], ds_PreviousReplicas = None,
     ds_TargetReplicas = None, ds_Progress = 0, ds_StartTime = None, ds_LastTransitionTime = None,
     ds_AttemptCount = 0, ds_NextRetryTime = None, ds_Message = [], ds_ShardCount = None,
     ds_QueueDepth = None\<rparr>"

text \<open>The drain configuration and status of a cluster, and the result of a dry run.\<close>

record IndexerDrainConfig =
  idc_Enabled :: "bool option"
  idc_Timeout :: "duration option"
  idc_HealthCheckInterval :: "duration option"
  idc_MinGreenHealthTimeout :: "duration option"

record ManagerDrainConfig =
  mdc_Enabled :: "bool option"
  mdc_Timeout :: "duration option"
  mdc_QueueCheckInterval :: "duration option"
  mdc_GracePeriod :: "duration option"

record DrainRetryConfig =
  drc_MaxAttempts :: i32
  drc_InitialDelay :: "duration option"
  drc_BackoffMultiplier :: string
  drc_MaxDelay :: "duration option"

record DrainConfiguration =
  dc_Indexer :: "IndexerDrainConfig option"
  dc_Manager :: "ManagerDrainConfig option"
  dc_Retry :: "DrainRetryConfig option"
  dc_DryRun :: bool

record DryRunResult =
  dr_Feasible :: bool
  dr_EvaluatedAt :: time
  dr_Component :: string
  dr_Blockers :: "string list"
  dr_Warnings :: "string list"
  dr_EstimatedDuration :: "duration option"

record DrainStatus =
  dst_Indexer :: "ComponentDrainStatus option"
  dst_Manager :: "ComponentDrainStatus option"
  dst_LastDryRun :: "DryRunResult option"

definition DrainComponentIndexer :: string where "DrainComponentIndexer = ''indexer''"
definition DrainComponentManager :: string where "DrainComponentManager = ''manager''"
definition DrainComponentDashboard :: string where "DrainComponentDashboard = ''dashboard''"

definition empty_drain_status :: DrainStatus where
  "empty_drain_status = \<lparr>dst_Indexer = None, dst_Manager = None, dst_LastDryRun = None\<rparr>"

text \<open>\<open>result.Feasible = false\<close> with one more blocker; one more warning; a result to start from.\<close>

definition add_blocker :: "string \<Rightarrow> DryRunResult \<Rightarrow> DryRunResult" where
  "add_blocker b r = r\<lparr>dr_Feasible := False, dr_Blockers := dr_Blockers r @ [b]\<rparr>"

definition add_warning :: "string \<Rightarrow> DryRunResult \<Rightarrow> DryRunResult" where
  "add_warning m r = r\<lparr>dr_Warnings := dr_Warnings r @ [m]\<rparr>"

definition fresh_result :: "time \<Rightarrow> string \<Rightarrow> DryRunResult" where
  "fresh_result now component = \<lparr>dr_Feasible = True, dr_EvaluatedAt = now, dr_Component = component,
     dr_Blockers = [], dr_Warnings = [], dr_EstimatedDuration = None\<rparr>"

fun ValidTransitions :: "DrainPhase \<Rightarrow> DrainPhase list option" where
  "ValidTransitions DrainPhaseIdle = Some [DrainPhasePending]"
| "ValidTransitions DrainPhasePending = Some [DrainPhaseDraining, DrainPhaseIdle]"
| "ValidTransitions DrainPhaseDraining = Some [DrainPhaseVerifying, DrainPhaseFailed]"
| "ValidTransitions DrainPhaseVerifying = Some [DrainPhaseComplete, DrainPhaseFailed]"
| "ValidTransitions DrainPhaseComplete = Some [DrainPhaseIdle]"
| "ValidTransitions DrainPhaseFailed = Some [DrainPhaseRollingBack, DrainPhaseIdle]"
| "ValidTransitions DrainPhaseRollingBack = Some [DrainPhasePending, DrainPhaseFailed, DrainPhaseIdle]"
| "ValidTransitions (DrainPhaseText t) = None"

definition IsValidTransition :: "DrainPhase \<Rightarrow> DrainPhase \<Rightarrow> bool" where
  "IsValidTransition from to = (case ValidTransitions from of None \<Rightarrow> False | Some ts \<Rightarrow> to \<in> set ts)"

definition clear_drain_fields :: "ComponentDrainStatus \<Rightarrow> ComponentDrainStatus" where
  "clear_drain_fields s = s\<lparr>ds_TargetPod := [], ds_PreviousReplicas := None, ds_TargetReplicas := None,
     ds_Progress := 0, ds_StartTime := None, ds_AttemptCount := 0, ds_NextRetryTime := None,
     ds_ShardCount := None, ds_QueueDepth := None\<rparr>"

definition TransitionTo ::
    "time \<Rightarrow> ComponentDrainStatus option \<Rightarrow> DrainPhase \<Rightarrow> string \<Rightarrow> ComponentDrainStatus result" where
  "TransitionTo now status to message = (case status of
     None \<Rightarrow> Inl (errorf ''status is nil'')
   | Some s \<Rightarrow>
      (let from = (if ds_Phase s = DrainPhaseText [] then DrainPhaseIdle else ds_Phase s) in
       if \<not> IsValidTransition from to then
         Inl (errorf (''invalid transition from '' @ phase_text from @ '' to '' @ phase_text to))
       else
         let s' = s\<lparr>ds_Phase := to, ds_LastTransitionTime := Some now, ds_Message := message\<rparr> in
         Inr (case to of
             DrainPhaseIdle \<Rightarrow> clear_drain_fields s'
           | DrainPhasePending \<Rightarrow> s'\<lparr>ds_StartTime := Some now, ds_Progress := 0\<rparr>
           | DrainPhaseComplete \<Rightarrow> s'\<lparr>ds_Progress := 100\<rparr>
           | _ \<Rightarrow> s')))"

definition InitializeDrainStatus :: ComponentDrainStatus where
  "InitializeDrainStatus = zero_status\<lparr>ds_Phase := DrainPhaseIdle\<rparr>"

definition StartDrain ::
    "time \<Rightarrow> ComponentDrainStatus \<Rightarrow> string \<Rightarrow> i32 \<Rightarrow> i32 \<Rightarrow> ComponentDrainStatus result" where
  "StartDrain now s targetPod previousReplicas targetReplicas =
     (if ds_Phase s \<noteq> DrainPhaseIdle then
        Inl (errorf (''cannot start drain: current phase is '' @ phase_text (ds_Phase s) @ '', expected Idle''))
      else Inr (s\<lparr>ds_Phase := DrainPhasePending, ds_TargetPod := targetPod,
        ds_PreviousReplicas := Some previousReplicas, ds_TargetReplicas := Some targetReplicas,
        ds_StartTime := Some now, ds_LastTransitionTime := Some now, ds_Progress := 0,
        ds_AttemptCount := 1,
        ds_Message := ''Scale-down detected: '' @ show_i32 previousReplicas @ '' -> '' @
          show_i32 targetReplicas @ '' replicas, draining pod '' @ targetPod\<rparr>))"

definition clamp_percent :: "i32 \<Rightarrow> i32" where
  "clamp_percent progress =
     (let p = (if sint progress < 0 then 0 else progress) in if sint p > 100 then 100 else p)"

definition UpdateProgress :: "ComponentDrainStatus \<Rightarrow> i32 \<Rightarrow> string \<Rightarrow> ComponentDrainStatus" where
  "UpdateProgress s progress message = s\<lparr>ds_Progress := clamp_percent progress, ds_Message := message\<rparr>"

definition UpdateShardCount :: "ComponentDrainStatus \<Rightarrow> i32 \<Rightarrow> ComponentDrainStatus" where
  "UpdateShardCount s count = s\<lparr>ds_ShardCount := Some count\<rparr>"

definition UpdateQueueDepth :: "ComponentDrainStatus \<Rightarrow> i64 \<Rightarrow> ComponentDrainStatus" where
  "UpdateQueueDepth s depth = s\<lparr>ds_QueueDepth := Some depth\<rparr>"

definition MarkFailed :: "time \<Rightarrow> ComponentDrainStatus \<Rightarrow> string \<Rightarrow> ComponentDrainStatus result" where
  "MarkFailed now s reason = TransitionTo now (Some s) DrainPhaseFailed reason"

definition MarkComplete :: "time \<Rightarrow> ComponentDrainStatus \<Rightarrow> ComponentDrainStatus result" where
  "MarkComplete now s = TransitionTo now (Some s) DrainPhaseComplete ''Drain completed successfully''"

definition StartRollback :: "time \<Rightarrow> ComponentDrainStatus \<Rightarrow> string \<Rightarrow> ComponentDrainStatus result" where
  "StartRollback now s reason = TransitionTo now (Some s) DrainPhaseRollingBack reason"

definition ScheduleRetry :: "ComponentDrainStatus \<Rightarrow> time \<Rightarrow> ComponentDrainStatus" where
  "ScheduleRetry s retryTime =
     s\<lparr>ds_NextRetryTime := Some retryTime, ds_AttemptCount := ds_AttemptCount s + 1\<rparr>"

definition IsRetryDue :: "time \<Rightarrow> ComponentDrainStatus \<Rightarrow> bool" where
  "IsRetryDue now s = (case ds_NextRetryTime s of None \<Rightarrow> False | Some t \<Rightarrow> now > t)"

definition CanRetry :: "ComponentDrainStatus \<Rightarrow> i32 \<Rightarrow> bool" where
  "CanRetry s maxAttempts = (sint (ds_AttemptCount s) < sint maxAttempts)"

definition ResetForRetry :: "time \<Rightarrow> ComponentDrainStatus \<Rightarrow> ComponentDrainStatus result" where
  "ResetForRetry now s =
     (if ds_Phase s \<noteq> DrainPhaseRollingBack then
        Inl (errorf (''cannot reset for retry: current phase is '' @ phase_text (ds_Phase s) @
          '', expected RollingBack''))
      else Inr (s\<lparr>ds_Phase := DrainPhasePending, ds_LastTransitionTime := Some now, ds_Progress := 0,
        ds_NextRetryTime := None,
        ds_Message := ''Retrying drain (attempt '' @ show_i32 (ds_AttemptCount s) @ '')''\<rparr>))"

definition IsDrainInProgress :: "ComponentDrainStatus option \<Rightarrow> bool" where
  "IsDrainInProgress status = (case status of None \<Rightarrow> False
     | Some s \<Rightarrow> ds_Phase s \<in> {DrainPhasePending, DrainPhaseDraining, DrainPhaseVerifying, DrainPhaseRollingBack})"

definition IsDrainFailed :: "ComponentDrainStatus option \<Rightarrow> bool" where
  "IsDrainFailed status = (case status of None \<Rightarrow> False | Some s \<Rightarrow> ds_Phase s = DrainPhaseFailed)"

definition IsDrainComplete :: "ComponentDrainStatus option \<Rightarrow> bool" where
  "IsDrainComplete status = (case status of None \<Rightarrow> False | Some s \<Rightarrow> ds_Phase s = DrainPhaseComplete)"

definition GetDrainDuration :: "time \<Rightarrow> ComponentDrainStatus option \<Rightarrow> duration" where
  "GetDrainDuration now status = (case status of None \<Rightarrow> 0
     | Some s \<Rightarrow> (case ds_StartTime s of None \<Rightarrow> 0 | Some t \<Rightarrow> time_sub now t))"

definition IsTimeout :: "time \<Rightarrow> ComponentDrainStatus option \<Rightarrow> duration \<Rightarrow> bool" where
  "IsTimeout now status timeout = (case status of None \<Rightarrow> False
     | Some s \<Rightarrow> (case ds_StartTime s of None \<Rightarrow> False
        | Some t \<Rightarrow> sint (time_sub now t) > sint timeout))"

definition ResetStatus :: "time \<Rightarrow> ComponentDrainStatus option \<Rightarrow> ComponentDrainStatus option" where
  "ResetStatus now status = (case status of None \<Rightarrow> None
     | Some s \<Rightarrow> Some (clear_drain_fields
         (s\<lparr>ds_Phase := DrainPhaseIdle, ds_LastTransitionTime := Some now, ds_Message := ''Reset to idle''\<rparr>)))"

subsection \<open>The abstract life cycle\<close>

inductive drain_edge :: "DrainPhase \<Rightarrow> DrainPhase \<Rightarrow> bool" where
  detect: "drain_edge DrainPhaseIdle DrainPhasePending"
| begin_drain: "drain_edge DrainPhasePending DrainPhaseDraining"
| cancel: "drain_edge DrainPhasePending DrainPhaseIdle"
| drained: "drain_edge DrainPhaseDraining DrainPhaseVerifying"
| verified: "drain_edge DrainPhaseVerifying DrainPhaseComplete"
| fail: "p \<in> {DrainPhaseDraining, DrainPhaseVerifying, DrainPhaseRollingBack} \<Longrightarrow> drain_edge p DrainPhaseFailed"
| rollback: "drain_edge DrainPhaseFailed DrainPhaseRollingBack"
| retry: "drain_edge DrainPhaseRollingBack DrainPhasePending"
| to_idle: "p \<in> {DrainPhaseComplete, DrainPhaseFailed, DrainPhaseRollingBack} \<Longrightarrow> drain_edge p DrainPhaseIdle"

inductive_simps drain_edge_simps [simp]:
  "drain_edge p DrainPhaseIdle" "drain_edge p DrainPhasePending" "drain_edge p DrainPhaseDraining"
  "drain_edge p DrainPhaseVerifying" "drain_edge p DrainPhaseComplete" "drain_edge p DrainPhaseFailed"
  "drain_edge p DrainPhaseRollingBack" "drain_edge p (DrainPhaseText t)"

text \<open>The phase a status is in: an unwritten status counts as idle.\<close>

definition eff_phase :: "ComponentDrainStatus \<Rightarrow> DrainPhase" where
  "eff_phase s = (if ds_Phase s = DrainPhaseText [] then DrainPhaseIdle else ds_Phase s)"

abbreviation phase_path :: "DrainPhase \<Rightarrow> DrainPhase \<Rightarrow> bool" where
  "phase_path \<equiv> drain_edge\<^sup>*\<^sup>*"

subsection \<open>Sequences of operations\<close>

text \<open>
  One call on a status: which operation, with its arguments. An operation that returns an
  error leaves the status unchanged, whatever its caller does with the error.
\<close>

datatype drain_op = OpTransition DrainPhase string | OpStart string i32 i32
  | OpProgress i32 string | OpShards i32 | OpQueue i64 | OpFail string | OpComplete
  | OpRollback string | OpSchedule time | OpResetForRetry | OpReset

definition keep_on_error :: "'a \<Rightarrow> 'a result \<Rightarrow> 'a" where
  "keep_on_error s r = (case r of Inl e \<Rightarrow> s | Inr s' \<Rightarrow> s')"

fun run_op :: "time \<Rightarrow> drain_op \<Rightarrow> ComponentDrainStatus \<Rightarrow> ComponentDrainStatus" where
  "run_op now (OpTransition to msg) s = keep_on_error s (TransitionTo now (Some s) to msg)"
| "run_op now (OpStart pod prev target) s = keep_on_error s (StartDrain now s pod prev target)"
| "run_op now (OpProgress p msg) s = UpdateProgress s p msg"
| "run_op now (OpShards c) s = UpdateShardCount s c"
| "run_op now (OpQueue q) s = UpdateQueueDepth s q"
| "run_op now (OpFail r) s = keep_on_error s (MarkFailed now s r)"
| "run_op now OpComplete s = keep_on_error s (MarkComplete now s)"
| "run_op now (OpRollback r) s = keep_on_error s (StartRollback now s r)"
| "run_op now (OpSchedule t) s = ScheduleRetry s t"
| "run_op now OpResetForRetry s = keep_on_error s (ResetForRetry now s)"
| "run_op now OpReset s = the (ResetStatus now (Some s))"

inductive drain_reach :: "ComponentDrainStatus \<Rightarrow> bool" where
  initial: "drain_reach InitializeDrainStatus"
| unwritten: "drain_reach zero_status"
| step: "drain_reach s \<Longrightarrow> drain_reach (run_op now op s)"

text \<open>
  What every reachable status satisfies: the progress is a percentage; outside a drain no
  pod, replica count or start time is recorded; inside one the start time is known; the
  phase is one of the seven constants (or the status was never written).
\<close>

definition status_inv :: "ComponentDrainStatus \<Rightarrow> bool" where
  "status_inv s \<longleftrightarrow>
     0 \<le> sint (ds_Progress s) \<and> sint (ds_Progress s) \<le> 100 \<and>
     (\<forall>t. ds_Phase s = DrainPhaseText t \<longrightarrow> t = []) \<and>
     (if eff_phase s = DrainPhaseIdle
      then ds_TargetPod s = [] \<and> ds_PreviousReplicas s = None \<and> ds_TargetReplicas s = None \<and>
           ds_StartTime s = None
      else ds_StartTime s \<noteq> None)"

subsection \<open>Lemmas\<close>

lemma IsValidTransition_edge: "IsValidTransition p q \<longleftrightarrow> drain_edge p q"
  by (cases p; cases q) (simp_all add: IsValidTransition_def)

lemma eff_phase_id [simp]: "ds_Phase s = p \<Longrightarrow> p \<noteq> DrainPhaseText [] \<Longrightarrow> eff_phase s = p"
  by (simp add: eff_phase_def)

lemma clear_drain_fields_sel [simp]:
  "ds_Phase (clear_drain_fields s) = ds_Phase s" "ds_TargetPod (clear_drain_fields s) = []"
  "ds_PreviousReplicas (clear_drain_fields s) = None" "ds_TargetReplicas (clear_drain_fields s) = None"
  "ds_Progress (clear_drain_fields s) = 0" "ds_StartTime (clear_drain_fields s) = None"
  "ds_AttemptCount (clear_drain_fields s) = 0" "ds_NextRetryTime (clear_drain_fields s) = None"
  "ds_ShardCount (clear_drain_fields s) = None" "ds_QueueDepth (clear_drain_fields s) = None"
  "ds_Message (clear_drain_fields s) = ds_Message s"
  "ds_LastTransitionTime (clear_drain_fields s) = ds_LastTransitionTime s"
  by (simp_all add: clear_drain_fields_def)

lemma TransitionTo_Some:
  "TransitionTo now (Some s) to msg =
     (if drain_edge (eff_phase s) to then
        let s' = s\<lparr>ds_Phase := to, ds_LastTransitionTime := Some now, ds_Message := msg\<rparr> in
        Inr (case to of DrainPhaseIdle \<Rightarrow> clear_drain_fields s'
           | DrainPhasePending \<Rightarrow> s'\<lparr>ds_StartTime := Some now, ds_Progress := 0\<rparr>
           | DrainPhaseComplete \<Rightarrow> s'\<lparr>ds_Progress := 100\<rparr> | _ \<Rightarrow> s')
      else Inl (errorf (''invalid transition from '' @ phase_text (eff_phase s) @ '' to '' @ phase_text to)))"
  by (simp add: TransitionTo_def IsValidTransition_edge eff_phase_def Let_def)

lemma TransitionTo_InrD:
  assumes "TransitionTo now (Some s) to msg = Inr s'"
  shows "drain_edge (eff_phase s) to" and "ds_Phase s' = to" and "ds_Message s' = msg"
    and "ds_LastTransitionTime s' = Some now"
  using assms by (auto simp: TransitionTo_Some Let_def split: if_splits DrainPhase.splits)

lemma phase_op_defs [drain_ops]:
  "MarkFailed now s r = TransitionTo now (Some s) DrainPhaseFailed r"
  "MarkComplete now s = TransitionTo now (Some s) DrainPhaseComplete ''Drain completed successfully''"
  "StartRollback now s r = TransitionTo now (Some s) DrainPhaseRollingBack r"
  by (simp_all add: MarkFailed_def MarkComplete_def StartRollback_def)

lemma clamp_percent_bounds: "0 \<le> sint (clamp_percent p) \<and> sint (clamp_percent p) \<le> 100"
  by (simp add: clamp_percent_def Let_def)

lemma clamp_percent_id: "0 \<le> sint p \<Longrightarrow> sint p \<le> 100 \<Longrightarrow> clamp_percent p = p"
  by (simp add: clamp_percent_def Let_def)

lemma update_sel [simp]:
  "ds_Phase (UpdateProgress s p m) = ds_Phase s" "ds_Phase (UpdateShardCount s c) = ds_Phase s"
  "ds_Phase (UpdateQueueDepth s q) = ds_Phase s"
  "ds_Progress (UpdateProgress s p m) = clamp_percent p" "ds_Progress (UpdateShardCount s c) = ds_Progress s"
  "ds_Progress (UpdateQueueDepth s q) = ds_Progress s"
  by (simp_all add: UpdateProgress_def UpdateShardCount_def UpdateQueueDepth_def)

lemma update_status_inv:
  "status_inv s \<Longrightarrow> status_inv (UpdateProgress s p m)" "status_inv s \<Longrightarrow> status_inv (UpdateShardCount s c)"
  "status_inv s \<Longrightarrow> status_inv (UpdateQueueDepth s q)" "status_inv s \<Longrightarrow> status_inv (ScheduleRetry s t)"
  by (auto simp: status_inv_def eff_phase_def UpdateProgress_def UpdateShardCount_def UpdateQueueDepth_def
      ScheduleRetry_def clamp_percent_bounds split: if_splits)

lemma TransitionTo_status_inv:
  assumes "status_inv s" and "TransitionTo now (Some s) to msg = Inr s'"
  shows "status_inv s'"
  using assms
  by (cases to) (auto simp: TransitionTo_Some Let_def status_inv_def eff_phase_def split: if_splits)

lemma StartDrain_status_inv: "status_inv s \<Longrightarrow> StartDrain now s pod a b = Inr s' \<Longrightarrow> status_inv s'"
  by (auto simp: StartDrain_def status_inv_def eff_phase_def split: if_splits)

lemma ResetForRetry_status_inv: "status_inv s \<Longrightarrow> ResetForRetry now s = Inr s' \<Longrightarrow> status_inv s'"
  by (auto simp: ResetForRetry_def status_inv_def eff_phase_def split: if_splits)

lemma ResetStatus_status_inv: "status_inv (the (ResetStatus now (Some s)))"
  by (simp add: ResetStatus_def status_inv_def eff_phase_def)

lemma keep_on_error_inv:
  "P s \<Longrightarrow> (\<And>s'. r = Inr s' \<Longrightarrow> P s') \<Longrightarrow> P (keep_on_error s r)"
  by (auto simp: keep_on_error_def split: sum.splits)

lemma kept_status_inv:
  assumes "status_inv s"
  shows "status_inv (keep_on_error s (TransitionTo now (Some s) q m))"
    and "status_inv (keep_on_error s (StartDrain now s pod a b))"
    and "status_inv (keep_on_error s (ResetForRetry now s))"
  by (rule keep_on_error_inv [where P = status_inv], rule assms,
      erule TransitionTo_status_inv [OF assms] StartDrain_status_inv [OF assms]
        ResetForRetry_status_inv [OF assms])+

lemma run_op_status_inv: "status_inv s \<Longrightarrow> status_inv (run_op now op s)"
  by (cases op) (simp_all add: drain_ops update_status_inv kept_status_inv
      ResetStatus_status_inv)

text \<open>Every call but a forced reset moves the phase along an edge, or leaves it.\<close>

lemma kept_transition_edge:
  "eff_phase (keep_on_error s (TransitionTo now (Some s) q m)) = eff_phase s \<or>
   drain_edge (eff_phase s) (eff_phase (keep_on_error s (TransitionTo now (Some s) q m)))"
proof (cases "TransitionTo now (Some s) q m")
  case (Inl e)
  then show ?thesis by (simp add: keep_on_error_def)
next
  case (Inr s')
  then have "drain_edge (eff_phase s) q" "ds_Phase s' = q"
    by (simp_all add: TransitionTo_InrD)
  with Inr show ?thesis
    by (cases q) (simp_all add: keep_on_error_def)
qed

lemma kept_other_edge:
  "eff_phase (keep_on_error s (StartDrain now s pod a b)) = eff_phase s \<or>
   drain_edge (eff_phase s) (eff_phase (keep_on_error s (StartDrain now s pod a b)))"
  "eff_phase (keep_on_error s (ResetForRetry now s)) = eff_phase s \<or>
   drain_edge (eff_phase s) (eff_phase (keep_on_error s (ResetForRetry now s)))"
  by (simp_all add: StartDrain_def ResetForRetry_def keep_on_error_def)

lemma update_eff_phase [simp]:
  "eff_phase (UpdateProgress s p m) = eff_phase s" "eff_phase (UpdateShardCount s c) = eff_phase s"
  "eff_phase (UpdateQueueDepth s q) = eff_phase s" "eff_phase (ScheduleRetry s t) = eff_phase s"
  by (simp_all add: eff_phase_def ScheduleRetry_def)

lemma run_op_edge:
  "op \<noteq> OpReset \<Longrightarrow>
    eff_phase (run_op now op s) = eff_phase s \<or> drain_edge (eff_phase s) (eff_phase (run_op now op s))"
  by (cases op) (simp_all add: drain_ops kept_transition_edge kept_other_edge)

lemma path_to_idle: "ValidTransitions p \<noteq> None \<Longrightarrow> phase_path p DrainPhaseIdle"
proof -
  have idle: "phase_path q DrainPhaseIdle" if "drain_edge q r" "phase_path r DrainPhaseIdle" for q r
    using that by (rule converse_rtranclp_into_rtranclp)
  have "phase_path DrainPhaseFailed DrainPhaseIdle"
    by (rule idle [of _ DrainPhaseIdle]) simp_all
  then show "ValidTransitions p \<noteq> None \<Longrightarrow> phase_path p DrainPhaseIdle"
    by (cases p) (auto intro: idle [of _ DrainPhaseIdle] idle [of _ DrainPhaseFailed])
qed

subsection \<open>Properties\<close>

text \<open>
  C10: the transition table is exactly the documented life cycle: \<open>TransitionTo\<close> succeeds
  precisely on the edges of the life cycle (an unwritten phase counting as idle), and then
  the new status is in the requested phase, carries the message and the transition time,
  is cleared when it becomes idle, restarts the clock and the progress when it becomes
  pending, and reports 100 percent when it becomes complete.
\<close>

theorem TransitionTo_life_cycle:
  "((\<exists>s'. TransitionTo now (Some s) to msg = Inr s') \<longleftrightarrow> drain_edge (eff_phase s) to) \<and>
   (\<forall>s'. TransitionTo now (Some s) to msg = Inr s' \<longrightarrow>
      ds_Phase s' = to \<and> ds_Message s' = msg \<and> ds_LastTransitionTime s' = Some now \<and>
      (to = DrainPhaseIdle \<longrightarrow> s' = InitializeDrainStatus\<lparr>ds_LastTransitionTime := Some now, ds_Message := msg\<rparr>) \<and>
      (to = DrainPhasePending \<longrightarrow> ds_StartTime s' = Some now \<and> ds_Progress s' = 0) \<and>
      (to = DrainPhaseComplete \<longrightarrow> ds_Progress s' = 100))"
  by (auto simp: TransitionTo_Some Let_def InitializeDrainStatus_def zero_status_def
      clear_drain_fields_def split: DrainPhase.splits)

theorem TransitionTo_life_cycle_witness:
  "TransitionTo 7 (Some InitializeDrainStatus) DrainPhasePending ''go''
     = Inr (InitializeDrainStatus\<lparr>ds_Phase := DrainPhasePending, ds_LastTransitionTime := Some 7,
         ds_Message := ''go'', ds_StartTime := Some 7\<rparr>) \<and>
   (\<exists>s'. TransitionTo 7 (Some InitializeDrainStatus) DrainPhasePending ''go'' = Inr s' \<and>
      ds_StartTime s' = Some 7)"
proof
  show eq: "TransitionTo 7 (Some InitializeDrainStatus) DrainPhasePending ''go''
     = Inr (InitializeDrainStatus\<lparr>ds_Phase := DrainPhasePending, ds_LastTransitionTime := Some 7,
         ds_Message := ''go'', ds_StartTime := Some 7\<rparr>)"
    by (simp add: TransitionTo_Some InitializeDrainStatus_def zero_status_def Let_def)
  show "\<exists>s'. TransitionTo 7 (Some InitializeDrainStatus) DrainPhasePending ''go'' = Inr s' \<and>
      ds_StartTime s' = Some 7"
    using TransitionTo_life_cycle [of 7 InitializeDrainStatus DrainPhasePending "''go''"] eq by blast
qed

text \<open>
  C11: whatever sequence of calls is made on a drain status, its progress stays a percentage,
  an idle status holds no drain data and a status in a drain has a start time.
\<close>

theorem drain_reach_status_inv: "drain_reach s \<Longrightarrow> status_inv s"
proof (induction rule: drain_reach.induct)
  case (step s now op)
  then show ?case by (simp add: run_op_status_inv)
qed (simp_all add: status_inv_def InitializeDrainStatus_def zero_status_def eff_phase_def)

theorem drain_reach_status_inv_witness:
  "status_inv (run_op 5 (OpProgress 250 ''x'') (run_op 3 (OpStart ''idx-2'' 3 2) InitializeDrainStatus))"
  by (intro drain_reach_status_inv drain_reach.intros)

text \<open>
  a call other than the forced reset either leaves the phase alone or follows one edge
  of the life cycle, and from every phase the life cycle leads back to idle, so no phase
  is a dead end.
\<close>

theorem run_op_follows_life_cycle:
  "(op \<noteq> OpReset \<longrightarrow> drain_edge\<^sup>=\<^sup>= (eff_phase s) (eff_phase (run_op now op s))) \<and>
   (ValidTransitions p \<noteq> None \<longrightarrow> phase_path p DrainPhaseIdle)"
  using run_op_edge [of op now s] path_to_idle [of p] by auto

theorem run_op_follows_life_cycle_witness:
  "drain_edge\<^sup>=\<^sup>= DrainPhaseIdle (eff_phase (run_op 3 (OpStart ''idx-2'' 3 2) InitializeDrainStatus)) \<and>
   phase_path DrainPhaseDraining DrainPhaseIdle"
  using run_op_follows_life_cycle [of "OpStart ''idx-2'' 3 2" InitializeDrainStatus 3 DrainPhaseDraining]
  by (simp add: eff_phase_def InitializeDrainStatus_def)

end
