(* ===== verification/ClusterTypes.thy ===== *)
theory ClusterTypes
  imports DrainState
begin

section \<open>The WazuhCluster resource (api/v1)\<close>

text \<open>
  The custom resource as far as the modelled code reads and writes it: the specification of
  the indexer (with its node pools), the manager and the dashboard, the drain configuration,
  and the status fields for drains, certificate rollouts and rolling restarts. A pointer
  field is an option; a \<open>metav1.Time\<close> that may be zero is an option too.
\<close>

record IndexerNodePoolSpec =
  pool_Name :: string
  pool_Replicas :: i32
  pool_Roles :: "string list"
  pool_StorageSize :: string

text \<open>The reference to a Gateway and the reference to a CA secret are the names in them.\<close>

record GatewayAPISpec =
  gw_Enabled :: bool
  gw_GatewayRef :: "string option"

record IngressSpec =
  ing_Enabled :: bool

record LogRotationSpec =
  lr_Enabled :: bool
  lr_RetentionDays :: "i32 option"

record CustomCertsConfig =
  cc_CASecretRef :: "string option"

record MaintenanceWindow =
  mw_Schedule :: string
  mw_Duration :: string
  mw_Timezone :: string

record CAMaintenanceConfig =
  cam_AutoRestart :: bool
  cam_MaintenanceWindows :: "MaintenanceWindow list"
  cam_MaxWaitDuration :: string

record CertificateConfig =
  ccf_Country :: string
  ccf_State :: string
  ccf_Locality :: string
  ccf_Organization :: string
  ccf_OrganizationalUnit :: string
  ccf_IndexerValidity :: string
  ccf_IndexerRenewalThreshold :: string
  ccf_CAValidity :: string
  ccf_CARenewalThreshold :: string
  ccf_AdminValidity :: string
  ccf_AdminRenewalThreshold :: string
  ccf_DashboardValidity :: string
  ccf_DashboardRenewalThreshold :: string
  ccf_FilebeatValidity :: string
  ccf_FilebeatRenewalThreshold :: string
  ccf_KeyAlgorithm :: string
  ccf_ECDSACurve :: string

record HotReloadConfig =
  hrc_Enabled :: bool
  hrc_ForceAPIReload :: bool

record TLSConfig =
  tls_Enabled :: "bool option"
  tls_CertConfig :: "CertificateConfig option"
  tls_HotReload :: "HotReloadConfig option"
  tls_CustomCerts :: "CustomCertsConfig option"
  tls_CAMaintenance :: "CAMaintenanceConfig option"

record PodDisruptionBudgetSpec =
  pds_Enabled :: bool
  pds_MaxUnavailable :: "i32 option"
  pds_MinAvailable :: "i32 option"

record AntiAffinitySpec =
  aas_Enabled :: bool
  aas_TopologyKey :: string
  aas_Type :: string
  aas_Weight :: i32

record WazuhIndexerClusterSpec =
  ics_Replicas :: i32
  ics_NodePools :: "IndexerNodePoolSpec list"
  ics_StorageSize :: string
  ics_GatewayAPI :: "GatewayAPISpec option"
  ics_Ingress :: "IngressSpec option"
  ics_PodDisruptionBudget :: "PodDisruptionBudgetSpec option"
  ics_AntiAffinity :: "AntiAffinitySpec option"

record CredentialsSecretRef =
  csr_SecretName :: string
  csr_ExternalSecretRef :: "string option"
  csr_UsernameKey :: string
  csr_PasswordKey :: string

text \<open>A reference to a key of a secret is the names of the secret and of the key.\<close>

record OSSECAuthSpec =
  auth_Disabled :: "bool option"
  auth_UsePassword :: "bool option"
  auth_EnabledOnMasterOnly :: "bool option"
  auth_PasswordSecretRef :: "(string \<times> string) option"

record WazuhManagerClusterSpec =
  mcs_WorkerReplicas :: "i32 option"
  mcs_APICredentials :: "CredentialsSecretRef option"
  mcs_LogRotation :: "LogRotationSpec option"
  mcs_MasterGatewayAPI :: "GatewayAPISpec option"
  mcs_MasterIngress :: "IngressSpec option"
  mcs_WorkersGatewayAPI :: "GatewayAPISpec option"
  mcs_WorkersIngress :: "IngressSpec option"
  mcs_MasterStorageSize :: string
  mcs_WorkersStorageSize :: string
  mcs_Auth :: "OSSECAuthSpec option"
  mcs_AuthdPasswordSecretRef :: "(string \<times> string) option"
  mcs_PodDisruptionBudget :: "PodDisruptionBudgetSpec option"
  mcs_AntiAffinity :: "AntiAffinitySpec option"

record WazuhDashboardClusterSpec =
  dcs_Replicas :: i32
  dcs_GatewayAPI :: "GatewayAPISpec option"
  dcs_Ingress :: "IngressSpec option"
  dcs_PodDisruptionBudget :: "PodDisruptionBudgetSpec option"

record ComponentStatus =
  cst_Phase :: string
  cst_ReadyReplicas :: i32
  cst_Replicas :: i32
  cst_DesiredReplicas :: i32
  cst_TopologyMode :: string

record ComponentRollingRestart =
  crr_Phase :: string
  crr_TotalPods :: i32
  crr_UpdatedPods :: i32
  crr_CurrentPod :: string
  crr_Message :: string
  crr_LastTransitionTime :: "time option"
  crr_StartTime :: "time option"

record RollingRestartStatus =
  rrs_Indexer :: "ComponentRollingRestart option"
  rrs_ManagerMaster :: "ComponentRollingRestart option"
  rrs_ManagerWorker :: "ComponentRollingRestart option"
  rrs_InProgress :: bool

record PendingCertRollout =
  pcr_Component :: string
  pcr_WorkloadName :: string
  pcr_WorkloadType :: string
  pcr_StartTime :: "time option"
  pcr_Reason :: string
  pcr_Ready :: bool

record CertificateRolloutStatus =
  crs_PendingRollouts :: "PendingCertRollout list"
  crs_LastRolloutTime :: "time option"
  crs_RolloutsInProgress :: bool

record Condition =
  cond_Type :: string
  cond_Status :: bool
  cond_Reason :: string
  cond_Message :: string
  cond_LastTransitionTime :: time
  cond_ObservedGeneration :: i64

record SecurityStatus =
  sec_APICredentialsHash :: string
  sec_AuthdCredentialsHash :: string

datatype ExpansionPhase = ExpansionPhasePending | ExpansionPhaseInProgress | ExpansionPhaseCompleted | ExpansionPhaseFailed

record ComponentExpansionStatus =
  ces_Phase :: ExpansionPhase
  ces_RequestedSize :: string
  ces_CurrentSize :: string
  ces_Message :: string
  ces_LastTransitionTime :: time
  ces_PVCsExpanded :: "string list"
  ces_PVCsPending :: "string list"

record VolumeExpansionStatus =
  ves_IndexerExpansion :: "ComponentExpansionStatus option"
  ves_ManagerMasterExpansion :: "ComponentExpansionStatus option"
  ves_ManagerWorkersExpansion :: "ComponentExpansionStatus option"

text \<open>
  A reference to a separate custom resource is its name and namespace; \<open>wc_Deleting\<close> tells
  whether the deletion timestamp is set.
\<close>

record WazuhCluster =
  wc_Name :: string
  wc_Namespace :: string
  wc_Generation :: i64
  wc_Deleting :: bool
  wc_Finalizers :: "string list"
  wc_Version :: string
  wc_TLS :: "TLSConfig option"
  wc_Indexer :: "WazuhIndexerClusterSpec option"
  wc_Manager :: "WazuhManagerClusterSpec option"
  wc_Dashboard :: "WazuhDashboardClusterSpec option"
  wc_IndexerRef :: "(string \<times> string) option"
  wc_ManagerRef :: "(string \<times> string) option"
  wc_DashboardRef :: "(string \<times> string) option"
  wc_Drain :: "DrainConfiguration option"
  wc_stPhase :: string
  wc_stVersion :: string
  wc_stConditions :: "Condition list"
  wc_stDrain :: "DrainStatus option"
  wc_stIndexer :: "ComponentStatus option"
  wc_stManager :: "ComponentStatus option"
  wc_stDashboard :: "ComponentStatus option"
  wc_stSecurity :: "SecurityStatus option"
  wc_stVolumeExpansion :: "VolumeExpansionStatus option"
  wc_stCertificateRollouts :: "CertificateRolloutStatus option"
  wc_stRollingRestart :: "RollingRestartStatus option"
  wc_stObservedGeneration :: i64
  wc_stLastUpdateTime :: "time option"

text \<open>Specifications with only the given fields set, for examples.\<close>

definition plain_indexer :: "i32 \<Rightarrow> IndexerNodePoolSpec list \<Rightarrow> WazuhIndexerClusterSpec" where
  "plain_indexer n pools = \<lparr>ics_Replicas = n, ics_NodePools = pools, ics_StorageSize = [], ics_GatewayAPI = None, ics_Ingress = None,
     ics_PodDisruptionBudget = None, ics_AntiAffinity = None\<rparr>"

definition plain_manager :: "i32 option \<Rightarrow> WazuhManagerClusterSpec" where
  "plain_manager n = \<lparr>mcs_WorkerReplicas = n, mcs_APICredentials = None, mcs_LogRotation = None,
     mcs_MasterGatewayAPI = None, mcs_MasterIngress = None, mcs_WorkersGatewayAPI = None, mcs_WorkersIngress = None,
     mcs_MasterStorageSize = [], mcs_WorkersStorageSize = [], mcs_Auth = None, mcs_AuthdPasswordSecretRef = None,
     mcs_PodDisruptionBudget = None, mcs_AntiAffinity = None\<rparr>"

definition empty_cluster :: WazuhCluster where
  "empty_cluster = \<lparr>wc_Name = ''wz'', wc_Namespace = ''ns'', wc_Generation = 1, wc_Deleting = False, wc_Finalizers = [],
     wc_Version = ''4.14.1'', wc_TLS = None, wc_Indexer = None, wc_Manager = None, wc_Dashboard = None, wc_IndexerRef = None,
     wc_ManagerRef = None, wc_DashboardRef = None, wc_Drain = None, wc_stPhase = [], wc_stVersion = [], wc_stConditions = [],
     wc_stDrain = None, wc_stIndexer = None, wc_stManager = None, wc_stDashboard = None, wc_stSecurity = None,
     wc_stVolumeExpansion = None, wc_stCertificateRollouts = None, wc_stRollingRestart = None, wc_stObservedGeneration = 0,
     wc_stLastUpdateTime = None\<rparr>"

lemma plain_simps [simp]:
  "ics_Replicas (plain_indexer n pools) = n" "ics_NodePools (plain_indexer n pools) = pools"
  "mcs_WorkerReplicas (plain_manager k) = k" "mcs_APICredentials (plain_manager k) = None"
  by (simp_all add: plain_indexer_def plain_manager_def)

subsection \<open>Methods of the specification types\<close>

definition GetReplicas :: "WazuhManagerClusterSpec \<Rightarrow> i32" where
  "GetReplicas m = (case mcs_WorkerReplicas m of Some n \<Rightarrow> n | None \<Rightarrow> 2)"

definition Manager_GetTotalReplicas :: "WazuhManagerClusterSpec option \<Rightarrow> i32" where
  "Manager_GetTotalReplicas s = (case s of None \<Rightarrow> 0 | Some m \<Rightarrow> 1 + GetReplicas m)"

definition Manager_IsHA :: "WazuhManagerClusterSpec option \<Rightarrow> bool" where
  "Manager_IsHA s = (case s of None \<Rightarrow> False | Some m \<Rightarrow> sint (Manager_GetTotalReplicas s) \<ge> 3)"

definition IsInlineMode :: "WazuhCluster \<Rightarrow> bool" where
  "IsInlineMode c = (wc_Manager c \<noteq> None \<or> wc_Indexer c \<noteq> None \<or> wc_Dashboard c \<noteq> None)"

definition IsReferenceMode :: "WazuhCluster \<Rightarrow> bool" where
  "IsReferenceMode c = (wc_ManagerRef c \<noteq> None \<or> wc_IndexerRef c \<noteq> None \<or> wc_DashboardRef c \<noteq> None)"

definition IsMixedMode :: "WazuhCluster \<Rightarrow> bool" where
  "IsMixedMode c = (IsInlineMode c \<and> IsReferenceMode c)"

definition GetSecretName :: "CredentialsSecretRef option \<Rightarrow> string" where
  "GetSecretName c = (case c of None \<Rightarrow> []
     | Some r \<Rightarrow> (case csr_ExternalSecretRef r of Some n \<Rightarrow> n | None \<Rightarrow> csr_SecretName r))"

definition IsAdvancedMode :: "WazuhIndexerClusterSpec \<Rightarrow> bool" where
  "IsAdvancedMode s = (length (ics_NodePools s) > 0)"

definition IsSimpleMode :: "WazuhIndexerClusterSpec \<Rightarrow> bool" where
  "IsSimpleMode s = (sint (ics_Replicas s) > 0 \<and> length (ics_NodePools s) = 0)"

text \<open>The \<open>int32\<close> sum of the replicas of some pools, in the order of the list.\<close>

definition sum_replicas :: "IndexerNodePoolSpec list \<Rightarrow> i32" where
  "sum_replicas pools = foldl (\<lambda>n pool. n + pool_Replicas pool) 0 pools"

definition Indexer_GetTotalReplicas :: "WazuhIndexerClusterSpec \<Rightarrow> i32" where
  "Indexer_GetTotalReplicas s =
     (if IsAdvancedMode s then sum_replicas (ics_NodePools s) else ics_Replicas s)"

definition Indexer_IsHA :: "WazuhIndexerClusterSpec option \<Rightarrow> bool" where
  "Indexer_IsHA s = (case s of None \<Rightarrow> False | Some i \<Rightarrow> sint (Indexer_GetTotalReplicas i) \<ge> 3)"

definition Pool_HasRole :: "IndexerNodePoolSpec \<Rightarrow> string \<Rightarrow> bool" where
  "Pool_HasRole p role = (role \<in> set (pool_Roles p))"

definition Pool_HasClusterManagerRole :: "IndexerNodePoolSpec \<Rightarrow> bool" where
  "Pool_HasClusterManagerRole p = Pool_HasRole p ''cluster_manager''"

definition Pool_HasDataRole :: "IndexerNodePoolSpec \<Rightarrow> bool" where
  "Pool_HasDataRole p = Pool_HasRole p ''data''"

definition Pool_IsCoordinatingOnly :: "IndexerNodePoolSpec \<Rightarrow> bool" where
  "Pool_IsCoordinatingOnly p = (if pool_Roles p = [] then True
     else length (pool_Roles p) = 1 \<and> pool_Roles p ! 0 = ''coordinating_only'')"

definition GetRolesAsStrings :: "IndexerNodePoolSpec \<Rightarrow> string list" where
  "GetRolesAsStrings p = pool_Roles p"

definition GetClusterManagerPoolNames :: "WazuhIndexerClusterSpec \<Rightarrow> string list" where
  "GetClusterManagerPoolNames s = map pool_Name (filter Pool_HasClusterManagerRole (ics_NodePools s))"

definition GetDataPoolNames :: "WazuhIndexerClusterSpec \<Rightarrow> string list" where
  "GetDataPoolNames s = map pool_Name (filter Pool_HasDataRole (ics_NodePools s))"

definition CountClusterManagerNodes :: "WazuhIndexerClusterSpec \<Rightarrow> i32" where
  "CountClusterManagerNodes s = sum_replicas (filter Pool_HasClusterManagerRole (ics_NodePools s))"

definition CountDataNodes :: "WazuhIndexerClusterSpec \<Rightarrow> i32" where
  "CountDataNodes s = sum_replicas (filter Pool_HasDataRole (ics_NodePools s))"

definition GetNodePoolByName :: "WazuhIndexerClusterSpec \<Rightarrow> string \<Rightarrow> IndexerNodePoolSpec option" where
  "GetNodePoolByName s name = find (\<lambda>p. pool_Name p = name) (ics_NodePools s)"

text \<open>The configured drain of one component, with \<open>Enabled\<close> set to true.\<close>

definition indexer_drain_config :: "WazuhCluster \<Rightarrow> IndexerDrainConfig option" where
  "indexer_drain_config c = (case wc_Drain c of None \<Rightarrow> None | Some d \<Rightarrow> dc_Indexer d)"

definition manager_drain_config :: "WazuhCluster \<Rightarrow> ManagerDrainConfig option" where
  "manager_drain_config c = (case wc_Drain c of None \<Rightarrow> None | Some d \<Rightarrow> dc_Manager d)"

definition indexer_drain_enabled :: "WazuhCluster \<Rightarrow> bool" where
  "indexer_drain_enabled c = (case indexer_drain_config c of None \<Rightarrow> False
     | Some cfg \<Rightarrow> idc_Enabled cfg = Some True)"

definition manager_drain_enabled :: "WazuhCluster \<Rightarrow> bool" where
  "manager_drain_enabled c = (case manager_drain_config c of None \<Rightarrow> False
     | Some cfg \<Rightarrow> mdc_Enabled cfg = Some True)"

text \<open>The drain status of one component, and its update.\<close>

definition indexer_drain :: "WazuhCluster \<Rightarrow> ComponentDrainStatus option" where
  "indexer_drain c = (case wc_stDrain c of None \<Rightarrow> None | Some d \<Rightarrow> dst_Indexer d)"

definition manager_drain :: "WazuhCluster \<Rightarrow> ComponentDrainStatus option" where
  "manager_drain c = (case wc_stDrain c of None \<Rightarrow> None | Some d \<Rightarrow> dst_Manager d)"

definition drain_of :: "WazuhCluster \<Rightarrow> DrainStatus" where
  "drain_of c = (case wc_stDrain c of None \<Rightarrow> empty_drain_status | Some d \<Rightarrow> d)"

definition set_indexer_drain :: "ComponentDrainStatus \<Rightarrow> WazuhCluster \<Rightarrow> WazuhCluster" where
  "set_indexer_drain s c = c\<lparr>wc_stDrain := Some ((drain_of c)\<lparr>dst_Indexer := Some s\<rparr>)\<rparr>"

definition set_manager_drain :: "ComponentDrainStatus \<Rightarrow> WazuhCluster \<Rightarrow> WazuhCluster" where
  "set_manager_drain s c = c\<lparr>wc_stDrain := Some ((drain_of c)\<lparr>dst_Manager := Some s\<rparr>)\<rparr>"

lemma set_drain_simps [simp]:
  "indexer_drain (set_indexer_drain s c) = Some s" "manager_drain (set_manager_drain s c) = Some s"
  "manager_drain (set_indexer_drain s c) = manager_drain c" "indexer_drain (set_manager_drain s c) = indexer_drain c"
  "wc_Name (set_indexer_drain s c) = wc_Name c" "wc_Namespace (set_indexer_drain s c) = wc_Namespace c"
  "wc_Name (set_manager_drain s c) = wc_Name c" "wc_Namespace (set_manager_drain s c) = wc_Namespace c"
  "wc_Drain (set_indexer_drain s c) = wc_Drain c" "wc_Drain (set_manager_drain s c) = wc_Drain c"
  "set_indexer_drain t (set_indexer_drain s c) = set_indexer_drain t c"
  "set_manager_drain t (set_manager_drain s c) = set_manager_drain t c"
  by (simp_all add: set_indexer_drain_def set_manager_drain_def indexer_drain_def manager_drain_def
      drain_of_def empty_drain_status_def split: option.splits)

text \<open>Summing over non-negative replicas without wrap-around is the sum of the integers.\<close>

lemma sum_replicas_Nil [simp]: "sum_replicas [] = 0"
  by (simp add: sum_replicas_def)

lemma foldl_replicas: "foldl (\<lambda>n pool. n + pool_Replicas pool) k pools = k + sum_list (map pool_Replicas pools)"
  by (induction pools arbitrary: k) (simp_all add: add.assoc)

lemma sum_replicas_list: "sum_replicas pools = sum_list (map pool_Replicas pools)"
  by (simp add: sum_replicas_def foldl_replicas)

lemma sint_sum_replicas:
  assumes "\<forall>p \<in> set pools. 0 \<le> sint (pool_Replicas p)"
    and "sum_list (map (\<lambda>p. sint (pool_Replicas p)) pools) < 2 ^ 31"
  shows "sint (sum_replicas pools) = sum_list (map (\<lambda>p. sint (pool_Replicas p)) pools)"
  using assms
proof (induction pools)
  case (Cons p ps)
  have nn: "0 \<le> sum_list (map (\<lambda>p. sint (pool_Replicas p)) ps)"
    using Cons.prems(1) by (intro sum_list_nonneg) auto
  have "sum_list (map (\<lambda>p. sint (pool_Replicas p)) ps) < 2 ^ 31"
    using Cons.prems nn by auto
  then have IH: "sint (sum_replicas ps) = sum_list (map (\<lambda>p. sint (pool_Replicas p)) ps)"
    using Cons.prems(1) by (intro Cons.IH) auto
  have "sint (pool_Replicas p + sum_replicas ps) = sint (pool_Replicas p) + sint (sum_replicas ps)"
    using Cons.prems nn IH by (intro sint_i32_add) auto
  then show ?case using IH by (simp add: sum_replicas_list)
qed simp

end
