(* ===== verification/ClusterWorld.thy ===== *)
theory ClusterWorld
  imports ClusterTypes "HOL-Library.State_Monad"
begin

section \<open>The world the operator runs in\<close>

text \<open>
  Kubernetes objects as far as the modelled code reads them, and the outside world: the
  Kubernetes API server, the OpenSearch and Wazuh HTTP servers and the clock are functions
  of an unknown state \<open>'s\<close> (a parameter of the model), so that two calls may be answered
  differently. A computation of the operator is a state monad over that state and the log
  of what it did: every HTTP call with its answer, every write, every Kubernetes event.
  Log lines, traces and metrics are left out.
\<close>

subsection \<open>Kubernetes objects\<close>

text \<open>
  The parts of a pod's specification that the operator copies and compares without looking into
  them are their JSON, in which an absent and an empty list are one, as they are for
  \<open>equality.Semantic.DeepEqual\<close>. An owner is its name. The fields of a StatefulSet that no code
  of the operator sets (ordinals, the retention of claims) are left out; \<open>dep_Rollout\<close> holds
  the strategy and the other settings of a rollout of a Deployment, only copied as a whole.
\<close>

record PodSpec =
  ps_Tolerations :: "json list"
  ps_Affinity :: "json option"
  ps_SecurityContext :: "json option"
  ps_Other :: json

definition empty_pod_spec :: PodSpec where
  "empty_pod_spec = \<lparr>ps_Tolerations = [], ps_Affinity = None, ps_SecurityContext = None, ps_Other = JObj []\<rparr>"

record StatefulSet =
  sts_Name :: string
  sts_Namespace :: string
  sts_UID :: string
  sts_MatchLabels :: labels
  sts_SpecReplicas :: "i32 option"
  sts_Replicas :: i32
  sts_ReadyReplicas :: i32
  sts_UpdatedReplicas :: i32
  sts_CurrentRevision :: string
  sts_UpdateRevision :: string
  sts_Generation :: i64
  sts_ObservedGeneration :: i64
  sts_TemplateAnnotations :: labels
  sts_Labels :: labels
  sts_Annotations :: labels
  sts_OwnerReferences :: "string list"
  sts_Deleting :: bool
  sts_PodManagementPolicy :: string
  sts_UpdateStrategy :: string
  sts_MinReadySeconds :: i32
  sts_TemplateLabels :: labels
  sts_PodSpec :: PodSpec

record Deployment =
  dep_Name :: string
  dep_Namespace :: string
  dep_TemplateAnnotations :: labels
  dep_Replicas :: i32
  dep_SpecReplicas :: "i32 option"
  dep_ReadyReplicas :: i32
  dep_UpdatedReplicas :: i32
  dep_AvailableReplicas :: i32
  dep_Generation :: i64
  dep_ObservedGeneration :: i64
  dep_Labels :: labels
  dep_Annotations :: labels
  dep_OwnerReferences :: "string list"
  dep_Deleting :: bool
  dep_Rollout :: json
  dep_TemplateLabels :: labels
  dep_PodSpec :: PodSpec

record Pod =
  pod_Name :: string
  pod_Namespace :: string
  pod_Labels :: labels
  pod_Owners :: "string list"
  pod_Conditions :: "(string \<times> string) list"

text \<open>
  A PodDisruptionBudget by its two optional limits, already read with the API machinery's
  \<open>IntOrString.IntValue\<close>.
\<close>

record PodDisruptionBudget =
  pdb_MinAvailable :: "int option"
  pdb_MaxUnavailable :: "int option"

text \<open>
  A quantity of the API machinery is a fixed-point number with a format to print it in; it has
  no digits below \<open>10\<^sup>-\<^sup>9\<close>, so that its value is an integer in that unit, and \<open>Cmp\<close> compares the
  values. Reading and printing quantities is a parameter of the environment.
\<close>

record Quantity =
  q_nano :: int
  q_format :: string

definition zero_quantity :: Quantity where
  "zero_quantity = \<lparr>q_nano = 0, q_format = []\<rparr>"

definition quantity_Cmp :: "Quantity \<Rightarrow> Quantity \<Rightarrow> int" where
  "quantity_Cmp a b = (if q_nano a < q_nano b then -1 else if q_nano a > q_nano b then 1 else 0)"

text \<open>A condition of a volume claim is its type, whether its status is \<open>True\<close>, and its message.\<close>

record PersistentVolumeClaim =
  pvc_Name :: string
  pvc_Namespace :: string
  pvc_Labels :: labels
  pvc_Annotations :: labels
  pvc_Requests :: "(string \<times> Quantity) list option"
  pvc_StorageClassName :: "string option"
  pvc_Conditions :: "(string \<times> bool \<times> string) list"

record StorageClass =
  sc_Name :: string
  sc_Annotations :: labels
  sc_AllowVolumeExpansion :: "bool option"

subsection \<open>HTTP answers\<close>

record ClusterHealth =
  ch_Status :: string
  ch_TimedOut :: bool
  ch_NumberOfNodes :: i64
  ch_NumberOfDataNodes :: i64
  ch_RelocatingShards :: i64
  ch_InitializingShards :: i64
  ch_UnassignedShards :: i64

record ShardInfo =
  si_Index :: string
  si_Shard :: string
  si_PriRep :: string
  si_State :: string
  si_Node :: string

record ClusterSettings =
  cs_Persistent :: "(string \<times> json) list option"
  cs_Transient :: "(string \<times> json) list option"

text \<open>
  A response: its status code, its body as text, and what \<open>encoding/json\<close> makes of that
  body for each of the types the sources decode into.
\<close>

record http_resp =
  hr_StatusCode :: int
  hr_Body :: string
  hr_health :: "ClusterHealth result"
  hr_shards :: "ShardInfo list result"
  hr_settings :: "ClusterSettings result"
  hr_rows :: "(string \<times> string) list list result"

text \<open>A client of the OpenSearch server; \<open>oc_caCert\<close> is the CA its transport trusts.\<close>

record OSClient =
  oc_baseURL :: string
  oc_username :: string
  oc_password :: string
  oc_caCert :: string

record WzClusterStatus =
  wcs_Enabled :: bool
  wcs_Running :: bool
  wcs_Name :: string
  wcs_Node :: string

record NodeInfo =
  ni_Name :: string
  ni_Type :: string
  ni_Version :: string
  ni_IP :: string

record ManagerInfo =
  mi_Version :: string
  mi_Name :: string

record ClusterNodeStatus =
  cns_Name :: string
  cns_Type :: string
  cns_Status :: string
  cns_Synced :: bool
  cns_QueueSize :: i64

record RestartResponse =
  rr_AffectedItems :: "string list"
  rr_TotalItems :: i64
  rr_FailedItems :: "string list"

record AgentsSummary =
  as_Active :: i64
  as_Disconnected :: i64
  as_NeverConn :: i64
  as_Pending :: i64
  as_Total :: i64

text \<open>For the statistics of a node, \<open>wr_queues\<close> lists the \<open>queue_size_total\<close> of each item.\<close>

record wz_resp =
  wr_StatusCode :: int
  wr_Body :: string
  wr_token :: "string result"
  wr_cluster :: "WzClusterStatus result"
  wr_nodeinfo :: "NodeInfo list result"
  wr_info :: "ManagerInfo result"
  wr_queues :: "i64 list result"
  wr_nodes :: "ClusterNodeStatus list result"
  wr_restart :: "RestartResponse result"
  wr_agents :: "AgentsSummary result"

text \<open>
  The Wazuh API adapter keeps a session token. Adapters are shared by pointer between a
  reconciler and its drainer, so they live in a store, and a pointer is an index into it.
\<close>

record WazuhAPIAdapter =
  wa_baseURL :: string
  wa_username :: string
  wa_password :: string
  wa_token :: string
  wa_tokenExp :: time

type_synonym adapter_ptr = nat

datatype wz_auth = BasicAuth string string | Bearer string

text \<open>A secret as the operator writes it, \<open>None\<close> for labels left as they were found; reading one gives its data.\<close>

record Secret =
  scr_Namespace :: string
  scr_Name :: string
  scr_Labels :: "labels option"
  scr_Data :: labels

subsection \<open>The environment\<close>

text \<open>
  The errors a client library can return before or during a request (an unusable URL, a
  body that cannot be marshalled, a connection failure) are all the \<open>Inl\<close> of the call.
  \<open>e_wait d\<close> is the \<open>select\<close> between the context's end, with its error, and a timer of \<open>d\<close>;
  \<open>e_rand\<close> is \<open>rand.Float64()\<close> in units of \<open>2\<^sup>-\<^sup>5\<^sup>3\<close>; \<open>e_pem_ok\<close> tells whether a PEM text holds
  a certificate the x509 library accepts; \<open>e_utc_offset\<close> is the offset of the operator's time zone in seconds; \<open>e_domain\<close> is what \<open>dns.ClusterDomain()\<close> returns.
\<close>

record 's env =
  e_now :: "'s \<Rightarrow> time \<times> 's"
  e_get_sts :: "string \<Rightarrow> string \<Rightarrow> 's \<Rightarrow> StatefulSet result \<times> 's"
  e_update_sts :: "StatefulSet \<Rightarrow> 's \<Rightarrow> unit result \<times> 's"
  e_create_sts :: "StatefulSet \<Rightarrow> 's \<Rightarrow> unit result \<times> 's"
  e_list_pods :: "string \<Rightarrow> labels \<Rightarrow> 's \<Rightarrow> Pod list result \<times> 's"
  e_delete_pod :: "Pod \<Rightarrow> 's \<Rightarrow> unit result \<times> 's"
  e_get_pdb :: "string \<Rightarrow> string \<Rightarrow> 's \<Rightarrow> PodDisruptionBudget result \<times> 's"
  e_get_secret :: "string \<Rightarrow> string \<Rightarrow> 's \<Rightarrow> labels result \<times> 's"
  e_create_secret :: "Secret \<Rightarrow> 's \<Rightarrow> unit result \<times> 's"
  e_update_secret :: "Secret \<Rightarrow> 's \<Rightarrow> unit result \<times> 's"
  e_get_deployment :: "string \<Rightarrow> string \<Rightarrow> 's \<Rightarrow> Deployment result \<times> 's"
  e_get_cluster :: "string \<Rightarrow> string \<Rightarrow> 's \<Rightarrow> WazuhCluster result \<times> 's"
  e_update_cluster :: "WazuhCluster \<Rightarrow> 's \<Rightarrow> unit result \<times> 's"
  e_update_deployment :: "Deployment \<Rightarrow> 's \<Rightarrow> unit result \<times> 's"
  e_create_deployment :: "Deployment \<Rightarrow> 's \<Rightarrow> unit result \<times> 's"
  e_delete :: "string \<Rightarrow> string \<Rightarrow> string \<Rightarrow> 's \<Rightarrow> unit result \<times> 's"
  e_list_pvcs :: "string \<Rightarrow> labels \<Rightarrow> 's \<Rightarrow> PersistentVolumeClaim list result \<times> 's"
  e_patch_pvc :: "PersistentVolumeClaim \<Rightarrow> PersistentVolumeClaim \<Rightarrow> 's \<Rightarrow> unit result \<times> 's"
  e_get_storageclass :: "string \<Rightarrow> 's \<Rightarrow> StorageClass result \<times> 's"
  e_list_storageclasses :: "'s \<Rightarrow> StorageClass list result \<times> 's"
  e_parse_quantity :: "string \<Rightarrow> Quantity result"
  e_quantity_string :: "Quantity \<Rightarrow> string"
  e_utc_offset :: "time \<Rightarrow> int"
  e_update_cluster_status :: "WazuhCluster \<Rightarrow> 's \<Rightarrow> unit result \<times> 's"
  e_wait :: "duration \<Rightarrow> 's \<Rightarrow> gerror option \<times> 's"
  e_rand :: "'s \<Rightarrow> int \<times> 's"
  e_pem_ok :: "string \<Rightarrow> bool"
  e_domain :: string
  e_http :: "OSClient \<Rightarrow> string \<Rightarrow> string \<Rightarrow> json option \<Rightarrow> 's \<Rightarrow> http_resp result \<times> 's"
  e_wazuh :: "string \<Rightarrow> wz_auth \<Rightarrow> string \<Rightarrow> string \<Rightarrow> 's \<Rightarrow> wz_resp result \<times> 's"

datatype effect =
    EHttp OSClient string string "json option" "http_resp result"
  | EWazuh string string string "wz_resp result"
  | EDeletePod string string
  | EUpdateSts StatefulSet
  | ECreateSts StatefulSet
  | EUpdateStatus WazuhCluster
  | EUpdateCluster WazuhCluster
  | EUpdateDeployment Deployment
  | ECreateDeployment Deployment
  | EDelete string string string
  | ECreateSecret Secret
  | EUpdateSecret Secret
  | EPatchPVC PersistentVolumeClaim PersistentVolumeClaim
  | EEvent bool string string

text \<open>
  \<open>w_clients\<close> is the cache of the OpenSearch client factory the operator shares between its
  reconcilers: for a cluster's key, the client and the hash of the credentials it was built
  from.
\<close>

record 's world =
  w_env :: 's
  w_adapters :: "WazuhAPIAdapter list"
  w_clients :: "(string \<times> OSClient \<times> string) list"
  w_log :: "effect list"

type_synonym ('s, 'a) io = "('s world, 'a) state"

definition ask :: "('s \<Rightarrow> 'a \<times> 's) \<Rightarrow> ('s, 'a) io" where
  "ask f = State (\<lambda>w. case f (w_env w) of (a, s') \<Rightarrow> (a, w\<lparr>w_env := s'\<rparr>))"

definition emit :: "effect \<Rightarrow> ('s, unit) io" where
  "emit e = State (\<lambda>w. ((), w\<lparr>w_log := w_log w @ [e]\<rparr>))"

definition ret :: "'a \<Rightarrow> ('s, 'a) io" where
  "ret a = State (\<lambda>w. (a, w))"

definition new_adapter :: "WazuhAPIAdapter \<Rightarrow> ('s, adapter_ptr) io" where
  "new_adapter a = State (\<lambda>w. (length (w_adapters w), w\<lparr>w_adapters := w_adapters w @ [a]\<rparr>))"

definition get_adapter :: "adapter_ptr \<Rightarrow> ('s, WazuhAPIAdapter) io" where
  "get_adapter p = State (\<lambda>w. (w_adapters w ! p, w))"

definition put_adapter :: "adapter_ptr \<Rightarrow> WazuhAPIAdapter \<Rightarrow> ('s, unit) io" where
  "put_adapter p a = State (\<lambda>w. ((), w\<lparr>w_adapters := (w_adapters w)[p := a]\<rparr>))"

text \<open>\<open>if err != nil { return ..., wrap(err) }\<close> followed by the rest of the function.\<close>

definition try_io :: "('s, 'a result) io \<Rightarrow> (gerror \<Rightarrow> gerror) \<Rightarrow> ('a \<Rightarrow> ('s, 'b result) io) \<Rightarrow> ('s, 'b result) io"
  where "try_io m wrap f = do { r \<leftarrow> m; case r of Inl e \<Rightarrow> ret (Inl (wrap e)) | Inr a \<Rightarrow> f a }"

definition time_now :: "'s env \<Rightarrow> ('s, time) io" where
  "time_now E = ask (e_now E)"

text \<open>\<open>Recorder.Event\<close>; the first argument tells a warning from a normal event.\<close>

definition record_event :: "bool \<Rightarrow> string \<Rightarrow> string \<Rightarrow> ('s, unit) io" where
  "record_event warning reason message = emit (EEvent warning reason message)"

definition get_sts :: "'s env \<Rightarrow> string \<Rightarrow> string \<Rightarrow> ('s, StatefulSet result) io" where
  "get_sts E ns name = ask (e_get_sts E ns name)"

definition update_sts :: "'s env \<Rightarrow> StatefulSet \<Rightarrow> ('s, unit result) io" where
  "update_sts E sts = do { emit (EUpdateSts sts); ask (e_update_sts E sts) }"

definition create_sts :: "'s env \<Rightarrow> StatefulSet \<Rightarrow> ('s, unit result) io" where
  "create_sts E sts = do { emit (ECreateSts sts); ask (e_create_sts E sts) }"

definition list_pods :: "'s env \<Rightarrow> string \<Rightarrow> labels \<Rightarrow> ('s, Pod list result) io" where
  "list_pods E ns sel = ask (e_list_pods E ns sel)"

definition delete_pod :: "'s env \<Rightarrow> Pod \<Rightarrow> ('s, unit result) io" where
  "delete_pod E pod = do { emit (EDeletePod (pod_Namespace pod) (pod_Name pod)); ask (e_delete_pod E pod) }"

definition get_secret :: "'s env \<Rightarrow> string \<Rightarrow> string \<Rightarrow> ('s, labels result) io" where
  "get_secret E ns name = ask (e_get_secret E ns name)"

definition create_secret :: "'s env \<Rightarrow> Secret \<Rightarrow> ('s, unit result) io" where
  "create_secret E secret = do { emit (ECreateSecret secret); ask (e_create_secret E secret) }"

definition update_secret :: "'s env \<Rightarrow> Secret \<Rightarrow> ('s, unit result) io" where
  "update_secret E secret = do { emit (EUpdateSecret secret); ask (e_update_secret E secret) }"

definition get_pdb :: "'s env \<Rightarrow> string \<Rightarrow> string \<Rightarrow> ('s, PodDisruptionBudget result) io" where
  "get_pdb E ns name = ask (e_get_pdb E ns name)"

definition get_deployment :: "'s env \<Rightarrow> string \<Rightarrow> string \<Rightarrow> ('s, Deployment result) io" where
  "get_deployment E ns name = ask (e_get_deployment E ns name)"

definition get_cluster :: "'s env \<Rightarrow> string \<Rightarrow> string \<Rightarrow> ('s, WazuhCluster result) io" where
  "get_cluster E ns name = ask (e_get_cluster E ns name)"

definition update_cluster_status :: "'s env \<Rightarrow> WazuhCluster \<Rightarrow> ('s, unit result) io" where
  "update_cluster_status E c = do { emit (EUpdateStatus c); ask (e_update_cluster_status E c) }"

definition update_cluster :: "'s env \<Rightarrow> WazuhCluster \<Rightarrow> ('s, unit result) io" where
  "update_cluster E c = do { emit (EUpdateCluster c); ask (e_update_cluster E c) }"

definition update_deployment :: "'s env \<Rightarrow> Deployment \<Rightarrow> ('s, unit result) io" where
  "update_deployment E d = do { emit (EUpdateDeployment d); ask (e_update_deployment E d) }"

definition create_deployment :: "'s env \<Rightarrow> Deployment \<Rightarrow> ('s, unit result) io" where
  "create_deployment E d = do { emit (ECreateDeployment d); ask (e_create_deployment E d) }"

definition delete_object :: "'s env \<Rightarrow> string \<Rightarrow> string \<Rightarrow> string \<Rightarrow> ('s, unit result) io" where
  "delete_object E kind ns name = do { emit (EDelete kind ns name); ask (e_delete E kind ns name) }"

definition list_pvcs :: "'s env \<Rightarrow> string \<Rightarrow> labels \<Rightarrow> ('s, PersistentVolumeClaim list result) io" where
  "list_pvcs E ns sel = ask (e_list_pvcs E ns sel)"

definition patch_pvc :: "'s env \<Rightarrow> PersistentVolumeClaim \<Rightarrow> PersistentVolumeClaim \<Rightarrow> ('s, unit result) io" where
  "patch_pvc E pvc pvc' = do { emit (EPatchPVC pvc pvc'); ask (e_patch_pvc E pvc pvc') }"

definition get_storageclass :: "'s env \<Rightarrow> string \<Rightarrow> ('s, StorageClass result) io" where
  "get_storageclass E name = ask (e_get_storageclass E name)"

definition list_storageclasses :: "'s env \<Rightarrow> ('s, StorageClass list result) io" where
  "list_storageclasses E = ask (e_list_storageclasses E)"

definition wait_io :: "'s env \<Rightarrow> duration \<Rightarrow> ('s, gerror option) io" where
  "wait_io E d = ask (e_wait E d)"

definition get_clients :: "('s, (string \<times> OSClient \<times> string) list) io" where
  "get_clients = State (\<lambda>w. (w_clients w, w))"

definition put_clients :: "(string \<times> OSClient \<times> string) list \<Rightarrow> ('s, unit) io" where
  "put_clients cs = State (\<lambda>w. ((), w\<lparr>w_clients := cs\<rparr>))"

subsection \<open>Reasoning about runs\<close>

named_theorems run_io

lemma run_bind [run_io]:
  "run_state (State_Monad.bind m f) w = (case run_state m w of (a, w') \<Rightarrow> run_state (f a) w')"
  by (simp add: State_Monad.bind_def)

lemma run_ret [run_io, simp]: "run_state (ret a) w = (a, w)"
  by (simp add: ret_def)

lemma run_emit [run_io]: "run_state (emit e) w = ((), w\<lparr>w_log := w_log w @ [e]\<rparr>)"
  by (simp add: emit_def)

lemma run_adapter [run_io]:
  "run_state (new_adapter a) w = (length (w_adapters w), w\<lparr>w_adapters := w_adapters w @ [a]\<rparr>)"
  "run_state (get_adapter p) w = (w_adapters w ! p, w)"
  "run_state (put_adapter p a) w = ((), w\<lparr>w_adapters := (w_adapters w)[p := a]\<rparr>)"
  by (simp_all add: new_adapter_def get_adapter_def put_adapter_def)

lemma run_clients [run_io]:
  "run_state get_clients w = (w_clients w, w)"
  "run_state (put_clients cs) w = ((), w\<lparr>w_clients := cs\<rparr>)"
  by (simp_all add: get_clients_def put_clients_def)

lemma run_ask [run_io]:
  "run_state (ask f) w = (case f (w_env w) of (a, s') \<Rightarrow> (a, w\<lparr>w_env := s'\<rparr>))"
  by (simp add: ask_def)

lemma run_try [run_io]:
  "run_state (try_io m wrap f) w = (case run_state m w of (Inl e, w') \<Rightarrow> (Inl (wrap e), w')
     | (Inr a, w') \<Rightarrow> run_state (f a) w')"
  by (auto simp: try_io_def run_bind split: prod.splits sum.splits)

text \<open>
  A computation \<open>extends\<close> the log by effects satisfying \<open>P\<close>: what every component shows of
  itself, and what composes along bind.
\<close>

definition logs_only :: "(effect \<Rightarrow> bool) \<Rightarrow> ('s, 'a) io \<Rightarrow> bool" where
  "logs_only P m \<longleftrightarrow> (\<forall>w. \<exists>es. w_log (snd (run_state m w)) = w_log w @ es \<and> list_all P es)"

named_theorems logs

lemma logs_ret [logs]: "logs_only P (ret a)"
  by (simp add: logs_only_def)

lemma logs_ask [logs]: "logs_only P (ask f)"
  by (simp add: logs_only_def run_ask split: prod.splits)

lemma logs_emit [logs]: "P e \<Longrightarrow> logs_only P (emit e)"
  by (simp add: logs_only_def run_emit)

lemma logs_adapter [logs]:
  "logs_only P (new_adapter a)" "logs_only P (get_adapter p)" "logs_only P (put_adapter p a)"
  by (simp_all add: logs_only_def run_adapter)

lemma logs_clients [logs]: "logs_only P get_clients" "logs_only P (put_clients cs)"
  by (simp_all add: logs_only_def run_clients)

lemma logs_bind [logs]:
  assumes m: "logs_only P m" and f: "\<And>a. logs_only P (f a)"
  shows "logs_only P (State_Monad.bind m f)"
  unfolding logs_only_def
proof
  fix w
  obtain a w' where run: "run_state m w = (a, w')" by fastforce
  obtain es where es: "w_log w' = w_log w @ es" "list_all P es"
    using m run unfolding logs_only_def by (metis snd_conv)
  obtain fs where fs: "w_log (snd (run_state (f a) w')) = w_log w' @ fs" "list_all P fs"
    using f unfolding logs_only_def by blast
  show "\<exists>gs. w_log (snd (run_state (State_Monad.bind m f) w)) = w_log w @ gs \<and> list_all P gs"
    using es fs by (intro exI [of _ "es @ fs"]) (simp add: run_bind run)
qed

lemma logs_try [logs]:
  "logs_only P m \<Longrightarrow> (\<And>a. logs_only P (f a)) \<Longrightarrow> logs_only P (try_io m wrap f)"
  unfolding try_io_def by (rule logs_bind) (simp_all add: logs_ret split: sum.split)

lemma logs_if [logs]: "(b \<Longrightarrow> logs_only P m) \<Longrightarrow> (\<not> b \<Longrightarrow> logs_only P n) \<Longrightarrow> logs_only P (if b then m else n)"
  by simp

lemma logs_case [logs]:
  "(\<And>e. r = Inl e \<Longrightarrow> logs_only P (f e)) \<Longrightarrow> (\<And>a. r = Inr a \<Longrightarrow> logs_only P (g a)) \<Longrightarrow>
    logs_only P (case r of Inl e \<Rightarrow> f e | Inr a \<Rightarrow> g a)"
  "(q = None \<Longrightarrow> logs_only P m) \<Longrightarrow> (\<And>b. q = Some b \<Longrightarrow> logs_only P (h b)) \<Longrightarrow>
    logs_only P (case q of None \<Rightarrow> m | Some b \<Rightarrow> h b)"
  "(\<And>x y. z = (x, y) \<Longrightarrow> logs_only P (k x y)) \<Longrightarrow> logs_only P (case z of (x, y) \<Rightarrow> k x y)"
  by (simp_all split: sum.split option.split prod.split)

lemma logs_weaken: "logs_only P m \<Longrightarrow> (\<And>e. P e \<Longrightarrow> Q e) \<Longrightarrow> logs_only Q m"
  unfolding logs_only_def by (meson list.pred_mono_strong)

lemma logs_onlyD:
  assumes "logs_only P m" and "run_state m w = (a, w')"
  obtains es where "w_log w' = w_log w @ es" and "list_all P es"
  using assms unfolding logs_only_def by (metis snd_conv)

lemmas prim_defs = time_now_def record_event_def get_sts_def update_sts_def create_sts_def create_deployment_def list_pods_def delete_pod_def
  get_secret_def create_secret_def update_secret_def get_pdb_def get_deployment_def get_cluster_def update_cluster_status_def wait_io_def
  update_cluster_def update_deployment_def delete_object_def list_pvcs_def patch_pvc_def get_storageclass_def list_storageclasses_def

subsection \<open>Computations that never turn the clock back\<close>

definition keeps_clock :: "('s \<Rightarrow> time) \<Rightarrow> ('s, 'a) io \<Rightarrow> bool" where
  "keeps_clock clk m \<longleftrightarrow> (\<forall>w. clk (w_env w) \<le> clk (w_env (snd (run_state m w))))"

lemma keeps_clockD: "keeps_clock clk m \<Longrightarrow> run_state m w = (a, w') \<Longrightarrow> clk (w_env w) \<le> clk (w_env w')"
  unfolding keeps_clock_def by (metis snd_conv)

lemma keeps_clock_ret: "keeps_clock clk (ret a)"
  by (simp add: keeps_clock_def)

lemma keeps_clock_ask: "(\<And>s. clk s \<le> clk (snd (f s))) \<Longrightarrow> keeps_clock clk (ask f)"
  by (simp add: keeps_clock_def run_ask split: prod.splits) (metis snd_conv)

lemma keeps_clock_bind:
  assumes m: "keeps_clock clk m" and f: "\<And>a. keeps_clock clk (f a)"
  shows "keeps_clock clk (State_Monad.bind m f)"
  unfolding keeps_clock_def
proof
  fix w
  obtain r w1 where r: "run_state m w = (r, w1)" by fastforce
  have "clk (w_env w1) \<le> clk (w_env (snd (run_state (f r) w1)))"
    using f unfolding keeps_clock_def by blast
  then show "clk (w_env w) \<le> clk (w_env (snd (run_state (State_Monad.bind m f) w)))"
    using keeps_clockD [OF m r] r by (simp add: run_bind)
qed

lemma keeps_clock_try:
  "keeps_clock clk m \<Longrightarrow> (\<And>a. keeps_clock clk (f a)) \<Longrightarrow> keeps_clock clk (try_io m wrap f)"
  unfolding try_io_def by (rule keeps_clock_bind) (simp_all add: keeps_clock_ret split: sum.split)

subsection \<open>A world for examples\<close>

text \<open>Where nothing exists, nothing answers and time stands still; the examples update it.\<close>

definition not_found :: gerror where
  "not_found = GErr NotFound ''not found''"

definition dead_env :: "'s env" where
  "dead_env = \<lparr>e_now = (\<lambda>s. (0, s)), e_get_sts = (\<lambda>ns n s. (Inl not_found, s)),
     e_update_sts = (\<lambda>t s. (Inl not_found, s)), e_create_sts = (\<lambda>t s. (Inl not_found, s)), e_list_pods = (\<lambda>ns l s. (Inl not_found, s)),
     e_delete_pod = (\<lambda>p s. (Inl not_found, s)), e_get_pdb = (\<lambda>ns n s. (Inl not_found, s)),
     e_get_secret = (\<lambda>ns n s. (Inl not_found, s)), e_create_secret = (\<lambda>t s. (Inl not_found, s)), e_update_secret = (\<lambda>t s. (Inl not_found, s)), e_get_deployment = (\<lambda>ns n s. (Inl not_found, s)),
     e_get_cluster = (\<lambda>ns n s. (Inl not_found, s)), e_update_cluster = (\<lambda>c s. (Inl not_found, s)),
     e_update_deployment = (\<lambda>d s. (Inl not_found, s)), e_create_deployment = (\<lambda>d s. (Inl not_found, s)), e_delete = (\<lambda>k ns n s. (Inl not_found, s)),
     e_list_pvcs = (\<lambda>ns l s. (Inl not_found, s)), e_patch_pvc = (\<lambda>p q s. (Inl not_found, s)),
     e_get_storageclass = (\<lambda>n s. (Inl not_found, s)), e_list_storageclasses = (\<lambda>s. (Inl not_found, s)),
     e_parse_quantity = (\<lambda>t. Inl not_found), e_quantity_string = (\<lambda>q. []), e_utc_offset = (\<lambda>t. 0),
     e_update_cluster_status = (\<lambda>c s. (Inl not_found, s)),
     e_wait = (\<lambda>d s. (None, s)), e_rand = (\<lambda>s. (0, s)), e_pem_ok = (\<lambda>p. True), e_domain = ''cluster.local'',
     e_http = (\<lambda>c m p b s. (Inl not_found, s)), e_wazuh = (\<lambda>u a m p s. (Inl not_found, s))\<rparr>"

definition new_world :: "'s \<Rightarrow> 's world" where
  "new_world s = \<lparr>w_env = s, w_adapters = [], w_clients = [], w_log = []\<rparr>"

end
