(* ===== verification/DrainDetection.thy ===== *)
theory DrainDetection
  imports ClusterWorld
begin

section \<open>Scale-down detection (internal/shared/drain/detection.go)\<close>

text \<open>
  Which pods a StatefulSet loses when its replica count goes down, in the order it loses
  them, on \<open>int32\<close> counts. A StatefulSet removes its highest ordinal first; the lemmas
  show that the pods named here are exactly the ordinals \<open>[desired, current)\<close>, in
  descending order, and that an ordinal can be read back from the pod's name.
\<close>

record ScaleDownInfo =
  sd_Detected :: bool
  sd_CurrentReplicas :: i32
  sd_TargetReplicas :: i32
  sd_ScaleAmount :: i32
  sd_TargetPodName :: string
  sd_TargetPodIndex :: i32

definition pod_name :: "string \<Rightarrow> i32 \<Rightarrow> string" where
  "pod_name stsName i = stsName @ ''-'' @ show_i32 i"

definition DetectStatefulSetScaleDown :: "StatefulSet option \<Rightarrow> i32 \<Rightarrow> ScaleDownInfo" where
  "DetectStatefulSetScaleDown sts desiredReplicas =
     (let info = \<lparr>sd_Detected = False, sd_CurrentReplicas = 0, sd_TargetReplicas = desiredReplicas,
                   sd_ScaleAmount = 0, sd_TargetPodName = [], sd_TargetPodIndex = 0\<rparr> in
      case sts of None \<Rightarrow> info
      | Some t \<Rightarrow>
         (let currentReplicas = (case sts_SpecReplicas t of None \<Rightarrow> sts_Replicas t | Some n \<Rightarrow> n);
              info = info\<lparr>sd_CurrentReplicas := currentReplicas\<rparr> in
          if sint desiredReplicas < sint currentReplicas then
            let targetIndex = currentReplicas - 1 in
            info\<lparr>sd_Detected := True, sd_ScaleAmount := currentReplicas - desiredReplicas,
              sd_TargetPodIndex := targetIndex,
              sd_TargetPodName := pod_name (sts_Name t) targetIndex\<rparr>
          else info))"

definition GetNextTargetPod :: "string \<Rightarrow> i32 \<Rightarrow> i32 \<Rightarrow> i32 \<Rightarrow> string \<times> i32 \<times> bool" where
  "GetNextTargetPod stsName currentReplicas targetReplicas alreadyDrained =
     (if sint currentReplicas \<le> sint targetReplicas then ([], 0, False)
      else let nextIndex = currentReplicas - 1 - alreadyDrained in
        if sint nextIndex < sint targetReplicas then ([], 0, False)
        else (pod_name stsName nextIndex, nextIndex, True))"

text \<open>
  The loop \<open>for i := currentReplicas - 1; i >= targetReplicas; i--\<close>. With a target of
  \<open>-2\<^sup>3\<^sup>1\<close> the Go loop would wrap around and never end; the recursion stops when the
  decrement wraps, and the lemmas below ask for a target above that value.
\<close>

function target_pods_from :: "string \<Rightarrow> i32 \<Rightarrow> i32 \<Rightarrow> string list" where
  "target_pods_from stsName i targetReplicas =
     (if sint i < sint targetReplicas then []
      else pod_name stsName i #
        (if sint i = - (2 ^ 31) then [] else target_pods_from stsName (i - 1) targetReplicas))"
  by pat_completeness auto
termination
proof (relation "measure (\<lambda>(n, i, t). nat (sint i + 2 ^ 31))")
  fix n :: string and i t :: i32
  assume a: "\<not> sint i < sint t" "sint i \<noteq> - (2 ^ 31)"
  have lo: "- (2 ^ 31) < sint i" using a i32_lower [of i] by simp
  have "sint (i - 1) = sint i - 1"
    using lo i32_upper [of i] by (subst sint_i32_diff) simp_all
  with lo show "((n, i - 1, t), (n, i, t)) \<in> measure (\<lambda>(n, i, t). nat (sint i + 2 ^ 31))"
    by simp
qed simp

declare target_pods_from.simps [simp del]

definition GetAllTargetPods :: "string \<Rightarrow> i32 \<Rightarrow> i32 \<Rightarrow> string list" where
  "GetAllTargetPods stsName currentReplicas targetReplicas =
     (if sint currentReplicas \<le> sint targetReplicas then []
      else target_pods_from stsName (currentReplicas - 1) targetReplicas)"

definition GetPodOrdinalFromName :: "string \<Rightarrow> string \<Rightarrow> i32 result" where
  "GetPodOrdinalFromName podName stsName =
     (let expectedPrefix = stsName @ ''-'' in
      if length podName \<le> length expectedPrefix then
        Inl (errorf (''pod name '' @ podName @ '' does not match StatefulSet '' @ stsName @ '' pattern''))
      else case sscanf_i32 expectedPrefix podName of
          Inl e \<Rightarrow> Inl (errorf (''failed to parse ordinal from pod name '' @ podName @ '': '' @ e))
        | Inr k \<Rightarrow> Inr (to_i32 k))"

definition NeedsScaleDown :: "i32 \<Rightarrow> i32 \<Rightarrow> bool" where
  "NeedsScaleDown currentReplicas desiredReplicas =
     (sint desiredReplicas < sint currentReplicas \<and> sint desiredReplicas \<ge> 0)"

definition NeedsScaleUp :: "i32 \<Rightarrow> i32 \<Rightarrow> bool" where
  "NeedsScaleUp currentReplicas desiredReplicas = (sint desiredReplicas > sint currentReplicas)"

definition CalculateScaleDownAmount :: "i32 \<Rightarrow> i32 \<Rightarrow> i32" where
  "CalculateScaleDownAmount currentReplicas desiredReplicas =
     (if sint desiredReplicas \<ge> sint currentReplicas then 0 else currentReplicas - desiredReplicas)"

subsection \<open>Lemmas\<close>

lemma sint_pred: "- (2 ^ 31) < sint i \<Longrightarrow> sint (i - 1 :: i32) = sint i - 1"
  using i32_upper [of i] by (subst sint_i32_diff) simp_all

lemma to_i32_sint [simp]: "to_i32 (sint w) = w"
  by (simp add: to_i32_def)

lemma sint_to_i32_nat: "n < 2 ^ 31 \<Longrightarrow> sint (to_i32 (int n)) = int n"
  by (rule sint_to_i32) simp_all

text \<open>The names in list form: ordinals counted down from the highest.\<close>

definition names_down :: "string \<Rightarrow> int \<Rightarrow> nat \<Rightarrow> string list" where
  "names_down stsName hi n = map (\<lambda>k. pod_name stsName (to_i32 (hi - int k))) [0..<n]"

lemma names_down_Suc:
  "names_down stsName hi (Suc n) = pod_name stsName (to_i32 hi) # names_down stsName (hi - 1) n"
  by (simp add: names_down_def upt_conv_Cons map_Suc_upt [symmetric] del: upt_Suc)
     (simp add: algebra_simps)

lemma target_pods_from_names:
  "- (2 ^ 31) < sint t \<Longrightarrow> target_pods_from s i t = names_down s (sint i) (nat (sint i - sint t + 1))"
proof (induction s i t rule: target_pods_from.induct)
  case (1 s i t)
  show ?case
  proof (cases "sint i < sint t")
    case True
    then show ?thesis
      by (simp add: target_pods_from.simps [of s i t] names_down_def)
  next
    case False
    then have lo: "- (2 ^ 31) < sint i" using "1.prems" by simp
    then have n: "nat (sint i - sint t + 1) = Suc (nat (sint (i - 1) - sint t + 1))"
      using False by (simp add: sint_pred)
    show ?thesis
      using False lo "1.IH" "1.prems"
      by (simp add: target_pods_from.simps [of s i t] n names_down_Suc) (simp add: sint_pred)
  qed
qed

text \<open>
  The replica counts of a StatefulSet are never negative, so counting down from
  \<open>current - 1\<close> does not wrap.
\<close>

lemma GetAllTargetPods_names:
  assumes "0 \<le> sint t" and "sint t \<le> sint c"
  shows "GetAllTargetPods s c t = names_down s (sint c - 1) (nat (sint c - sint t))"
proof (cases "sint c \<le> sint t")
  case True
  then show ?thesis using assms by (simp add: GetAllTargetPods_def names_down_def)
next
  case False
  then have "sint (c - 1) = sint c - 1" using assms by (simp add: sint_pred)
  then show ?thesis
    using False assms by (simp add: GetAllTargetPods_def target_pods_from_names)
qed

lemma pod_name_inject [simp]: "pod_name s i = pod_name s j \<longleftrightarrow> i = j"
proof
  assume "pod_name s i = pod_name s j"
  then have "sint i = sint j"
    by (simp add: pod_name_def show_i32_def show_int_inject in_i64_i32)
  then show "i = j" by (metis to_i32_sint)
qed simp

lemma GetNextTargetPod_index:
  assumes "0 \<le> sint t" and "0 \<le> sint d"
  shows "GetNextTargetPod s c t d =
    (if sint c - 1 - sint d < sint t then ([], 0, False)
     else (pod_name s (to_i32 (sint c - 1 - sint d)), to_i32 (sint c - 1 - sint d), True))"
proof (cases "sint c \<le> sint t")
  case True
  then show ?thesis using assms by (simp add: GetNextTargetPod_def)
next
  case False
  then have c1: "sint (c - 1) = sint c - 1" using assms by (simp add: sint_pred)
  have "sint (c - 1 - d) = sint c - 1 - sint d"
    using False assms i32_upper [of c] i32_upper [of d] c1 by (subst sint_i32_diff) simp_all
  then show ?thesis
    using False by (simp add: GetNextTargetPod_def Let_def) (metis to_i32_sint)
qed

subsection \<open>Properties\<close>

text \<open>
  draining one pod after another covers the scale-down: for a StatefulSet going from
  \<open>c\<close> to \<open>t\<close> replicas, the pod \<open>GetNextTargetPod\<close> gives after \<open>d\<close> drained pods is the
  \<open>d\<close>-th of \<open>GetAllTargetPods\<close>, it stops exactly when all are drained, the pods are
  distinct, and the first is the one \<open>DetectStatefulSetScaleDown\<close> targets.
\<close>

theorem target_pods_agree:
  assumes "0 \<le> sint t" and "sint t < sint c" and "sts_SpecReplicas sts = Some c"
  shows "let all = GetAllTargetPods (sts_Name sts) c t in
    length all = nat (sint c - sint t) \<and> distinct all \<and>
    (\<forall>d < length all. GetNextTargetPod (sts_Name sts) c t (to_i32 (int d))
        = (all ! d, to_i32 (sint c - 1 - int d), True)) \<and>
    GetNextTargetPod (sts_Name sts) c t (to_i32 (int (length all))) = ([], 0, False) \<and>
    sd_TargetPodName (DetectStatefulSetScaleDown (Some sts) t) = hd all"
proof -
  let ?s = "sts_Name sts" and ?n = "nat (sint c - sint t)"
  have all: "GetAllTargetPods ?s c t = names_down ?s (sint c - 1) ?n"
    using assms by (simp add: GetAllTargetPods_names)
  have small: "d \<le> ?n \<Longrightarrow> sint (to_i32 (int d)) = int d" for d
    using assms i32_upper [of c] by (intro sint_to_i32) simp_all
  have "distinct (names_down ?s (sint c - 1) ?n)"
    using assms i32_upper [of c]
    by (auto simp: names_down_def distinct_map intro!: inj_onI dest!: arg_cong [of _ _ sint]
        simp: sint_to_i32)
  moreover have "GetNextTargetPod ?s c t (to_i32 (int d))
      = (names_down ?s (sint c - 1) ?n ! d, to_i32 (sint c - 1 - int d), True)" if "d < ?n" for d
    using assms that small [of d] by (simp add: GetNextTargetPod_index names_down_def)
  moreover have "GetNextTargetPod ?s c t (to_i32 (int ?n)) = ([], 0, False)"
    using assms small [of ?n] by (simp add: GetNextTargetPod_index)
  moreover have "sd_TargetPodName (DetectStatefulSetScaleDown (Some sts) t) = hd (names_down ?s (sint c - 1) ?n)"
  proof -
    have "sint (c - 1) = sint c - 1"
      using assms by (simp add: sint_pred)
    then have "to_i32 (sint c - 1) = c - 1"
      using to_i32_sint [of "c - 1"] by simp
    moreover have "?n = Suc (?n - 1)" using assms by simp
    ultimately show ?thesis
      using assms names_down_Suc [of ?s "sint c - 1" "?n - 1"]
      by (simp add: DetectStatefulSetScaleDown_def Let_def)
  qed
  ultimately show ?thesis
    by (simp add: all Let_def) (simp add: names_down_def)
qed

definition example_sts :: "i32 \<Rightarrow> StatefulSet" where
  "example_sts n = \<lparr>sts_Name = ''idx'', sts_Namespace = ''ns'', sts_UID = ''u'', sts_MatchLabels = [],
     sts_SpecReplicas = Some n, sts_Replicas = n, sts_ReadyReplicas = n, sts_UpdatedReplicas = n,
     sts_CurrentRevision = ''a'', sts_UpdateRevision = ''a'', sts_Generation = 1, sts_ObservedGeneration = 1,
     sts_TemplateAnnotations = [], sts_Labels = [], sts_Annotations = [], sts_OwnerReferences = [],
     sts_Deleting = False, sts_PodManagementPolicy = ''Parallel'', sts_UpdateStrategy = ''OnDelete'', sts_MinReadySeconds = 30,
     sts_TemplateLabels = [], sts_PodSpec = empty_pod_spec\<rparr>"

theorem target_pods_agree_witness:
  "GetAllTargetPods ''idx'' 5 2 = [''idx-4'', ''idx-3'', ''idx-2''] \<and>
   distinct (GetAllTargetPods ''idx'' 5 2) \<and>
   GetNextTargetPod ''idx'' 5 2 (to_i32 3) = ([], 0, False) \<and>
   sd_TargetPodName (DetectStatefulSetScaleDown (Some (example_sts 5)) 2) = ''idx-4''"
proof -
  have all: "GetAllTargetPods ''idx'' 5 2 = [''idx-4'', ''idx-3'', ''idx-2'']"
    by code_simp
  show ?thesis
    using target_pods_agree [of 2 5 "example_sts 5"] all by (simp add: example_sts_def Let_def)
qed

text \<open>
  the ordinal of a pod of a StatefulSet is read back from its name: for every \<open>int32\<close>,
  parsing the name of the pod with that ordinal gives the ordinal, and a name that is not
  longer than the StatefulSet's prefix is an error.
\<close>

theorem GetPodOrdinalFromName_roundtrip:
  "GetPodOrdinalFromName (pod_name stsName i) stsName = Inr i \<and>
   (length podName \<le> length stsName + 1 \<longrightarrow> (\<exists>e. GetPodOrdinalFromName podName stsName = Inl e))"
proof
  have "pod_name stsName i = (stsName @ ''-'') @ show_i32 i"
    by (simp add: pod_name_def)
  moreover have "show_i32 i \<noteq> []" by (simp add: show_i32_def show_int_nonempty)
  ultimately show "GetPodOrdinalFromName (pod_name stsName i) stsName = Inr i"
    by (simp add: GetPodOrdinalFromName_def Let_def sscanf_i32_print [of "stsName @ ''-''", simplified])
qed (simp add: GetPodOrdinalFromName_def)

theorem GetPodOrdinalFromName_roundtrip_witness:
  "GetPodOrdinalFromName (pod_name ''idx'' 12) ''idx'' = Inr 12 \<and>
   (\<exists>e. GetPodOrdinalFromName ''idx-'' ''idx'' = Inl e)"
  using GetPodOrdinalFromName_roundtrip [of "''idx''" 12 "''idx-''"] by simp

end
