(* ===== verification/ClusterApi.thy ===== *)
theory ClusterApi
  imports ClusterWorld
begin

section \<open>The OpenSearch cluster API (internal/opensearch/api)\<close>

text \<open>
  The client's requests and the cluster operations built on them (\<open>client.go\<close>,
  \<open>cluster_api.go\<close>): each sends one HTTP request, turns a status other than 200 and a body
  that does not decode into errors, and computes its answer from the decoded body. The
  allocation exclusion is the cluster setting by which a drain asks OpenSearch to move the
  shards of a node elsewhere.
\<close>

definition OpenSearchAllocationExcludeNameKey :: string where
  "OpenSearchAllocationExcludeNameKey = ''cluster.routing.allocation.exclude._name''"

definition OpenSearchHealthGreen :: string where "OpenSearchHealthGreen = ''green''"
definition OpenSearchHealthRed :: string where "OpenSearchHealthRed = ''red''"

definition Client_Request :: "'s env \<Rightarrow> OSClient \<Rightarrow> string \<Rightarrow> string \<Rightarrow> json option \<Rightarrow> ('s, http_resp result) io" where
  "Client_Request E c method path body = do {
     r \<leftarrow> ask (e_http E c method path body);
     _ \<leftarrow> emit (EHttp c method path body r);
     ret r }"

definition Client_Get :: "'s env \<Rightarrow> OSClient \<Rightarrow> string \<Rightarrow> ('s, http_resp result) io" where
  "Client_Get E c path = Client_Request E c ''GET'' path None"

definition Client_Put :: "'s env \<Rightarrow> OSClient \<Rightarrow> string \<Rightarrow> json option \<Rightarrow> ('s, http_resp result) io" where
  "Client_Put E c path body = Client_Request E c ''PUT'' path body"

text \<open>
  The part every operation has: the status check, with the operation's own error text, and
  the decoding of the body.
\<close>

definition status_error :: "string \<Rightarrow> http_resp \<Rightarrow> gerror" where
  "status_error what resp =
     errorf (what @ '' failed with status '' @ show_int (hr_StatusCode resp) @ '': '' @ hr_Body resp)"

definition decode_with :: "string \<Rightarrow> string \<Rightarrow> (http_resp \<Rightarrow> 'a result) \<Rightarrow> http_resp \<Rightarrow> 'a result" where
  "decode_with what decodeErr decode resp =
     (if hr_StatusCode resp \<noteq> 200 then Inl (status_error what resp)
      else case decode resp of Inl e \<Rightarrow> Inl (wrapf decodeErr e) | Inr a \<Rightarrow> Inr a)"

definition GetClusterHealth :: "'s env \<Rightarrow> OSClient \<Rightarrow> ('s, ClusterHealth result) io" where
  "GetClusterHealth E c =
     try_io (Client_Get E c ''/_cluster/health'') (wrapf ''failed to get cluster health: '') (\<lambda>resp.
       ret (decode_with ''cluster health request'' ''failed to decode cluster health response: '' hr_health resp))"

definition IsClusterGreen :: "'s env \<Rightarrow> OSClient \<Rightarrow> ('s, bool result) io" where
  "IsClusterGreen E c = try_io (GetClusterHealth E c) id (\<lambda>health.
     ret (Inr (ch_Status health = OpenSearchHealthGreen)))"

definition settings_body :: "(string \<times> json) list \<Rightarrow> json" where
  "settings_body transient = JObj [(''transient'', JObj transient)]"

definition put_transient :: "'s env \<Rightarrow> OSClient \<Rightarrow> string \<Rightarrow> json \<Rightarrow> string \<Rightarrow> string \<Rightarrow> ('s, unit result) io" where
  "put_transient E c key v reqErr what =
     try_io (Client_Put E c ''/_cluster/settings'' (Some (settings_body [(key, v)]))) (wrapf reqErr) (\<lambda>resp.
       ret (if hr_StatusCode resp \<noteq> 200 then Inl (status_error what resp) else Inr ()))"

definition SetAllocationExclusion :: "'s env \<Rightarrow> OSClient \<Rightarrow> string \<Rightarrow> ('s, unit result) io" where
  "SetAllocationExclusion E c nodeName =
     put_transient E c OpenSearchAllocationExcludeNameKey (JStr nodeName)
       ''failed to set allocation exclusion: '' ''set allocation exclusion''"

definition ClearAllocationExclusion :: "'s env \<Rightarrow> OSClient \<Rightarrow> ('s, unit result) io" where
  "ClearAllocationExclusion E c =
     put_transient E c OpenSearchAllocationExcludeNameKey JNull
       ''failed to clear allocation exclusion: '' ''clear allocation exclusion''"

definition shards_path :: string where
  "shards_path = ''/_cat/shards?h=index,shard,prirep,state,node,docs,store&format=json''"

definition GetShardsOnNode :: "'s env \<Rightarrow> OSClient \<Rightarrow> string \<Rightarrow> ('s, ShardInfo list result) io" where
  "GetShardsOnNode E c nodeName =
     try_io (Client_Get E c shards_path) (wrapf ''failed to get shards: '') (\<lambda>resp.
       ret (case decode_with ''get shards'' ''failed to decode shards response: '' hr_shards resp of
           Inl e \<Rightarrow> Inl e
         | Inr allShards \<Rightarrow> Inr (filter (\<lambda>shard. si_Node shard = nodeName) allShards)))"

definition GetShardCount :: "'s env \<Rightarrow> OSClient \<Rightarrow> string \<Rightarrow> ('s, int result) io" where
  "GetShardCount E c nodeName = try_io (GetShardsOnNode E c nodeName) id (\<lambda>shards.
     ret (Inr (int (length shards))))"

text \<open>
  The wait is done by the server: \<open>int(timeout.Seconds())\<close> is sent along. \<open>Seconds\<close> is a
  \<open>float64\<close>; below \<open>2\<^sup>2\<^sup>2\<close> seconds (48 days) it is precise enough for its integer part to
  be the truncated quotient used here.
\<close>

definition WaitForNoRelocatingShards :: "'s env \<Rightarrow> OSClient \<Rightarrow> duration \<Rightarrow> ('s, unit result) io" where
  "WaitForNoRelocatingShards E c timeout =
     (let path = ''/_cluster/health?wait_for_no_relocating_shards=true&timeout='' @
                 show_i64 (go_div timeout second) @ ''s'' in
      try_io (Client_Get E c path) (wrapf ''failed to wait for no relocating shards: '') (\<lambda>resp.
        ret (case decode_with ''wait for no relocating shards'' ''failed to decode health response: '' hr_health resp of
            Inl e \<Rightarrow> Inl e
          | Inr health \<Rightarrow>
             if ch_TimedOut health then
               Inl (errorf (''timed out waiting for shard relocation, '' @ show_i64 (ch_RelocatingShards health) @
                 '' shards still relocating''))
             else Inr ())))"

definition GetClusterSettings :: "'s env \<Rightarrow> OSClient \<Rightarrow> bool \<Rightarrow> ('s, ClusterSettings result) io" where
  "GetClusterSettings E c includeDefaults =
     (let path = ''/_cluster/settings'' @ (if includeDefaults then ''?include_defaults=true'' else []) in
      try_io (Client_Get E c path) (wrapf ''failed to get cluster settings: '') (\<lambda>resp.
        ret (decode_with ''get cluster settings'' ''failed to decode cluster settings response: '' hr_settings resp)))"

text \<open>A \<open>ClusterSettingsUpdate\<close>: empty maps are left out of the request (\<open>omitempty\<close>).\<close>

record ClusterSettingsUpdate =
  csu_Persistent :: "(string \<times> json) list"
  csu_Transient :: "(string \<times> json) list"

definition update_body :: "ClusterSettingsUpdate \<Rightarrow> json" where
  "update_body u = JObj
     ((if csu_Persistent u = [] then [] else [(''persistent'', JObj (csu_Persistent u))]) @
      (if csu_Transient u = [] then [] else [(''transient'', JObj (csu_Transient u))]))"

definition PutClusterSettings ::
    "'s env \<Rightarrow> OSClient \<Rightarrow> ClusterSettingsUpdate option \<Rightarrow> ('s, ClusterSettings result) io" where
  "PutClusterSettings E c settings = (case settings of
     None \<Rightarrow> ret (Inl (errorf ''settings cannot be nil''))
   | Some u \<Rightarrow>
       try_io (Client_Put E c ''/_cluster/settings'' (Some (update_body u))) (wrapf ''failed to put cluster settings: '')
         (\<lambda>resp. ret (decode_with ''put cluster settings'' ''failed to decode cluster settings response: '' hr_settings resp)))"

definition setting_value :: "string \<Rightarrow> json" where
  "setting_value v = (if v = [] then JNull else JStr v)"

definition PutClusterSettingsFromMap ::
    "'s env \<Rightarrow> OSClient \<Rightarrow> labels \<Rightarrow> labels \<Rightarrow> ('s, ClusterSettings result) io" where
  "PutClusterSettingsFromMap E c persistent transient =
     PutClusterSettings E c (Some \<lparr>csu_Persistent = map (\<lambda>(k, v). (k, setting_value v)) persistent,
       csu_Transient = map (\<lambda>(k, v). (k, setting_value v)) transient\<rparr>)"

text \<open>
  The nested look-up \<open>cluster.routing.allocation.exclude._name\<close>, each step a type
  assertion that must succeed.
\<close>

definition json_field :: "(string \<times> json) list option \<Rightarrow> string \<Rightarrow> json option" where
  "json_field m k = (case m of None \<Rightarrow> None | Some kvs \<Rightarrow> map_of kvs k)"

definition exclusion_in :: "(string \<times> json) list option \<Rightarrow> string option" where
  "exclusion_in settings =
     (let cluster = json_obj (json_field settings ''cluster'');
          routing = json_obj (json_field cluster ''routing'');
          allocation = json_obj (json_field routing ''allocation'');
          exclude = json_obj (json_field allocation ''exclude'')
      in json_str (json_field exclude ''_name''))"

definition GetAllocationExclusion :: "'s env \<Rightarrow> OSClient \<Rightarrow> ('s, string result) io" where
  "GetAllocationExclusion E c = try_io (GetClusterSettings E c False) id (\<lambda>settings.
     ret (Inr (case exclusion_in (cs_Transient settings) of Some name \<Rightarrow> name
       | None \<Rightarrow> (case exclusion_in (cs_Persistent settings) of Some name \<Rightarrow> name | None \<Rightarrow> []))))"

definition HasRelocatingShards :: "'s env \<Rightarrow> OSClient \<Rightarrow> ('s, (bool \<times> i64) result) io" where
  "HasRelocatingShards E c = try_io (GetClusterHealth E c) id (\<lambda>health.
     ret (Inr (sint (ch_RelocatingShards health) > 0, ch_RelocatingShards health)))"

text \<open>Only the node's name is filled in from each row; the sizes keep their zero value.\<close>

record NodeDiskStats =
  nd_NodeName :: string
  nd_TotalBytes :: i64
  nd_UsedBytes :: i64
  nd_AvailBytes :: i64

definition GetNodesDiskStats :: "'s env \<Rightarrow> OSClient \<Rightarrow> ('s, NodeDiskStats list result) io" where
  "GetNodesDiskStats E c =
     try_io (Client_Get E c ''/_cat/allocation?h=node,disk.total,disk.used,disk.avail,disk.percent&format=json'')
       (wrapf ''failed to get node disk stats: '') (\<lambda>resp.
       ret (case decode_with ''get node disk stats'' ''failed to decode disk stats response: '' hr_rows resp of
           Inl e \<Rightarrow> Inl e
         | Inr rawStats \<Rightarrow> Inr (map (\<lambda>raw. \<lparr>nd_NodeName = label_get raw ''node'', nd_TotalBytes = 0,
             nd_UsedBytes = 0, nd_AvailBytes = 0\<rparr>) rawStats)))"

subsection \<open>What the server said\<close>

text \<open>
  Facts about answers in the log: a successful health or shard query of this client, as
  the drainers read it.
\<close>

fun saw_health :: "OSClient \<Rightarrow> (ClusterHealth \<Rightarrow> bool) \<Rightarrow> effect \<Rightarrow> bool" where
  "saw_health c P (EHttp c' m path b (Inr resp)) =
     (c' = c \<and> m = ''GET'' \<and> path = ''/_cluster/health'' \<and> hr_StatusCode resp = 200 \<and>
      (case hr_health resp of Inl e \<Rightarrow> False | Inr h \<Rightarrow> P h))"
| "saw_health c P e = False"

fun saw_shards :: "OSClient \<Rightarrow> (ShardInfo list \<Rightarrow> bool) \<Rightarrow> effect \<Rightarrow> bool" where
  "saw_shards c P (EHttp c' m path b (Inr resp)) =
     (c' = c \<and> m = ''GET'' \<and> path = shards_path \<and> hr_StatusCode resp = 200 \<and>
      (case hr_shards resp of Inl e \<Rightarrow> False | Inr ss \<Rightarrow> P ss))"
| "saw_shards c P e = False"

text \<open>Which effects are requests to OpenSearch, and which of them write.\<close>

fun is_os_read :: "OSClient \<Rightarrow> effect \<Rightarrow> bool" where
  "is_os_read c (EHttp c' m path b r) = (c' = c \<and> m = ''GET'')"
| "is_os_read c e = False"

fun sets_exclusion :: "OSClient \<Rightarrow> json \<Rightarrow> effect \<Rightarrow> bool" where
  "sets_exclusion c v (EHttp c' m path b r) =
     (c' = c \<and> m = ''PUT'' \<and> path = ''/_cluster/settings'' \<and>
      b = Some (settings_body [(OpenSearchAllocationExcludeNameKey, v)]))"
| "sets_exclusion c v e = False"

subsection \<open>A concrete world for examples\<close>

text \<open>
  A server that always gives the same health and shards and accepts every settings update,
  a clock that moves on by a second at each reading, one StatefulSet and no other object.
\<close>

definition sample_resp :: "ClusterHealth result \<Rightarrow> ShardInfo list result \<Rightarrow> http_resp" where
  "sample_resp h ss = \<lparr>hr_StatusCode = 200, hr_Body = [], hr_health = h, hr_shards = ss,
     hr_settings = Inr \<lparr>cs_Persistent = None, cs_Transient = None\<rparr>, hr_rows = Inr []\<rparr>"

definition sample_client :: OSClient where
  "sample_client = \<lparr>oc_baseURL = ''https://wz-indexer.ns.svc.cluster.local:9200'', oc_username = ''admin'', oc_password = ''pw'', oc_caCert = ''pem''\<rparr>"

definition sample_env :: "StatefulSet result \<Rightarrow> ClusterHealth result \<Rightarrow> ShardInfo list result \<Rightarrow> int env" where
  "sample_env sts h ss = dead_env\<lparr>e_now := (\<lambda>t. (t + 1000000000, t + 1000000000)),
     e_get_sts := (\<lambda>ns n t. (sts, t)), e_update_sts := (\<lambda>x t. (Inr (), t)),
     e_list_pods := (\<lambda>ns l t. (Inr [], t)), e_delete_pod := (\<lambda>p t. (Inr (), t)),
     e_get_secret := (\<lambda>ns n t. (Inr [(''admin-username'', ''admin''), (''admin-password'', ''pw''), (''ca.crt'', ''pem'')], t)),
     e_http := (\<lambda>c m p b t. (Inr (sample_resp h ss), t)),
     e_wazuh := (\<lambda>u a m p t. (Inl (errorf ''unreachable''), t))\<rparr>"

definition sample_world :: "int world" where
  "sample_world = new_world 0"

definition green_health :: ClusterHealth where
  "green_health = \<lparr>ch_Status = ''green'', ch_TimedOut = False, ch_NumberOfNodes = 3,
     ch_NumberOfDataNodes = 3, ch_RelocatingShards = 0, ch_InitializingShards = 0, ch_UnassignedShards = 0\<rparr>"

definition shard_on :: "string \<Rightarrow> ShardInfo" where
  "shard_on node = \<lparr>si_Index = ''logs'', si_Shard = ''0'', si_PriRep = ''p'', si_State = ''STARTED'', si_Node = node\<rparr>"

subsection \<open>Lemmas\<close>

lemmas sample_env_defs = sample_env_def dead_env_def sample_world_def new_world_def

lemma decode_with_Inr [simp]:
  "decode_with w d f resp = Inr a \<longleftrightarrow> hr_StatusCode resp = 200 \<and> f resp = Inr a"
  by (auto simp: decode_with_def split: sum.splits)

lemma logs_Request [logs]:
  "(\<And>r. P (EHttp c m path b r)) \<Longrightarrow> logs_only P (Client_Request E c m path b)"
  unfolding Client_Request_def by (intro logs)

text \<open>The queries only read.\<close>

lemma logs_reads [logs]:
  "logs_only (is_os_read c) (GetClusterHealth E c)"
  "logs_only (is_os_read c) (IsClusterGreen E c)"
  "logs_only (is_os_read c) (GetShardsOnNode E c node)"
  "logs_only (is_os_read c) (GetShardCount E c node)"
  "logs_only (is_os_read c) (GetAllocationExclusion E c)"
  "logs_only (is_os_read c) (HasRelocatingShards E c)"
  unfolding GetClusterHealth_def IsClusterGreen_def GetShardsOnNode_def GetShardCount_def
    GetAllocationExclusion_def GetClusterSettings_def HasRelocatingShards_def Client_Get_def Let_def
  by (intro logs; simp)+

lemma logs_writes [logs]:
  "logs_only (sets_exclusion c (JStr node)) (SetAllocationExclusion E c node)"
  "logs_only (sets_exclusion c JNull) (ClearAllocationExclusion E c)"
  unfolding SetAllocationExclusion_def ClearAllocationExclusion_def put_transient_def Client_Put_def
  by (intro logs; simp)+

text \<open>A successful query is backed by exactly one answer in the log.\<close>

lemma run_Get:
  "run_state (Client_Get E c path) w = (r, w') \<Longrightarrow>
    w_log w' = w_log w @ [EHttp c ''GET'' path None r]"
  by (auto simp: Client_Get_def Client_Request_def run_io split: prod.splits)

lemma GetClusterHealth_saw:
  assumes "run_state (GetClusterHealth E c) w = (Inr h, w')"
  obtains e where "w_log w' = w_log w @ [e]" and "saw_health c (\<lambda>h'. h' = h) e"
proof -
  obtain r w1 where run: "run_state (Client_Get E c ''/_cluster/health'') w = (r, w1)" by fastforce
  with assms obtain resp where r: "r = Inr resp" "hr_StatusCode resp = 200" "hr_health resp = Inr h" "w' = w1"
    by (cases r) (auto simp: GetClusterHealth_def run_io)
  with run_Get [OF run] show thesis
    by (intro that [of "EHttp c ''GET'' ''/_cluster/health'' None r"]) simp_all
qed

lemma HasRelocatingShards_saw:
  assumes "run_state (HasRelocatingShards E c) w = (Inr (b, n), w')"
  obtains e where "w_log w' = w_log w @ [e]"
    and "saw_health c (\<lambda>h. ch_RelocatingShards h = n) e" and "b = (sint n > 0)"
proof -
  obtain r w1 where run: "run_state (GetClusterHealth E c) w = (r, w1)" by fastforce
  with assms obtain h where h: "r = Inr h" "n = ch_RelocatingShards h" "b = (sint n > 0)" "w' = w1"
    by (cases r) (auto simp: HasRelocatingShards_def run_io)
  with run obtain e where "w_log w' = w_log w @ [e]" "saw_health c (\<lambda>h'. h' = h) e"
    by (metis GetClusterHealth_saw)
  with h show thesis
    by (intro that [of e]) (auto elim!: saw_health.elims split: sum.splits)
qed

lemma GetShardCount_saw:
  assumes "run_state (GetShardCount E c node) w = (Inr n, w')"
  obtains e where "w_log w' = w_log w @ [e]"
    and "saw_shards c (\<lambda>ss. int (length (filter (\<lambda>s. si_Node s = node) ss)) = n) e"
proof -
  obtain r w1 where run: "run_state (Client_Get E c shards_path) w = (r, w1)" by fastforce
  with assms obtain resp ss where "r = Inr resp" "hr_StatusCode resp = 200" "hr_shards resp = Inr ss"
      "n = int (length (filter (\<lambda>s. si_Node s = node) ss))" "w' = w1"
    by (cases r) (auto simp: GetShardCount_def GetShardsOnNode_def run_io split: sum.splits)
  with run_Get [OF run] show thesis
    by (intro that [of "EHttp c ''GET'' shards_path None r"]) simp_all
qed

end
