(* ===== verification/GoRegexp.thy ===== *)
theory GoRegexp
  imports Prelude
begin

section \<open>Anchored regular expressions, as the validators use them\<close>

text \<open>
  Go's \<open>regexp.MatchString\<close> for expressions of the form \<open>^r$\<close>: the whole text belongs to the
  language of \<open>r\<close>. An expression is a value of \<open>rx\<close>, transcribed from the source, and
  matching is by derivatives, which evaluates; \<open>rx_match_lang\<close> says that it decides the
  language.
\<close>

datatype rx = RZero | ROne | RClass "(char \<times> char) list" | RAlt rx rx | RSeq rx rx | RStar rx

definition rx_opt :: "rx \<Rightarrow> rx" where
  "rx_opt r = RAlt ROne r"

definition rx_lit :: "char \<Rightarrow> rx" where
  "rx_lit c = RClass [(c, c)]"

definition in_class :: "(char \<times> char) list \<Rightarrow> char \<Rightarrow> bool" where
  "in_class ranges c = list_ex (\<lambda>(a, b). (of_char a :: nat) \<le> of_char c \<and> (of_char c :: nat) \<le> of_char b) ranges"

fun nullable :: "rx \<Rightarrow> bool" where
  "nullable RZero = False"
| "nullable ROne = True"
| "nullable (RClass cs) = False"
| "nullable (RAlt r s) = (nullable r \<or> nullable s)"
| "nullable (RSeq r s) = (nullable r \<and> nullable s)"
| "nullable (RStar r) = True"

text \<open>Sequence and alternative that drop the parts that cannot match.\<close>

fun rseq :: "rx \<Rightarrow> rx \<Rightarrow> rx" where
  "rseq RZero s = RZero"
| "rseq ROne s = s"
| "rseq r s = (if s = RZero then RZero else RSeq r s)"

fun ralt :: "rx \<Rightarrow> rx \<Rightarrow> rx" where
  "ralt RZero s = s"
| "ralt r s = (if s = RZero \<or> r = s then r else RAlt r s)"

fun deriv :: "char \<Rightarrow> rx \<Rightarrow> rx" where
  "deriv c RZero = RZero"
| "deriv c ROne = RZero"
| "deriv c (RClass cs) = (if in_class cs c then ROne else RZero)"
| "deriv c (RAlt r s) = ralt (deriv c r) (deriv c s)"
| "deriv c (RSeq r s) = (if nullable r then ralt (rseq (deriv c r) s) (deriv c s) else rseq (deriv c r) s)"
| "deriv c (RStar r) = rseq (deriv c r) (RStar r)"

definition rx_match :: "rx \<Rightarrow> string \<Rightarrow> bool" where
  "rx_match r s = nullable (foldl (\<lambda>q c. deriv c q) r s)"

subsection \<open>The language of an expression\<close>

inductive matches :: "rx \<Rightarrow> string \<Rightarrow> bool" where
  m_one: "matches ROne []"
| m_class: "in_class cs c \<Longrightarrow> matches (RClass cs) [c]"
| m_altl: "matches r u \<Longrightarrow> matches (RAlt r s) u"
| m_altr: "matches s u \<Longrightarrow> matches (RAlt r s) u"
| m_seq: "matches r u \<Longrightarrow> matches s v \<Longrightarrow> matches (RSeq r s) (u @ v)"
| m_nil: "matches (RStar r) []"
| m_star: "matches r u \<Longrightarrow> matches (RStar r) v \<Longrightarrow> matches (RStar r) (u @ v)"

inductive_simps matches_simps [simp]:
  "matches RZero u" "matches ROne u" "matches (RClass cs) u" "matches (RAlt r s) u"

inductive_cases matches_seqE: "matches (RSeq r s) u"

lemma matches_seq: "matches (RSeq r s) w \<longleftrightarrow> (\<exists>u v. w = u @ v \<and> matches r u \<and> matches s v)"
  by (auto intro: matches.intros elim!: matches_seqE)

lemma matches_rseq [simp]: "matches (rseq r s) u = matches (RSeq r s) u"
  by (cases r) (auto simp: matches_seq)

lemma matches_ralt [simp]: "matches (ralt r s) u = matches (RAlt r s) u"
  by (cases r) auto

lemma matches_Nil: "matches r [] \<longleftrightarrow> nullable r"
  by (induction r) (auto simp: matches_seq intro: matches.intros)

text \<open>A non-empty text of a star starts with a non-empty text of its body.\<close>

lemma matches_star_Cons:
  "matches (RStar r) (c # w) \<longleftrightarrow> (\<exists>u v. w = u @ v \<and> matches r (c # u) \<and> matches (RStar r) v)"
proof
  assume "matches (RStar r) (c # w)"
  then show "\<exists>u v. w = u @ v \<and> matches r (c # u) \<and> matches (RStar r) v"
  proof (induction "RStar r" "c # w" rule: matches.induct)
    case (m_star u v)
    show ?case
    proof (cases u)
      case Nil
      then show ?thesis using m_star by simp
    next
      case (Cons d u')
      then show ?thesis using m_star by auto
    qed
  qed
next
  assume "\<exists>u v. w = u @ v \<and> matches r (c # u) \<and> matches (RStar r) v"
  then obtain u v where "w = u @ v" "matches r (c # u)" "matches (RStar r) v" by blast
  then show "matches (RStar r) (c # w)" using matches.m_star [of r "c # u" v] by simp
qed

lemma matches_seq_Cons:
  "matches (RSeq r s) (c # w) \<longleftrightarrow>
    (nullable r \<and> matches s (c # w)) \<or> (\<exists>u v. w = u @ v \<and> matches r (c # u) \<and> matches s v)"
  by (auto simp: matches_seq Cons_eq_append_conv matches_Nil [symmetric])

lemma matches_class_seq: "matches (RSeq (RClass a) s) (c # w) \<longleftrightarrow> in_class a c \<and> matches s w"
  by (auto simp: matches_seq_Cons)

lemma matches_seq_class: "matches (RSeq r (RClass a)) (v @ [d]) \<longleftrightarrow> matches r v \<and> in_class a d"
  by (auto simp: matches_seq)

lemma matches_deriv: "matches (deriv c r) w = matches r (c # w)"
proof (induction r arbitrary: w)
  case (RSeq r s)
  then show ?case by (auto simp: matches_seq [of "deriv c r"] matches_seq_Cons)
next
  case (RStar r)
  then show ?case by (simp add: matches_seq [of "deriv c r"] matches_star_Cons)
qed auto

lemma rx_match_lang: "rx_match r s \<longleftrightarrow> matches r s"
  by (induction s arbitrary: r) (simp_all add: rx_match_def matches_deriv matches_Nil)

subsection \<open>Stars of classes and separated lists\<close>

lemma matches_star_class: "matches (RStar (RClass cs)) w \<longleftrightarrow> list_all (in_class cs) w"
  by (induction w) (auto simp: matches_star_Cons intro: matches.intros)

lemma list_all_butlast_last: "w \<noteq> [] \<Longrightarrow> list_all P w \<longleftrightarrow> list_all P (butlast w) \<and> P (last w)"
  by (induction w) auto

text \<open>\<open>a(b*a)?\<close>: starts and ends in \<open>a\<close>, with \<open>b\<close> between.\<close>

definition rx_word :: "(char \<times> char) list \<Rightarrow> (char \<times> char) list \<Rightarrow> rx" where
  "rx_word a b = RSeq (RClass a) (rx_opt (RSeq (RStar (RClass b)) (RClass a)))"

definition is_word :: "(char \<times> char) list \<Rightarrow> (char \<times> char) list \<Rightarrow> string \<Rightarrow> bool" where
  "is_word a b w = (w \<noteq> [] \<and> in_class a (hd w) \<and> in_class a (last w) \<and> list_all (in_class b) w)"

lemma matches_word:
  assumes "\<And>c. in_class a c \<Longrightarrow> in_class b c"
  shows "matches (rx_word a b) w \<longleftrightarrow> is_word a b w"
proof (cases w)
  case Nil
  then show ?thesis by (auto simp: rx_word_def is_word_def matches_seq)
next
  case (Cons c u)
  show ?thesis
  proof (cases u rule: rev_cases)
    case Nil
    then show ?thesis
      using Cons assms by (auto simp: rx_word_def rx_opt_def is_word_def matches_class_seq matches_Nil)
  next
    case (snoc v d)
    then show ?thesis
      using Cons assms
      by (auto simp: rx_word_def rx_opt_def is_word_def matches_class_seq matches_seq_class matches_star_class)
  qed
qed

text \<open>\<open>w(\.w)*\<close>: the parts between the separators all belong to \<open>w\<close>.\<close>

definition rx_list :: "rx \<Rightarrow> char \<Rightarrow> rx" where
  "rx_list r sep = RSeq r (RStar (RSeq (rx_lit sep) r))"

lemma in_class_lit [simp]: "in_class [(c, c)] d \<longleftrightarrow> d = c"
  using of_char_eq_iff by (auto simp: in_class_def)

lemma matches_sep: "matches (RSeq (rx_lit sep) r) (c # w) \<longleftrightarrow> c = sep \<and> matches r w"
  by (simp add: rx_lit_def matches_class_seq)

lemma matches_sep_star:
  assumes free: "\<And>u. matches r u \<Longrightarrow> sep \<notin> set u"
  shows "matches (RStar (RSeq (rx_lit sep) r)) w \<longleftrightarrow>
    w = [] \<or> (\<exists>v. w = sep # v \<and> list_all (matches r) (split_on sep v))"
proof (induction "length w" arbitrary: w rule: less_induct)
  case less
  show ?case
  proof (cases w)
    case Nil
    then show ?thesis by (simp add: matches.m_nil)
  next
    case (Cons c v)
    have "matches (RStar (RSeq (rx_lit sep) r)) (c # v) \<longleftrightarrow>
        c = sep \<and> (\<exists>u x. v = u @ x \<and> matches r u \<and> matches (RStar (RSeq (rx_lit sep) r)) x)"
      by (auto simp: matches_star_Cons matches_sep)
    also have "\<dots> \<longleftrightarrow> c = sep \<and> (\<exists>u x. v = u @ x \<and> matches r u \<and>
        (x = [] \<or> (\<exists>y. x = sep # y \<and> list_all (matches r) (split_on sep y))))"
    proof -
      have "matches (RStar (RSeq (rx_lit sep) r)) x \<longleftrightarrow>
          x = [] \<or> (\<exists>y. x = sep # y \<and> list_all (matches r) (split_on sep y))" if "v = u @ x" for u x
        using less [of x] Cons that by simp
      then show ?thesis by blast
    qed
    also have "\<dots> \<longleftrightarrow> c = sep \<and> list_all (matches r) (split_on sep v)"
    proof (cases "sep \<in> set v")
      case True
      then obtain u y where v: "v = u @ sep # y" "sep \<notin> set u" by (meson split_list_first)
      have "u' = u \<and> y' = y" if "v = u' @ sep # y'" "matches r u'" for u' y'
        using that v free append_eq_marker [of sep u' u y' y] by auto
      moreover have "split_on sep v = u # split_on sep y"
        using v by (simp add: split_on_append split_on_free)
      moreover have "\<not> matches r (u @ sep # y)"
        using free by fastforce
      ultimately show ?thesis using v by auto
    next
      case False
      then show ?thesis by (auto simp: split_on_free)
    qed
    finally show ?thesis using Cons by auto
  qed
qed

lemma matches_list:
  assumes free: "\<And>u. matches r u \<Longrightarrow> sep \<notin> set u"
  shows "matches (rx_list r sep) w \<longleftrightarrow> list_all (matches r) (split_on sep w)"
proof -
  have "matches (rx_list r sep) w \<longleftrightarrow> matches (RStar (RSeq (rx_lit sep) r)) (sep # w)"
    by (simp add: rx_list_def matches_seq [of r] matches_star_Cons matches_sep)
  then show ?thesis by (simp add: matches_sep_star [OF free])
qed

end
