(* ===== verification/Naming.thy ===== *)
theory Naming
  imports GoRegexp
begin

section \<open>Resource names, DNS names and certificate names\<close>

text \<open>
  \<^item> pkg/dns/domain.go: the configured cluster domain, its validation and the fully qualified
    names built from it. The package's variables are a record; a call before \<open>Initialize\<close>
    panics, which is the value \<open>None\<close>. The functions below take the domain that
    \<open>ClusterDomain\<close> returns as their first argument.
  \<^item> pkg/constants/names.go: the names of the objects of a cluster.
  \<^item> internal/certificates/sans: the names a certificate is issued for.
  The lemmas relate the three: which pods a certificate covers, and which it does not.
\<close>

subsection \<open>The cluster domain\<close>

record dns_state =
  dns_clusterDomain :: string
  dns_initialized :: bool

definition DefaultClusterDomain :: string where
  "DefaultClusterDomain = ''cluster.local''"

definition alnum :: "(char \<times> char) list" where
  "alnum = [(CHR ''a'', CHR ''z''), (CHR ''0'', CHR ''9'')]"

definition alnum_dash :: "(char \<times> char) list" where
  "alnum_dash = [(CHR ''-'', CHR ''-''), (CHR ''a'', CHR ''z''), (CHR ''0'', CHR ''9'')]"

text \<open>\<open>^[a-z0-9]([-a-z0-9]*[a-z0-9])?(\.[a-z0-9]([-a-z0-9]*[a-z0-9])?)*$\<close>\<close>

definition domainRegex :: rx where
  "domainRegex = rx_list (rx_word alnum alnum_dash) CHR ''.''"

text \<open>
  \<open>%q\<close> on a label: the labels checked here consist of letters, digits and dashes, which are
  not escaped.
\<close>

fun check_labels :: "string list \<Rightarrow> unit result" where
  "check_labels [] = Inr ()"
| "check_labels (label # labels) =
     (if length label > 63 then
        Inl (errorf (''domain label '' @ [quote] @ label @ [quote] @ '' exceeds maximum length of 63 characters''))
      else if label = [] then Inl (errorf ''domain contains empty label (consecutive dots)'')
      else check_labels labels)"

definition ValidateDomain :: "string \<Rightarrow> unit result" where
  "ValidateDomain domain =
     (if domain = [] then Inl (errorf ''domain cannot be empty'')
      else if length domain > 253 then
        Inl (errorf (''domain exceeds maximum length of 253 characters (got '' @ show_int (int (length domain)) @ '')''))
      else if \<not> rx_match domainRegex domain then
        Inl (errorf ''domain must contain only lowercase letters, digits, hyphens, and dots, and must start and end with alphanumeric character'')
      else check_labels (split_on CHR ''.'' domain))"

text \<open>\<open>quoted\<close> is \<open>%q\<close> of the text of the environment variable.\<close>

definition InitializeWithDomain :: "(string \<Rightarrow> string) \<Rightarrow> string \<Rightarrow> dns_state \<Rightarrow> dns_state \<times> unit result" where
  "InitializeWithDomain quoted domain st = (case ValidateDomain domain of
     Inl e \<Rightarrow> (st, Inl (wrapf (''invalid cluster domain '' @ quoted domain @ '': '') e))
   | Inr u \<Rightarrow> (\<lparr>dns_clusterDomain = domain, dns_initialized = True\<rparr>, Inr ()))"

definition Initialize :: "(string \<Rightarrow> string) \<Rightarrow> string \<Rightarrow> dns_state \<Rightarrow> dns_state \<times> unit result" where
  "Initialize quoted envValue st =
     (if dns_initialized st then (st, Inr ())
      else let domain = (if envValue = [] then DefaultClusterDomain else envValue) in
        case ValidateDomain domain of
          Inl e \<Rightarrow> (st, Inl (wrapf (''invalid cluster domain '' @ quoted domain @ '': '') e))
        | Inr u \<Rightarrow> (\<lparr>dns_clusterDomain = domain, dns_initialized = True\<rparr>, Inr ()))"

definition Reset :: "dns_state \<Rightarrow> dns_state" where
  "Reset st = \<lparr>dns_clusterDomain = DefaultClusterDomain, dns_initialized = False\<rparr>"

definition IsInitialized :: "dns_state \<Rightarrow> bool" where
  "IsInitialized st = dns_initialized st"

definition ClusterDomain :: "dns_state \<Rightarrow> string option" where
  "ClusterDomain st = (if \<not> dns_initialized st then None else Some (dns_clusterDomain st))"

definition DNSSuffix :: "string \<Rightarrow> string" where
  "DNSSuffix domain = ''.svc.'' @ domain"

definition ServiceFQDN :: "string \<Rightarrow> string \<Rightarrow> string \<Rightarrow> string" where
  "ServiceFQDN domain serviceName namespace = serviceName @ ''.'' @ namespace @ ''.svc.'' @ domain"

definition PodFQDN :: "string \<Rightarrow> string \<Rightarrow> string \<Rightarrow> string \<Rightarrow> string" where
  "PodFQDN domain podName serviceName namespace =
     podName @ ''.'' @ serviceName @ ''.'' @ namespace @ ''.svc.'' @ domain"

definition HeadlessPodFQDN :: "string \<Rightarrow> string \<Rightarrow> string \<Rightarrow> string \<Rightarrow> string" where
  "HeadlessPodFQDN domain podName headlessService namespace = PodFQDN domain podName headlessService namespace"

definition WildcardServiceFQDN :: "string \<Rightarrow> string \<Rightarrow> string \<Rightarrow> string" where
  "WildcardServiceFQDN domain serviceName namespace = ''*.'' @ serviceName @ ''.'' @ namespace @ ''.svc.'' @ domain"

subsection \<open>Object names\<close>

definition IndexerName :: "string \<Rightarrow> string" where
  "IndexerName clusterName = clusterName @ ''-indexer''"

definition IndexerHeadlessName :: "string \<Rightarrow> string" where
  "IndexerHeadlessName clusterName = clusterName @ ''-indexer-headless''"

definition IndexerConfigName :: "string \<Rightarrow> string" where
  "IndexerConfigName clusterName = clusterName @ ''-indexer-config''"

definition IndexerCertsName :: "string \<Rightarrow> string" where
  "IndexerCertsName clusterName = clusterName @ ''-indexer-certs''"

definition IndexerSecurityName :: "string \<Rightarrow> string" where
  "IndexerSecurityName clusterName = clusterName @ ''-indexer-security''"

definition IndexerCredentialsName :: "string \<Rightarrow> string" where
  "IndexerCredentialsName clusterName = clusterName @ ''-indexer-credentials''"

definition IndexerMetricsName :: "string \<Rightarrow> string" where
  "IndexerMetricsName clusterName = clusterName @ ''-indexer-metrics''"

definition ManagerMasterName :: "string \<Rightarrow> string" where
  "ManagerMasterName clusterName = clusterName @ ''-manager-master''"

definition ManagerWorkersName :: "string \<Rightarrow> string" where
  "ManagerWorkersName clusterName = clusterName @ ''-manager-workers''"

definition ManagerWorkerName :: "string \<Rightarrow> string" where
  "ManagerWorkerName clusterName = clusterName @ ''-manager-worker''"

definition DashboardName :: "string \<Rightarrow> string" where
  "DashboardName clusterName = clusterName @ ''-dashboard''"

definition DashboardConfigName :: "string \<Rightarrow> string" where
  "DashboardConfigName clusterName = clusterName @ ''-dashboard-config''"

definition DashboardWazuhConfigSecretName :: "string \<Rightarrow> string" where
  "DashboardWazuhConfigSecretName clusterName = clusterName @ ''-dashboard-wazuh-config''"

definition DashboardCertsName :: "string \<Rightarrow> string" where
  "DashboardCertsName clusterName = clusterName @ ''-dashboard-certs''"

definition DashboardCAName :: "string \<Rightarrow> string" where
  "DashboardCAName clusterName = clusterName @ ''-dashboard-ca''"

definition DashboardAuthConfigName :: "string \<Rightarrow> string" where
  "DashboardAuthConfigName clusterName = clusterName @ ''-dashboard-auth-config''"

definition ManagerMasterCertsName :: "string \<Rightarrow> string" where
  "ManagerMasterCertsName clusterName = clusterName @ ''-manager-master-certs''"

definition ManagerWorkerCertsName :: "string \<Rightarrow> string" where
  "ManagerWorkerCertsName clusterName = clusterName @ ''-manager-worker-certs''"

definition FilebeatCertsName :: "string \<Rightarrow> string" where
  "FilebeatCertsName clusterName = clusterName @ ''-filebeat-certs''"

definition AdminCertsName :: "string \<Rightarrow> string" where
  "AdminCertsName clusterName = clusterName @ ''-admin-certs''"

definition ClusterKeyName :: "string \<Rightarrow> string" where
  "ClusterKeyName clusterName = clusterName @ ''-cluster-key''"

definition APICredentialsName :: "string \<Rightarrow> string" where
  "APICredentialsName clusterName = clusterName @ ''-api-credentials''"

definition FilebeatConfigName :: "string \<Rightarrow> string" where
  "FilebeatConfigName clusterName = clusterName @ ''-filebeat-config''"

definition ManagerSharedConfigName :: "string \<Rightarrow> string" where
  "ManagerSharedConfigName clusterName = clusterName @ ''-manager-shared-config''"

definition IndexerPodName :: "string \<Rightarrow> int \<Rightarrow> string" where
  "IndexerPodName clusterName ordinal = clusterName @ ''-indexer-'' @ show_int ordinal"

definition ManagerMasterPodName :: "string \<Rightarrow> int \<Rightarrow> string" where
  "ManagerMasterPodName clusterName ordinal = clusterName @ ''-manager-master-'' @ show_int ordinal"

definition ManagerWorkerPodName :: "string \<Rightarrow> int \<Rightarrow> string" where
  "ManagerWorkerPodName clusterName ordinal = clusterName @ ''-manager-workers-'' @ show_int ordinal"

definition ManagerCertsName :: "string \<Rightarrow> string \<Rightarrow> string" where
  "ManagerCertsName clusterName nodeType = clusterName @ ''-manager-'' @ nodeType @ ''-certs''"

definition ManagerConfigName :: "string \<Rightarrow> string \<Rightarrow> string" where
  "ManagerConfigName clusterName nodeType = clusterName @ ''-manager-'' @ nodeType @ ''-config''"

definition IndexerNodePoolName :: "string \<Rightarrow> string \<Rightarrow> string" where
  "IndexerNodePoolName clusterName poolName = clusterName @ ''-indexer-'' @ poolName"

definition IndexerNodePoolHeadlessName :: "string \<Rightarrow> string \<Rightarrow> string" where
  "IndexerNodePoolHeadlessName clusterName poolName = IndexerNodePoolName clusterName poolName @ ''-headless''"

definition IndexerNodePoolConfigName :: "string \<Rightarrow> string \<Rightarrow> string" where
  "IndexerNodePoolConfigName clusterName poolName = IndexerNodePoolName clusterName poolName @ ''-config''"

definition IndexerNodePoolPDBName :: "string \<Rightarrow> string \<Rightarrow> string" where
  "IndexerNodePoolPDBName clusterName poolName = IndexerNodePoolName clusterName poolName @ ''-pdb''"

definition IndexerNodePoolPodName :: "string \<Rightarrow> string \<Rightarrow> int \<Rightarrow> string" where
  "IndexerNodePoolPodName clusterName poolName ordinal =
     IndexerNodePoolName clusterName poolName @ ''-'' @ show_int ordinal"

definition IndexerServiceFQDN :: "string \<Rightarrow> string \<Rightarrow> string \<Rightarrow> string" where
  "IndexerServiceFQDN domain clusterName namespace = ServiceFQDN domain (clusterName @ ''-indexer'') namespace"

definition IndexerHeadlessServiceFQDN :: "string \<Rightarrow> string \<Rightarrow> string \<Rightarrow> string" where
  "IndexerHeadlessServiceFQDN domain clusterName namespace =
     ServiceFQDN domain (clusterName @ ''-indexer-headless'') namespace"

definition IndexerPodFQDN :: "string \<Rightarrow> string \<Rightarrow> string \<Rightarrow> int \<Rightarrow> string" where
  "IndexerPodFQDN domain clusterName namespace ordinal =
     PodFQDN domain (IndexerPodName clusterName ordinal) (clusterName @ ''-indexer-headless'') namespace"

definition ManagerMasterServiceFQDN :: "string \<Rightarrow> string \<Rightarrow> string \<Rightarrow> string" where
  "ManagerMasterServiceFQDN domain clusterName namespace =
     ServiceFQDN domain (clusterName @ ''-manager-master'') namespace"

definition ManagerWorkersServiceFQDN :: "string \<Rightarrow> string \<Rightarrow> string \<Rightarrow> string" where
  "ManagerWorkersServiceFQDN domain clusterName namespace =
     ServiceFQDN domain (clusterName @ ''-manager-workers'') namespace"

definition ManagerMasterPodFQDN :: "string \<Rightarrow> string \<Rightarrow> string \<Rightarrow> int \<Rightarrow> string" where
  "ManagerMasterPodFQDN domain clusterName namespace ordinal =
     PodFQDN domain (ManagerMasterPodName clusterName ordinal) (clusterName @ ''-manager-master'') namespace"

definition ManagerWorkerPodFQDN :: "string \<Rightarrow> string \<Rightarrow> string \<Rightarrow> int \<Rightarrow> string" where
  "ManagerWorkerPodFQDN domain clusterName namespace ordinal =
     PodFQDN domain (ManagerWorkerPodName clusterName ordinal) (clusterName @ ''-manager-workers'') namespace"

definition DashboardServiceFQDN :: "string \<Rightarrow> string \<Rightarrow> string \<Rightarrow> string" where
  "DashboardServiceFQDN domain clusterName namespace = ServiceFQDN domain (clusterName @ ''-dashboard'') namespace"

definition IndexerNodePoolHeadlessServiceFQDN :: "string \<Rightarrow> string \<Rightarrow> string \<Rightarrow> string \<Rightarrow> string" where
  "IndexerNodePoolHeadlessServiceFQDN domain clusterName poolName namespace =
     ServiceFQDN domain (IndexerNodePoolHeadlessName clusterName poolName) namespace"

definition IndexerNodePoolPodFQDN :: "string \<Rightarrow> string \<Rightarrow> string \<Rightarrow> string \<Rightarrow> int \<Rightarrow> string" where
  "IndexerNodePoolPodFQDN domain clusterName poolName namespace ordinal =
     PodFQDN domain (IndexerNodePoolPodName clusterName poolName ordinal)
       (IndexerNodePoolHeadlessName clusterName poolName) namespace"

subsection \<open>Certificate names\<close>

definition GenerateDashboardSANs :: "string \<Rightarrow> string \<Rightarrow> string \<Rightarrow> string list" where
  "GenerateDashboardSANs domain clusterName namespace =
     (let dashboardService = clusterName @ ''-dashboard'' in
      [''localhost'', dashboardService, dashboardService @ ''.'' @ namespace,
       dashboardService @ ''.'' @ namespace @ ''.svc'', ServiceFQDN domain dashboardService namespace])"

text \<open>The loop \<open>for i := int32(0); i < replicas; i++\<close>: the ordinals from 0 to \<open>replicas - 1\<close>.\<close>

definition pod_sans :: "(int \<Rightarrow> string) \<Rightarrow> (string \<Rightarrow> string) \<Rightarrow> i32 \<Rightarrow> string list" where
  "pod_sans podName fqdn replicas = concat (map (\<lambda>i. [podName i, fqdn (podName i)]) [0..sint replicas - 1])"

definition GenerateIndexerNodeSANs :: "string \<Rightarrow> string \<Rightarrow> string \<Rightarrow> i32 \<Rightarrow> string list" where
  "GenerateIndexerNodeSANs domain clusterName namespace replicas =
     (let indexerService = clusterName @ ''-indexer''; headlessService = clusterName @ ''-indexer-headless'' in
      [''localhost'', indexerService, indexerService @ ''.'' @ namespace,
       indexerService @ ''.'' @ namespace @ ''.svc'', ServiceFQDN domain indexerService namespace,
       WildcardServiceFQDN domain headlessService namespace]
      @ pod_sans (\<lambda>i. clusterName @ ''-indexer-'' @ show_int i)
          (\<lambda>pod. PodFQDN domain pod headlessService namespace) replicas)"

definition GenerateManagerNodeSANs :: "string \<Rightarrow> string \<Rightarrow> string \<Rightarrow> i32 \<Rightarrow> string list" where
  "GenerateManagerNodeSANs domain clusterName namespace workerReplicas =
     (let masterService = clusterName @ ''-manager-master''; workersService = clusterName @ ''-manager-workers'';
          masterPod = clusterName @ ''-manager-master-0'' in
      [''localhost'', masterService, masterService @ ''.'' @ namespace,
       masterService @ ''.'' @ namespace @ ''.svc'', ServiceFQDN domain masterService namespace,
       masterPod, PodFQDN domain masterPod masterService namespace,
       workersService, workersService @ ''.'' @ namespace,
       workersService @ ''.'' @ namespace @ ''.svc'', ServiceFQDN domain workersService namespace]
      @ pod_sans (\<lambda>i. clusterName @ ''-manager-workers-'' @ show_int i)
          (\<lambda>pod. PodFQDN domain pod workersService namespace) workerReplicas)"

definition GenerateFilebeatSANs :: "string \<Rightarrow> string \<Rightarrow> string \<Rightarrow> i32 \<Rightarrow> string list" where
  "GenerateFilebeatSANs domain clusterName namespace workerReplicas =
     (let masterService = clusterName @ ''-manager-master''; workersService = clusterName @ ''-manager-workers'';
          masterPod = clusterName @ ''-manager-master-0'' in
      [''localhost'', masterService, masterService @ ''.'' @ namespace,
       masterService @ ''.'' @ namespace @ ''.svc'', ServiceFQDN domain masterService namespace,
       masterPod, PodFQDN domain masterPod masterService namespace,
       workersService, workersService @ ''.'' @ namespace,
       workersService @ ''.'' @ namespace @ ''.svc'', ServiceFQDN domain workersService namespace]
      @ pod_sans (\<lambda>i. clusterName @ ''-manager-workers-'' @ show_int i)
          (\<lambda>pod. PodFQDN domain pod workersService namespace) workerReplicas)"

subsection \<open>Valid domains\<close>

text \<open>The labels of RFC 1123: letters, digits and inner dashes, at most 63 of them.\<close>

definition valid_label :: "string \<Rightarrow> bool" where
  "valid_label l = (is_word alnum alnum_dash l \<and> length l \<le> 63)"

lemma in_alnum_dash: "in_class alnum c \<Longrightarrow> in_class alnum_dash c"
  by (auto simp: alnum_def alnum_dash_def in_class_def)

lemma dot_not_in_word: "is_word alnum alnum_dash w \<Longrightarrow> CHR ''.'' \<notin> set w"
  by (auto simp: is_word_def list_all_iff alnum_dash_def in_class_def)

lemma domainRegex_labels: "rx_match domainRegex d \<longleftrightarrow> list_all (is_word alnum alnum_dash) (split_on CHR ''.'' d)"
proof -
  have word: "matches (rx_word alnum alnum_dash) w \<longleftrightarrow> is_word alnum alnum_dash w" for w
    by (rule matches_word) (rule in_alnum_dash)
  have "matches domainRegex d \<longleftrightarrow> list_all (matches (rx_word alnum alnum_dash)) (split_on CHR ''.'' d)"
    unfolding domainRegex_def by (rule matches_list) (auto simp: word dest: dot_not_in_word)
  then show ?thesis by (simp add: rx_match_lang word list_all_iff)
qed

lemma check_labels_ok: "check_labels ls = Inr () \<longleftrightarrow> list_all (\<lambda>l. l \<noteq> [] \<and> length l \<le> 63) ls"
  by (induction ls) auto

text \<open>
  A domain is accepted exactly when it is at most 253 characters long and each of its
  dot-separated labels is a valid one: 1 to 63 lower-case letters, digits and dashes, with
  no dash at either end.
\<close>

theorem ValidateDomain_rfc1123:
  "ValidateDomain domain = Inr () \<longleftrightarrow> length domain \<le> 253 \<and> list_all valid_label (split_on CHR ''.'' domain)"
proof -
  have ne: "list_all valid_label (split_on CHR ''.'' domain) \<longleftrightarrow>
      list_all (is_word alnum alnum_dash) (split_on CHR ''.'' domain) \<and>
      list_all (\<lambda>l. l \<noteq> [] \<and> length l \<le> 63) (split_on CHR ''.'' domain)"
    by (auto simp: valid_label_def is_word_def list_all_iff)
  have "domain = [] \<Longrightarrow> \<not> list_all valid_label (split_on CHR ''.'' domain)"
    by (simp add: valid_label_def is_word_def)
  then show ?thesis
    by (auto simp: ValidateDomain_def domainRegex_labels check_labels_ok ne)
qed

text \<open>
  Configuring the domain: a valid value (or none, for the default) is what every name is
  built from afterwards, an invalid one is refused and leaves the package uninitialised, and
  once initialised the domain never changes.
\<close>

theorem Initialize_domain:
  assumes "Initialize quoted envValue st = (st', r)"
  shows "(dns_initialized st \<longrightarrow> st' = st \<and> r = Inr ()) \<and>
    (\<not> dns_initialized st \<longrightarrow>
       (case r of Inl e \<Rightarrow> st' = st \<and> envValue \<noteq> [] \<and> ValidateDomain envValue \<noteq> Inr ()
        | Inr u \<Rightarrow> ClusterDomain st' = Some (if envValue = [] then ''cluster.local'' else envValue) \<and>
            (envValue \<noteq> [] \<longrightarrow> ValidateDomain envValue = Inr ())))"
proof -
  have "ValidateDomain ''cluster.local'' = Inr ()" by code_simp
  then show ?thesis
    using assms
    by (auto simp: Initialize_def Let_def DefaultClusterDomain_def ClusterDomain_def
        split: if_splits sum.splits)
qed

theorem Initialize_domain_witness:
  "let r = Initialize id ''k8s.example'' \<lparr>dns_clusterDomain = ''cluster.local'', dns_initialized = False\<rparr> in
   ClusterDomain (fst r) = Some ''k8s.example''"
proof -
  have ok: "ValidateDomain ''k8s.example'' = Inr ()" by code_simp
  obtain st' r where run: "Initialize id ''k8s.example'' \<lparr>dns_clusterDomain = ''cluster.local'', dns_initialized = False\<rparr> = (st', r)"
    by fastforce
  show ?thesis using Initialize_domain [OF run] ok run by (auto split: sum.splits)
qed

subsection \<open>Which pods a certificate covers\<close>

lemma pod_sans_in: "0 \<le> i \<Longrightarrow> i < sint n \<Longrightarrow> podName i \<in> set (pod_sans podName fqdn n) \<and>
    fqdn (podName i) \<in> set (pod_sans podName fqdn n)"
  by (force simp: pod_sans_def)

text \<open>
  The indexer certificate names every indexer pod: for each ordinal below the replica
  count, the pod's name and its fully qualified name are among the subject names.
\<close>

theorem indexer_sans_cover_pods:
  assumes "0 \<le> i" and "i < sint replicas"
  shows "IndexerPodName c i \<in> set (GenerateIndexerNodeSANs domain c ns replicas) \<and>
    IndexerPodFQDN domain c ns i \<in> set (GenerateIndexerNodeSANs domain c ns replicas)"
  using pod_sans_in [OF assms, of "\<lambda>i. c @ ''-indexer-'' @ show_int i"
      "\<lambda>pod. PodFQDN domain pod (c @ ''-indexer-headless'') ns"]
  by (simp add: GenerateIndexerNodeSANs_def IndexerPodName_def IndexerPodFQDN_def Let_def)

theorem indexer_sans_cover_pods_witness:
  "IndexerPodName ''w'' 2 \<in> set (GenerateIndexerNodeSANs ''cluster.local'' ''w'' ''ns'' 3)"
  using indexer_sans_cover_pods [of 2 3 "''w''" "''cluster.local''" "''ns''"] by simp

text \<open>
  The manager and the Filebeat certificates name no worker pod. The StatefulSet of the
  workers is called \<open><cluster>-manager-worker\<close>, so its pods are \<open><cluster>-manager-worker-i\<close>,
  but the subject names spell \<open><cluster>-manager-workers-i\<close>: neither a worker pod's name nor
  any name it is a label of is among them.
\<close>

theorem manager_sans_miss_workers:
  "ManagerWorkerName c @ ''-'' @ show_int i @ rest \<notin> set (GenerateManagerNodeSANs domain c ns replicas) \<and>
   ManagerWorkerName c @ ''-'' @ show_int i @ rest \<notin> set (GenerateFilebeatSANs domain c ns replicas)"
proof -
  have "ManagerWorkerName c @ ''-'' @ show_int i @ rest \<noteq> ''localhost''"
  proof
    assume "ManagerWorkerName c @ ''-'' @ show_int i @ rest = ''localhost''"
    then have "CHR ''-'' \<in> set ''localhost''"
      by (metis ManagerWorkerName_def in_set_conv_decomp_first append_assoc in_set_conv_decomp append_Cons)
    then show False by simp
  qed
  then show ?thesis
    by (auto simp: GenerateManagerNodeSANs_def GenerateFilebeatSANs_def pod_sans_def Let_def
        ManagerWorkerName_def PodFQDN_def ServiceFQDN_def)
qed

end
