(* ===== verification/IndexerDrain.thy ===== *)
theory IndexerDrain
  imports DrainDetection ClusterApi Naming
begin

section \<open>Draining an indexer node (internal/opensearch/drain)\<close>

text \<open>
  \<open>indexer_drain.go\<close>: the drainer that moves the shards off a node before it is removed,
  for a single node and for the nodes of a node pool, and the feasibility checks.
  \<open>shard_relocator.go\<close>: the relocation tracker. The drainer's own state (the shard count
  recorded at the start, the configured times) is a record threaded through.
\<close>

subsection \<open>The drainer\<close>

record DrainProgress =
  dp_Percent :: i32
  dp_ShardsRemaining :: i32
  dp_ShardsRelocating :: i32
  dp_Message :: string
  dp_IsComplete :: bool
  dp_Error :: "gerror option"

definition zero_progress :: DrainProgress where
  "zero_progress = \<lparr>dp_Percent = 0, dp_ShardsRemaining = 0, dp_ShardsRelocating = 0,
     dp_Message = [], dp_IsComplete = False, dp_Error = None\<rparr>"

record IndexerDrainer =
  idr_client :: "OSClient option"
  idr_timeout :: duration
  idr_healthCheckInterval :: duration
  idr_initialShardCount :: i32

definition DefaultIndexerDrainTimeout :: duration where
  "DefaultIndexerDrainTimeout = 30 * minute"

definition DefaultIndexerHealthCheckInterval :: duration where
  "DefaultIndexerHealthCheckInterval = 10 * second"

definition NewIndexerDrainer :: "OSClient option \<Rightarrow> IndexerDrainConfig option \<Rightarrow> IndexerDrainer" where
  "NewIndexerDrainer client config =
     \<lparr>idr_client = client,
      idr_timeout = (case config of None \<Rightarrow> DefaultIndexerDrainTimeout
        | Some cfg \<Rightarrow> (case idc_Timeout cfg of None \<Rightarrow> DefaultIndexerDrainTimeout | Some d \<Rightarrow> d)),
      idr_healthCheckInterval = (case config of None \<Rightarrow> DefaultIndexerHealthCheckInterval
        | Some cfg \<Rightarrow> (case idc_HealthCheckInterval cfg of None \<Rightarrow> DefaultIndexerHealthCheckInterval | Some d \<Rightarrow> d)),
      idr_initialShardCount = 0\<rparr>"

text \<open>
  A method call on a nil \<open>*api.Client\<close> dereferences it and panics; \<open>nil_client\<close> stands for
  that, as an error no branch of the code handles. Every drainer the reconcilers build has
  a client.
\<close>

definition nil_client :: gerror where
  "nil_client = errorf ''invalid memory address or nil pointer dereference''"

definition with_client :: "IndexerDrainer \<Rightarrow> (OSClient \<Rightarrow> ('s, 'a result) io) \<Rightarrow> ('s, 'a result) io" where
  "with_client d f = (case idr_client d of None \<Rightarrow> ret (Inl nil_client) | Some c \<Rightarrow> f c)"

definition IndexerDrainer_StartDrain ::
    "'s env \<Rightarrow> IndexerDrainer \<Rightarrow> string \<Rightarrow> ('s, IndexerDrainer \<times> unit result) io" where
  "IndexerDrainer_StartDrain E d nodeName = do {
     r \<leftarrow> with_client d (\<lambda>c. GetShardCount E c nodeName);
     case r of
       Inl e \<Rightarrow> ret (d, Inl (wrapf ''failed to get initial shard count: '' e))
     | Inr shardCount \<Rightarrow> do {
         let d' = d\<lparr>idr_initialShardCount := to_i32 shardCount\<rparr>;
         r2 \<leftarrow> with_client d' (\<lambda>c. SetAllocationExclusion E c nodeName);
         ret (d', case r2 of Inl e \<Rightarrow> Inl (wrapf ''failed to set allocation exclusion: '' e) | Inr u \<Rightarrow> Inr u) } }"

text \<open>
  The percentage is computed with \<open>int32\<close> arithmetic: it is negative when the node has more
  shards than at the start, and the product can wrap around.
\<close>

definition moved_percent :: "i32 \<Rightarrow> i32 \<Rightarrow> i32" where
  "moved_percent initial remaining =
     (if sint initial > 0 then go_div ((initial - remaining) * 100) initial else 100)"

definition finish_progress :: "i32 \<Rightarrow> bool \<Rightarrow> i32 \<Rightarrow> bool \<Rightarrow> i64 \<Rightarrow> string \<Rightarrow> string \<Rightarrow> string \<Rightarrow> DrainProgress" where
  "finish_progress initial none_left remaining hasRelocating relocatingCount doneMsg movingMsg waitMsg =
     (let complete = none_left \<and> \<not> hasRelocating in
      \<lparr>dp_Percent = (if complete then 100 else moved_percent initial remaining),
       dp_ShardsRemaining = remaining,
       dp_ShardsRelocating = to_i32 (sint relocatingCount),
       dp_Message = (if complete then doneMsg else if hasRelocating then movingMsg else waitMsg),
       dp_IsComplete = complete, dp_Error = None\<rparr>)"

definition MonitorProgress :: "'s env \<Rightarrow> IndexerDrainer \<Rightarrow> string \<Rightarrow> ('s, DrainProgress result) io" where
  "MonitorProgress E d nodeName =
     try_io (with_client d (\<lambda>c. GetShardCount E c nodeName)) (wrapf ''failed to get shard count: '') (\<lambda>shardCount.
     try_io (with_client d (\<lambda>c. HasRelocatingShards E c)) (wrapf ''failed to check relocating shards: '')
       (\<lambda>(hasRelocating, relocatingCount).
       ret (Inr (finish_progress (idr_initialShardCount d) (shardCount = 0) (to_i32 shardCount)
         hasRelocating relocatingCount
         ''All shards relocated successfully''
         (''Relocating shards: '' @ show_int shardCount @ '' remaining on node, '' @
            show_i64 relocatingCount @ '' currently relocating'')
         (''Waiting for shard relocation: '' @ show_int shardCount @ '' shards remaining on node'')))))"

definition VerifyComplete :: "'s env \<Rightarrow> IndexerDrainer \<Rightarrow> string \<Rightarrow> ('s, bool result) io" where
  "VerifyComplete E d nodeName =
     try_io (with_client d (\<lambda>c. GetShardCount E c nodeName)) (wrapf ''failed to verify drain completion: '') (\<lambda>shardCount.
     if shardCount > 0 then ret (Inr False)
     else try_io (with_client d (\<lambda>c. HasRelocatingShards E c)) (wrapf ''failed to check relocating shards: '')
       (\<lambda>(hasRelocating, n). ret (Inr (\<not> hasRelocating))))"

definition IndexerDrainer_CancelDrain :: "'s env \<Rightarrow> IndexerDrainer \<Rightarrow> ('s, unit result) io" where
  "IndexerDrainer_CancelDrain E d =
     try_io (with_client d (\<lambda>c. ClearAllocationExclusion E c)) (wrapf ''failed to clear allocation exclusion: '')
       (\<lambda>u. ret (Inr ()))"

subsection \<open>Feasibility\<close>

definition check_health :: "ClusterHealth \<Rightarrow> DryRunResult \<Rightarrow> DryRunResult" where
  "check_health health r0 =
     (let r1 = (if ch_Status health \<noteq> OpenSearchHealthGreen then
                  add_blocker (''Cluster health is '' @ ch_Status health @ '', must be '' @ OpenSearchHealthGreen @
                    '' before drain'') r0 else r0)
      in if sint (ch_NumberOfDataNodes health) < 2 then
           add_blocker ''Cannot drain: only one data node in cluster'' r1 else r1)"

text \<open>When the query failed, the Go variable \<open>shardCount\<close> holds 0.\<close>

definition check_shards :: "string \<Rightarrow> int result \<Rightarrow> DryRunResult \<Rightarrow> DryRunResult" where
  "check_shards nodeName shards r = (case shards of
     Inl e \<Rightarrow> add_warning (''Cannot determine shard count on '' @ nodeName @ '': '' @ text_of e) r
   | Inr n \<Rightarrow> if n = 0 then add_warning (''Node '' @ nodeName @ '' has no shards to relocate'') r else r)"

definition check_exclusion :: "string \<Rightarrow> string result \<Rightarrow> DryRunResult \<Rightarrow> DryRunResult" where
  "check_exclusion nodeName existing r = (case existing of
     Inl e \<Rightarrow> add_warning (''Cannot check existing allocation exclusion: '' @ text_of e) r
   | Inr name \<Rightarrow> if name \<noteq> [] \<and> name \<noteq> nodeName
       then add_blocker (''Another node ('' @ name @ '') is already excluded from allocation'') r else r)"

definition estimate_drain :: "int \<Rightarrow> duration" where
  "estimate_drain shardCount =
     (if shardCount > 0 then
        let estimatedSeconds = (word_of_int (shardCount * 30) :: i64) in
        (if sint estimatedSeconds < 60 then 60 else estimatedSeconds) * second
      else 30 * second)"

definition EvaluateFeasibility :: "'s env \<Rightarrow> IndexerDrainer \<Rightarrow> string \<Rightarrow> ('s, DryRunResult result) io" where
  "EvaluateFeasibility E d nodeName = do {
     now \<leftarrow> time_now E;
     let result = fresh_result now DrainComponentIndexer;
     h \<leftarrow> with_client d (\<lambda>c. GetClusterHealth E c);
     case h of
       Inl e \<Rightarrow> ret (Inr (add_blocker (''Cannot check cluster health: '' @ text_of e) result))
     | Inr health \<Rightarrow> do {
         shards \<leftarrow> with_client d (\<lambda>c. GetShardCount E c nodeName);
         existing \<leftarrow> with_client d (\<lambda>c. GetAllocationExclusion E c);
         let r = check_exclusion nodeName existing (check_shards nodeName shards (check_health health result));
         ret (Inr (r\<lparr>dr_EstimatedDuration := Some (estimate_drain (case shards of Inl e \<Rightarrow> 0 | Inr n \<Rightarrow> n))\<rparr>)) } }"

subsection \<open>Waiting for a drain\<close>

text \<open>
  \<open>WaitForDrainComplete\<close> polls on a ticker until the drain is complete, the timeout passes
  or its context ends. One list element is one iteration of the \<open>select\<close> loop: \<open>Inl e\<close>
  when the context has ended with \<open>e\<close>, \<open>Inr ()\<close> for a tick; running out of the list is
  \<open>None\<close>, a loop still waiting.
\<close>

fun wait_loop :: "'s env \<Rightarrow> IndexerDrainer \<Rightarrow> string \<Rightarrow> time \<Rightarrow> unit result list \<Rightarrow>
    ComponentDrainStatus option \<Rightarrow> ('s, (unit result \<times> ComponentDrainStatus option) option) io" where
  "wait_loop E d nodeName startTime [] status = ret None"
| "wait_loop E d nodeName startTime (Inl e # ticks) status = ret (Some (Inl e, status))"
| "wait_loop E d nodeName startTime (Inr u # ticks) status = do {
     now \<leftarrow> time_now E;
     if sint (time_sub now startTime) > sint (idr_timeout d) then
       ret (Some (Inl (errorf (''drain timeout after '' @ duration_string (idr_timeout d))), status))
     else do {
       r \<leftarrow> MonitorProgress E d nodeName;
       case r of
         Inl e \<Rightarrow> wait_loop E d nodeName startTime ticks status
       | Inr progress \<Rightarrow>
          (let status' = map_option (\<lambda>s. UpdateShardCount
                 (UpdateProgress s (dp_Percent progress) (dp_Message progress)) (dp_ShardsRemaining progress)) status
           in if dp_IsComplete progress then ret (Some (Inr (), status'))
              else wait_loop E d nodeName startTime ticks status') } }"

definition WaitForDrainComplete :: "'s env \<Rightarrow> IndexerDrainer \<Rightarrow> string \<Rightarrow> unit result list \<Rightarrow>
    ComponentDrainStatus option \<Rightarrow> ('s, (unit result \<times> ComponentDrainStatus option) option) io" where
  "WaitForDrainComplete E d nodeName ticks status = do {
     startTime \<leftarrow> time_now E;
     wait_loop E d nodeName startTime ticks status }"

subsection \<open>Node pools\<close>

record NodePoolScaleDownInfo =
  np_PoolName :: string
  np_Roles :: "string list"
  np_CurrentReplicas :: i32
  np_DesiredReplicas :: i32
  np_TargetPodNames :: "string list"

definition OpenSearchRoleData :: string where "OpenSearchRoleData = ''data''"
definition OpenSearchRoleClusterManager :: string where "OpenSearchRoleClusterManager = ''cluster_manager''"
definition OpenSearchRoleCoordinatingOnly :: string where "OpenSearchRoleCoordinatingOnly = ''coordinating_only''"
definition MinClusterManagerNodes :: i32 where "MinClusterManagerNodes = 3"

definition IsScaleDown :: "NodePoolScaleDownInfo \<Rightarrow> bool" where
  "IsScaleDown info = (sint (np_DesiredReplicas info) < sint (np_CurrentReplicas info))"

definition GetReplicasDelta :: "NodePoolScaleDownInfo \<Rightarrow> i32" where
  "GetReplicasDelta info = (if \<not> IsScaleDown info then 0 else np_CurrentReplicas info - np_DesiredReplicas info)"

definition HasRole :: "NodePoolScaleDownInfo \<Rightarrow> string \<Rightarrow> bool" where
  "HasRole info role = (role \<in> set (np_Roles info))"

definition HasDataRole :: "NodePoolScaleDownInfo \<Rightarrow> bool" where
  "HasDataRole info = HasRole info OpenSearchRoleData"

definition HasClusterManagerRole :: "NodePoolScaleDownInfo \<Rightarrow> bool" where
  "HasClusterManagerRole info = HasRole info OpenSearchRoleClusterManager"

definition IsCoordinatingOnly :: "NodePoolScaleDownInfo \<Rightarrow> bool" where
  "IsCoordinatingOnly info = list_all (\<lambda>r. r = OpenSearchRoleCoordinatingOnly) (np_Roles info)"

record NodePoolDrainResult =
  npr_NeedsDrain :: bool
  npr_SkipReason :: string
  npr_Feasible :: bool
  npr_Blockers :: "string list"
  npr_Warnings :: "string list"
  npr_TargetNodes :: "string list"

definition pool_block :: "string \<Rightarrow> NodePoolDrainResult \<Rightarrow> NodePoolDrainResult" where
  "pool_block b r = r\<lparr>npr_Feasible := False, npr_Blockers := npr_Blockers r @ [b]\<rparr>"

definition check_quorum :: "NodePoolScaleDownInfo \<Rightarrow> i32 \<Rightarrow> NodePoolDrainResult \<Rightarrow> NodePoolDrainResult" where
  "check_quorum info totalClusterManagers r =
     (if HasClusterManagerRole info then
        let newTotal = totalClusterManagers - GetReplicasDelta info in
        if sint newTotal < sint MinClusterManagerNodes then
          pool_block (''Scale-down would reduce cluster_manager nodes from '' @ show_i32 totalClusterManagers @
            '' to '' @ show_i32 newTotal @ '', below minimum quorum of '' @ show_i32 MinClusterManagerNodes) r
        else r
      else r)"

text \<open>
  In Go, when the health query fails the code goes on to read a field of the nil \<open>health\<close>
  pointer: the evaluation panics, which is \<open>None\<close> here.
\<close>

definition check_pool_health :: "ClusterHealth result \<Rightarrow> NodePoolDrainResult \<Rightarrow> NodePoolDrainResult option" where
  "check_pool_health h r = (case h of
     Inl e \<Rightarrow> None
   | Inr health \<Rightarrow>
      (let r1 = (if ch_Status health \<noteq> OpenSearchHealthGreen then
                   pool_block (''Cluster health is '' @ ch_Status health @ '', must be '' @ OpenSearchHealthGreen @
                     '' before drain'') r else r)
       in Some (if sint (ch_NumberOfDataNodes health) < 2 then
                  pool_block ''Cannot drain: only one data node in cluster'' r1 else r1)))"

definition EvaluateNodePoolScaleDown ::
    "'s env \<Rightarrow> IndexerDrainer \<Rightarrow> NodePoolScaleDownInfo \<Rightarrow> i32 \<Rightarrow> ('s, NodePoolDrainResult option) io" where
  "EvaluateNodePoolScaleDown E d info totalClusterManagers =
     (let result = \<lparr>npr_NeedsDrain = False, npr_SkipReason = [], npr_Feasible = True, npr_Blockers = [],
                    npr_Warnings = [], npr_TargetNodes = []\<rparr> in
      if \<not> IsScaleDown info then ret (Some (result\<lparr>npr_SkipReason := ''Not a scale-down operation''\<rparr>))
      else if IsCoordinatingOnly info then
        ret (Some (result\<lparr>npr_SkipReason := ''Coordinating-only nodes do not hold shards''\<rparr>))
      else
        let r1 = check_quorum info totalClusterManagers result in
        if HasDataRole info then
          let r2 = r1\<lparr>npr_NeedsDrain := True, npr_TargetNodes := np_TargetPodNames info\<rparr> in
          (case idr_client d of
             None \<Rightarrow> ret (Some r2)
           | Some c \<Rightarrow> do { h \<leftarrow> GetClusterHealth E c; ret (check_pool_health h r2) })
        else ret (Some (r1\<lparr>npr_SkipReason := ''NodePool does not have data role''\<rparr>)))"

text \<open>The loop \<open>for i := desiredReplicas; i < currentReplicas; i++\<close>: no wrap-around, since \<open>i\<close> stays below a count.\<close>

definition GetNodePoolScaleDownTargets :: "string \<Rightarrow> string \<Rightarrow> i32 \<Rightarrow> i32 \<Rightarrow> string list" where
  "GetNodePoolScaleDownTargets clusterName poolName currentReplicas desiredReplicas =
     (if sint desiredReplicas \<ge> sint currentReplicas then []
      else map (IndexerNodePoolPodName clusterName poolName) [sint desiredReplicas..sint currentReplicas - 1])"

fun sum_shards :: "'s env \<Rightarrow> IndexerDrainer \<Rightarrow> string list \<Rightarrow> i32 \<Rightarrow> ('s, i32) io" where
  "sum_shards E d [] acc = ret acc"
| "sum_shards E d (nodeName # nodes) acc = do {
     r \<leftarrow> with_client d (\<lambda>c. GetShardCount E c nodeName);
     sum_shards E d nodes (case r of Inl e \<Rightarrow> acc | Inr n \<Rightarrow> acc + to_i32 n) }"

fun exclude_each :: "'s env \<Rightarrow> IndexerDrainer \<Rightarrow> string list \<Rightarrow> ('s, unit result) io" where
  "exclude_each E d [] = ret (Inr ())"
| "exclude_each E d (nodeName # nodes) =
     try_io (with_client d (\<lambda>c. SetAllocationExclusion E c nodeName))
       (wrapf (''failed to set allocation exclusion for '' @ nodeName @ '': ''))
       (\<lambda>u. exclude_each E d nodes)"

definition StartNodePoolDrain ::
    "'s env \<Rightarrow> IndexerDrainer \<Rightarrow> string list \<Rightarrow> ('s, IndexerDrainer \<times> unit result) io" where
  "StartNodePoolDrain E d nodeNames =
     (if nodeNames = [] then ret (d, Inr ())
      else do {
        totalShards \<leftarrow> sum_shards E d nodeNames 0;
        let d' = d\<lparr>idr_initialShardCount := totalShards\<rparr>;
        r \<leftarrow> exclude_each E d' nodeNames;
        ret (d', r) })"

definition MonitorNodePoolDrainProgress ::
    "'s env \<Rightarrow> IndexerDrainer \<Rightarrow> string list \<Rightarrow> ('s, DrainProgress result) io" where
  "MonitorNodePoolDrainProgress E d nodeNames =
     (if nodeNames = [] then
        ret (Inr (zero_progress\<lparr>dp_IsComplete := True, dp_Percent := 100, dp_Message := ''No nodes to drain''\<rparr>))
      else do {
        totalRemaining \<leftarrow> sum_shards E d nodeNames 0;
        try_io (with_client d (\<lambda>c. HasRelocatingShards E c)) (wrapf ''failed to check relocating shards: '')
          (\<lambda>(hasRelocating, relocatingCount).
          ret (Inr (finish_progress (idr_initialShardCount d) (totalRemaining = 0) totalRemaining
            hasRelocating relocatingCount
            (''All shards relocated from '' @ show_int (int (length nodeNames)) @ '' nodes'')
            (''Relocating shards: '' @ show_i32 totalRemaining @ '' remaining on nodes, '' @
               show_i64 relocatingCount @ '' currently relocating'')
            (''Waiting for shard relocation: '' @ show_i32 totalRemaining @ '' shards remaining across '' @
               show_int (int (length nodeNames)) @ '' nodes'')))) })"

fun verify_each :: "'s env \<Rightarrow> IndexerDrainer \<Rightarrow> string list \<Rightarrow> ('s, bool result) io" where
  "verify_each E d [] =
     try_io (with_client d (\<lambda>c. HasRelocatingShards E c)) (wrapf ''failed to check relocating shards: '')
       (\<lambda>(hasRelocating, n). ret (Inr (\<not> hasRelocating)))"
| "verify_each E d (nodeName # nodes) =
     try_io (VerifyComplete E d nodeName) id (\<lambda>complete.
       if \<not> complete then ret (Inr False) else verify_each E d nodes)"

definition VerifyNodePoolDrainComplete :: "'s env \<Rightarrow> IndexerDrainer \<Rightarrow> string list \<Rightarrow> ('s, bool result) io" where
  "VerifyNodePoolDrainComplete E d nodeNames = verify_each E d nodeNames"

subsection \<open>The relocation tracker\<close>

text \<open>
  \<open>shard_relocator.go\<close>. The mutex only protects the fields; each method is one critical
  section, except \<open>GetProgress\<close>, which reads the initial shards and writes the state in two.
\<close>

datatype ShardRelocationState = RelocationStateIdle | RelocationStateActive | RelocationStateComplete
  | RelocationStateFailed | RelocationStateTimeout

record ShardRelocator =
  sr_client :: OSClient
  sr_nodeName :: string
  sr_initialShards :: "ShardInfo list"
  sr_startTime :: "time option"
  sr_state :: ShardRelocationState

record RelocationProgress =
  rp_TotalShards :: i32
  rp_RelocatedShards :: i32
  rp_RemainingShards :: i32
  rp_RelocatingShards :: i32
  rp_PercentComplete :: i32
  rp_Duration :: duration
  rp_IsComplete :: bool

definition NewShardRelocator :: "OSClient \<Rightarrow> string \<Rightarrow> ShardRelocator" where
  "NewShardRelocator client nodeName = \<lparr>sr_client = client, sr_nodeName = nodeName,
     sr_initialShards = [], sr_startTime = None, sr_state = RelocationStateIdle\<rparr>"

definition ShardRelocator_Start :: "'s env \<Rightarrow> ShardRelocator \<Rightarrow> ('s, ShardRelocator \<times> unit result) io" where
  "ShardRelocator_Start E r = do {
     q \<leftarrow> GetShardsOnNode E (sr_client r) (sr_nodeName r);
     case q of
       Inl e \<Rightarrow> ret (r, Inl (wrapf ''failed to get initial shards: '' e))
     | Inr shards \<Rightarrow> do {
         now \<leftarrow> time_now E;
         ret (r\<lparr>sr_initialShards := shards, sr_startTime := Some now, sr_state := RelocationStateActive\<rparr>, Inr ()) } }"

text \<open>
  \<open>time.Since\<close> of the zero time (a tracker never started) saturates at the largest
  duration; a tracker with initial shards has been started.
\<close>

definition since_start :: "time \<Rightarrow> time option \<Rightarrow> duration" where
  "since_start now t = (case t of None \<Rightarrow> word_of_int (2 ^ 63 - 1) | Some t0 \<Rightarrow> time_sub now t0)"

definition ShardRelocator_GetProgress ::
    "'s env \<Rightarrow> ShardRelocator \<Rightarrow> ('s, ShardRelocator \<times> RelocationProgress result) io" where
  "ShardRelocator_GetProgress E r =
     (let initialCount = int (length (sr_initialShards r)) in
      if initialCount = 0 then
        ret (r, Inr \<lparr>rp_TotalShards = 0, rp_RelocatedShards = 0, rp_RemainingShards = 0,
          rp_RelocatingShards = 0, rp_PercentComplete = 100, rp_Duration = 0, rp_IsComplete = True\<rparr>)
      else do {
        q \<leftarrow> GetShardsOnNode E (sr_client r) (sr_nodeName r);
        case q of
          Inl e \<Rightarrow> ret (r, Inl (wrapf ''failed to get current shards: '' e))
        | Inr currentShards \<Rightarrow> do {
            h \<leftarrow> HasRelocatingShards E (sr_client r);
            let relocatingCount = (case h of Inl e \<Rightarrow> 0 | Inr (b, n) \<Rightarrow> n);
            now \<leftarrow> time_now E;
            let current = int (length currentShards);
            let total_i = to_i32 initialCount;
            let relocated = to_i32 (initialCount - current);
            let complete = (current = 0 \<and> relocatingCount = 0);
            ret (if complete then r\<lparr>sr_state := RelocationStateComplete\<rparr> else r,
              Inr \<lparr>rp_TotalShards = total_i, rp_RelocatedShards = relocated, rp_RemainingShards = to_i32 current,
                rp_RelocatingShards = to_i32 (sint relocatingCount),
                rp_PercentComplete = go_div (relocated * 100) total_i,
                rp_Duration = since_start now (sr_startTime r), rp_IsComplete = complete\<rparr>) } })"

definition ShardRelocator_GetState :: "ShardRelocator \<Rightarrow> ShardRelocationState" where
  "ShardRelocator_GetState r = sr_state r"

definition ShardRelocator_SetFailed :: "ShardRelocator \<Rightarrow> ShardRelocator" where
  "ShardRelocator_SetFailed r = r\<lparr>sr_state := RelocationStateFailed\<rparr>"

definition ShardRelocator_SetTimeout :: "ShardRelocator \<Rightarrow> ShardRelocator" where
  "ShardRelocator_SetTimeout r = r\<lparr>sr_state := RelocationStateTimeout\<rparr>"

definition ShardRelocator_GetInitialShardCount :: "ShardRelocator \<Rightarrow> int" where
  "ShardRelocator_GetInitialShardCount r = int (length (sr_initialShards r))"

definition ShardRelocator_GetDuration :: "time \<Rightarrow> ShardRelocator \<Rightarrow> duration" where
  "ShardRelocator_GetDuration now r = since_start now (sr_startTime r)"

definition ShardRelocator_Reset :: "ShardRelocator \<Rightarrow> ShardRelocator" where
  "ShardRelocator_Reset r =
     r\<lparr>sr_initialShards := [], sr_startTime := None, sr_state := RelocationStateIdle\<rparr>"

subsection \<open>The exclusion in force\<close>

text \<open>
  What the cluster's allocation exclusion is after a log: each acknowledged settings update
  of the key replaces the whole value, and null removes it.
\<close>

definition put_exclusion :: "OSClient \<Rightarrow> effect \<Rightarrow> json option" where
  "put_exclusion c e = (case e of
     EHttp c' m path (Some b) (Inr resp) \<Rightarrow>
       if c' = c \<and> m = ''PUT'' \<and> path = ''/_cluster/settings'' \<and> hr_StatusCode resp = 200
       then json_field (json_obj (json_field (json_obj (Some b)) ''transient'')) OpenSearchAllocationExcludeNameKey
       else None
   | _ \<Rightarrow> None)"

definition exclusion_step :: "OSClient \<Rightarrow> string option \<Rightarrow> effect \<Rightarrow> string option" where
  "exclusion_step c cur e = (case put_exclusion c e of None \<Rightarrow> cur
     | Some (JStr name) \<Rightarrow> Some name | Some v \<Rightarrow> None)"

definition exclusion_in_force :: "OSClient \<Rightarrow> effect list \<Rightarrow> string option" where
  "exclusion_in_force c es = foldl (exclusion_step c) None es"

text \<open>A clock that every reading moves on by at least \<open>step\<close> and no HTTP call turns back.\<close>

definition steady_clock :: "'s env \<Rightarrow> ('s \<Rightarrow> time) \<Rightarrow> int \<Rightarrow> bool" where
  "steady_clock E clk step \<longleftrightarrow>
     (\<forall>s. clk s + step \<le> fst (e_now E s) \<and> clk (snd (e_now E s)) = fst (e_now E s)) \<and>
     (\<forall>c m p b s. clk s \<le> clk (snd (e_http E c m p b s)))"

subsection \<open>Lemmas\<close>

lemma with_client_Some [simp]: "idr_client d = Some c \<Longrightarrow> with_client d f = f c"
  by (simp add: with_client_def)

lemma logs_with_client [logs]: "(\<And>c. idr_client d = Some c \<Longrightarrow> logs_only P (f c)) \<Longrightarrow> logs_only P (with_client d f)"
  unfolding with_client_def by (simp add: logs_ret split: option.split)

lemma moved_percent_exact:
  assumes "0 < sint i" and "0 \<le> sint r" and "sint r \<le> sint i" and "sint i \<le> 21474836"
  shows "sint (moved_percent i r) = (sint i - sint r) * 100 div sint i"
proof -
  have d: "sint (i - r) = sint i - sint r"
    using assms by (subst sint_i32_diff) simp_all
  have m: "sint ((i - r) * 100) = (sint i - sint r) * 100"
    using assms d by (subst sint_i32_mult) simp_all
  have "0 \<le> (sint i - sint r) * 100 sdiv sint i" "(sint i - sint r) * 100 sdiv sint i \<le> 100"
    using percent_bounds [of "sint i - sint r" "sint i"] assms by simp_all
  then show ?thesis
    using assms m by (simp add: moved_percent_def go_div_def sint_of_int_in_range sdiv_nonneg)
qed

lemma moved_percent_bounds:
  assumes "0 \<le> sint r" and "sint r \<le> sint i" and "sint i \<le> 21474836"
  shows "0 \<le> sint (moved_percent i r) \<and> sint (moved_percent i r) \<le> 100"
proof (cases "0 < sint i")
  case True
  with percent_bounds [of "sint i - sint r" "sint i"] assms show ?thesis
    by (simp add: moved_percent_exact sdiv_nonneg)
qed (simp add: moved_percent_def)

lemma saw_shards_mono: "saw_shards c P e \<Longrightarrow> (\<And>ss. P ss \<Longrightarrow> Q ss) \<Longrightarrow> saw_shards c Q e"
  by (induction c P e rule: saw_shards.induct) (auto split: sum.splits)

lemma saw_health_mono: "saw_health c P e \<Longrightarrow> (\<And>h. P h \<Longrightarrow> Q h) \<Longrightarrow> saw_health c Q e"
  by (induction c P e rule: saw_health.induct) (auto split: sum.splits)

abbreviation no_shards :: "string \<Rightarrow> ShardInfo list \<Rightarrow> bool" where
  "no_shards node ss \<equiv> list_all (\<lambda>s. si_Node s \<noteq> node) ss"

abbreviation not_relocating :: "ClusterHealth \<Rightarrow> bool" where
  "not_relocating h \<equiv> sint (ch_RelocatingShards h) \<le> 0"

lemma count_none: "int (length (filter (\<lambda>s. si_Node s = node) ss)) \<le> 0 \<Longrightarrow> no_shards node ss"
  by (simp add: filter_empty_conv list_all_iff)

lemma VerifyComplete_saw:
  assumes c: "idr_client d = Some c" and run: "run_state (VerifyComplete E d node) w = (Inr True, w')"
  obtains e1 e2 where "w_log w' = w_log w @ [e1, e2]"
    and "saw_shards c (no_shards node) e1" and "saw_health c not_relocating e2"
proof -
  obtain r w1 where r: "run_state (GetShardCount E c node) w = (r, w1)" by fastforce
  obtain q w2 where q: "run_state (HasRelocatingShards E c) w1 = (q, w2)" by fastforce
  from run r q c obtain n m where "r = Inr n" "n \<le> 0" "q = Inr (False, m)" "w' = w2"
    by (auto simp: VerifyComplete_def run_io split: sum.splits if_splits prod.splits)
  with r q obtain e1 e2 where
      "w_log w1 = w_log w @ [e1]" "saw_shards c (\<lambda>ss. int (length (filter (\<lambda>s. si_Node s = node) ss)) = n) e1"
      "w_log w2 = w_log w1 @ [e2]" "saw_health c (\<lambda>h. ch_RelocatingShards h = m) e2" "False = (sint m > 0)"
    by (metis GetShardCount_saw HasRelocatingShards_saw)
  with \<open>n \<le> 0\<close> \<open>w' = w2\<close> show thesis
    by (intro that [of e1 e2]) (auto elim!: saw_shards_mono saw_health_mono intro: count_none)
qed

lemma MonitorProgress_saw:
  assumes c: "idr_client d = Some c" and run: "run_state (MonitorProgress E d node) w = (Inr p, w')"
  obtains e1 e2 n m where "w_log w' = w_log w @ [e1, e2]"
    and "saw_shards c (\<lambda>ss. int (length (filter (\<lambda>s. si_Node s = node) ss)) = n) e1"
    and "saw_health c (\<lambda>h. ch_RelocatingShards h = m) e2"
    and "dp_IsComplete p \<longleftrightarrow> n = 0 \<and> sint m \<le> 0"
    and "dp_Percent p = (if dp_IsComplete p then 100 else moved_percent (idr_initialShardCount d) (to_i32 n))"
    and "dp_ShardsRemaining p = to_i32 n"
proof -
  obtain r w1 where r: "run_state (GetShardCount E c node) w = (r, w1)" by fastforce
  obtain q w2 where q: "run_state (HasRelocatingShards E c) w1 = (q, w2)" by fastforce
  from run r q c obtain n b m where nm: "r = Inr n" "q = Inr (b, m)" "w' = w2"
      "dp_IsComplete p \<longleftrightarrow> n = 0 \<and> \<not> b"
      "dp_Percent p = (if dp_IsComplete p then 100 else moved_percent (idr_initialShardCount d) (to_i32 n))"
      "dp_ShardsRemaining p = to_i32 n"
    by (auto simp: MonitorProgress_def finish_progress_def Let_def run_io split: sum.splits prod.splits)
  with r q obtain e1 e2 where
      "w_log w1 = w_log w @ [e1]" "saw_shards c (\<lambda>ss. int (length (filter (\<lambda>s. si_Node s = node) ss)) = n) e1"
      "w_log w2 = w_log w1 @ [e2]" "saw_health c (\<lambda>h. ch_RelocatingShards h = m) e2" "b = (sint m > 0)"
    by (metis GetShardCount_saw HasRelocatingShards_saw)
  with nm show thesis by (intro that [of e1 e2 n m]) auto
qed

lemma logs_monitor [logs]:
  "idr_client d = Some c \<Longrightarrow> logs_only (is_os_read c) (MonitorProgress E d node)"
  "idr_client d = Some c \<Longrightarrow> logs_only (is_os_read c) (VerifyComplete E d node)"
  unfolding MonitorProgress_def VerifyComplete_def
  by (auto intro!: logs_try logs_if logs_ret logs_reads split: prod.split)

end
