(* ===== verification/IndexerDrainFacts.thy ===== *)
theory IndexerDrainFacts
  imports IndexerDrain
begin

section \<open>What the indexer drainer guarantees\<close>

text \<open>
  The properties of the drainer of \<open>IndexerDrain\<close>: a node is reported drained only on the
  server's word, progress is a percentage, feasibility checks never write, the waiting loop
  ends, the quorum check keeps the cluster managers, and the exclusion left by a node pool
  drain.
\<close>

subsection \<open>Lemmas\<close>

lemma feasible_iff_step:
  assumes "dr_Feasible r \<longleftrightarrow> dr_Blockers r = []"
  shows "dr_Feasible (add_blocker b r) \<longleftrightarrow> dr_Blockers (add_blocker b r) = []"
    and "dr_Feasible (add_warning m r) \<longleftrightarrow> dr_Blockers (add_warning m r) = []"
    and "dr_Feasible (check_health h r) \<longleftrightarrow> dr_Blockers (check_health h r) = []"
    and "dr_Feasible (check_shards n sh r) \<longleftrightarrow> dr_Blockers (check_shards n sh r) = []"
    and "dr_Feasible (check_exclusion n ex r) \<longleftrightarrow> dr_Blockers (check_exclusion n ex r) = []"
  using assms
  by (simp_all add: add_blocker_def add_warning_def check_health_def check_shards_def check_exclusion_def
      Let_def split: sum.splits)

lemma feasible_checks:
  "dr_Feasible (check_health h r) \<Longrightarrow> ch_Status h = OpenSearchHealthGreen \<and> 2 \<le> sint (ch_NumberOfDataNodes h)"
  "dr_Feasible (check_shards n sh r) \<Longrightarrow> dr_Feasible r"
  "dr_Feasible (check_exclusion n ex r) \<Longrightarrow> dr_Feasible r \<and> (\<forall>name. ex = Inr name \<longrightarrow> name \<in> {[], n})"
  by (auto simp: add_blocker_def add_warning_def check_health_def check_shards_def check_exclusion_def
      Let_def split: sum.splits if_splits)

lemma EvaluateFeasibility_result:
  assumes c: "idr_client d = Some c" and run: "run_state (EvaluateFeasibility E d node) w = (r, w')"
  obtains res es where "r = Inr res" and "dr_Feasible res \<longleftrightarrow> dr_Blockers res = []"
    and "w_log w' = w_log w @ es" and "list_all (is_os_read c) es"
    and "dr_Feasible res \<Longrightarrow> list_ex (saw_health c
          (\<lambda>h. ch_Status h = OpenSearchHealthGreen \<and> 2 \<le> sint (ch_NumberOfDataNodes h))) es"
proof -
  obtain t w0 where t: "run_state (time_now E) w = (t, w0)" by fastforce
  then have w0: "w_log w0 = w_log w"
    by (auto simp: time_now_def run_ask split: prod.splits)
  obtain h w1 where h: "run_state (GetClusterHealth E c) w0 = (h, w1)" by fastforce
  obtain sh w2 where sh: "run_state (GetShardCount E c node) w1 = (sh, w2)" by fastforce
  obtain ex w3 where ex: "run_state (GetAllocationExclusion E c) w2 = (ex, w3)" by fastforce
  obtain e1 where e1: "w_log w1 = w_log w0 @ e1" "list_all (is_os_read c) e1"
    using logs_reads(1) h by (rule logs_onlyD)
  obtain e2 where e2: "w_log w2 = w_log w1 @ e2" "list_all (is_os_read c) e2"
    using logs_reads(4) sh by (rule logs_onlyD)
  obtain e3 where e3: "w_log w3 = w_log w2 @ e3" "list_all (is_os_read c) e3"
    using logs_reads(5) ex by (rule logs_onlyD)
  let ?r0 = "fresh_result t DrainComponentIndexer"
  have r0: "dr_Feasible ?r0 \<longleftrightarrow> dr_Blockers ?r0 = []" by (simp add: fresh_result_def)
  show thesis
  proof (cases h)
    case (Inl e)
    let ?res = "add_blocker (''Cannot check cluster health: '' @ text_of e) ?r0"
    have "r = Inr ?res" "w' = w1"
      using run t h c Inl by (auto simp: EvaluateFeasibility_def run_io Let_def)
    then show thesis
      using e1 w0 feasible_iff_step(1) [OF r0]
      by (intro that [of ?res e1]) (simp_all add: add_blocker_def)
  next
    case (Inr health)
    let ?rc = "check_exclusion node ex (check_shards node sh (check_health health ?r0))"
    let ?res = "?rc\<lparr>dr_EstimatedDuration := Some (estimate_drain (case sh of Inl e \<Rightarrow> 0 | Inr n \<Rightarrow> n))\<rparr>"
    have res: "r = Inr ?res" "w' = w3"
      using run t h sh ex c Inr by (auto simp: EvaluateFeasibility_def run_io Let_def)
    obtain e where e: "w_log w1 = w_log w0 @ [e]" "saw_health c (\<lambda>h'. h' = health) e"
      using h Inr by (metis GetClusterHealth_saw)
    have good: "dr_Feasible ?res \<Longrightarrow> ch_Status health = OpenSearchHealthGreen \<and> 2 \<le> sint (ch_NumberOfDataNodes health)"
    proof -
      assume "dr_Feasible ?res"
      then have "dr_Feasible ?rc" by simp
      then have "dr_Feasible (check_shards node sh (check_health health ?r0))"
        using feasible_checks(3) by blast
      then show ?thesis
        using feasible_checks(1) feasible_checks(2) by blast
    qed
    have "dr_Feasible ?rc \<longleftrightarrow> dr_Blockers ?rc = []"
      using r0 by (intro feasible_iff_step)
    moreover have "dr_Feasible ?res \<Longrightarrow> saw_health c
        (\<lambda>h. ch_Status h = OpenSearchHealthGreen \<and> 2 \<le> sint (ch_NumberOfDataNodes h)) e"
      using good by (intro saw_health_mono [OF e(2)]) blast
    ultimately show thesis
      using res e e1 e2 e3 w0 by (intro that [of ?res "e1 @ e2 @ e3"]) simp_all
  qed
qed

text \<open>Verification of several nodes: one pair of answers per node, then a last health answer.\<close>

lemma verify_each_saw:
  assumes c: "idr_client d = Some c"
  shows "run_state (verify_each E d nodes) w = (Inr True, w') \<Longrightarrow>
    \<exists>es. w_log w' = w_log w @ es \<and> (\<forall>node \<in> set nodes. list_ex (saw_shards c (no_shards node)) es) \<and>
      list_ex (saw_health c not_relocating) es"
proof (induction nodes arbitrary: w)
  case Nil
  then obtain q w1 where q: "run_state (HasRelocatingShards E c) w = (q, w1)" "w' = w1"
    using c by (auto simp: run_io split: sum.splits prod.splits)
  with Nil c obtain m where "q = Inr (False, m)"
    by (auto simp: run_io split: sum.splits prod.splits)
  with q obtain e where "w_log w' = w_log w @ [e]" "saw_health c (\<lambda>h. ch_RelocatingShards h = m) e" "False = (sint m > 0)"
    by (metis HasRelocatingShards_saw)
  then show ?case
    by (intro exI [of _ "[e]"]) (auto elim: saw_health_mono)
next
  case (Cons node nodes)
  obtain q w1 where q: "run_state (VerifyComplete E d node) w = (q, w1)" by fastforce
  with Cons.prems have qt: "q = Inr True" and rest: "run_state (verify_each E d nodes) w1 = (Inr True, w')"
    by (auto simp: run_io split: sum.splits if_splits)
  from q qt obtain e1 e2 where e: "w_log w1 = w_log w @ [e1, e2]" "saw_shards c (no_shards node) e1"
    by (metis VerifyComplete_saw [OF c])
  from Cons.IH [OF rest] obtain es where es: "w_log w' = w_log w1 @ es"
      "\<forall>node \<in> set nodes. list_ex (saw_shards c (no_shards node)) es" "list_ex (saw_health c not_relocating) es"
    by blast
  then show ?case
    using e by (intro exI [of _ "[e1, e2] @ es"]) auto
qed

text \<open>The exclusions a node pool drain leaves behind.\<close>

lemma in_force_append:
  "exclusion_in_force c (es @ fs) = foldl (exclusion_step c) (exclusion_in_force c es) fs"
  by (simp add: exclusion_in_force_def)

lemma read_keeps_exclusion: "is_os_read c e \<Longrightarrow> exclusion_step c cur e = cur"
  by (auto simp: exclusion_step_def put_exclusion_def split: effect.splits option.splits sum.splits)

lemma reads_keep_exclusion: "list_all (is_os_read c) es \<Longrightarrow> foldl (exclusion_step c) cur es = cur"
  by (induction es arbitrary: cur) (simp_all add: read_keeps_exclusion)

lemma SetAllocationExclusion_in_force:
  assumes "run_state (SetAllocationExclusion E c node) w = (Inr u, w')"
  shows "exclusion_in_force c (w_log w') = Some node"
proof -
  let ?b = "Some (settings_body [(OpenSearchAllocationExcludeNameKey, JStr node)])"
  obtain r s1 where r: "e_http E c ''PUT'' ''/_cluster/settings'' ?b (w_env w) = (r, s1)" by fastforce
  with assms have "w_log w' = w_log w @ [EHttp c ''PUT'' ''/_cluster/settings'' ?b r]"
      "\<exists>resp. r = Inr resp \<and> hr_StatusCode resp = 200"
    by (auto simp: SetAllocationExclusion_def put_transient_def Client_Put_def Client_Request_def run_io
        split: sum.splits if_splits)
  then show ?thesis
    by (auto simp: in_force_append exclusion_step_def put_exclusion_def settings_body_def json_obj_def json_field_def)
qed

lemma exclude_each_in_force:
  assumes c: "idr_client d = Some c"
  shows "nodes \<noteq> [] \<Longrightarrow> run_state (exclude_each E d nodes) w = (Inr u, w') \<Longrightarrow>
    exclusion_in_force c (w_log w') = Some (last nodes)"
proof (induction nodes arbitrary: w)
  case (Cons node nodes)
  obtain q w1 where q: "run_state (SetAllocationExclusion E c node) w = (q, w1)" by fastforce
  with Cons.prems c have "\<exists>v. q = Inr v" and rest: "run_state (exclude_each E d nodes) w1 = (Inr u, w')"
    by (auto simp: run_io split: sum.splits)
  with q have one: "exclusion_in_force c (w_log w1) = Some node"
    using SetAllocationExclusion_in_force by blast
  show ?case
  proof (cases "nodes = []")
    case True
    with rest one show ?thesis by simp
  next
    case False
    with Cons.IH [OF False rest] show ?thesis by simp
  qed
qed simp

text \<open>Quorum and feasibility of a node pool scale-down.\<close>

lemma pool_feasible_iff:
  "npr_Feasible r \<longleftrightarrow> npr_Blockers r = [] \<Longrightarrow>
    npr_Feasible (check_quorum info t r) \<longleftrightarrow> npr_Blockers (check_quorum info t r) = []"
  "npr_Feasible r \<longleftrightarrow> npr_Blockers r = [] \<Longrightarrow> check_pool_health h r = Some r' \<Longrightarrow>
    npr_Feasible r' \<longleftrightarrow> npr_Blockers r' = []"
  by (auto simp: check_quorum_def check_pool_health_def pool_block_def Let_def split: sum.splits if_splits)

lemma check_quorum_feasible:
  "npr_Feasible (check_quorum info t r) \<Longrightarrow> HasClusterManagerRole info \<Longrightarrow> 3 \<le> sint (t - GetReplicasDelta info)"
  by (simp add: check_quorum_def pool_block_def MinClusterManagerNodes_def Let_def split: if_splits)

lemma check_pool_health_keeps:
  "check_pool_health h r = Some r' \<Longrightarrow> npr_NeedsDrain r' = npr_NeedsDrain r"
  "check_pool_health h r = Some r' \<Longrightarrow> npr_Feasible r' \<Longrightarrow> npr_Feasible r"
  by (auto simp: check_pool_health_def pool_block_def Let_def split: sum.splits if_splits)

lemma check_quorum_keeps [simp]: "npr_NeedsDrain (check_quorum info t r) = npr_NeedsDrain r"
  by (simp add: check_quorum_def pool_block_def Let_def)

lemma coordinating_no_data: "IsCoordinatingOnly info \<Longrightarrow> \<not> HasDataRole info \<and> \<not> HasClusterManagerRole info"
  by (auto simp: IsCoordinatingOnly_def HasDataRole_def HasClusterManagerRole_def HasRole_def list_all_iff
      OpenSearchRoleData_def OpenSearchRoleClusterManager_def OpenSearchRoleCoordinatingOnly_def)

subsection \<open>The waiting loop ends\<close>

lemma clock_Request:
  assumes "steady_clock E clk step"
  shows "clk (w_env w) \<le> clk (w_env (snd (run_state (Client_Request E c m p b) w)))"
  using assms by (auto simp: steady_clock_def Client_Request_def run_io split: prod.splits)
    (metis snd_conv)

lemma keeps_clock_monitor:
  assumes "steady_clock E clk step"
  shows "keeps_clock clk (MonitorProgress E d node)"
proof -
  have "keeps_clock clk (Client_Request E c m p b)" for c m p b
    using clock_Request [OF assms] by (simp add: keeps_clock_def)
  note req = this
  show ?thesis
    unfolding MonitorProgress_def with_client_def GetShardCount_def GetShardsOnNode_def
      HasRelocatingShards_def GetClusterHealth_def Client_Get_def
    by (auto intro!: keeps_clock_try keeps_clock_ret req split: option.split prod.split)
qed

lemma run_now:
  assumes "steady_clock E clk step" and "run_state (time_now E) w = (t, w1)"
  shows "clk (w_env w) + step \<le> t" and "clk (w_env w1) = t"
  using assms by (auto simp: steady_clock_def time_now_def run_ask split: prod.splits) (metis fst_conv snd_conv)+

lemma wait_loop_ends:
  assumes clock: "steady_clock E clk step" and step: "0 < step" and tmo: "sint (idr_timeout d) < 2 ^ 63 - 1"
  shows "startTime + sint (idr_timeout d) < clk (w_env w) + step * int (length ticks) \<Longrightarrow> ticks \<noteq> [] \<Longrightarrow>
    fst (run_state (wait_loop E d node startTime ticks status) w) \<noteq> None"
proof (induction ticks arbitrary: w status)
  case (Cons tick ticks)
  show ?case
  proof (cases tick)
    case (Inr u)
    obtain t w1 where t: "run_state (time_now E) w = (t, w1)" by fastforce
    obtain r w2 where r: "run_state (MonitorProgress E d node) w1 = (r, w2)" by fastforce
    have w2: "t \<le> clk (w_env w2)"
      using keeps_clock_monitor [OF clock] r run_now(2) [OF clock t] unfolding keeps_clock_def by (metis snd_conv)
    have later: "startTime + sint (idr_timeout d) < clk (w_env w2) + step * int (length ticks)"
      using Cons.prems(1) run_now(1) [OF clock t] w2 by (simp add: algebra_simps)
    have late: "sint (time_sub t startTime) > sint (idr_timeout d)" if "ticks = []"
      using that Cons.prems(1) run_now(1) [OF clock t] tmo time_sub_le_iff [of "idr_timeout d" t startTime]
      by (simp add: not_le [symmetric])
    have go: "ticks \<noteq> [] \<Longrightarrow> fst (run_state (wait_loop E d node startTime ticks s) w2) \<noteq> None" for s
      using Cons.IH [OF later] .
    show ?thesis
      using Inr t r late go by (auto simp: run_io Let_def split: sum.splits)
  qed simp
qed simp

subsection \<open>Properties\<close>

definition sample_drainer :: IndexerDrainer where
  "sample_drainer = NewIndexerDrainer (Some sample_client) None"

lemmas sample_defs = sample_drainer_def NewIndexerDrainer_def sample_env_defs sample_resp_def
  green_health_def shard_on_def

lemmas api_defs = GetShardCount_def GetShardsOnNode_def HasRelocatingShards_def GetClusterHealth_def
  Client_Get_def Client_Put_def Client_Request_def decode_with_def with_client_def time_now_def

text \<open>
  C8: a node is verified as drained only when the server said so: if \<open>VerifyComplete\<close> returns
  true, its last two requests were a shard listing with no shard on that node and then a
  health answer with no shard relocating.
\<close>

theorem VerifyComplete_sound:
  assumes "idr_client d = Some c" and "run_state (VerifyComplete E d node) w = (Inr True, w')"
  shows "\<exists>e1 e2. w_log w' = w_log w @ [e1, e2] \<and>
    saw_shards c (no_shards node) e1 \<and> saw_health c not_relocating e2"
  using VerifyComplete_saw [OF assms] by metis

theorem VerifyComplete_sound_witness:
  "\<exists>w'. run_state (VerifyComplete (sample_env (Inl not_found) (Inr green_health) (Inr [shard_on ''idx-0'']))
      sample_drainer ''idx-2'') sample_world = (Inr True, w') \<and>
    (\<exists>e1 e2. w_log w' = [e1, e2] \<and> saw_shards sample_client (no_shards ''idx-2'') e1)"
proof -
  let ?E = "sample_env (Inl not_found) (Inr green_health) (Inr [shard_on ''idx-0''])"
  obtain r w' where run: "run_state (VerifyComplete ?E sample_drainer ''idx-2'') sample_world = (r, w')" by fastforce
  then have "r = Inr True"
    by (auto simp: VerifyComplete_def api_defs sample_defs run_io)
  then show ?thesis
    using VerifyComplete_sound [of sample_drainer sample_client ?E "''idx-2''" sample_world w'] run
    by (auto simp: sample_drainer_def NewIndexerDrainer_def sample_world_def new_world_def)
qed

text \<open>
  progress is computed from the server's answers: a drain is complete exactly when the
  listing shows no shard on the node and no shard is relocating; when the node has no more
  shards than at the start (and not more than 21474836, where the \<open>int32\<close> product would
  wrap) the percentage lies between 0 and 100.
\<close>

theorem MonitorProgress_sound:
  assumes "idr_client d = Some c" and "run_state (MonitorProgress E d node) w = (Inr p, w')"
  shows "\<exists>e1 e2 n m. w_log w' = w_log w @ [e1, e2] \<and>
    saw_shards c (\<lambda>ss. int (length (filter (\<lambda>s. si_Node s = node) ss)) = n) e1 \<and>
    saw_health c (\<lambda>h. ch_RelocatingShards h = m) e2 \<and>
    (dp_IsComplete p \<longleftrightarrow> n = 0 \<and> sint m \<le> 0) \<and>
    (0 \<le> n \<and> n \<le> sint (idr_initialShardCount d) \<and> sint (idr_initialShardCount d) \<le> 21474836 \<longrightarrow>
      0 \<le> sint (dp_Percent p) \<and> sint (dp_Percent p) \<le> 100)"
proof -
  obtain e1 e2 n m where saw: "w_log w' = w_log w @ [e1, e2]"
      "saw_shards c (\<lambda>ss. int (length (filter (\<lambda>s. si_Node s = node) ss)) = n) e1"
      "saw_health c (\<lambda>h. ch_RelocatingShards h = m) e2" "dp_IsComplete p \<longleftrightarrow> n = 0 \<and> sint m \<le> 0"
      "dp_Percent p = (if dp_IsComplete p then 100 else moved_percent (idr_initialShardCount d) (to_i32 n))"
    using MonitorProgress_saw [OF assms] by metis
  have "0 \<le> sint (dp_Percent p) \<and> sint (dp_Percent p) \<le> 100"
    if "0 \<le> n" "n \<le> sint (idr_initialShardCount d)" "sint (idr_initialShardCount d) \<le> 21474836"
    using that moved_percent_bounds [of "to_i32 n" "idr_initialShardCount d"]
    by (simp add: saw(5) sint_to_i32)
  with saw show ?thesis by blast
qed

theorem MonitorProgress_sound_witness:
  "\<exists>p w'. run_state (MonitorProgress (sample_env (Inl not_found) (Inr green_health) (Inr [shard_on ''idx-2'']))
      (sample_drainer\<lparr>idr_initialShardCount := 4\<rparr>) ''idx-2'') sample_world = (Inr p, w') \<and>
    dp_Percent p = 75 \<and> \<not> dp_IsComplete p \<and> (\<exists>e1 e2. w_log w' = [e1, e2])"
proof -
  let ?E = "sample_env (Inl not_found) (Inr green_health) (Inr [shard_on ''idx-2''])"
  let ?d = "sample_drainer\<lparr>idr_initialShardCount := 4\<rparr>"
  have "sint (moved_percent 4 1) = 75" by (subst moved_percent_exact) simp_all
  then have pc: "moved_percent 4 1 = 75" by (metis to_i32_sint of_int_numeral to_i32_def)
  obtain p w' where run: "run_state (MonitorProgress ?E ?d ''idx-2'') sample_world = (Inr p, w')"
      "dp_Percent p = 75" "\<not> dp_IsComplete p"
    by (simp add: MonitorProgress_def api_defs sample_defs run_io finish_progress_def to_i32_def pc)
  then show ?thesis
    using MonitorProgress_sound [of ?d sample_client ?E "''idx-2''" sample_world p w']
    by (auto simp: sample_drainer_def NewIndexerDrainer_def sample_world_def new_world_def)
qed

text \<open>
  the feasibility check of a drain never writes to the cluster and never fails; it says
  feasible exactly when it lists no blocker, and then the server had just reported a green
  cluster with at least two data nodes.
\<close>

theorem EvaluateFeasibility_sound:
  assumes "idr_client d = Some c" and "run_state (EvaluateFeasibility E d node) w = (r, w')"
  shows "\<exists>res es. r = Inr res \<and> (dr_Feasible res \<longleftrightarrow> dr_Blockers res = []) \<and>
    w_log w' = w_log w @ es \<and> list_all (is_os_read c) es \<and>
    (dr_Feasible res \<longrightarrow> list_ex (saw_health c
      (\<lambda>h. ch_Status h = OpenSearchHealthGreen \<and> 2 \<le> sint (ch_NumberOfDataNodes h))) es)"
  by (rule EvaluateFeasibility_result [OF assms]) blast

theorem EvaluateFeasibility_sound_witness:
  "\<exists>res. fst (run_state (EvaluateFeasibility (sample_env (Inl not_found) (Inr green_health) (Inr []))
      sample_drainer ''idx-2'') sample_world) = Inr res \<and> (dr_Feasible res \<longleftrightarrow> dr_Blockers res = [])"
proof -
  let ?E = "sample_env (Inl not_found) (Inr green_health) (Inr [])"
  obtain r w' where run: "run_state (EvaluateFeasibility ?E sample_drainer ''idx-2'') sample_world = (r, w')" by fastforce
  then show ?thesis
    using EvaluateFeasibility_sound [of sample_drainer sample_client ?E "''idx-2''" sample_world r w']
    by (auto simp: sample_drainer_def NewIndexerDrainer_def)
qed

text \<open>
  waiting for a drain ends: with a clock that moves on by \<open>step\<close> at each reading and no
  HTTP call turning it back, \<open>WaitForDrainComplete\<close> has returned (done, timed out or
  cancelled) by the time its ticks times \<open>step\<close> exceed the configured timeout.
\<close>

theorem WaitForDrainComplete_ends:
  assumes "steady_clock E clk step" and "0 < step" and "0 \<le> sint (idr_timeout d)"
    and "sint (idr_timeout d) < 2 ^ 63 - 1" and "sint (idr_timeout d) < step * int (length ticks)"
  shows "fst (run_state (WaitForDrainComplete E d node ticks status) w) \<noteq> None"
proof -
  obtain t w1 where t: "run_state (time_now E) w = (t, w1)" by fastforce
  have "ticks \<noteq> []" using assms(3, 5) by auto
  then show ?thesis
    using wait_loop_ends [OF assms(1, 2, 4), of t w1 ticks node status] assms(5) t run_now(2) [OF assms(1) t]
    by (simp add: WaitForDrainComplete_def run_bind)
qed

theorem WaitForDrainComplete_ends_witness:
  "fst (run_state (WaitForDrainComplete (sample_env (Inl not_found) (Inl not_found) (Inl not_found))
      (sample_drainer\<lparr>idr_timeout := 2 * second\<rparr>) ''idx-2'' [Inr (), Inr (), Inr ()] None) sample_world) \<noteq> None"
proof (rule WaitForDrainComplete_ends [of _ id 1000000000])
  show "steady_clock (sample_env (Inl not_found) (Inl not_found) (Inl not_found)) id 1000000000"
    by (simp add: steady_clock_def sample_env_def dead_env_def)
qed (simp_all add: second_def)

text \<open>
  a node pool is verified as drained only if, for each of its nodes, the server gave a
  listing with no shard on it, and a health answer with no relocating shard.
\<close>

theorem VerifyNodePoolDrainComplete_sound:
  assumes "idr_client d = Some c" and "run_state (VerifyNodePoolDrainComplete E d nodes) w = (Inr True, w')"
  shows "\<exists>es. w_log w' = w_log w @ es \<and> (\<forall>node \<in> set nodes. list_ex (saw_shards c (no_shards node)) es) \<and>
    list_ex (saw_health c not_relocating) es"
  using verify_each_saw [OF assms(1)] assms(2) by (simp add: VerifyNodePoolDrainComplete_def)

theorem VerifyNodePoolDrainComplete_sound_witness:
  "\<exists>w'. run_state (VerifyNodePoolDrainComplete (sample_env (Inl not_found) (Inr green_health) (Inr []))
      sample_drainer [''p-1'', ''p-2'']) sample_world = (Inr True, w') \<and>
    (\<exists>es. w_log w' = es \<and> list_ex (saw_shards sample_client (no_shards ''p-1'')) es)"
proof -
  let ?E = "sample_env (Inl not_found) (Inr green_health) (Inr [])"
  obtain r w' where run: "run_state (VerifyNodePoolDrainComplete ?E sample_drainer [''p-1'', ''p-2'']) sample_world = (r, w')"
    by fastforce
  then have "r = Inr True"
    by (auto simp: VerifyNodePoolDrainComplete_def VerifyComplete_def api_defs sample_defs run_io)
  then show ?thesis
    using VerifyNodePoolDrainComplete_sound [of sample_drainer sample_client ?E "[''p-1'', ''p-2'']" sample_world w'] run
    by (auto simp: sample_drainer_def NewIndexerDrainer_def sample_world_def new_world_def)
qed

text \<open>
  what a node pool drain leaves excluded: the exclusions are set one node after the
  other, each replacing the one before, so after a successful \<open>StartNodePoolDrain\<close> only the
  last node of the list is excluded from allocation.
\<close>

theorem StartNodePoolDrain_excludes_last:
  assumes "idr_client d = Some c" and "nodes \<noteq> []"
    and "run_state (StartNodePoolDrain E d nodes) w = ((d', Inr u), w')"
  shows "exclusion_in_force c (w_log w') = Some (last nodes)"
proof -
  obtain n w1 where n: "run_state (sum_shards E d nodes 0) w = (n, w1)" by fastforce
  with assms have "run_state (exclude_each E (d\<lparr>idr_initialShardCount := n\<rparr>) nodes) w1 = (Inr u, w')"
    by (auto simp: StartNodePoolDrain_def run_io Let_def split: prod.splits)
  then show ?thesis
    using assms by (intro exclude_each_in_force [of "d\<lparr>idr_initialShardCount := n\<rparr>"]) simp_all
qed

theorem StartNodePoolDrain_excludes_last_witness:
  "\<exists>r w'. run_state (StartNodePoolDrain (sample_env (Inl not_found) (Inr green_health) (Inr []))
      sample_drainer [''p-1'', ''p-2'']) sample_world = (r, w') \<and>
    exclusion_in_force sample_client (w_log w') = Some ''p-2''"
proof -
  let ?E = "sample_env (Inl not_found) (Inr green_health) (Inr [])"
  obtain d' r w' where run: "run_state (StartNodePoolDrain ?E sample_drainer [''p-1'', ''p-2'']) sample_world = ((d', r), w')"
    by (metis surj_pair)
  then have "r = Inr ()"
    by (auto simp: StartNodePoolDrain_def SetAllocationExclusion_def put_transient_def api_defs sample_defs run_io Let_def)
  then show ?thesis
    using StartNodePoolDrain_excludes_last [of sample_drainer sample_client "[''p-1'', ''p-2'']" ?E sample_world d' "()" w'] run
    by (auto simp: sample_drainer_def NewIndexerDrainer_def)
qed

lemma pool_evaluation:
  assumes "run_state (EvaluateNodePoolScaleDown E d info total_managers) w = (Some r, w')"
  shows "(npr_Feasible r \<longleftrightarrow> npr_Blockers r = []) \<and>
    (npr_NeedsDrain r \<longleftrightarrow> IsScaleDown info \<and> HasDataRole info) \<and>
    (npr_Feasible r \<and> IsScaleDown info \<and> HasClusterManagerRole info \<longrightarrow>
      3 \<le> sint (total_managers - (np_CurrentReplicas info - np_DesiredReplicas info)))"
proof (cases "\<not> IsScaleDown info \<or> IsCoordinatingOnly info")
  case True
  then show ?thesis
    using assms coordinating_no_data [of info]
    by (auto simp: EvaluateNodePoolScaleDown_def Let_def split: if_splits)
next
  case False
  let ?r0 = "\<lparr>npr_NeedsDrain = False, npr_SkipReason = [], npr_Feasible = True, npr_Blockers = [],
      npr_Warnings = [], npr_TargetNodes = []\<rparr>"
  let ?r1 = "check_quorum info total_managers ?r0"
  let ?r2 = "?r1\<lparr>npr_NeedsDrain := True, npr_TargetNodes := np_TargetPodNames info\<rparr>"
  have delta: "GetReplicasDelta info = np_CurrentReplicas info - np_DesiredReplicas info"
    using False by (simp add: GetReplicasDelta_def)
  have r1: "npr_Feasible ?r1 \<longleftrightarrow> npr_Blockers ?r1 = []"
    by (rule pool_feasible_iff(1)) simp
  have q: "npr_Feasible ?r1 \<Longrightarrow> HasClusterManagerRole info \<Longrightarrow>
      3 \<le> sint (total_managers - (np_CurrentReplicas info - np_DesiredReplicas info))"
    using check_quorum_feasible delta by metis
  consider "\<not> HasDataRole info" "r = ?r1\<lparr>npr_SkipReason := ''NodePool does not have data role''\<rparr>"
    | "HasDataRole info" "r = ?r2"
    | h where "HasDataRole info" "check_pool_health h ?r2 = Some r"
    using assms False
    by (cases "HasDataRole info"; cases "idr_client d")
       (auto simp: EvaluateNodePoolScaleDown_def Let_def run_bind split: prod.splits)
  then show ?thesis
  proof cases
    case 3
    then show ?thesis
      using False r1 q pool_feasible_iff(2) [of ?r2 h r] check_pool_health_keeps [OF 3(2)] by simp
  qed (use False r1 q in simp_all)
qed

text \<open>
  C12: the evaluation of a node pool scale-down keeps the quorum: when it returns, it is
  feasible exactly when it lists no blocker, a drain is needed exactly when the pool holds
  data, and a feasible scale-down of cluster managers leaves at least three.
\<close>

theorem EvaluateNodePoolScaleDown_quorum:
  assumes "run_state (EvaluateNodePoolScaleDown E d info total_managers) w = (Some r, w')"
  shows "(npr_Feasible r \<longleftrightarrow> npr_Blockers r = []) \<and>
    (npr_NeedsDrain r \<longleftrightarrow> IsScaleDown info \<and> HasDataRole info) \<and>
    (npr_Feasible r \<and> IsScaleDown info \<and> HasClusterManagerRole info \<longrightarrow>
      3 \<le> sint (total_managers - (np_CurrentReplicas info - np_DesiredReplicas info)))"
  using assms by (rule pool_evaluation)

definition sample_pool :: "i32 \<Rightarrow> i32 \<Rightarrow> NodePoolScaleDownInfo" where
  "sample_pool cur des = \<lparr>np_PoolName = ''hot'', np_Roles = [OpenSearchRoleData, OpenSearchRoleClusterManager],
     np_CurrentReplicas = cur, np_DesiredReplicas = des, np_TargetPodNames = []\<rparr>"

theorem EvaluateNodePoolScaleDown_quorum_witness:
  "\<exists>r w'. run_state (EvaluateNodePoolScaleDown (sample_env (Inl not_found) (Inr green_health) (Inr []))
      sample_drainer (sample_pool 5 4) 5) sample_world = (Some r, w') \<and>
    (npr_Feasible r \<longleftrightarrow> npr_Blockers r = [])"
proof -
  let ?E = "sample_env (Inl not_found) (Inr green_health) (Inr [])"
  obtain r w' where run: "run_state (EvaluateNodePoolScaleDown ?E sample_drainer (sample_pool 5 4) 5) sample_world = (r, w')"
    by fastforce
  then have "\<exists>r'. r = Some r'"
    by (auto simp: EvaluateNodePoolScaleDown_def check_pool_health_def api_defs sample_defs run_io Let_def split: if_splits)
  then show ?thesis
    using EvaluateNodePoolScaleDown_quorum [of ?E sample_drainer "sample_pool 5 4" 5 sample_world _ w'] run by blast
qed

text \<open>
  when the health of the cluster cannot be read, the evaluation of a data pool's
  scale-down does not return a result: it dereferences the missing health and panics.
\<close>

theorem EvaluateNodePoolScaleDown_panic:
  assumes "idr_client d = Some c" and "IsScaleDown info" and "HasDataRole info"
    and "run_state (GetClusterHealth E c) w = (Inl e, w1)"
  shows "run_state (EvaluateNodePoolScaleDown E d info total_managers) w = (None, w1)"
proof -
  have "\<not> IsCoordinatingOnly info" using assms(3) coordinating_no_data by blast
  then show ?thesis
    using assms by (simp add: EvaluateNodePoolScaleDown_def Let_def run_bind check_pool_health_def)
qed

theorem EvaluateNodePoolScaleDown_panic_witness:
  "\<exists>w1. run_state (EvaluateNodePoolScaleDown (sample_env (Inl not_found) (Inl not_found) (Inr []))
      sample_drainer (sample_pool 5 4) 5) sample_world = (None, w1)"
proof -
  let ?E = "sample_env (Inl not_found) (Inl not_found) (Inr [])"
  obtain r w1 where r: "run_state (GetClusterHealth ?E sample_client) sample_world = (r, w1)" by fastforce
  then have "\<exists>e. r = Inl e"
    by (auto simp: api_defs sample_defs run_io)
  then show ?thesis
    using EvaluateNodePoolScaleDown_panic [of sample_drainer sample_client "sample_pool 5 4" ?E sample_world _ w1 5] r
    by (auto simp: sample_drainer_def NewIndexerDrainer_def sample_pool_def IsScaleDown_def HasDataRole_def HasRole_def)
qed

end
