(* ===== verification/WazuhApi.thy ===== *)
theory WazuhApi
  imports ClusterWorld
begin

section \<open>The Wazuh API adapter (internal/adapters/wazuh_api_adapter.go)\<close>

text \<open>
  The adapter authenticates with a user and password, keeps the token it is given for 15
  minutes and sends every other request with it. An adapter is reached by pointer; the
  token is written into the store of \<open>ClusterWorld\<close>, so that everyone holding the pointer
  sees it.
\<close>

definition TokenValidityDuration :: duration where
  "TokenValidityDuration = 15 * minute"

text \<open>A new adapter; its token is empty and its expiry, never read then, the zero time.\<close>

definition NewWazuhAPIAdapter :: "string \<Rightarrow> string \<Rightarrow> string \<Rightarrow> ('s, adapter_ptr) io" where
  "NewWazuhAPIAdapter baseURL username password = new_adapter
     \<lparr>wa_baseURL = baseURL, wa_username = username, wa_password = password, wa_token = [], wa_tokenExp = 0\<rparr>"

definition wz_call :: "'s env \<Rightarrow> string \<Rightarrow> wz_auth \<Rightarrow> string \<Rightarrow> string \<Rightarrow> ('s, wz_resp result) io" where
  "wz_call E url auth method path = do {
     r \<leftarrow> ask (e_wazuh E url auth method path);
     _ \<leftarrow> emit (EWazuh url method path r);
     ret r }"

definition token_valid :: "'s env \<Rightarrow> WazuhAPIAdapter \<Rightarrow> ('s, bool) io" where
  "token_valid E a = (if wa_token a \<noteq> [] then do { now \<leftarrow> time_now E; ret (now < wa_tokenExp a) } else ret False)"

definition Authenticate :: "'s env \<Rightarrow> adapter_ptr \<Rightarrow> ('s, unit result) io" where
  "Authenticate E p = do {
     a \<leftarrow> get_adapter p;
     valid \<leftarrow> token_valid E a;
     if valid then ret (Inr ())
     else try_io (wz_call E (wa_baseURL a) (BasicAuth (wa_username a) (wa_password a)) ''POST'' ''/security/user/authenticate'')
       (wrapf ''failed to authenticate: '') (\<lambda>resp.
       if wr_StatusCode resp \<noteq> 200 then ret (Inl (errorf (''authentication failed: '' @ wr_Body resp)))
       else case wr_token resp of
           Inl e \<Rightarrow> ret (Inl (wrapf ''failed to decode auth response: '' e))
         | Inr token \<Rightarrow> do {
             now \<leftarrow> time_now E;
             _ \<leftarrow> put_adapter p (a\<lparr>wa_token := token, wa_tokenExp := time_add now TokenValidityDuration\<rparr>);
             ret (Inr ()) }) }"

definition doRequest :: "'s env \<Rightarrow> adapter_ptr \<Rightarrow> string \<Rightarrow> string \<Rightarrow> ('s, wz_resp result) io" where
  "doRequest E p method path = try_io (Authenticate E p) id (\<lambda>u. do {
     a \<leftarrow> get_adapter p;
     wz_call E (wa_baseURL a) (Bearer (wa_token a)) method path })"

text \<open>
  What every operation does with the response: its own text for another status than 200,
  its own text for a body that does not decode.
\<close>

definition wz_fetch :: "'s env \<Rightarrow> adapter_ptr \<Rightarrow> string \<Rightarrow> string \<Rightarrow> (gerror \<Rightarrow> gerror) \<Rightarrow> (wz_resp \<Rightarrow> string) \<Rightarrow>
    string \<Rightarrow> (wz_resp \<Rightarrow> 'a result) \<Rightarrow> ('s, 'a result) io" where
  "wz_fetch E p method path reqErr statusErr decodeErr decode =
     try_io (doRequest E p method path) reqErr (\<lambda>resp.
       ret (if wr_StatusCode resp \<noteq> 200 then Inl (errorf (statusErr resp))
            else case decode resp of Inl e \<Rightarrow> Inl (wrapf decodeErr e) | Inr v \<Rightarrow> Inr v))"

definition GetClusterStatus :: "'s env \<Rightarrow> adapter_ptr \<Rightarrow> ('s, WzClusterStatus result) io" where
  "GetClusterStatus E p = wz_fetch E p ''GET'' ''/cluster/status'' id
     (\<lambda>r. ''failed to get cluster status: '' @ wr_Body r) ''failed to decode cluster status: '' wr_cluster"

definition GetClusterNodes :: "'s env \<Rightarrow> adapter_ptr \<Rightarrow> ('s, NodeInfo list result) io" where
  "GetClusterNodes E p = wz_fetch E p ''GET'' ''/cluster/nodes'' id
     (\<lambda>r. ''failed to get cluster nodes: '' @ wr_Body r) ''failed to decode cluster nodes: '' wr_nodeinfo"

definition GetManagerInfo :: "'s env \<Rightarrow> adapter_ptr \<Rightarrow> ('s, ManagerInfo result) io" where
  "GetManagerInfo E p = wz_fetch E p ''GET'' ''/manager/info'' id
     (\<lambda>r. ''failed to get manager info: '' @ wr_Body r) ''failed to decode manager info: '' wr_info"

definition WazuhAPI_IsHealthy :: "'s env \<Rightarrow> adapter_ptr \<Rightarrow> ('s, bool) io" where
  "WazuhAPI_IsHealthy E p = do {
     r \<leftarrow> GetManagerInfo E p;
     ret (case r of Inl e \<Rightarrow> False | Inr i \<Rightarrow> True) }"

text \<open>The total of the queue sizes, an \<open>int64\<close> sum.\<close>

definition GetQueueStatus :: "'s env \<Rightarrow> adapter_ptr \<Rightarrow> string \<Rightarrow> ('s, i64 result) io" where
  "GetQueueStatus E p nodeName =
     (let path = (if nodeName \<noteq> [] then ''/cluster/'' @ nodeName @ ''/stats'' else ''/manager/stats'') in
      try_io (wz_fetch E p ''GET'' path id
        (\<lambda>r. ''failed to get queue status: '' @ wr_Body r) ''failed to decode queue status: '' wr_queues) id
        (\<lambda>sizes. ret (Inr (foldl (+) 0 sizes))))"

definition GetClusterNodeStatus :: "'s env \<Rightarrow> adapter_ptr \<Rightarrow> string \<Rightarrow> ('s, ClusterNodeStatus result) io" where
  "GetClusterNodeStatus E p nodeName =
     try_io (wz_fetch E p ''GET'' (''/cluster/nodes?select=name,type,version,ip&node_name='' @ nodeName) id
        (\<lambda>r. ''failed to get node status: '' @ wr_Body r) ''failed to decode node status: '' wr_nodes) id
        (\<lambda>items. ret (case items of [] \<Rightarrow> Inl (errorf (''node '' @ nodeName @ '' not found'')) | n # ns \<Rightarrow> Inr n))"

definition GetAllNodesStatus :: "'s env \<Rightarrow> adapter_ptr \<Rightarrow> ('s, ClusterNodeStatus list result) io" where
  "GetAllNodesStatus E p = wz_fetch E p ''GET'' ''/cluster/nodes'' id
     (\<lambda>r. ''failed to get all nodes status: '' @ wr_Body r) ''failed to decode nodes status: '' wr_nodes"

definition status_text :: "string \<Rightarrow> wz_resp \<Rightarrow> string" where
  "status_text what r = what @ '' failed with status '' @ show_int (wr_StatusCode r) @ '': '' @ wr_Body r"

definition RestartManager :: "'s env \<Rightarrow> adapter_ptr \<Rightarrow> ('s, RestartResponse result) io" where
  "RestartManager E p = wz_fetch E p ''PUT'' ''/manager/restart'' (wrapf ''failed to restart manager: '')
     (status_text ''manager restart'') ''failed to decode restart response: '' wr_restart"

definition RestartCluster :: "'s env \<Rightarrow> adapter_ptr \<Rightarrow> ('s, RestartResponse result) io" where
  "RestartCluster E p = wz_fetch E p ''PUT'' ''/cluster/restart'' (wrapf ''failed to restart cluster: '')
     (status_text ''cluster restart'') ''failed to decode restart response: '' wr_restart"

definition RestartNode :: "'s env \<Rightarrow> adapter_ptr \<Rightarrow> string \<Rightarrow> ('s, RestartResponse result) io" where
  "RestartNode E p nodeName = wz_fetch E p ''PUT'' (''/cluster/'' @ nodeName @ ''/restart'')
     (wrapf (''failed to restart node '' @ nodeName @ '': ''))
     (status_text ''node restart'') ''failed to decode restart response: '' wr_restart"

definition ReloadRules :: "'s env \<Rightarrow> adapter_ptr \<Rightarrow> ('s, unit result) io" where
  "ReloadRules E p =
     try_io (doRequest E p ''PUT'' ''/manager/configuration/validation'') (wrapf ''failed to validate configuration: '') (\<lambda>resp.
       if wr_StatusCode resp \<noteq> 200 then ret (Inl (errorf (''configuration validation failed: '' @ wr_Body resp)))
       else try_io (RestartManager E p) id (\<lambda>r. ret (Inr ())))"

definition GetAgentsSummary :: "'s env \<Rightarrow> adapter_ptr \<Rightarrow> ('s, AgentsSummary result) io" where
  "GetAgentsSummary E p = wz_fetch E p ''GET'' ''/agents/summary/status'' (wrapf ''failed to get agents summary: '')
     (\<lambda>r. ''agents summary request failed: '' @ wr_Body r) ''failed to decode agents summary: '' wr_agents"

subsection \<open>Lemmas\<close>

text \<open>Every request of the adapter is a Wazuh call, and every read a \<open>GET\<close> or the authentication.\<close>

fun is_wz_read :: "effect \<Rightarrow> bool" where
  "is_wz_read (EWazuh url method path r) = (method = ''GET'' \<or> path = ''/security/user/authenticate'')"
| "is_wz_read e = False"

lemma logs_wz_call [logs]: "(\<And>r. P (EWazuh url m path r)) \<Longrightarrow> logs_only P (wz_call E url auth m path)"
  unfolding wz_call_def by (intro logs)

lemma logs_Authenticate [logs]: "logs_only is_wz_read (Authenticate E p)"
  unfolding Authenticate_def token_valid_def time_now_def by (intro logs; simp)

lemma logs_doRequest [logs]: "logs_only is_wz_read (doRequest E p ''GET'' path)"
  unfolding doRequest_def by (intro logs; simp)

lemma logs_wz_fetch [logs]: "logs_only is_wz_read (wz_fetch E p ''GET'' path re se de f)"
  unfolding wz_fetch_def by (intro logs)

lemma logs_wz_queries [logs]:
  "logs_only is_wz_read (GetClusterStatus E p)" "logs_only is_wz_read (GetManagerInfo E p)"
  "logs_only is_wz_read (WazuhAPI_IsHealthy E p)" "logs_only is_wz_read (GetQueueStatus E p node)"
  "logs_only is_wz_read (GetClusterNodeStatus E p node)" "logs_only is_wz_read (GetAllNodesStatus E p)"
  unfolding GetClusterStatus_def GetManagerInfo_def WazuhAPI_IsHealthy_def GetQueueStatus_def
    GetClusterNodeStatus_def GetAllNodesStatus_def Let_def
  by (intro logs)+

text \<open>A successful authentication leaves a token that is good for 15 minutes from the last clock reading.\<close>

lemma Authenticate_fresh:
  assumes run: "run_state (Authenticate E p) w = (Inr u, w')" and p: "p < length (w_adapters w)"
    and empty: "wa_token (w_adapters w ! p) = []"
  obtains resp token now where "w_log w' = w_log w @
      [EWazuh (wa_baseURL (w_adapters w ! p)) ''POST'' ''/security/user/authenticate'' (Inr resp)]"
    and "wr_StatusCode resp = 200" and "wr_token resp = Inr token"
    and "w_adapters w' ! p = (w_adapters w ! p)\<lparr>wa_token := token, wa_tokenExp := time_add now TokenValidityDuration\<rparr>"
proof -
  let ?a = "w_adapters w ! p"
  obtain r s1 where r: "e_wazuh E (wa_baseURL ?a) (BasicAuth (wa_username ?a) (wa_password ?a)) ''POST''
      ''/security/user/authenticate'' (w_env w) = (r, s1)" by fastforce
  obtain now s2 where n: "e_now E s1 = (now, s2)" by fastforce
  from run p empty r obtain resp token where "r = Inr resp" "wr_StatusCode resp = 200" "wr_token resp = Inr token"
    by (auto simp: Authenticate_def token_valid_def wz_call_def time_now_def run_io split: sum.splits if_splits)
  with run p empty r n show thesis
    by (intro that [of resp token now])
       (auto simp: Authenticate_def token_valid_def wz_call_def time_now_def run_io)
qed

end
