(* ===== verification/ManagerDrain.thy ===== *)
theory ManagerDrain
  imports DrainDetection WazuhApi
begin

section \<open>Draining a manager worker (internal/wazuh/drain/manager_drain.go)\<close>

text \<open>
  A worker is drained when its event queue has been empty for a grace period: the drainer
  polls the queue through the Wazuh API and remembers when it first saw it empty. Its state
  (the depth at the start, that instant) is a record threaded through the methods.
\<close>

record ManagerDrainProgress =
  mp_Percent :: i32
  mp_QueueDepth :: i64
  mp_InitialQueueDepth :: i64
  mp_Message :: string
  mp_IsComplete :: bool

record ManagerDrainer =
  md_client :: adapter_ptr
  md_timeout :: duration
  md_queueCheckInterval :: duration
  md_gracePeriod :: duration
  md_initialQueueDepth :: i64
  md_emptyQueueSeenTime :: "time option"

definition DefaultManagerDrainTimeout :: duration where "DefaultManagerDrainTimeout = 15 * minute"
definition DefaultManagerQueueCheckInterval :: duration where "DefaultManagerQueueCheckInterval = 5 * second"
definition DefaultManagerGracePeriod :: duration where "DefaultManagerGracePeriod = 30 * second"
definition or_default :: "'a \<Rightarrow> 'a option \<Rightarrow> 'a" where
  "or_default d v = (case v of None \<Rightarrow> d | Some a \<Rightarrow> a)"

definition NewManagerDrainer :: "adapter_ptr \<Rightarrow> ManagerDrainConfig option \<Rightarrow> ManagerDrainer" where
  "NewManagerDrainer client config =
     \<lparr>md_client = client,
      md_timeout = (case config of None \<Rightarrow> DefaultManagerDrainTimeout
        | Some cfg \<Rightarrow> or_default DefaultManagerDrainTimeout (mdc_Timeout cfg)),
      md_queueCheckInterval = (case config of None \<Rightarrow> DefaultManagerQueueCheckInterval
        | Some cfg \<Rightarrow> or_default DefaultManagerQueueCheckInterval (mdc_QueueCheckInterval cfg)),
      md_gracePeriod = (case config of None \<Rightarrow> 10 * second
        | Some cfg \<Rightarrow> or_default (10 * second) (mdc_GracePeriod cfg)),
      md_initialQueueDepth = 0, md_emptyQueueSeenTime = None\<rparr>"

definition ManagerDrainer_StartDrain ::
    "'s env \<Rightarrow> ManagerDrainer \<Rightarrow> string \<Rightarrow> ('s, ManagerDrainer \<times> unit result) io" where
  "ManagerDrainer_StartDrain E d nodeName = do {
     r \<leftarrow> GetQueueStatus E (md_client d) nodeName;
     ret (case r of
         Inl e \<Rightarrow> (d, Inl (wrapf ''failed to get initial queue status: '' e))
       | Inr n \<Rightarrow> (d\<lparr>md_initialQueueDepth := n, md_emptyQueueSeenTime := None\<rparr>, Inr ())) }"

text \<open>
  The percentage and the new starting depth: when events have come in since the start, the
  depth just read becomes the new starting point.
\<close>

definition queue_percent :: "i64 \<Rightarrow> i64 \<Rightarrow> i64 \<times> i32" where
  "queue_percent initial depth =
     (if sint initial > 0 then
        let processed = initial - depth;
            base = (if sint processed < 0 then depth else initial);
            processed' = (if sint processed < 0 then 0 else processed)
        in (base, to_i32 (sint (go_div (processed' * 100) base)))
      else (initial, 100))"

definition empty_since :: "'s env \<Rightarrow> ManagerDrainer \<Rightarrow> ('s, time) io" where
  "empty_since E d = (case md_emptyQueueSeenTime d of Some t \<Rightarrow> ret t | None \<Rightarrow> time_now E)"

definition MonitorQueueDepth ::
    "'s env \<Rightarrow> ManagerDrainer \<Rightarrow> string \<Rightarrow> ('s, ManagerDrainer \<times> ManagerDrainProgress result) io" where
  "MonitorQueueDepth E d nodeName = do {
     r \<leftarrow> GetQueueStatus E (md_client d) nodeName;
     case r of
       Inl e \<Rightarrow> ret (d, Inl (wrapf ''failed to get queue status: '' e))
     | Inr depth \<Rightarrow> (case queue_percent (md_initialQueueDepth d) depth of (base, percent) \<Rightarrow>
        (let d1 = d\<lparr>md_initialQueueDepth := base\<rparr>;
             progress = \<lparr>mp_Percent = percent, mp_QueueDepth = depth,
               mp_InitialQueueDepth = md_initialQueueDepth d, mp_Message = [], mp_IsComplete = False\<rparr>
         in if depth = 0 then do {
              seen \<leftarrow> empty_since E d1;
              let d2 = d1\<lparr>md_emptyQueueSeenTime := Some seen\<rparr>;
              now \<leftarrow> time_now E;
              if sint (time_sub now seen) \<ge> sint (md_gracePeriod d) then
                ret (d2, Inr (progress\<lparr>mp_IsComplete := True, mp_Percent := 100,
                  mp_Message := ''Queue drained successfully (grace period elapsed)''\<rparr>))
              else do {
                now2 \<leftarrow> time_now E;
                let remaining = md_gracePeriod d - time_sub now2 seen;
                ret (d2, Inr (progress\<lparr>mp_Message := ''Queue empty, waiting for grace period ('' @
                  duration_string (duration_round remaining second) @ '' remaining)''\<rparr>)) } }
            else ret (d1\<lparr>md_emptyQueueSeenTime := None\<rparr>, Inr (progress\<lparr>mp_Message :=
              ''Processing queue: '' @ show_i64 depth @ '' events remaining''\<rparr>)))) }"

definition VerifyQueueEmpty ::
    "'s env \<Rightarrow> ManagerDrainer \<Rightarrow> string \<Rightarrow> ('s, ManagerDrainer \<times> bool result) io" where
  "VerifyQueueEmpty E d nodeName = do {
     r \<leftarrow> GetQueueStatus E (md_client d) nodeName;
     case r of
       Inl e \<Rightarrow> ret (d, Inl (wrapf ''failed to verify queue empty: '' e))
     | Inr depth \<Rightarrow>
        if sint depth > 0 then ret (d, Inr False)
        else (case md_emptyQueueSeenTime d of
            None \<Rightarrow> do { now \<leftarrow> time_now E; ret (d\<lparr>md_emptyQueueSeenTime := Some now\<rparr>, Inr False) }
          | Some seen \<Rightarrow> do {
              now \<leftarrow> time_now E;
              ret (d, Inr (\<not> sint (time_sub now seen) < sint (md_gracePeriod d))) }) }"

definition ManagerDrainer_CancelDrain :: "ManagerDrainer \<Rightarrow> ManagerDrainer" where
  "ManagerDrainer_CancelDrain d = d\<lparr>md_initialQueueDepth := 0, md_emptyQueueSeenTime := None\<rparr>"

subsection \<open>Feasibility\<close>

definition check_cluster :: "WzClusterStatus result \<Rightarrow> DryRunResult \<Rightarrow> DryRunResult" where
  "check_cluster st r = (case st of
     Inl e \<Rightarrow> add_warning (''Cannot check cluster status: '' @ text_of e) r
   | Inr c \<Rightarrow> if \<not> wcs_Running c then add_blocker ''Wazuh cluster is not running'' r else r)"

definition check_node :: "string \<Rightarrow> ClusterNodeStatus result \<Rightarrow> DryRunResult \<Rightarrow> DryRunResult" where
  "check_node nodeName st r = (case st of
     Inl e \<Rightarrow> add_warning (''Cannot check node '' @ nodeName @ '' status: '' @ text_of e) r
   | Inr n \<Rightarrow> if cns_Status n = ''disconnected''
       then add_warning (''Node '' @ nodeName @ '' is disconnected from cluster'') r else r)"

text \<open>\<open>int64(d.gracePeriod.Seconds())\<close> is the truncated number of seconds.\<close>

definition check_queue :: "duration \<Rightarrow> i64 result \<Rightarrow> DryRunResult \<Rightarrow> DryRunResult" where
  "check_queue grace q r = (case q of
     Inl e \<Rightarrow> add_warning (''Cannot check queue status: '' @ text_of e) r
   | Inr n \<Rightarrow>
      if sint n > 0 then
        (let secs = go_div n 1000; secs' = (if sint secs < 60 then 60 else secs) in
         r\<lparr>dr_EstimatedDuration := Some ((secs' + go_div grace second) * second)\<rparr>)
      else r\<lparr>dr_EstimatedDuration := Some (grace + 30 * second)\<rparr>)"

definition check_workers :: "ClusterNodeStatus list result \<Rightarrow> DryRunResult \<Rightarrow> DryRunResult" where
  "check_workers ns r = (case ns of
     Inl e \<Rightarrow> add_warning (''Cannot check all nodes: '' @ text_of e) r
   | Inr nodes \<Rightarrow>
      if length (filter (\<lambda>n. cns_Type n = ''worker'') nodes) \<le> 1
      then add_blocker ''Cannot drain: only one worker node in cluster'' r else r)"

definition ManagerDrainer_EvaluateFeasibility ::
    "'s env \<Rightarrow> ManagerDrainer \<Rightarrow> string \<Rightarrow> ('s, DryRunResult result) io" where
  "ManagerDrainer_EvaluateFeasibility E d nodeName = do {
     now \<leftarrow> time_now E;
     let result = fresh_result now DrainComponentManager;
     healthy \<leftarrow> WazuhAPI_IsHealthy E (md_client d);
     if \<not> healthy then ret (Inr (add_blocker ''Cannot connect to Wazuh API'' result))
     else do {
       cluster \<leftarrow> GetClusterStatus E (md_client d);
       node \<leftarrow> GetClusterNodeStatus E (md_client d) nodeName;
       queue \<leftarrow> GetQueueStatus E (md_client d) nodeName;
       nodes \<leftarrow> GetAllNodesStatus E (md_client d);
       ret (Inr (check_workers nodes (check_queue (md_gracePeriod d) queue
         (check_node nodeName node (check_cluster cluster result))))) } }"

subsection \<open>Waiting for a drain\<close>

text \<open>The polling loop, as in \<open>IndexerDrain\<close>: one list element per iteration of the \<open>select\<close>.\<close>

fun manager_wait_loop :: "'s env \<Rightarrow> ManagerDrainer \<Rightarrow> string \<Rightarrow> time \<Rightarrow> unit result list \<Rightarrow>
    ComponentDrainStatus option \<Rightarrow> ('s, (unit result \<times> ComponentDrainStatus option) option) io" where
  "manager_wait_loop E d nodeName startTime [] status = ret None"
| "manager_wait_loop E d nodeName startTime (Inl e # ticks) status = ret (Some (Inl e, status))"
| "manager_wait_loop E d nodeName startTime (Inr u # ticks) status = do {
     now \<leftarrow> time_now E;
     if sint (time_sub now startTime) > sint (md_timeout d) then
       ret (Some (Inl (errorf (''drain timeout after '' @ duration_string (md_timeout d))), status))
     else do {
       r \<leftarrow> MonitorQueueDepth E d nodeName;
       case r of (d', Inl e) \<Rightarrow> manager_wait_loop E d' nodeName startTime ticks status
       | (d', Inr progress) \<Rightarrow>
          (let status' = map_option (\<lambda>s. UpdateQueueDepth
                 (UpdateProgress s (mp_Percent progress) (mp_Message progress)) (mp_QueueDepth progress)) status
           in if mp_IsComplete progress then ret (Some (Inr (), status'))
              else manager_wait_loop E d' nodeName startTime ticks status') } }"

definition ManagerDrainer_WaitForDrainComplete :: "'s env \<Rightarrow> ManagerDrainer \<Rightarrow> string \<Rightarrow> unit result list \<Rightarrow>
    ComponentDrainStatus option \<Rightarrow> ('s, (unit result \<times> ComponentDrainStatus option) option) io" where
  "ManagerDrainer_WaitForDrainComplete E d nodeName ticks status = do {
     startTime \<leftarrow> time_now E;
     manager_wait_loop E d nodeName startTime ticks status }"

subsection \<open>Lemmas\<close>

text \<open>The instant was read from the clock, which left the world in that state.\<close>

definition clock_read :: "'s env \<Rightarrow> time \<Rightarrow> 's \<Rightarrow> bool" where
  "clock_read E now s' \<longleftrightarrow> (\<exists>s. e_now E s = (now, s'))"

lemma clock_readI [intro]: "e_now E s = (now, s') \<Longrightarrow> clock_read E now s'"
  unfolding clock_read_def by blast

text \<open>A queue answer in the log.\<close>

fun saw_queue :: "string \<Rightarrow> (i64 \<Rightarrow> bool) \<Rightarrow> effect \<Rightarrow> bool" where
  "saw_queue node P (EWazuh url m path (Inr resp)) =
     (m = ''GET'' \<and> path = (if node \<noteq> [] then ''/cluster/'' @ node @ ''/stats'' else ''/manager/stats'') \<and>
      wr_StatusCode resp = 200 \<and> (case wr_queues resp of Inl e \<Rightarrow> False | Inr sizes \<Rightarrow> P (foldl (+) 0 sizes)))"
| "saw_queue node P e = False"

lemma GetQueueStatus_saw:
  assumes "run_state (GetQueueStatus E p node) w = (Inr n, w')"
  obtains es e where "w_log w' = w_log w @ es @ [e]" and "saw_queue node (\<lambda>t. t = n) e"
proof -
  let ?path = "if node \<noteq> [] then ''/cluster/'' @ node @ ''/stats'' else ''/manager/stats''"
  obtain u w1 where u: "run_state (Authenticate E p) w = (u, w1)" by fastforce
  obtain es where es: "w_log w1 = w_log w @ es"
    using logs_Authenticate u by (rule logs_onlyD)
  let ?a = "w_adapters w1 ! p"
  obtain r s2 where r: "e_wazuh E (wa_baseURL ?a) (Bearer (wa_token ?a)) ''GET'' ?path (w_env w1) = (r, s2)" by fastforce
  from assms u r have "w_log w' = w_log w1 @ [EWazuh (wa_baseURL ?a) ''GET'' ?path r]"
      "saw_queue node (\<lambda>t. t = n) (EWazuh (wa_baseURL ?a) ''GET'' ?path r)"
    by (auto simp: GetQueueStatus_def wz_fetch_def doRequest_def wz_call_def run_io Let_def
        split: sum.splits if_splits)
  with es show thesis by (intro that) simp_all
qed

text \<open>
  The divisor of the percentage is never zero, whatever the depths: the starting depth is
  only replaced by a depth it differs from.
\<close>

lemma queue_percent_base_nonzero:
  "sint initial > 0 \<Longrightarrow> fst (queue_percent initial depth) \<noteq> 0"
  by (auto simp: queue_percent_def Let_def)

lemma queue_percent_exact:
  assumes "0 < sint i" and "0 \<le> sint q" and "sint q \<le> sint i" and "sint i \<le> 92233720368547758"
  shows "queue_percent i q = (i, to_i32 ((sint i - sint q) * 100 div sint i))"
proof -
  have d: "sint (i - q) = sint i - sint q"
    using assms by (subst sint_i64_diff) simp_all
  have m: "sint ((i - q) * 100) = (sint i - sint q) * 100"
    using assms d by (subst sint_i64_mult) simp_all
  have "0 \<le> (sint i - sint q) * 100 sdiv sint i" "(sint i - sint q) * 100 sdiv sint i \<le> 100"
    using percent_bounds [of "sint i - sint q" "sint i"] assms by simp_all
  then have "sint (go_div ((i - q) * 100) i) = (sint i - sint q) * 100 div sint i"
    using assms m by (simp add: go_div_def sint_of_int_in_range sdiv_nonneg)
  then show ?thesis
    using assms d by (simp add: queue_percent_def Let_def)
qed

lemma queue_percent_more:
  assumes "0 < sint i" and "sint i < sint q"
  shows "queue_percent i q = (q, 0)"
proof -
  have "sint (i - q) = sint i - sint q"
    using assms i64_upper [of q] by (subst sint_i64_diff) simp_all
  then show ?thesis
    using assms by (simp add: queue_percent_def Let_def go_div_def to_i32_def)
qed

lemma queue_percent_bounds:
  assumes "0 \<le> sint q" and "sint i \<le> 92233720368547758"
  shows "0 \<le> sint (snd (queue_percent i q)) \<and> sint (snd (queue_percent i q)) \<le> 100"
proof (cases "0 < sint i")
  case False
  then show ?thesis by (simp add: queue_percent_def)
next
  case True
  show ?thesis
  proof (cases "sint q \<le> sint i")
    case le: True
    have "0 \<le> (sint i - sint q) * 100 div sint i" "(sint i - sint q) * 100 div sint i \<le> 100"
      using percent_bounds [of "sint i - sint q" "sint i"] assms True le by (simp_all add: sdiv_nonneg)
    then show ?thesis
      using assms True le by (simp add: queue_percent_exact sint_to_i32)
  qed (use True queue_percent_more in simp)
qed

text \<open>One poll of the queue, in cases.\<close>

lemma MonitorQueueDepth_cases:
  assumes "run_state (MonitorQueueDepth E d node) w = ((d', Inr p), w')"
  obtains depth w1 where "run_state (GetQueueStatus E (md_client d) node) w = (Inr depth, w1)"
    and "w_log w' = w_log w1" and "mp_QueueDepth p = depth"
    and "md_initialQueueDepth d' = fst (queue_percent (md_initialQueueDepth d) depth)"
    and "depth \<noteq> 0 \<longrightarrow> md_emptyQueueSeenTime d' = None \<and> \<not> mp_IsComplete p"
    and "\<not> mp_IsComplete p \<longrightarrow> mp_Percent p = snd (queue_percent (md_initialQueueDepth d) depth)"
    and "mp_IsComplete p \<longrightarrow> mp_Percent p = 100 \<and> depth = 0 \<and>
          (\<exists>seen now. md_emptyQueueSeenTime d' = Some seen \<and> clock_read E now (w_env w') \<and>
            sint (md_gracePeriod d) \<le> sint (time_sub now seen) \<and>
            (\<forall>t. md_emptyQueueSeenTime d = Some t \<longrightarrow> t = seen))"
proof -
  obtain r w1 where r: "run_state (GetQueueStatus E (md_client d) node) w = (r, w1)" by fastforce
  with assms obtain depth where dep: "r = Inr depth"
    by (cases r) (auto simp: MonitorQueueDepth_def run_io)
  obtain base pc where q: "queue_percent (md_initialQueueDepth d) depth = (base, pc)" by fastforce
  note defs = MonitorQueueDepth_def empty_since_def time_now_def run_io Let_def
  show thesis
  proof (cases "depth = 0")
    case False
    with assms r dep q show thesis
      by (intro that [of depth w1]) (auto simp: defs)
  next
    case True
    show thesis
    proof (cases "md_emptyQueueSeenTime d")
      case None
      with assms r dep q True show thesis
        by (intro that [of depth w1], auto simp: defs split: prod.splits if_splits) blast+
    next
      case (Some t)
      with assms r dep q True show thesis
        by (intro that [of depth w1], auto simp: defs split: prod.splits if_splits) blast+
    qed
  qed
qed

lemma VerifyQueueEmpty_run:
  assumes "run_state (GetQueueStatus E (md_client d) node) w = (Inr n, w1)"
  shows "run_state (VerifyQueueEmpty E d node) w =
    (if sint n > 0 then ((d, Inr False), w1)
     else case e_now E (w_env w1) of (now, s2) \<Rightarrow>
       (case md_emptyQueueSeenTime d of
          None \<Rightarrow> ((d\<lparr>md_emptyQueueSeenTime := Some now\<rparr>, Inr False), w1\<lparr>w_env := s2\<rparr>)
        | Some seen \<Rightarrow> ((d, Inr (sint (md_gracePeriod d) \<le> sint (time_sub now seen))), w1\<lparr>w_env := s2\<rparr>)))"
  using assms by (auto simp: VerifyQueueEmpty_def time_now_def run_io not_less split: option.splits prod.splits)

subsection \<open>Properties\<close>

text \<open>
  polling the queue of a worker: the depth is the one the API just reported; while it is
  not empty the drain is not complete and the grace period starts over; the drain is
  complete only when the queue is empty and has been since an instant at least the grace
  period before the last clock reading. With non-negative depths (and a starting depth
  below \<open>2\<^sup>6\<^sup>3 / 100\<close>) the percentage lies between 0 and 100.
\<close>

theorem MonitorQueueDepth_sound:
  assumes "run_state (MonitorQueueDepth E d node) w = ((d', Inr p), w')"
  shows "(\<exists>es e. w_log w' = w_log w @ es @ [e] \<and> saw_queue node (\<lambda>n. n = mp_QueueDepth p) e) \<and>
    (mp_QueueDepth p \<noteq> 0 \<longrightarrow> md_emptyQueueSeenTime d' = None \<and> \<not> mp_IsComplete p) \<and>
    (mp_IsComplete p \<longrightarrow> mp_QueueDepth p = 0 \<and>
       (\<exists>seen now. md_emptyQueueSeenTime d' = Some seen \<and> clock_read E now (w_env w') \<and>
          sint (md_gracePeriod d) \<le> sint (time_sub now seen) \<and>
          (\<forall>t. md_emptyQueueSeenTime d = Some t \<longrightarrow> t = seen))) \<and>
    (0 \<le> sint (mp_QueueDepth p) \<and> sint (md_initialQueueDepth d) \<le> 92233720368547758 \<longrightarrow>
       0 \<le> sint (mp_Percent p) \<and> sint (mp_Percent p) \<le> 100)"
proof -
  obtain depth w1 where m: "run_state (GetQueueStatus E (md_client d) node) w = (Inr depth, w1)"
    "w_log w' = w_log w1" "mp_QueueDepth p = depth"
    "md_initialQueueDepth d' = fst (queue_percent (md_initialQueueDepth d) depth)"
    "depth \<noteq> 0 \<longrightarrow> md_emptyQueueSeenTime d' = None \<and> \<not> mp_IsComplete p"
    "\<not> mp_IsComplete p \<longrightarrow> mp_Percent p = snd (queue_percent (md_initialQueueDepth d) depth)"
    "mp_IsComplete p \<longrightarrow> mp_Percent p = 100 \<and> depth = 0 \<and>
          (\<exists>seen now. md_emptyQueueSeenTime d' = Some seen \<and> clock_read E now (w_env w') \<and>
            sint (md_gracePeriod d) \<le> sint (time_sub now seen) \<and>
            (\<forall>t. md_emptyQueueSeenTime d = Some t \<longrightarrow> t = seen))"
    by (rule MonitorQueueDepth_cases [OF assms]) blast
  obtain es e where "w_log w' = w_log w @ es @ [e]" "saw_queue node (\<lambda>n. n = mp_QueueDepth p) e"
    using GetQueueStatus_saw [OF m(1)] m(2, 3) by metis
  moreover have "0 \<le> sint (mp_Percent p) \<and> sint (mp_Percent p) \<le> 100"
    if "0 \<le> sint depth" "sint (md_initialQueueDepth d) \<le> 92233720368547758"
    using that queue_percent_bounds [of depth "md_initialQueueDepth d"] m(6, 7)
    by (cases "mp_IsComplete p") simp_all
  ultimately show ?thesis using m by blast
qed

text \<open>A Wazuh server for examples: the queue depths of successive statistics calls, and a clock.\<close>

definition sample_wz :: "i64 \<Rightarrow> wz_resp" where
  "sample_wz n = \<lparr>wr_StatusCode = 200, wr_Body = [], wr_token = Inr ''tok'',
     wr_cluster = Inr \<lparr>wcs_Enabled = True, wcs_Running = True, wcs_Name = ''wz'', wcs_Node = ''m''\<rparr>,
     wr_nodeinfo = Inr [], wr_info = Inr \<lparr>mi_Version = ''4.9'', mi_Name = ''m''\<rparr>, wr_queues = Inr [n],
     wr_nodes = Inr [], wr_restart = Inl (errorf []), wr_agents = Inl (errorf [])\<rparr>"

definition queue_env :: "(int \<times> i64 list) env" where
  "queue_env = dead_env\<lparr>e_now := (\<lambda>(t, qs). (t + 1000000000, (t + 1000000000, qs))),
     e_wazuh := (\<lambda>u a m p (t, qs). if m = ''GET'' then (case qs of [] \<Rightarrow> (Inr (sample_wz 0), (t, []))
        | q # qs' \<Rightarrow> (Inr (sample_wz q), (t, qs'))) else (Inr (sample_wz 0), (t, qs)))\<rparr>"

definition queue_world :: "i64 list \<Rightarrow> (int \<times> i64 list) world" where
  "queue_world qs = (new_world (0, qs))\<lparr>w_adapters := [\<lparr>wa_baseURL = ''u'', wa_username = ''a'', wa_password = ''b'',
     wa_token = ''tok'', wa_tokenExp = 1000000000000\<rparr>]\<rparr>"

lemmas queue_defs = queue_env_def queue_world_def dead_env_def new_world_def sample_wz_def GetQueueStatus_def wz_fetch_def doRequest_def
  Authenticate_def token_valid_def wz_call_def time_now_def empty_since_def

theorem MonitorQueueDepth_sound_witness:
  "\<exists>d' p w'. run_state (MonitorQueueDepth queue_env ((NewManagerDrainer 0 None)\<lparr>md_initialQueueDepth := 8\<rparr>) ''w-1'')
      (queue_world [2]) = ((d', Inr p), w') \<and> mp_QueueDepth p = 2 \<and> \<not> mp_IsComplete p"
proof -
  let ?d = "(NewManagerDrainer 0 None)\<lparr>md_initialQueueDepth := 8\<rparr>"
  have q: "queue_percent 8 2 = (8, 75)" by (simp add: queue_percent_exact to_i32_def)
  obtain d' r w' where run: "run_state (MonitorQueueDepth queue_env ?d ''w-1'') (queue_world [2]) = ((d', r), w')"
    by (metis surj_pair)
  then obtain p where "r = Inr p" "mp_QueueDepth p = 2"
    by (auto simp: MonitorQueueDepth_def NewManagerDrainer_def queue_defs run_io q Let_def)
  then show ?thesis
    using MonitorQueueDepth_sound [of queue_env ?d "''w-1''" "queue_world [2]" d' p w'] run by auto
qed

text \<open>
  C9: a worker's queue is verified as empty only when the API just reported no events and
  the drainer had seen it empty at an instant at least the grace period before its last
  clock reading.
\<close>

theorem VerifyQueueEmpty_sound:
  assumes "run_state (VerifyQueueEmpty E d node) w = ((d', Inr True), w')"
  shows "d' = d \<and> (\<exists>es e. w_log w' = w_log w @ es @ [e] \<and> saw_queue node (\<lambda>n. sint n \<le> 0) e) \<and>
    (\<exists>seen now. md_emptyQueueSeenTime d = Some seen \<and> clock_read E now (w_env w') \<and>
      sint (md_gracePeriod d) \<le> sint (time_sub now seen))"
proof -
  obtain r w1 where r: "run_state (GetQueueStatus E (md_client d) node) w = (r, w1)" by fastforce
  with assms obtain n where n: "r = Inr n"
    by (cases r) (auto simp: VerifyQueueEmpty_def run_io)
  with r have q: "run_state (GetQueueStatus E (md_client d) node) w = (Inr n, w1)" by simp
  have v: "sint n \<le> 0" "d' = d" "w_log w' = w_log w1"
      "\<exists>seen now. md_emptyQueueSeenTime d = Some seen \<and> clock_read E now (w_env w') \<and>
        sint (md_gracePeriod d) \<le> sint (time_sub now seen)"
    using assms by (auto simp: VerifyQueueEmpty_run [OF q] split: if_splits option.splits prod.splits) blast+
  obtain es e where e: "w_log w1 = w_log w @ es @ [e]" "saw_queue node (\<lambda>t. t = n) e"
    using GetQueueStatus_saw [OF q] .
  have "saw_queue node (\<lambda>n. sint n \<le> 0) e"
    using e(2) v(1) by (auto elim!: saw_queue.elims split: sum.splits)
  with v e show ?thesis by (intro conjI) (auto simp: v)
qed

theorem VerifyQueueEmpty_sound_witness:
  "\<exists>w'. run_state (VerifyQueueEmpty queue_env
      ((NewManagerDrainer 0 None)\<lparr>md_gracePeriod := second, md_emptyQueueSeenTime := Some 0\<rparr>) ''w-1'')
      (queue_world [0]) = (((NewManagerDrainer 0 None)\<lparr>md_gracePeriod := second, md_emptyQueueSeenTime := Some 0\<rparr>, Inr True), w') \<and>
    (\<exists>es e. w_log w' = es @ [e] \<and> saw_queue ''w-1'' (\<lambda>n. sint n \<le> 0) e)"
proof -
  let ?d = "(NewManagerDrainer 0 None)\<lparr>md_gracePeriod := second, md_emptyQueueSeenTime := Some 0\<rparr>"
  obtain d' r w' where run: "run_state (VerifyQueueEmpty queue_env ?d ''w-1'') (queue_world [0]) = ((d', r), w')"
    by (metis surj_pair)
  then have "r = Inr True"
    by (auto simp: VerifyQueueEmpty_def NewManagerDrainer_def queue_defs run_io Let_def sint_time_sub)
  then show ?thesis
    using VerifyQueueEmpty_sound [of queue_env ?d "''w-1''" "queue_world [0]" d' w'] run
    by (auto simp: queue_world_def)
qed

text \<open>
  verification does not restart the grace period: when the drainer has once seen the
  queue empty, a verification that finds events leaves that instant in place, so the next
  one that finds the queue empty succeeds at once if the grace period has passed since the
  first time, although the queue was not empty all along.
\<close>

theorem VerifyQueueEmpty_grace_not_restarted:
  assumes "run_state (GetQueueStatus E (md_client d) node) w = (Inr n, w1)" and "sint n > 0"
    and "run_state (GetQueueStatus E (md_client d) node) w1 = (Inr m, w2)" and "sint m \<le> 0"
    and "md_emptyQueueSeenTime d = Some seen" and "e_now E (w_env w2) = (now, s3)"
    and "sint (md_gracePeriod d) \<le> sint (time_sub now seen)"
  shows "run_state (VerifyQueueEmpty E d node) w = ((d, Inr False), w1) \<and>
    run_state (VerifyQueueEmpty E d node) w1 = ((d, Inr True), w2\<lparr>w_env := s3\<rparr>)"
  using assms by (simp add: VerifyQueueEmpty_run [OF assms(1)] VerifyQueueEmpty_run [OF assms(3)])

theorem VerifyQueueEmpty_grace_not_restarted_witness:
  "\<exists>d w1 w2. run_state (VerifyQueueEmpty queue_env d ''w-1'') (queue_world [5, 0]) = ((d, Inr False), w1) \<and>
    run_state (VerifyQueueEmpty queue_env d ''w-1'') w1 = ((d, Inr True), w2)"
proof -
  let ?d = "(NewManagerDrainer 0 None)\<lparr>md_gracePeriod := second, md_emptyQueueSeenTime := Some 0\<rparr>"
  let ?q = "GetQueueStatus queue_env (md_client ?d) ''w-1''"
  obtain r w1 where r: "run_state ?q (queue_world [5, 0]) = (r, w1)" by fastforce
  obtain q w2 where q: "run_state ?q w1 = (q, w2)" by fastforce
  obtain now s3 where n: "e_now queue_env (w_env w2) = (now, s3)" by (cases "e_now queue_env (w_env w2)")
  have "r = Inr 5" "q = Inr 0" "now = 3000000000"
    using r q n by (auto simp: NewManagerDrainer_def queue_defs run_io Let_def)
  then show ?thesis
    using VerifyQueueEmpty_grace_not_restarted [of queue_env ?d "''w-1''" "queue_world [5, 0]" 5 w1 0 w2 0 now s3] r q n
    by (intro exI [of _ ?d]) (auto simp: sint_time_sub)
qed

end
