(* ===== verification/GoFloat.thy ===== *)
theory GoFloat
  imports Prelude Complex_Main
begin

section \<open>Go's \<open>float64\<close>, as far as the backoff computations use it\<close>

text \<open>
  A finite \<open>float64\<close> is the rational number it stands for (the sign of zero is not kept: it
  does not influence a product's conversion to an integer). A product is the exact product
  rounded to the nearest double, ties to even; a magnitude beyond the largest double becomes
  an infinity. The conversion of an out-of-range float to an integer is implementation
  dependent in Go and is the argument \<open>oor\<close>.
\<close>

datatype f64 = Fin rat | PosInf | NegInf | NaN

text \<open>Number of binary digits of a non-negative integer.\<close>

function bit_length :: "int \<Rightarrow> nat" where
  "bit_length n = (if n \<le> 0 then 0 else Suc (bit_length (n div 2)))"
  by pat_completeness auto
termination
  by (relation "measure nat") auto

declare bit_length.simps [simp del]

text \<open>\<open>\<lfloor>log2 x\<rfloor>\<close> of a positive rational: the quotient of the bit lengths is off by at most one.\<close>

definition pow2 :: "int \<Rightarrow> rat" where
  "pow2 e = (if e \<ge> 0 then 2 ^ nat e else 1 / 2 ^ nat (- e))"

definition floor_log2 :: "rat \<Rightarrow> int" where
  "floor_log2 x = (case quotient_of x of (n, d) \<Rightarrow>
     (let e = int (bit_length n) - int (bit_length d) in if pow2 e \<le> x then e else e - 1))"

definition round_even :: "rat \<Rightarrow> int" where
  "round_even x = (let k = \<lfloor>x\<rfloor>; r = x - of_int k in
     if r < 1 / 2 then k else if 1 / 2 < r then k + 1 else if even k then k else k + 1)"

definition round_f64 :: "rat \<Rightarrow> f64" where
  "round_f64 x = (if x = 0 then Fin 0 else
     let a = \<bar>x\<bar>; q = max (floor_log2 a - 52) (- 1074); m = of_int (round_even (a / pow2 q)) * pow2 q in
     if floor_log2 m \<ge> 1024 then (if x > 0 then PosInf else NegInf)
     else Fin (if x > 0 then m else - m))"

definition f64_of_int :: "int \<Rightarrow> f64" where
  "f64_of_int k = round_f64 (of_int k)"

definition inf_of :: "bool \<Rightarrow> f64" where
  "inf_of pos = (if pos then PosInf else NegInf)"

fun f64_mult :: "f64 \<Rightarrow> f64 \<Rightarrow> f64" where
  "f64_mult NaN y = NaN"
| "f64_mult x NaN = NaN"
| "f64_mult (Fin x) (Fin y) = round_f64 (x * y)"
| "f64_mult (Fin x) PosInf = (if x = 0 then NaN else inf_of (x > 0))"
| "f64_mult (Fin x) NegInf = (if x = 0 then NaN else inf_of (x < 0))"
| "f64_mult PosInf (Fin y) = (if y = 0 then NaN else inf_of (y > 0))"
| "f64_mult NegInf (Fin y) = (if y = 0 then NaN else inf_of (y < 0))"
| "f64_mult PosInf PosInf = PosInf"
| "f64_mult PosInf NegInf = NegInf"
| "f64_mult NegInf PosInf = NegInf"
| "f64_mult NegInf NegInf = PosInf"

text \<open>\<open>int64(f)\<close>: truncation towards zero.\<close>

definition trunc_rat :: "rat \<Rightarrow> int" where
  "trunc_rat x = (if x \<ge> 0 then \<lfloor>x\<rfloor> else - \<lfloor>- x\<rfloor>)"

definition i64_of_f64 :: "(f64 \<Rightarrow> i64) \<Rightarrow> f64 \<Rightarrow> i64" where
  "i64_of_f64 oor f = (case f of
     Fin x \<Rightarrow> if in_i64 (trunc_rat x) then word_of_int (trunc_rat x) else oor f
   | _ \<Rightarrow> oor f)"

text \<open>\<open>time.Duration(float64(d) * m)\<close>.\<close>

definition scale_duration :: "(f64 \<Rightarrow> i64) \<Rightarrow> f64 \<Rightarrow> duration \<Rightarrow> duration" where
  "scale_duration oor m d = i64_of_f64 oor (f64_mult (f64_of_int (sint d)) m)"

subsection \<open>\<open>strconv.ParseFloat(s, 64)\<close>\<close>

text \<open>
  A decimal or hexadecimal literal with optional sign, point, exponent and digit-separating
  underscores, or an infinity or a not-a-number by name; \<open>None\<close> is a syntax error, or a value
  that rounds beyond the largest double. The exponent's digits stop counting once it reaches
  10000, as the scanner's do.
\<close>

definition lower_char :: "char \<Rightarrow> char" where
  "lower_char c = (if 65 \<le> (of_char c :: nat) \<and> (of_char c :: nat) \<le> 90 then char_of ((of_char c :: nat) + 32) else c)"

definition is_hex_letter :: "char \<Rightarrow> bool" where
  "is_hex_letter c = (97 \<le> (of_char (lower_char c) :: nat) \<and> (of_char (lower_char c) :: nat) \<le> 102)"

definition hex_val :: "char \<Rightarrow> nat" where
  "hex_val c = (if is_digit c then digit_val c else of_char (lower_char c) - 87)"

text \<open>The mantissa: its value, the digits after the point if there was one, whether a digit
  was seen, and the rest of the input.\<close>

fun scan_mantissa :: "bool \<Rightarrow> string \<Rightarrow> nat \<Rightarrow> nat option \<Rightarrow> bool \<Rightarrow> nat \<times> nat option \<times> bool \<times> string" where
  "scan_mantissa hex [] m dp saw = (m, dp, saw, [])"
| "scan_mantissa hex (c # cs) m dp saw =
     (if c = CHR ''_'' then scan_mantissa hex cs m dp saw
      else if c = CHR ''.'' then
        (if dp \<noteq> None then (m, dp, saw, c # cs) else scan_mantissa hex cs m (Some 0) saw)
      else if is_digit c \<or> hex \<and> is_hex_letter c then
        scan_mantissa hex cs ((if hex then 16 else 10) * m + hex_val c) (map_option Suc dp) True
      else (m, dp, saw, c # cs))"

fun scan_exponent :: "string \<Rightarrow> nat \<Rightarrow> nat \<times> string" where
  "scan_exponent [] e = (e, [])"
| "scan_exponent (c # cs) e =
     (if c = CHR ''_'' then scan_exponent cs e
      else if is_digit c then scan_exponent cs (if e < 10000 then 10 * e + digit_val c else e)
      else (e, c # cs))"

text \<open>\<open>underscoreOK\<close>: an underscore stands between digits, or after the base prefix.\<close>

fun underscores_ok :: "bool \<Rightarrow> char \<Rightarrow> string \<Rightarrow> bool" where
  "underscores_ok hex saw [] = (saw \<noteq> CHR ''_'')"
| "underscores_ok hex saw (c # cs) =
     (if is_digit c \<or> hex \<and> is_hex_letter c then underscores_ok hex CHR ''0'' cs
      else if c = CHR ''_'' then saw = CHR ''0'' \<and> underscores_ok hex CHR ''_'' cs
      else saw \<noteq> CHR ''_'' \<and> underscores_ok hex CHR ''!'' cs)"

definition underscoreOK :: "string \<Rightarrow> bool" where
  "underscoreOK s = (let t = snd (signed_part s) in
     if length t \<ge> 2 \<and> t ! 0 = CHR ''0'' \<and> lower_char (t ! 1) \<in> {CHR ''b'', CHR ''o'', CHR ''x''}
     then underscores_ok (lower_char (t ! 1) = CHR ''x'') CHR ''0'' (drop 2 t)
     else underscores_ok False CHR ''^'' t)"

text \<open>The exponent part: \<open>None\<close> a malformed one, otherwise its value and the rest.\<close>

definition scan_exp_part :: "bool \<Rightarrow> string \<Rightarrow> (int \<times> string) option" where
  "scan_exp_part hex s = (case s of
     c # cs \<Rightarrow>
      (if lower_char c = (if hex then CHR ''p'' else CHR ''e'') then
         (case signed_part cs of (neg, ds) \<Rightarrow>
           if ds = [] \<or> \<not> is_digit (hd ds) then None
           else (case scan_exponent ds 0 of (e, rest) \<Rightarrow> Some (if neg then - int e else int e, rest)))
       else if hex then None else Some (0, s))
   | [] \<Rightarrow> if hex then None else Some (0, s))"

definition special_float :: "string \<Rightarrow> f64 option" where
  "special_float s = (let t = map lower_char s; u = map lower_char (snd (signed_part s)) in
     if u = ''inf'' \<or> u = ''infinity'' then Some (if fst (signed_part s) then NegInf else PosInf)
     else if t = ''nan'' then Some NaN else None)"

definition pow10 :: "int \<Rightarrow> rat" where
  "pow10 e = (if e \<ge> 0 then 10 ^ nat e else 1 / 10 ^ nat (- e))"

definition read_float :: "string \<Rightarrow> rat option" where
  "read_float s = (case signed_part s of (neg, t) \<Rightarrow>
     (let hex = (length t > 2 \<and> t ! 0 = CHR ''0'' \<and> lower_char (t ! 1) = CHR ''x'') in
      case scan_mantissa hex (if hex then drop 2 t else t) 0 None False of (m, dp, saw, rest) \<Rightarrow>
        if \<not> saw then None else
        (case scan_exp_part hex rest of None \<Rightarrow> None
         | Some (e, rest') \<Rightarrow>
             if rest' \<noteq> [] \<or> CHR ''_'' \<in> set s \<and> \<not> underscoreOK s then None
             else (let fd = int (case dp of None \<Rightarrow> 0 | Some n \<Rightarrow> n);
                       v = of_nat m * (if hex then pow2 (e - 4 * fd) else pow10 (e - fd))
                   in Some (if neg then - v else v)))))"

definition parse_float :: "string \<Rightarrow> f64 option" where
  "parse_float s = (case special_float s of Some f \<Rightarrow> Some f
   | None \<Rightarrow> (case read_float s of None \<Rightarrow> None
      | Some v \<Rightarrow> (case round_f64 v of Fin x \<Rightarrow> Some (Fin x) | _ \<Rightarrow> None)))"

subsection \<open>Lemmas\<close>

lemma bit_length_bounds: "0 < n \<Longrightarrow> 2 ^ (bit_length n - 1) \<le> n \<and> n < 2 ^ bit_length n \<and> 0 < bit_length n"
proof (induction n rule: bit_length.induct)
  case (1 n)
  show ?case
  proof (cases "n = 1")
    case True
    then show ?thesis by (simp add: bit_length.simps)
  next
    case False
    then have pos: "0 < n div 2" using "1.prems" by simp
    then have IH: "2 ^ (bit_length (n div 2) - 1) \<le> n div 2" "n div 2 < 2 ^ bit_length (n div 2)"
        "0 < bit_length (n div 2)"
      using "1.IH" "1.prems" by simp_all
    obtain k where k: "bit_length (n div 2) = Suc k" using IH(3) by (cases "bit_length (n div 2)") auto
    have "bit_length n = Suc (Suc k)" using "1.prems" k by (simp add: bit_length.simps [of n])
    then show ?thesis using IH(1, 2) k by (simp, linarith)
  qed
qed

text \<open>Integers of at most 53 bits are doubles: rounding leaves them alone.\<close>

lemma floor_log2_int:
  assumes "0 < k"
  shows "floor_log2 (of_int k) = int (bit_length k) - 1"
proof -
  have q: "quotient_of (of_int k) = (k, 1)" by simp
  have one: "bit_length 1 = 1" by (simp add: bit_length.simps)
  have "pow2 (int (bit_length k) - 1) \<le> of_int k"
  proof -
    have "(2 ^ (bit_length k - 1) :: int) \<le> k" using bit_length_bounds assms by blast
    then have "(2 ^ (bit_length k - 1) :: rat) \<le> of_int k"
      by (metis of_int_le_iff of_int_numeral of_int_power)
    moreover have "nat (int (bit_length k) - 1) = bit_length k - 1" by simp
    ultimately show ?thesis
      using bit_length_bounds assms by (simp add: pow2_def)
  qed
  then show ?thesis by (simp add: floor_log2_def q one Let_def)
qed

lemma round_even_int [simp]: "round_even (of_int k) = k"
  by (simp add: round_even_def)

lemma pow2_neg_scale: "q \<le> 0 \<Longrightarrow> (of_int k :: rat) / pow2 q = of_int (k * 2 ^ nat (- q))"
  by (cases "q = 0") (simp_all add: pow2_def)

lemma pow2_pos [simp]: "0 < pow2 e"
  by (simp add: pow2_def)

lemma round_f64_int:
  assumes "0 < k" and "k < 2 ^ 53"
  shows "round_f64 (of_int k) = Fin (of_int k)"
proof -
  have len: "bit_length k \<le> 53"
  proof (rule ccontr)
    assume "\<not> bit_length k \<le> 53"
    then have "(2 ^ 53 :: int) \<le> 2 ^ (bit_length k - 1)" by (intro power_increasing) auto
    also have "\<dots> \<le> k" using bit_length_bounds assms by blast
    finally show False using assms by simp
  qed
  then have q: "max (floor_log2 (of_int k) - 52) (- 1074) \<le> 0"
    using assms by (simp add: floor_log2_int)
  define q where "q = max (floor_log2 (of_int k) - 52) (- 1074)"
  have eq: "of_int (round_even (of_int k / pow2 q)) * pow2 q = (of_int k :: rat)"
  proof -
    have "(of_int k :: rat) / pow2 q = of_int (k * 2 ^ nat (- q))"
      using q unfolding q_def by (rule pow2_neg_scale)
    then have "of_int (round_even (of_int k / pow2 q)) = (of_int k :: rat) / pow2 q"
      by (metis round_even_int)
    then show ?thesis
      using pow2_pos [of q] by (simp add: divide_simps)
  qed
  have "\<not> 1024 \<le> floor_log2 (of_int k)"
    using len assms(1) by (simp add: floor_log2_int)
  then show ?thesis
    using assms eq by (simp add: round_f64_def Let_def q_def [symmetric])
qed

text \<open>So doubling a duration of less than \<open>2\<^sup>5\<^sup>2\<close> nanoseconds (52 days) is exact.\<close>

lemma scale_double:
  assumes "0 < sint d" and "sint d < 2 ^ 52"
  shows "scale_duration oor (Fin 2) d = 2 * d"
proof -
  have "of_int (sint d) * (2 :: rat) = of_int (2 * sint d)" by simp
  then have "f64_mult (f64_of_int (sint d)) (Fin 2) = Fin (of_int (2 * sint d))"
    using assms round_f64_int [of "sint d"] round_f64_int [of "2 * sint d"]
    by (simp add: f64_of_int_def del: of_int_mult)
  moreover have "word_of_int (2 * sint d) = 2 * d"
    by (simp only: of_int_mult of_int_numeral of_int_sint scast_id)
  ultimately show ?thesis
    using assms by (simp add: scale_duration_def i64_of_f64_def trunc_rat_def in_i64_def del: of_int_mult)
qed

lemma parse_float_examples:
  "parse_float ''2.0'' = Some (Fin 2)" "parse_float ''1.5'' = Some (Fin (3 / 2))"
  "parse_float ''0x1p4'' = Some (Fin 16)" "parse_float ''1_0e1'' = Some (Fin 100)"
  "parse_float ''1__0'' = None" "parse_float ''2.0x'' = None" "parse_float ''-Inf'' = Some NegInf"
  by code_simp+

end
