(* ===== verification/DrainRetry.thy ===== *)
theory DrainRetry
  imports DrainState GoFloat
begin

section \<open>Retrying a failed drain (internal/wazuh/drain/retry.go)\<close>

text \<open>
  The methods of \<open>RetryManagerImpl\<close>, which keeps no state of its own: each is a function of
  the status, the optional configuration and the time \<open>now\<close> it reads. The multiplier is
  parsed and multiplied as a \<open>float64\<close>; \<open>oor\<close> is the conversion of an out-of-range float to
  an integer, which Go leaves to the implementation. The delay is bounded for every such
  conversion, and equals the exponential formula for the multiplier 2.
\<close>

subsection \<open>Definitions\<close>

definition DefaultDrainRetryMaxAttempts :: i32 where "DefaultDrainRetryMaxAttempts = 3"
definition DefaultDrainRetryInitialDelay :: duration where "DefaultDrainRetryInitialDelay = 5 * minute"
definition DefaultDrainRetryBackoffMultiplier :: f64 where "DefaultDrainRetryBackoffMultiplier = Fin 2"
definition DefaultDrainRetryMaxDelay :: duration where "DefaultDrainRetryMaxDelay = 30 * minute"

definition max_attempts :: "DrainRetryConfig option \<Rightarrow> i32" where
  "max_attempts config = (case config of
     Some c \<Rightarrow> if sint (drc_MaxAttempts c) > 0 then drc_MaxAttempts c else DefaultDrainRetryMaxAttempts
   | None \<Rightarrow> DefaultDrainRetryMaxAttempts)"

definition ShouldRetry :: "ComponentDrainStatus \<Rightarrow> DrainRetryConfig option \<Rightarrow> bool" where
  "ShouldRetry status config =
     (if sint (ds_AttemptCount status) \<ge> sint (max_attempts config) then False
      else if ds_Phase status \<noteq> DrainPhaseFailed then False else True)"

definition initial_delay :: "DrainRetryConfig option \<Rightarrow> duration" where
  "initial_delay config = (case config of
     Some c \<Rightarrow> (case drc_InitialDelay c of Some d \<Rightarrow> d | None \<Rightarrow> DefaultDrainRetryInitialDelay)
   | None \<Rightarrow> DefaultDrainRetryInitialDelay)"

definition backoff_multiplier :: "DrainRetryConfig option \<Rightarrow> f64" where
  "backoff_multiplier config = (case config of
     Some c \<Rightarrow> if drc_BackoffMultiplier c \<noteq> []
       then (case parse_float (drc_BackoffMultiplier c) of
               Some mult \<Rightarrow> mult | None \<Rightarrow> DefaultDrainRetryBackoffMultiplier)
       else DefaultDrainRetryBackoffMultiplier
   | None \<Rightarrow> DefaultDrainRetryBackoffMultiplier)"

definition max_delay :: "DrainRetryConfig option \<Rightarrow> duration" where
  "max_delay config = (case config of
     Some c \<Rightarrow> (case drc_MaxDelay c of Some d \<Rightarrow> d | None \<Rightarrow> DefaultDrainRetryMaxDelay)
   | None \<Rightarrow> DefaultDrainRetryMaxDelay)"

text \<open>The loop \<open>for i := 1; i < attempt; i++\<close>, with the rounds left.\<close>

fun backoff_loop :: "(duration \<Rightarrow> duration) \<Rightarrow> duration \<Rightarrow> nat \<Rightarrow> duration \<Rightarrow> duration" where
  "backoff_loop scale maxDelay 0 delay = delay"
| "backoff_loop scale maxDelay (Suc n) delay =
     (let d = scale delay in if sint d > sint maxDelay then maxDelay else backoff_loop scale maxDelay n d)"

definition retry_delay :: "(f64 \<Rightarrow> i64) \<Rightarrow> i32 \<Rightarrow> DrainRetryConfig option \<Rightarrow> duration" where
  "retry_delay oor attemptCount config =
     (let attempt = (if attemptCount = 0 then 1 else attemptCount) in
      backoff_loop (scale_duration oor (backoff_multiplier config)) (max_delay config)
        (nat (sint attempt - 1)) (initial_delay config))"

definition CalculateNextRetryTime ::
    "(f64 \<Rightarrow> i64) \<Rightarrow> time \<Rightarrow> ComponentDrainStatus \<Rightarrow> DrainRetryConfig option \<Rightarrow> time" where
  "CalculateNextRetryTime oor now status config =
     time_add now (retry_delay oor (ds_AttemptCount status) config)"

definition IncrementAttempt ::
    "(f64 \<Rightarrow> i64) \<Rightarrow> time \<Rightarrow> ComponentDrainStatus \<Rightarrow> DrainRetryConfig option \<Rightarrow> ComponentDrainStatus" where
  "IncrementAttempt oor now status config =
     (let s = status\<lparr>ds_AttemptCount := ds_AttemptCount status + 1\<rparr> in
      s\<lparr>ds_NextRetryTime := Some (CalculateNextRetryTime oor now s config)\<rparr>)"

definition RetryManager_IsRetryDue :: "time \<Rightarrow> ComponentDrainStatus \<Rightarrow> bool" where
  "RetryManager_IsRetryDue now status = (case ds_NextRetryTime status of None \<Rightarrow> False | Some t \<Rightarrow> now > t)"

definition ResetRetryState :: "ComponentDrainStatus \<Rightarrow> ComponentDrainStatus" where
  "ResetRetryState status = status\<lparr>ds_AttemptCount := 0, ds_NextRetryTime := None\<rparr>"

definition GetRetryStatus :: "time \<Rightarrow> ComponentDrainStatus \<Rightarrow> DrainRetryConfig option \<Rightarrow> string" where
  "GetRetryStatus now status config =
     (if sint (ds_AttemptCount status) \<ge> sint (max_attempts config)
      then ''max attempts reached, manual intervention required''
      else case ds_NextRetryTime status of
        Some t \<Rightarrow> (let remaining = time_sub t now in
          if sint remaining > 0
          then ''retry scheduled in '' @ duration_string (duration_round remaining second)
          else ''retry due'')
      | None \<Rightarrow> ''no retry scheduled'')"

record RetryDecision =
  rd_ShouldRetry :: bool
  rd_IsDue :: bool
  rd_AttemptNumber :: i32
  rd_RemainingAttempts :: i32
  rd_NextRetryTime :: "time option"
  rd_Reason :: string

definition EvaluateRetry ::
    "(f64 \<Rightarrow> i64) \<Rightarrow> time \<Rightarrow> ComponentDrainStatus \<Rightarrow> DrainRetryConfig option \<Rightarrow> RetryDecision" where
  "EvaluateRetry oor now status config =
     (let maxAttempts = max_attempts config;
          decision = \<lparr>rd_ShouldRetry = False, rd_IsDue = False, rd_AttemptNumber = ds_AttemptCount status + 1,
            rd_RemainingAttempts = maxAttempts - ds_AttemptCount status, rd_NextRetryTime = None, rd_Reason = []\<rparr> in
      if sint (ds_AttemptCount status) \<ge> sint maxAttempts then
        decision\<lparr>rd_ShouldRetry := False, rd_Reason := ''max attempts reached''\<rparr>
      else if ds_Phase status \<noteq> DrainPhaseFailed then
        decision\<lparr>rd_ShouldRetry := False, rd_Reason := ''not in failed state''\<rparr>
      else
        let decision = decision\<lparr>rd_ShouldRetry := True\<rparr> in
        case ds_NextRetryTime status of
          Some nextRetry \<Rightarrow>
            (let due = (now > nextRetry) in
             decision\<lparr>rd_NextRetryTime := Some nextRetry, rd_IsDue := due,
               rd_Reason := (if due then ''retry time has passed'' else ''waiting for retry time'')\<rparr>)
        | None \<Rightarrow>
            decision\<lparr>rd_NextRetryTime := Some (CalculateNextRetryTime oor now status config),
              rd_IsDue := False, rd_Reason := ''retry scheduled''\<rparr>)"

subsection \<open>The loop\<close>

lemma max_attempts_pos: "0 < sint (max_attempts config)"
  by (simp add: max_attempts_def DefaultDrainRetryMaxAttempts_def split: option.splits)

lemma backoff_loop_bounded:
  "0 < n \<Longrightarrow> sint (backoff_loop scale maxDelay n delay) \<le> sint maxDelay"
proof (induction n arbitrary: delay)
  case (Suc n)
  show ?case
  proof (cases n)
    case 0
    then show ?thesis by (simp add: Let_def)
  next
    case (Suc m)
    then show ?thesis using Suc.IH by (simp add: Let_def)
  qed
qed simp

lemma sint_double:
  assumes "0 \<le> sint d" and "sint d < 2 ^ 52"
  shows "sint (2 * d :: i64) = 2 * sint d"
  using assms sint_i64_mult [of 2 d] by simp

text \<open>With the multiplier 2 the loop computes \<open>delay * 2\<^sup>n\<close>, capped.\<close>

lemma backoff_loop_double:
  assumes "0 < sint delay" and "sint delay \<le> sint maxDelay" and "sint maxDelay < 2 ^ 52"
  shows "sint (backoff_loop (scale_duration oor (Fin 2)) maxDelay n delay)
           = min (sint delay * 2 ^ n) (sint maxDelay)"
  using assms(1, 2)
proof (induction n arbitrary: delay)
  case (Suc n)
  have lt: "sint delay < 2 ^ 52" using Suc.prems assms(3) by linarith
  have dbl: "scale_duration oor (Fin 2) delay = 2 * delay" "sint (2 * delay) = 2 * sint delay"
    using Suc.prems lt by (auto intro: scale_double sint_double)
  show ?case
  proof (cases "sint maxDelay < 2 * sint delay")
    case True
    have "(2 :: int) * 1 \<le> 2 * 2 ^ n" by (intro mult_left_mono) auto
    then have "sint delay * (2 * 1) \<le> sint delay * (2 * 2 ^ n)"
      using Suc.prems by (intro mult_left_mono) auto
    with True show ?thesis by (simp add: dbl Let_def)
  next
    case False
    then show ?thesis
      using Suc.prems Suc.IH [of "2 * delay"] by (simp add: dbl Let_def mult.assoc mult.left_commute [of "sint delay"])
  qed
qed simp

subsection \<open>Properties\<close>

text \<open>
  The backoff delay is capped. From the second attempt on, the next retry is never
  scheduled later than the maximal delay from now, whatever the configured multiplier (an
  infinity or a not-a-number included) and whatever the platform's conversion of
  out-of-range floats.
\<close>

theorem CalculateNextRetryTime_capped:
  assumes "sint (ds_AttemptCount status) \<ge> 2"
  shows "CalculateNextRetryTime oor now status config \<le> time_add now (max_delay config)"
proof -
  have "ds_AttemptCount status \<noteq> 0" and "0 < nat (sint (ds_AttemptCount status) - 1)"
    using assms by auto
  then show ?thesis
    using backoff_loop_bounded [of "nat (sint (ds_AttemptCount status) - 1)"]
    by (simp add: CalculateNextRetryTime_def retry_delay_def time_add_def)
qed

theorem CalculateNextRetryTime_capped_witness:
  "CalculateNextRetryTime (\<lambda>_. 0) 7 (zero_status\<lparr>ds_AttemptCount := 9\<rparr>)
     (Some \<lparr>drc_MaxAttempts = 10, drc_InitialDelay = Some hour, drc_BackoffMultiplier = ''Inf'', drc_MaxDelay = None\<rparr>)
   \<le> 7 + 1800000000000"
  using CalculateNextRetryTime_capped [of "zero_status\<lparr>ds_AttemptCount := 9\<rparr>" "\<lambda>_. 0" 7
     "Some \<lparr>drc_MaxAttempts = 10, drc_InitialDelay = Some hour, drc_BackoffMultiplier = ''Inf'', drc_MaxDelay = None\<rparr>"]
  by (simp add: zero_status_def max_delay_def DefaultDrainRetryMaxDelay_def minute_def second_def time_add_def)

text \<open>
  The backoff is exponential. With the multiplier left at its default or configured as
  \<open>2.0\<close>, and delays below 52 days, the retry after attempt \<open>n\<close> is scheduled exactly
  \<open>min (initialDelay * 2^(n-1)) maxDelay\<close> from now, an unset attempt counting as the first.
\<close>

theorem CalculateNextRetryTime_exponential:
  assumes "config = None \<or> (\<exists>c. config = Some c \<and> drc_BackoffMultiplier c \<in> {[], ''2.0''})"
    and "0 < sint (initial_delay config)" and "sint (initial_delay config) \<le> sint (max_delay config)"
    and "sint (max_delay config) < 2 ^ 52"
  shows "CalculateNextRetryTime oor now status config =
    now + min (sint (initial_delay config) * 2 ^ (nat (sint (ds_AttemptCount status)) - 1)) (sint (max_delay config))"
proof -
  have m: "backoff_multiplier config = Fin 2"
    using assms(1) parse_float_examples(1)
    by (auto simp: backoff_multiplier_def DefaultDrainRetryBackoffMultiplier_def)
  have n: "nat (k - 1) = nat k - Suc 0" for k
    by simp
  show ?thesis
    using backoff_loop_double [OF assms(2-4)]
    by (simp add: CalculateNextRetryTime_def retry_delay_def time_add_def m n)
qed

theorem CalculateNextRetryTime_exponential_witness:
  "map (\<lambda>n. CalculateNextRetryTime (\<lambda>_. 0) 0 (zero_status\<lparr>ds_AttemptCount := n\<rparr>) None) [0, 1, 2, 3, 4, 5]
     = map (\<lambda>m. m * 60000000000) [5, 5, 10, 20, 30, 30]"
proof -
  have i: "sint (initial_delay None) = 300000000000" "sint (max_delay None) = 1800000000000"
    by (simp_all add: initial_delay_def max_delay_def DefaultDrainRetryInitialDelay_def
        DefaultDrainRetryMaxDelay_def minute_def second_def)
  show ?thesis
    by (simp add: CalculateNextRetryTime_exponential i zero_status_def)
qed

text \<open>
  One decision, three ways to ask. \<open>EvaluateRetry\<close> allows a retry exactly when
  \<open>ShouldRetry\<close> does; the retry is due exactly when it is allowed and \<open>IsRetryDue\<close>; an
  allowed retry always carries its time, and its attempt number does not exceed the
  configured maximum, with the remaining attempts counted exactly.
\<close>

theorem EvaluateRetry_agrees:
  assumes "0 \<le> sint (ds_AttemptCount status)" and "EvaluateRetry oor now status config = d"
  shows "rd_ShouldRetry d = ShouldRetry status config \<and>
    rd_IsDue d = (ShouldRetry status config \<and> RetryManager_IsRetryDue now status) \<and>
    (rd_ShouldRetry d \<longrightarrow> rd_NextRetryTime d \<noteq> None \<and>
       sint (rd_AttemptNumber d) \<le> sint (max_attempts config) \<and>
       sint (rd_AttemptNumber d) + sint (rd_RemainingAttempts d) = sint (max_attempts config) + 1)"
proof (intro conjI impI)
  note d = assms(2) [symmetric]
  show "rd_ShouldRetry d = ShouldRetry status config"
    by (simp add: d EvaluateRetry_def ShouldRetry_def Let_def split: option.splits)
  show "rd_IsDue d = (ShouldRetry status config \<and> RetryManager_IsRetryDue now status)"
    by (simp add: d EvaluateRetry_def ShouldRetry_def RetryManager_IsRetryDue_def Let_def split: option.splits)
  assume sr: "rd_ShouldRetry d"
  then have lt: "sint (ds_AttemptCount status) < sint (max_attempts config)"
    by (auto simp: d EvaluateRetry_def Let_def split: option.splits if_splits)
  have num: "rd_AttemptNumber d = ds_AttemptCount status + 1"
      "rd_RemainingAttempts d = max_attempts config - ds_AttemptCount status"
    by (simp_all add: d EvaluateRetry_def Let_def split: option.splits)
  have inc: "sint (ds_AttemptCount status + 1) = sint (ds_AttemptCount status) + 1"
    using assms(1) lt i32_upper [of "max_attempts config"] sint_i32_add [of "ds_AttemptCount status" 1] by simp
  have rem: "sint (max_attempts config - ds_AttemptCount status) = sint (max_attempts config) - sint (ds_AttemptCount status)"
    using assms(1) lt i32_upper [of "max_attempts config"] by (intro sint_i32_diff) auto
  show "rd_NextRetryTime d \<noteq> None"
    using sr by (auto simp: d EvaluateRetry_def Let_def split: option.splits if_splits)
  show "sint (rd_AttemptNumber d) \<le> sint (max_attempts config)"
    and "sint (rd_AttemptNumber d) + sint (rd_RemainingAttempts d) = sint (max_attempts config) + 1"
    using lt by (simp_all add: num inc rem)
qed

theorem EvaluateRetry_agrees_witness:
  "let s = zero_status\<lparr>ds_Phase := DrainPhaseFailed, ds_AttemptCount := 2, ds_NextRetryTime := Some 5\<rparr>;
       d = EvaluateRetry (\<lambda>_. 0) 9 s None in
   rd_ShouldRetry d \<and> rd_IsDue d \<and> sint (rd_AttemptNumber d) + sint (rd_RemainingAttempts d) = 4"
  using EvaluateRetry_agrees [of "zero_status\<lparr>ds_Phase := DrainPhaseFailed, ds_AttemptCount := 2, ds_NextRetryTime := Some 5\<rparr>"
      "\<lambda>_. 0" 9 None, OF _ refl]
  by (simp add: Let_def ShouldRetry_def RetryManager_IsRetryDue_def zero_status_def max_attempts_def
      DefaultDrainRetryMaxAttempts_def)

text \<open>
  C17: Retries are bounded. However often a failed drain is counted with \<open>IncrementAttempt\<close>
  from a fresh status, another retry is allowed exactly while fewer than the effective maximum
  of attempts have been counted: the configured maximum where it is positive, and the default
  of 3 where none is configured or the configured one is 0 or negative.
\<close>

theorem retries_bounded:
  assumes "ds_AttemptCount status = 0" and "ds_Phase status = DrainPhaseFailed" and "n < 2 ^ 31"
  shows "ShouldRetry (((\<lambda>s. IncrementAttempt oor now s config) ^^ n) status) config \<longleftrightarrow>
    int n < (case config of None \<Rightarrow> 3 | Some c \<Rightarrow> if sint (drc_MaxAttempts c) \<le> 0 then 3 else sint (drc_MaxAttempts c))"
proof -
  let ?step = "\<lambda>s. IncrementAttempt oor now s config"
  have count: "ds_AttemptCount ((?step ^^ k) status) = of_nat k \<and> ds_Phase ((?step ^^ k) status) = DrainPhaseFailed" for k
    by (induction k) (simp_all add: assms IncrementAttempt_def Let_def)
  have "sint (of_nat n :: i32) = int n"
    using sint_of_int_in_range [of "int n", where 'n = 32] assms(3) by simp
  then have "ShouldRetry ((?step ^^ n) status) config \<longleftrightarrow> int n < sint (max_attempts config)"
    using count [of n] by (auto simp: ShouldRetry_def)
  moreover have "sint (max_attempts config) =
      (case config of None \<Rightarrow> 3 | Some c \<Rightarrow> if sint (drc_MaxAttempts c) \<le> 0 then 3 else sint (drc_MaxAttempts c))"
    by (simp add: max_attempts_def DefaultDrainRetryMaxAttempts_def split: option.split)
  ultimately show ?thesis by simp
qed

theorem retries_bounded_witness:
  "let s = zero_status\<lparr>ds_Phase := DrainPhaseFailed\<rparr>;
       c = Some \<lparr>drc_MaxAttempts = 0, drc_InitialDelay = None, drc_BackoffMultiplier = [], drc_MaxDelay = None\<rparr>;
       step = (\<lambda>s. IncrementAttempt (\<lambda>_. 0) 0 s c) in
   ShouldRetry ((step ^^ 2) s) c \<and> \<not> ShouldRetry ((step ^^ 3) s) c"
  using retries_bounded [of "zero_status\<lparr>ds_Phase := DrainPhaseFailed\<rparr>" 2 "\<lambda>_. 0" 0
      "Some \<lparr>drc_MaxAttempts = 0, drc_InitialDelay = None, drc_BackoffMultiplier = [], drc_MaxDelay = None\<rparr>"]
    retries_bounded [of "zero_status\<lparr>ds_Phase := DrainPhaseFailed\<rparr>" 3 "\<lambda>_. 0" 0
      "Some \<lparr>drc_MaxAttempts = 0, drc_InitialDelay = None, drc_BackoffMultiplier = [], drc_MaxDelay = None\<rparr>"]
  by (simp add: Let_def zero_status_def)

end
