(* ===== verification/GoCrypto.thy ===== *)
theory GoCrypto
  imports Prelude "HOL-Library.List_Lexorder" "HOL-Library.Char_ord"
begin

section \<open>SHA-256 and the hash helpers (internal/utils/hash.go)\<close>

text \<open>
  \<open>crypto/sha256\<close> on byte strings (a Go string is its bytes, a \<open>char\<close> each) and
  \<open>encoding/hex\<close>, with the operator's own helpers on top. The helpers decide whether a
  configuration or a credential changed; the lemmas say what such a comparison can tell:
  for a hash without collisions on the strings compared, equal digests mean equal inputs.
\<close>

unbundle bit_operations_syntax

type_synonym u32 = "32 word"

definition rotr :: "nat \<Rightarrow> u32 \<Rightarrow> u32" where
  "rotr n x = (drop_bit n x OR push_bit (32 - n) x)"

text \<open>
  The standard derives its constants from the first primes: 32 bits of the fraction of a
  square or cube root. \<open>root_bits e n b r\<close> extends \<open>r\<close> by the bits \<open>b - 1, ..., 0\<close> to the
  largest number whose power \<open>e\<close> does not exceed \<open>n\<close>.
\<close>

fun root_bits :: "nat \<Rightarrow> int \<Rightarrow> nat \<Rightarrow> int \<Rightarrow> int" where
  "root_bits e n 0 r = r"
| "root_bits e n (Suc b) r = root_bits e n b (if (r + 2 ^ b) ^ e \<le> n then r + 2 ^ b else r)"

definition root_fraction :: "nat \<Rightarrow> int \<Rightarrow> u32" where
  "root_fraction e p = of_int (root_bits e (p * 2 ^ (32 * e)) 38 0 mod 2 ^ 32)"

definition small_primes :: "int list" where
  "small_primes = filter (\<lambda>p. list_all (\<lambda>d. p mod d \<noteq> 0) [2..p - 1]) [2..311]"

definition sha_k :: "u32 list" where
  "sha_k = map (root_fraction 3) small_primes"

definition sha_init :: "u32 list" where
  "sha_init = map (root_fraction 2) (take 8 small_primes)"

text \<open>The big-endian bytes of a number, most significant first.\<close>

fun be_bytes :: "nat \<Rightarrow> int \<Rightarrow> int list" where
  "be_bytes 0 v = []"
| "be_bytes (Suc n) v = be_bytes n (v div 256) @ [v mod 256]"

definition sha_pad :: "int list \<Rightarrow> int list" where
  "sha_pad bs = (let n = length bs; z = (119 - n mod 64) mod 64 in
     bs @ [128] @ replicate z 0 @ be_bytes 8 (8 * int n))"

fun chunks :: "nat \<Rightarrow> nat \<Rightarrow> 'a list \<Rightarrow> 'a list list" where
  "chunks k 0 xs = []"
| "chunks k (Suc m) xs = take k xs # chunks k m (drop k xs)"

definition be_word :: "int list \<Rightarrow> u32" where
  "be_word bs = foldl (\<lambda>w b. 256 * w + of_int b) 0 bs"

text \<open>The message schedule, newest word first, extended \<open>n\<close> times.\<close>

fun sha_schedule :: "nat \<Rightarrow> u32 list \<Rightarrow> u32 list" where
  "sha_schedule 0 w = w"
| "sha_schedule (Suc n) w =
     (let s0 = (let x = w ! 14 in rotr 7 x XOR rotr 18 x XOR drop_bit 3 x);
          s1 = (let x = w ! 1 in rotr 17 x XOR rotr 19 x XOR drop_bit 10 x)
      in sha_schedule n ((w ! 15 + s0 + w ! 6 + s1) # w))"

definition sha_round :: "u32 list \<Rightarrow> u32 \<times> u32 \<Rightarrow> u32 list" where
  "sha_round st kw = (case (st, kw) of
     ([a, b, c, d, e, f, g, h], (k, w)) \<Rightarrow>
       (let s1 = rotr 6 e XOR rotr 11 e XOR rotr 25 e;
            ch = (e AND f) XOR (NOT e AND g);
            t1 = h + s1 + ch + k + w;
            s0 = rotr 2 a XOR rotr 13 a XOR rotr 22 a;
            maj = (a AND b) XOR (a AND c) XOR (b AND c)
        in [t1 + s0 + maj, a, b, c, d + t1, e, f, g])
   | _ \<Rightarrow> st)"

definition sha_block :: "u32 list \<Rightarrow> int list \<Rightarrow> u32 list" where
  "sha_block hs block =
     (let w = rev (sha_schedule 48 (rev (map be_word (chunks 4 16 block))))
      in map2 (+) hs (foldl sha_round hs (zip sha_k w)))"

definition sha256_bytes :: "int list \<Rightarrow> int list" where
  "sha256_bytes bs =
     (let p = sha_pad bs; hs = foldl sha_block sha_init (chunks 64 (length p div 64) p)
      in concat (map (\<lambda>h. be_bytes 4 (uint h)) hs))"

definition hex_digit :: "int \<Rightarrow> char" where
  "hex_digit n = ''0123456789abcdef'' ! nat n"

definition hex_encode :: "int list \<Rightarrow> string" where
  "hex_encode bs = concat (map (\<lambda>b. [hex_digit (b div 16), hex_digit (b mod 16)]) bs)"

definition sha256_hex :: "string \<Rightarrow> string" where
  "sha256_hex s = hex_encode (sha256_bytes (map of_char s))"

subsection \<open>The helpers\<close>

text \<open>\<open>HashObject\<close> is given what \<open>json.Marshal\<close> makes of the object.\<close>

definition HashBytes :: "string \<Rightarrow> string" where
  "HashBytes data = sha256_hex data"

definition HashString :: "string \<Rightarrow> string" where
  "HashString s = HashBytes s"

definition HashObject :: "string result \<Rightarrow> string result" where
  "HashObject marshalled = (case marshalled of
     Inl e \<Rightarrow> Inl (wrapf ''failed to marshal object for hashing: '' e) | Inr data \<Rightarrow> Inr (HashBytes data))"

definition join_lines :: "string list \<Rightarrow> string" where
  "join_lines ss = foldl (\<lambda>combined s. combined @ s @ [newline]) [] ss"

definition HashStrings :: "string list \<Rightarrow> string" where
  "HashStrings ss = HashString (join_lines ss)"

definition map_lines :: "labels \<Rightarrow> string" where
  "map_lines m = foldl (\<lambda>combined k. combined @ k @ ''='' @ label_get m k @ [newline]) [] (sort (map fst m))"

definition HashMap :: "labels \<Rightarrow> string" where
  "HashMap m = HashString (map_lines m)"

definition ShortHash :: "string \<Rightarrow> string" where
  "ShortHash hash = (if length hash > 8 then take 8 hash else hash)"

definition HashConfigData :: "labels \<Rightarrow> string" where
  "HashConfigData data = HashMap data"

definition HashSecretData :: "labels \<Rightarrow> string" where
  "HashSecretData data = HashMap data"

definition CompareHashes :: "string \<Rightarrow> string \<Rightarrow> bool" where
  "CompareHashes hash1 hash2 = (hash1 = hash2)"

definition HashChanged :: "string result \<Rightarrow> string \<Rightarrow> (bool \<times> string) result" where
  "HashChanged marshalled storedHash = (case HashObject marshalled of
     Inl e \<Rightarrow> Inl e | Inr newHash \<Rightarrow> Inr (newHash \<noteq> storedHash, newHash))"

text \<open>A hash is always 64 characters long.\<close>

lemma length_sha_round: "length (sha_round st kw) = length st"
  by (simp add: sha_round_def Let_def split: list.split prod.split)

lemma length_sha_rounds: "length (foldl sha_round st kws) = length st"
  by (induction kws arbitrary: st) (simp_all add: length_sha_round)

lemma length_sha_blocks: "length (foldl sha_block hs blocks) = length hs"
  by (induction blocks arbitrary: hs) (simp_all add: sha_block_def length_sha_rounds)

lemma length_be_bytes: "length (be_bytes n x) = n"
  by (induction n arbitrary: x) simp_all

lemma length_sha_init: "length sha_init = 8"
proof -
  let ?prime = "\<lambda>p. list_all (\<lambda>d. p mod d \<noteq> 0) [2..p - (1::int)]"
  have split: "[2..311::int] = [2..19] @ [19 + 1..311]" by (rule upto_split2) simp_all
  have "length (filter ?prime [2..19]) = 8" by code_simp
  then have "8 \<le> length (filter ?prime [2..19]) + length (filter ?prime [19 + 1..311])" by linarith
  then have "8 \<le> length small_primes" unfolding small_primes_def split filter_append length_append .
  then show ?thesis by (simp add: sha_init_def)
qed

lemma length_sha256_bytes: "length (sha256_bytes bs) = 32"
  by (simp add: sha256_bytes_def Let_def length_concat comp_def length_be_bytes sum_list_triv length_sha_blocks length_sha_init)

lemma length_HashString: "length (HashString s) = 64"
  by (simp add: HashString_def HashBytes_def sha256_hex_def hex_encode_def length_concat comp_def sum_list_triv length_sha256_bytes)

subsection \<open>What the encodings keep apart\<close>

lemma foldl_append: "foldl (\<lambda>c x. c @ f x) acc xs = acc @ concat (map f xs)"
  by (induction xs arbitrary: acc) simp_all

lemma join_lines_concat: "join_lines ss = concat (map (\<lambda>s. s @ [newline]) ss)"
  using foldl_append [of "\<lambda>s. s @ [newline]" "[]"] by (simp add: join_lines_def)

lemma map_lines_join: "map_lines m = join_lines (map (\<lambda>k. k @ ''='' @ label_get m k) (sort (map fst m)))"
  using foldl_append [of "\<lambda>k. k @ ''='' @ label_get m k @ [newline]" "[]"]
  by (simp add: map_lines_def join_lines_concat comp_def)

text \<open>Lines without a newline can be read back from what is hashed.\<close>

lemma split_join_lines: "list_all (\<lambda>s. newline \<notin> set s) ss \<Longrightarrow> split_on newline (join_lines ss) = ss @ [[]]"
  by (induction ss) (simp_all add: join_lines_concat split_on_append split_on_free)

lemma join_lines_inject:
  assumes "list_all (\<lambda>s. newline \<notin> set s) ss" and "list_all (\<lambda>s. newline \<notin> set s) ts"
  shows "join_lines ss = join_lines ts \<longleftrightarrow> ss = ts"
  by (metis append1_eq_conv split_join_lines [OF assms(1)] split_join_lines [OF assms(2)])

lemma marked_lists:
  assumes "map (\<lambda>k. k @ c # f k) ks = map (\<lambda>k. k @ c # g k) ks'"
    and "\<forall>k \<in> set ks. c \<notin> set k" and "\<forall>k \<in> set ks'. c \<notin> set k"
  shows "ks = ks' \<and> (\<forall>k \<in> set ks. f k = g k)"
  using assms
proof (induction ks arbitrary: ks')
  case (Cons k ks)
  then obtain k' ls where [simp]: "ks' = k' # ls" by (cases ks') auto
  have "k @ c # f k = k' @ c # g k'" using Cons.prems(1) by simp
  then have [simp]: "k = k'" and fg: "f k' = g k'" using Cons.prems(2, 3) append_eq_marker [of c k k'] by auto
  show ?case using Cons.IH [of ls] Cons.prems fg by simp
qed simp

text \<open>A map whose keys hold no \<open>=\<close> and no newline, and whose values hold no newline.\<close>

definition plain_map :: "labels \<Rightarrow> bool" where
  "plain_map m = (distinct (map fst m) \<and>
     list_all (\<lambda>(k, v). CHR ''='' \<notin> set k \<and> newline \<notin> set k \<and> newline \<notin> set v) m)"

lemma label_get_in: "k \<in> fst ` set m \<Longrightarrow> (k, label_get m k) \<in> set m"
  by (auto simp: label_get_def map_of_eq_None_iff split: option.splits dest: map_of_SomeD)

lemma plain_map_lines:
  assumes "plain_map m"
  shows "list_all (\<lambda>s. newline \<notin> set s) (map (\<lambda>k. k @ ''='' @ label_get m k) (sort (map fst m)))"
proof -
  have "newline \<notin> set k \<and> newline \<notin> set (label_get m k)" if "k \<in> fst ` set m" for k
    using assms label_get_in [OF that] that by (fastforce simp: plain_map_def list_all_iff)
  then show ?thesis by (auto simp: list_all_iff newline_def)
qed

lemma sorted_keys: "distinct (map fst m) \<Longrightarrow> distinct (map fst m') \<Longrightarrow> map_of m = map_of m' \<Longrightarrow>
    sort (map fst m) = sort (map fst m')"
  by (intro sorted_distinct_set_unique) (auto simp: dom_map_of_conv_image_fst [symmetric])

lemma map_lines_cong:
  assumes "distinct (map fst m)" and "distinct (map fst m')" and "map_of m = map_of m'"
  shows "map_lines m = map_lines m'"
  using sorted_keys [OF assms] assms(3) by (simp add: map_lines_def label_get_def)

lemma map_lines_inject:
  assumes "plain_map m" and "plain_map m'" and "map_lines m = map_lines m'"
  shows "map_of m = map_of m'"
proof -
  let ?ks = "sort (map fst m)" and ?ks' = "sort (map fst m')"
  have "map (\<lambda>k. k @ ''='' @ label_get m k) ?ks = map (\<lambda>k. k @ ''='' @ label_get m' k) ?ks'"
    using assms(3) join_lines_inject [OF plain_map_lines [OF assms(1)] plain_map_lines [OF assms(2)]]
    by (simp only: map_lines_join)
  then have both: "?ks = ?ks' \<and> (\<forall>k \<in> set ?ks. label_get m k = label_get m' k)"
    using assms(1, 2) by (intro marked_lists [where c = "CHR ''=''"]) (auto simp: plain_map_def list_all_iff)
  have keys: "fst ` set m = fst ` set m'"
    using both by (metis set_map set_sort)
  show ?thesis
  proof
    fix k
    show "map_of m k = map_of m' k"
    proof (cases "k \<in> fst ` set m")
      case True
      then have "label_get m k = label_get m' k" using both by auto
      then show ?thesis
        using True keys by (auto simp: label_get_def map_of_eq_None_iff split: option.splits)
    next
      case False
      then show ?thesis using keys by (metis map_of_eq_None_iff)
    qed
  qed
qed

subsection \<open>Properties\<close>

text \<open>
  The hash of a map depends on the map alone, not on the order in which it is traversed,
  so an unchanged map never looks changed; and two different maps with plain keys and values
  (no newline, no \<open>=\<close> in a key) are hashed from different texts.
\<close>

theorem HashMap_tells_plain_maps_apart:
  assumes "distinct (map fst m)" and "distinct (map fst m')"
  shows "(map_of m = map_of m' \<longrightarrow> HashMap m = HashMap m') \<and>
    (plain_map m \<and> plain_map m' \<and> map_of m \<noteq> map_of m' \<longrightarrow> map_lines m \<noteq> map_lines m')"
  using map_lines_cong [OF assms] map_lines_inject by (auto simp: HashMap_def)

theorem HashMap_tells_plain_maps_apart_witness:
  "HashMap [(''a'', ''1''), (''b'', ''2'')] = HashMap [(''b'', ''2''), (''a'', ''1'')] \<and>
   map_lines [(''a'', ''1''), (''b'', ''2'')] \<noteq> map_lines [(''a'', ''1''), (''b'', ''3'')]"
proof
  show "HashMap [(''a'', ''1''), (''b'', ''2'')] = HashMap [(''b'', ''2''), (''a'', ''1'')]"
    using HashMap_tells_plain_maps_apart [of "[(''a'', ''1''), (''b'', ''2'')]" "[(''b'', ''2''), (''a'', ''1'')]"]
    by (simp add: fun_upd_twist)
  have "map_of [(''a'', ''1''), (''b'', ''2'')] ''b'' \<noteq> map_of [(''a'', ''1''), (''b'', ''3'')] ''b''"
    by simp
  then have "map_of [(''a'', ''1''), (''b'', ''2'')] \<noteq> map_of [(''a'', ''1''), (''b'', ''3'')]"
    by metis
  then show "map_lines [(''a'', ''1''), (''b'', ''2'')] \<noteq> map_lines [(''a'', ''1''), (''b'', ''3'')]"
    using HashMap_tells_plain_maps_apart [of "[(''a'', ''1''), (''b'', ''2'')]" "[(''a'', ''1''), (''b'', ''3'')]"]
    by (simp add: plain_map_def newline_def)
qed

text \<open>
  A value with a newline defeats the comparison: a map with one entry and a map with two
  have the same hash, whatever the hash function, because a line of a value reads like an
  entry of its own.
\<close>

theorem HashMap_newline_collision:
  "\<exists>m m'. distinct (map fst m) \<and> distinct (map fst m') \<and> map_of m \<noteq> map_of m' \<and> HashMap m = HashMap m'"
proof (intro exI conjI)
  let ?m = "[(''a'', ''1'' @ newline # ''b=2'')]" and ?m' = "[(''a'', ''1''), (''b'', ''2'')]"
  show "distinct (map fst ?m)" "distinct (map fst ?m')" by simp_all
  have "map_of ?m ''b'' \<noteq> map_of ?m' ''b''" by simp
  then show "map_of ?m \<noteq> map_of ?m'" by metis
  have "map_lines ?m = map_lines ?m'" by code_simp
  then show "HashMap ?m = HashMap ?m'" by (simp only: HashMap_def)
qed

end
