(* ===== verification/ClientFactory.thy ===== *)
theory ClientFactory
  imports ClusterApi GoCrypto Naming
begin

section \<open>OpenSearch clients (internal/opensearch/security/client_factory.go)\<close>

text \<open>
  The factory builds a client from a cluster's credentials and CA secrets and keeps it, per
  cluster, for as long as the hash of both stays the same. Its cache is the part
  \<open>w_clients\<close> of the world, shared by every reconciler. The property: the client handed out
  talks to the cluster asked for, with credentials of the hash just read, and the cache stays
  well formed.
\<close>

definition NewClient :: "'s env \<Rightarrow> string \<Rightarrow> string \<Rightarrow> string \<Rightarrow> string \<Rightarrow> OSClient result" where
  "NewClient E baseURL username password caCert =
     (if caCert \<noteq> [] \<and> \<not> e_pem_ok E caCert then Inl (errorf ''failed to parse CA certificate'')
      else Inr \<lparr>oc_baseURL = baseURL, oc_username = username, oc_password = password, oc_caCert = caCert\<rparr>)"

definition getCredentials :: "'s env \<Rightarrow> WazuhCluster \<Rightarrow> ('s, (string \<times> string) result) io" where
  "getCredentials E cluster = (let secretName = IndexerCredentialsName (wc_Name cluster) in
     try_io (get_secret E (wc_Namespace cluster) secretName)
       (wrapf (''failed to get credentials secret '' @ secretName @ '': '')) (\<lambda>secret.
     ret (case map_of secret ''admin-username'' of
         None \<Rightarrow> Inl (errorf (''admin-username not found in secret '' @ secretName))
       | Some username \<Rightarrow> (case map_of secret ''admin-password'' of
            None \<Rightarrow> Inl (errorf (''admin-password not found in secret '' @ secretName))
          | Some password \<Rightarrow> Inr (username, password)))))"

definition getCACertificate :: "'s env \<Rightarrow> WazuhCluster \<Rightarrow> ('s, string result) io" where
  "getCACertificate E cluster = (let secretName = IndexerCertsName (wc_Name cluster) in
     try_io (get_secret E (wc_Namespace cluster) secretName)
       (wrapf (''failed to get certs secret '' @ secretName @ '': '')) (\<lambda>secret.
     ret (case map_of secret ''ca.crt'' of
         None \<Rightarrow> Inl (errorf (''ca.crt not found in secret '' @ secretName))
       | Some caCert \<Rightarrow> Inr caCert)))"

definition service_url :: "string \<Rightarrow> string \<Rightarrow> string \<Rightarrow> string" where
  "service_url domain name ns = ''https://'' @ IndexerServiceFQDN domain name ns @ '':9200''"

definition buildServiceURL :: "'s env \<Rightarrow> WazuhCluster \<Rightarrow> string" where
  "buildServiceURL E cluster = service_url (e_domain E) (wc_Name cluster) (wc_Namespace cluster)"

definition computeCredsHash :: "string \<Rightarrow> string \<Rightarrow> string \<Rightarrow> string" where
  "computeCredsHash username password caCert =
     take 16 (sha256_hex (username @ [CHR 0x00] @ password @ [CHR 0x00] @ caCert))"

definition cache_key :: "WazuhCluster \<Rightarrow> string" where
  "cache_key cluster = wc_Namespace cluster @ ''/'' @ wc_Name cluster"

definition cache_put :: "string \<Rightarrow> 'a \<Rightarrow> (string \<times> 'a) list \<Rightarrow> (string \<times> 'a) list" where
  "cache_put k v cs = (k, v) # filter (\<lambda>(j, u). j \<noteq> k) cs"

definition GetClientForCluster :: "'s env \<Rightarrow> WazuhCluster \<Rightarrow> ('s, OSClient result) io" where
  "GetClientForCluster E cluster =
     try_io (getCredentials E cluster) (wrapf ''failed to get credentials: '') (\<lambda>(username, password).
     try_io (getCACertificate E cluster) (wrapf ''failed to get CA certificate: '') (\<lambda>caCert. do {
       let hash = computeCredsHash username password caCert;
       cache \<leftarrow> get_clients;
       case (case map_of cache (cache_key cluster) of
               Some (c, h) \<Rightarrow> if h = hash then Some c else None | None \<Rightarrow> None) of
         Some c \<Rightarrow> ret (Inr c)
       | None \<Rightarrow>
          (case NewClient E (buildServiceURL E cluster) username password caCert of
             Inl e \<Rightarrow> ret (Inl e)
           | Inr newClient \<Rightarrow> do {
               cache' \<leftarrow> get_clients;
               put_clients (cache_put (cache_key cluster) (newClient, hash) cache');
               ret (Inr newClient) }) }))"

definition GetClient :: "'s env \<Rightarrow> string \<Rightarrow> string \<Rightarrow> ('s, OSClient result) io" where
  "GetClient E ns name =
     try_io (get_cluster E ns name) (wrapf (''failed to get WazuhCluster '' @ ns @ ''/'' @ name @ '': ''))
       (\<lambda>cluster. GetClientForCluster E cluster)"

definition GetClientForRef :: "'s env \<Rightarrow> string \<times> string \<Rightarrow> string \<Rightarrow> ('s, OSClient result) io" where
  "GetClientForRef E clusterRef resourceNamespace =
     (let namespace = (if snd clusterRef = [] then resourceNamespace else snd clusterRef) in
      GetClient E namespace (fst clusterRef))"

definition GetClientWithCustomCredentials ::
    "'s env \<Rightarrow> WazuhCluster \<Rightarrow> string \<Rightarrow> string \<Rightarrow> ('s, OSClient result) io" where
  "GetClientWithCustomCredentials E cluster username password =
     try_io (getCACertificate E cluster) (wrapf ''failed to get CA certificate: '') (\<lambda>caCert.
       ret (NewClient E (buildServiceURL E cluster) username password caCert))"

definition GetConnectionInfo :: "'s env \<Rightarrow> string \<times> string \<Rightarrow> string \<Rightarrow>
    ('s, (string \<times> string \<times> string \<times> string) result) io" where
  "GetConnectionInfo E clusterRef resourceNamespace =
     (let namespace = (if snd clusterRef = [] then resourceNamespace else snd clusterRef) in
      try_io (get_cluster E namespace (fst clusterRef))
        (wrapf (''failed to get WazuhCluster '' @ namespace @ ''/'' @ fst clusterRef @ '': '')) (\<lambda>cluster.
      try_io (getCredentials E cluster) (wrapf ''failed to get credentials: '') (\<lambda>(username, password).
      try_io (getCACertificate E cluster) (wrapf ''failed to get CA certificate: '') (\<lambda>caCert.
        ret (Inr (buildServiceURL E cluster, username, password, caCert))))))"

subsection \<open>The cache\<close>

definition client_hash :: "OSClient \<Rightarrow> string" where
  "client_hash c = computeCredsHash (oc_username c) (oc_password c) (oc_caCert c)"

text \<open>Every entry is a client for the cluster its key names, stored with its own hash.\<close>

definition cache_ok :: "string \<Rightarrow> (string \<times> OSClient \<times> string) list \<Rightarrow> bool" where
  "cache_ok domain cs \<longleftrightarrow> (\<forall>(k, c, h) \<in> set cs. h = client_hash c \<and>
     (\<exists>ns name. CHR ''/'' \<notin> set ns \<and> k = ns @ ''/'' @ name \<and> oc_baseURL c = service_url domain name ns))"

lemma cache_ok_lookup:
  assumes "cache_ok domain cs" and "map_of cs (cache_key cluster) = Some (c, h)"
    and "CHR ''/'' \<notin> set (wc_Namespace cluster)"
  shows "h = client_hash c \<and> oc_baseURL c = service_url domain (wc_Name cluster) (wc_Namespace cluster)"
proof -
  have "(cache_key cluster, c, h) \<in> set cs" using assms(2) by (rule map_of_SomeD)
  then obtain ns name where "h = client_hash c" "CHR ''/'' \<notin> set ns"
      "cache_key cluster = ns @ ''/'' @ name" "oc_baseURL c = service_url domain name ns"
    using assms(1) unfolding cache_ok_def by fastforce
  then show ?thesis
    using assms(3) append_eq_marker [of "CHR ''/''" ns "wc_Namespace cluster" name "wc_Name cluster"]
    by (simp add: cache_key_def)
qed

lemma cache_ok_put:
  assumes "cache_ok domain cs" and "CHR ''/'' \<notin> set (wc_Namespace cluster)"
    and "oc_baseURL c = service_url domain (wc_Name cluster) (wc_Namespace cluster)"
  shows "cache_ok domain (cache_put (cache_key cluster) (c, client_hash c) cs)"
  using assms by (auto simp: cache_ok_def cache_put_def cache_key_def)

lemma getCredentials_keeps: "run_state (getCredentials E cluster) w = (r, w') \<Longrightarrow> w_clients w' = w_clients w \<and> w_log w' = w_log w"
  by (auto simp: getCredentials_def get_secret_def run_io Let_def split: prod.splits sum.splits)

lemma getCACertificate_keeps: "run_state (getCACertificate E cluster) w = (r, w') \<Longrightarrow> w_clients w' = w_clients w \<and> w_log w' = w_log w"
  by (auto simp: getCACertificate_def get_secret_def run_io Let_def split: prod.splits sum.splits)

text \<open>
  C18: The client factory hands out the right client: from a well-formed cache, a successful
  call returns a client for the service of exactly the cluster asked for, whose credentials
  and CA have the hash of those just read from the cluster's secrets; and the cache is well
  formed again, whether the call succeeds or not.
\<close>

theorem GetClientForCluster_right_client:
  assumes "cache_ok (e_domain E) (w_clients w)" and "CHR ''/'' \<notin> set (wc_Namespace cluster)"
    and "run_state (GetClientForCluster E cluster) w = (r, w')"
  shows "cache_ok (e_domain E) (w_clients w') \<and>
    (\<forall>c. r = Inr c \<longrightarrow> oc_baseURL c = buildServiceURL E cluster \<and>
      (\<exists>u p ca w1 w2. run_state (getCredentials E cluster) w = (Inr (u, p), w1) \<and>
        run_state (getCACertificate E cluster) w1 = (Inr ca, w2) \<and> client_hash c = computeCredsHash u p ca))"
proof -
  obtain r1 w1 where c1: "run_state (getCredentials E cluster) w = (r1, w1)" by fastforce
  obtain r2 w2 where c2: "run_state (getCACertificate E cluster) w1 = (r2, w2)" by fastforce
  have keep: "w_clients w1 = w_clients w" "w_clients w2 = w_clients w"
    using getCredentials_keeps [OF c1] getCACertificate_keeps [OF c2] by simp_all
  show ?thesis
  proof (cases "(\<exists>e. r1 = Inl e) \<or> (\<exists>e. r2 = Inl e)")
    case True
    then show ?thesis
      using assms(1, 3) c1 c2 keep by (auto simp: GetClientForCluster_def Let_def run_io split: sum.splits prod.splits)
  next
    case False
    then obtain u p ca where ok: "r1 = Inr (u, p)" "r2 = Inr ca" by (metis sum.exhaust surj_pair)
    have new: "client_hash n = computeCredsHash u p ca \<and> oc_baseURL n = buildServiceURL E cluster"
      if "NewClient E (buildServiceURL E cluster) u p ca = Inr n" for n
      using that by (auto simp: NewClient_def client_hash_def split: if_splits)
    have read: "\<exists>u p ca w1 w2. run_state (getCredentials E cluster) w = (Inr (u, p), w1) \<and>
        run_state (getCACertificate E cluster) w1 = (Inr ca, w2) \<and> client_hash c = computeCredsHash u p ca"
      if "client_hash c = computeCredsHash u p ca" for c using that c1 c2 ok by blast
    show ?thesis
    proof (cases "\<exists>c. map_of (w_clients w) (cache_key cluster) = Some (c, computeCredsHash u p ca)")
      case True
      then obtain c where hit: "map_of (w_clients w) (cache_key cluster) = Some (c, computeCredsHash u p ca)" ..
      then have "r = Inr c" "w' = w2"
        using assms(3) c1 c2 ok keep by (simp_all add: GetClientForCluster_def Let_def run_io)
      then show ?thesis
        using cache_ok_lookup [OF assms(1) hit assms(2)] assms(1) keep read [of c] by (simp add: buildServiceURL_def)
    next
      case miss: False
      show ?thesis
      proof (cases "NewClient E (buildServiceURL E cluster) u p ca")
        case (Inl e)
        then have "r = Inl e" "w' = w2" using assms(3) c1 c2 ok keep miss
          by (auto simp: GetClientForCluster_def Let_def run_io split: option.splits)
        then show ?thesis using assms(1) keep by simp
      next
        case (Inr n)
        then have "r = Inr n" "w_clients w' = cache_put (cache_key cluster) (n, client_hash n) (w_clients w)"
          using assms(3) c1 c2 ok keep miss new [OF Inr]
          by (auto simp: GetClientForCluster_def Let_def run_io split: option.splits)
        then show ?thesis
          using cache_ok_put [OF assms(1, 2), of n] new [OF Inr] read [of n] by (simp add: buildServiceURL_def)
      qed
    qed
  qed
qed

definition sample_cluster :: WazuhCluster where
  "sample_cluster = empty_cluster"

lemma sample_client_run: "\<exists>w. run_state (GetClientForCluster (sample_env s h ss) sample_cluster) sample_world = (Inr sample_client, w)"
  by (simp add: GetClientForCluster_def getCredentials_def getCACertificate_def Let_def run_io prim_defs NewClient_def
      sample_env_defs sample_cluster_def empty_cluster_def sample_client_def buildServiceURL_def service_url_def IndexerServiceFQDN_def
      IndexerName_def ServiceFQDN_def)

lemma sample_cache_ok: "cache_ok domain (w_clients sample_world)"
  by (simp add: cache_ok_def sample_world_def new_world_def)

lemma sample_namespace: "CHR ''/'' \<notin> set (wc_Namespace sample_cluster)"
  by (simp add: sample_cluster_def empty_cluster_def)

theorem GetClientForCluster_right_client_witness:
  "let E = sample_env (Inl not_found) (Inl not_found) (Inl not_found);
       w' = snd (run_state (GetClientForCluster E sample_cluster) sample_world)
   in cache_ok (e_domain E) (w_clients w') \<and> oc_baseURL sample_client = buildServiceURL E sample_cluster"
proof -
  obtain w where w: "run_state (GetClientForCluster (sample_env (Inl not_found) (Inl not_found) (Inl not_found))
      sample_cluster) sample_world = (Inr sample_client, w)" using sample_client_run by blast
  show ?thesis
    using GetClientForCluster_right_client [OF sample_cache_ok sample_namespace w] by (simp add: Let_def w)
qed

end
