(* ===== verification/DrainRollback.thy ===== *)
theory DrainRollback
  imports ClientFactory
begin

section \<open>Rolling back a drain, and its events (internal/wazuh/drain/rollback.go, events.go)\<close>

text \<open>
  The rollback manager puts the replica count of a component's StatefulSet back to the one
  recorded when the drain started, and tells when the pods are there again. The property is
  the round trip: what \<open>StartDrain\<close> recorded is what the rollback writes, at most once and
  nothing else. The event texts of the drain are the \<open>Emit\<close> functions.
\<close>


definition previous_replicas :: "i32 \<Rightarrow> ComponentDrainStatus option \<Rightarrow> i32" where
  "previous_replicas fallback status = (case status of None \<Rightarrow> fallback
     | Some s \<Rightarrow> (case ds_PreviousReplicas s of None \<Rightarrow> fallback | Some n \<Rightarrow> n))"

definition rollbackIndexer :: "'s env \<Rightarrow> WazuhCluster \<Rightarrow> ('s, unit result) io" where
  "rollbackIndexer E cluster = (let previousReplicas = previous_replicas 3 (indexer_drain cluster) in
     try_io (get_sts E (wc_Namespace cluster) (wc_Name cluster @ ''-indexer''))
       (wrapf ''failed to get indexer StatefulSet: '') (\<lambda>sts.
     if sts_SpecReplicas sts \<noteq> Some previousReplicas then
       try_io (update_sts E (sts\<lparr>sts_SpecReplicas := Some previousReplicas\<rparr>))
         (wrapf ''failed to update indexer StatefulSet replicas: '') (\<lambda>u. ret (Inr ()))
     else ret (Inr ())))"

definition rollbackManager :: "'s env \<Rightarrow> WazuhCluster \<Rightarrow> ('s, unit result) io" where
  "rollbackManager E cluster = (let previousReplicas = previous_replicas 1 (manager_drain cluster) in
     try_io (get_sts E (wc_Namespace cluster) (wc_Name cluster @ ''-manager-worker''))
       (wrapf ''failed to get manager worker StatefulSet: '') (\<lambda>sts.
     if sts_SpecReplicas sts \<noteq> Some previousReplicas then
       try_io (update_sts E (sts\<lparr>sts_SpecReplicas := Some previousReplicas\<rparr>))
         (wrapf ''failed to update manager worker StatefulSet replicas: '') (\<lambda>u. ret (Inr ()))
     else ret (Inr ())))"

definition ExecuteRollback :: "'s env \<Rightarrow> WazuhCluster \<Rightarrow> string \<Rightarrow> ('s, unit result) io" where
  "ExecuteRollback E cluster component =
     (if component = DrainComponentIndexer then rollbackIndexer E cluster
      else if component = DrainComponentManager then rollbackManager E cluster
      else ret (Inl (errorf (''unknown component: '' @ component))))"

definition at_replicas :: "i32 \<Rightarrow> StatefulSet \<Rightarrow> bool" where
  "at_replicas n sts = (sts_ReadyReplicas sts = n \<and> sts_Replicas sts = n)"

definition verifyIndexerRollback :: "'s env \<Rightarrow> WazuhCluster \<Rightarrow> ('s, bool result) io" where
  "verifyIndexerRollback E cluster =
     try_io (get_sts E (wc_Namespace cluster) (wc_Name cluster @ ''-indexer''))
       (wrapf ''failed to get indexer StatefulSet: '')
       (\<lambda>sts. ret (Inr (at_replicas (previous_replicas 3 (indexer_drain cluster)) sts)))"

definition verifyManagerRollback :: "'s env \<Rightarrow> WazuhCluster \<Rightarrow> ('s, bool result) io" where
  "verifyManagerRollback E cluster =
     try_io (get_sts E (wc_Namespace cluster) (wc_Name cluster @ ''-manager-worker''))
       (wrapf ''failed to get manager worker StatefulSet: '')
       (\<lambda>sts. ret (Inr (at_replicas (previous_replicas 1 (manager_drain cluster)) sts)))"

definition VerifyRollbackComplete :: "'s env \<Rightarrow> WazuhCluster \<Rightarrow> string \<Rightarrow> ('s, bool result) io" where
  "VerifyRollbackComplete E cluster component =
     (if component = DrainComponentIndexer then verifyIndexerRollback E cluster
      else if component = DrainComponentManager then verifyManagerRollback E cluster
      else ret (Inl (errorf (''unknown component: '' @ component))))"

subsection \<open>Events\<close>

definition EmitDrainStarted :: "string \<Rightarrow> string \<Rightarrow> ('s, unit) io" where
  "EmitDrainStarted component targetPod = record_event False ''DrainStarted''
     (''['' @ component @ ''] Drain started for pod '' @ targetPod)"

definition EmitDrainProgress :: "string \<Rightarrow> i32 \<Rightarrow> string \<Rightarrow> ('s, unit) io" where
  "EmitDrainProgress component progress message = record_event False ''DrainProgress''
     (''['' @ component @ ''] Drain progress: '' @ show_i32 progress @ ''% - '' @ message)"

definition EmitDrainFailed :: "string \<Rightarrow> string \<Rightarrow> string \<Rightarrow> ('s, unit) io" where
  "EmitDrainFailed component targetPod reason = record_event True ''DrainFailed''
     (''['' @ component @ ''] Drain failed for pod '' @ targetPod @ '': '' @ reason)"

definition EmitDrainRollback :: "string \<Rightarrow> i32 \<Rightarrow> ('s, unit) io" where
  "EmitDrainRollback component previousReplicas = record_event True ''DrainRollback''
     (''['' @ component @ ''] Rolling back to '' @ show_i32 previousReplicas @ '' replicas due to drain failure'')"

definition EmitDrainRollbackComplete :: "string \<Rightarrow> i32 \<Rightarrow> ('s, unit) io" where
  "EmitDrainRollbackComplete component replicas = record_event False ''DrainRollbackComplete''
     (''['' @ component @ ''] Rollback complete, restored to '' @ show_i32 replicas @ '' replicas'')"

definition EmitDrainRetry :: "string \<Rightarrow> i32 \<Rightarrow> i32 \<Rightarrow> string \<Rightarrow> ('s, unit) io" where
  "EmitDrainRetry component attemptCount maxAttempts nextRetry = record_event False ''DrainRetry''
     (''['' @ component @ ''] Retry '' @ show_i32 attemptCount @ ''/'' @ show_i32 maxAttempts @ '' scheduled for '' @ nextRetry)"

definition EmitDrainTimeout :: "string \<Rightarrow> string \<Rightarrow> string \<Rightarrow> ('s, unit) io" where
  "EmitDrainTimeout component targetPod timeout = record_event True ''DrainTimeout''
     (''['' @ component @ ''] Drain timed out for pod '' @ targetPod @ '' after '' @ timeout)"

definition EmitDrainMaxRetriesReached :: "string \<Rightarrow> i32 \<Rightarrow> ('s, unit) io" where
  "EmitDrainMaxRetriesReached component attempts = record_event True ''DrainMaxRetries''
     (''['' @ component @ ''] Max retry attempts ('' @ show_i32 attempts @ '') reached, manual intervention required'')"

definition EmitDryRunResult :: "DryRunResult \<Rightarrow> ('s, unit) io" where
  "EmitDryRunResult result =
     (if dr_Feasible result then
        record_event False ''DryRunResult'' (''Dry-run: scale-down is feasible'' @
          (case dr_EstimatedDuration result of None \<Rightarrow> []
             | Some d \<Rightarrow> '' (estimated duration: '' @ duration_string d @ '')'') @
          (if length (dr_Warnings result) > 0
           then '' with '' @ show_nat (length (dr_Warnings result)) @ '' warning(s)'' else []))
      else
        record_event True ''DryRunResult'' (''Dry-run: scale-down blocked by '' @
          show_nat (length (dr_Blockers result)) @ '' issue(s)'' @
          (case dr_Blockers result of [] \<Rightarrow> [] | b # bs \<Rightarrow> '': '' @ b)))"

definition EmitIndexerShardRelocation :: "string \<Rightarrow> i32 \<Rightarrow> i32 \<Rightarrow> ('s, unit) io" where
  "EmitIndexerShardRelocation targetNode remainingShards totalShards =
     (if remainingShards = 0 then
        record_event False ''ShardsRelocated'' (''[indexer] All shards relocated from node '' @ targetNode)
      else record_event False ''DrainProgress'' (''[indexer] Relocating shards from node '' @ targetNode @ '': '' @
        show_i32 remainingShards @ ''/'' @ show_i32 totalShards @ '' remaining''))"

definition EmitManagerQueueDrain :: "string \<Rightarrow> i64 \<Rightarrow> bool \<Rightarrow> ('s, unit) io" where
  "EmitManagerQueueDrain targetNode remainingItems isComplete =
     (if isComplete then
        record_event False ''QueueDrained'' (''[manager] Queue drained for node '' @ targetNode)
      else record_event False ''DrainProgress'' (''[manager] Draining queue for node '' @ targetNode @ '': '' @
        show_i64 remainingItems @ '' items remaining''))"

subsection \<open>The round trip\<close>

text \<open>What a rollback to \<open>n\<close> replicas may write: the object it read, with that count.\<close>

definition restore_log :: "i32 \<Rightarrow> StatefulSet \<Rightarrow> effect list" where
  "restore_log n sts = (if sts_SpecReplicas sts = Some n then [] else [EUpdateSts (sts\<lparr>sts_SpecReplicas := Some n\<rparr>)])"

lemma restore_run:
  assumes "run_state (try_io (get_sts E ns name) f (\<lambda>sts. if sts_SpecReplicas sts \<noteq> Some n then
      try_io (update_sts E (sts\<lparr>sts_SpecReplicas := Some n\<rparr>)) g (\<lambda>u. ret (Inr ())) else ret (Inr ()))) w = (Inr (), w')"
  shows "\<exists>sts s. e_get_sts E ns name (w_env w) = (Inr sts, s) \<and> w_log w' = w_log w @ restore_log n sts"
proof -
  obtain r s where get: "e_get_sts E ns name (w_env w) = (r, s)" by fastforce
  with assms obtain sts where sts: "r = Inr sts" by (cases r) (simp_all add: prim_defs run_io)
  obtain r2 s2 where upd: "e_update_sts E (sts\<lparr>sts_SpecReplicas := Some n\<rparr>) s = (r2, s2)" by fastforce
  have "w_log w' = w_log w @ restore_log n sts"
    using assms get sts upd
    by (cases r2; cases "sts_SpecReplicas sts = Some n") (auto simp: prim_defs run_io restore_log_def)
  then show ?thesis using get sts by blast
qed

lemma rollback_run:
  "run_state (rollbackIndexer E cluster) w = (Inr (), w') \<Longrightarrow>
    \<exists>sts s. e_get_sts E (wc_Namespace cluster) (wc_Name cluster @ ''-indexer'') (w_env w) = (Inr sts, s) \<and>
      w_log w' = w_log w @ restore_log (previous_replicas 3 (indexer_drain cluster)) sts"
  "run_state (rollbackManager E cluster) w = (Inr (), w') \<Longrightarrow>
    \<exists>sts s. e_get_sts E (wc_Namespace cluster) (wc_Name cluster @ ''-manager-worker'') (w_env w) = (Inr sts, s) \<and>
      w_log w' = w_log w @ restore_log (previous_replicas 1 (manager_drain cluster)) sts"
  unfolding rollbackIndexer_def rollbackManager_def Let_def by (erule restore_run)+

lemma StartDrain_previous:
  "StartDrain now s pod prev target = Inr s' \<Longrightarrow> previous_replicas d (Some s') = prev"
  by (auto simp: StartDrain_def previous_replicas_def split: if_splits)

text \<open>
  C13: Rollback restores what the drain found. If the drain of a component was started with
  \<open>prev\<close> replicas and that status is the one in the cluster, a successful rollback of the
  component leaves its StatefulSet alone if it asks for \<open>prev\<close> replicas already and otherwise
  writes that object once with \<open>prev\<close> replicas and no other change; an unknown component is
  an error without any write.
\<close>

theorem ExecuteRollback_restores:
  assumes "StartDrain now s pod prev target = Inr s'"
  shows "(run_state (ExecuteRollback E (set_indexer_drain s' cluster) DrainComponentIndexer) w = (Inr (), wi) \<longrightarrow>
      (\<exists>sts st. e_get_sts E (wc_Namespace cluster) (wc_Name cluster @ ''-indexer'') (w_env w) = (Inr sts, st) \<and>
        w_log wi = w_log w @ restore_log prev sts)) \<and>
    (run_state (ExecuteRollback E (set_manager_drain s' cluster) DrainComponentManager) w = (Inr (), wm) \<longrightarrow>
      (\<exists>sts st. e_get_sts E (wc_Namespace cluster) (wc_Name cluster @ ''-manager-worker'') (w_env w) = (Inr sts, st) \<and>
        w_log wm = w_log w @ restore_log prev sts)) \<and>
    (component \<notin> {DrainComponentIndexer, DrainComponentManager} \<longrightarrow>
      run_state (ExecuteRollback E cluster component) w = (Inl (errorf (''unknown component: '' @ component)), w))"
  using rollback_run(1) [of E "set_indexer_drain s' cluster" w wi]
    rollback_run(2) [of E "set_manager_drain s' cluster" w wm] StartDrain_previous [OF assms]
  by (simp add: ExecuteRollback_def DrainComponentIndexer_def DrainComponentManager_def)

definition three_replicas :: StatefulSet where
  "three_replicas = \<lparr>sts_Name = ''wz-indexer'', sts_Namespace = ''ns'', sts_UID = ''u1'', sts_MatchLabels = [],
     sts_SpecReplicas = Some 2, sts_Replicas = 3, sts_ReadyReplicas = 3, sts_UpdatedReplicas = 3,
     sts_CurrentRevision = ''r1'', sts_UpdateRevision = ''r1'', sts_Generation = 1, sts_ObservedGeneration = 1,
     sts_TemplateAnnotations = [], sts_Labels = [], sts_Annotations = [], sts_OwnerReferences = [],
     sts_Deleting = False, sts_PodManagementPolicy = ''Parallel'', sts_UpdateStrategy = ''OnDelete'', sts_MinReadySeconds = 30,
     sts_TemplateLabels = [], sts_PodSpec = empty_pod_spec\<rparr>"

definition drained_status :: ComponentDrainStatus where
  "drained_status = (case StartDrain 0 InitializeDrainStatus ''wz-indexer-2'' 3 2 of Inr s \<Rightarrow> s | Inl e \<Rightarrow> zero_status)"

lemma drained_status_started: "StartDrain 0 InitializeDrainStatus ''wz-indexer-2'' 3 2 = Inr drained_status"
  by (simp add: drained_status_def StartDrain_def InitializeDrainStatus_def)

theorem ExecuteRollback_restores_witness:
  "let E = sample_env (Inr three_replicas) (Inl not_found) (Inl not_found);
       w' = snd (run_state (ExecuteRollback E (set_indexer_drain drained_status sample_cluster) DrainComponentIndexer) sample_world)
   in w_log w' = [EUpdateSts (three_replicas\<lparr>sts_SpecReplicas := Some 3\<rparr>)]"
proof -
  let ?E = "sample_env (Inr three_replicas) (Inl not_found) (Inl not_found)"
  have ok: "fst (run_state (ExecuteRollback ?E (set_indexer_drain drained_status sample_cluster) DrainComponentIndexer) sample_world) = Inr ()"
    by (simp add: ExecuteRollback_def rollbackIndexer_def DrainComponentIndexer_def Let_def prim_defs run_io sample_env_defs
        three_replicas_def)
  then obtain w where w: "run_state (ExecuteRollback ?E (set_indexer_drain drained_status sample_cluster) DrainComponentIndexer) sample_world = (Inr (), w)"
    by (metis prod.collapse)
  show ?thesis
    using ExecuteRollback_restores [OF drained_status_started, of ?E sample_cluster sample_world w] w
    by (auto simp: Let_def sample_env_defs restore_log_def three_replicas_def)
qed

end
