(* ===== verification/DryRun.thy ===== *)
theory DryRun
  imports IndexerDrainFacts ManagerDrain DrainRollback
begin

section \<open>Dry runs (internal/wazuh/drain/dryrun.go)\<close>

text \<open>
  The evaluator asks each component whether a scale-down is feasible and combines the
  answers. What it needs of a component's drainer is the locale \<open>drain_evaluator\<close>, which the
  indexer and the manager drainer satisfy: a result that is feasible exactly when it has no
  blocker, computed by reading only. The combined result then has the same two properties.
  An evaluator is a function from the node's name; a nil evaluator is \<open>None\<close>.
\<close>

type_synonym 's evaluator = "string \<Rightarrow> ('s, DryRunResult result) io"

definition infeasible :: "time \<Rightarrow> string \<Rightarrow> string \<Rightarrow> DryRunResult" where
  "infeasible now component blocker = add_blocker blocker (fresh_result now component)"

definition EvaluateIndexerDrain :: "'s env \<Rightarrow> 's evaluator option \<Rightarrow> string \<Rightarrow> ('s, DryRunResult result) io" where
  "EvaluateIndexerDrain E indexerEvaluator targetNode = (case indexerEvaluator of
     None \<Rightarrow> do { now \<leftarrow> time_now E;
       ret (Inr (infeasible now DrainComponentIndexer ''Indexer drain evaluator not configured'')) }
   | Some evaluate \<Rightarrow> do {
       r \<leftarrow> evaluate targetNode;
       case r of
         Inl err \<Rightarrow> do { now \<leftarrow> time_now E;
           ret (Inr (infeasible now DrainComponentIndexer (''Failed to evaluate: '' @ text_of err))) }
       | Inr result \<Rightarrow> ret (Inr result) })"

definition EvaluateManagerDrain :: "'s env \<Rightarrow> 's evaluator option \<Rightarrow> string \<Rightarrow> ('s, DryRunResult result) io" where
  "EvaluateManagerDrain E managerEvaluator targetNode = (case managerEvaluator of
     None \<Rightarrow> do { now \<leftarrow> time_now E;
       ret (Inr (infeasible now DrainComponentManager ''Manager drain evaluator not configured'')) }
   | Some evaluate \<Rightarrow> do {
       r \<leftarrow> evaluate targetNode;
       case r of
         Inl err \<Rightarrow> do { now \<leftarrow> time_now E;
           ret (Inr (infeasible now DrainComponentManager (''Failed to evaluate: '' @ text_of err))) }
       | Inr result \<Rightarrow> ret (Inr result) })"

definition check_min_available :: "i32 \<Rightarrow> int option \<Rightarrow> DryRunResult \<Rightarrow> DryRunResult" where
  "check_min_available replicas minAvailable r = (case minAvailable of None \<Rightarrow> r
     | Some m \<Rightarrow> if sint (to_i32 m) \<ge> sint replicas
        then add_blocker (''PDB minAvailable ('' @ show_int m @ '') >= replicas ('' @ show_i32 replicas @
               ''): cannot scale down'') r
        else add_warning (''PDB protects Dashboard with minAvailable='' @ show_int m) r)"

definition check_max_unavailable :: "int option \<Rightarrow> DryRunResult \<Rightarrow> DryRunResult" where
  "check_max_unavailable maxUnavailable r = (case maxUnavailable of None \<Rightarrow> r
     | Some m \<Rightarrow> if m = 0 then add_blocker ''PDB maxUnavailable is 0: cannot scale down'' r else r)"

definition check_pdb :: "i32 \<Rightarrow> PodDisruptionBudget result \<Rightarrow> DryRunResult \<Rightarrow> DryRunResult" where
  "check_pdb replicas p r = (case p of
     Inl err \<Rightarrow> if IsNotFound err then add_warning ''No PodDisruptionBudget found for Dashboard'' r
       else add_warning (''Failed to check PDB: '' @ text_of err) r
   | Inr pdb \<Rightarrow> check_max_unavailable (pdb_MaxUnavailable pdb) (check_min_available replicas (pdb_MinAvailable pdb) r))"

definition EvaluateDashboard :: "'s env \<Rightarrow> WazuhCluster \<Rightarrow> ('s, DryRunResult result) io" where
  "EvaluateDashboard E cluster = do {
     now \<leftarrow> time_now E;
     let result = fresh_result now DrainComponentDashboard;
     case wc_Dashboard cluster of
       None \<Rightarrow> ret (Inr (add_warning ''Dashboard not configured in cluster spec'' result))
     | Some dashboard \<Rightarrow> do {
         let replicas = (if dcs_Replicas dashboard = 0 then 1 else dcs_Replicas dashboard);
         p \<leftarrow> get_pdb E (wc_Namespace cluster) (wc_Name cluster @ ''-dashboard'');
         let r1 = check_pdb replicas p result;
         let r2 = (if replicas = 1 then add_warning
           ''Dashboard has only 1 replica: scaling down would remove all Dashboard instances'' r1 else r1);
         ret (Inr (r2\<lparr>dr_EstimatedDuration := Some (30 * second)\<rparr>)) } }"

definition getTargetIndexerNode :: "WazuhCluster \<Rightarrow> string" where
  "getTargetIndexerNode cluster =
     (let fromStatus = (case indexer_drain cluster of None \<Rightarrow> [] | Some s \<Rightarrow> ds_TargetPod s) in
      if fromStatus \<noteq> [] then fromStatus
      else
        let desiredReplicas = (case wc_Indexer cluster of None \<Rightarrow> 3
              | Some s \<Rightarrow> if sint (ics_Replicas s) > 0 then ics_Replicas s else 3);
            currentReplicas = (case wc_stIndexer cluster of None \<Rightarrow> 0 | Some s \<Rightarrow> cst_Replicas s)
        in if sint desiredReplicas < sint currentReplicas
           then wc_Name cluster @ ''-indexer-'' @ show_i32 (currentReplicas - 1) else [])"

definition getTargetManagerNode :: "WazuhCluster \<Rightarrow> string" where
  "getTargetManagerNode cluster =
     (let fromStatus = (case manager_drain cluster of None \<Rightarrow> [] | Some s \<Rightarrow> ds_TargetPod s) in
      if fromStatus \<noteq> [] then fromStatus
      else
        let desiredReplicas = (case wc_Manager cluster of None \<Rightarrow> 0 | Some s \<Rightarrow> GetReplicas s);
            currentReplicas = previous_replicas 0 (manager_drain cluster)
        in if currentReplicas = 0 \<and> sint desiredReplicas > 0 then []
           else if sint desiredReplicas < sint currentReplicas
           then wc_Name cluster @ ''-manager-worker-'' @ show_i32 (currentReplicas - 1) else [])"

text \<open>The three anonymous functions of \<open>EvaluateAll\<close>, and the loop that merges their results.\<close>

definition evaluate_indexer :: "'s env \<Rightarrow> 's evaluator option \<Rightarrow> WazuhCluster \<Rightarrow> ('s, DryRunResult result) io" where
  "evaluate_indexer E ev cluster = (if getTargetIndexerNode cluster = [] then do {
       now \<leftarrow> time_now E;
       ret (Inr (add_warning ''No indexer scale-down detected'' (fresh_result now DrainComponentIndexer))) }
     else EvaluateIndexerDrain E ev (getTargetIndexerNode cluster))"

definition evaluate_manager :: "'s env \<Rightarrow> 's evaluator option \<Rightarrow> WazuhCluster \<Rightarrow> ('s, DryRunResult result) io" where
  "evaluate_manager E ev cluster = (if getTargetManagerNode cluster = [] then do {
       now \<leftarrow> time_now E;
       ret (Inr (add_warning ''No manager scale-down detected'' (fresh_result now DrainComponentManager))) }
     else EvaluateManagerDrain E ev (getTargetManagerNode cluster))"

definition tagged :: "string \<Rightarrow> string \<Rightarrow> string" where
  "tagged name text = ''['' @ name @ ''] '' @ text"

definition merge_result :: "string \<Rightarrow> DryRunResult \<Rightarrow> DryRunResult \<Rightarrow> DryRunResult" where
  "merge_result name result combined = combined\<lparr>
     dr_Feasible := (if \<not> dr_Feasible result then False else dr_Feasible combined),
     dr_Blockers := dr_Blockers combined @ map (tagged name) (dr_Blockers result),
     dr_Warnings := dr_Warnings combined @ map (tagged name) (dr_Warnings result)\<rparr>"

fun evaluate_each :: "(string \<times> ('s, DryRunResult result) io) list \<Rightarrow> DryRunResult \<times> duration \<Rightarrow>
    ('s, DryRunResult \<times> duration) io" where
  "evaluate_each [] (combined, totalDuration) = ret (combined, totalDuration)"
| "evaluate_each ((name, evaluate) # comps) (combined, totalDuration) = do {
     r \<leftarrow> evaluate;
     case r of
       Inl err \<Rightarrow> evaluate_each comps
         (add_warning (name @ '': evaluation failed: '' @ text_of err) combined, totalDuration)
     | Inr result \<Rightarrow> evaluate_each comps (merge_result name result combined,
         (case dr_EstimatedDuration result of None \<Rightarrow> totalDuration | Some d \<Rightarrow> totalDuration + d)) }"

definition EvaluateAll :: "'s env \<Rightarrow> 's evaluator option \<Rightarrow> 's evaluator option \<Rightarrow> WazuhCluster \<Rightarrow>
    ('s, DryRunResult result) io" where
  "EvaluateAll E indexerEvaluator managerEvaluator cluster = do {
     now \<leftarrow> time_now E;
     (combined, totalDuration) \<leftarrow> evaluate_each
       [(DrainComponentIndexer, evaluate_indexer E indexerEvaluator cluster),
        (DrainComponentManager, evaluate_manager E managerEvaluator cluster),
        (DrainComponentDashboard, EvaluateDashboard E cluster)] (fresh_result now ''all'', 0);
     ret (Inr (if sint totalDuration > 0
       then combined\<lparr>dr_EstimatedDuration := Some totalDuration\<rparr> else combined)) }"

subsection \<open>The contract of an evaluation\<close>

definition consistent :: "DryRunResult \<Rightarrow> bool" where
  "consistent r \<longleftrightarrow> (dr_Feasible r \<longleftrightarrow> dr_Blockers r = [])"

fun reads_only :: "effect \<Rightarrow> bool" where
  "reads_only (EHttp c m path b r) = (m = ''GET'')"
| "reads_only (EWazuh url m path r) = is_wz_read (EWazuh url m path r)"
| "reads_only e = False"

definition sound_evaluation :: "('s, DryRunResult result) io \<Rightarrow> bool" where
  "sound_evaluation m \<longleftrightarrow> logs_only reads_only m \<and>
     (\<forall>w. \<exists>r w'. run_state m w = (Inr r, w') \<and> consistent r)"

lemma consistent_simps [simp]:
  "consistent (fresh_result now component)"
  "consistent r \<Longrightarrow> consistent (add_warning m r)"
  "consistent (add_blocker b r)"
  "consistent (r\<lparr>dr_EstimatedDuration := d\<rparr>) = consistent r"
  "consistent r \<Longrightarrow> consistent c \<Longrightarrow> consistent (merge_result name r c)"
  by (auto simp: consistent_def fresh_result_def add_warning_def add_blocker_def merge_result_def)

lemma sound_ret: "consistent r \<Longrightarrow> sound_evaluation (ret (Inr r))"
  by (simp add: sound_evaluation_def logs)

lemma sound_bind:
  assumes "logs_only reads_only m" and "\<And>a. sound_evaluation (f a)"
  shows "sound_evaluation (State_Monad.bind m f)"
  unfolding sound_evaluation_def
proof (intro conjI allI)
  show "logs_only reads_only (State_Monad.bind m f)"
    using assms by (intro logs) (simp_all add: sound_evaluation_def)
  show "\<exists>r w'. run_state (State_Monad.bind m f) w = (Inr r, w') \<and> consistent r" for w
    using assms(2) by (simp add: run_bind sound_evaluation_def split: prod.split)
qed

lemmas sound_intros = sound_bind sound_ret

lemma os_reads: "is_os_read c e \<Longrightarrow> reads_only e"
  by (cases e) auto

lemma wz_reads: "is_wz_read e \<Longrightarrow> reads_only e"
  by (cases e) auto

lemma sound_results [simp]:
  "consistent (infeasible now component b)"
  "consistent r \<Longrightarrow> consistent (check_min_available n m r)"
  "consistent r \<Longrightarrow> consistent (check_max_unavailable m r)"
  "consistent r \<Longrightarrow> consistent (check_pdb n p r)"
  by (simp_all add: infeasible_def check_min_available_def check_max_unavailable_def check_pdb_def
      split: option.split sum.split)

lemma logs_clock [logs]: "logs_only P (time_now E)" "logs_only P (get_pdb E ns name)"
  by (simp_all add: time_now_def get_pdb_def logs)

lemma EvaluateDashboard_sound: "sound_evaluation (EvaluateDashboard E cluster)"
  unfolding EvaluateDashboard_def Let_def
  by (intro sound_bind logs; simp split: option.split add: sound_ret; intro allI impI conjI sound_intros logs; simp)

lemma evaluate_each_sound:
  assumes "\<forall>(name, m) \<in> set comps. sound_evaluation m" and "consistent c"
  shows "logs_only reads_only (evaluate_each comps (c, d)) \<and>
    (\<forall>w. \<exists>c' d' w'. run_state (evaluate_each comps (c, d)) w = ((c', d'), w') \<and> consistent c')"
  using assms
proof (induction comps arbitrary: c d)
  case Nil
  then show ?case by (simp add: logs)
next
  case (Cons comp comps)
  obtain name m where comp: "comp = (name, m)" by fastforce
  have m: "sound_evaluation m" using Cons.prems(1) comp by simp
  have IH: "logs_only reads_only (evaluate_each comps (c, d))"
      "\<exists>c' d' w'. run_state (evaluate_each comps (c, d)) w = ((c', d'), w') \<and> consistent c'"
    if "consistent c" for c d w using Cons.IH [OF _ that, of d] Cons.prems(1) by auto
  have "\<exists>c' d' w'. run_state (evaluate_each (comp # comps) (c, d)) w = ((c', d'), w') \<and> consistent c'" for w
  proof -
    obtain r w1 where "run_state m w = (Inr r, w1)" "consistent r" using m unfolding sound_evaluation_def by blast
    then show ?thesis using IH(2) Cons.prems(2) by (simp add: comp run_io)
  qed
  moreover have "logs_only reads_only (evaluate_each (comp # comps) (c, d))"
    unfolding comp evaluate_each.simps logs_only_def
  proof
    fix w
    obtain r w1 where r: "run_state m w = (Inr r, w1)" "consistent r" using m unfolding sound_evaluation_def by blast
    obtain es where es: "w_log w1 = w_log w @ es" "list_all reads_only es"
      using m r unfolding sound_evaluation_def by (meson logs_onlyD)
    let ?c = "merge_result name r c"
    let ?d = "case dr_EstimatedDuration r of None \<Rightarrow> d | Some e \<Rightarrow> d + e"
    obtain fs where "w_log (snd (run_state (evaluate_each comps (?c, ?d)) w1)) = w_log w1 @ fs" "list_all reads_only fs"
      using IH(1) [of ?c ?d] r Cons.prems(2) unfolding logs_only_def by fastforce
    then show "\<exists>es. w_log (snd (run_state (State_Monad.bind m (\<lambda>r. case r of
        Inl err \<Rightarrow> evaluate_each comps (add_warning (name @ '': evaluation failed: '' @ text_of err) c, d)
      | Inr result \<Rightarrow> evaluate_each comps (merge_result name result c,
          case dr_EstimatedDuration result of None \<Rightarrow> d | Some e \<Rightarrow> d + e))) w)) = w_log w @ es \<and> list_all reads_only es"
      using es r by (intro exI [of _ "es @ fs"]) (simp add: run_io)
  qed
  ultimately show ?case by blast
qed

subsection \<open>The interface to the drainers\<close>

text \<open>What the evaluator relies on, and what it then gives.\<close>

locale drain_evaluator =
  fixes evaluate :: "'s env \<Rightarrow> string \<Rightarrow> ('s, DryRunResult result) io"
  assumes evaluate_sound: "sound_evaluation (evaluate E node)"
begin

lemma evaluate_reads: "logs_only reads_only (evaluate E node)"
  using evaluate_sound unfolding sound_evaluation_def by blast

lemma EvaluateDrain_same:
  "run_state (EvaluateIndexerDrain E (Some (evaluate E)) node) w = run_state (evaluate E node) w"
  "run_state (EvaluateManagerDrain E (Some (evaluate E)) node) w = run_state (evaluate E node) w"
  using evaluate_sound [of E node]
  by (auto simp: sound_evaluation_def EvaluateIndexerDrain_def EvaluateManagerDrain_def run_io
      split: prod.splits sum.splits) (metis Inr_Inl_False prod.inject)+

lemma evaluate_sound_components:
  "sound_evaluation (evaluate_indexer E (Some (evaluate E)) cluster)"
  "sound_evaluation (evaluate_manager E (Some (evaluate E)) cluster)"
  using evaluate_sound
  by (auto simp: evaluate_indexer_def evaluate_manager_def sound_evaluation_def logs_only_def EvaluateDrain_same
      run_io time_now_def split: prod.splits)

end

lemma with_client_reads:
  assumes "\<And>c. logs_only (is_os_read c) (f c)"
  shows "logs_only reads_only (with_client d f)"
proof (rule logs_with_client)
  show "logs_only reads_only (f c)" for c
    by (rule logs_weaken [OF assms]) (rule os_reads)
qed

lemma indexer_checks [simp]:
  "consistent r \<Longrightarrow> consistent (check_health h r)"
  "consistent r \<Longrightarrow> consistent (check_shards n sh r)"
  "consistent r \<Longrightarrow> consistent (check_exclusion n ex r)"
  using feasible_iff_step [of r] by (simp_all add: consistent_def)

lemma manager_checks [simp]:
  "consistent r \<Longrightarrow> consistent (check_cluster cl r)"
  "consistent r \<Longrightarrow> consistent (check_node n nd r)"
  "consistent r \<Longrightarrow> consistent (check_queue g q r)"
  "consistent r \<Longrightarrow> consistent (check_workers ns r)"
  by (simp_all add: check_cluster_def check_node_def check_queue_def check_workers_def Let_def split: sum.split)

interpretation indexer_eval: drain_evaluator "\<lambda>E. EvaluateFeasibility E d" for d
  by unfold_locales (unfold EvaluateFeasibility_def Let_def, intro sound_bind logs_clock with_client_reads logs_reads,
    simp split: sum.split add: sound_ret, intro allI impI sound_bind with_client_reads logs_reads, simp add: sound_ret)

interpretation manager_eval: drain_evaluator "\<lambda>E. ManagerDrainer_EvaluateFeasibility E d" for d
proof unfold_locales
  have r: "logs_only is_wz_read m \<Longrightarrow> logs_only reads_only m" for m :: "('s, 'b) io"
    by (erule logs_weaken) (rule wz_reads)
  show "sound_evaluation (ManagerDrainer_EvaluateFeasibility E d node)" for E :: "'s env" and node
    unfolding ManagerDrainer_EvaluateFeasibility_def Let_def
    by (intro sound_bind logs_clock r [OF logs_wz_queries(3)])
       (auto intro!: sound_bind sound_ret r logs_wz_queries)
qed

text \<open>
  A dry run is safe and says what it means. With the indexer's and the manager's own
  drainers as evaluators, \<open>EvaluateAll\<close> always returns a result, never an error; the result is
  feasible exactly when it lists no blocker; and everything the evaluation did was to read:
  no allocation setting, StatefulSet, pod or status was written and no event sent.
\<close>

theorem EvaluateAll_sound:
  "\<exists>r w' es. run_state (EvaluateAll E (Some (EvaluateFeasibility E di))
       (Some (ManagerDrainer_EvaluateFeasibility E dm)) cluster) w = (Inr r, w') \<and>
     (dr_Feasible r \<longleftrightarrow> dr_Blockers r = []) \<and> w_log w' = w_log w @ es \<and> list_all reads_only es"
proof -
  let ?comps = "[(DrainComponentIndexer, evaluate_indexer E (Some (EvaluateFeasibility E di)) cluster),
        (DrainComponentManager, evaluate_manager E (Some (ManagerDrainer_EvaluateFeasibility E dm)) cluster),
        (DrainComponentDashboard, EvaluateDashboard E cluster)]"
  obtain t w0 where t: "run_state (time_now E) w = (t, w0)" by fastforce
  then have w0: "w_log w0 = w_log w" by (auto simp: time_now_def run_ask split: prod.splits)
  have "\<forall>(name, m) \<in> set ?comps. sound_evaluation m"
    by (simp add: indexer_eval.evaluate_sound_components(1) manager_eval.evaluate_sound_components(2)
        EvaluateDashboard_sound)
  then have each: "logs_only reads_only (evaluate_each ?comps (fresh_result t ''all'', 0))"
      "\<exists>c' d' w'. run_state (evaluate_each ?comps (fresh_result t ''all'', 0)) w0 = ((c', d'), w') \<and> consistent c'"
    using evaluate_each_sound [of ?comps "fresh_result t ''all''" 0] by simp_all
  then obtain c d w' where run: "run_state (evaluate_each ?comps (fresh_result t ''all'', 0)) w0 = ((c, d), w')" "consistent c"
    by blast
  obtain es where "w_log w' = w_log w0 @ es" "list_all reads_only es"
    using each(1) run(1) by (rule logs_onlyD)
  moreover have "run_state (EvaluateAll E (Some (EvaluateFeasibility E di))
       (Some (ManagerDrainer_EvaluateFeasibility E dm)) cluster) w =
      (Inr (if sint d > 0 then c\<lparr>dr_EstimatedDuration := Some d\<rparr> else c), w')"
    using run(1) t by (simp only: EvaluateAll_def run_bind prod.case run_ret)
  ultimately show ?thesis using run(2) w0 by (auto simp: consistent_def)
qed

end
