(* ===== verification/DrainCheck.thy ===== *)
theory DrainCheck
  imports DrainDetection ClusterWorld
begin

section \<open>The drain check of a reconciliation\<close>

text \<open>
  \<open>IndexerReconciler.CheckScaleDownDrain\<close> and \<open>WorkerReconciler.CheckScaleDownDrain\<close> are the
  same function over two drainers: look at the StatefulSet, detect a scale-down, and let the
  phase of the stored drain status decide whether to start a drain, to monitor it, to verify
  it or to go on. The common part is here, over the three operations of a component; what
  those operations owe is the locale \<open>drain_component\<close>. A history is any sequence of such
  checks on one stored status, with other activity and restarts of the operator in between.
  The lemmas of the locale: a status is complete only when a check of its history had the
  evidence that its target was empty, and the ways in which a check lets a scale-down through.
\<close>

record 'p DrainCheckResult =
  dcr_NeedsDrain :: bool
  dcr_DrainInProgress :: bool
  dcr_DrainComplete :: bool
  dcr_TargetPod :: string
  dcr_Progress :: "'p option"
  dcr_Error :: "gerror option"

definition empty_check :: "'p DrainCheckResult" where
  "empty_check = \<lparr>dcr_NeedsDrain = False, dcr_DrainInProgress = False, dcr_DrainComplete = False,
     dcr_TargetPod = [], dcr_Progress = None, dcr_Error = None\<rparr>"

type_synonym ('s, 'r) start_op =
  "'r \<Rightarrow> ScaleDownInfo \<Rightarrow> ComponentDrainStatus \<Rightarrow> ('s, 'r \<times> ComponentDrainStatus \<times> gerror option) io"
type_synonym ('s, 'r, 'a) watch_op =
  "'r \<Rightarrow> string \<Rightarrow> ComponentDrainStatus \<Rightarrow> ('s, 'r \<times> ComponentDrainStatus \<times> 'a result) io"
type_synonym ('s, 'r, 'p) checked = "('s, 'r \<times> ComponentDrainStatus \<times> 'p DrainCheckResult \<times> gerror option) io"

text \<open>The \<open>switch\<close> on the phase.\<close>

definition drain_switch :: "('s, 'r) start_op \<Rightarrow> ('s, 'r, 'p) watch_op \<Rightarrow> ('s, 'r, bool) watch_op \<Rightarrow>
    'r \<Rightarrow> ScaleDownInfo \<Rightarrow> ComponentDrainStatus \<Rightarrow> ('s, 'r, 'p) checked" where
  "drain_switch start monitor verify r info status =
     (let result = empty_check\<lparr>dcr_NeedsDrain := True, dcr_TargetPod := sd_TargetPodName info\<rparr>;
          phase = ds_Phase status in
      if phase = DrainPhaseIdle \<or> phase = DrainPhaseText [] then do {
        (r', status', err) \<leftarrow> start r info status;
        case err of
          Some e \<Rightarrow> ret (r', status', result\<lparr>dcr_Error := Some e\<rparr>, Some e)
        | None \<Rightarrow> ret (r', status', result\<lparr>dcr_DrainInProgress := True\<rparr>, None) }
      else if phase = DrainPhasePending \<or> phase = DrainPhaseDraining then do {
        (r', status', p) \<leftarrow> monitor r (sd_TargetPodName info) status;
        let result1 = result\<lparr>dcr_DrainInProgress := True\<rparr>;
        case p of
          Inl e \<Rightarrow> ret (r', status', result1\<lparr>dcr_Error := Some e\<rparr>, None)
        | Inr progress \<Rightarrow> ret (r', status', result1\<lparr>dcr_Progress := Some progress\<rparr>, None) }
      else if phase = DrainPhaseVerifying then do {
        (r', status', c) \<leftarrow> verify r (sd_TargetPodName info) status;
        case c of
          Inl e \<Rightarrow> ret (r', status', result\<lparr>dcr_Error := Some e\<rparr>, None)
        | Inr complete \<Rightarrow> ret (r', status', (if complete then result\<lparr>dcr_DrainComplete := True\<rparr>
            else result\<lparr>dcr_DrainInProgress := True\<rparr>), None) }
      else if phase = DrainPhaseComplete then ret (r, status, result\<lparr>dcr_DrainComplete := True\<rparr>, None)
      else if phase = DrainPhaseFailed then
        ret (r, status, result\<lparr>dcr_Error := Some (errorf (''drain failed: '' @ ds_Message status))\<rparr>, None)
      else ret (r, status, result, None))"

text \<open>The way to the switch: the StatefulSet, the detection, the configuration and the stored status.\<close>

definition drain_check :: "'s env \<Rightarrow> string \<Rightarrow> string \<Rightarrow> (WazuhCluster \<Rightarrow> bool) \<Rightarrow>
    (WazuhCluster \<Rightarrow> ComponentDrainStatus) \<Rightarrow> (ComponentDrainStatus \<Rightarrow> WazuhCluster \<Rightarrow> WazuhCluster) \<Rightarrow>
    ('r \<Rightarrow> ScaleDownInfo \<Rightarrow> ComponentDrainStatus \<Rightarrow> ('s, 'r, 'p) checked) \<Rightarrow>
    'r \<Rightarrow> WazuhCluster \<Rightarrow> i32 \<Rightarrow>
    ('s, 'r \<times> WazuhCluster \<times> 'p DrainCheckResult option \<times> gerror option) io" where
  "drain_check E stsName getErr enabled getOrInit set_drain switch r cluster desiredReplicas = do {
     g \<leftarrow> get_sts E (wc_Namespace cluster) stsName;
     case g of
       Inl err \<Rightarrow> if IsNotFound err then ret (r, cluster, Some empty_check, None)
         else ret (r, cluster, None, Some (wrapf getErr err))
     | Inr sts \<Rightarrow>
        (let info = DetectStatefulSetScaleDown (Some sts) desiredReplicas in
         if \<not> sd_Detected info then ret (r, cluster, Some empty_check, None)
         else if \<not> enabled cluster then
           ret (r, cluster, Some (empty_check\<lparr>dcr_TargetPod := sd_TargetPodName info\<rparr>), None)
         else do {
           (r', status', result, err) \<leftarrow> switch r info (getOrInit cluster);
           ret (r', set_drain status' cluster, Some result, err) }) }"

text \<open>When there is a scale-down and drains are enabled, the check is the switch.\<close>

lemma drain_check_run:
  assumes "e_get_sts E (wc_Namespace cluster) stsName (w_env w) = (Inr sts, st)"
    and "sd_Detected (DetectStatefulSetScaleDown (Some sts) n)" and "enabled cluster"
  shows "run_state (drain_check E stsName getErr enabled getOrInit set_drain switch r cluster n) w =
    (case run_state (switch r (DetectStatefulSetScaleDown (Some sts) n) (getOrInit cluster)) (w\<lparr>w_env := st\<rparr>) of
       ((r', s', res, err), w') \<Rightarrow> ((r', set_drain s' cluster, Some res, err), w'))"
  using assms by (simp add: drain_check_def prim_defs run_io Let_def split: prod.splits)

lemma drain_check_cluster:
  assumes "run_state (drain_check E stsName getErr enabled getOrInit set_drain switch r cluster n) w =
    ((r', cluster', res, err), w')"
  shows "cluster' = cluster \<or> (\<exists>s. cluster' = set_drain s cluster)"
proof -
  obtain g st where g: "e_get_sts E (wc_Namespace cluster) stsName (w_env w) = (g, st)" by fastforce
  then show ?thesis
    using assms by (cases g) (auto simp: drain_check_def prim_defs run_io Let_def split: if_splits prod.splits)
qed

subsection \<open>Histories\<close>

text \<open>
  \<open>drain_history get_drain check st ps es\<close>: the stored drain status became \<open>st\<close> by checks that
  were to drain the pods \<open>ps\<close>, and the log holds \<open>es\<close>. Between two checks the operator may
  have been restarted (any reconciler state \<open>r\<close>), the specification of the cluster changed and
  other effects have happened; other code may have stored any status that is not complete.
\<close>

definition drain_targets :: "'p DrainCheckResult option \<Rightarrow> string list" where
  "drain_targets res = (case res of None \<Rightarrow> [] | Some x \<Rightarrow> if dcr_NeedsDrain x then [dcr_TargetPod x] else [])"

inductive drain_history :: "(WazuhCluster \<Rightarrow> ComponentDrainStatus option) \<Rightarrow>
    ('r \<Rightarrow> WazuhCluster \<Rightarrow> i32 \<Rightarrow> ('s, 'r \<times> WazuhCluster \<times> 'p DrainCheckResult option \<times> gerror option) io) \<Rightarrow>
    ComponentDrainStatus option \<Rightarrow> string list \<Rightarrow> effect list \<Rightarrow> bool"
  for get_drain check where
  not_complete: "\<not> IsDrainComplete st \<Longrightarrow> drain_history get_drain check st [] []"
| other: "drain_history get_drain check st ps es \<Longrightarrow> \<not> IsDrainComplete st' \<Longrightarrow> drain_history get_drain check st' ps (es @ others)"
| check: "drain_history get_drain check st ps es \<Longrightarrow> get_drain cluster = st \<Longrightarrow>
    run_state (check r cluster n) w = ((r', cluster', res, err), w') \<Longrightarrow> w_log w' = w_log w @ fs \<Longrightarrow>
    drain_history get_drain check (get_drain cluster') (ps @ drain_targets res) (es @ others @ fs)"

text \<open>The phase a check finds, and when the reconciliation waits for the drain instead of going on.\<close>

definition stored_phase :: "ComponentDrainStatus option \<Rightarrow> DrainPhase" where
  "stored_phase st = (case st of None \<Rightarrow> DrainPhaseIdle | Some s \<Rightarrow> ds_Phase s)"

definition held_back :: "'p DrainCheckResult option \<Rightarrow> gerror option \<Rightarrow> bool" where
  "held_back res err \<longleftrightarrow> err = None \<and> (\<exists>x. res = Some x \<and> dcr_DrainInProgress x)"

text \<open>
  What a check that goes on has: it says drained and has seen it, now or earlier in the history
  of a complete status; or it reports an error; or the phase is one the switch does not know.
\<close>

definition goes_on :: "(string \<Rightarrow> effect \<Rightarrow> bool) \<Rightarrow> DrainPhase \<Rightarrow> string list \<Rightarrow> effect list \<Rightarrow> effect list \<Rightarrow>
    'p DrainCheckResult \<Rightarrow> gerror option \<Rightarrow> bool" where
  "goes_on evidence phase ps es fs x err \<longleftrightarrow>
     (if dcr_DrainComplete x then err = None \<and>
        (phase = DrainPhaseVerifying \<and> list_ex (evidence (dcr_TargetPod x)) fs \<or>
         phase = DrainPhaseComplete \<and> (\<exists>q \<in> set ps. list_ex (evidence q) es))
      else if dcr_Error x \<noteq> None then
        phase \<in> {DrainPhaseIdle, DrainPhaseText []} \<and> err = dcr_Error x \<or>
        phase \<in> {DrainPhaseVerifying, DrainPhaseFailed} \<and> err = None
      else phase = DrainPhaseRollingBack \<or> (\<exists>t. t \<noteq> [] \<and> phase = DrainPhaseText t))"

subsection \<open>What a component owes\<close>

text \<open>
  \<open>evidence pod e\<close> is an answer of the component's server showing that the pod holds nothing
  any more. Starting never completes a drain, monitoring at most leads on to verifying, and
  verifying completes it only on evidence.
\<close>

locale drain_component =
  fixes start :: "WazuhCluster \<Rightarrow> ('s, 'r) start_op" and monitor :: "WazuhCluster \<Rightarrow> ('s, 'r, 'p) watch_op"
    and verify :: "WazuhCluster \<Rightarrow> ('s, 'r, bool) watch_op"
    and evidence :: "string \<Rightarrow> effect \<Rightarrow> bool"
  assumes start_phase: "run_state (start cl r info s) w = ((r', s', e), w') \<Longrightarrow>
      ds_Phase s \<in> {DrainPhaseIdle, DrainPhaseText []} \<Longrightarrow> ds_Phase s' \<noteq> DrainPhaseComplete"
    and start_log: "run_state (start cl r info s) w = ((r', s', e), w') \<Longrightarrow> \<exists>es. w_log w' = w_log w @ es"
    and monitor_phase: "run_state (monitor cl r pod s) w = ((r', s', p), w') \<Longrightarrow>
      ds_Phase s' = ds_Phase s \<or> (ds_Phase s = DrainPhaseDraining \<and> ds_Phase s' = DrainPhaseVerifying)"
    and monitor_log: "run_state (monitor cl r pod s) w = ((r', s', p), w') \<Longrightarrow> \<exists>es. w_log w' = w_log w @ es"
    and verify_result: "run_state (verify cl r pod s) w = ((r', s', c), w') \<Longrightarrow> ds_Phase s = DrainPhaseVerifying \<Longrightarrow>
      \<exists>es. w_log w' = w_log w @ es \<and>
        (if c = Inr True then ds_Phase s' = DrainPhaseComplete \<and> list_ex (evidence pod) es else s' = s)"
begin

text \<open>One pass through the switch: completing needs evidence, unless the status was complete already.\<close>

lemma switch_sound:
  assumes "run_state (drain_switch (start cl) (monitor cl) (verify cl) r info s) w = ((r', s', res, err), w')"
  shows "dcr_TargetPod res = sd_TargetPodName info \<and> dcr_NeedsDrain res \<and> (\<exists>es. w_log w' = w_log w @ es \<and>
    ((dcr_DrainComplete res \<or> ds_Phase s' = DrainPhaseComplete) \<longrightarrow>
       ds_Phase s = DrainPhaseComplete \<or> list_ex (evidence (sd_TargetPodName info)) es))"
proof -
  consider "ds_Phase s \<in> {DrainPhaseIdle, DrainPhaseText []}" | "ds_Phase s \<in> {DrainPhasePending, DrainPhaseDraining}"
    | "ds_Phase s = DrainPhaseVerifying"
    | "ds_Phase s \<notin> {DrainPhaseIdle, DrainPhaseText [], DrainPhasePending, DrainPhaseDraining, DrainPhaseVerifying}"
    by blast
  then show ?thesis
  proof cases
    case 1
    obtain r1 s1 e w1 where "run_state (start cl r info s) w = ((r1, s1, e), w1)" by (metis surj_pair)
    with 1 assms start_phase [OF this 1] start_log [OF this] show ?thesis
      by (auto simp: drain_switch_def empty_check_def run_io Let_def split: option.splits)
  next
    case 2
    obtain r1 s1 p w1 where "run_state (monitor cl r (sd_TargetPodName info) s) w = ((r1, s1, p), w1)" by (metis surj_pair)
    with 2 assms monitor_phase [OF this] monitor_log [OF this] show ?thesis
      by (auto simp: drain_switch_def empty_check_def run_io Let_def split: sum.splits)
  next
    case 3
    obtain r1 s1 c w1 where "run_state (verify cl r (sd_TargetPodName info) s) w = ((r1, s1, c), w1)" by (metis surj_pair)
    with 3 assms verify_result [OF this 3] show ?thesis
      by (auto simp: drain_switch_def empty_check_def run_io Let_def split: sum.splits if_splits)
  next
    case 4
    with assms show ?thesis by (auto simp: drain_switch_def empty_check_def Let_def split: if_splits)
  qed
qed

lemma check_sound:
  assumes "run_state (drain_check E stsName getErr enabled getOrInit set_drain
      (drain_switch (start cl) (monitor cl) (verify cl)) r cluster n) w = ((r', cluster', res, err), w')"
    and upd: "\<And>s c. get_drain (set_drain s c) = Some s"
    and init: "\<And>c. getOrInit c = (case get_drain c of None \<Rightarrow> InitializeDrainStatus | Some s \<Rightarrow> s)"
  shows "\<exists>es. w_log w' = w_log w @ es \<and>
    (IsDrainComplete (get_drain cluster') \<or> (\<exists>result. res = Some result \<and> dcr_DrainComplete result) \<longrightarrow>
       IsDrainComplete (get_drain cluster) \<or>
       (\<exists>q \<in> set (drain_targets res). list_ex (evidence q) es))"
proof -
  obtain g s1 where g: "e_get_sts E (wc_Namespace cluster) stsName (w_env w) = (g, s1)" by fastforce
  let ?w = "w\<lparr>w_env := s1\<rparr>"
  show ?thesis
  proof (cases g)
    case (Inl e)
    with assms(1) g show ?thesis
      by (auto simp: drain_check_def prim_defs run_io empty_check_def split: if_splits)
  next
    case (Inr sts)
    let ?info = "DetectStatefulSetScaleDown (Some sts) n"
    let ?s = "getOrInit cluster"
    obtain r1 s2 res1 e1 w2 where sw: "run_state (drain_switch (start cl) (monitor cl) (verify cl) r ?info ?s) ?w = ((r1, s2, res1, e1), w2)"
      by (metis surj_pair)
    have s: "ds_Phase ?s = DrainPhaseComplete \<longleftrightarrow> IsDrainComplete (get_drain cluster)"
      by (simp add: init IsDrainComplete_def InitializeDrainStatus_def split: option.split)
    show ?thesis
    proof (cases "sd_Detected ?info \<and> enabled cluster")
      case True
      with assms(1) g Inr sw have run: "cluster' = set_drain s2 cluster" "res = Some res1" "w' = w2"
        by (auto simp: drain_check_def prim_defs run_io Let_def)
      then show ?thesis using switch_sound [OF sw] s by (auto simp: run upd IsDrainComplete_def drain_targets_def)
    next
      case False
      with assms(1) g Inr show ?thesis
        by (auto simp: drain_check_def prim_defs run_io empty_check_def Let_def split: if_splits)
    qed
  qed
qed

text \<open>A pass through the switch that does not hold the scale-down back.\<close>

lemma switch_goes_on:
  assumes "run_state (drain_switch (start cl) (monitor cl) (verify cl) r info s) w = ((r', s', res, err), w')"
    and "\<not> held_back (Some res) err" and "ds_Phase s = DrainPhaseComplete \<longrightarrow> (\<exists>q \<in> set ps. list_ex (evidence q) es)"
  shows "\<exists>fs. w_log w' = w_log w @ fs \<and> goes_on evidence (ds_Phase s) ps es fs res err"
proof -
  consider "ds_Phase s \<in> {DrainPhaseIdle, DrainPhaseText []}" | "ds_Phase s \<in> {DrainPhasePending, DrainPhaseDraining}"
    | "ds_Phase s = DrainPhaseVerifying"
    | "ds_Phase s \<notin> {DrainPhaseIdle, DrainPhaseText [], DrainPhasePending, DrainPhaseDraining, DrainPhaseVerifying}"
    by blast
  then show ?thesis
  proof cases
    case 1
    obtain r1 s1 e w1 where "run_state (start cl r info s) w = ((r1, s1, e), w1)" by (metis surj_pair)
    with 1 assms start_log [OF this] show ?thesis
      by (auto simp: drain_switch_def empty_check_def run_io Let_def goes_on_def held_back_def split: option.splits)
  next
    case 2
    obtain r1 s1 p w1 where "run_state (monitor cl r (sd_TargetPodName info) s) w = ((r1, s1, p), w1)" by (metis surj_pair)
    with 2 assms(1, 2) show ?thesis
      by (auto simp: drain_switch_def empty_check_def run_io Let_def held_back_def split: sum.splits)
  next
    case 3
    obtain r1 s1 c w1 where "run_state (verify cl r (sd_TargetPodName info) s) w = ((r1, s1, c), w1)" by (metis surj_pair)
    with 3 assms(1, 2) verify_result [OF this 3] show ?thesis
      by (auto simp: drain_switch_def empty_check_def run_io Let_def goes_on_def held_back_def split: sum.splits if_splits)
  next
    case 4
    with assms show ?thesis
      by (cases "ds_Phase s") (auto simp: drain_switch_def empty_check_def Let_def goes_on_def split: if_splits)
  qed
qed

text \<open>A pending drain stays pending, whatever is checked.\<close>

lemma check_pending:
  assumes "run_state (drain_check E stsName getErr enabled getOrInit set_drain
      (drain_switch (start cl) (monitor cl) (verify cl)) r cluster n) w = ((r', cluster', res, err), w')"
    and upd: "\<And>s c. get_drain (set_drain s c) = Some s"
    and "get_drain cluster = Some s" and "getOrInit cluster = s" and "ds_Phase s = DrainPhasePending"
  shows "(\<exists>s'. get_drain cluster' = Some s' \<and> ds_Phase s' = DrainPhasePending) \<and>
    (\<forall>x. res = Some x \<longrightarrow> \<not> dcr_DrainComplete x)"
proof -
  obtain g st where g: "e_get_sts E (wc_Namespace cluster) stsName (w_env w) = (g, st)" by fastforce
  show ?thesis
  proof (cases "\<exists>sts. g = Inr sts \<and> sd_Detected (DetectStatefulSetScaleDown (Some sts) n) \<and> enabled cluster")
    case False
    with assms(1, 3, 5) g show ?thesis
      by (cases g) (auto simp: drain_check_def prim_defs run_io empty_check_def Let_def split: if_splits)
  next
    case True
    then obtain sts where sts: "g = Inr sts" "sd_Detected (DetectStatefulSetScaleDown (Some sts) n)" "enabled cluster" by blast
    let ?info = "DetectStatefulSetScaleDown (Some sts) n"
    obtain r1 s1 p w1 where m: "run_state (monitor cl r (sd_TargetPodName ?info) s) (w\<lparr>w_env := st\<rparr>) = ((r1, s1, p), w1)"
      by (metis surj_pair)
    note run = drain_check_run [where enabled = enabled, OF g [unfolded sts(1)] sts(2, 3)]
    show ?thesis
      using assms(1, 5) m monitor_phase [OF m]
      by (auto simp: run assms(4) drain_switch_def run_io Let_def upd empty_check_def split: sum.splits)
  qed
qed

text \<open>So along a history, complete means seen empty.\<close>

lemma history_sound:
  assumes "drain_history get_drain (\<lambda>r c. drain_check E (stsName c) getErr enabled getOrInit set_drain
      (drain_switch (start c) (monitor c) (verify c)) r c) st ps es"
    and upd: "\<And>s c. get_drain (set_drain s c) = Some s"
    and init: "\<And>c. getOrInit c = (case get_drain c of None \<Rightarrow> InitializeDrainStatus | Some s \<Rightarrow> s)"
  shows "IsDrainComplete st \<longrightarrow> (\<exists>q \<in> set ps. list_ex (evidence q) es)"
  using assms(1)
proof (induction rule: drain_history.induct)
  case (check st ps es cluster r n w r' cluster' res err w' fs others)
  obtain gs where "w_log w' = w_log w @ gs" and step: "IsDrainComplete (get_drain cluster') \<longrightarrow>
       IsDrainComplete (get_drain cluster) \<or> (\<exists>q \<in> set (drain_targets res). list_ex (evidence q) gs)"
    using check_sound [OF check.hyps(3) upd init] by blast
  with check.hyps(4) have "gs = fs" by simp
  with step check.IH check.hyps(2) show ?case by (auto simp: list_ex_append)
qed auto

lemma check_goes_on:
  assumes "drain_history get_drain (\<lambda>r c. drain_check E (stsName c) getErr enabled getOrInit set_drain
      (drain_switch (start c) (monitor c) (verify c)) r c) (get_drain cluster) ps es"
    and run: "run_state (drain_check E (stsName cluster) getErr enabled getOrInit set_drain
      (drain_switch (start cluster) (monitor cluster) (verify cluster)) r cluster n) w = ((r', cluster', res, err), w')"
    and g: "e_get_sts E (wc_Namespace cluster) (stsName cluster) (w_env w) = (Inr sts, st)"
    and d: "sd_Detected (DetectStatefulSetScaleDown (Some sts) n)" "enabled cluster" and "\<not> held_back res err"
    and upd: "\<And>s c. get_drain (set_drain s c) = Some s"
    and init: "\<And>c. getOrInit c = (case get_drain c of None \<Rightarrow> InitializeDrainStatus | Some s \<Rightarrow> s)"
  shows "\<exists>x fs. res = Some x \<and> dcr_TargetPod x = sd_TargetPodName (DetectStatefulSetScaleDown (Some sts) n) \<and>
    w_log w' = w_log w @ fs \<and> goes_on evidence (stored_phase (get_drain cluster)) ps es fs x err"
proof -
  let ?info = "DetectStatefulSetScaleDown (Some sts) n"
  obtain r1 s1 x e w1 where sw: "run_state (drain_switch (start cluster) (monitor cluster) (verify cluster) r ?info (getOrInit cluster))
      (w\<lparr>w_env := st\<rparr>) = ((r1, s1, x, e), w1)" by (metis surj_pair)
  have out: "res = Some x" "err = e" "w' = w1" using run sw by (simp_all add: drain_check_run [where enabled = enabled, OF g d])
  have phase: "ds_Phase (getOrInit cluster) = stored_phase (get_drain cluster)"
    by (simp add: init stored_phase_def InitializeDrainStatus_def split: option.split)
  moreover have "stored_phase (get_drain cluster) = DrainPhaseComplete \<longrightarrow> (\<exists>q \<in> set ps. list_ex (evidence q) es)"
    using history_sound [OF assms(1) upd init] by (auto simp: stored_phase_def IsDrainComplete_def split: option.splits)
  ultimately show ?thesis
    using switch_goes_on [OF sw, of ps es] switch_sound [OF sw] assms(6) out by auto
qed

end

end
