(* ===== verification/IndexerReconcile.thy ===== *)
theory IndexerReconcile
  imports DrainCheck IndexerDrainFacts ClientFactory
begin

section \<open>Draining an indexer node before a scale-down (internal/opensearch/reconciler/indexer_reconciler.go)\<close>

text \<open>
  The reconciler keeps a client and a drainer between reconciliations; both are fields of
  the record \<open>IndexerReconciler\<close>, which every method takes and returns. \<open>ir_ClientFactory\<close>
  tells whether the shared factory is set: without it a factory with an empty cache is made
  for the call. The status argument of a method is the drain status inside the cluster,
  returned updated. The properties: the ways in which a check lets the scale-down go on, and
  what was seen of the node then; a drain that was started completes within two checks of the
  node being empty, whatever happened before; and a drain that could not be started stays
  pending for good.
\<close>

record IndexerReconciler =
  ir_drainer :: "IndexerDrainer option"
  ir_osClient :: "OSClient option"
  ir_Recorder :: bool
  ir_ClientFactory :: bool

definition indexer_event :: "IndexerReconciler \<Rightarrow> bool \<Rightarrow> string \<Rightarrow> string \<Rightarrow> ('s, unit) io" where
  "indexer_event r warning reason message =
     (if ir_Recorder r then record_event warning reason message else ret ())"

definition factory_GetClientForCluster :: "'s env \<Rightarrow> IndexerReconciler \<Rightarrow> WazuhCluster \<Rightarrow> ('s, OSClient result) io" where
  "factory_GetClientForCluster E r cluster =
     (if ir_ClientFactory r then GetClientForCluster E cluster
      else do {
        shared \<leftarrow> get_clients;
        put_clients [];
        c \<leftarrow> GetClientForCluster E cluster;
        put_clients shared;
        ret c })"

definition ensureOpenSearchClient ::
    "'s env \<Rightarrow> IndexerReconciler \<Rightarrow> WazuhCluster \<Rightarrow> ('s, IndexerReconciler \<times> gerror option) io" where
  "ensureOpenSearchClient E r cluster = (case ir_osClient r of
     Some c \<Rightarrow> ret (r, None)
   | None \<Rightarrow> do {
       c \<leftarrow> factory_GetClientForCluster E r cluster;
       case c of
         Inl err \<Rightarrow> ret (r, Some err)
       | Inr newClient \<Rightarrow> ret (r\<lparr>ir_osClient := Some newClient\<rparr>, None) })"

definition Indexer_getOrInitDrainStatus :: "WazuhCluster \<Rightarrow> ComponentDrainStatus" where
  "Indexer_getOrInitDrainStatus cluster = (case indexer_drain cluster of
     None \<Rightarrow> zero_status\<lparr>ds_Phase := DrainPhaseIdle\<rparr> | Some s \<Rightarrow> s)"

definition ensure_drainer :: "WazuhCluster \<Rightarrow> IndexerReconciler \<Rightarrow> IndexerReconciler" where
  "ensure_drainer cluster r = (case ir_drainer r of Some d \<Rightarrow> r
     | None \<Rightarrow> r\<lparr>ir_drainer := Some (NewIndexerDrainer (ir_osClient r) (indexer_drain_config cluster))\<rparr>)"

text \<open>The part of \<open>startDrain\<close> that runs once the status is pending.\<close>

definition begin_drain :: "'s env \<Rightarrow> IndexerReconciler \<Rightarrow> string \<Rightarrow> ComponentDrainStatus \<Rightarrow>
    ('s, IndexerReconciler \<times> ComponentDrainStatus \<times> gerror option) io" where
  "begin_drain E r nodeName status = do {
     _ \<leftarrow> indexer_event r False ''DrainStarted''
       (''Starting indexer drain for node '' @ nodeName @ '' before scale-down'');
     (d, started) \<leftarrow> IndexerDrainer_StartDrain E (the (ir_drainer r)) nodeName;
     let r' = r\<lparr>ir_drainer := Some d\<rparr>;
     now \<leftarrow> time_now E;
     case started of
       Inl err \<Rightarrow> do {
         _ \<leftarrow> indexer_event r' True ''DrainFailed'' (''Failed to start indexer drain: '' @ text_of err);
         ret (r', keep_on_error status (MarkFailed now status (''Failed to start drain: '' @ text_of err)), Some err) }
     | Inr u \<Rightarrow> ret (r', keep_on_error status
         (TransitionTo now (Some status) DrainPhaseDraining ''Relocating shards from node''), None) }"

definition Indexer_startDrain :: "'s env \<Rightarrow> WazuhCluster \<Rightarrow> ('s, IndexerReconciler) start_op" where
  "Indexer_startDrain E cluster r scaleInfo status = do {
     (r1, err) \<leftarrow> ensureOpenSearchClient E r cluster;
     case err of
       Some e \<Rightarrow> ret (r1, status, Some (wrapf ''failed to create OpenSearch client: '' e))
     | None \<Rightarrow> do {
         let r2 = ensure_drainer cluster r1;
         let nodeName = sd_TargetPodName scaleInfo;
         now \<leftarrow> time_now E;
         case StartDrain now status nodeName (sd_CurrentReplicas scaleInfo) (sd_TargetReplicas scaleInfo) of
           Inl e \<Rightarrow> ret (r2, status, Some (wrapf ''failed to transition drain state: '' e))
         | Inr pending \<Rightarrow> begin_drain E r2 nodeName pending } }"

definition Indexer_monitorDrainProgress ::
    "'s env \<Rightarrow> WazuhCluster \<Rightarrow> ('s, IndexerReconciler, DrainProgress) watch_op" where
  "Indexer_monitorDrainProgress E cluster r nodeName status = (case ir_drainer r of
     None \<Rightarrow> ret (r, status, Inl (errorf ''drainer not initialized''))
   | Some d \<Rightarrow> do {
       p \<leftarrow> MonitorProgress E d nodeName;
       case p of
         Inl err \<Rightarrow> ret (r, status, Inl err)
       | Inr progress \<Rightarrow>
          (let status1 = UpdateShardCount (UpdateProgress status (dp_Percent progress) (dp_Message progress))
                 (dp_ShardsRemaining progress) in
           if dp_IsComplete progress then do {
             now \<leftarrow> time_now E;
             ret (r, keep_on_error status1
               (TransitionTo now (Some status1) DrainPhaseVerifying ''Verifying drain completion''), Inr progress) }
           else ret (r, status1, Inr progress)) })"

definition Indexer_verifyDrainComplete :: "'s env \<Rightarrow> WazuhCluster \<Rightarrow> ('s, IndexerReconciler, bool) watch_op" where
  "Indexer_verifyDrainComplete E cluster r nodeName status = (case ir_drainer r of
     None \<Rightarrow> ret (r, status, Inl (errorf ''drainer not initialized''))
   | Some d \<Rightarrow> do {
       v \<leftarrow> VerifyComplete E d nodeName;
       case v of
         Inl err \<Rightarrow> ret (r, status, Inl err)
       | Inr complete \<Rightarrow>
          if complete then do {
            now \<leftarrow> time_now E;
            let status' = keep_on_error status (MarkComplete now status);
            _ \<leftarrow> IndexerDrainer_CancelDrain E d;
            _ \<leftarrow> indexer_event r False ''DrainCompleted'' (''Indexer drain completed for node '' @ nodeName);
            ret (r, status', Inr True) }
          else ret (r, status, Inr False) })"

definition Indexer_CheckScaleDownDrain :: "'s env \<Rightarrow> IndexerReconciler \<Rightarrow> WazuhCluster \<Rightarrow> i32 \<Rightarrow>
    ('s, IndexerReconciler \<times> WazuhCluster \<times> DrainProgress DrainCheckResult option \<times> gerror option) io" where
  "Indexer_CheckScaleDownDrain E r cluster =
     drain_check E (wc_Name cluster @ ''-indexer'') ''failed to get indexer StatefulSet: ''
       indexer_drain_enabled Indexer_getOrInitDrainStatus set_indexer_drain
       (drain_switch (Indexer_startDrain E cluster) (Indexer_monitorDrainProgress E cluster)
         (Indexer_verifyDrainComplete E cluster)) r cluster"

definition Indexer_ResetDrainState ::
    "'s env \<Rightarrow> IndexerReconciler \<Rightarrow> WazuhCluster \<Rightarrow> ('s, IndexerReconciler \<times> WazuhCluster) io" where
  "Indexer_ResetDrainState E r cluster = do {
     now \<leftarrow> time_now E;
     ret (r\<lparr>ir_drainer := None\<rparr>, (case indexer_drain cluster of None \<Rightarrow> cluster
       | Some s \<Rightarrow> set_indexer_drain (the (ResetStatus now (Some s))) cluster)) }"

definition Indexer_EvaluateDrainFeasibility ::
    "'s env \<Rightarrow> IndexerReconciler \<Rightarrow> WazuhCluster \<Rightarrow> string \<Rightarrow> ('s, IndexerReconciler \<times> DryRunResult result) io" where
  "Indexer_EvaluateDrainFeasibility E r cluster nodeName = do {
     (r1, err) \<leftarrow> ensureOpenSearchClient E r cluster;
     case err of
       Some e \<Rightarrow> do {
         now \<leftarrow> time_now E;
         ret (r1, Inr (add_blocker (''Cannot connect to OpenSearch: '' @ text_of e)
           (fresh_result now DrainComponentIndexer))) }
     | None \<Rightarrow> do {
         res \<leftarrow> EvaluateFeasibility E (NewIndexerDrainer (ir_osClient r1) (indexer_drain_config cluster)) nodeName;
         ret (r1, res) } }"

subsection \<open>The contract\<close>

text \<open>The evidence: an answer of OpenSearch that lists no shard on the node.\<close>

definition indexer_evidence :: "string \<Rightarrow> effect \<Rightarrow> bool" where
  "indexer_evidence pod e \<longleftrightarrow> (\<exists>c. saw_shards c (no_shards pod) e)"

abbreviation logs_more :: "('s, 'a) io \<Rightarrow> bool" where
  "logs_more m \<equiv> logs_only (\<lambda>e. True) m"

lemma logs_moreD: "logs_more m \<Longrightarrow> run_state m w = (a, w') \<Longrightarrow> \<exists>es. w_log w' = w_log w @ es"
  by (meson logs_onlyD)

lemma logs_more_weaken: "logs_only P m \<Longrightarrow> logs_more m"
  by (erule logs_weaken) simp

lemma logs_prims [logs]:
  "logs_more (time_now E)" "logs_more (get_secret E ns n)" "logs_more (get_sts E ns n)"
  "logs_more (record_event b x y)" "logs_more (indexer_event r b x y)"
  unfolding indexer_event_def prim_defs by (intro logs; simp)+

lemma logs_factory [logs]:
  "logs_more (GetClientForCluster E cluster)" "logs_more (factory_GetClientForCluster E r cluster)"
  "logs_more (ensureOpenSearchClient E r cluster)"
  unfolding ensureOpenSearchClient_def factory_GetClientForCluster_def GetClientForCluster_def getCredentials_def
    getCACertificate_def Let_def
  by (intro logs)+

lemma logs_drainer [logs]:
  "logs_more (IndexerDrainer_StartDrain E d node)" "logs_more (MonitorProgress E d node)"
  "logs_more (VerifyComplete E d node)" "logs_more (IndexerDrainer_CancelDrain E d)"
  unfolding IndexerDrainer_StartDrain_def MonitorProgress_def VerifyComplete_def IndexerDrainer_CancelDrain_def Let_def
  by (intro logs logs_more_weaken [OF logs_reads(4)] logs_more_weaken [OF logs_reads(6)]
      logs_more_weaken [OF logs_writes(1)] logs_more_weaken [OF logs_writes(2)])+

lemma logs_indexer [logs]:
  "logs_more (Indexer_startDrain E cluster r info s)" "logs_more (Indexer_monitorDrainProgress E cluster r node s)"
  "logs_more (Indexer_verifyDrainComplete E cluster r node s)"
  unfolding Indexer_startDrain_def begin_drain_def Indexer_monitorDrainProgress_def Indexer_verifyDrainComplete_def Let_def
  by (intro logs)+

lemma Indexer_init: "Indexer_getOrInitDrainStatus c = (case indexer_drain c of None \<Rightarrow> InitializeDrainStatus | Some s \<Rightarrow> s)"
  by (simp add: Indexer_getOrInitDrainStatus_def InitializeDrainStatus_def split: option.split)

text \<open>A pending status can only become draining; a failed start leaves it pending.\<close>

lemma pending_kept:
  assumes "ds_Phase s = DrainPhasePending"
  shows "keep_on_error s (MarkFailed now s m) = s"
    and "ds_Phase (keep_on_error s (TransitionTo now (Some s) DrainPhaseDraining m)) = DrainPhaseDraining"
    and "keep_on_error s (TransitionTo now (Some s) DrainPhaseVerifying m) = s"
  using assms by (simp_all add: keep_on_error_def drain_ops TransitionTo_Some Let_def)

lemma begin_drain_phase:
  assumes "run_state (begin_drain E r node s) w = ((r', s', e), w')" and "ds_Phase s = DrainPhasePending"
  shows "ds_Phase s' = (if e = None then DrainPhaseDraining else DrainPhasePending)"
  using assms by (auto simp: begin_drain_def indexer_event_def prim_defs run_io Let_def pending_kept
      split: prod.splits sum.splits if_splits)

lemma StartDrain_pending: "StartDrain now s pod a b = Inr s' \<Longrightarrow> ds_Phase s' = DrainPhasePending"
  by (auto simp: StartDrain_def split: if_splits)

lemma startDrain_phase:
  assumes "run_state (Indexer_startDrain E cluster r info s) w = ((r', s', e), w')"
  shows "s' = s \<and> e \<noteq> None \<or> ds_Phase s' = (if e = None then DrainPhaseDraining else DrainPhasePending)"
proof -
  obtain r1 err w1 where c: "run_state (ensureOpenSearchClient E r cluster) w = ((r1, err), w1)" by (metis surj_pair)
  obtain now w2 where t: "run_state (time_now E) w1 = (now, w2)" by fastforce
  show ?thesis
  proof (cases "\<exists>e. err = Some e \<or> StartDrain now s (sd_TargetPodName info) (sd_CurrentReplicas info) (sd_TargetReplicas info) = Inl e")
    case True
    with assms c t show ?thesis by (auto simp: Indexer_startDrain_def run_io Let_def split: option.splits)
  next
    case False
    then obtain p where p: "StartDrain now s (sd_TargetPodName info) (sd_CurrentReplicas info) (sd_TargetReplicas info) = Inr p"
      and "err = None" by (metis not_None_eq sum.exhaust)
    with assms c t have "run_state (begin_drain E (ensure_drainer cluster r1) (sd_TargetPodName info) p) w2 = ((r', s', e), w')"
      by (simp add: Indexer_startDrain_def run_io Let_def)
    then show ?thesis using begin_drain_phase StartDrain_pending [OF p] by blast
  qed
qed

lemma monitor_cases:
  assumes "run_state (Indexer_monitorDrainProgress E cluster r node s) w = ((r', s', p), w')"
  shows "r' = r \<and> (ds_Phase s' = ds_Phase s \<or> (ds_Phase s = DrainPhaseDraining \<and> ds_Phase s' = DrainPhaseVerifying))"
proof (cases "ir_drainer r")
  case None
  with assms show ?thesis by (simp add: Indexer_monitorDrainProgress_def)
next
  case (Some d)
  obtain q w1 where q: "run_state (MonitorProgress E d node) w = (q, w1)" by fastforce
  show ?thesis
    using assms Some q
    by (auto simp: Indexer_monitorDrainProgress_def run_io Let_def keep_on_error_def TransitionTo_Some eff_phase_def
        split: sum.splits if_splits prod.splits)
qed

lemma verify_cases:
  assumes "run_state (Indexer_verifyDrainComplete E cluster r node s) w = ((r', s', c), w')"
    and "ds_Phase s = DrainPhaseVerifying"
  shows "\<exists>es. w_log w' = w_log w @ es \<and>
    (if c = Inr True then ds_Phase s' = DrainPhaseComplete \<and> list_ex (indexer_evidence node) es else s' = s)"
proof -
  obtain es where es: "w_log w' = w_log w @ es" using logs_moreD [OF logs_indexer(3) assms(1)] by blast
  show ?thesis
  proof (cases "\<exists>d w1. ir_drainer r = Some d \<and> run_state (VerifyComplete E d node) w = (Inr True, w1)")
    case False
    have "s' = s \<and> c \<noteq> Inr True"
    proof (cases "ir_drainer r")
      case None
      with assms(1) show ?thesis by (auto simp: Indexer_verifyDrainComplete_def)
    next
      case (Some d)
      obtain v w1 where v: "run_state (VerifyComplete E d node) w = (v, w1)" by fastforce
      with False Some assms(1) show ?thesis
        by (cases v) (auto simp: Indexer_verifyDrainComplete_def run_io)
    qed
    with es show ?thesis by auto
  next
    case True
    then obtain d w1 where d: "ir_drainer r = Some d" and v: "run_state (VerifyComplete E d node) w = (Inr True, w1)"
      by blast
    then obtain cl where cl: "idr_client d = Some cl"
      by (cases "idr_client d") (auto simp: VerifyComplete_def with_client_def run_io)
    obtain e1 e2 where e: "w_log w1 = w_log w @ [e1, e2]" "saw_shards cl (no_shards node) e1"
      using v by (rule VerifyComplete_saw [OF cl])
    obtain now w2 where t: "run_state (time_now E) w1 = (now, w2)" by fastforce
    let ?rest = "do { _ \<leftarrow> IndexerDrainer_CancelDrain E d;
            _ \<leftarrow> indexer_event r False ''DrainCompleted'' (''Indexer drain completed for node '' @ node);
            ret (r, keep_on_error s (MarkComplete now s), Inr True :: bool result) }"
    have rest: "run_state ?rest w2 = ((r', s', c), w')"
      using assms(1) by (simp add: Indexer_verifyDrainComplete_def d v t run_bind Let_def)
    have "logs_more ?rest" by (intro logs)
    then obtain fs where "w_log w' = w_log w2 @ fs" using rest by (rule logs_onlyD)
    moreover have "w_log w2 = w_log w1" using t by (auto simp: time_now_def run_ask split: prod.splits)
    moreover have "s' = keep_on_error s (MarkComplete now s)" "c = Inr True"
      using rest by (simp_all add: run_bind split: prod.splits)
    ultimately show ?thesis
      using e assms(2)
      by (intro exI [of _ "[e1, e2] @ fs"]) (auto simp: indexer_evidence_def keep_on_error_def drain_ops TransitionTo_Some Let_def)
  qed
qed

interpretation indexer_component: drain_component "Indexer_startDrain E" "Indexer_monitorDrainProgress E"
  "Indexer_verifyDrainComplete E" indexer_evidence for E :: "'s env"
proof unfold_locales
  show "ds_Phase s' \<noteq> DrainPhaseComplete"
    if "run_state (Indexer_startDrain E cl r info s) w = ((r', s', e), w')" "ds_Phase s \<in> {DrainPhaseIdle, DrainPhaseText []}"
    for cl r info s w r' s' e w' using startDrain_phase [OF that(1)] that(2) by (auto split: if_splits)
qed (erule logs_moreD [OF logs_indexer(1)], erule monitor_cases [THEN conjunct2],
    erule logs_moreD [OF logs_indexer(2)], erule (1) verify_cases)

subsection \<open>A server that has moved the shards away\<close>

text \<open>
  In the states of \<open>Q\<close> OpenSearch answers the two questions of a check, lists no shard on the
  node and none that is moving, and reading leaves it in \<open>Q\<close>. Nothing is said of other states.
\<close>

definition settled :: "'s env \<Rightarrow> string \<Rightarrow> 's set \<Rightarrow> bool" where
  "settled E node Q \<longleftrightarrow> (\<forall>st \<in> Q. (\<forall>ns name. snd (e_get_sts E ns name st) \<in> Q) \<and>
     (\<forall>c. \<exists>resp ss st'. e_http E c ''GET'' shards_path None st = (Inr resp, st') \<and> st' \<in> Q \<and> hr_StatusCode resp = 200 \<and>
        hr_shards resp = Inr ss \<and> no_shards node ss) \<and>
     (\<forall>c. \<exists>resp h st'. e_http E c ''GET'' ''/_cluster/health'' None st = (Inr resp, st') \<and> st' \<in> Q \<and> hr_StatusCode resp = 200 \<and>
        hr_health resp = Inr h \<and> not_relocating h))"

lemma settled_queries:
  assumes "settled E node Q" and "w_env w \<in> Q"
  shows "\<exists>w'. run_state (GetShardCount E c node) w = (Inr 0, w') \<and> w_env w' \<in> Q"
    and "\<exists>m w'. run_state (HasRelocatingShards E c) w = (Inr (False, m), w')"
proof -
  obtain resp ss st' where "e_http E c ''GET'' shards_path None (w_env w) = (Inr resp, st')" "st' \<in> Q" "hr_StatusCode resp = 200"
      "hr_shards resp = Inr ss" "no_shards node ss" using assms unfolding settled_def by blast
  then show "\<exists>w'. run_state (GetShardCount E c node) w = (Inr 0, w') \<and> w_env w' \<in> Q"
    by (auto simp: GetShardCount_def GetShardsOnNode_def Client_Get_def Client_Request_def run_io decode_with_def filter_empty_conv list_all_iff)
  obtain resp h st' where "e_http E c ''GET'' ''/_cluster/health'' None (w_env w) = (Inr resp, st')" "hr_StatusCode resp = 200"
      "hr_health resp = Inr h" "not_relocating h" using assms unfolding settled_def by blast
  then show "\<exists>m w'. run_state (HasRelocatingShards E c) w = (Inr (False, m), w')"
    by (auto simp: HasRelocatingShards_def GetClusterHealth_def Client_Get_def Client_Request_def run_io decode_with_def)
qed

lemma settled_drainer:
  assumes "settled E node Q" and "w_env w \<in> Q" and c: "idr_client d = Some c"
  shows "\<exists>p w'. run_state (MonitorProgress E d node) w = (Inr p, w') \<and> dp_IsComplete p"
    and "\<exists>w'. run_state (VerifyComplete E d node) w = (Inr True, w')"
proof -
  obtain w1 where 1: "run_state (GetShardCount E c node) w = (Inr 0, w1)" "w_env w1 \<in> Q"
    using settled_queries(1) [OF assms(1, 2)] by blast
  obtain m w2 where 2: "run_state (HasRelocatingShards E c) w1 = (Inr (False, m), w2)"
    using settled_queries(2) [OF assms(1) 1(2)] by blast
  show "\<exists>p w'. run_state (MonitorProgress E d node) w = (Inr p, w') \<and> dp_IsComplete p"
    by (simp add: MonitorProgress_def run_io c 1 2 finish_progress_def Let_def)
  show "\<exists>w'. run_state (VerifyComplete E d node) w = (Inr True, w')"
    by (simp add: VerifyComplete_def run_io c 1 2)
qed

definition ready :: "IndexerReconciler \<Rightarrow> bool" where
  "ready r \<longleftrightarrow> (\<exists>d c. ir_drainer r = Some d \<and> idr_client d = Some c)"

lemma settled_monitor:
  assumes "settled E node Q" and "w_env w \<in> Q" and "ready r" and "ds_Phase s = DrainPhaseDraining"
  shows "\<exists>s' p w'. run_state (Indexer_monitorDrainProgress E cluster r node s) w = ((r, s', Inr p), w') \<and>
    ds_Phase s' = DrainPhaseVerifying"
proof -
  obtain d c where d: "ir_drainer r = Some d" "idr_client d = Some c" using assms(3) by (auto simp: ready_def)
  obtain p w1 where p: "run_state (MonitorProgress E d node) w = (Inr p, w1)" "dp_IsComplete p"
    using settled_drainer(1) [OF assms(1, 2) d(2)] by blast
  obtain now w2 where "run_state (time_now E) w1 = (now, w2)" by fastforce
  with assms(4) d p show ?thesis
    by (simp add: Indexer_monitorDrainProgress_def run_bind Let_def keep_on_error_def TransitionTo_Some eff_phase_def)
qed

lemma settled_verify:
  assumes "settled E node Q" and "w_env w \<in> Q" and "ready r" and "ds_Phase s = DrainPhaseVerifying"
  shows "\<exists>s' w'. run_state (Indexer_verifyDrainComplete E cluster r node s) w = ((r, s', Inr True), w') \<and>
    ds_Phase s' = DrainPhaseComplete"
proof -
  obtain d c where d: "ir_drainer r = Some d" "idr_client d = Some c" using assms(3) by (auto simp: ready_def)
  obtain w1 where v: "run_state (VerifyComplete E d node) w = (Inr True, w1)"
    using settled_drainer(2) [OF assms(1, 2) d(2)] by blast
  obtain now w2 where t: "run_state (time_now E) w1 = (now, w2)" by fastforce
  then show ?thesis using assms(4) d v
    by (simp add: Indexer_verifyDrainComplete_def run_bind Let_def keep_on_error_def drain_ops TransitionTo_Some
        split: prod.split)
qed

text \<open>A start without error leaves the reconciler with a drainer that has a client.\<close>

lemma ensure_client:
  assumes "run_state (ensureOpenSearchClient E r cluster) w = ((r', None), w')"
  shows "ir_osClient r' \<noteq> None \<and> ir_drainer r' = ir_drainer r"
  using assms by (auto simp: ensureOpenSearchClient_def run_io split: option.splits sum.splits prod.splits)

lemma begin_drain_ready:
  assumes "run_state (begin_drain E r node s) w = ((r', s', None), w')" and "ir_drainer r = Some d" and "idr_client d = Some c"
  shows "ready r'"
proof -
  obtain u w1 where u: "run_state (indexer_event r False ''DrainStarted''
      (''Starting indexer drain for node '' @ node @ '' before scale-down'')) w = (u, w1)" by (metis surj_pair)
  obtain n w2 where n: "run_state (GetShardCount E c node) w1 = (n, w2)" by fastforce
  show ?thesis
  proof (cases n)
    case (Inl e)
    then show ?thesis using assms u n by (auto simp: begin_drain_def run_bind IndexerDrainer_StartDrain_def with_client_def Let_def split: prod.splits)
  next
    case (Inr m)
    obtain x w3 where "run_state (SetAllocationExclusion E c node) w2 = (x, w3)" by fastforce
    then show ?thesis using assms u n Inr
      by (auto simp: begin_drain_def run_bind IndexerDrainer_StartDrain_def with_client_def Let_def ready_def split: prod.splits sum.splits)
  qed
qed

lemma start_ready:
  assumes "run_state (Indexer_startDrain E cluster r info s) w = ((r', s', None), w')" and "ir_drainer r = None \<or> ready r"
  shows "ready r'"
proof -
  obtain r1 err w1 where c: "run_state (ensureOpenSearchClient E r cluster) w = ((r1, err), w1)" by (metis surj_pair)
  obtain now w2 where t: "run_state (time_now E) w1 = (now, w2)" by fastforce
  have err: "err = None" using assms(1) c by (cases err) (simp_all add: Indexer_startDrain_def run_bind)
  obtain p where p: "StartDrain now s (sd_TargetPodName info) (sd_CurrentReplicas info) (sd_TargetReplicas info) = Inr p"
    using assms(1) c t err by (cases "StartDrain now s (sd_TargetPodName info) (sd_CurrentReplicas info) (sd_TargetReplicas info)")
      (simp_all add: Indexer_startDrain_def run_bind Let_def)
  obtain d c' where d: "ir_drainer (ensure_drainer cluster r1) = Some d" "idr_client d = Some c'"
    using ensure_client [OF c [unfolded err]] assms(2) by (auto simp: ensure_drainer_def ready_def NewIndexerDrainer_def)
  have "run_state (begin_drain E (ensure_drainer cluster r1) (sd_TargetPodName info) p) w2 = ((r', s', None), w')"
    using assms(1) c t err p by (simp add: Indexer_startDrain_def run_bind Let_def)
  then show ?thesis using d by (rule begin_drain_ready)
qed

subsection \<open>Properties\<close>

lemma Indexer_upd: "indexer_drain (set_indexer_drain s c) = Some s"
  by simp

lemmas indexer_check_sound = indexer_component.check_sound [OF _ Indexer_upd Indexer_init]
lemmas indexer_history_sound = indexer_component.history_sound [OF _ Indexer_upd Indexer_init]

lemmas indexer_goes_on = indexer_component.check_goes_on [where stsName = "\<lambda>c. wc_Name c @ ''-indexer''", OF _ _ _ _ _ _ Indexer_upd Indexer_init]

text \<open>A check of a scale-down is the switch on the stored phase.\<close>

lemma indexer_check_switch:
  assumes run: "run_state (Indexer_CheckScaleDownDrain E r cluster n) w = ((r', cluster', res, err), w')"
    and g: "e_get_sts E (wc_Namespace cluster) (wc_Name cluster @ ''-indexer'') (w_env w) = (Inr sts, st)"
    and d: "sd_Detected (DetectStatefulSetScaleDown (Some sts) n)" "indexer_drain_enabled cluster"
  obtains s s' x where "stored_phase (indexer_drain cluster) = ds_Phase s" and "indexer_drain cluster' = Some s'" and "res = Some x"
    and "run_state (drain_switch (Indexer_startDrain E cluster) (Indexer_monitorDrainProgress E cluster)
        (Indexer_verifyDrainComplete E cluster) r (DetectStatefulSetScaleDown (Some sts) n) s) (w\<lparr>w_env := st\<rparr>) = ((r', s', x, err), w')"
proof -
  let ?sw = "drain_switch (Indexer_startDrain E cluster) (Indexer_monitorDrainProgress E cluster)
        (Indexer_verifyDrainComplete E cluster) r (DetectStatefulSetScaleDown (Some sts) n) (Indexer_getOrInitDrainStatus cluster)"
  obtain r1 s1 x e w1 where sw: "run_state ?sw (w\<lparr>w_env := st\<rparr>) = ((r1, s1, x, e), w1)" by (metis surj_pair)
  have "stored_phase (indexer_drain cluster) = ds_Phase (Indexer_getOrInitDrainStatus cluster)"
    by (simp add: stored_phase_def Indexer_init InitializeDrainStatus_def split: option.split)
  moreover have "r' = r1" "indexer_drain cluster' = Some s1" "res = Some x" "err = e" "w' = w1"
    using run sw unfolding Indexer_CheckScaleDownDrain_def drain_check_run [where enabled = indexer_drain_enabled, OF g d] by auto
  ultimately show thesis using sw that by blast
qed

lemma stored_phase_complete: "stored_phase st = DrainPhaseComplete \<longleftrightarrow> IsDrainComplete st"
  by (simp add: stored_phase_def IsDrainComplete_def split: option.split)

lemma verify_same: "run_state (Indexer_verifyDrainComplete E cluster r node s) w = ((r', s', c), w') \<Longrightarrow> r' = r"
  by (auto simp: Indexer_verifyDrainComplete_def run_bind Let_def split: option.splits sum.splits if_splits prod.splits)

subsection \<open>A drain under way\<close>

definition under_way :: "ComponentDrainStatus option \<Rightarrow> bool" where
  "under_way st \<longleftrightarrow> stored_phase st \<in> {DrainPhaseDraining, DrainPhaseVerifying, DrainPhaseComplete}"

definition lets_through :: "'p DrainCheckResult option \<Rightarrow> gerror option \<Rightarrow> bool" where
  "lets_through res err \<longleftrightarrow> err = None \<and> (\<exists>x. res = Some x \<and> dcr_DrainComplete x \<and> \<not> dcr_DrainInProgress x)"

text \<open>Whatever the servers answer, a check of a drain under way never goes back.\<close>

lemma check_keeps_on:
  assumes run: "run_state (Indexer_CheckScaleDownDrain E r cluster n) w = ((r', cluster', res, err), w')"
    and "e_get_sts E (wc_Namespace cluster) (wc_Name cluster @ ''-indexer'') (w_env w) = (Inr sts, st)"
    and "sd_Detected (DetectStatefulSetScaleDown (Some sts) n)" "indexer_drain_enabled cluster" and "under_way (indexer_drain cluster)"
  shows "r' = r \<and> under_way (indexer_drain cluster') \<and>
    (stored_phase (indexer_drain cluster) \<noteq> DrainPhaseDraining \<longrightarrow> stored_phase (indexer_drain cluster') \<noteq> DrainPhaseDraining) \<and>
    (stored_phase (indexer_drain cluster) = DrainPhaseComplete \<longrightarrow>
       stored_phase (indexer_drain cluster') = DrainPhaseComplete \<and> lets_through res err)"
proof -
  let ?info = "DetectStatefulSetScaleDown (Some sts) n"
  obtain s s' x where s: "stored_phase (indexer_drain cluster) = ds_Phase s" "indexer_drain cluster' = Some s'" "res = Some x"
    and sw: "run_state (drain_switch (Indexer_startDrain E cluster) (Indexer_monitorDrainProgress E cluster)
        (Indexer_verifyDrainComplete E cluster) r ?info s) (w\<lparr>w_env := st\<rparr>) = ((r', s', x, err), w')"
    using assms(1-4) by (rule indexer_check_switch)
  consider "ds_Phase s = DrainPhaseDraining" | "ds_Phase s = DrainPhaseVerifying" | "ds_Phase s = DrainPhaseComplete"
    using assms(5) s(1) by (auto simp: under_way_def)
  then show ?thesis
  proof cases
    case 1
    obtain r1 s1 p w1 where m: "run_state (Indexer_monitorDrainProgress E cluster r (sd_TargetPodName ?info) s) (w\<lparr>w_env := st\<rparr>) = ((r1, s1, p), w1)"
      by (metis surj_pair)
    then have "r' = r1 \<and> s' = s1" using sw 1 by (auto simp: drain_switch_def run_bind Let_def split: sum.splits)
    then show ?thesis using monitor_cases [OF m] s 1 by (auto simp: under_way_def stored_phase_def)
  next
    case 2
    obtain r1 s1 p w1 where v: "run_state (Indexer_verifyDrainComplete E cluster r (sd_TargetPodName ?info) s) (w\<lparr>w_env := st\<rparr>) = ((r1, s1, p), w1)"
      by (metis surj_pair)
    then have "r' = r1 \<and> s' = s1" using sw 2 by (auto simp: drain_switch_def run_bind Let_def split: sum.splits)
    moreover have "ds_Phase s1 \<in> {DrainPhaseVerifying, DrainPhaseComplete}" using verify_cases [OF v 2] 2 by (auto split: if_splits)
    ultimately show ?thesis using verify_same [OF v] s 2 by (auto simp: under_way_def stored_phase_def)
  next
    case 3
    then show ?thesis using sw s by (auto simp: drain_switch_def Let_def under_way_def stored_phase_def lets_through_def empty_check_def)
  qed
qed

text \<open>Once the shards have moved away, every check gets on.\<close>

lemma check_gets_on:
  assumes run: "run_state (Indexer_CheckScaleDownDrain E r cluster n) w = ((r', cluster', res, err), w')"
    and g: "e_get_sts E (wc_Namespace cluster) (wc_Name cluster @ ''-indexer'') (w_env w) = (Inr sts, st)"
    and d: "sd_Detected (DetectStatefulSetScaleDown (Some sts) n)" "indexer_drain_enabled cluster"
    and q: "settled E (sd_TargetPodName (DetectStatefulSetScaleDown (Some sts) n)) Q" "w_env w \<in> Q" "ready r"
  shows "(stored_phase (indexer_drain cluster) = DrainPhaseDraining \<longrightarrow> stored_phase (indexer_drain cluster') = DrainPhaseVerifying) \<and>
    (stored_phase (indexer_drain cluster) = DrainPhaseVerifying \<longrightarrow>
       stored_phase (indexer_drain cluster') = DrainPhaseComplete \<and> lets_through res err)"
proof -
  let ?info = "DetectStatefulSetScaleDown (Some sts) n" and ?w = "w\<lparr>w_env := st\<rparr>"
  obtain s s' x where s: "stored_phase (indexer_drain cluster) = ds_Phase s" "indexer_drain cluster' = Some s'" "res = Some x"
    and sw: "run_state (drain_switch (Indexer_startDrain E cluster) (Indexer_monitorDrainProgress E cluster)
        (Indexer_verifyDrainComplete E cluster) r ?info s) ?w = ((r', s', x, err), w')"
    using run g d by (rule indexer_check_switch)
  have "snd (e_get_sts E (wc_Namespace cluster) (wc_Name cluster @ ''-indexer'') (w_env w)) \<in> Q" using q(1, 2) unfolding settled_def by blast
  then have st: "w_env ?w \<in> Q" by (simp add: g)
  have "ds_Phase s' = DrainPhaseVerifying" if p: "ds_Phase s = DrainPhaseDraining"
    using settled_monitor [OF q(1) st q(3) p, of cluster] sw p by (auto simp: drain_switch_def run_bind Let_def)
  moreover have "ds_Phase s' = DrainPhaseComplete \<and> dcr_DrainComplete x \<and> \<not> dcr_DrainInProgress x \<and> err = None" if p: "ds_Phase s = DrainPhaseVerifying"
    using settled_verify [OF q(1) st q(3) p, of cluster] sw p by (auto simp: drain_switch_def run_bind Let_def empty_check_def)
  ultimately show ?thesis using s by (simp add: stored_phase_def lets_through_def)
qed

text \<open>The first check, when it reports no error, has started the drain.\<close>

lemma check_starts:
  assumes run: "run_state (Indexer_CheckScaleDownDrain E r cluster n) w = ((r', cluster', res, None), w')"
    and "e_get_sts E (wc_Namespace cluster) (wc_Name cluster @ ''-indexer'') (w_env w) = (Inr sts, st)"
    and "sd_Detected (DetectStatefulSetScaleDown (Some sts) n)" "indexer_drain_enabled cluster"
    and "stored_phase (indexer_drain cluster) = DrainPhaseIdle" and "ir_drainer r = None \<or> ready r"
  shows "ready r' \<and> stored_phase (indexer_drain cluster') = DrainPhaseDraining"
proof -
  let ?info = "DetectStatefulSetScaleDown (Some sts) n" and ?w = "w\<lparr>w_env := st\<rparr>"
  obtain s s' x where s: "stored_phase (indexer_drain cluster) = ds_Phase s" "indexer_drain cluster' = Some s'"
    and sw: "run_state (drain_switch (Indexer_startDrain E cluster) (Indexer_monitorDrainProgress E cluster)
        (Indexer_verifyDrainComplete E cluster) r ?info s) ?w = ((r', s', x, None), w')"
    using assms(1-4) by (rule indexer_check_switch)
  obtain r1 s1 e w1 where st: "run_state (Indexer_startDrain E cluster r ?info s) ?w = ((r1, s1, e), w1)" by (metis surj_pair)
  have e: "e = None" "r' = r1" "s' = s1" using sw st s(1) assms(5)
    by (auto simp: drain_switch_def run_bind Let_def split: option.splits)
  then show ?thesis using startDrain_phase [OF st] start_ready [OF st [unfolded e(1)] assms(6)] s(2) by (simp add: stored_phase_def)
qed

text \<open>A concrete scale-down from three replicas to two, on a server with no shards.\<close>

definition drain_env :: "int env" where
  "drain_env = sample_env (Inr (example_sts 3)) (Inr green_health) (Inr [])"

definition drain_cluster :: WazuhCluster where
  "drain_cluster = sample_cluster\<lparr>wc_Drain := Some \<lparr>dc_Indexer = Some \<lparr>idc_Enabled = Some True, idc_Timeout = None,
     idc_HealthCheckInterval = None, idc_MinGreenHealthTimeout = None\<rparr>, dc_Manager = None, dc_Retry = None,
     dc_DryRun = False\<rparr>\<rparr>"

definition drain_reconciler :: IndexerReconciler where
  "drain_reconciler = \<lparr>ir_drainer = None, ir_osClient = Some sample_client, ir_Recorder = True, ir_ClientFactory = True\<rparr>"

abbreviation drain_info :: ScaleDownInfo where
  "drain_info \<equiv> DetectStatefulSetScaleDown (Some (example_sts 3)) 2"

text \<open>The same with the shards of the pod given by the time.\<close>

definition shards_env :: "(int \<Rightarrow> ShardInfo list) \<Rightarrow> int env" where
  "shards_env ss = drain_env\<lparr>e_http := (\<lambda>c m p b t. (Inr (sample_resp (Inr green_health) (Inr (ss t))), t))\<rparr>"

lemma drain_env_shards: "drain_env = shards_env (\<lambda>t. [])"
  by (simp add: shards_env_def drain_env_def sample_env_def)

lemma drain_sample:
  "e_get_sts (shards_env ss) ns name st = (Inr (example_sts 3), st)"
  "sd_Detected drain_info" "indexer_drain_enabled drain_cluster"
  "ir_osClient drain_reconciler = Some sample_client" "ir_drainer drain_reconciler = None" "indexer_drain drain_cluster = None"
  by (simp_all add: shards_env_def drain_env_def sample_env_defs drain_cluster_def
      sample_cluster_def empty_cluster_def drain_reconciler_def indexer_drain_enabled_def indexer_drain_config_def indexer_drain_def
      DetectStatefulSetScaleDown_def example_sts_def Let_def)

lemma shards_settled: "(\<And>t. t \<in> Q \<Longrightarrow> no_shards node (ss t)) \<Longrightarrow> settled (shards_env ss) node Q"
  by (simp add: settled_def shards_env_def drain_env_def sample_env_defs sample_resp_def green_health_def)

lemma sample_first_check:
  "\<exists>r1 c1 x1 v1. run_state (Indexer_CheckScaleDownDrain (shards_env ss) drain_reconciler drain_cluster 2) (new_world 0) = ((r1, c1, x1, None), v1)"
proof -
  let ?s = "run_state (Indexer_startDrain (shards_env ss) drain_cluster drain_reconciler drain_info InitializeDrainStatus) (new_world 0)"
  have e: "snd (snd (fst ?s)) = None"
    by (simp add: Indexer_startDrain_def ensureOpenSearchClient_def begin_drain_def ensure_drainer_def drain_reconciler_def
        indexer_event_def prim_defs run_io Let_def StartDrain_def InitializeDrainStatus_def zero_status_def shards_env_def drain_env_def sample_env_defs
        IndexerDrainer_StartDrain_def NewIndexerDrainer_def api_defs SetAllocationExclusion_def put_transient_def sample_resp_def)
  obtain r1 s1 x v1 where "?s = ((r1, s1, x), v1)" by (metis surj_pair)
  with e show ?thesis
    by (simp add: Indexer_CheckScaleDownDrain_def drain_check_run [where enabled = indexer_drain_enabled, OF drain_sample(1-3)] Indexer_init drain_sample(6) drain_switch_def
        InitializeDrainStatus_def run_bind Let_def new_world_def)
qed

lemma indexer_check_same:
  assumes "run_state (Indexer_CheckScaleDownDrain E r cluster n) w = ((r', cluster', res, err), w')"
  shows "wc_Drain cluster' = wc_Drain cluster"
  using drain_check_cluster [OF assms [unfolded Indexer_CheckScaleDownDrain_def]] by auto

lemma indexer_check_log:
  assumes "run_state (Indexer_CheckScaleDownDrain E r cluster n) w = ((r', cluster', res, err), w')"
  obtains fs where "w_log w' = w_log w @ fs"
  using indexer_check_sound [OF assms [unfolded Indexer_CheckScaleDownDrain_def]] by blast

lemma same_drain_enabled: "wc_Drain c = wc_Drain c' \<Longrightarrow> indexer_drain_enabled c = indexer_drain_enabled c'"
  by (simp add: indexer_drain_enabled_def indexer_drain_config_def)

text \<open>
  C1: When an indexer pod may be given up. Take any history of drain checks from a status that
  is not complete, with restarts of the operator and any other activity in between, and a
  check of a detected scale-down with drains enabled that does not hold the scale-down back.
  If it reports the pod drained, OpenSearch has answered in this very check that no shard is on
  the pod, or the stored status was complete and a check of the history had that answer for the
  pod it was to drain then. Otherwise it carries an error - the start of the drain failed, the
  verification could not be made, or the drain had failed - or the stored phase is one for which
  the check has no case. In no other way does the check let the scale-down go on.
\<close>

theorem indexer_scale_down_after_drain:
  assumes "drain_history indexer_drain (Indexer_CheckScaleDownDrain E) (indexer_drain cluster) ps es"
    and "run_state (Indexer_CheckScaleDownDrain E r cluster n) w = ((r', cluster', res, err), w')"
    and "e_get_sts E (wc_Namespace cluster) (wc_Name cluster @ ''-indexer'') (w_env w) = (Inr sts, st)"
    and "sd_Detected (DetectStatefulSetScaleDown (Some sts) n)" and "indexer_drain_enabled cluster"
    and "\<not> held_back res err"
  shows "\<exists>x fs. res = Some x \<and> dcr_TargetPod x = sd_TargetPodName (DetectStatefulSetScaleDown (Some sts) n) \<and>
    w_log w' = w_log w @ fs \<and> goes_on indexer_evidence (stored_phase (indexer_drain cluster)) ps es fs x err"
  using assms unfolding Indexer_CheckScaleDownDrain_def by (rule indexer_goes_on)

theorem indexer_scale_down_after_drain_witness:
  "\<exists>cluster ps es r r' cluster' x w w' fs.
     drain_history indexer_drain (Indexer_CheckScaleDownDrain drain_env) (indexer_drain cluster) ps es \<and>
     run_state (Indexer_CheckScaleDownDrain drain_env r cluster 2) w = ((r', cluster', Some x, None), w') \<and>
     dcr_DrainComplete x \<and> dcr_TargetPod x = sd_TargetPodName drain_info \<and> stored_phase (indexer_drain cluster) = DrainPhaseVerifying \<and>
     w_log w' = w_log w @ fs \<and> list_ex (indexer_evidence (sd_TargetPodName drain_info)) fs"
proof -
  let ?check = "Indexer_CheckScaleDownDrain drain_env"
  obtain r1 c1 x1 v1 where 1: "run_state (?check drain_reconciler drain_cluster 2) (new_world 0) = ((r1, c1, x1, None), v1)"
    using sample_first_check unfolding drain_env_shards by blast
  obtain r2 c2 x2 e2 v2 where 2: "run_state (?check r1 c1 2) v1 = ((r2, c2, x2, e2), v2)" by (metis surj_pair)
  obtain r3 c3 x3 e3 v3 where 3: "run_state (?check r2 c2 2) v2 = ((r3, c3, x3, e3), v3)" by (metis surj_pair)
  have en: "indexer_drain_enabled c1" "indexer_drain_enabled c2"
    using indexer_check_same [OF 1] indexer_check_same [OF 2] same_drain_enabled drain_sample(3) by metis+
  note sts = drain_sample(1) [where ss = "\<lambda>t. []", folded drain_env_shards]
  have q: "settled drain_env (sd_TargetPodName drain_info) UNIV" unfolding drain_env_shards by (rule shards_settled) simp
  have s1: "ready r1" "stored_phase (indexer_drain c1) = DrainPhaseDraining"
    using check_starts [OF 1 sts drain_sample(2, 3)] drain_sample(5, 6) by (simp_all add: stored_phase_def)
  have "r2 = r1" using check_keeps_on [OF 2 sts drain_sample(2) en(1)] s1(2) by (simp add: under_way_def)
  moreover have s2: "stored_phase (indexer_drain c2) = DrainPhaseVerifying"
    using check_gets_on [OF 2 sts drain_sample(2) en(1) q UNIV_I s1(1)] s1(2) by simp
  ultimately obtain x where x: "x3 = Some x" "e3 = None" "dcr_DrainComplete x" "\<not> dcr_DrainInProgress x"
    using check_gets_on [OF 3 sts drain_sample(2) en(2) q UNIV_I] s1(1) by (auto simp: lets_through_def)
  obtain f1 f2 where f: "w_log v1 = w_log (new_world (0 :: int)) @ f1" "w_log v2 = w_log v1 @ f2" by (metis indexer_check_log 1 2)
  have "drain_history indexer_drain ?check (indexer_drain drain_cluster) [] []"
    by (rule drain_history.not_complete) (simp add: drain_sample(6) IsDrainComplete_def)
  note h = drain_history.check [OF drain_history.check [OF this refl 1 f(1), of "[]"] refl 2 f(2), of "[]"]
  have "\<not> held_back (Some x) None" using x(4) by (simp add: held_back_def)
  then show ?thesis
    using indexer_scale_down_after_drain [OF h 3 [unfolded x(1, 2)] sts drain_sample(2) en(2)] x 3 h s2
    by (fastforce simp: goes_on_def)
qed

text \<open>
  C6: A drain comes to its end. Take a sequence of drain checks of one scale-down by one running
  operator, each in a world of its own, so with any delay and other activity in between, the first
  of which starts the drain without an error. Whatever the servers answered or failed to answer
  in the meantime: when at two successive later checks OpenSearch answers, has no shard on the
  pod and none that is moving, the second of the two lets the scale-down proceed as drained and
  leaves the status complete.
\<close>

theorem indexer_drain_completes:
  assumes checks: "\<forall>i \<le> Suc k. run_state (Indexer_CheckScaleDownDrain E (r i) (cl i) n) (w i) = ((r (Suc i), cl' i, x i, err i), v i)"
    and carried: "\<forall>i \<le> k. indexer_drain (cl (Suc i)) = indexer_drain (cl' i)"
    and sts: "\<forall>i \<le> Suc k. \<exists>st. e_get_sts E (wc_Namespace (cl i)) (wc_Name (cl i) @ ''-indexer'') (w_env (w i)) = (Inr sts, st)"
    and d: "sd_Detected (DetectStatefulSetScaleDown (Some sts) n)" and en: "\<forall>i \<le> Suc k. indexer_drain_enabled (cl i)"
    and start: "stored_phase (indexer_drain (cl 0)) = DrainPhaseIdle" "ir_drainer (r 0) = None \<or> ready (r 0)" "err 0 = None"
    and q: "settled E (sd_TargetPodName (DetectStatefulSetScaleDown (Some sts) n)) Q" "w_env (w k) \<in> Q" "w_env (w (Suc k)) \<in> Q"
    and "0 < k"
  shows "lets_through (x (Suc k)) (err (Suc k)) \<and> IsDrainComplete (indexer_drain (cl' (Suc k)))"
proof -
  note run = checks [rule_format] and g = sts [rule_format] and e = en [rule_format]
  have "ready (r (Suc 0))" "stored_phase (indexer_drain (cl (Suc 0))) = DrainPhaseDraining"
    using check_starts [OF run [of 0, unfolded start(3)] _ d e start(1, 2)] g [of 0] carried by auto
  moreover have "ready (r i) \<and> under_way (indexer_drain (cl i)) \<Longrightarrow> i \<le> k \<Longrightarrow>
      ready (r (Suc i)) \<and> under_way (indexer_drain (cl (Suc i)))" for i
    using check_keeps_on [OF run [of i] _ d e [of i]] g [of i] carried by (metis le_SucI)
  ultimately have on: "ready (r (Suc i)) \<and> under_way (indexer_drain (cl (Suc i)))" if "i \<le> k" for i
    using that by (induction i) (simp_all add: under_way_def)
  obtain j where k: "k = Suc j" using assms(12) gr0_implies_Suc by blast
  have now: "ready (r k)" "under_way (indexer_drain (cl k))" using on [of j] by (simp_all add: k)
  have "stored_phase (indexer_drain (cl (Suc k))) \<noteq> DrainPhaseDraining"
    using check_keeps_on [OF run [of k] _ d e [of k]] check_gets_on [OF run [of k] _ d e [of k] q(1, 2)] g [of k] now carried
    by (auto simp: under_way_def)
  then have "stored_phase (indexer_drain (cl (Suc k))) \<in> {DrainPhaseVerifying, DrainPhaseComplete}"
    using on [of k] by (auto simp: under_way_def)
  then have "stored_phase (indexer_drain (cl' (Suc k))) = DrainPhaseComplete \<and> lets_through (x (Suc k)) (err (Suc k))"
    using check_keeps_on [OF run [of "Suc k"] _ d e [of "Suc k"]] check_gets_on [OF run [of "Suc k"] _ d e [of "Suc k"] q(1, 3)]
      g [of "Suc k"] on [of k] by auto
  then show ?thesis by (simp add: stored_phase_complete)
qed

text \<open>
  A pod that holds a shard for five seconds after the drain was started, with a check every
  second: the sixth and the seventh check find it empty.
\<close>

definition slow_env :: "int env" where
  "slow_env = shards_env (\<lambda>t. if t < 5000000000 then [shard_on (sd_TargetPodName drain_info)] else [])"

primrec slow_run :: "nat \<Rightarrow> IndexerReconciler \<times> WazuhCluster" where
  "slow_run 0 = (drain_reconciler, drain_cluster)"
| "slow_run (Suc i) = (case run_state (Indexer_CheckScaleDownDrain slow_env (fst (slow_run i)) (snd (slow_run i)) 2)
     (new_world (int i * 1000000000)) of ((r, c, x, e), v) \<Rightarrow> (r, c))"

lemma slow_run_enabled: "indexer_drain_enabled (snd (slow_run i))"
proof (induction i)
  case (Suc i)
  obtain r c x e v where "run_state (Indexer_CheckScaleDownDrain slow_env (fst (slow_run i)) (snd (slow_run i)) 2)
     (new_world (int i * 1000000000)) = ((r, c, x, e), v)" by (metis surj_pair)
  note run = this
  have "snd (slow_run (Suc i)) = c" unfolding slow_run.simps run by simp
  then show ?case using Suc same_drain_enabled [OF indexer_check_same [OF run]] by simp
qed (simp add: drain_sample)

theorem indexer_drain_completes_witness:
  "\<exists>r c x v. run_state (Indexer_CheckScaleDownDrain slow_env (fst (slow_run 6)) (snd (slow_run 6)) 2) (new_world 6000000000) =
     ((r, c, x, None), v) \<and> lets_through x None \<and> IsDrainComplete (indexer_drain c)"
proof -
  define out where "out i = run_state (Indexer_CheckScaleDownDrain slow_env (fst (slow_run i)) (snd (slow_run i)) 2) (new_world (int i * 1000000000))" for i
  let ?r = "\<lambda>i. fst (slow_run i)" and ?c = "\<lambda>i. snd (slow_run i)" and ?w = "\<lambda>i. new_world (int i * 1000000000)"
  let ?cl' = "\<lambda>i. fst (snd (fst (out i)))" and ?x = "\<lambda>i. fst (snd (snd (fst (out i))))" and ?err = "\<lambda>i. snd (snd (snd (fst (out i))))"
  have next_run: "slow_run (Suc i) = (fst (fst (out i)), ?cl' i)" for i
    by (simp add: out_def split: prod.split)
  have run: "run_state (Indexer_CheckScaleDownDrain slow_env (?r i) (?c i) 2) (?w i) = ((?r (Suc i), ?cl' i, ?x i, ?err i), snd (out i))" for i
    unfolding next_run by (simp add: out_def)
  have first: "?err 0 = None" using sample_first_check [of "\<lambda>t. if t < 5000000000 then [shard_on (sd_TargetPodName drain_info)] else []"]
    unfolding out_def slow_env_def by auto
  have q: "settled slow_env (sd_TargetPodName drain_info) {5000000000..}" unfolding slow_env_def by (rule shards_settled) simp
  have sts: "\<exists>st. e_get_sts slow_env (wc_Namespace (?c i)) (wc_Name (?c i) @ ''-indexer'') (w_env (?w i)) = (Inr (example_sts 3), st)" for i
    unfolding slow_env_def drain_sample(1) by blast
  have carried: "indexer_drain (?c (Suc i)) = indexer_drain (?cl' i)" for i unfolding next_run by simp
  have start: "stored_phase (indexer_drain (?c 0)) = DrainPhaseIdle" "ir_drainer (?r 0) = None \<or> ready (?r 0)"
    by (simp_all add: drain_sample stored_phase_def)
  have times: "w_env (?w 5) \<in> {5000000000..}" "w_env (?w (Suc 5)) \<in> {5000000000..}" by (simp_all add: new_world_def)
  have "lets_through (?x (Suc 5)) (?err (Suc 5)) \<and> IsDrainComplete (indexer_drain (?cl' (Suc 5)))"
    by (rule indexer_drain_completes [of 5 slow_env ?r ?c 2 ?w ?cl' ?x ?err "\<lambda>i. snd (out i)" "example_sts 3",
        OF _ _ _ drain_sample(2) _ start first q times]) (intro allI impI run carried sts slow_run_enabled zero_less_numeral)+
  then have "lets_through (?x 6) (?err 6) \<and> IsDrainComplete (indexer_drain (?cl' 6))" by simp
  then show ?thesis using run [of 6] by (auto simp: lets_through_def)
qed

text \<open>
  C31: A drain that could not be started is never resumed. When the start fails after the
  status was made pending, the failure is not recorded - pending cannot become failed - and
  from then on every check finds the status pending and leaves it pending, whatever the
  servers answer: the scale-down is never reported as drained.
\<close>

theorem indexer_failed_start_stuck:
  "(run_state (Indexer_startDrain E cluster r info s) w = ((r1, s1, Some e), w1) \<and> s1 \<noteq> s \<longrightarrow> ds_Phase s1 = DrainPhasePending) \<and>
   (indexer_drain cluster = Some s \<and> ds_Phase s = DrainPhasePending \<and>
    run_state (Indexer_CheckScaleDownDrain E r cluster n) w = ((r', cluster', res, err), w') \<longrightarrow>
      (\<exists>s'. indexer_drain cluster' = Some s' \<and> ds_Phase s' = DrainPhasePending) \<and>
      (\<forall>x. res = Some x \<longrightarrow> \<not> dcr_DrainComplete x))"
proof (intro conjI impI; elim conjE)
  assume "run_state (Indexer_startDrain E cluster r info s) w = ((r1, s1, Some e), w1)" "s1 \<noteq> s"
  then show "ds_Phase s1 = DrainPhasePending" by (auto dest: startDrain_phase)
next
  assume s: "indexer_drain cluster = Some s" "ds_Phase s = DrainPhasePending"
    and run: "run_state (Indexer_CheckScaleDownDrain E r cluster n) w = ((r', cluster', res, err), w')"
  have "Indexer_getOrInitDrainStatus cluster = s" using s by (simp add: Indexer_init)
  note pending = indexer_component.check_pending [OF run [unfolded Indexer_CheckScaleDownDrain_def] Indexer_upd s(1) this s(2)]
  show "\<exists>s'. indexer_drain cluster' = Some s' \<and> ds_Phase s' = DrainPhasePending" by (rule pending [THEN conjunct1])
  show "\<forall>x. res = Some x \<longrightarrow> \<not> dcr_DrainComplete x" by (rule pending [THEN conjunct2])
qed

text \<open>Without a server, the sample drain ends up pending.\<close>

definition down_env :: "int env" where
  "down_env = drain_env\<lparr>e_http := (\<lambda>c m p b t. (Inl (errorf ''connection refused''), t))\<rparr>"

theorem indexer_failed_start_stuck_witness:
  "\<exists>r1 s1 e w1. run_state (Indexer_startDrain down_env drain_cluster drain_reconciler drain_info InitializeDrainStatus)
      sample_world = ((r1, s1, Some e), w1) \<and> s1 \<noteq> InitializeDrainStatus \<and> ds_Phase s1 = DrainPhasePending"
proof -
  let ?run = "run_state (Indexer_startDrain down_env drain_cluster drain_reconciler drain_info InitializeDrainStatus) sample_world"
  have e: "\<exists>e. snd (snd (fst ?run)) = Some e" "fst (snd (fst ?run)) \<noteq> InitializeDrainStatus"
    by (simp_all add: Indexer_startDrain_def ensureOpenSearchClient_def begin_drain_def ensure_drainer_def drain_reconciler_def
        indexer_event_def prim_defs run_io Let_def StartDrain_def InitializeDrainStatus_def zero_status_def down_env_def drain_env_def sample_env_defs
        IndexerDrainer_StartDrain_def NewIndexerDrainer_def api_defs keep_on_error_def drain_ops TransitionTo_Some)
  obtain r1 s1 x w1 where run: "?run = ((r1, s1, x), w1)" by (metis surj_pair)
  with e obtain e where x: "x = Some e" "s1 \<noteq> InitializeDrainStatus" by auto
  then show ?thesis
    using indexer_failed_start_stuck [of down_env drain_cluster drain_reconciler drain_info InitializeDrainStatus sample_world r1 s1 e w1] run
    by blast
qed

end
