(* ===== verification/WorkerReconcile.thy ===== *)
theory WorkerReconcile
  imports IndexerReconcile ManagerDrain
begin

section \<open>Draining a manager worker before a scale-down (internal/wazuh/reconciler/worker_reconciler.go)\<close>

text \<open>
  The worker's side of \<open>DrainCheck\<close>. The reconciler keeps a pointer to a Wazuh API adapter,
  with the hash of the credentials it was made from, and a drainer that holds such a pointer
  too. The property: a worker is given up as drained only after its event queue was seen
  empty; the drainer keeps its adapter when the credentials are rotated.
\<close>

record WorkerReconciler =
  wr_drainer :: "ManagerDrainer option"
  wr_wazuhClient :: "adapter_ptr option"
  wr_credentialsHash :: string
  wr_Recorder :: bool

definition worker_event :: "WorkerReconciler \<Rightarrow> bool \<Rightarrow> string \<Rightarrow> string \<Rightarrow> ('s, unit) io" where
  "worker_event r warning reason message =
     (if wr_Recorder r then record_event warning reason message else ret ())"

definition key_or :: "string \<Rightarrow> string \<Rightarrow> string" where
  "key_or k d = (if k = [] then d else k)"

text \<open>The end of \<open>getWazuhAPICredentials\<close>: the default secret, or the built-in credentials.\<close>

definition default_credentials :: "'s env \<Rightarrow> WazuhCluster \<Rightarrow> ('s, (string \<times> string) result) io" where
  "default_credentials E cluster = do {
     s \<leftarrow> get_secret E (wc_Namespace cluster) (APICredentialsName (wc_Name cluster));
     ret (case s of
         Inl err \<Rightarrow> if IsNotFound err then Inr (''wazuh'', ''wazuh'')
           else Inl (wrapf ''failed to get default API credentials secret: '' err)
       | Inr secret \<Rightarrow> Inr (label_get secret ''api-username'', label_get secret ''api-password'')) }"

definition getWazuhAPICredentials :: "'s env \<Rightarrow> WazuhCluster \<Rightarrow> ('s, (string \<times> string) result) io" where
  "getWazuhAPICredentials E cluster =
     (let creds = (case wc_Manager cluster of None \<Rightarrow> None | Some m \<Rightarrow> mcs_APICredentials m) in
      case creds of
        Some c \<Rightarrow> if GetSecretName creds \<noteq> [] then
            try_io (get_secret E (wc_Namespace cluster) (GetSecretName creds))
              (wrapf ''failed to get API credentials secret: '') (\<lambda>secret.
              ret (Inr (label_get secret (key_or (csr_UsernameKey c) ''username''),
                label_get secret (key_or (csr_PasswordKey c) ''password''))))
          else default_credentials E cluster
      | None \<Rightarrow> default_credentials E cluster)"

definition ensureWazuhClient ::
    "'s env \<Rightarrow> WorkerReconciler \<Rightarrow> WazuhCluster \<Rightarrow> ('s, WorkerReconciler \<times> gerror option) io" where
  "ensureWazuhClient E r cluster = do {
     let baseURL = ''https://'' @ ServiceFQDN (e_domain E) (wc_Name cluster @ ''-manager-master'') (wc_Namespace cluster) @ '':55000'';
     c \<leftarrow> getWazuhAPICredentials E cluster;
     case c of
       Inl err \<Rightarrow> ret (r, Some (wrapf ''failed to get Wazuh API credentials: '' err))
     | Inr (username, password) \<Rightarrow>
        (let hash = HashStrings [username, password] in
         if wr_wazuhClient r \<noteq> None \<and> wr_credentialsHash r = hash then ret (r, None)
         else do {
           p \<leftarrow> NewWazuhAPIAdapter baseURL username password;
           ret (r\<lparr>wr_wazuhClient := Some p, wr_credentialsHash := hash\<rparr>, None) }) }"

definition Worker_getOrInitDrainStatus :: "WazuhCluster \<Rightarrow> ComponentDrainStatus" where
  "Worker_getOrInitDrainStatus cluster = (case manager_drain cluster of
     None \<Rightarrow> zero_status\<lparr>ds_Phase := DrainPhaseIdle\<rparr> | Some s \<Rightarrow> s)"

definition ensure_worker_drainer :: "WazuhCluster \<Rightarrow> WorkerReconciler \<Rightarrow> WorkerReconciler" where
  "ensure_worker_drainer cluster r = (case wr_drainer r of Some d \<Rightarrow> r
     | None \<Rightarrow> r\<lparr>wr_drainer := Some (NewManagerDrainer (the (wr_wazuhClient r)) (manager_drain_config cluster))\<rparr>)"

definition begin_worker_drain :: "'s env \<Rightarrow> WorkerReconciler \<Rightarrow> string \<Rightarrow> ComponentDrainStatus \<Rightarrow>
    ('s, WorkerReconciler \<times> ComponentDrainStatus \<times> gerror option) io" where
  "begin_worker_drain E r nodeName status = do {
     _ \<leftarrow> worker_event r False ''DrainStarted''
       (''Starting manager queue drain for worker '' @ nodeName @ '' before scale-down'');
     (d, started) \<leftarrow> ManagerDrainer_StartDrain E (the (wr_drainer r)) nodeName;
     let r' = r\<lparr>wr_drainer := Some d\<rparr>;
     now \<leftarrow> time_now E;
     case started of
       Inl err \<Rightarrow> do {
         _ \<leftarrow> worker_event r' True ''DrainFailed'' (''Failed to start manager drain: '' @ text_of err);
         ret (r', keep_on_error status (MarkFailed now status (''Failed to start drain: '' @ text_of err)), Some err) }
     | Inr u \<Rightarrow> ret (r', keep_on_error status
         (TransitionTo now (Some status) DrainPhaseDraining ''Draining event queue on worker''), None) }"

definition Worker_startDrain :: "'s env \<Rightarrow> WazuhCluster \<Rightarrow> ('s, WorkerReconciler) start_op" where
  "Worker_startDrain E cluster r scaleInfo status = do {
     (r1, err) \<leftarrow> ensureWazuhClient E r cluster;
     case err of
       Some e \<Rightarrow> ret (r1, status, Some (wrapf ''failed to create Wazuh client: '' e))
     | None \<Rightarrow> do {
         let r2 = ensure_worker_drainer cluster r1;
         let nodeName = sd_TargetPodName scaleInfo;
         now \<leftarrow> time_now E;
         case StartDrain now status nodeName (sd_CurrentReplicas scaleInfo) (sd_TargetReplicas scaleInfo) of
           Inl e \<Rightarrow> ret (r2, status, Some (wrapf ''failed to transition drain state: '' e))
         | Inr pending \<Rightarrow> begin_worker_drain E r2 nodeName pending } }"

definition Worker_monitorDrainProgress ::
    "'s env \<Rightarrow> WazuhCluster \<Rightarrow> ('s, WorkerReconciler, ManagerDrainProgress) watch_op" where
  "Worker_monitorDrainProgress E cluster r nodeName status = (case wr_drainer r of
     None \<Rightarrow> ret (r, status, Inl (errorf ''drainer not initialized''))
   | Some d \<Rightarrow> do {
       (d', p) \<leftarrow> MonitorQueueDepth E d nodeName;
       let r' = r\<lparr>wr_drainer := Some d'\<rparr>;
       case p of
         Inl err \<Rightarrow> ret (r', status, Inl err)
       | Inr progress \<Rightarrow>
          (let status1 = UpdateQueueDepth (UpdateProgress status (mp_Percent progress) (mp_Message progress))
                 (mp_QueueDepth progress) in
           if mp_IsComplete progress then do {
             now \<leftarrow> time_now E;
             ret (r', keep_on_error status1
               (TransitionTo now (Some status1) DrainPhaseVerifying ''Verifying queue drain completion''), Inr progress) }
           else ret (r', status1, Inr progress)) })"

definition Worker_verifyDrainComplete :: "'s env \<Rightarrow> WazuhCluster \<Rightarrow> ('s, WorkerReconciler, bool) watch_op" where
  "Worker_verifyDrainComplete E cluster r nodeName status = (case wr_drainer r of
     None \<Rightarrow> ret (r, status, Inl (errorf ''drainer not initialized''))
   | Some d \<Rightarrow> do {
       (d', v) \<leftarrow> VerifyQueueEmpty E d nodeName;
       case v of
         Inl err \<Rightarrow> ret (r\<lparr>wr_drainer := Some d'\<rparr>, status, Inl err)
       | Inr complete \<Rightarrow>
          if complete then do {
            now \<leftarrow> time_now E;
            let status' = keep_on_error status (MarkComplete now status);
            let r' = r\<lparr>wr_drainer := Some (ManagerDrainer_CancelDrain d')\<rparr>;
            _ \<leftarrow> worker_event r' False ''DrainCompleted'' (''Manager drain completed for worker '' @ nodeName);
            ret (r', status', Inr True) }
          else ret (r\<lparr>wr_drainer := Some d'\<rparr>, status, Inr False) })"

definition Worker_CheckScaleDownDrain :: "'s env \<Rightarrow> WorkerReconciler \<Rightarrow> WazuhCluster \<Rightarrow> i32 \<Rightarrow>
    ('s, WorkerReconciler \<times> WazuhCluster \<times> ManagerDrainProgress DrainCheckResult option \<times> gerror option) io" where
  "Worker_CheckScaleDownDrain E r cluster =
     drain_check E (wc_Name cluster @ ''-manager-worker'') ''failed to get worker StatefulSet: ''
       manager_drain_enabled Worker_getOrInitDrainStatus set_manager_drain
       (drain_switch (Worker_startDrain E cluster) (Worker_monitorDrainProgress E cluster)
         (Worker_verifyDrainComplete E cluster)) r cluster"

definition Worker_ResetDrainState ::
    "'s env \<Rightarrow> WorkerReconciler \<Rightarrow> WazuhCluster \<Rightarrow> ('s, WorkerReconciler \<times> WazuhCluster) io" where
  "Worker_ResetDrainState E r cluster = do {
     now \<leftarrow> time_now E;
     ret (r\<lparr>wr_drainer := None, wr_wazuhClient := None, wr_credentialsHash := []\<rparr>, (case manager_drain cluster of
         None \<Rightarrow> cluster
       | Some s \<Rightarrow> set_manager_drain (the (ResetStatus now (Some s))) cluster)) }"

definition Worker_EvaluateDrainFeasibility ::
    "'s env \<Rightarrow> WorkerReconciler \<Rightarrow> WazuhCluster \<Rightarrow> string \<Rightarrow> ('s, WorkerReconciler \<times> DryRunResult result) io" where
  "Worker_EvaluateDrainFeasibility E r cluster nodeName = do {
     (r1, err) \<leftarrow> ensureWazuhClient E r cluster;
     case err of
       Some e \<Rightarrow> do {
         now \<leftarrow> time_now E;
         ret (r1, Inr (add_blocker (''Cannot connect to Wazuh API: '' @ text_of e)
           (fresh_result now DrainComponentManager))) }
     | None \<Rightarrow> do {
         res \<leftarrow> ManagerDrainer_EvaluateFeasibility E
           (NewManagerDrainer (the (wr_wazuhClient r1)) (manager_drain_config cluster)) nodeName;
         ret (r1, res) } }"

subsection \<open>The contract\<close>

definition worker_evidence :: "string \<Rightarrow> effect \<Rightarrow> bool" where
  "worker_evidence pod e \<longleftrightarrow> saw_queue pod (\<lambda>n. sint n \<le> 0) e"

lemma logs_worker_prims [logs]:
  "logs_more (worker_event r b x y)" "logs_more (GetQueueStatus E p node)" "logs_more (empty_since E d)"
  "logs_more (NewWazuhAPIAdapter url user pw)"
  unfolding worker_event_def empty_since_def NewWazuhAPIAdapter_def
  by (intro logs logs_more_weaken [OF logs_wz_queries(4)])+

lemma logs_worker [logs]:
  "logs_more (getWazuhAPICredentials E cluster)" "logs_more (ensureWazuhClient E wr cluster)"
  "logs_more (ManagerDrainer_StartDrain E d node)" "logs_more (MonitorQueueDepth E d node)"
  "logs_more (VerifyQueueEmpty E d node)"
  unfolding ensureWazuhClient_def getWazuhAPICredentials_def default_credentials_def ManagerDrainer_StartDrain_def
    MonitorQueueDepth_def VerifyQueueEmpty_def Let_def
  by (intro logs)+

lemma logs_worker_ops [logs]:
  "logs_more (Worker_startDrain E cluster wr info s)" "logs_more (Worker_monitorDrainProgress E cluster wr node s)"
  "logs_more (Worker_verifyDrainComplete E cluster wr node s)"
  unfolding Worker_startDrain_def begin_worker_drain_def Worker_monitorDrainProgress_def Worker_verifyDrainComplete_def Let_def
  by (intro logs)+

lemma Worker_init: "Worker_getOrInitDrainStatus c = (case manager_drain c of None \<Rightarrow> InitializeDrainStatus | Some s \<Rightarrow> s)"
  by (simp add: Worker_getOrInitDrainStatus_def InitializeDrainStatus_def split: option.split)

lemma Worker_upd: "manager_drain (set_manager_drain s c) = Some s"
  by simp

lemma worker_start_phase:
  assumes "run_state (Worker_startDrain E cluster r info s) w = ((r', s', e), w')"
  shows "s' = s \<and> e \<noteq> None \<or> ds_Phase s' = (if e = None then DrainPhaseDraining else DrainPhasePending)"
proof -
  obtain r1 err w1 where c: "run_state (ensureWazuhClient E r cluster) w = ((r1, err), w1)" by (metis surj_pair)
  obtain now w2 where t: "run_state (time_now E) w1 = (now, w2)" by fastforce
  have begins: "ds_Phase s' = (if e = None then DrainPhaseDraining else DrainPhasePending)"
    if "run_state (begin_worker_drain E q node p) w2 = ((r', s', e), w')" "ds_Phase p = DrainPhasePending" for q node p
    using that by (auto simp: begin_worker_drain_def worker_event_def prim_defs run_io Let_def pending_kept
        split: prod.splits sum.splits if_splits)
  show ?thesis
  proof (cases "\<exists>e. err = Some e \<or> StartDrain now s (sd_TargetPodName info) (sd_CurrentReplicas info) (sd_TargetReplicas info) = Inl e")
    case True
    with assms c t show ?thesis by (auto simp: Worker_startDrain_def run_io Let_def split: option.splits)
  next
    case False
    then obtain p where p: "StartDrain now s (sd_TargetPodName info) (sd_CurrentReplicas info) (sd_TargetReplicas info) = Inr p"
      and "err = None" by (metis not_None_eq sum.exhaust)
    with assms c t have "run_state (begin_worker_drain E (ensure_worker_drainer cluster r1) (sd_TargetPodName info) p) w2 = ((r', s', e), w')"
      by (simp add: Worker_startDrain_def run_io Let_def)
    then show ?thesis using begins StartDrain_pending [OF p] by blast
  qed
qed

lemma worker_monitor_phase:
  assumes "run_state (Worker_monitorDrainProgress E cluster r node s) w = ((r', s', p), w')"
  shows "ds_Phase s' = ds_Phase s \<or> (ds_Phase s = DrainPhaseDraining \<and> ds_Phase s' = DrainPhaseVerifying)"
proof (cases "wr_drainer r")
  case None
  with assms show ?thesis by (simp add: Worker_monitorDrainProgress_def)
next
  case (Some d)
  obtain d' q w1 where "run_state (MonitorQueueDepth E d node) w = ((d', q), w1)" by (metis surj_pair)
  then show ?thesis
    using assms Some
    by (auto simp: Worker_monitorDrainProgress_def run_io Let_def keep_on_error_def TransitionTo_Some eff_phase_def
        split: sum.splits if_splits prod.splits)
qed

lemma VerifyQueueEmpty_evidence:
  assumes "run_state (VerifyQueueEmpty E d node) w = ((d', Inr True), w')"
  shows "\<exists>es. w_log w' = w_log w @ es \<and> list_ex (worker_evidence node) es"
proof -
  obtain q w1 where q: "run_state (GetQueueStatus E (md_client d) node) w = (q, w1)" by fastforce
  with assms obtain n where n: "q = Inr n" by (cases q) (simp_all add: VerifyQueueEmpty_def run_io)
  obtain es e where log: "w_log w1 = w_log w @ es @ [e]" "saw_queue node (\<lambda>t. t = n) e"
    using q unfolding n by (rule GetQueueStatus_saw)
  from assms VerifyQueueEmpty_run [OF q [unfolded n]] have "sint n \<le> 0" "w_log w' = w_log w1"
    by (auto split: if_splits option.splits prod.splits)
  with log have "worker_evidence node e" "w_log w' = w_log w @ es @ [e]"
    by (auto simp: worker_evidence_def elim!: saw_queue.elims split: sum.splits)
  then show ?thesis by (intro exI [of _ "es @ [e]"]) (simp add: list_ex_append)
qed

lemma worker_verify_cases:
  assumes "run_state (Worker_verifyDrainComplete E cluster r node s) w = ((r', s', c), w')"
    and "ds_Phase s = DrainPhaseVerifying"
  shows "\<exists>es. w_log w' = w_log w @ es \<and>
    (if c = Inr True then ds_Phase s' = DrainPhaseComplete \<and> list_ex (worker_evidence node) es else s' = s)"
proof -
  obtain es where es: "w_log w' = w_log w @ es" using logs_moreD [OF logs_worker_ops(3) assms(1)] by blast
  show ?thesis
  proof (cases "\<exists>d d' w1. wr_drainer r = Some d \<and> run_state (VerifyQueueEmpty E d node) w = ((d', Inr True), w1)")
    case False
    have "s' = s \<and> c \<noteq> Inr True"
    proof (cases "wr_drainer r")
      case None
      with assms(1) show ?thesis by (auto simp: Worker_verifyDrainComplete_def)
    next
      case (Some d)
      obtain d' v w1 where "run_state (VerifyQueueEmpty E d node) w = ((d', v), w1)" by (metis surj_pair)
      with False Some assms(1) show ?thesis
        by (cases v) (auto simp: Worker_verifyDrainComplete_def run_io)
    qed
    with es show ?thesis by auto
  next
    case True
    then obtain d d' w1 where d: "wr_drainer r = Some d" and v: "run_state (VerifyQueueEmpty E d node) w = ((d', Inr True), w1)"
      by blast
    obtain gs where gs: "w_log w1 = w_log w @ gs" "list_ex (worker_evidence node) gs"
      using VerifyQueueEmpty_evidence [OF v] by blast
    obtain now w2 where t: "run_state (time_now E) w1 = (now, w2)" by fastforce
    have "w_log w2 = w_log w1" using t by (auto simp: time_now_def run_ask split: prod.splits)
    moreover have "s' = keep_on_error s (MarkComplete now s) \<and> c = Inr True \<and> (\<exists>fs. w_log w' = w_log w2 @ fs)"
      using assms(1) by (auto simp: Worker_verifyDrainComplete_def worker_event_def record_event_def d v t run_io Let_def
          split: if_splits)
    ultimately obtain fs where "w_log w' = w_log w @ gs @ fs" "s' = keep_on_error s (MarkComplete now s)" "c = Inr True"
      using gs(1) by auto
    then show ?thesis using gs(2) assms(2)
      by (intro exI [of _ "gs @ fs"]) (simp add: list_ex_append keep_on_error_def drain_ops TransitionTo_Some Let_def)
  qed
qed

interpretation worker_component: drain_component "Worker_startDrain E" "Worker_monitorDrainProgress E"
  "Worker_verifyDrainComplete E" worker_evidence for E :: "'s env"
proof unfold_locales
  show "ds_Phase s' \<noteq> DrainPhaseComplete"
    if "run_state (Worker_startDrain E cl r info s) w = ((r', s', e), w')" "ds_Phase s \<in> {DrainPhaseIdle, DrainPhaseText []}"
    for cl r info s w r' s' e w' using worker_start_phase [OF that(1)] that(2) by (auto split: if_splits)
qed (erule logs_moreD [OF logs_worker_ops(1)], erule worker_monitor_phase,
    erule logs_moreD [OF logs_worker_ops(2)], erule (1) worker_verify_cases)

subsection \<open>Properties\<close>

lemmas worker_check_sound = worker_component.check_sound [OF _ Worker_upd Worker_init]
lemmas worker_goes_on = worker_component.check_goes_on [where stsName = "\<lambda>c. wc_Name c @ ''-manager-worker''", OF _ _ _ _ _ _ Worker_upd Worker_init]

text \<open>A concrete drain of a worker: a queue seen empty 100 seconds ago that is still empty.\<close>

definition worker_env :: "(int \<times> i64 list) env" where
  "worker_env = queue_env\<lparr>e_get_sts := (\<lambda>ns n t. (Inr (example_sts 3), t))\<rparr>"

definition worker_cluster :: WazuhCluster where
  "worker_cluster = sample_cluster\<lparr>wc_Drain := Some \<lparr>dc_Indexer = None, dc_Manager = Some \<lparr>mdc_Enabled = Some True,
     mdc_Timeout = None, mdc_QueueCheckInterval = None, mdc_GracePeriod = None\<rparr>, dc_Retry = None, dc_DryRun = False\<rparr>\<rparr>"

definition worker_rec :: WorkerReconciler where
  "worker_rec = \<lparr>wr_drainer = Some ((NewManagerDrainer 0 None)\<lparr>md_emptyQueueSeenTime := Some (- 100000000000)\<rparr>),
     wr_wazuhClient = None, wr_credentialsHash = [], wr_Recorder = False\<rparr>"

lemma grace_over: "sint (time_sub t (- 100000000000)) \<ge> sint (10 * second)" if "t \<in> {1000000000, 2000000000}"
  using that by (auto simp: time_sub_def second_def)

lemmas worker_defs = worker_env_def worker_rec_def queue_defs NewManagerDrainer_def run_io Let_def prim_defs worker_event_def

lemma worker_sample_start:
  assumes "ds_Phase s = DrainPhaseIdle"
  shows "\<exists>r' s' w'. run_state (Worker_startDrain worker_env (set_manager_drain s worker_cluster) worker_rec info s) (queue_world []) = ((r', s', None), w')"
  using assms
  by (simp add: Worker_startDrain_def ensureWazuhClient_def getWazuhAPICredentials_def default_credentials_def
      worker_cluster_def sample_cluster_def empty_cluster_def set_manager_drain_def StartDrain_def ensure_worker_drainer_def begin_worker_drain_def ManagerDrainer_StartDrain_def
      NewWazuhAPIAdapter_def not_found_def IsNotFound_def worker_defs)

lemma worker_sample_monitor:
  assumes "ds_Phase s = DrainPhaseDraining"
  shows "\<exists>r' s' p w'. run_state (Worker_monitorDrainProgress worker_env cl worker_rec node s) (queue_world []) = ((r', s', p), w') \<and>
    ds_Phase s' = DrainPhaseVerifying"
  using assms grace_over
  by (simp add: Worker_monitorDrainProgress_def MonitorQueueDepth_def queue_percent_def worker_defs keep_on_error_def TransitionTo_Some
      eff_phase_def)

lemma worker_sample_verify:
  "\<exists>r' s' w'. run_state (Worker_verifyDrainComplete worker_env cl worker_rec node s) (queue_world []) = ((r', s', Inr True), w')"
  using grace_over by (simp add: Worker_verifyDrainComplete_def VerifyQueueEmpty_def worker_defs not_less)

abbreviation worker_pod :: string where
  "worker_pod \<equiv> sd_TargetPodName drain_info"

text \<open>One check of that scale-down, with the status stored before it.\<close>

definition worker_check where
  "worker_check s = run_state (Worker_CheckScaleDownDrain worker_env worker_rec (set_manager_drain s worker_cluster) 2) (queue_world [])"

lemma worker_check_run:
  "worker_check s = (let c = set_manager_drain s worker_cluster in
     case run_state (drain_switch (Worker_startDrain worker_env c) (Worker_monitorDrainProgress worker_env c)
       (Worker_verifyDrainComplete worker_env c) worker_rec drain_info s) (queue_world []) of
     ((r', s', res, err), w') \<Rightarrow> ((r', set_manager_drain s' worker_cluster, Some res, err), w'))"
proof -
  have "e_get_sts worker_env ns name (w_env (queue_world [])) = (Inr (example_sts 3), w_env (queue_world []))" for ns name
    by (simp add: worker_env_def)
  then show ?thesis
    by (simp add: worker_check_def Worker_CheckScaleDownDrain_def drain_check_run drain_sample(2) Worker_init
        manager_drain_enabled_def manager_drain_config_def worker_cluster_def Let_def)
qed

lemma worker_enabled: "manager_drain_enabled (set_manager_drain s worker_cluster)"
  by (simp add: manager_drain_enabled_def manager_drain_config_def worker_cluster_def)

lemma worker_sample_history:
  assumes "drain_history manager_drain (Worker_CheckScaleDownDrain worker_env) (Some s) ps es"
    and run: "worker_check s = ((r', c', x, e), w')"
  shows "\<exists>ps' es'. drain_history manager_drain (Worker_CheckScaleDownDrain worker_env) (manager_drain c') ps' es'"
proof -
  obtain fs where fs: "w_log w' = w_log (queue_world []) @ fs"
    using worker_check_sound [OF run [unfolded worker_check_def Worker_CheckScaleDownDrain_def]] by blast
  show ?thesis using drain_history.check [OF assms(1) Worker_upd run [unfolded worker_check_def] fs] by blast
qed

lemma worker_sample_complete:
  "\<exists>s ps es r' c' x w'. drain_history manager_drain (Worker_CheckScaleDownDrain worker_env) (Some s) ps es \<and>
     worker_check s = ((r', c', Some x, None), w') \<and> ds_Phase s = DrainPhaseVerifying \<and> dcr_DrainComplete x \<and> \<not> dcr_DrainInProgress x"
proof -
  let ?H = "drain_history manager_drain (Worker_CheckScaleDownDrain worker_env)"
  have init: "ds_Phase InitializeDrainStatus = DrainPhaseIdle" by (simp add: InitializeDrainStatus_def)
  have h0: "?H (Some InitializeDrainStatus) [] []" by (rule drain_history.not_complete) (simp add: init IsDrainComplete_def)
  obtain r1 s1 w1 where 1: "run_state (Worker_startDrain worker_env (set_manager_drain InitializeDrainStatus worker_cluster)
      worker_rec drain_info InitializeDrainStatus) (queue_world []) = ((r1, s1, None), w1)"
    using worker_sample_start [OF init] by blast
  then have s1: "ds_Phase s1 = DrainPhaseDraining" using worker_start_phase by fastforce
  obtain p1 f1 where h1: "?H (Some s1) p1 f1"
    using worker_sample_history [OF h0, unfolded worker_check_run] 1 init by (fastforce simp: drain_switch_def run_bind Let_def)
  obtain r2 s2 p w2 where 2: "run_state (Worker_monitorDrainProgress worker_env (set_manager_drain s1 worker_cluster) worker_rec
      worker_pod s1) (queue_world []) = ((r2, s2, p), w2)" "ds_Phase s2 = DrainPhaseVerifying"
    using worker_sample_monitor [OF s1] by blast
  obtain p2 f2 where h2: "?H (Some s2) p2 f2"
    using worker_sample_history [OF h1, unfolded worker_check_run] 2 s1
    by (cases p) (fastforce simp: drain_switch_def run_bind Let_def)+
  obtain r3 s3 w3 where 3: "run_state (Worker_verifyDrainComplete worker_env (set_manager_drain s2 worker_cluster) worker_rec
      worker_pod s2) (queue_world []) = ((r3, s3, Inr True), w3)" using worker_sample_verify by blast
  obtain r' c' x w' where "worker_check s2 = ((r', c', Some x, None), w')" "dcr_DrainComplete x" "\<not> dcr_DrainInProgress x"
    using 3 2(2) by (simp add: worker_check_run drain_switch_def run_bind Let_def empty_check_def)
  then show ?thesis using h2 2(2) by blast
qed

text \<open>
  C2: When a worker may be given up. As for the indexer: along any history of drain checks from a
  status that is not complete, a check of a detected scale-down with drains enabled that does not
  hold it back either reports the worker drained - the Wazuh API has answered in this check that
  its queue is empty, or the stored status was complete and a check of the history had that answer
  for the worker it was to drain then - or carries an error, from starting or verifying the drain
  or from a drain that had failed, or found a phase for which it has no case.
\<close>

theorem worker_scale_down_after_drain:
  assumes "drain_history manager_drain (Worker_CheckScaleDownDrain E) (manager_drain cluster) ps es"
    and "run_state (Worker_CheckScaleDownDrain E r cluster n) w = ((r', cluster', res, err), w')"
    and "e_get_sts E (wc_Namespace cluster) (wc_Name cluster @ ''-manager-worker'') (w_env w) = (Inr sts, st)"
    and "sd_Detected (DetectStatefulSetScaleDown (Some sts) n)" and "manager_drain_enabled cluster"
    and "\<not> held_back res err"
  shows "\<exists>x fs. res = Some x \<and> dcr_TargetPod x = sd_TargetPodName (DetectStatefulSetScaleDown (Some sts) n) \<and>
    w_log w' = w_log w @ fs \<and> goes_on worker_evidence (stored_phase (manager_drain cluster)) ps es fs x err"
  using assms unfolding Worker_CheckScaleDownDrain_def by (rule worker_goes_on)

theorem worker_scale_down_after_drain_witness:
  "\<exists>s ps es r' c' x w' fs. drain_history manager_drain (Worker_CheckScaleDownDrain worker_env)
       (manager_drain (set_manager_drain s worker_cluster)) ps es \<and>
     run_state (Worker_CheckScaleDownDrain worker_env worker_rec (set_manager_drain s worker_cluster) 2) (queue_world []) =
       ((r', c', Some x, None), w') \<and> dcr_DrainComplete x \<and> dcr_TargetPod x = worker_pod \<and> ds_Phase s = DrainPhaseVerifying \<and>
     w_log w' = w_log (queue_world []) @ fs \<and> list_ex (worker_evidence worker_pod) fs"
proof -
  obtain s ps es r' c' x w' where h: "drain_history manager_drain (Worker_CheckScaleDownDrain worker_env) (Some s) ps es"
    and run: "worker_check s = ((r', c', Some x, None), w')" and x: "ds_Phase s = DrainPhaseVerifying" "dcr_DrainComplete x" "\<not> dcr_DrainInProgress x"
    using worker_sample_complete by blast
  let ?c = "set_manager_drain s worker_cluster"
  have h': "drain_history manager_drain (Worker_CheckScaleDownDrain worker_env) (manager_drain ?c) ps es" using h by simp
  have g: "e_get_sts worker_env ns name v = (Inr (example_sts 3), v)" for ns name v by (simp add: worker_env_def)
  have "\<not> held_back (Some x) None" using x(3) by (simp add: held_back_def)
  note worker_scale_down_after_drain [OF h' run [unfolded worker_check_def] g drain_sample(2) worker_enabled this]
  then obtain fs where "dcr_TargetPod x = worker_pod" "w_log w' = w_log (queue_world []) @ fs"
      "goes_on worker_evidence (stored_phase (manager_drain ?c)) ps es fs x None" by blast
  then show ?thesis using h' run x unfolding worker_check_def by (fastforce simp: goes_on_def stored_phase_def)
qed

end
