(* ===== verification/NodePoolReconcile.thy ===== *)
theory NodePoolReconcile
  imports IndexerReconcile
begin

section \<open>Draining a node pool before a scale-down (internal/opensearch/reconciler/indexer_reconciler.go)\<close>

text \<open>
  In advanced mode each node pool is a StatefulSet of its own, and \<open>checkNodePoolScaleDownDrain\<close>
  decides whether its replicas may be reduced now: it returns true while a drain is under way.
  \<open>None\<close> is a panic. Unlike the simple mode it sets the phases directly. The properties: the
  ways in which it lets a data pool shrink, and what was seen of its pods then, with the quorum
  kept in each; and on a pending phase it lets the pool shrink without any drain.
\<close>

definition getTotalClusterManagers :: "WazuhIndexerClusterSpec \<Rightarrow> i32" where
  "getTotalClusterManagers spec = foldl (\<lambda>total pool.
     if Pool_HasClusterManagerRole pool then total + pool_Replicas pool else total) 0 (ics_NodePools spec)"

definition getOrInitNodePoolDrainStatus :: "WazuhCluster \<Rightarrow> ComponentDrainStatus" where
  "getOrInitNodePoolDrainStatus cluster = (case indexer_drain cluster of
     None \<Rightarrow> zero_status\<lparr>ds_Phase := DrainPhaseIdle\<rparr> | Some s \<Rightarrow> s)"

text \<open>The \<open>switch\<close> on the phase, once a drain is needed.\<close>

definition pool_drain_switch :: "'s env \<Rightarrow> IndexerReconciler \<Rightarrow> WazuhCluster \<Rightarrow> string \<Rightarrow> string list \<Rightarrow>
    ('s, IndexerReconciler \<times> WazuhCluster \<times> bool result) io" where
  "pool_drain_switch E r cluster poolName targetPods =
     (let status = getOrInitNodePoolDrainStatus cluster; phase = ds_Phase status;
          d = the (ir_drainer r); save = (\<lambda>s. set_indexer_drain s cluster) in
      if phase = DrainPhaseIdle \<or> phase = DrainPhaseText [] then do {
        (d', started) \<leftarrow> StartNodePoolDrain E d targetPods;
        let r' = r\<lparr>ir_drainer := Some d'\<rparr>;
        case started of
          Inl err \<Rightarrow> ret (r', save (status\<lparr>ds_Phase := DrainPhaseFailed, ds_Message := text_of err\<rparr>),
            Inl (wrapf ''failed to start drain: '' err))
        | Inr u \<Rightarrow> do {
            now1 \<leftarrow> time_now E;
            now2 \<leftarrow> time_now E;
            _ \<leftarrow> indexer_event r' False ''NodePoolDrainStarted'' (''Started drain for nodePool '' @ poolName @ '': '' @
              show_nat (length targetPods) @ '' pods'');
            ret (r', save (status\<lparr>ds_Phase := DrainPhaseDraining,
              ds_Message := ''Draining '' @ show_nat (length targetPods) @ '' pods'',
              ds_StartTime := Some now1, ds_LastTransitionTime := Some now2\<rparr>), Inr True) } }
      else if phase = DrainPhaseDraining then do {
        p \<leftarrow> MonitorNodePoolDrainProgress E d targetPods;
        case p of
          Inl err \<Rightarrow> ret (r, save status, Inr True)
        | Inr progress \<Rightarrow>
           (let s1 = status\<lparr>ds_Progress := dp_Percent progress, ds_Message := dp_Message progress\<rparr> in
            ret (r, save (if dp_IsComplete progress then s1\<lparr>ds_Phase := DrainPhaseVerifying\<rparr> else s1), Inr True)) }
      else if phase = DrainPhaseVerifying then do {
        v \<leftarrow> VerifyNodePoolDrainComplete E d targetPods;
        case v of
          Inl err \<Rightarrow> ret (r, save status, Inr True)
        | Inr complete \<Rightarrow>
           if complete then do {
             now \<leftarrow> time_now E;
             _ \<leftarrow> indexer_event r False ''NodePoolDrainComplete'' (''Drain complete for nodePool '' @ poolName);
             _ \<leftarrow> IndexerDrainer_CancelDrain E d;
             ret (r, save (status\<lparr>ds_Phase := DrainPhaseComplete, ds_LastTransitionTime := Some now,
               ds_Message := ''Drain complete, proceeding with scale-down''\<rparr>), Inr False) }
           else ret (r, save status, Inr True) }
      else if phase = DrainPhaseComplete then ret (r, save (status\<lparr>ds_Phase := DrainPhaseIdle\<rparr>), Inr False)
      else if phase = DrainPhaseFailed then ret (r, save (status\<lparr>ds_Phase := DrainPhaseIdle\<rparr>), Inr True)
      else ret (r, save status, Inr False))"

fun blocked_events :: "IndexerReconciler \<Rightarrow> string \<Rightarrow> string list \<Rightarrow> ('s, unit) io" where
  "blocked_events r poolName [] = ret ()"
| "blocked_events r poolName (b # bs) = do {
     _ \<leftarrow> indexer_event r True ''ScaleDownBlocked'' (''NodePool '' @ poolName @ '' scale-down blocked: '' @ b);
     blocked_events r poolName bs }"

definition checkNodePoolScaleDownDrain :: "'s env \<Rightarrow> IndexerReconciler \<Rightarrow> WazuhCluster \<Rightarrow> IndexerNodePoolSpec \<Rightarrow>
    i32 \<Rightarrow> ('s, (IndexerReconciler \<times> WazuhCluster \<times> bool result) option) io" where
  "checkNodePoolScaleDownDrain E r cluster pool currentReplicas =
     (if \<not> indexer_drain_enabled cluster then ret (Some (r, cluster, Inr False))
      else case wc_Indexer cluster of
        None \<Rightarrow> ret None
      | Some spec \<Rightarrow>
         (let totalClusterManagers = getTotalClusterManagers spec;
              targetPods = GetNodePoolScaleDownTargets (wc_Name cluster) (pool_Name pool) currentReplicas (pool_Replicas pool);
              info = \<lparr>np_PoolName = pool_Name pool, np_Roles = GetRolesAsStrings pool,
                np_CurrentReplicas = currentReplicas, np_DesiredReplicas = pool_Replicas pool,
                np_TargetPodNames = targetPods\<rparr> in do {
            (r1, err) \<leftarrow> ensureOpenSearchClient E r cluster;
            case err of
              Some e \<Rightarrow> do {
                _ \<leftarrow> indexer_event r1 True ''DrainCheckFailed''
                  (''Cannot check drain for nodePool '' @ pool_Name pool @ '': '' @ text_of e);
                ret (Some (r1, cluster, Inr False)) }
            | None \<Rightarrow> do {
                let r2 = ensure_drainer cluster r1;
                e \<leftarrow> EvaluateNodePoolScaleDown E (the (ir_drainer r2)) info totalClusterManagers;
                case e of
                  None \<Rightarrow> ret None
                | Some res \<Rightarrow>
                   if \<not> npr_Feasible res then do {
                     _ \<leftarrow> blocked_events r2 (pool_Name pool) (npr_Blockers res);
                     ret (case npr_Blockers res of [] \<Rightarrow> None
                       | b # bs \<Rightarrow> Some (r2, cluster, Inl (errorf (''scale-down blocked: '' @ b)))) }
                   else if \<not> npr_NeedsDrain res then ret (Some (r2, cluster, Inr False))
                   else do {
                     x \<leftarrow> pool_drain_switch E r2 cluster (pool_Name pool) targetPods;
                     ret (Some x) } } }))"

subsection \<open>Lemmas\<close>

definition own_phases :: "DrainPhase set" where
  "own_phases = {DrainPhaseIdle, DrainPhaseText [], DrainPhaseDraining, DrainPhaseVerifying, DrainPhaseFailed}"

lemma init_phase: "ds_Phase (getOrInitNodePoolDrainStatus cluster) = stored_phase (indexer_drain cluster)"
  by (simp add: getOrInitNodePoolDrainStatus_def stored_phase_def split: option.split)

text \<open>Without a client nothing is verified.\<close>

lemma verified_client:
  assumes "run_state (VerifyNodePoolDrainComplete E d pods) w = (Inr True, w')" and "pods \<noteq> []"
  shows "idr_client d \<noteq> None"
proof
  assume "idr_client d = None"
  moreover obtain p ps where "pods = p # ps" using assms(2) by (cases pods) auto
  ultimately show False using assms(1) by (simp add: VerifyNodePoolDrainComplete_def VerifyComplete_def with_client_def run_io)
qed

lemma pool_switch_verified:
  assumes run: "run_state (pool_drain_switch E r cluster name pods) w = ((r', c', res), w')"
    and d: "ir_drainer r = Some d" and "pods \<noteq> []" and "res = Inr False \<or> IsDrainComplete (indexer_drain c')"
  shows "stored_phase (indexer_drain cluster) \<notin> own_phases \<and> \<not> IsDrainComplete (indexer_drain c') \<or>
    stored_phase (indexer_drain cluster) = DrainPhaseVerifying \<and>
      (\<exists>es. w_log w' = w_log w @ es \<and> (\<forall>pod \<in> set pods. list_ex (indexer_evidence pod) es))"
proof -
  let ?s = "getOrInitNodePoolDrainStatus cluster"
  consider "ds_Phase ?s \<in> {DrainPhaseIdle, DrainPhaseText []}" | "ds_Phase ?s = DrainPhaseDraining"
    | "ds_Phase ?s = DrainPhaseVerifying" | "ds_Phase ?s = DrainPhaseFailed" | "ds_Phase ?s \<notin> own_phases" by (auto simp: own_phases_def)
  then show ?thesis
  proof cases
    case 1
    obtain d' st w1 where "run_state (StartNodePoolDrain E d pods) w = ((d', st), w1)" by (metis surj_pair)
    with 1 run d assms(4) show ?thesis
      by (auto simp: pool_drain_switch_def run_bind Let_def IsDrainComplete_def split: sum.splits prod.splits)
  next
    case 2
    obtain p w1 where "run_state (MonitorNodePoolDrainProgress E d pods) w = (p, w1)" by fastforce
    with 2 run d assms(4) show ?thesis
      by (auto simp: pool_drain_switch_def run_bind Let_def IsDrainComplete_def split: sum.splits if_splits)
  next
    case 4
    with run assms(4) show ?thesis by (auto simp: pool_drain_switch_def Let_def IsDrainComplete_def)
  next
    case 5
    then have "\<not> IsDrainComplete (indexer_drain c')"
      using run by (auto simp: pool_drain_switch_def Let_def IsDrainComplete_def own_phases_def split: if_splits)
    with 5 show ?thesis by (simp add: init_phase)
  next
    case 3
    obtain v w1 where v: "run_state (VerifyNodePoolDrainComplete E d pods) w = (v, w1)" by fastforce
    with 3 run d assms(4) have v': "v = Inr True"
      by (cases v) (auto simp: pool_drain_switch_def run_bind Let_def IsDrainComplete_def split: if_splits)
    obtain c where c: "idr_client d = Some c" using verified_client [OF v [unfolded v'] assms(3)] by blast
    obtain now w2 where t: "run_state (time_now E) w1 = (now, w2)" by fastforce
    have w2: "w_log w2 = w_log w1" using t by (auto simp: time_now_def run_ask split: prod.splits)
    let ?rest = "do { _ \<leftarrow> indexer_event r False ''NodePoolDrainComplete'' (''Drain complete for nodePool '' @ name);
             IndexerDrainer_CancelDrain E d }"
    obtain u w3 where rest: "run_state ?rest w2 = (u, w3)" by fastforce
    have "logs_more ?rest" by (intro logs)
    then obtain fs where fs: "w_log w3 = w_log w2 @ fs" using rest by (rule logs_onlyD)
    have "w' = w3" using run 3 d v v' t rest by (simp add: pool_drain_switch_def run_bind Let_def split: prod.splits)
    moreover obtain es where es: "w_log w1 = w_log w @ es" "\<forall>node \<in> set pods. list_ex (saw_shards c (no_shards node)) es"
      using verify_each_saw [OF c, of E pods w w1] v v' by (auto simp: VerifyNodePoolDrainComplete_def)
    moreover have "list_ex (indexer_evidence pod) es" if "pod \<in> set pods" for pod
      using es(2) that unfolding list_ex_iff indexer_evidence_def by blast
    ultimately have "\<exists>es. w_log w' = w_log w @ es \<and> (\<forall>pod \<in> set pods. list_ex (indexer_evidence pod) es)"
      using w2 fs by (intro exI [of _ "es @ fs"]) (simp add: list_ex_append)
    with 3 show ?thesis by (simp add: init_phase)
  qed
qed

text \<open>The information about the pool that the check hands to the drainer.\<close>

definition pool_info :: "WazuhCluster \<Rightarrow> IndexerNodePoolSpec \<Rightarrow> i32 \<Rightarrow> NodePoolScaleDownInfo" where
  "pool_info cluster pool currentReplicas = \<lparr>np_PoolName = pool_Name pool, np_Roles = GetRolesAsStrings pool,
     np_CurrentReplicas = currentReplicas, np_DesiredReplicas = pool_Replicas pool,
     np_TargetPodNames = GetNodePoolScaleDownTargets (wc_Name cluster) (pool_Name pool) currentReplicas (pool_Replicas pool)\<rparr>"

lemma pool_info_sel [simp]:
  "HasDataRole (pool_info cl pool n) = Pool_HasDataRole pool"
  "HasClusterManagerRole (pool_info cl pool n) = Pool_HasClusterManagerRole pool"
  "IsScaleDown (pool_info cl pool n) = (sint (pool_Replicas pool) < sint n)"
  "np_CurrentReplicas (pool_info cl pool n) = n" "np_DesiredReplicas (pool_info cl pool n) = pool_Replicas pool"
  by (auto simp: pool_info_def HasDataRole_def HasClusterManagerRole_def HasRole_def Pool_HasDataRole_def
      Pool_HasClusterManagerRole_def Pool_HasRole_def GetRolesAsStrings_def IsScaleDown_def OpenSearchRoleData_def
      OpenSearchRoleClusterManager_def list_ex_iff)

text \<open>The pods a check is about.\<close>

abbreviation pool_targets :: "WazuhCluster \<Rightarrow> IndexerNodePoolSpec \<Rightarrow> i32 \<Rightarrow> string list" where
  "pool_targets cluster pool n \<equiv> GetNodePoolScaleDownTargets (wc_Name cluster) (pool_Name pool) n (pool_Replicas pool)"

text \<open>A check either leaves the status as it is or gets to the switch.\<close>

lemma pool_check_cases:
  assumes run: "run_state (checkNodePoolScaleDownDrain E r cluster pool n) w = (Some (r', c', res), w')"
  obtains (stays) "c' = cluster" and "\<not> indexer_drain_enabled cluster \<or> snd (fst (run_state (ensureOpenSearchClient E r cluster) w)) \<noteq> None \<or>
      \<not> Pool_HasDataRole pool \<or> sint n \<le> sint (pool_Replicas pool) \<or> (\<exists>e. res = Inl e)"
  | (drains) spec r1 w1 d eval w2 where "wc_Indexer cluster = Some spec"
      and "run_state (ensureOpenSearchClient E r cluster) w = ((r1, None), w1)" and "ir_drainer (ensure_drainer cluster r1) = Some d"
      and "run_state (EvaluateNodePoolScaleDown E d (pool_info cluster pool n) (getTotalClusterManagers spec)) w1 = (Some eval, w2)"
      and "npr_Feasible eval" and "npr_NeedsDrain eval"
      and "run_state (pool_drain_switch E (ensure_drainer cluster r1) cluster (pool_Name pool) (pool_targets cluster pool n)) w2 = ((r', c', res), w')"
proof (cases "indexer_drain_enabled cluster")
  case False
  then show thesis using run stays by (simp add: checkNodePoolScaleDownDrain_def)
next
  case True
  then obtain spec where spec: "wc_Indexer cluster = Some spec"
    using run by (cases "wc_Indexer cluster") (simp_all add: checkNodePoolScaleDownDrain_def)
  obtain r1 err w1 where c: "run_state (ensureOpenSearchClient E r cluster) w = ((r1, err), w1)" by (metis surj_pair)
  obtain d where d: "ir_drainer (ensure_drainer cluster r1) = Some d" by (cases "ir_drainer r1") (auto simp: ensure_drainer_def)
  obtain e w2 where e: "run_state (EvaluateNodePoolScaleDown E d (pool_info cluster pool n) (getTotalClusterManagers spec)) w1 = (e, w2)"
    by fastforce
  show thesis
  proof (cases "\<exists>res0. err = None \<and> e = Some res0 \<and> npr_Feasible res0 \<and> npr_NeedsDrain res0")
    case True
    then obtain res0 where res0: "err = None" "e = Some res0" "npr_Feasible res0" "npr_NeedsDrain res0" by blast
    then have "run_state (pool_drain_switch E (ensure_drainer cluster r1) cluster (pool_Name pool) (pool_targets cluster pool n)) w2 = ((r', c', res), w')"
      using run \<open>indexer_drain_enabled cluster\<close> spec c d e
      by (simp add: checkNodePoolScaleDownDrain_def run_bind Let_def pool_info_def split: prod.splits)
    then show thesis using drains spec c d e res0 by blast
  next
    case no: False
    have needs: "npr_NeedsDrain x \<longleftrightarrow> sint (pool_Replicas pool) < sint n \<and> Pool_HasDataRole pool" if "e = Some x" for x
      using pool_evaluation [OF e [unfolded that]] by simp
    have "c' = cluster \<and> (err \<noteq> None \<or> \<not> Pool_HasDataRole pool \<or> sint n \<le> sint (pool_Replicas pool) \<or> (\<exists>e. res = Inl e))"
      using run \<open>indexer_drain_enabled cluster\<close> spec c d e no needs
      by (auto simp: checkNodePoolScaleDownDrain_def run_bind Let_def pool_info_def split: prod.splits option.splits if_splits list.splits)
    then show thesis using stays c by auto
  qed
qed

text \<open>With a client at hand, the check of a shrinking data pool that does not fail gets to the switch.\<close>

lemma pool_check_run:
  assumes run: "run_state (checkNodePoolScaleDownDrain E r cluster pool n) w = (Some (r', c', Inr b), w')"
    and "indexer_drain_enabled cluster" and "wc_Indexer cluster = Some spec" and "ir_osClient r = Some c"
    and "ir_drainer r = None \<or> ready r" and "Pool_HasDataRole pool" and "sint (pool_Replicas pool) < sint n"
  obtains res d c0 w1 where
    "run_state (EvaluateNodePoolScaleDown E d (pool_info cluster pool n) (getTotalClusterManagers spec)) w = (Some res, w1)"
    "idr_client d = Some c0"
    "run_state (pool_drain_switch E (ensure_drainer cluster r) cluster (pool_Name pool) (pool_targets cluster pool n)) w1 = ((r', c', Inr b), w')"
proof -
  have client: "run_state (ensureOpenSearchClient E r cluster) w = ((r, None), w)" by (simp add: ensureOpenSearchClient_def assms(4))
  show thesis
    using run
  proof (cases rule: pool_check_cases)
    case stays
    then show thesis using assms(2, 6, 7) client by simp
  next
    case (drains spec' r1 w1 d eval w2)
    moreover have "\<exists>c0. idr_client d = Some c0"
      using drains(2, 3) client assms(4, 5) by (auto simp: ensure_drainer_def ready_def NewIndexerDrainer_def)
    ultimately show thesis using that client assms(3) by auto
  qed
qed

subsection \<open>Histories of the shared status\<close>

text \<open>
  The status that the checks of all pools share, and the simple mode with them, became \<open>st\<close> by
  checks that were to empty the pods of each of \<open>pss\<close>; the log holds \<open>es\<close>. Between the checks the
  operator may have been restarted and other code may have stored a status that is not complete.
\<close>

inductive pool_history :: "'s env \<Rightarrow> ComponentDrainStatus option \<Rightarrow> string list list \<Rightarrow> effect list \<Rightarrow> bool" for E where
  not_complete: "\<not> IsDrainComplete st \<Longrightarrow> pool_history E st [] []"
| other: "pool_history E st pss es \<Longrightarrow> \<not> IsDrainComplete st' \<Longrightarrow> pool_history E st' pss (es @ others)"
| pool_check: "pool_history E st pss es \<Longrightarrow> indexer_drain cluster = st \<Longrightarrow>
    run_state (checkNodePoolScaleDownDrain E r cluster pool n) w = (Some (r', cluster', res), w') \<Longrightarrow> w_log w' = w_log w @ fs \<Longrightarrow>
    pool_history E (indexer_drain cluster') (pss @ [pool_targets cluster pool n]) (es @ others @ fs)"
| node_check: "pool_history E st pss es \<Longrightarrow> indexer_drain cluster = st \<Longrightarrow>
    run_state (Indexer_CheckScaleDownDrain E r cluster n) w = ((r', cluster', x, err), w') \<Longrightarrow> w_log w' = w_log w @ fs \<Longrightarrow>
    pool_history E (indexer_drain cluster') (pss @ map (\<lambda>q. [q]) (drain_targets x)) (es @ others @ fs)"

definition all_seen :: "effect list \<Rightarrow> string list \<Rightarrow> bool" where
  "all_seen es pods \<longleftrightarrow> pods \<noteq> [] \<and> list_all (\<lambda>pod. list_ex (indexer_evidence pod) es) pods"

lemma all_seen_append: "all_seen es pods \<Longrightarrow> all_seen (es @ fs) pods" "all_seen fs pods \<Longrightarrow> all_seen (es @ fs) pods"
  by (auto simp: all_seen_def list_all_iff list_ex_append)

lemma pool_targets_nonempty: "sint (pool_Replicas pool) < sint n \<Longrightarrow> pool_targets cluster pool n \<noteq> []"
  by (simp add: GetNodePoolScaleDownTargets_def)

text \<open>What a check that lets the pool shrink, or completes the status, has seen.\<close>

lemma pool_check_seen:
  assumes run: "run_state (checkNodePoolScaleDownDrain E r cluster pool n) w = (Some (r', c', res), w')"
    and "res = Inr False \<or> IsDrainComplete (indexer_drain c')"
  shows "c' = cluster \<and> (\<not> indexer_drain_enabled cluster \<or> snd (fst (run_state (ensureOpenSearchClient E r cluster) w)) \<noteq> None \<or>
      \<not> Pool_HasDataRole pool \<or> sint n \<le> sint (pool_Replicas pool) \<or> (\<exists>e. res = Inl e)) \<or>
    (\<exists>spec. wc_Indexer cluster = Some spec \<and>
      (Pool_HasClusterManagerRole pool \<longrightarrow> 3 \<le> sint (getTotalClusterManagers spec - (n - pool_Replicas pool)))) \<and>
    (stored_phase (indexer_drain cluster) \<notin> own_phases \<and> \<not> IsDrainComplete (indexer_drain c') \<or>
     stored_phase (indexer_drain cluster) = DrainPhaseVerifying \<and> (\<exists>fs. w_log w' = w_log w @ fs \<and> all_seen fs (pool_targets cluster pool n)))"
  using run
proof (cases rule: pool_check_cases)
  case stays
  then show ?thesis by blast
next
  case (drains spec r1 w1 d eval w2)
  have shrink: "sint (pool_Replicas pool) < sint n" using pool_evaluation [OF drains(4)] drains(6) by simp
  have quorum: "Pool_HasClusterManagerRole pool \<longrightarrow> 3 \<le> sint (getTotalClusterManagers spec - (n - pool_Replicas pool))"
    using pool_evaluation [OF drains(4)] drains(5) shrink by simp
  have "logs_more (EvaluateNodePoolScaleDown E d (pool_info cluster pool n) (getTotalClusterManagers spec))"
    unfolding EvaluateNodePoolScaleDown_def Let_def by (intro logs logs_more_weaken [OF logs_reads(1)])
  then obtain gs where gs: "w_log w2 = w_log w1 @ gs" using drains(4) by (rule logs_onlyD)
  obtain hs where hs: "w_log w1 = w_log w @ hs" using logs_moreD [OF logs_factory(3) drains(2)] by blast
  note seen = pool_switch_verified [OF drains(7, 3) pool_targets_nonempty [OF shrink] assms(2)]
  show ?thesis
  proof (cases "stored_phase (indexer_drain cluster) \<notin> own_phases \<and> \<not> IsDrainComplete (indexer_drain c')")
    case True
    then show ?thesis using drains(1) quorum by blast
  next
    case False
    then obtain es where "stored_phase (indexer_drain cluster) = DrainPhaseVerifying" "w_log w' = w_log w2 @ es"
        "\<forall>pod \<in> set (pool_targets cluster pool n). list_ex (indexer_evidence pod) es" using seen by blast
    moreover from this have "all_seen (hs @ gs @ es) (pool_targets cluster pool n)"
      using pool_targets_nonempty [OF shrink] by (simp add: all_seen_def list_all_iff list_ex_append)
    ultimately show ?thesis using drains(1) quorum gs hs by (metis append_assoc)
  qed
qed

lemma pool_history_sound:
  assumes "pool_history E st pss es"
  shows "IsDrainComplete st \<longrightarrow> (\<exists>pods \<in> set pss. all_seen es pods)"
  using assms
proof (induction rule: pool_history.induct)
  case (pool_check st pss es cluster r pool n w r' cluster' res w' fs others)
  show ?case
  proof
    assume c: "IsDrainComplete (indexer_drain cluster')"
    then consider "cluster' = cluster" | "\<exists>gs. w_log w' = w_log w @ gs \<and> all_seen gs (pool_targets cluster pool n)"
      using pool_check_seen [OF pool_check.hyps(3)] by blast
    then show "\<exists>pods \<in> set (pss @ [pool_targets cluster pool n]). all_seen (es @ others @ fs) pods"
      using c pool_check.IH pool_check.hyps(2, 4) by cases (auto intro: all_seen_append)
  qed
next
  case (node_check st pss es cluster r n w r' cluster' x err w' fs others)
  obtain gs where gs: "w_log w' = w_log w @ gs" and step: "IsDrainComplete (indexer_drain cluster') \<longrightarrow>
       IsDrainComplete (indexer_drain cluster) \<or> (\<exists>q \<in> set (drain_targets x). list_ex (indexer_evidence q) gs)"
    using indexer_check_sound [OF node_check.hyps(3) [unfolded Indexer_CheckScaleDownDrain_def]] by blast
  have "gs = fs" using gs node_check.hyps(4) by simp
  moreover have "all_seen (es @ others @ fs) [q]" if "list_ex (indexer_evidence q) fs" for q
    using that by (simp add: all_seen_def list_ex_append)
  ultimately show ?case using step node_check.IH node_check.hyps(2) by (auto intro: all_seen_append)
qed auto

subsection \<open>Properties\<close>

text \<open>
  C3: When a data pool may shrink. Along any history of the status that all pools share, a check
  with drains enabled that lets a pool with the data role shrink, and whose client could be
  made, has kept the quorum - the cluster managers of the specification, less the pods removed, are
  at least three if the pool has that role - and found one of three: a drain to be verified,
  and OpenSearch listed no shard on any of the pods to be removed in this very check; a complete
  status, and a check of the history had those answers for all pods it was to remove then; or a
  phase for which it has no case, pending among them.
\<close>

theorem nodepool_scale_down_drained:
  assumes "pool_history E (indexer_drain cluster) pss es"
    and "run_state (checkNodePoolScaleDownDrain E r cluster pool n) w = (Some (r', c', Inr False), w')"
    and "indexer_drain_enabled cluster" and "wc_Indexer cluster = Some spec"
    and "Pool_HasDataRole pool" and "sint (pool_Replicas pool) < sint n"
  shows "snd (fst (run_state (ensureOpenSearchClient E r cluster) w)) \<noteq> None \<or>
    (Pool_HasClusterManagerRole pool \<longrightarrow> 3 \<le> sint (getTotalClusterManagers spec - (n - pool_Replicas pool))) \<and>
    (case stored_phase (indexer_drain cluster) of
       DrainPhaseVerifying \<Rightarrow> \<exists>fs. w_log w' = w_log w @ fs \<and> all_seen fs (pool_targets cluster pool n)
     | DrainPhaseComplete \<Rightarrow> \<exists>pods \<in> set pss. all_seen es pods
     | DrainPhasePending \<Rightarrow> True | DrainPhaseRollingBack \<Rightarrow> True | DrainPhaseText t \<Rightarrow> t \<noteq> [] | _ \<Rightarrow> False)"
proof -
  have "stored_phase (indexer_drain cluster) = DrainPhaseComplete \<longrightarrow> (\<exists>pods \<in> set pss. all_seen es pods)"
    using pool_history_sound [OF assms(1)] by (simp add: stored_phase_complete)
  moreover have "stored_phase (indexer_drain cluster) \<notin> own_phases \<or> stored_phase (indexer_drain cluster) = DrainPhaseVerifying"
    if "snd (fst (run_state (ensureOpenSearchClient E r cluster) w)) = None"
    using pool_check_seen [OF assms(2)] that assms(3, 5, 6) by auto
  ultimately show ?thesis
    using pool_check_seen [OF assms(2)] assms(3-6)
    by (cases "stored_phase (indexer_drain cluster)") (auto simp: own_phases_def)
qed

definition data_pool :: IndexerNodePoolSpec where
  "data_pool = \<lparr>pool_Name = ''hot'', pool_Replicas = 1, pool_Roles = [''data''], pool_StorageSize = ''50Gi''\<rparr>"

definition pool_cluster :: "DrainPhase \<Rightarrow> WazuhCluster" where
  "pool_cluster p = set_indexer_drain (zero_status\<lparr>ds_Phase := p\<rparr>)
     (drain_cluster\<lparr>wc_Indexer := Some (plain_indexer 0 [data_pool])\<rparr>)"

lemma pool_cluster_sel:
  "indexer_drain_enabled (pool_cluster p)" "ds_Phase (getOrInitNodePoolDrainStatus (pool_cluster p)) = p"
  "wc_Indexer (pool_cluster p) = Some (plain_indexer 0 [data_pool])"
  "Pool_HasDataRole data_pool" "sint (pool_Replicas data_pool) < sint (3 :: i32)"
  by (simp_all add: pool_cluster_def drain_cluster_def indexer_drain_enabled_def indexer_drain_config_def data_pool_def
      getOrInitNodePoolDrainStatus_def Pool_HasDataRole_def Pool_HasRole_def set_indexer_drain_def indexer_drain_def)

lemma sample_pool_verify:
  assumes "idr_client d = Some c"
  shows "\<exists>w'. run_state (VerifyNodePoolDrainComplete drain_env d pods) w = (Inr True, w')"
  unfolding VerifyNodePoolDrainComplete_def
proof (induction pods arbitrary: w)
  have q: "settled drain_env node UNIV" for node unfolding drain_env_shards by (rule shards_settled) simp
  case Nil
  obtain m w' where "run_state (HasRelocatingShards drain_env c) w = (Inr (False, m), w')"
    using settled_queries(2) [OF q UNIV_I] by blast
  then show ?case using assms by (simp add: run_io)
next
  have q: "settled drain_env node UNIV" for node unfolding drain_env_shards by (rule shards_settled) simp
  case (Cons pod pods)
  obtain w' where "run_state (VerifyComplete drain_env d pod) w = (Inr True, w')"
    using settled_drainer(2) [OF q UNIV_I assms] by blast
  then show ?case using Cons by (simp add: run_io)
qed

lemma sample_pool_check:
  obtains w1 where "run_state (checkNodePoolScaleDownDrain drain_env drain_reconciler (pool_cluster p) data_pool 3) sample_world =
    (case run_state (pool_drain_switch drain_env (ensure_drainer (pool_cluster p) drain_reconciler) (pool_cluster p) ''hot''
       (GetNodePoolScaleDownTargets (wc_Name (pool_cluster p)) ''hot'' 3 1)) w1 of (x, w') \<Rightarrow> (Some x, w'))"
  by (rule that [of "sample_world\<lparr>w_log := [EHttp sample_client ''GET'' ''/_cluster/health'' None (Inr (sample_resp (Inr green_health) (Inr [])))]\<rparr>"])
     (simp add: checkNodePoolScaleDownDrain_def pool_cluster_sel ensureOpenSearchClient_def ensure_drainer_def
      NewIndexerDrainer_def EvaluateNodePoolScaleDown_def IsScaleDown_def IsCoordinatingOnly_def HasDataRole_def HasRole_def
      HasClusterManagerRole_def OpenSearchRoleData_def OpenSearchRoleClusterManager_def OpenSearchRoleCoordinatingOnly_def
      GetRolesAsStrings_def data_pool_def check_quorum_def drain_reconciler_def check_pool_health_def OpenSearchHealthGreen_def
      drain_env_def sample_env_defs sample_resp_def green_health_def api_defs run_io Let_def split: prod.split)

theorem nodepool_scale_down_drained_witness:
  "\<exists>r' c' w' es. pool_history drain_env (indexer_drain (pool_cluster DrainPhaseVerifying)) [] [] \<and>
     run_state (checkNodePoolScaleDownDrain drain_env drain_reconciler (pool_cluster DrainPhaseVerifying) data_pool 3)
       sample_world = (Some (r', c', Inr False), w') \<and> w_log w' = es \<and>
     all_seen es (pool_targets (pool_cluster DrainPhaseVerifying) data_pool 3)"
proof -
  let ?c = "pool_cluster DrainPhaseVerifying" and ?r = "ensure_drainer (pool_cluster DrainPhaseVerifying) drain_reconciler"
  let ?pods = "GetNodePoolScaleDownTargets (wc_Name (pool_cluster DrainPhaseVerifying)) ''hot'' 3 1"
  obtain w1 where check: "run_state (checkNodePoolScaleDownDrain drain_env drain_reconciler ?c data_pool 3) sample_world =
    (case run_state (pool_drain_switch drain_env ?r ?c ''hot'' ?pods) w1 of (x, w') \<Rightarrow> (Some x, w'))"
    by (rule sample_pool_check)
  obtain d where d: "ir_drainer ?r = Some d" "idr_client d = Some sample_client"
    by (simp add: ensure_drainer_def drain_reconciler_def NewIndexerDrainer_def)
  obtain w2 where v: "run_state (VerifyNodePoolDrainComplete drain_env d ?pods) w1 = (Inr True, w2)"
    using sample_pool_verify [OF d(2)] by blast
  obtain r' c' w' where run: "run_state (checkNodePoolScaleDownDrain drain_env drain_reconciler ?c data_pool 3) sample_world =
      (Some (r', c', Inr False), w')"
    using check d v by (auto simp: pool_drain_switch_def pool_cluster_sel run_bind Let_def split: prod.splits)
  have "stored_phase (indexer_drain ?c) = DrainPhaseVerifying" using pool_cluster_sel(2) by (simp add: init_phase)
  moreover from this have h: "pool_history drain_env (indexer_drain ?c) [] []"
    by (intro pool_history.not_complete) (simp flip: stored_phase_complete)
  moreover have "run_state (ensureOpenSearchClient drain_env drain_reconciler ?c) w = ((drain_reconciler, None), w)" for w
    by (simp add: ensureOpenSearchClient_def drain_sample(4))
  moreover have "w_log sample_world = []" by (simp add: sample_world_def new_world_def)
  ultimately show ?thesis
    using nodepool_scale_down_drained [OF h run pool_cluster_sel(1, 3, 4, 5)] run by simp
qed

text \<open>
  C32: On a pending phase the pool shrinks undrained. The stored status is shared with the
  retry logic, which sets it to pending; the check has no case for that phase, so unless it
  fails it answers that the scale-down may go on, having asked at most for the cluster's
  health: no node was excluded from allocation, and no node's shards were looked at.
\<close>

theorem nodepool_pending_not_drained:
  assumes "run_state (checkNodePoolScaleDownDrain E r cluster pool n) w = (Some (r', c', Inr b), w')"
    and "indexer_drain_enabled cluster" and "wc_Indexer cluster = Some spec" and "ir_osClient r = Some c"
    and "ir_drainer r = None \<or> ready r" and "Pool_HasDataRole pool" and "sint (pool_Replicas pool) < sint n"
    and "ds_Phase (getOrInitNodePoolDrainStatus cluster) = DrainPhasePending"
  shows "b = False \<and> (\<exists>c es. w_log w' = w_log w @ es \<and> list_all (saw_health c (\<lambda>h. True)) es)"
proof -
  obtain res d c0 w1 where
    e: "run_state (EvaluateNodePoolScaleDown E d (pool_info cluster pool n) (getTotalClusterManagers spec)) w = (Some res, w1)"
    and d: "idr_client d = Some c0"
    and sw: "run_state (pool_drain_switch E (ensure_drainer cluster r) cluster (pool_Name pool)
       (GetNodePoolScaleDownTargets (wc_Name cluster) (pool_Name pool) n (pool_Replicas pool))) w1 = ((r', c', Inr b), w')"
    using assms(1-7) by (rule pool_check_run)
  have "b = False" "w' = w1" using sw assms(8) by (auto simp: pool_drain_switch_def Let_def)
  obtain h w2 where h: "run_state (GetClusterHealth E c0) w = (h, w2)" by fastforce
  have nc: "\<not> IsCoordinatingOnly (pool_info cluster pool n)"
    using coordinating_no_data [of "pool_info cluster pool n"] assms(6) by auto
  have "w1 = w2" "\<exists>hh. h = Inr hh"
    using e d h nc assms(6, 7)
    by (cases h; auto simp: EvaluateNodePoolScaleDown_def check_pool_health_def run_bind Let_def)+
  then obtain ev where "w_log w1 = w_log w @ [ev]" "saw_health c0 (\<lambda>h. True) ev"
    using h GetClusterHealth_saw [of E c0 w _ w2] saw_health_mono by (metis (mono_tags, lifting))
  with \<open>b = False\<close> \<open>w' = w1\<close> show ?thesis by (intro conjI exI [of _ c0] exI [of _ "[ev]"]) simp_all
qed

theorem nodepool_pending_not_drained_witness:
  "\<exists>r' c' w'. run_state (checkNodePoolScaleDownDrain drain_env drain_reconciler (pool_cluster DrainPhasePending) data_pool 3)
       sample_world = (Some (r', c', Inr False), w') \<and> (\<exists>c. list_all (saw_health c (\<lambda>h. True)) (w_log w'))"
proof -
  let ?c = "pool_cluster DrainPhasePending"
  obtain w1 where check: "run_state (checkNodePoolScaleDownDrain drain_env drain_reconciler ?c data_pool 3) sample_world =
    (case run_state (pool_drain_switch drain_env (ensure_drainer ?c drain_reconciler) ?c ''hot''
       (GetNodePoolScaleDownTargets (wc_Name ?c) ''hot'' 3 1)) w1 of (x, w') \<Rightarrow> (Some x, w'))"
    by (rule sample_pool_check)
  then obtain r' c' w' where run: "run_state (checkNodePoolScaleDownDrain drain_env drain_reconciler ?c data_pool 3) sample_world =
      (Some (r', c', Inr False), w')" by (simp add: pool_drain_switch_def pool_cluster_sel Let_def)
  have "w_log sample_world = []" by (simp add: sample_world_def new_world_def)
  then show ?thesis
    using nodepool_pending_not_drained [OF run pool_cluster_sel(1, 3) drain_sample(4) disjI1 [OF drain_sample(5)]
        pool_cluster_sel(4, 5, 2)] run by auto
qed

end
