(* ===== verification/Labels.thy ===== *)
theory Labels
  imports Prelude
begin

section \<open>Labels and selectors (pkg/constants/labels.go)\<close>

text \<open>
  The label sets of the operator's objects and the selectors that find them again. A label
  selector of Kubernetes by \<open>matchLabels\<close> selects the objects that carry each of its pairs.
  The lemma \<open>selects_own\<close>: a selector finds the objects of its own cluster and component only.
\<close>

definition LabelName :: string where "LabelName = ''app.kubernetes.io/name''"
definition LabelManagerNodeType :: string where "LabelManagerNodeType = ''wazuh.com/manager-node-type''"
definition ComponentManager :: string where "ComponentManager = ''manager''"
definition ComponentIndexer :: string where "ComponentIndexer = ''indexer''"
definition ComponentDashboard :: string where "ComponentDashboard = ''dashboard''"

definition CommonLabels :: "string \<Rightarrow> string \<Rightarrow> string \<Rightarrow> labels" where
  "CommonLabels clusterName component version = [
     (LabelName, ''wazuh-'' @ component), (''app.kubernetes.io/instance'', clusterName),
     (''app.kubernetes.io/version'', version), (''app.kubernetes.io/component'', component),
     (''app.kubernetes.io/part-of'', ''wazuh''), (''app.kubernetes.io/managed-by'', ''wazuh-operator''),
     (''wazuh.com/cluster'', clusterName), (''wazuh.com/managed-by'', ''wazuh-operator'')]"

definition SelectorLabels :: "string \<Rightarrow> string \<Rightarrow> labels" where
  "SelectorLabels clusterName component = [(LabelName, ''wazuh-'' @ component),
     (''app.kubernetes.io/instance'', clusterName), (''wazuh.com/cluster'', clusterName)]"

text \<open>\<open>labels[k] = v\<close>, and the loop that copies a map into another.\<close>

definition label_set :: "labels \<Rightarrow> string \<Rightarrow> string \<Rightarrow> labels" where
  "label_set ls k v = (k, v) # filter (\<lambda>kv. fst kv \<noteq> k) ls"

definition label_merge :: "labels \<Rightarrow> labels \<Rightarrow> labels" where
  "label_merge ls extra = foldl (\<lambda>acc kv. label_set acc (fst kv) (snd kv)) ls extra"

definition selects :: "labels \<Rightarrow> labels \<Rightarrow> bool" where
  "selects selector ls = list_all (\<lambda>(k, v). map_of ls k = Some v) selector"

lemma label_set_get: "map_of (label_set ls k v) j = (if j = k then Some v else map_of ls j)"
proof -
  have "map_of (filter (\<lambda>kv. fst kv \<noteq> k) ls) j = map_of ls j" if "j \<noteq> k"
    using that by (induction ls) auto
  then show ?thesis by (simp add: label_set_def)
qed

lemma label_merge_get: "j \<notin> fst ` set extra \<Longrightarrow> map_of (label_merge ls extra) j = map_of ls j"
  unfolding label_merge_def by (induction extra arbitrary: ls) (auto simp: label_set_get)

lemma selects_own: "selects (SelectorLabels c k) (CommonLabels d j version) \<longleftrightarrow> c = d \<and> k = j"
  by (auto simp: selects_def SelectorLabels_def CommonLabels_def LabelName_def)

end
