(* ===== verification/Rolling.thy ===== *)
theory Rolling
  imports IndexerReconcile Labels "HOL-Library.Multiset"
begin

section \<open>Rolling restarts (internal/shared/rolling, the health checkers and the callers)\<close>

text \<open>
  \<open>OrchestrateRestart\<close> makes one step of a rolling restart: it deletes at most one pod that is
  not on the target revision. The health check before it is the locale \<open>health_checker\<close>, which
  the two checkers of the operator satisfy; \<open>sort.Slice\<close> is an argument whose contract is the
  locale \<open>slice_sort\<close>, satisfied by insertion sort. The properties: a pod is deleted only when
  all pods of the StatefulSet are ready, the check was passed, and no outdated pod has a higher
  ordinal; and across all node pools of the indexer, one call deletes at most one pod.
\<close>

datatype RestartPhase = RestartPhaseIdle | RestartPhaseInProgress | RestartPhaseComplete

record RestartResult =
  rst_Phase :: RestartPhase
  rst_TotalPods :: i32
  rst_UpdatedPods :: i32
  rst_CurrentPod :: string
  rst_Message :: string

type_synonym 's checker = "('s, (bool \<times> string) result) io"

definition isPodReady :: "Pod \<Rightarrow> bool" where
  "isPodReady pod = (case find (\<lambda>c. fst c = ''Ready'') (pod_Conditions pod) of
     None \<Rightarrow> False | Some c \<Rightarrow> snd c = ''True'')"

definition extractOrdinal :: "string \<Rightarrow> int" where
  "extractOrdinal podName = (case atoi (last (split_on CHR ''-'' podName)) of None \<Rightarrow> 0 | Some n \<Rightarrow> n)"

definition owned_by :: "string \<Rightarrow> Pod list \<Rightarrow> Pod list" where
  "owned_by uid pods = filter (\<lambda>pod. list_ex (\<lambda>o'. o' = uid) (pod_Owners pod)) pods"

definition on_revision :: "string \<Rightarrow> Pod \<Rightarrow> bool" where
  "on_revision revision pod = (label_get (pod_Labels pod) ''controller-revision-hash'' = revision)"

definition ordinal_less :: "bool \<Rightarrow> Pod \<Rightarrow> Pod \<Rightarrow> bool" where
  "ordinal_less highestFirst p q = (if highestFirst then extractOrdinal (pod_Name p) > extractOrdinal (pod_Name q)
     else extractOrdinal (pod_Name p) < extractOrdinal (pod_Name q))"

type_synonym sorter = "(Pod \<Rightarrow> Pod \<Rightarrow> bool) \<Rightarrow> Pod list \<Rightarrow> Pod list"

definition OrchestrateRestart :: "sorter \<Rightarrow> 's env \<Rightarrow> StatefulSet \<Rightarrow> 's checker \<Rightarrow> bool \<Rightarrow> ('s, RestartResult result) io" where
  "OrchestrateRestart sort_slice E sts healthChecker deleteHighestFirst =
     (let targetRevision = sts_UpdateRevision sts in
      if targetRevision = sts_CurrentRevision sts then
        ret (Inr \<lparr>rst_Phase = RestartPhaseIdle, rst_TotalPods = sts_Replicas sts, rst_UpdatedPods = sts_Replicas sts,
          rst_CurrentPod = [], rst_Message = ''all pods are on current revision''\<rparr>)
      else try_io (list_pods E (sts_Namespace sts) (sts_MatchLabels sts))
        (wrapf (''failed to list pods for StatefulSet '' @ sts_Name sts @ '': '')) (\<lambda>podList.
        let ownedPods = owned_by (sts_UID sts) podList;
            updatedPods = filter (on_revision targetRevision) ownedPods;
            outdatedPods = filter (\<lambda>pod. \<not> on_revision targetRevision pod) ownedPods;
            totalPods = to_i32 (int (length ownedPods));
            updatedCount = to_i32 (int (length updatedPods));
            inProgress = \<lparr>rst_Phase = RestartPhaseInProgress, rst_TotalPods = totalPods,
              rst_UpdatedPods = updatedCount, rst_CurrentPod = [], rst_Message = []\<rparr> in
        if outdatedPods = [] then
          ret (Inr (inProgress\<lparr>rst_Phase := RestartPhaseComplete, rst_Message := ''all pods updated to target revision''\<rparr>))
        else case find (\<lambda>pod. \<not> isPodReady pod) ownedPods of
          Some pod \<Rightarrow> ret (Inr (inProgress\<lparr>rst_CurrentPod := pod_Name pod,
            rst_Message := ''waiting for pod '' @ pod_Name pod @ '' to become ready''\<rparr>))
        | None \<Rightarrow>
            try_io healthChecker (wrapf (''health check failed for StatefulSet '' @ sts_Name sts @ '': '')) (\<lambda>(healthy, msg).
            if \<not> healthy then ret (Inr (inProgress\<lparr>rst_Message := ''waiting for cluster health: '' @ msg\<rparr>))
            else
              let podToDelete = hd (sort_slice (ordinal_less deleteHighestFirst) outdatedPods) in
              try_io (delete_pod E podToDelete) (wrapf (''failed to delete pod '' @ pod_Name podToDelete @ '': '')) (\<lambda>u.
              ret (Inr (inProgress\<lparr>rst_CurrentPod := pod_Name podToDelete,
                rst_Message := ''deleted pod '' @ pod_Name podToDelete @ '' ('' @ show_i32 updatedCount @ ''/'' @
                  show_i32 totalPods @ '' updated)''\<rparr>))))))"

subsection \<open>The health checkers\<close>

definition Indexer_IsHealthyForRestart :: "'s env \<Rightarrow> OSClient \<Rightarrow> int \<Rightarrow> 's checker" where
  "Indexer_IsHealthyForRestart E c desiredNodeCount =
     try_io (GetClusterHealth E c) (wrapf ''failed to get cluster health: '') (\<lambda>health.
       ret (Inr
         (if ch_Status health = OpenSearchHealthRed then
            (False, ''cluster status is RED ('' @ show_i64 (ch_UnassignedShards health) @ '' unassigned shards)'')
          else if sint (ch_RelocatingShards health) > 0 then
            (False, ''cluster has '' @ show_i64 (ch_RelocatingShards health) @ '' relocating shards'')
          else if sint (ch_InitializingShards health) > 0 then
            (False, ''cluster has '' @ show_i64 (ch_InitializingShards health) @ '' initializing shards'')
          else if sint (ch_NumberOfNodes health) < desiredNodeCount then
            (False, ''cluster has '' @ show_i64 (ch_NumberOfNodes health) @ '' nodes, expected '' @ show_int desiredNodeCount)
          else (True, ''cluster is '' @ ch_Status health @ '' with '' @ show_i64 (ch_NumberOfNodes health) @ '' nodes''))))"

definition Manager_IsHealthyForRestart :: "'s env \<Rightarrow> string \<Rightarrow> labels \<Rightarrow> 's checker" where
  "Manager_IsHealthyForRestart E ns selectorLabels =
     try_io (list_pods E ns selectorLabels) (wrapf ''failed to list pods: '') (\<lambda>pods.
       ret (Inr (case find (\<lambda>pod. \<not> isPodReady pod) pods of
           Some pod \<Rightarrow> (False, ''pod '' @ pod_Name pod @ '' is not ready'')
         | None \<Rightarrow> (True, ''all '' @ show_nat (length pods) @ '' pods are ready''))))"

subsection \<open>The callers\<close>

text \<open>The recorder is set when the controller is set up, so its events are always sent.\<close>

definition progress_event :: "RestartResult \<Rightarrow> string \<Rightarrow> string \<Rightarrow> ('s, unit) io" where
  "progress_event result progressMsg completeMsg = do {
     _ \<leftarrow> (if rst_Phase result = RestartPhaseInProgress \<and> rst_CurrentPod result \<noteq> []
          then record_event False ''RollingRestartProgress'' progressMsg else ret ());
     if rst_Phase result = RestartPhaseComplete
     then record_event False ''RollingRestartComplete'' completeMsg else ret () }"

definition counts :: "RestartResult \<Rightarrow> string" where
  "counts result = '' ('' @ show_i32 (rst_UpdatedPods result) @ ''/'' @ show_i32 (rst_TotalPods result) @ '' updated)''"

text \<open>The loop over the node pools, with the two running totals.\<close>

fun restart_pools :: "sorter \<Rightarrow> 's env \<Rightarrow> WazuhCluster \<Rightarrow> 's checker \<Rightarrow> IndexerNodePoolSpec list \<Rightarrow> i32 \<Rightarrow> i32 \<Rightarrow>
    ('s, RestartResult option result) io" where
  "restart_pools sort_slice E cluster checker [] totalPods updated =
     (if totalPods = 0 then ret (Inr None)
      else do {
        _ \<leftarrow> record_event False ''RollingRestartComplete'' ''Rolling restart complete for all indexer node pools'';
        ret (Inr (Some \<lparr>rst_Phase = RestartPhaseComplete, rst_TotalPods = totalPods, rst_UpdatedPods = updated,
          rst_CurrentPod = [], rst_Message = ''all node pools updated''\<rparr>)) })"
| "restart_pools sort_slice E cluster checker (pool # pools) totalPods updated = do {
     g \<leftarrow> get_sts E (wc_Namespace cluster) (IndexerNodePoolName (wc_Name cluster) (pool_Name pool));
     case g of
       Inl err \<Rightarrow> restart_pools sort_slice E cluster checker pools totalPods updated
     | Inr sts \<Rightarrow>
        if sts_UpdateRevision sts = sts_CurrentRevision sts then
          restart_pools sort_slice E cluster checker pools (totalPods + sts_Replicas sts) (updated + sts_Replicas sts)
        else
          try_io (OrchestrateRestart sort_slice E sts checker True)
            (wrapf (''rolling restart failed for nodePool '' @ pool_Name pool @ '': '')) (\<lambda>result.
          if rst_Phase result = RestartPhaseInProgress then do {
            _ \<leftarrow> (if rst_CurrentPod result \<noteq> [] then
                 record_event False ''RollingRestartProgress'' (''Rolling restart: deleted indexer pod '' @
                   rst_CurrentPod result @ '' in pool '' @ pool_Name pool @ counts result)
               else ret ());
            ret (Inr (Some \<lparr>rst_Phase = RestartPhaseInProgress, rst_TotalPods = totalPods + sts_Replicas sts,
              rst_UpdatedPods = updated + rst_UpdatedPods result, rst_CurrentPod = rst_CurrentPod result,
              rst_Message = ''pool '' @ pool_Name pool @ '': '' @ rst_Message result\<rparr>)) }
          else restart_pools sort_slice E cluster checker pools (totalPods + sts_Replicas sts)
            (updated + rst_UpdatedPods result)) }"

definition orchestrateNodePoolRollingRestart :: "sorter \<Rightarrow> 's env \<Rightarrow> IndexerReconciler \<Rightarrow> WazuhCluster \<Rightarrow>
    WazuhIndexerClusterSpec \<Rightarrow> ('s, IndexerReconciler \<times> RestartResult option result) io" where
  "orchestrateNodePoolRollingRestart sort_slice E r cluster spec = do {
     (r', err) \<leftarrow> ensureOpenSearchClient E r cluster;
     case err of
       Some e \<Rightarrow> ret (r', Inr None)
     | None \<Rightarrow> do {
         let checker = Indexer_IsHealthyForRestart E (the (ir_osClient r')) (sint (Indexer_GetTotalReplicas spec));
         x \<leftarrow> restart_pools sort_slice E cluster checker (ics_NodePools spec) 0 0;
         ret (r', x) } }"

definition OrchestrateRollingRestart :: "sorter \<Rightarrow> 's env \<Rightarrow> IndexerReconciler \<Rightarrow> WazuhCluster \<Rightarrow>
    ('s, IndexerReconciler \<times> RestartResult option result) io" where
  "OrchestrateRollingRestart sort_slice E r cluster = (case wc_Indexer cluster of
     None \<Rightarrow> ret (r, Inr None)
   | Some spec \<Rightarrow>
      if IsAdvancedMode spec then orchestrateNodePoolRollingRestart sort_slice E r cluster spec
      else do {
        g \<leftarrow> get_sts E (wc_Namespace cluster) (IndexerName (wc_Name cluster));
        case g of
          Inl err \<Rightarrow> ret (r, Inl (wrapf (''failed to get indexer StatefulSet '' @ IndexerName (wc_Name cluster) @ '': '') err))
        | Inr sts \<Rightarrow>
           if sts_UpdateRevision sts = sts_CurrentRevision sts then ret (r, Inr None)
           else do {
             (r', err) \<leftarrow> ensureOpenSearchClient E r cluster;
             case err of
               Some e \<Rightarrow> ret (r', Inr None)
             | None \<Rightarrow> do {
                 x \<leftarrow> OrchestrateRestart sort_slice E sts
                   (Indexer_IsHealthyForRestart E (the (ir_osClient r')) (sint (ics_Replicas spec))) True;
                 case x of
                   Inl err \<Rightarrow> ret (r', Inl (wrapf ''rolling restart failed for indexer: '' err))
                 | Inr result \<Rightarrow> do {
                     _ \<leftarrow> progress_event result (''Rolling restart: deleted indexer pod '' @ rst_CurrentPod result @ counts result)
                       ''Rolling restart complete for indexer'';
                     ret (r', Inr (Some result)) } } } })"

definition orchestrateWorkerRestart :: "sorter \<Rightarrow> 's env \<Rightarrow> WazuhCluster \<Rightarrow> ('s, RestartResult option result) io" where
  "orchestrateWorkerRestart sort_slice E cluster = do {
     g \<leftarrow> get_sts E (wc_Namespace cluster) (ManagerWorkerName (wc_Name cluster));
     case g of
       Inl err \<Rightarrow> ret (if IsNotFound err then Inr None else Inl (wrapf ''failed to get worker StatefulSet: '' err))
     | Inr sts \<Rightarrow>
        if sts_UpdateRevision sts = sts_CurrentRevision sts then ret (Inr None)
        else
          let workerLabels = label_set (SelectorLabels (wc_Name cluster) ''wazuh-manager'') LabelManagerNodeType ''worker'' in
          try_io (OrchestrateRestart sort_slice E sts (Manager_IsHealthyForRestart E (wc_Namespace cluster) workerLabels) True) id
            (\<lambda>result. do {
              _ \<leftarrow> progress_event result (''Rolling restart: deleted worker pod '' @ rst_CurrentPod result @ counts result)
                ''Rolling restart complete for manager workers'';
              ret (Inr (Some result)) }) }"

definition orchestrateMasterRestart :: "sorter \<Rightarrow> 's env \<Rightarrow> WazuhCluster \<Rightarrow> ('s, RestartResult option result) io" where
  "orchestrateMasterRestart sort_slice E cluster = do {
     g \<leftarrow> get_sts E (wc_Namespace cluster) (ManagerMasterName (wc_Name cluster));
     case g of
       Inl err \<Rightarrow> ret (if IsNotFound err then Inr None else Inl (wrapf ''failed to get master StatefulSet: '' err))
     | Inr sts \<Rightarrow>
        if sts_UpdateRevision sts = sts_CurrentRevision sts then ret (Inr None)
        else
          let masterLabels = SelectorLabels (wc_Name cluster) ''wazuh-manager'' in
          try_io (OrchestrateRestart sort_slice E sts (Manager_IsHealthyForRestart E (wc_Namespace cluster) masterLabels) True) id
            (\<lambda>result. do {
              _ \<leftarrow> progress_event result (''Rolling restart: deleted master pod '' @ rst_CurrentPod result)
                ''Rolling restart complete for manager master'';
              ret (Inr (Some result)) }) }"

text \<open>The results for the master and the workers, and the error if any.\<close>

definition OrchestrateManagerRollingRestart :: "sorter \<Rightarrow> 's env \<Rightarrow> WazuhCluster \<Rightarrow>
    ('s, RestartResult option \<times> RestartResult option \<times> gerror option) io" where
  "OrchestrateManagerRollingRestart sort_slice E cluster = (case wc_Manager cluster of
     None \<Rightarrow> ret (None, None, None)
   | Some m \<Rightarrow> do {
       x \<leftarrow> orchestrateWorkerRestart sort_slice E cluster;
       case x of
         Inl err \<Rightarrow> ret (None, None, Some (wrapf ''worker rolling restart failed: '' err))
       | Inr workerResult \<Rightarrow>
          if (case workerResult of None \<Rightarrow> False | Some w \<Rightarrow> rst_Phase w = RestartPhaseInProgress)
          then ret (None, workerResult, None)
          else do {
            y \<leftarrow> orchestrateMasterRestart sort_slice E cluster;
            ret (case y of
                Inl err \<Rightarrow> (None, workerResult, Some (wrapf ''master rolling restart failed: '' err))
              | Inr masterResult \<Rightarrow> (masterResult, workerResult, None)) } })"

section \<open>One step deletes at most one pod, and only when it is safe\<close>

text \<open>
  \<open>sort.Slice\<close> permutes the slice so that no element is less than one before it, whenever the
  function it is given is a strict weak order; equal elements may come in any order. Go sorts
  short slices by insertion, which is an instance.
\<close>

definition strict_weak :: "('a \<Rightarrow> 'a \<Rightarrow> bool) \<Rightarrow> bool" where
  "strict_weak lt \<longleftrightarrow> (\<forall>x. \<not> lt x x) \<and> (\<forall>x y z. lt x y \<longrightarrow> lt y z \<longrightarrow> lt x z) \<and>
     (\<forall>x y z. lt x z \<longrightarrow> lt x y \<or> lt y z)"

locale slice_sort =
  fixes sort_slice :: sorter
  assumes sort_perm: "mset (sort_slice lt pods) = mset pods"
    and sort_order: "strict_weak lt \<Longrightarrow> sorted_wrt (\<lambda>p q. \<not> lt q p) (sort_slice lt pods)"
begin

lemma sort_nonempty: "pods \<noteq> [] \<Longrightarrow> sort_slice lt pods \<noteq> []"
  using sort_perm [of lt pods] by auto

lemma sort_hd: "pods \<noteq> [] \<Longrightarrow> hd (sort_slice lt pods) \<in> set pods"
  using sort_nonempty [of pods lt] sort_perm [of lt pods] by (metis hd_in_set set_mset_mset)

lemma sort_hd_least:
  assumes "strict_weak lt" and "p \<in> set pods"
  shows "\<not> lt p (hd (sort_slice lt pods))"
proof -
  have p: "p \<in> set (sort_slice lt pods)" using assms(2) sort_perm [of lt pods] by (metis set_mset_mset)
  then obtain q qs where q: "sort_slice lt pods = q # qs" by (cases "sort_slice lt pods") auto
  then show ?thesis using p sort_order [OF assms(1), of pods] assms(1) by (auto simp: strict_weak_def)
qed

end

fun insert_by :: "('a \<Rightarrow> 'a \<Rightarrow> bool) \<Rightarrow> 'a \<Rightarrow> 'a list \<Rightarrow> 'a list" where
  "insert_by lt x [] = [x]"
| "insert_by lt x (y # ys) = (if lt y x then y # insert_by lt x ys else x # y # ys)"

definition insertion_sort :: "('a \<Rightarrow> 'a \<Rightarrow> bool) \<Rightarrow> 'a list \<Rightarrow> 'a list" where
  "insertion_sort lt xs = foldr (insert_by lt) xs []"

lemma mset_insert_by: "mset (insert_by lt x xs) = add_mset x (mset xs)"
  by (induction xs) auto

lemma set_insert_by: "set (insert_by lt x xs) = insert x (set xs)"
  using mset_insert_by [of lt x xs] by (metis set_mset_add_mset_insert set_mset_mset)

lemma sorted_insert_by:
  assumes lt: "strict_weak lt" and "sorted_wrt (\<lambda>p q. \<not> lt q p) xs"
  shows "sorted_wrt (\<lambda>p q. \<not> lt q p) (insert_by lt x xs)"
  using assms(2)
proof (induction xs)
  case (Cons y ys)
  show ?case
  proof (cases "lt y x")
    case True
    then have "\<not> lt x y" using lt unfolding strict_weak_def by metis
    then show ?thesis using True Cons by (auto simp: set_insert_by)
  next
    case False
    have "\<not> lt z x" if "z \<in> set ys" for z
      using that Cons.prems False lt unfolding strict_weak_def by (metis list.set_intros(1) sorted_wrt.simps(2))
    then show ?thesis using False Cons by auto
  qed
qed simp

interpretation go_sort: slice_sort insertion_sort
proof
  fix lt and pods :: "Pod list"
  show "mset (insertion_sort lt pods) = mset pods"
    unfolding insertion_sort_def by (induction pods) (auto simp: mset_insert_by)
  show "sorted_wrt (\<lambda>p q. \<not> lt q p) (insertion_sort lt pods)" if "strict_weak lt"
    unfolding insertion_sort_def by (induction pods) (auto intro: sorted_insert_by [OF that])
qed

lemma ordinal_less_weak: "strict_weak (ordinal_less highestFirst)"
  by (auto simp: strict_weak_def ordinal_less_def)

lemma sort_hd_highest:
  "slice_sort sort_slice \<Longrightarrow> p \<in> set pods \<Longrightarrow>
    extractOrdinal (pod_Name p) \<le> extractOrdinal (pod_Name (hd (sort_slice (ordinal_less True) pods)))"
  using slice_sort.sort_hd_least [OF _ ordinal_less_weak [of True], of sort_slice p pods]
  by (simp add: ordinal_less_def)

subsection \<open>Deletions\<close>

fun is_delete :: "effect \<Rightarrow> bool" where
  "is_delete (EDeletePod ns name) = True"
| "is_delete e = False"

abbreviation no_delete :: "effect list \<Rightarrow> bool" where
  "no_delete es \<equiv> list_all (\<lambda>e. \<not> is_delete e) es"

definition outdated :: "StatefulSet \<Rightarrow> Pod list \<Rightarrow> Pod list" where
  "outdated sts pods = filter (\<lambda>pod. \<not> on_revision (sts_UpdateRevision sts) pod) (owned_by (sts_UID sts) pods)"

text \<open>
  The one way a step of a restart from \<open>w\<close> to \<open>w'\<close> may delete a pod: of the pods the API server
  listed, those of the StatefulSet are all ready; the health check \<open>passed\<close>; nothing else was
  deleted; and the pod is an outdated one, of the highest ordinal.
\<close>

definition restart_delete :: "'s env \<Rightarrow> ('s world \<Rightarrow> 's world \<Rightarrow> bool) \<Rightarrow> StatefulSet \<Rightarrow> Pod \<Rightarrow> 's world \<Rightarrow> 's world \<Rightarrow> bool" where
  "restart_delete E passed sts pod w w' \<longleftrightarrow> (\<exists>pods wl wc es.
     run_state (list_pods E (sts_Namespace sts) (sts_MatchLabels sts)) w = (Inr pods, wl) \<and>
     list_all isPodReady (owned_by (sts_UID sts) pods) \<and>
     passed wl wc \<and> w_log wc = w_log w @ es \<and> no_delete es \<and>
     pod \<in> set (outdated sts pods) \<and>
     (\<forall>p \<in> set (outdated sts pods). extractOrdinal (pod_Name p) \<le> extractOrdinal (pod_Name pod)) \<and>
     w' = snd (run_state (delete_pod E pod) wc))"

lemma list_pods_log: "run_state (list_pods E ns sel) w = (y, w') \<Longrightarrow> w_log w' = w_log w"
  by (auto simp: list_pods_def run_ask split: prod.splits)

locale health_checker =
  fixes checker :: "'s checker" and passed :: "'s world \<Rightarrow> 's world \<Rightarrow> bool"
  assumes check_quiet: "logs_only (\<lambda>e. \<not> is_delete e) checker"
    and check_passed: "run_state checker w = (Inr (True, msg), w') \<Longrightarrow> passed w w'"
begin

lemma orchestrate_delete:
  assumes sort: "slice_sort sort_slice" and differ: "sts_UpdateRevision sts \<noteq> sts_CurrentRevision sts"
    and lst: "run_state (list_pods E (sts_Namespace sts) (sts_MatchLabels sts)) w = (Inr pods, wl)"
    and some: "outdated sts pods \<noteq> []"
    and ready: "find (\<lambda>pod. \<not> isPodReady pod) (owned_by (sts_UID sts) pods) = None"
    and chk: "run_state checker wl = (Inr (True, msg), wc)"
    and run: "run_state (OrchestrateRestart sort_slice E sts checker True) w = (x, w')"
  shows "\<exists>pod. restart_delete E passed sts pod w w' \<and> (\<forall>r. x = Inr r \<longrightarrow> rst_Phase r = RestartPhaseInProgress)"
proof -
  let ?pod = "hd (sort_slice (ordinal_less True) (outdated sts pods))"
  obtain d wd where del: "run_state (delete_pod E ?pod) wc = (d, wd)" by fastforce
  obtain es where es: "w_log wc = w_log wl @ es" "no_delete es" by (rule logs_onlyD [OF check_quiet chk])
  have "w' = wd \<and> (\<forall>r. x = Inr r \<longrightarrow> rst_Phase r = RestartPhaseInProgress)"
    using run differ lst some ready chk del
    by (cases d) (auto simp: OrchestrateRestart_def run_try Let_def outdated_def)
  moreover have "restart_delete E passed sts ?pod w wd"
    unfolding restart_delete_def
    using lst ready check_passed [OF chk] es list_pods_log [OF lst] del slice_sort.sort_hd [OF sort some] sort_hd_highest [OF sort]
    by (intro exI [of _ pods] exI [of _ wl] exI [of _ wc] exI [of _ es])
      (auto simp: find_None_iff list_all_iff)
  ultimately show ?thesis by blast
qed

lemma orchestrate_cases:
  assumes sort: "slice_sort sort_slice"
    and run: "run_state (OrchestrateRestart sort_slice E sts checker True) w = (x, w')"
  shows "(\<exists>es. w_log w' = w_log w @ es \<and> no_delete es) \<or>
    (\<exists>pod. restart_delete E passed sts pod w w' \<and> (\<forall>r. x = Inr r \<longrightarrow> rst_Phase r = RestartPhaseInProgress))"
proof (cases "sts_UpdateRevision sts = sts_CurrentRevision sts")
  case True
  then show ?thesis using run by (auto simp: OrchestrateRestart_def)
next
  case differ: False
  obtain y wl where lst: "run_state (list_pods E (sts_Namespace sts) (sts_MatchLabels sts)) w = (y, wl)" by fastforce
  note log = list_pods_log [OF lst]
  show ?thesis
  proof (cases y)
    case (Inl e)
    then show ?thesis using run differ lst log by (auto simp: OrchestrateRestart_def run_try Let_def)
  next
    case (Inr pods)
    obtain c wc where chk: "run_state checker wl = (c, wc)" by fastforce
    obtain es where es: "w_log wc = w_log wl @ es" "no_delete es" by (rule logs_onlyD [OF check_quiet chk])
    let ?unready = "find (\<lambda>pod. \<not> isPodReady pod) (owned_by (sts_UID sts) pods)"
    consider "outdated sts pods = [] \<or> ?unready \<noteq> None" | "outdated sts pods \<noteq> []" "?unready = None" "\<forall>msg. c \<noteq> Inr (True, msg)"
      | msg where "outdated sts pods \<noteq> []" "?unready = None" "c = Inr (True, msg)" by blast
    then show ?thesis
    proof cases
      case 1
      then have "w' = wl" using run differ lst Inr
        by (auto simp: OrchestrateRestart_def run_try Let_def outdated_def split: if_splits)
      then show ?thesis using log by auto
    next
      case 2
      then have "w' = wc" using run differ lst Inr chk
        by (cases c) (auto simp: OrchestrateRestart_def run_try Let_def outdated_def)
      then show ?thesis using es log by auto
    next
      case 3
      then show ?thesis using orchestrate_delete [OF sort differ _ _ _ _ run] lst Inr chk by blast
    qed
  qed
qed

end

subsection \<open>The two health checks\<close>

definition fit_for_restart :: "int \<Rightarrow> ClusterHealth \<Rightarrow> bool" where
  "fit_for_restart n h \<longleftrightarrow> ch_Status h \<noteq> OpenSearchHealthRed \<and> sint (ch_RelocatingShards h) \<le> 0 \<and>
     sint (ch_InitializingShards h) \<le> 0 \<and> n \<le> sint (ch_NumberOfNodes h)"

definition indexer_healthy :: "OSClient \<Rightarrow> int \<Rightarrow> 's world \<Rightarrow> 's world \<Rightarrow> bool" where
  "indexer_healthy c n w w' \<longleftrightarrow> (\<exists>e. w_log w' = w_log w @ [e] \<and> saw_health c (fit_for_restart n) e)"

definition pods_ready :: "'s env \<Rightarrow> string \<Rightarrow> labels \<Rightarrow> 's world \<Rightarrow> 's world \<Rightarrow> bool" where
  "pods_ready E ns sel w w' \<longleftrightarrow> (\<exists>pods. run_state (list_pods E ns sel) w = (Inr pods, w') \<and> list_all isPodReady pods)"

lemma os_read_no_delete: "is_os_read c e \<Longrightarrow> \<not> is_delete e"
  by (cases e) auto

interpretation indexer_health: health_checker "Indexer_IsHealthyForRestart E c n" "indexer_healthy c n" for E c n
proof
  show "logs_only (\<lambda>e. \<not> is_delete e) (Indexer_IsHealthyForRestart E c n)"
    unfolding Indexer_IsHealthyForRestart_def by (intro logs logs_weaken [OF logs_reads(1) os_read_no_delete])
  fix w w' msg
  assume run: "run_state (Indexer_IsHealthyForRestart E c n) w = (Inr (True, msg), w')"
  obtain h w1 where h: "run_state (GetClusterHealth E c) w = (h, w1)" by fastforce
  with run obtain health where health: "h = Inr health" "fit_for_restart n health" "w' = w1"
    by (cases h) (auto simp: Indexer_IsHealthyForRestart_def run_try fit_for_restart_def split: if_splits)
  with h obtain e where e: "w_log w' = w_log w @ [e]" "saw_health c (\<lambda>h'. h' = health) e"
    by (metis GetClusterHealth_saw)
  then have "saw_health c (fit_for_restart n) e"
    using health(2) by (auto elim!: saw_health.elims split: sum.splits)
  with e(1) show "indexer_healthy c n w w'" unfolding indexer_healthy_def by blast
qed

interpretation manager_health: health_checker "Manager_IsHealthyForRestart E ns sel" "pods_ready E ns sel" for E ns sel
proof
  show "logs_only (\<lambda>e. \<not> is_delete e) (Manager_IsHealthyForRestart E ns sel)"
    unfolding Manager_IsHealthyForRestart_def list_pods_def by (intro logs)
  fix w w' msg
  assume run: "run_state (Manager_IsHealthyForRestart E ns sel) w = (Inr (True, msg), w')"
  obtain y w1 where y: "run_state (list_pods E ns sel) w = (y, w1)" by fastforce
  with run show "pods_ready E ns sel w w'"
    by (cases y) (auto simp: Manager_IsHealthyForRestart_def run_try pods_ready_def find_None_iff list_all_iff
        split: option.splits)
qed

subsection \<open>One pod per call\<close>

text \<open>
  Between \<open>w\<close> and \<open>w'\<close> no pod is deleted, or one is, safely, of a StatefulSet the API server
  returned under one of the \<open>names\<close>.
\<close>

definition quiet :: "'s world \<Rightarrow> 's world \<Rightarrow> bool" where
  "quiet w w' \<longleftrightarrow> (\<exists>es. w_log w' = w_log w @ es \<and> no_delete es)"

definition safe_delete :: "'s env \<Rightarrow> ('s world \<Rightarrow> 's world \<Rightarrow> bool) \<Rightarrow> string \<Rightarrow> string set \<Rightarrow> 's world \<Rightarrow> 's world \<Rightarrow> bool" where
  "safe_delete E passed ns names w w' \<longleftrightarrow> (\<exists>sts pod name wg w0 wr w1.
     quiet w wg \<and> name \<in> names \<and> run_state (get_sts E ns name) wg = (Inr sts, w0) \<and>
     sts_UpdateRevision sts \<noteq> sts_CurrentRevision sts \<and> quiet w0 wr \<and> restart_delete E passed sts pod wr w1 \<and> quiet w1 w')"

lemma quiet_refl [simp]: "quiet w w"
  by (simp add: quiet_def)

lemma quiet_trans [trans]: "quiet w w1 \<Longrightarrow> quiet w1 w' \<Longrightarrow> quiet w w'"
  unfolding quiet_def by (metis append.assoc list_all_append)

lemma quiet_run: "logs_only (\<lambda>e. \<not> is_delete e) m \<Longrightarrow> run_state m w = (a, w') \<Longrightarrow> quiet w w'"
  unfolding quiet_def by (meson logs_onlyD)

lemma safe_delete_after: "quiet w w1 \<Longrightarrow> safe_delete E passed ns names w1 w' \<Longrightarrow> safe_delete E passed ns names w w'"
  unfolding safe_delete_def by (blast intro: quiet_trans)

lemma safe_delete_before: "safe_delete E passed ns names w w1 \<Longrightarrow> quiet w1 w' \<Longrightarrow> safe_delete E passed ns names w w'"
  unfolding safe_delete_def by (blast intro: quiet_trans)

lemma safe_delete_mono: "safe_delete E passed ns names w w' \<Longrightarrow> names \<subseteq> names' \<Longrightarrow> safe_delete E passed ns names' w w'"
  unfolding safe_delete_def by blast

lemma quiet_prims [logs]:
  "logs_only (\<lambda>e. \<not> is_delete e) (record_event b x y)" "logs_only P (get_sts E ns name)"
  "logs_only (\<lambda>e. \<not> is_delete e) (progress_event result p c)"
  unfolding progress_event_def prim_defs by (intro logs; simp)+

lemma quiet_client [logs]: "logs_only (\<lambda>e. \<not> is_delete e) (ensureOpenSearchClient E r cluster)"
  unfolding ensureOpenSearchClient_def factory_GetClientForCluster_def GetClientForCluster_def getCredentials_def
    getCACertificate_def cache_put_def get_secret_def Let_def NewClient_def split_beta
  by (intro logs; simp)

lemma step_safe:
  assumes chk: "health_checker checker passed" and sort: "slice_sort sort_slice" and "name \<in> names"
    and get: "run_state (get_sts E ns name) w = (Inr sts, w0)" and "sts_UpdateRevision sts \<noteq> sts_CurrentRevision sts"
    and wr: "quiet w0 wr" and run: "run_state (OrchestrateRestart sort_slice E sts checker True) wr = (x, w1)"
  shows "quiet w w1 \<or> safe_delete E passed ns names w w1 \<and> (\<forall>r. x = Inr r \<longrightarrow> rst_Phase r = RestartPhaseInProgress)"
proof (rule disjE [OF health_checker.orchestrate_cases [OF chk sort run]])
  assume "\<exists>es. w_log w1 = w_log wr @ es \<and> no_delete es"
  then have "quiet wr w1" by (simp add: quiet_def)
  then have "quiet w w1" using quiet_trans [OF quiet_run [OF quiet_prims(2) get] quiet_trans [OF wr]] by blast
  then show ?thesis ..
next
  assume "\<exists>pod. restart_delete E passed sts pod wr w1 \<and> (\<forall>r. x = Inr r \<longrightarrow> rst_Phase r = RestartPhaseInProgress)"
  then show ?thesis using get assms(3, 5) wr quiet_refl [of w] quiet_refl [of w1] unfolding safe_delete_def by blast
qed

definition pool_names :: "WazuhCluster \<Rightarrow> IndexerNodePoolSpec list \<Rightarrow> string set" where
  "pool_names cluster pools = (\<lambda>pool. IndexerNodePoolName (wc_Name cluster) (pool_Name pool)) ` set pools"

definition calm_or_safe :: "'s env \<Rightarrow> ('s world \<Rightarrow> 's world \<Rightarrow> bool) \<Rightarrow> string \<Rightarrow> string set \<Rightarrow> 's world \<Rightarrow> 's world \<Rightarrow> bool" where
  "calm_or_safe E passed ns names w w' \<longleftrightarrow> quiet w w' \<or> safe_delete E passed ns names w w'"

lemma calm_steps:
  "quiet w w1 \<Longrightarrow> calm_or_safe E passed ns names w1 w' \<Longrightarrow> calm_or_safe E passed ns names w w'"
  "calm_or_safe E passed ns names w w1 \<Longrightarrow> quiet w1 w' \<Longrightarrow> calm_or_safe E passed ns names w w'"
  "calm_or_safe E passed ns names w w' \<Longrightarrow> names \<subseteq> names' \<Longrightarrow> calm_or_safe E passed ns names' w w'"
  "quiet w w' \<Longrightarrow> calm_or_safe E passed ns names w w'"
  unfolding calm_or_safe_def
     apply (erule disjE, erule (1) quiet_trans [THEN disjI1], erule (1) safe_delete_after [THEN disjI2])
    apply (erule disjE, erule (1) quiet_trans [THEN disjI1], erule (1) safe_delete_before [THEN disjI2])
   apply (erule disjE, erule disjI1, erule (1) safe_delete_mono [THEN disjI2])
  apply (erule disjI1)
  done

lemma pools_skip:
  assumes "run_state (get_sts E (wc_Namespace cluster) (IndexerNodePoolName (wc_Name cluster) (pool_Name pool))) w = (g, w0)"
    and "\<not> (\<exists>sts. g = Inr sts \<and> sts_UpdateRevision sts \<noteq> sts_CurrentRevision sts)"
  obtains t' u' where "run_state (restart_pools sort_slice E cluster checker (pool # pools) t u) w =
    run_state (restart_pools sort_slice E cluster checker pools t' u') w0"
proof (cases g)
  case (Inl e)
  show ?thesis by (rule that [of t u]) (simp only: restart_pools.simps run_bind assms(1) Inl prod.case sum.case)
next
  case (Inr sts)
  then have eq: "(sts_UpdateRevision sts = sts_CurrentRevision sts) = True" using assms(2) by simp
  show ?thesis by (rule that [of "t + sts_Replicas sts" "u + sts_Replicas sts"])
    (simp only: restart_pools.simps run_bind assms(1) Inr prod.case sum.case eq if_True)
qed

lemma pools_step:
  assumes get: "run_state (get_sts E (wc_Namespace cluster) (IndexerNodePoolName (wc_Name cluster) (pool_Name pool))) w = (Inr sts, w0)"
    and "sts_UpdateRevision sts \<noteq> sts_CurrentRevision sts"
    and y: "run_state (OrchestrateRestart sort_slice E sts checker True) w0 = (y, w1)"
    and run: "run_state (restart_pools sort_slice E cluster checker (pool # pools) t u) w = (x, w')"
  shows "(\<exists>r. y = Inr r \<and> rst_Phase r \<noteq> RestartPhaseInProgress \<and> run_state (restart_pools sort_slice E cluster checker pools
      (t + sts_Replicas sts) (u + rst_UpdatedPods r)) w1 = (x, w')) \<or> quiet w1 w'"
proof -
  have differ: "(sts_UpdateRevision sts = sts_CurrentRevision sts) = False" using assms(2) by simp
  note run' = run [unfolded restart_pools.simps run_bind get prod.case sum.case differ if_False run_try y]
  show ?thesis
  proof (cases y)
    case (Inl e)
    show ?thesis using run' unfolding Inl sum.case by (simp only: prod.inject) simp
  next
    case (Inr r)
    show ?thesis
    proof (cases "rst_Phase r = RestartPhaseInProgress")
      case True
      let ?event = "if rst_CurrentPod r \<noteq> [] then record_event False ''RollingRestartProgress''
        (''Rolling restart: deleted indexer pod '' @ rst_CurrentPod r @ '' in pool '' @ pool_Name pool @ counts r) else ret ()"
      obtain w2 where w2: "run_state ?event w1 = ((), w2)" by (cases "run_state ?event w1") simp
      have "logs_only (\<lambda>e. \<not> is_delete e) ?event" by (intro logs)
      then have "quiet w1 w2" using w2 by (rule quiet_run)
      moreover have "w' = w2"
        using run' unfolding Inr sum.case if_P [OF True] run_bind w2 prod.case run_ret prod.inject by blast
      ultimately show ?thesis by blast
    next
      case False
      show ?thesis using run' unfolding Inr sum.case if_not_P [OF False] using False by blast
    qed
  qed
qed

lemma pools_safe:
  assumes chk: "health_checker checker passed" and sort: "slice_sort sort_slice"
    and "run_state (restart_pools sort_slice E cluster checker pools totalPods updated) w = (x, w')"
  shows "calm_or_safe E passed (wc_Namespace cluster) (pool_names cluster pools) w w'"
  using assms(3)
proof (induction pools arbitrary: totalPods updated w)
  case Nil
  have "logs_only (\<lambda>e. \<not> is_delete e) (restart_pools sort_slice E cluster checker [] totalPods updated)"
    unfolding restart_pools.simps by (intro logs)
  then show ?case using Nil by (intro calm_steps(4)) (rule quiet_run)
next
  case (Cons pool pools)
  let ?name = "IndexerNodePoolName (wc_Name cluster) (pool_Name pool)"
  have rest: "calm_or_safe E passed (wc_Namespace cluster) (pool_names cluster (pool # pools)) w1 w'"
    if "run_state (restart_pools sort_slice E cluster checker pools t u) w1 = (x, w')" for t u w1
    by (rule calm_steps(3) [OF Cons.IH [OF that]]) (auto simp: pool_names_def)
  obtain g w0 where g: "run_state (get_sts E (wc_Namespace cluster) ?name) w = (g, w0)" by fastforce
  have w0: "quiet w w0" using quiet_run [OF quiet_prims(2) g] .
  show ?case
  proof (cases "\<exists>sts. g = Inr sts \<and> sts_UpdateRevision sts \<noteq> sts_CurrentRevision sts")
    case False
    then obtain t u where "run_state (restart_pools sort_slice E cluster checker pools t u) w0 = (x, w')"
      using pools_skip [OF g] Cons.prems by metis
    then show ?thesis by (intro calm_steps(1) [OF w0] rest)
  next
    case True
    then obtain sts where sts: "g = Inr sts" "sts_UpdateRevision sts \<noteq> sts_CurrentRevision sts" by blast
    obtain y w1 where y: "run_state (OrchestrateRestart sort_slice E sts checker True) w0 = (y, w1)" by fastforce
    have step: "quiet w w1 \<or> safe_delete E passed (wc_Namespace cluster) (pool_names cluster (pool # pools)) w w1 \<and>
        (\<forall>r. y = Inr r \<longrightarrow> rst_Phase r = RestartPhaseInProgress)"
      using g sts(1) by (intro step_safe [OF chk sort _ _ sts(2) quiet_refl y, of ?name]) (simp_all add: pool_names_def)
    then have w1: "calm_or_safe E passed (wc_Namespace cluster) (pool_names cluster (pool # pools)) w w1"
      by (auto simp: calm_or_safe_def)
    show ?thesis
    proof (rule disjE [OF pools_step [OF g [unfolded sts(1)] sts(2) y Cons.prems]])
      assume "\<exists>r. y = Inr r \<and> rst_Phase r \<noteq> RestartPhaseInProgress \<and> run_state (restart_pools sort_slice E cluster checker
        pools (totalPods + sts_Replicas sts) (updated + rst_UpdatedPods r)) w1 = (x, w')"
      then obtain r where r: "y = Inr r" "rst_Phase r \<noteq> RestartPhaseInProgress" and run: "run_state (restart_pools sort_slice
        E cluster checker pools (totalPods + sts_Replicas sts) (updated + rst_UpdatedPods r)) w1 = (x, w')" by blast
      have "quiet w w1" using step r by blast
      then show ?thesis by (rule calm_steps(1) [OF _ rest [OF run]])
    qed (rule calm_steps(2) [OF w1])
  qed
qed

subsection \<open>The restart of the indexer\<close>

definition desired_nodes :: "WazuhIndexerClusterSpec \<Rightarrow> int" where
  "desired_nodes spec = sint (if IsAdvancedMode spec then Indexer_GetTotalReplicas spec else ics_Replicas spec)"

definition restart_names :: "WazuhCluster \<Rightarrow> WazuhIndexerClusterSpec \<Rightarrow> string set" where
  "restart_names cluster spec = (if IsAdvancedMode spec then pool_names cluster (ics_NodePools spec)
     else {IndexerName (wc_Name cluster)})"

lemma ensure_client_set:
  assumes "run_state (ensureOpenSearchClient E r cluster) w = ((r', None), w')"
  obtains c where "ir_osClient r' = Some c"
  using assms by (auto simp: ensureOpenSearchClient_def run_bind split: option.splits prod.splits sum.splits)

lemma pools_restart_safe:
  assumes sort: "slice_sort sort_slice"
    and run: "run_state (orchestrateNodePoolRollingRestart sort_slice E r cluster spec) w = ((r', x), w')"
  shows "quiet w w' \<or> (\<exists>c. ir_osClient r' = Some c \<and> safe_delete E
      (indexer_healthy c (sint (Indexer_GetTotalReplicas spec))) (wc_Namespace cluster) (pool_names cluster (ics_NodePools spec)) w w')"
proof -
  obtain q err w1 where 1: "run_state (ensureOpenSearchClient E r cluster) w = ((q, err), w1)" by (metis surj_pair)
  have w1: "quiet w w1" using quiet_run [OF quiet_client 1] .
  show ?thesis
  proof (cases err)
    case (Some e)
    then show ?thesis using run 1 w1 by (simp add: orchestrateNodePoolRollingRestart_def run_bind)
  next
    case None
    then obtain c where c: "ir_osClient q = Some c" using ensure_client_set 1 by metis
    let ?n = "sint (Indexer_GetTotalReplicas spec)"
    let ?m = "restart_pools sort_slice E cluster (Indexer_IsHealthyForRestart E c ?n) (ics_NodePools spec) 0 0"
    obtain y w2 where 2: "run_state ?m w1 = (y, w2)" by fastforce
    have "calm_or_safe E (indexer_healthy c ?n) (wc_Namespace cluster) (pool_names cluster (ics_NodePools spec)) w w2"
      by (rule calm_steps(1) [OF w1 pools_safe [OF indexer_health.health_checker_axioms sort 2]])
    moreover have "w' = w2" "r' = q" using run 1 2 None c
      by (simp_all add: orchestrateNodePoolRollingRestart_def run_bind Let_def)
    ultimately show ?thesis using c by (simp add: calm_or_safe_def)
  qed
qed

lemma simple_restart_safe:
  assumes sort: "slice_sort sort_slice" and spec: "wc_Indexer cluster = Some spec" "\<not> IsAdvancedMode spec"
    and run: "run_state (OrchestrateRollingRestart sort_slice E r cluster) w = ((r', x), w')"
  shows "quiet w w' \<or> (\<exists>c. ir_osClient r' = Some c \<and> safe_delete E
      (indexer_healthy c (sint (ics_Replicas spec))) (wc_Namespace cluster) {IndexerName (wc_Name cluster)} w w')"
proof -
  let ?name = "IndexerName (wc_Name cluster)" and ?n = "sint (ics_Replicas spec)"
  obtain g w0 where g: "run_state (get_sts E (wc_Namespace cluster) ?name) w = (g, w0)" by fastforce
  note w0 = quiet_run [OF quiet_prims(2) g]
  note run' = run [unfolded OrchestrateRollingRestart_def spec(1) option.case if_not_P [OF spec(2)] run_bind g prod.case]
  show ?thesis
  proof (cases "\<exists>sts. g = Inr sts \<and> sts_UpdateRevision sts \<noteq> sts_CurrentRevision sts")
    case False
    then have "w' = w0" using run' by (cases g) (simp_all split: if_splits)
    then show ?thesis using w0 by simp
  next
    case True
    then obtain sts where sts: "g = Inr sts" "sts_UpdateRevision sts \<noteq> sts_CurrentRevision sts" by blast
    obtain q err w1 where 1: "run_state (ensureOpenSearchClient E r cluster) w0 = ((q, err), w1)" by (metis surj_pair)
    note w1 = quiet_run [OF quiet_client 1]
    note run2 = run' [unfolded sts(1) sum.case if_not_P [OF sts(2)] run_bind 1 prod.case]
    show ?thesis
    proof (cases err)
      case (Some e)
      then have "w' = w1" using run2 by simp
      then show ?thesis using quiet_trans [OF w0 w1] by simp
    next
      case None
      then obtain c where c: "ir_osClient q = Some c" using ensure_client_set 1 by metis
      let ?checker = "Indexer_IsHealthyForRestart E c ?n"
      obtain y w2 where y: "run_state (OrchestrateRestart sort_slice E sts ?checker True) w1 = (y, w2)" by fastforce
      have "quiet w w2 \<or> safe_delete E (indexer_healthy c ?n) (wc_Namespace cluster) {?name} w w2 \<and>
          (\<forall>r. y = Inr r \<longrightarrow> rst_Phase r = RestartPhaseInProgress)"
        using g sts(1) by (intro step_safe [OF indexer_health.health_checker_axioms sort _ _ sts(2) w1 y, of ?name]) simp_all
      moreover have "quiet w2 w'" "r' = q"
        using run2 None c y quiet_run [OF quiet_prims(3)]
        by (auto simp: run_bind split: sum.splits prod.splits)
      ultimately show ?thesis using c quiet_trans safe_delete_before by metis
    qed
  qed
qed

subsection \<open>The restart of the manager\<close>

definition worker_selector :: "WazuhCluster \<Rightarrow> labels" where
  "worker_selector cluster = label_set (SelectorLabels (wc_Name cluster) ''wazuh-manager'') LabelManagerNodeType ''worker''"

lemma orchestrate_done:
  assumes run: "run_state (OrchestrateRestart sort_slice E sts checker True) w = (Inr r, w')"
    and differ: "sts_UpdateRevision sts \<noteq> sts_CurrentRevision sts" and phase: "rst_Phase r \<noteq> RestartPhaseInProgress"
  shows "\<exists>pods wl. run_state (list_pods E (sts_Namespace sts) (sts_MatchLabels sts)) w = (Inr pods, wl) \<and> outdated sts pods = []"
proof -
  obtain y wl where lst: "run_state (list_pods E (sts_Namespace sts) (sts_MatchLabels sts)) w = (y, wl)" by fastforce
  note run' = run [unfolded OrchestrateRestart_def Let_def if_not_P [OF differ] run_try lst prod.case]
  obtain pods where y: "y = Inr pods" using run' by (cases y) simp_all
  have "outdated sts pods = []"
  proof (rule ccontr)
    assume some: "outdated sts pods \<noteq> []"
    note run2 = run' [unfolded y sum.case outdated_def [symmetric] if_not_P [OF some]]
    show False
    proof (cases "find (\<lambda>pod. \<not> isPodReady pod) (owned_by (sts_UID sts) pods)")
      case (Some pod)
      then show False using run2 phase by auto
    next
      case None
      note run3 = run2 [unfolded None option.case run_try]
      obtain c wc where c: "run_state checker wl = (c, wc)" by fastforce
      obtain d wd where d: "run_state (delete_pod E (hd (sort_slice (ordinal_less True) (outdated sts pods)))) wc = (d, wd)" by fastforce
      show False
      proof (cases c)
        case (Inl e)
        then show False using run3 unfolding c prod.case by simp
      next
        case (Inr hm)
        note run4 = run3 [unfolded c Inr prod.case sum.case]
        show False using run4 d phase by (cases hm; cases "fst hm"; cases d) (auto simp: run_try)
      qed
    qed
  qed
  then show ?thesis using lst y by blast
qed

text \<open>The shape the two functions for the manager's StatefulSets share.\<close>

definition restart_sts :: "sorter \<Rightarrow> 's env \<Rightarrow> string \<Rightarrow> string \<Rightarrow> string \<Rightarrow> 's checker \<Rightarrow> (RestartResult \<Rightarrow> string) \<Rightarrow> string \<Rightarrow>
    ('s, RestartResult option result) io" where
  "restart_sts sort_slice E ns name getErr checker progressMsg completeMsg = do {
     g \<leftarrow> get_sts E ns name;
     case g of
       Inl err \<Rightarrow> ret (if IsNotFound err then Inr None else Inl (wrapf getErr err))
     | Inr sts \<Rightarrow>
        if sts_UpdateRevision sts = sts_CurrentRevision sts then ret (Inr None)
        else try_io (OrchestrateRestart sort_slice E sts checker True) id (\<lambda>result. do {
          _ \<leftarrow> progress_event result (progressMsg result) completeMsg;
          ret (Inr (Some result)) }) }"

lemma manager_restarts:
  "orchestrateWorkerRestart sort_slice E cluster = restart_sts sort_slice E (wc_Namespace cluster) (ManagerWorkerName (wc_Name cluster))
     ''failed to get worker StatefulSet: '' (Manager_IsHealthyForRestart E (wc_Namespace cluster) (worker_selector cluster))
     (\<lambda>result. ''Rolling restart: deleted worker pod '' @ rst_CurrentPod result @ counts result)
     ''Rolling restart complete for manager workers''"
  "orchestrateMasterRestart sort_slice E cluster = restart_sts sort_slice E (wc_Namespace cluster) (ManagerMasterName (wc_Name cluster))
     ''failed to get master StatefulSet: '' (Manager_IsHealthyForRestart E (wc_Namespace cluster)
       (SelectorLabels (wc_Name cluster) ''wazuh-manager''))
     (\<lambda>result. ''Rolling restart: deleted master pod '' @ rst_CurrentPod result)
     ''Rolling restart complete for manager master''"
  by (simp_all only: orchestrateWorkerRestart_def orchestrateMasterRestart_def restart_sts_def worker_selector_def Let_def)

definition nothing_left :: "'s env \<Rightarrow> StatefulSet \<Rightarrow> 's world \<Rightarrow> bool" where
  "nothing_left E sts w \<longleftrightarrow> sts_UpdateRevision sts = sts_CurrentRevision sts \<or>
     (\<exists>pods wl. run_state (list_pods E (sts_Namespace sts) (sts_MatchLabels sts)) w = (Inr pods, wl) \<and> outdated sts pods = [])"

definition restart_finished :: "RestartResult option result \<Rightarrow> bool" where
  "restart_finished x \<longleftrightarrow> x = Inr None \<or> (\<exists>r. x = Inr (Some r) \<and> rst_Phase r \<noteq> RestartPhaseInProgress)"

lemma restart_sts_cases:
  assumes chk: "health_checker checker passed" and sort: "slice_sort sort_slice"
    and run: "run_state (restart_sts sort_slice E ns name getErr checker progressMsg completeMsg) w = (x, w')"
    and get: "run_state (get_sts E ns name) w = (g, w0)"
  shows "(quiet w w' \<and> (restart_finished x \<longrightarrow> (case g of Inl err \<Rightarrow> IsNotFound err | Inr sts \<Rightarrow> nothing_left E sts w0))) \<or>
    safe_delete E passed ns {name} w w' \<and> \<not> restart_finished x"
proof -
  note w0 = quiet_run [OF quiet_prims(2) get]
  note run' = run [unfolded restart_sts_def run_bind get prod.case]
  show ?thesis
  proof (cases "\<exists>sts. g = Inr sts \<and> sts_UpdateRevision sts \<noteq> sts_CurrentRevision sts")
    case False
    then have "w' = w0" and "restart_finished x \<longrightarrow> (case g of Inl err \<Rightarrow> IsNotFound err | Inr sts \<Rightarrow> nothing_left E sts w0)"
      using run' by (cases g; auto simp: nothing_left_def restart_finished_def split: if_splits)+
    then show ?thesis using w0 by blast
  next
    case True
    then obtain sts where sts: "g = Inr sts" "sts_UpdateRevision sts \<noteq> sts_CurrentRevision sts" by blast
    obtain y w1 where y: "run_state (OrchestrateRestart sort_slice E sts checker True) w0 = (y, w1)" by fastforce
    have step: "quiet w w1 \<or> safe_delete E passed ns {name} w w1 \<and> (\<forall>r. y = Inr r \<longrightarrow> rst_Phase r = RestartPhaseInProgress)"
      using get sts(1) by (intro step_safe [OF chk sort _ _ sts(2) quiet_refl y, of name]) simp_all
    note run2 = run' [unfolded sts(1) sum.case if_not_P [OF sts(2)] run_try y prod.case]
    show ?thesis
    proof (cases y)
      case (Inl e)
      then have "w' = w1" "\<not> restart_finished x" using run2 by (auto simp: restart_finished_def)
      then show ?thesis using step by blast
    next
      case (Inr r)
      obtain w2 where ev: "run_state (progress_event r (progressMsg r) completeMsg) w1 = ((), w2)"
        by (cases "run_state (progress_event r (progressMsg r) completeMsg) w1") simp
      have x: "x = Inr (Some r)" "w' = w2" using run2 [unfolded Inr sum.case run_bind ev prod.case] by simp_all
      have "quiet w1 w'" using quiet_run [OF quiet_prims(3) ev] x by simp
      moreover have "nothing_left E sts w0" if "restart_finished x"
        using orchestrate_done [OF y [unfolded Inr] sts(2)] that x by (simp add: nothing_left_def restart_finished_def)
      ultimately show ?thesis using step Inr x sts(1) quiet_trans [of w w1 w'] safe_delete_before [of E passed ns "{name}" w w1 w']
        by (auto simp: restart_finished_def)
    qed
  qed
qed

text \<open>Asked in \<open>w\<close>, the API server knows no StatefulSet of workers, or one with nothing left to update.\<close>

definition workers_done :: "'s env \<Rightarrow> WazuhCluster \<Rightarrow> 's world \<Rightarrow> bool" where
  "workers_done E cluster w \<longleftrightarrow> (case run_state (get_sts E (wc_Namespace cluster) (ManagerWorkerName (wc_Name cluster))) w of
     (g, w0) \<Rightarrow> (case g of Inl err \<Rightarrow> IsNotFound err | Inr sts \<Rightarrow> nothing_left E sts w0))"

section \<open>Progress\<close>

text \<open>
  What the StatefulSet controller and the pods do with an \<open>OnDelete\<close> update between two steps:
  in the states \<open>I\<close>, the pods are listed and ready, and an outdated pod that is deleted comes
  back on the new revision. The health check passes and leaves the pods as they are.
\<close>

definition recreates :: "'s env \<Rightarrow> StatefulSet \<Rightarrow> 's checker \<Rightarrow> ('s \<Rightarrow> bool) \<Rightarrow> ('s \<Rightarrow> Pod list) \<Rightarrow> bool" where
  "recreates E sts checker I view \<longleftrightarrow>
     (\<forall>s. I s \<longrightarrow> (\<exists>s'. e_list_pods E (sts_Namespace sts) (sts_MatchLabels sts) s = (Inr (view s), s') \<and> I s' \<and> view s' = view s)) \<and>
     (\<forall>s. I s \<longrightarrow> list_all isPodReady (owned_by (sts_UID sts) (view s))) \<and>
     (\<forall>s. I s \<longrightarrow> (\<forall>pod \<in> set (outdated sts (view s)). \<exists>s'. e_delete_pod E pod s = (Inr (), s') \<and> I s' \<and>
        outdated sts (view s') = remove1 pod (outdated sts (view s)))) \<and>
     (\<forall>w. I (w_env w) \<longrightarrow> (\<exists>msg w'. run_state checker w = (Inr (True, msg), w') \<and> I (w_env w') \<and> view (w_env w') = view (w_env w)))"

definition restart_call :: "sorter \<Rightarrow> 's env \<Rightarrow> StatefulSet \<Rightarrow> 's checker \<Rightarrow> 's world \<Rightarrow> 's world" where
  "restart_call sort_slice E sts checker w = snd (run_state (OrchestrateRestart sort_slice E sts checker True) w)"

lemma recreates_step:
  assumes rec: "recreates E sts checker I view" and sort: "slice_sort sort_slice"
    and differ: "sts_UpdateRevision sts \<noteq> sts_CurrentRevision sts" and I: "I (w_env w)"
    and some: "outdated sts (view (w_env w)) \<noteq> []"
  shows "let w' = restart_call sort_slice E sts checker w in I (w_env w') \<and>
    length (outdated sts (view (w_env w))) = Suc (length (outdated sts (view (w_env w'))))"
proof -
  let ?pods = "view (w_env w)"
  obtain wl where lst: "run_state (list_pods E (sts_Namespace sts) (sts_MatchLabels sts)) w = (Inr ?pods, wl)"
      "I (w_env wl)" "view (w_env wl) = ?pods"
    using rec I by (auto simp: recreates_def list_pods_def run_ask split: prod.splits)
  obtain msg wc where chk: "run_state checker wl = (Inr (True, msg), wc)" "I (w_env wc)" "view (w_env wc) = ?pods"
    using rec lst(2, 3) unfolding recreates_def by metis
  have ready: "find (\<lambda>pod. \<not> isPodReady pod) (owned_by (sts_UID sts) ?pods) = None"
    using rec I unfolding recreates_def by (auto simp: find_None_iff list_all_iff)
  let ?pod = "hd (sort_slice (ordinal_less True) (outdated sts ?pods))"
  have pod: "?pod \<in> set (outdated sts ?pods)" by (rule slice_sort.sort_hd [OF sort some])
  then obtain s' where del: "e_delete_pod E ?pod (w_env wc) = (Inr (), s')" "I s'"
      "outdated sts (view s') = remove1 ?pod (outdated sts ?pods)"
    using rec chk(2, 3) unfolding recreates_def by metis
  have "w_env (restart_call sort_slice E sts checker w) = s'"
    using differ lst(1) some ready chk(1) del(1)
    by (simp add: restart_call_def OrchestrateRestart_def run_try Let_def outdated_def [symmetric] delete_pod_def run_bind run_emit run_ask)
  then show ?thesis using del(2, 3) pod some by (simp add: length_remove1 Let_def)
qed

lemma recreates_complete:
  assumes rec: "recreates E sts checker I view" and differ: "sts_UpdateRevision sts \<noteq> sts_CurrentRevision sts"
    and I: "I (w_env w)" and none: "outdated sts (view (w_env w)) = []"
  shows "\<exists>r w'. run_state (OrchestrateRestart sort_slice E sts checker True) w = (Inr r, w') \<and>
    rst_Phase r = RestartPhaseComplete \<and> rst_UpdatedPods r = rst_TotalPods r"
proof -
  obtain wl where lst: "run_state (list_pods E (sts_Namespace sts) (sts_MatchLabels sts)) w = (Inr (view (w_env w)), wl)"
    using rec I by (auto simp: recreates_def list_pods_def run_ask split: prod.splits)
  moreover have "filter (on_revision (sts_UpdateRevision sts)) (owned_by (sts_UID sts) (view (w_env w))) =
      owned_by (sts_UID sts) (view (w_env w))"
    using none by (auto simp: outdated_def filter_empty_conv intro!: filter_True)
  ultimately show ?thesis using differ none
    by (simp add: OrchestrateRestart_def run_try Let_def outdated_def [symmetric])
qed

lemma restart_terminates:
  assumes rec: "recreates E sts checker I view" and sort: "slice_sort sort_slice"
    and differ: "sts_UpdateRevision sts \<noteq> sts_CurrentRevision sts" and I: "I (w_env w)"
  shows "\<exists>r w'. run_state (OrchestrateRestart sort_slice E sts checker True)
      ((restart_call sort_slice E sts checker ^^ length (outdated sts (view (w_env w)))) w) = (Inr r, w') \<and>
    rst_Phase r = RestartPhaseComplete \<and> rst_UpdatedPods r = rst_TotalPods r"
  using I
proof (induction "length (outdated sts (view (w_env w)))" arbitrary: w)
  case 0
  then show ?case using recreates_complete [OF rec differ] by simp
next
  case (Suc n)
  let ?w = "restart_call sort_slice E sts checker w"
  have "outdated sts (view (w_env w)) \<noteq> []" using Suc.hyps(2) by auto
  then have w: "I (w_env ?w)" "n = length (outdated sts (view (w_env ?w)))"
    using recreates_step [OF rec sort differ Suc.prems] Suc.hyps(2) by (simp_all add: Let_def)
  show ?case using Suc.hyps(1) [OF w(2) w(1)] Suc.hyps(2) w(2) by (metis funpow.simps(2) funpow_swap1 o_apply)
qed

section \<open>Properties\<close>

text \<open>
  C4: In one call of the indexer's \<open>OrchestrateRollingRestart\<close>, in simple mode or over all node
  pools, at most one pod is deleted. It belongs to a StatefulSet of the cluster whose revision
  is changing, is not on the new revision and has the highest ordinal of those; all pods of
  that StatefulSet were ready, and OpenSearch had just answered, to the client of this
  cluster, that it is not red, moves and starts no shard, and has all its nodes.
\<close>

theorem indexer_restart_one_pod:
  assumes "slice_sort sort_slice" and "wc_Indexer cluster = Some spec"
    and "run_state (OrchestrateRollingRestart sort_slice E r cluster) w = ((r', x), w')"
  shows "quiet w w' \<or> (\<exists>c. ir_osClient r' = Some c \<and> safe_delete E (indexer_healthy c (desired_nodes spec))
      (wc_Namespace cluster) (restart_names cluster spec) w w')"
  using simple_restart_safe [OF assms(1, 2) _ assms(3)] pools_restart_safe [OF assms(1), of E r cluster spec w r' x w'] assms(2, 3)
  by (cases "IsAdvancedMode spec") (simp_all add: OrchestrateRollingRestart_def desired_nodes_def restart_names_def)

text \<open>
  C5: The workers of the manager are restarted before the master, and one pod at a time: a
  call of \<open>OrchestrateManagerRollingRestart\<close> deletes no pod, or one worker, or the master; the
  master only when the API server has just shown that no worker is left to update.
\<close>

theorem manager_restart_workers_first:
  assumes sort: "slice_sort sort_slice"
    and run: "run_state (OrchestrateManagerRollingRestart sort_slice E cluster) w = (x, w')"
  shows "quiet w w' \<or>
    safe_delete E (pods_ready E (wc_Namespace cluster) (worker_selector cluster)) (wc_Namespace cluster)
      {ManagerWorkerName (wc_Name cluster)} w w' \<or>
    workers_done E cluster w \<and> safe_delete E (pods_ready E (wc_Namespace cluster) (SelectorLabels (wc_Name cluster) ''wazuh-manager''))
      (wc_Namespace cluster) {ManagerMasterName (wc_Name cluster)} w w'"
proof (cases "wc_Manager cluster")
  case None
  then show ?thesis using run by (simp add: OrchestrateManagerRollingRestart_def)
next
  case (Some m)
  note run' = run [unfolded OrchestrateManagerRollingRestart_def Some option.case run_bind]
  obtain y w1 where y: "run_state (orchestrateWorkerRestart sort_slice E cluster) w = (y, w1)" by fastforce
  obtain g w0 where g: "run_state (get_sts E (wc_Namespace cluster) (ManagerWorkerName (wc_Name cluster))) w = (g, w0)" by fastforce
  note worker = restart_sts_cases [OF manager_health.health_checker_axioms sort y [unfolded manager_restarts] g]
  show ?thesis
  proof (cases "restart_finished y")
    case False
    then have "w' = w1" using run' unfolding y prod.case restart_finished_def
      by (auto split: sum.splits option.splits)
    then show ?thesis using worker by blast
  next
    case True
    then have w1: "quiet w w1" "workers_done E cluster w" using worker g by (auto simp: workers_done_def)
    obtain z w2 where z: "run_state (orchestrateMasterRestart sort_slice E cluster) w1 = (z, w2)" by fastforce
    obtain g' w0' where g': "run_state (get_sts E (wc_Namespace cluster) (ManagerMasterName (wc_Name cluster))) w1 = (g', w0')" by fastforce
    note master = restart_sts_cases [OF manager_health.health_checker_axioms sort z [unfolded manager_restarts] g']
    have "w' = w2" using True run' z unfolding y prod.case restart_finished_def
      by (auto simp: run_bind)
    then show ?thesis using master w1 quiet_trans [OF w1(1)] safe_delete_after [OF w1(1)] by blast
  qed
qed

text \<open>
  C7: A rolling restart ends. Where the StatefulSet controller brings a deleted pod back on the
  new revision and the health check passes, one call per outdated pod makes the next call
  report that the restart is complete, with all pods updated.
\<close>

theorem rolling_restart_completes:
  assumes "recreates E sts checker I view" and "slice_sort sort_slice"
    and "sts_UpdateRevision sts \<noteq> sts_CurrentRevision sts" and "I (w_env w)"
  shows "\<exists>r w'. run_state (OrchestrateRestart sort_slice E sts checker True)
      ((restart_call sort_slice E sts checker ^^ length (outdated sts (view (w_env w)))) w) = (Inr r, w') \<and>
    rst_Phase r = RestartPhaseComplete \<and> rst_UpdatedPods r = rst_TotalPods r"
  by (rule restart_terminates [OF assms])

subsection \<open>An example\<close>

text \<open>Three pods on the old revision; a deleted pod comes back on the new one.\<close>

definition rolling_pod :: "string \<Rightarrow> string \<Rightarrow> Pod" where
  "rolling_pod name revision = \<lparr>pod_Name = name, pod_Namespace = ''ns'', pod_Labels = [(''controller-revision-hash'', revision)],
     pod_Owners = [''u1''], pod_Conditions = [(''Ready'', ''True'')]\<rparr>"

definition rolling_sts :: StatefulSet where
  "rolling_sts = (example_sts 3)\<lparr>sts_Name := ''wz-indexer'', sts_Namespace := ''ns'', sts_UID := ''u1'', sts_CurrentRevision := ''old'', sts_UpdateRevision := ''new''\<rparr>"

definition rolling_env :: "Pod list env" where
  "rolling_env = dead_env\<lparr>e_get_sts := (\<lambda>ns n s. (Inr rolling_sts, s)), e_list_pods := (\<lambda>ns l s. (Inr s, s)),
     e_delete_pod := (\<lambda>pod s. (Inr (), map (\<lambda>p. if p = pod then rolling_pod (pod_Name p) ''new'' else p) s)),
     e_http := (\<lambda>c m p b s. (Inr (sample_resp (Inr green_health) (Inr [])), s))\<rparr>"

definition rolling_world :: "Pod list world" where
  "rolling_world = new_world [rolling_pod ''wz-indexer-0'' ''old'', rolling_pod ''wz-indexer-1'' ''old'', rolling_pod ''wz-indexer-2'' ''old'']"

definition rolling_cluster :: WazuhCluster where
  "rolling_cluster = sample_cluster\<lparr>wc_Indexer := Some (plain_indexer 3 []),
     wc_Manager := Some (plain_manager (Some 3))\<rparr>"

lemmas rolling_defs = rolling_env_def rolling_sts_def example_sts_def rolling_pod_def rolling_cluster_def sample_cluster_def empty_cluster_def
  dead_env_def sample_resp_def green_health_def rolling_world_def new_world_def

lemma rolling_ordinals:
  "extractOrdinal ''wz-indexer-0'' = 0" "extractOrdinal ''wz-indexer-1'' = 1" "extractOrdinal ''wz-indexer-2'' = 2"
  by code_simp+

lemma rolling_step:
  "restart_call insertion_sort rolling_env rolling_sts (Indexer_IsHealthyForRestart rolling_env sample_client 3) rolling_world =
    \<lparr>w_env = [rolling_pod ''wz-indexer-0'' ''old'', rolling_pod ''wz-indexer-1'' ''old'', rolling_pod ''wz-indexer-2'' ''new''],
      w_adapters = [], w_clients = [], w_log = [EHttp sample_client ''GET'' ''/_cluster/health'' None
        (Inr (sample_resp (Inr green_health) (Inr []))), EDeletePod ''ns'' ''wz-indexer-2'']\<rparr>"
  by (simp add: restart_call_def OrchestrateRestart_def rolling_defs list_pods_def run_io owned_by_def on_revision_def
      label_get_def isPodReady_def Indexer_IsHealthyForRestart_def GetClusterHealth_def Client_Get_def Client_Request_def
      insertion_sort_def ordinal_less_def rolling_ordinals delete_pod_def Let_def decode_with_def OpenSearchHealthRed_def)

theorem indexer_restart_one_pod_witness:
  "\<exists>r' x w'. run_state (OrchestrateRollingRestart insertion_sort rolling_env drain_reconciler rolling_cluster) rolling_world = ((r', x), w') \<and>
    EDeletePod ''ns'' ''wz-indexer-2'' \<in> set (w_log w') \<and>
    safe_delete rolling_env (indexer_healthy sample_client 3) ''ns'' {''wz-indexer''} rolling_world w'"
proof -
  let ?checker = "Indexer_IsHealthyForRestart rolling_env sample_client 3"
  obtain r' x w' where run: "run_state (OrchestrateRollingRestart insertion_sort rolling_env drain_reconciler rolling_cluster)
    rolling_world = ((r', x), w')" by (metis surj_pair)
  obtain y w1 where y: "run_state (OrchestrateRestart insertion_sort rolling_env rolling_sts ?checker True) rolling_world = (y, w1)" by fastforce
  have w1: "EDeletePod ''ns'' ''wz-indexer-2'' \<in> set (w_log w1)" using rolling_step y by (simp add: restart_call_def)
  have get: "run_state (get_sts rolling_env ns name) rolling_world = (Inr rolling_sts, rolling_world)" for ns name
    by (simp add: get_sts_def run_ask rolling_env_def)
  have "quiet w1 w'" and r': "ir_osClient r' = Some sample_client"
    using run y quiet_run [OF quiet_prims(3)]
    by (auto simp: OrchestrateRollingRestart_def rolling_cluster_def IsAdvancedMode_def run_bind get ensureOpenSearchClient_def
        drain_reconciler_def rolling_sts_def example_sts_def split: sum.splits prod.splits)
  then have w': "EDeletePod ''ns'' ''wz-indexer-2'' \<in> set (w_log w')" using w1 by (auto simp: quiet_def)
  have "\<not> quiet rolling_world w'"
  proof
    assume "quiet rolling_world w'"
    then show False using w' by (auto simp: quiet_def rolling_world_def new_world_def list_all_iff)
  qed
  then have "safe_delete rolling_env (indexer_healthy sample_client 3) ''ns'' {''wz-indexer''} rolling_world w'"
    using indexer_restart_one_pod [OF go_sort.slice_sort_axioms _ run] r'
    by (simp add: rolling_cluster_def sample_cluster_def empty_cluster_def desired_nodes_def restart_names_def IsAdvancedMode_def IndexerName_def)
  then show ?thesis using run w' by blast
qed

theorem manager_restart_workers_first_witness:
  "\<exists>x w'. run_state (OrchestrateManagerRollingRestart insertion_sort rolling_env rolling_cluster) rolling_world = (x, w') \<and>
    w_log w' \<noteq> [] \<and> \<not> workers_done rolling_env rolling_cluster rolling_world \<and>
    (quiet rolling_world w' \<or> safe_delete rolling_env (pods_ready rolling_env ''ns'' (worker_selector rolling_cluster)) ''ns''
      {ManagerWorkerName ''wz''} rolling_world w')"
proof -
  obtain x w' where run: "run_state (OrchestrateManagerRollingRestart insertion_sort rolling_env rolling_cluster) rolling_world = (x, w')" by fastforce
  have names: "wc_Name rolling_cluster = ''wz''" "wc_Namespace rolling_cluster = ''ns''"
    by (simp_all add: rolling_cluster_def sample_cluster_def empty_cluster_def)
  have not_done: "\<not> workers_done rolling_env rolling_cluster rolling_world"
    by (simp add: workers_done_def nothing_left_def rolling_defs get_sts_def list_pods_def run_ask outdated_def owned_by_def
        on_revision_def label_get_def)
  have "w_log w' \<noteq> []" using run
    by (auto simp: OrchestrateManagerRollingRestart_def orchestrateWorkerRestart_def OrchestrateRestart_def rolling_defs get_sts_def
        list_pods_def run_io owned_by_def on_revision_def label_get_def isPodReady_def Manager_IsHealthyForRestart_def
        insertion_sort_def ordinal_less_def rolling_ordinals delete_pod_def Let_def progress_event_def record_event_def)
  then show ?thesis
    using manager_restart_workers_first [OF go_sort.slice_sort_axioms run, unfolded names] run not_done by blast
qed

definition rolling_pods :: "Pod list \<Rightarrow> bool" where
  "rolling_pods s \<longleftrightarrow> distinct (map pod_Name s) \<and> (\<forall>p \<in> set s. \<exists>name revision. p = rolling_pod name revision)"

lemma rolling_owned: "rolling_pods s \<Longrightarrow> owned_by ''u1'' s = s"
  unfolding owned_by_def rolling_pods_def by (rule filter_True) (auto simp: rolling_pod_def)

lemma rolling_recreates:
  "recreates rolling_env rolling_sts (Indexer_IsHealthyForRestart rolling_env sample_client 3) rolling_pods id"
proof -
  have "rolling_pods (map (\<lambda>p. if p = pod then rolling_pod (pod_Name p) ''new'' else p) s) \<and>
      outdated rolling_sts (map (\<lambda>p. if p = pod then rolling_pod (pod_Name p) ''new'' else p) s) = remove1 pod (outdated rolling_sts s)"
    (is "rolling_pods (map ?f s) \<and> _") if s: "rolling_pods s" for pod s
  proof -
    have f: "map pod_Name (map ?f s) = map pod_Name s" by (simp add: rolling_pod_def)
    have "rolling_pods (map ?f s)" using s unfolding rolling_pods_def f by auto
    moreover have "filter (\<lambda>p. \<not> on_revision ''new'' p) (map ?f s) = removeAll pod (filter (\<lambda>p. \<not> on_revision ''new'' p) s)"
      by (induction s) (auto simp: rolling_pod_def on_revision_def label_get_def)
    moreover have "distinct s" using s by (simp add: rolling_pods_def distinct_map)
    ultimately show ?thesis using s by (simp add: outdated_def rolling_sts_def rolling_owned distinct_remove1_removeAll)
  qed
  moreover have "list_all isPodReady s" if "rolling_pods s" for s
    using that by (auto simp: rolling_pods_def list_all_iff rolling_pod_def isPodReady_def)
  moreover have "\<exists>msg w'. run_state (Indexer_IsHealthyForRestart rolling_env sample_client 3) w = (Inr (True, msg), w') \<and> w_env w' = w_env w" for w
    by (simp add: Indexer_IsHealthyForRestart_def GetClusterHealth_def Client_Get_def Client_Request_def run_io rolling_env_def
        sample_resp_def green_health_def decode_with_def OpenSearchHealthRed_def)
  ultimately show ?thesis
    unfolding recreates_def by (auto simp: rolling_env_def rolling_sts_def rolling_owned) metis
qed

theorem rolling_restart_completes_witness:
  "\<exists>r w'. run_state (OrchestrateRestart insertion_sort rolling_env rolling_sts (Indexer_IsHealthyForRestart rolling_env sample_client 3) True)
      ((restart_call insertion_sort rolling_env rolling_sts (Indexer_IsHealthyForRestart rolling_env sample_client 3) ^^ 3) rolling_world) =
      (Inr r, w') \<and> rst_Phase r = RestartPhaseComplete \<and> rst_UpdatedPods r = rst_TotalPods r"
proof -
  have start: "rolling_pods (w_env rolling_world)" "length (outdated rolling_sts (id (w_env rolling_world))) = 3"
    by (auto simp: rolling_pods_def rolling_defs outdated_def owned_by_def on_revision_def label_get_def)
  have "sts_UpdateRevision rolling_sts \<noteq> sts_CurrentRevision rolling_sts" by (simp add: rolling_sts_def)
  from rolling_restart_completes [OF rolling_recreates go_sort.slice_sort_axioms this start(1)] start(2) show ?thesis by simp
qed

end
