(* ===== verification/NodePoolValidation.thy ===== *)
theory NodePoolValidation
  imports ClusterTypes Naming
begin

section \<open>Validation of node pools (internal/opensearch/validation, pkg/constants/roles.go)\<close>

text \<open>
  What the controller accepts as an indexer topology before it reconciles anything. A result
  collects the errors, each with its field, and the warnings. The loop over the pools carries
  the names it has seen and the \<open>int32\<close> counts of nodes by role. The lemmas reduce the loop to
  a condition on each pool, distinct names and two sums; the property says what an accepted
  topology guarantees, wrap-around of the counts included.
\<close>

definition OpenSearchRoleList :: "string list" where
  "OpenSearchRoleList = [''cluster_manager'', ''data'', ''ingest'', ''search'', ''coordinating_only'', ''ml'', ''remote_cluster_client'']"

definition MinClusterManagerNodes :: i32 where "MinClusterManagerNodes = 3"
definition MinDataNodes :: i32 where "MinDataNodes = 1"
definition MaxNodePoolNameLength :: nat where "MaxNodePoolNameLength = 15"

definition IsValidOpenSearchRole :: "string \<Rightarrow> bool" where
  "IsValidOpenSearchRole role = list_ex (\<lambda>validRole. role = validRole) OpenSearchRoleList"

record ValidationResult =
  vr_Valid :: bool
  vr_Errors :: "(string \<times> string) list"
  vr_Warnings :: "string list"

definition valid_result :: ValidationResult where
  "valid_result = \<lparr>vr_Valid = True, vr_Errors = [], vr_Warnings = []\<rparr>"

definition AddError :: "string \<Rightarrow> string \<Rightarrow> ValidationResult \<Rightarrow> ValidationResult" where
  "AddError field message r = r\<lparr>vr_Valid := False, vr_Errors := vr_Errors r @ [(field, message)]\<rparr>"

definition AddWarning :: "string \<Rightarrow> ValidationResult \<Rightarrow> ValidationResult" where
  "AddWarning message r = r\<lparr>vr_Warnings := vr_Warnings r @ [message]\<rparr>"

text \<open>\<open>^[a-z0-9]([-a-z0-9]*[a-z0-9])?$\<close>\<close>

definition nodePoolNameRegex :: rx where
  "nodePoolNameRegex = rx_word alnum alnum_dash"

text \<open>\<open>%v\<close> of a slice of strings.\<close>

fun join_words :: "string \<Rightarrow> string list \<Rightarrow> string" where
  "join_words sep [] = []"
| "join_words sep [s] = s"
| "join_words sep (s # t # ts) = s @ sep @ join_words sep (t # ts)"

definition show_strings :: "string list \<Rightarrow> string" where
  "show_strings ss = ''['' @ join_words '' '' ss @ '']''"

fun check_roles :: "string \<Rightarrow> nat \<Rightarrow> string list \<Rightarrow> ValidationResult \<Rightarrow> ValidationResult" where
  "check_roles fieldPrefix i [] r = r"
| "check_roles fieldPrefix i (role # roles) r = check_roles fieldPrefix (Suc i) roles
     (if IsValidOpenSearchRole role then r
      else AddError (fieldPrefix @ ''.roles['' @ show_nat i @ '']'') (''invalid role '' @ [CHR 0x27] @ role @
        [CHR 0x27] @ ''; valid roles are: '' @ show_strings OpenSearchRoleList) r)"

definition check_name :: "string \<Rightarrow> string \<Rightarrow> ValidationResult \<Rightarrow> ValidationResult" where
  "check_name fieldPrefix name r =
     (if name = [] then AddError (fieldPrefix @ ''.name'') ''name is required'' r
      else
        let r1 = (if \<not> rx_match nodePoolNameRegex name then AddError (fieldPrefix @ ''.name'')
               ''name must be DNS-compatible (lowercase alphanumeric, may contain hyphens, must start and end with alphanumeric)'' r
             else r) in
        if length name > MaxNodePoolNameLength then AddError (fieldPrefix @ ''.name'')
          (''name must be at most '' @ show_nat MaxNodePoolNameLength @ '' characters; got '' @ show_nat (length name)) r1
        else r1)"

definition ValidateNodePoolSpec :: "IndexerNodePoolSpec \<Rightarrow> string \<Rightarrow> ValidationResult" where
  "ValidateNodePoolSpec pool fieldPrefix =
     (let r1 = check_name fieldPrefix (pool_Name pool) valid_result;
          r2 = (if sint (pool_Replicas pool) < 0 then AddError (fieldPrefix @ ''.replicas'') ''replicas cannot be negative'' r1 else r1);
          r3 = check_roles fieldPrefix 0 (pool_Roles pool) r2;
          r4 = (if Pool_HasClusterManagerRole pool \<and> Pool_HasDataRole pool then
                  AddWarning (''nodePool '' @ [CHR 0x27] @ pool_Name pool @ [CHR 0x27] @
                    '' has both cluster_manager and data roles; consider separating these roles for better stability in production'') r3
                else r3) in
      if pool_StorageSize pool = [] \<and> Pool_HasDataRole pool then
        AddWarning (''nodePool '' @ [CHR 0x27] @ pool_Name pool @ [CHR 0x27] @
          '' has data role but no storageSize specified; using default'') r4
      else r4)"

text \<open>What the loop over the pools carries besides the result.\<close>

record pool_counts =
  pc_seenNames :: "string list"
  pc_clusterManagerCount :: i32
  pc_dataNodeCount :: i32
  pc_hasClusterManagerRole :: bool
  pc_hasDataRole :: bool

definition no_counts :: pool_counts where
  "no_counts = \<lparr>pc_seenNames = [], pc_clusterManagerCount = 0, pc_dataNodeCount = 0,
     pc_hasClusterManagerRole = False, pc_hasDataRole = False\<rparr>"

definition count_roles :: "IndexerNodePoolSpec \<Rightarrow> pool_counts \<Rightarrow> pool_counts" where
  "count_roles pool c =
     (let c1 = (if Pool_HasClusterManagerRole pool then c\<lparr>pc_hasClusterManagerRole := True,
            pc_clusterManagerCount := pc_clusterManagerCount c + pool_Replicas pool\<rparr> else c) in
      if Pool_HasDataRole pool then c1\<lparr>pc_hasDataRole := True, pc_dataNodeCount := pc_dataNodeCount c1 + pool_Replicas pool\<rparr> else c1)"

definition validate_pool :: "nat \<Rightarrow> IndexerNodePoolSpec \<Rightarrow> pool_counts \<times> ValidationResult \<Rightarrow> pool_counts \<times> ValidationResult" where
  "validate_pool i pool = (\<lambda>(c, result).
     let poolField = ''spec.indexer.nodePools['' @ show_nat i @ '']'';
         poolResult = ValidateNodePoolSpec pool poolField;
         r1 = (if \<not> vr_Valid poolResult then result\<lparr>vr_Valid := False, vr_Errors := vr_Errors result @ vr_Errors poolResult\<rparr> else result);
         r2 = r1\<lparr>vr_Warnings := vr_Warnings r1 @ vr_Warnings poolResult\<rparr>;
         r3 = (if pool_Name pool \<in> set (pc_seenNames c) then AddError (poolField @ ''.name'')
            (''duplicate nodePool name '' @ [CHR 0x27] @ pool_Name pool @ [CHR 0x27] @ ''; each nodePool must have a unique name'') r2
          else r2) in
     (count_roles pool (c\<lparr>pc_seenNames := pool_Name pool # pc_seenNames c\<rparr>), r3))"

fun validate_pools :: "nat \<Rightarrow> IndexerNodePoolSpec list \<Rightarrow> pool_counts \<times> ValidationResult \<Rightarrow> pool_counts \<times> ValidationResult" where
  "validate_pools i [] s = s"
| "validate_pools i (pool # pools) s = validate_pools (Suc i) pools (validate_pool i pool s)"

definition check_counts :: "pool_counts \<Rightarrow> ValidationResult \<Rightarrow> ValidationResult" where
  "check_counts c r0 =
     (let r1 = (if pc_hasClusterManagerRole c \<and> sint (pc_clusterManagerCount c) < sint MinClusterManagerNodes then
            AddError ''spec.indexer.nodePools'' (''cluster_manager role requires at least '' @ show_i32 MinClusterManagerNodes @
              '' nodes for quorum; found '' @ show_i32 (pc_clusterManagerCount c)) r0 else r0);
          r2 = (if pc_hasDataRole c \<and> sint (pc_dataNodeCount c) < sint MinDataNodes then
            AddError ''spec.indexer.nodePools'' (''at least '' @ show_i32 MinDataNodes @ '' data node is required; found '' @
              show_i32 (pc_dataNodeCount c)) r1 else r1) in
      if \<not> pc_hasDataRole c then
        AddWarning ''no nodePool has the data role; the cluster will not be able to store data'' r2 else r2)"

definition ValidateNodePools :: "WazuhIndexerClusterSpec \<Rightarrow> ValidationResult" where
  "ValidateNodePools spec =
     (if sint (ics_Replicas spec) > 0 \<and> length (ics_NodePools spec) > 0 then
        AddError ''spec.indexer'' ''replicas and nodePools are mutually exclusive; use either replicas (simple mode) or nodePools (advanced mode), not both'' valid_result
      else if \<not> IsAdvancedMode spec then valid_result
      else if length (ics_NodePools spec) = 0 then
        AddError ''spec.indexer.nodePools'' ''at least one nodePool must be defined'' valid_result
      else (case validate_pools 0 (ics_NodePools spec) (no_counts, valid_result) of (c, r) \<Rightarrow> check_counts c r))"

definition ValidateModeTransition :: "string \<Rightarrow> string \<Rightarrow> unit result" where
  "ValidateModeTransition currentMode newMode =
     (if currentMode \<noteq> [] \<and> newMode \<noteq> [] \<and> currentMode \<noteq> newMode then
        Inl (errorf (''transitioning from '' @ currentMode @ '' mode to '' @ newMode @
          '' mode is not supported; please create a new cluster with the desired topology''))
      else Inr ())"

definition ValidateScaleDown :: "IndexerNodePoolSpec \<Rightarrow> i32 \<Rightarrow> i32 \<Rightarrow> i32 \<Rightarrow> ValidationResult" where
  "ValidateScaleDown pool currentReplicas desiredReplicas totalClusterManagers =
     (if sint desiredReplicas \<ge> sint currentReplicas then valid_result
      else
        let newTotal = totalClusterManagers - (currentReplicas - desiredReplicas);
            r1 = (if Pool_HasClusterManagerRole pool \<and> sint newTotal < sint MinClusterManagerNodes then
              AddError ''scale-down'' (''scaling down nodePool '' @ [CHR 0x27] @ pool_Name pool @ [CHR 0x27] @
                '' would reduce cluster_manager nodes to '' @ show_i32 newTotal @ '', below minimum quorum of '' @ show_i32 MinClusterManagerNodes) valid_result
              else valid_result) in
        if Pool_HasDataRole pool then AddWarning (''nodePool '' @ [CHR 0x27] @ pool_Name pool @ [CHR 0x27] @
          '' has data role; shards must be relocated before nodes are terminated'') r1 else r1)"

subsection \<open>What the loop computes\<close>

lemma result_simps [simp]:
  "vr_Valid valid_result" "\<not> vr_Valid (AddError f m r)" "vr_Valid (AddWarning m r) = vr_Valid r"
  by (simp_all add: valid_result_def AddError_def AddWarning_def)

lemma check_roles_valid: "vr_Valid (check_roles p i roles r) \<longleftrightarrow> vr_Valid r \<and> list_all IsValidOpenSearchRole roles"
  by (induction roles arbitrary: i r) auto

definition good_name :: "nat \<Rightarrow> string \<Rightarrow> bool" where
  "good_name n name \<longleftrightarrow> is_word alnum alnum_dash name \<and> length name \<le> n"

lemma nodePoolNameRegex_word: "rx_match nodePoolNameRegex name \<longleftrightarrow> is_word alnum alnum_dash name"
  unfolding nodePoolNameRegex_def rx_match_lang by (rule matches_word) (rule in_alnum_dash)

lemma is_word_nonempty: "is_word a b w \<Longrightarrow> w \<noteq> []"
  by (auto simp: is_word_def)

lemma check_name_valid: "vr_Valid (check_name p name r) \<longleftrightarrow> vr_Valid r \<and> good_name MaxNodePoolNameLength name"
  using is_word_nonempty by (auto simp: check_name_def good_name_def nodePoolNameRegex_word Let_def)

definition good_pool :: "IndexerNodePoolSpec \<Rightarrow> bool" where
  "good_pool p \<longleftrightarrow> good_name MaxNodePoolNameLength (pool_Name p) \<and> 0 \<le> sint (pool_Replicas p) \<and>
     list_all IsValidOpenSearchRole (pool_Roles p)"

lemma ValidateNodePoolSpec_valid: "vr_Valid (ValidateNodePoolSpec p f) \<longleftrightarrow> good_pool p"
  by (auto simp: ValidateNodePoolSpec_def good_pool_def check_name_valid check_roles_valid Let_def)

lemma count_roles_simps [simp]:
  "pc_seenNames (count_roles p c) = pc_seenNames c"
  "pc_clusterManagerCount (count_roles p c) = pc_clusterManagerCount c + (if Pool_HasClusterManagerRole p then pool_Replicas p else 0)"
  "pc_dataNodeCount (count_roles p c) = pc_dataNodeCount c + (if Pool_HasDataRole p then pool_Replicas p else 0)"
  "pc_hasClusterManagerRole (count_roles p c) = (pc_hasClusterManagerRole c \<or> Pool_HasClusterManagerRole p)"
  "pc_hasDataRole (count_roles p c) = (pc_hasDataRole c \<or> Pool_HasDataRole p)"
  by (simp_all add: count_roles_def Let_def)

lemma validate_pool_simps [simp]:
  "fst (validate_pool i p s) = count_roles p ((fst s)\<lparr>pc_seenNames := pool_Name p # pc_seenNames (fst s)\<rparr>)"
  "vr_Valid (snd (validate_pool i p s)) \<longleftrightarrow> vr_Valid (snd s) \<and> good_pool p \<and> pool_Name p \<notin> set (pc_seenNames (fst s))"
  by (cases s; simp add: validate_pool_def ValidateNodePoolSpec_valid Let_def)+

lemma validate_pools_counts:
  "pc_clusterManagerCount (fst (validate_pools i ps s)) = pc_clusterManagerCount (fst s) + sum_replicas (filter Pool_HasClusterManagerRole ps)"
  "pc_dataNodeCount (fst (validate_pools i ps s)) = pc_dataNodeCount (fst s) + sum_replicas (filter Pool_HasDataRole ps)"
  "pc_hasClusterManagerRole (fst (validate_pools i ps s)) \<longleftrightarrow> pc_hasClusterManagerRole (fst s) \<or> list_ex Pool_HasClusterManagerRole ps"
  "pc_hasDataRole (fst (validate_pools i ps s)) \<longleftrightarrow> pc_hasDataRole (fst s) \<or> list_ex Pool_HasDataRole ps"
  by (induction ps arbitrary: i s) (simp_all add: sum_replicas_list add.assoc)

lemma validate_pools_valid:
  "vr_Valid (snd (validate_pools i ps s)) \<longleftrightarrow> vr_Valid (snd s) \<and> list_all good_pool ps \<and>
     distinct (map pool_Name ps) \<and> set (map pool_Name ps) \<inter> set (pc_seenNames (fst s)) = {}"
  by (induction ps arbitrary: i s) auto

text \<open>The condition that decides: the pools one by one, their names, and the two counts.\<close>

definition enough :: "(IndexerNodePoolSpec \<Rightarrow> bool) \<Rightarrow> int \<Rightarrow> IndexerNodePoolSpec list \<Rightarrow> bool" where
  "enough role n ps \<longleftrightarrow> (list_ex role ps \<longrightarrow> n \<le> sint (sum_replicas (filter role ps)))"

lemma check_counts_valid:
  "vr_Valid (check_counts c r) \<longleftrightarrow> vr_Valid r \<and> (pc_hasClusterManagerRole c \<longrightarrow> 3 \<le> sint (pc_clusterManagerCount c)) \<and>
     (pc_hasDataRole c \<longrightarrow> 1 \<le> sint (pc_dataNodeCount c))"
  by (simp add: check_counts_def Let_def MinClusterManagerNodes_def MinDataNodes_def not_less)

lemma ValidateNodePools_valid:
  "vr_Valid (ValidateNodePools spec) \<longleftrightarrow> ics_NodePools spec = [] \<or> (sint (ics_Replicas spec) \<le> 0 \<and>
     list_all good_pool (ics_NodePools spec) \<and> distinct (map pool_Name (ics_NodePools spec)) \<and>
     enough Pool_HasClusterManagerRole 3 (ics_NodePools spec) \<and> enough Pool_HasDataRole 1 (ics_NodePools spec))"
proof -
  let ?s = "validate_pools 0 (ics_NodePools spec) (no_counts, valid_result)"
  have "vr_Valid (check_counts (fst ?s) (snd ?s)) \<longleftrightarrow> list_all good_pool (ics_NodePools spec) \<and>
      distinct (map pool_Name (ics_NodePools spec)) \<and>
      enough Pool_HasClusterManagerRole 3 (ics_NodePools spec) \<and> enough Pool_HasDataRole 1 (ics_NodePools spec)"
    by (simp add: check_counts_valid validate_pools_counts validate_pools_valid no_counts_def enough_def)
  then show ?thesis
    by (cases "ics_NodePools spec = []") (simp_all add: ValidateNodePools_def IsAdvancedMode_def split_beta not_less)
qed

subsection \<open>Property\<close>

lemma sint_add_le:
  assumes "0 \<le> sint (a :: i32)"
  shows "sint (a + b) \<le> sint a + sint b"
proof -
  have "sint (a + b) = signed_take_bit 31 (sint a + sint b)" by (simp add: sint_word_ariths)
  moreover have "- (2 ^ 31) \<le> sint a + sint b" using assms i32_lower [of b] by simp
  ultimately show ?thesis by (simp add: signed_take_bit_int_less_eq_self_iff)
qed

definition node_count :: "IndexerNodePoolSpec list \<Rightarrow> int" where
  "node_count ps = sum_list (map (\<lambda>p. sint (pool_Replicas p)) ps)"

text \<open>The \<open>int32\<close> sum may wrap around, but never to more than there are.\<close>

lemma sum_replicas_le: "\<forall>p \<in> set ps. 0 \<le> sint (pool_Replicas p) \<Longrightarrow> sint (sum_replicas ps) \<le> node_count ps"
proof (induction ps)
  case (Cons p ps)
  have "sint (pool_Replicas p + sum_replicas ps) \<le> sint (pool_Replicas p) + sint (sum_replicas ps)"
    using Cons.prems by (intro sint_add_le) simp
  then show ?case using Cons by (simp add: sum_replicas_list node_count_def)
qed (simp add: node_count_def)

definition pool_pods :: "string \<Rightarrow> IndexerNodePoolSpec \<Rightarrow> string list" where
  "pool_pods clusterName p = map (\<lambda>i. IndexerNodePoolPodName clusterName (pool_Name p) (int i)) [0..<nat (sint (pool_Replicas p))]"

lemma pool_pod_name_inject:
  "IndexerNodePoolPodName c p (int i) = IndexerNodePoolPodName c q (int j) \<longleftrightarrow> p = q \<and> i = j"
proof -
  have "p @ CHR ''-'' # show_nat i = q @ CHR ''-'' # show_nat j \<longleftrightarrow>
      rev (show_nat i) @ CHR ''-'' # rev p = rev (show_nat j) @ CHR ''-'' # rev q"
    by (metis rev_append rev_rev_ident rev.simps(2) append.assoc append_Cons append_Nil)
  also have "\<dots> \<longleftrightarrow> show_nat i = show_nat j \<and> p = q"
    using dash_notin_show_nat by (subst append_eq_marker) auto
  finally show ?thesis by (auto simp: IndexerNodePoolPodName_def IndexerNodePoolName_def show_int_def show_nat_inject)
qed

lemma pool_pods_distinct: "distinct (map pool_Name ps) \<Longrightarrow> distinct (concat (map (pool_pods c) ps))"
  by (induction ps) (auto simp: pool_pods_def distinct_map inj_on_def pool_pod_name_inject)

text \<open>
  C19: A topology with node pools that the controller accepts is well formed: the replica counts
  are not negative, the roles are known, the pool names are short DNS labels, no two pods of
  the cluster have the same name, and if any pool has the cluster manager role (the data role)
  then there are at least three such nodes (one such node), counted without wrap-around.
\<close>

theorem ValidateNodePools_sound:
  assumes "vr_Valid (ValidateNodePools spec)" and "IsAdvancedMode spec"
  shows "list_all good_pool (ics_NodePools spec) \<and>
    distinct (concat (map (pool_pods clusterName) (ics_NodePools spec))) \<and>
    (list_ex Pool_HasClusterManagerRole (ics_NodePools spec) \<longrightarrow>
      3 \<le> node_count (filter Pool_HasClusterManagerRole (ics_NodePools spec))) \<and>
    (list_ex Pool_HasDataRole (ics_NodePools spec) \<longrightarrow> 1 \<le> node_count (filter Pool_HasDataRole (ics_NodePools spec)))"
proof -
  have ok: "list_all good_pool (ics_NodePools spec)" "distinct (map pool_Name (ics_NodePools spec))"
    "enough Pool_HasClusterManagerRole 3 (ics_NodePools spec)" "enough Pool_HasDataRole 1 (ics_NodePools spec)"
    using assms by (auto simp: ValidateNodePools_valid IsAdvancedMode_def)
  have "sint (sum_replicas (filter role (ics_NodePools spec))) \<le> node_count (filter role (ics_NodePools spec))" for role
    using ok(1) by (intro sum_replicas_le) (auto simp: list_all_iff good_pool_def)
  with ok show ?thesis by (auto simp: enough_def pool_pods_distinct intro: order_trans)
qed

definition sample_pools :: "IndexerNodePoolSpec list" where
  "sample_pools = [\<lparr>pool_Name = ''masters'', pool_Replicas = 3, pool_Roles = [''cluster_manager''], pool_StorageSize = ''10Gi''\<rparr>,
     \<lparr>pool_Name = ''hot'', pool_Replicas = 2, pool_Roles = [''data'', ''ingest''], pool_StorageSize = []\<rparr>]"

theorem ValidateNodePools_sound_witness:
  "vr_Valid (ValidateNodePools (plain_indexer 0 sample_pools)) \<and>
   list_all good_pool sample_pools \<and> distinct (concat (map (pool_pods ''wz'') sample_pools)) \<and>
   3 \<le> node_count (filter Pool_HasClusterManagerRole sample_pools) \<and> 1 \<le> node_count (filter Pool_HasDataRole sample_pools)"
proof -
  have v: "vr_Valid (ValidateNodePools (plain_indexer 0 sample_pools))" "IsAdvancedMode (plain_indexer 0 sample_pools)" by code_simp+
  have "list_ex Pool_HasClusterManagerRole sample_pools" "list_ex Pool_HasDataRole sample_pools" by code_simp+
  then show ?thesis using ValidateNodePools_sound [OF v, of "''wz''"] v by simp
qed

end
