(* ===== verification/Webhook.thy ===== *)
theory Webhook
  imports NodePoolValidation
begin

section \<open>The admission webhook of WazuhCluster (api/v1/wazuhcluster_webhook.go)\<close>

text \<open>
  The defaulter and the validator the API server calls before a WazuhCluster is stored. A
  validation returns its errors and warnings as lists of texts; the webhook itself returns the
  warnings and an error made of all of them. The lemmas say exactly when the error list is
  empty. The properties compare the webhook with the controller's own validation, follow a
  cluster through any sequence of admitted updates, and show which topologies cannot be
  admitted at all once the schema's default for \<open>replicas\<close> has been applied.
\<close>

subsection \<open>Definitions\<close>

definition digits_rx :: rx where
  "digits_rx = (let d = RClass [(CHR ''0'', CHR ''9'')] in RSeq d (RStar d))"

text \<open>\<open>^\d+\.\d+\.\d+$\<close>\<close>

definition versionRegex :: rx where
  "versionRegex = RSeq digits_rx (RSeq (rx_lit CHR ''.'') (RSeq digits_rx (RSeq (rx_lit CHR ''.'') digits_rx)))"

definition validateVersion :: "string \<Rightarrow> unit result" where
  "validateVersion version =
     (if version = [] then Inl (errorf ''version is required'')
      else if \<not> rx_match versionRegex version then Inl (errorf ''version must be in semver format (e.g., 4.9.0)'')
      else Inr ())"

definition webhook_Default :: "WazuhCluster \<Rightarrow> WazuhCluster" where
  "webhook_Default cluster =
     (let tls = (case wc_TLS cluster of None \<Rightarrow> \<lparr>tls_Enabled = None, tls_CertConfig = None, tls_HotReload = None, tls_CustomCerts = None, tls_CAMaintenance = None\<rparr> | Some t \<Rightarrow> t);
          tls' = (if tls_Enabled tls = None then tls\<lparr>tls_Enabled := Some True\<rparr> else tls);
          c1 = cluster\<lparr>wc_TLS := Some tls'\<rparr>;
          c2 = (case wc_Indexer c1 of None \<Rightarrow> c1 | Some spec \<Rightarrow>
                 if \<not> IsAdvancedMode spec \<and> ics_Replicas spec = 0 then c1\<lparr>wc_Indexer := Some (spec\<lparr>ics_Replicas := 3\<rparr>)\<rparr> else c1) in
      case wc_Dashboard c2 of None \<Rightarrow> c2 | Some d \<Rightarrow>
        if dcs_Replicas d = 0 then c2\<lparr>wc_Dashboard := Some (d\<lparr>dcs_Replicas := 1\<rparr>)\<rparr> else c2)"

definition validateGatewayAPIConfig :: "GatewayAPISpec option \<Rightarrow> IngressSpec option \<Rightarrow> string \<Rightarrow> string list" where
  "validateGatewayAPIConfig gatewayAPI ingress prefix =
     (let gatewayEnabled = (case gatewayAPI of None \<Rightarrow> False | Some g \<Rightarrow> gw_Enabled g);
          ingressEnabled = (case ingress of None \<Rightarrow> False | Some i \<Rightarrow> ing_Enabled i) in
      (if gatewayEnabled \<and> ingressEnabled then
         [prefix @ '': gatewayAPI and ingress are mutually exclusive; only one can be enabled''] else []) @
      (if gatewayEnabled then
         (case gw_GatewayRef (the gatewayAPI) of
            None \<Rightarrow> [prefix @ ''.gatewayAPI.gatewayRef: is required when gatewayAPI is enabled'']
          | Some name \<Rightarrow> if name = [] then [prefix @ ''.gatewayAPI.gatewayRef.name: cannot be empty''] else [])
       else []))"

definition validateManagerSpec :: "WazuhManagerClusterSpec \<Rightarrow> string list \<times> string list" where
  "validateManagerSpec spec =
     ((case mcs_WorkerReplicas spec of None \<Rightarrow> [] | Some n \<Rightarrow>
         if sint n < 0 then [''spec.manager.workers.replicas: cannot be negative''] else []) @
      (case mcs_LogRotation spec of None \<Rightarrow> [] | Some l \<Rightarrow>
         if \<not> lr_Enabled l then [] else (case lr_RetentionDays l of None \<Rightarrow> [] | Some days \<Rightarrow>
           if sint days < 1 then [''spec.manager.logRotation.retentionDays: must be at least 1''] else [])) @
      validateGatewayAPIConfig (mcs_MasterGatewayAPI spec) (mcs_MasterIngress spec) ''spec.manager.master'' @
      validateGatewayAPIConfig (mcs_WorkersGatewayAPI spec) (mcs_WorkersIngress spec) ''spec.manager.workers'',
      (if \<not> Manager_IsHA (Some spec) then
         [''manager cluster has fewer than 3 nodes; consider adding workers for high availability''] else []))"

definition validateDashboardSpec :: "WazuhDashboardClusterSpec \<Rightarrow> string list" where
  "validateDashboardSpec spec =
     (if sint (dcs_Replicas spec) < 1 then [''spec.dashboard.replicas: must be at least 1''] else []) @
     validateGatewayAPIConfig (dcs_GatewayAPI spec) (dcs_Ingress spec) ''spec.dashboard''"

text \<open>The body of the loop of \<open>validateNodePools\<close>: the counts, the errors and the warnings so far.\<close>

definition webhook_pool :: "nat \<Rightarrow> IndexerNodePoolSpec \<Rightarrow> pool_counts \<times> string list \<times> string list \<Rightarrow>
    pool_counts \<times> string list \<times> string list" where
  "webhook_pool i pool = (\<lambda>(c, errors, warnings).
     let prefix = ''spec.indexer.nodePools['' @ show_nat i @ '']''; name = pool_Name pool;
         nameErrors = (if name = [] then [prefix @ ''.name: is required'']
           else (if \<not> rx_match nodePoolNameRegex name then [prefix @ ''.name: must be DNS-compatible (lowercase alphanumeric with hyphens)''] else []) @
             (if length name > 63 then [prefix @ ''.name: must be at most 63 characters''] else []) @
             (if name \<in> set (pc_seenNames c) then [prefix @ ''.name: duplicate name '' @ [CHR 0x27] @ name @ [CHR 0x27]] else []));
         c1 = (if name = [] then c else c\<lparr>pc_seenNames := name # pc_seenNames c\<rparr>);
         replicaErrors = (if sint (pool_Replicas pool) < 0 then [prefix @ ''.replicas: cannot be negative''] else []);
         poolWarnings = (if Pool_HasClusterManagerRole pool \<and> Pool_HasDataRole pool then
           [''nodePool '' @ [CHR 0x27] @ name @ [CHR 0x27] @ '' has both cluster_manager and data roles; consider separating for production''] else []) in
     (count_roles pool c1, errors @ nameErrors @ replicaErrors, warnings @ poolWarnings))"

fun webhook_pools :: "nat \<Rightarrow> IndexerNodePoolSpec list \<Rightarrow> pool_counts \<times> string list \<times> string list \<Rightarrow>
    pool_counts \<times> string list \<times> string list" where
  "webhook_pools i [] s = s"
| "webhook_pools i (pool # pools) s = webhook_pools (Suc i) pools (webhook_pool i pool s)"

definition validateNodePools :: "IndexerNodePoolSpec list \<Rightarrow> string list \<times> string list" where
  "validateNodePools pools =
     (if length pools = 0 then ([''spec.indexer.nodePools: at least one nodePool must be defined''], [])
      else (case webhook_pools 0 pools (no_counts, [], []) of (c, errors, warnings) \<Rightarrow>
        (errors @
         (if pc_hasClusterManagerRole c \<and> sint (pc_clusterManagerCount c) < 3 then
            [''spec.indexer.nodePools: cluster_manager role requires at least 3 nodes for quorum; found '' @ show_i32 (pc_clusterManagerCount c)] else []) @
         (if pc_hasDataRole c \<and> sint (pc_dataNodeCount c) < 1 then
            [''spec.indexer.nodePools: at least 1 data node is required; found '' @ show_i32 (pc_dataNodeCount c)] else []),
         warnings @
         (if \<not> pc_hasDataRole c then [''no nodePool has the data role; cluster will not be able to store data''] else []))))"

definition validateIndexerSpec :: "WazuhIndexerClusterSpec \<Rightarrow> string list \<times> string list" where
  "validateIndexerSpec spec =
     (if sint (ics_Replicas spec) > 0 \<and> length (ics_NodePools spec) > 0 then
        ([''spec.indexer: replicas and nodePools are mutually exclusive''], [])
      else
        let simpleErrors = (if IsSimpleMode spec \<and> sint (ics_Replicas spec) < 1 then [''spec.indexer.replicas: must be at least 1''] else []);
            simpleWarnings = (if IsSimpleMode spec \<and> sint (ics_Replicas spec) < 3 then
              [''indexer has fewer than 3 replicas; consider 3+ for high availability''] else []);
            (poolErrors, poolWarnings) = (if IsAdvancedMode spec then validateNodePools (ics_NodePools spec) else ([], [])) in
        (simpleErrors @ poolErrors @ validateGatewayAPIConfig (ics_GatewayAPI spec) (ics_Ingress spec) ''spec.indexer'',
         simpleWarnings @ poolWarnings))"

definition validateInlineMode :: "WazuhCluster \<Rightarrow> string list \<times> string list" where
  "validateInlineMode cluster =
     (let (e1, w1) = (case wc_Manager cluster of None \<Rightarrow> ([], []) | Some m \<Rightarrow> validateManagerSpec m);
          (e2, w2) = (case wc_Indexer cluster of None \<Rightarrow> ([], []) | Some s \<Rightarrow> validateIndexerSpec s);
          e3 = (case wc_Dashboard cluster of None \<Rightarrow> [] | Some d \<Rightarrow> validateDashboardSpec d) in
      (e1 @ e2 @ e3, w1 @ w2))"

definition ref_name_error :: "(string \<times> string) option \<Rightarrow> string \<Rightarrow> string list" where
  "ref_name_error ref field = (case ref of None \<Rightarrow> [] | Some (name, ns) \<Rightarrow>
     if name = [] then [''spec.'' @ field @ ''.name: cannot be empty''] else [])"

definition validateReferenceMode :: "WazuhCluster \<Rightarrow> string list" where
  "validateReferenceMode cluster =
     (if wc_ManagerRef cluster = None \<and> wc_IndexerRef cluster = None \<and> wc_DashboardRef cluster = None then
        [''spec: at least one component reference must be provided in reference mode''] else []) @
     ref_name_error (wc_ManagerRef cluster) ''managerRef'' @
     ref_name_error (wc_IndexerRef cluster) ''indexerRef'' @
     ref_name_error (wc_DashboardRef cluster) ''dashboardRef''"

definition cross_namespace :: "WazuhCluster \<Rightarrow> (string \<times> string) option \<Rightarrow> bool" where
  "cross_namespace cluster ref = (case ref of None \<Rightarrow> False | Some (name, ns) \<Rightarrow> ns \<noteq> [] \<and> ns \<noteq> wc_Namespace cluster)"

definition validateMultiClusterIsolation :: "WazuhCluster \<Rightarrow> string list" where
  "validateMultiClusterIsolation cluster =
     (if cross_namespace cluster (wc_ManagerRef cluster) \<or> cross_namespace cluster (wc_IndexerRef cluster) \<or>
         cross_namespace cluster (wc_DashboardRef cluster)
      then [''cross-namespace references detected; ensure RBAC allows the operator to access referenced namespaces''] else [])"

definition validateTLSConfig :: "TLSConfig \<Rightarrow> string list" where
  "validateTLSConfig tls = (case tls_CustomCerts tls of None \<Rightarrow> [] | Some certs \<Rightarrow>
     (case cc_CASecretRef certs of
        None \<Rightarrow> [''spec.tls.customCerts.caSecretRef: is required when customCerts is configured'']
      | Some name \<Rightarrow> if name = [] then [''spec.tls.customCerts.caSecretRef.name: cannot be empty''] else []))"

definition negative_duration :: "duration option \<Rightarrow> string \<Rightarrow> string list" where
  "negative_duration d field = (case d of None \<Rightarrow> [] | Some t \<Rightarrow> if sint t < 0 then [field @ '': cannot be negative''] else [])"

definition validateDrainConfig :: "DrainConfiguration \<Rightarrow> string list" where
  "validateDrainConfig drain =
     (case dc_Indexer drain of None \<Rightarrow> [] | Some i \<Rightarrow> negative_duration (idc_Timeout i) ''spec.drain.indexer.timeout'' @
        negative_duration (idc_HealthCheckInterval i) ''spec.drain.indexer.healthCheckInterval'') @
     (case dc_Manager drain of None \<Rightarrow> [] | Some m \<Rightarrow> negative_duration (mdc_Timeout m) ''spec.drain.manager.timeout'') @
     (case dc_Retry drain of None \<Rightarrow> [] | Some r \<Rightarrow>
        if sint (drc_MaxAttempts r) < 0 then [''spec.drain.retry.maxAttempts: cannot be negative''] else [])"

definition validateWazuhCluster :: "WazuhCluster \<Rightarrow> string list \<times> unit result" where
  "validateWazuhCluster cluster =
     (let versionErrors = (case validateVersion (wc_Version cluster) of Inl e \<Rightarrow> [''spec.version: '' @ text_of e] | Inr u \<Rightarrow> []);
          modeErrors = (if IsMixedMode cluster then
            [''spec: cannot mix inline configuration (manager, indexer, dashboard) with references (managerRef, indexerRef, dashboardRef)''] else []);
          (inlineErrors, inlineWarnings) = (if IsInlineMode cluster then validateInlineMode cluster else ([], []));
          refErrors = (if IsReferenceMode cluster then validateReferenceMode cluster else []);
          tlsErrors = (case wc_TLS cluster of None \<Rightarrow> [] | Some t \<Rightarrow> validateTLSConfig t);
          drainErrors = (case wc_Drain cluster of None \<Rightarrow> [] | Some d \<Rightarrow> validateDrainConfig d);
          allErrors = versionErrors @ modeErrors @ inlineErrors @ refErrors @ tlsErrors @ drainErrors;
          warnings = inlineWarnings @ validateMultiClusterIsolation cluster in
      (warnings, if allErrors \<noteq> [] then Inl (errorf (''validation failed: '' @ show_strings allErrors)) else Inr ()))"

definition validateUpdate :: "WazuhCluster \<Rightarrow> WazuhCluster \<Rightarrow> string list \<times> unit result" where
  "validateUpdate oldCluster newCluster =
     (if IsInlineMode oldCluster \<and> IsReferenceMode newCluster then
        ([], Inl (errorf ''spec: cannot transition from inline mode to reference mode''))
      else if IsReferenceMode oldCluster \<and> IsInlineMode newCluster then
        ([], Inl (errorf ''spec: cannot transition from reference mode to inline mode''))
      else case (wc_Indexer oldCluster, wc_Indexer newCluster) of
        (Some old, Some new) \<Rightarrow>
          if IsSimpleMode old \<and> IsAdvancedMode new then
            ([], Inl (errorf ''spec.indexer: cannot transition from simple mode to advanced mode; create a new cluster for the desired topology''))
          else if IsAdvancedMode old \<and> IsSimpleMode new then
            ([], Inl (errorf ''spec.indexer: cannot transition from advanced mode to simple mode; create a new cluster for the desired topology''))
          else ((if sint (Indexer_GetTotalReplicas old) > sint (Indexer_GetTotalReplicas new)
                 then [''scaling down indexer replicas will trigger shard relocation''] else []), Inr ())
      | _ \<Rightarrow> ([], Inr ()))"

definition ValidateCreate :: "WazuhCluster \<Rightarrow> string list \<times> unit result" where
  "ValidateCreate cluster = validateWazuhCluster cluster"

definition ValidateUpdate :: "WazuhCluster \<Rightarrow> WazuhCluster \<Rightarrow> string list \<times> unit result" where
  "ValidateUpdate oldCluster newCluster = (case validateWazuhCluster newCluster of
     (warnings, Inl err) \<Rightarrow> (warnings, Inl err)
   | (warnings, Inr u) \<Rightarrow> (case validateUpdate oldCluster newCluster of (updateWarnings, r) \<Rightarrow> (warnings @ updateWarnings, r)))"

definition ValidateDelete :: "WazuhCluster \<Rightarrow> string list \<times> unit result" where
  "ValidateDelete cluster = ([], Inr ())"

text \<open>
  The schema of \<open>spec.indexer.replicas\<close> (its \<open>kubebuilder\<close> markers, and the CRD generated from
  them): an absent value becomes 3, and a value below 1 is refused.
\<close>

definition indexer_replicas_schema :: "i32 option \<Rightarrow> i32 option" where
  "indexer_replicas_schema r = (let n = (case r of None \<Rightarrow> 3 | Some k \<Rightarrow> k) in if sint n < 1 then None else Some n)"

subsection \<open>When the lists of errors are empty\<close>

lemma webhook_pool_simps [simp]:
  "fst (webhook_pool i p s) = count_roles p (if pool_Name p = [] then fst s
     else (fst s)\<lparr>pc_seenNames := pool_Name p # pc_seenNames (fst s)\<rparr>)"
  "fst (snd (webhook_pool i p s)) = [] \<longleftrightarrow> fst (snd s) = [] \<and> good_name 63 (pool_Name p) \<and>
     pool_Name p \<notin> set (pc_seenNames (fst s)) \<and> 0 \<le> sint (pool_Replicas p)"
  using is_word_nonempty
  by (cases s; auto simp: webhook_pool_def Let_def good_name_def nodePoolNameRegex_word)+

lemma webhook_pools_counts:
  "pc_clusterManagerCount (fst (webhook_pools i ps s)) = pc_clusterManagerCount (fst s) + sum_replicas (filter Pool_HasClusterManagerRole ps)"
  "pc_dataNodeCount (fst (webhook_pools i ps s)) = pc_dataNodeCount (fst s) + sum_replicas (filter Pool_HasDataRole ps)"
  "pc_hasClusterManagerRole (fst (webhook_pools i ps s)) \<longleftrightarrow> pc_hasClusterManagerRole (fst s) \<or> list_ex Pool_HasClusterManagerRole ps"
  "pc_hasDataRole (fst (webhook_pools i ps s)) \<longleftrightarrow> pc_hasDataRole (fst s) \<or> list_ex Pool_HasDataRole ps"
  by (induction ps arbitrary: i s) (simp_all add: sum_replicas_list add.assoc)

definition admissible_pool :: "IndexerNodePoolSpec \<Rightarrow> bool" where
  "admissible_pool p \<longleftrightarrow> good_name 63 (pool_Name p) \<and> 0 \<le> sint (pool_Replicas p)"

lemma webhook_pools_errors:
  "fst (snd (webhook_pools i ps s)) = [] \<longleftrightarrow> fst (snd s) = [] \<and> list_all admissible_pool ps \<and>
     distinct (map pool_Name ps) \<and> set (map pool_Name ps) \<inter> set (pc_seenNames (fst s)) = {}"
proof (induction ps arbitrary: i s)
  case (Cons p ps)
  show ?case
  proof (cases "admissible_pool p")
    case True
    then have "pool_Name p \<noteq> []" using is_word_nonempty by (auto simp: admissible_pool_def good_name_def)
    then show ?thesis using True by (auto simp: Cons.IH admissible_pool_def)
  qed (auto simp: Cons.IH admissible_pool_def)
qed simp

lemma validateNodePools_errors:
  "fst (validateNodePools ps) = [] \<longleftrightarrow> ps \<noteq> [] \<and> list_all admissible_pool ps \<and> distinct (map pool_Name ps) \<and>
     enough Pool_HasClusterManagerRole 3 ps \<and> enough Pool_HasDataRole 1 ps"
proof -
  let ?s = "webhook_pools 0 ps (no_counts, [], [])"
  note facts = webhook_pools_counts [of 0 ps "(no_counts, [], [])"] webhook_pools_errors [of 0 ps "(no_counts, [], [])"]
  obtain c e w where s: "?s = (c, e, w)" by (metis surj_pair)
  then have e: "e = [] \<longleftrightarrow> list_all admissible_pool ps \<and> distinct (map pool_Name ps)" using facts(5) by (simp add: no_counts_def)
  show ?thesis using facts(1-4) s e
    by (simp add: validateNodePools_def no_counts_def enough_def not_less)
qed

lemma good_pool_admissible:
  "good_pool p \<longleftrightarrow> admissible_pool p \<and> length (pool_Name p) \<le> MaxNodePoolNameLength \<and> list_all IsValidOpenSearchRole (pool_Roles p)"
  by (auto simp: good_pool_def admissible_pool_def good_name_def MaxNodePoolNameLength_def)

lemma validateIndexerSpec_errors:
  "fst (validateIndexerSpec spec) = [] \<longleftrightarrow>
     validateGatewayAPIConfig (ics_GatewayAPI spec) (ics_Ingress spec) ''spec.indexer'' = [] \<and>
     (ics_NodePools spec = [] \<or> sint (ics_Replicas spec) \<le> 0 \<and> fst (validateNodePools (ics_NodePools spec)) = [])"
  by (cases "ics_NodePools spec = []")
    (auto simp: validateIndexerSpec_def IsSimpleMode_def IsAdvancedMode_def Let_def split_beta not_less)

lemma validateWazuhCluster_indexer:
  assumes "snd (validateWazuhCluster c) = Inr ()" and "wc_Indexer c = Some spec"
  shows "fst (validateIndexerSpec spec) = []"
  using assms by (auto simp: validateWazuhCluster_def validateInlineMode_def IsInlineMode_def Let_def split_beta split: if_splits)

subsection \<open>Sequences of admitted requests\<close>

text \<open>
  \<open>admitted P c c'\<close>: the cluster was created as \<open>c\<close> and is now \<open>c'\<close>, after any number of
  admitted updates through clusters that satisfy \<open>P\<close>.
\<close>

inductive admitted :: "(WazuhCluster \<Rightarrow> bool) \<Rightarrow> WazuhCluster \<Rightarrow> WazuhCluster \<Rightarrow> bool" for P where
  created: "snd (ValidateCreate c) = Inr () \<Longrightarrow> P c \<Longrightarrow> admitted P c c"
| updated: "admitted P c0 c \<Longrightarrow> snd (ValidateUpdate c c') = Inr () \<Longrightarrow> P c' \<Longrightarrow> admitted P c0 c'"

definition has_topology :: "WazuhCluster \<Rightarrow> bool" where
  "has_topology c \<longleftrightarrow> (case wc_Indexer c of None \<Rightarrow> False | Some spec \<Rightarrow> IsSimpleMode spec \<or> IsAdvancedMode spec)"

definition advanced :: "WazuhCluster \<Rightarrow> bool" where
  "advanced c \<longleftrightarrow> (case wc_Indexer c of None \<Rightarrow> False | Some spec \<Rightarrow> IsAdvancedMode spec)"

lemma modes_exclusive: "IsSimpleMode spec \<Longrightarrow> \<not> IsAdvancedMode spec"
  by (simp add: IsSimpleMode_def IsAdvancedMode_def)

lemma update_keeps_topology:
  assumes "snd (ValidateUpdate c c') = Inr ()" and "has_topology c" and "has_topology c'"
  shows "advanced c' = advanced c"
  using assms modes_exclusive
  by (auto simp: ValidateUpdate_def validateUpdate_def has_topology_def advanced_def split: prod.splits sum.splits option.splits if_splits)

lemma update_valid: "snd (ValidateUpdate c c') = Inr () \<Longrightarrow> snd (validateWazuhCluster c') = Inr ()"
  by (auto simp: ValidateUpdate_def split: prod.splits sum.splits)

lemma admitted_valid: "admitted P c0 c \<Longrightarrow> snd (validateWazuhCluster c) = Inr ()"
  by (induction rule: admitted.induct) (auto simp: ValidateCreate_def intro: update_valid)

lemma admitted_topology:
  "admitted P c0 c \<Longrightarrow> (\<And>c. P c \<Longrightarrow> has_topology c) \<Longrightarrow> has_topology c \<and> advanced c = advanced c0"
  by (induction rule: admitted.induct) (auto dest: update_keeps_topology)

text \<open>A cluster for examples, with the given indexer section.\<close>

definition bare_cluster :: "WazuhIndexerClusterSpec option \<Rightarrow> WazuhCluster" where
  "bare_cluster spec = empty_cluster\<lparr>wc_Indexer := spec, wc_Manager := Some (plain_manager None)\<rparr>"

subsection \<open>Properties\<close>

text \<open>
  C20: The webhook and the controller agree on topologies, but for two conditions only the
  controller knows: pool names of at most 15 characters, and known roles.
\<close>

theorem admission_agrees:
  "vr_Valid (ValidateNodePools spec) \<and> validateGatewayAPIConfig (ics_GatewayAPI spec) (ics_Ingress spec) ''spec.indexer'' = [] \<longleftrightarrow>
   fst (validateIndexerSpec spec) = [] \<and> list_all (\<lambda>p. length (pool_Name p) \<le> MaxNodePoolNameLength \<and>
     list_all IsValidOpenSearchRole (pool_Roles p)) (ics_NodePools spec)"
  by (auto simp: validateIndexerSpec_errors ValidateNodePools_valid validateNodePools_errors good_pool_admissible list_all_iff)

text \<open>
  C21: Through any sequence of admitted updates that always keep an indexer section with a
  topology, the topology stays simple or stays advanced, and every stored cluster is valid.
\<close>

theorem topology_kept:
  assumes "admitted has_topology c0 c"
  shows "advanced c = advanced c0 \<and> snd (validateWazuhCluster c) = Inr ()"
  using admitted_topology [OF assms] admitted_valid [OF assms] by blast

text \<open>
  The rule against a change of topology can be passed in two updates: a cluster created
  simple can be updated to one without an indexer section, and then to an advanced one.
\<close>

theorem topology_escapes:
  "\<exists>c0 c. admitted (\<lambda>c. True) c0 c \<and> has_topology c0 \<and> \<not> advanced c0 \<and> advanced c"
proof -
  let ?base = "bare_cluster None" and ?simple = "bare_cluster (Some (plain_indexer 3 []))"
    and ?advanced = "bare_cluster (Some (plain_indexer 0 sample_pools))"
  have "snd (ValidateCreate ?simple) = Inr ()" by code_simp
  then have "admitted (\<lambda>c. True) ?simple ?simple" by (rule created) simp
  moreover have "snd (ValidateUpdate ?simple ?base) = Inr ()" by code_simp
  ultimately have "admitted (\<lambda>c. True) ?simple ?base" by (rule updated) simp
  moreover have "snd (ValidateUpdate ?base ?advanced) = Inr ()" by code_simp
  ultimately have "admitted (\<lambda>c. True) ?simple ?advanced" by (rule updated) simp
  moreover have "has_topology ?simple" "\<not> advanced ?simple" "advanced ?advanced" by code_simp+
  ultimately show ?thesis by blast
qed

text \<open>
  C33: No request for an advanced topology is ever admitted. Whatever \<open>replicas\<close> the request
  has, or has not, the schema makes it at least 1, and then the webhook refuses node pools.
\<close>

theorem advanced_mode_not_admitted:
  assumes "indexer_replicas_schema requested = Some n" and "wc_Indexer c = Some spec"
    and "ics_Replicas spec = n" and "IsAdvancedMode spec"
  shows "\<exists>e. snd (ValidateCreate (webhook_Default c)) = Inl e"
proof -
  have "fst (validateIndexerSpec spec) \<noteq> []"
    using assms by (auto simp: indexer_replicas_schema_def validateIndexerSpec_def IsAdvancedMode_def Let_def split: if_splits)
  moreover have "wc_Indexer (webhook_Default c) = Some spec"
    using assms(2, 4) by (simp add: webhook_Default_def Let_def split: option.splits)
  ultimately show ?thesis
    using validateWazuhCluster_indexer [of "webhook_Default c" spec]
    by (cases "snd (validateWazuhCluster (webhook_Default c))") (auto simp: ValidateCreate_def)
qed

subsection \<open>Examples\<close>

theorem topology_kept_witness:
  "admitted has_topology (bare_cluster (Some (plain_indexer 3 []))) (bare_cluster (Some (plain_indexer 5 []))) \<and>
   \<not> advanced (bare_cluster (Some (plain_indexer 5 [])))"
proof -
  let ?c = "bare_cluster (Some (plain_indexer 3 []))" and ?d = "bare_cluster (Some (plain_indexer 5 []))"
  have "snd (ValidateCreate ?c) = Inr ()" "has_topology ?c" by code_simp+
  then have "admitted has_topology ?c ?c" by (rule created)
  moreover have "snd (ValidateUpdate ?c ?d) = Inr ()" "has_topology ?d" by code_simp+
  ultimately have run: "admitted has_topology ?c ?d" by (rule updated)
  moreover have "\<not> advanced ?c" by code_simp
  ultimately show ?thesis using topology_kept [OF run] by simp
qed

theorem advanced_mode_not_admitted_witness:
  "indexer_replicas_schema None = Some 3 \<and>
   (\<exists>e. snd (ValidateCreate (webhook_Default (bare_cluster (Some (plain_indexer 3 sample_pools))))) = Inl e)"
proof -
  have "indexer_replicas_schema None = Some 3" by code_simp
  moreover have "wc_Indexer (bare_cluster (Some (plain_indexer 3 sample_pools))) = Some (plain_indexer 3 sample_pools)"
    "IsAdvancedMode (plain_indexer 3 sample_pools)"
    by (simp_all add: bare_cluster_def empty_cluster_def IsAdvancedMode_def sample_pools_def)
  ultimately show ?thesis using advanced_mode_not_admitted [of None 3] by simp
qed

end
