(* ===== verification/Versions.thy ===== *)
theory Versions
  imports Prelude
begin

section \<open>Wazuh and OpenSearch versions (pkg/versions/versions.go)\<close>

text \<open>
  Parsing and comparing versions, the table that gives the OpenSearch version of a Wazuh
  release, and the two ways the operator decides whether certificates can be reloaded without
  a restart. Versions are a linear order, and \<open>Compare\<close> is its comparison. Go iterates over a
  map in an unspecified order: the table's iteration order is an argument, and the lookup is
  shown not to depend on it.
\<close>

datatype Version = Version (v_Major: int) (v_Minor: int) (v_Patch: int)

instantiation Version :: linorder
begin

definition less_eq_Version :: "Version \<Rightarrow> Version \<Rightarrow> bool" where
  "less_eq_Version v w \<longleftrightarrow> v_Major v < v_Major w \<or> v_Major v = v_Major w \<and>
     (v_Minor v < v_Minor w \<or> v_Minor v = v_Minor w \<and> v_Patch v \<le> v_Patch w)"

definition less_Version :: "Version \<Rightarrow> Version \<Rightarrow> bool" where
  "less_Version v w \<longleftrightarrow> v \<le> w \<and> \<not> w \<le> v"

instance
  by standard (auto simp: less_eq_Version_def less_Version_def intro: Version.expand)

end

definition TrimPrefix_v :: "string \<Rightarrow> string" where
  "TrimPrefix_v s = (case s of c # cs \<Rightarrow> if c = CHR ''v'' then cs else s | [] \<Rightarrow> [])"

definition parse_patch :: "string \<Rightarrow> int" where
  "parse_patch s = (case atoi (hd (split_on CHR ''-'' s)) of None \<Rightarrow> 0 | Some n \<Rightarrow> n)"

definition ParseVersion :: "string \<Rightarrow> Version result" where
  "ParseVersion s =
     (let version = TrimPrefix_v s; parts = split_on CHR ''.'' version in
      if length parts < 2 then Inl (errorf (''invalid version format: '' @ version))
      else case atoi (parts ! 0) of
        None \<Rightarrow> Inl (errorf (''invalid major version: '' @ parts ! 0))
      | Some major \<Rightarrow>
         (case atoi (parts ! 1) of
            None \<Rightarrow> Inl (errorf (''invalid minor version: '' @ parts ! 1))
          | Some minor \<Rightarrow> Inr (Version major minor (if length parts \<ge> 3 then parse_patch (parts ! 2) else 0))))"

definition Compare :: "Version \<Rightarrow> Version \<Rightarrow> int" where
  "Compare v other =
     (if v_Major v \<noteq> v_Major other then (if v_Major v < v_Major other then - 1 else 1)
      else if v_Minor v \<noteq> v_Minor other then (if v_Minor v < v_Minor other then - 1 else 1)
      else if v_Patch v \<noteq> v_Patch other then (if v_Patch v < v_Patch other then - 1 else 1)
      else 0)"

definition GreaterThanOrEqual :: "Version \<Rightarrow> Version \<Rightarrow> bool" where
  "GreaterThanOrEqual v other = (Compare v other \<ge> 0)"

definition LessThan :: "Version \<Rightarrow> Version \<Rightarrow> bool" where
  "LessThan v other = (Compare v other < 0)"

definition Version_String :: "Version \<Rightarrow> string" where
  "Version_String v = show_int (v_Major v) @ ''.'' @ show_int (v_Minor v) @ ''.'' @ show_int (v_Patch v)"

subsection \<open>The release table\<close>

record WazuhVersionInfo =
  wvi_WazuhVersion :: string
  wvi_OpenSearchVersion :: string
  wvi_PluginVersion :: string

definition wazuhVersionMapping :: "(string \<times> WazuhVersionInfo) list" where
  "wazuhVersionMapping = [
     (''4.14.3'', \<lparr>wvi_WazuhVersion = ''4.14.3'', wvi_OpenSearchVersion = ''2.19.4'', wvi_PluginVersion = ''2.19.4.0''\<rparr>),
     (''4.14.2'', \<lparr>wvi_WazuhVersion = ''4.14.2'', wvi_OpenSearchVersion = ''2.19.4'', wvi_PluginVersion = ''2.19.4.0''\<rparr>),
     (''4.14.1'', \<lparr>wvi_WazuhVersion = ''4.14.1'', wvi_OpenSearchVersion = ''2.19.3'', wvi_PluginVersion = ''2.19.3.0''\<rparr>),
     (''4.14.0'', \<lparr>wvi_WazuhVersion = ''4.14.0'', wvi_OpenSearchVersion = ''2.19.3'', wvi_PluginVersion = ''2.19.3.0''\<rparr>),
     (''4.13.1'', \<lparr>wvi_WazuhVersion = ''4.13.1'', wvi_OpenSearchVersion = ''2.19.2'', wvi_PluginVersion = ''2.19.2.0''\<rparr>),
     (''4.13.0'', \<lparr>wvi_WazuhVersion = ''4.13.0'', wvi_OpenSearchVersion = ''2.19.2'', wvi_PluginVersion = ''2.19.2.0''\<rparr>),
     (''4.12.0'', \<lparr>wvi_WazuhVersion = ''4.12.0'', wvi_OpenSearchVersion = ''2.19.1'', wvi_PluginVersion = ''2.19.1.0''\<rparr>),
     (''4.11.2'', \<lparr>wvi_WazuhVersion = ''4.11.2'', wvi_OpenSearchVersion = ''2.16.0'', wvi_PluginVersion = ''2.16.0.0''\<rparr>),
     (''4.11.1'', \<lparr>wvi_WazuhVersion = ''4.11.1'', wvi_OpenSearchVersion = ''2.16.0'', wvi_PluginVersion = ''2.16.0.0''\<rparr>),
     (''4.11.0'', \<lparr>wvi_WazuhVersion = ''4.11.0'', wvi_OpenSearchVersion = ''2.16.0'', wvi_PluginVersion = ''2.16.0.0''\<rparr>),
     (''4.10.3'', \<lparr>wvi_WazuhVersion = ''4.10.3'', wvi_OpenSearchVersion = ''2.16.0'', wvi_PluginVersion = ''2.16.0.0''\<rparr>),
     (''4.10.2'', \<lparr>wvi_WazuhVersion = ''4.10.2'', wvi_OpenSearchVersion = ''2.16.0'', wvi_PluginVersion = ''2.16.0.0''\<rparr>),
     (''4.10.1'', \<lparr>wvi_WazuhVersion = ''4.10.1'', wvi_OpenSearchVersion = ''2.16.0'', wvi_PluginVersion = ''2.16.0.0''\<rparr>),
     (''4.10.0'', \<lparr>wvi_WazuhVersion = ''4.10.0'', wvi_OpenSearchVersion = ''2.16.0'', wvi_PluginVersion = ''2.16.0.0''\<rparr>),
     (''4.9.3'', \<lparr>wvi_WazuhVersion = ''4.9.3'', wvi_OpenSearchVersion = ''2.13.0'', wvi_PluginVersion = ''2.13.0.0''\<rparr>),
     (''4.9.2'', \<lparr>wvi_WazuhVersion = ''4.9.2'', wvi_OpenSearchVersion = ''2.13.0'', wvi_PluginVersion = ''2.13.0.0''\<rparr>),
     (''4.9.1'', \<lparr>wvi_WazuhVersion = ''4.9.1'', wvi_OpenSearchVersion = ''2.13.0'', wvi_PluginVersion = ''2.13.0.0''\<rparr>),
     (''4.9.0'', \<lparr>wvi_WazuhVersion = ''4.9.0'', wvi_OpenSearchVersion = ''2.13.0'', wvi_PluginVersion = ''2.13.0.0''\<rparr>)]"

definition consider_release :: "Version \<Rightarrow> string \<times> WazuhVersionInfo \<Rightarrow> (WazuhVersionInfo \<times> Version) option \<Rightarrow>
    (WazuhVersionInfo \<times> Version) option" where
  "consider_release wv = (\<lambda>(verStr, info) best. case ParseVersion verStr of
     Inl e \<Rightarrow> best
   | Inr mapped \<Rightarrow>
      if v_Major mapped \<noteq> v_Major wv then best
      else if v_Minor mapped \<noteq> v_Minor wv then best
      else if (case best of None \<Rightarrow> True | Some (i, b) \<Rightarrow> v_Patch mapped > v_Patch b) then
        (if v_Patch mapped \<le> v_Patch wv then Some (info, mapped) else best)
      else best)"

text \<open>\<open>order\<close> is the map in the order in which \<open>range\<close> visits it.\<close>

definition GetWazuhVersionInfo :: "(string \<times> WazuhVersionInfo) list \<Rightarrow> string \<Rightarrow> WazuhVersionInfo result" where
  "GetWazuhVersionInfo order s =
     (let wazuhVersion = TrimPrefix_v s in
      case map_of wazuhVersionMapping wazuhVersion of
        Some info \<Rightarrow> Inr info
      | None \<Rightarrow>
         (case ParseVersion wazuhVersion of
            Inl e \<Rightarrow> Inl (errorf (''invalid Wazuh version format: '' @ wazuhVersion))
          | Inr wv \<Rightarrow>
             (case foldl (\<lambda>best entry. consider_release wv entry best) None order of
                Some (info, mapped) \<Rightarrow> Inr (info\<lparr>wvi_WazuhVersion := wazuhVersion\<rparr>)
              | None \<Rightarrow> Inl (errorf (''unsupported Wazuh version '' @ wazuhVersion @ '': only versions 4.9.0 and above are supported'')))))"

definition WazuhToOpenSearchVersion :: "(string \<times> WazuhVersionInfo) list \<Rightarrow> string \<Rightarrow> Version result" where
  "WazuhToOpenSearchVersion order wazuhVersion = (case GetWazuhVersionInfo order wazuhVersion of
     Inr info \<Rightarrow> ParseVersion (wvi_OpenSearchVersion info)
   | Inl err \<Rightarrow>
      (case ParseVersion wazuhVersion of
         Inl e \<Rightarrow> Inl (wrapf ''failed to parse Wazuh version: '' e)
       | Inr wv \<Rightarrow> Inr
          (if v_Major wv = 4 \<and> v_Minor wv \<ge> 12 then Version 2 19 1
           else if v_Major wv = 4 \<and> v_Minor wv \<ge> 10 then Version 2 16 0
           else if v_Major wv = 4 \<and> v_Minor wv \<ge> 9 then Version 2 13 0
           else if v_Major wv = 4 \<and> v_Minor wv \<ge> 7 then Version 2 10 0
           else if v_Major wv = 4 \<and> v_Minor wv \<ge> 4 then Version 2 6 0
           else if v_Major wv \<ge> 5 then Version 2 19 0
           else Version 1 0 0)))"

datatype HotReloadSupport = HotReloadNotSupported | HotReloadWithAPICall | HotReloadAutomatic

definition HotReloadSupport_String :: "HotReloadSupport \<Rightarrow> string" where
  "HotReloadSupport_String h = (case h of HotReloadNotSupported \<Rightarrow> ''not supported''
     | HotReloadWithAPICall \<Rightarrow> ''supported (requires API call)'' | HotReloadAutomatic \<Rightarrow> ''fully automatic'')"

definition MinOpenSearchVersionForHotReload :: Version where
  "MinOpenSearchVersionForHotReload = Version 2 13 0"

definition MinOpenSearchVersionForAutoHotReload :: Version where
  "MinOpenSearchVersionForAutoHotReload = Version 2 19 0"

definition GetHotReloadSupport :: "Version option \<Rightarrow> HotReloadSupport" where
  "GetHotReloadSupport v = (case v of None \<Rightarrow> HotReloadNotSupported
   | Some openSearchVersion \<Rightarrow>
      if LessThan openSearchVersion MinOpenSearchVersionForHotReload then HotReloadNotSupported
      else if GreaterThanOrEqual openSearchVersion MinOpenSearchVersionForAutoHotReload then HotReloadAutomatic
      else HotReloadWithAPICall)"

definition GetHotReloadSupportForWazuh :: "(string \<times> WazuhVersionInfo) list \<Rightarrow> string \<Rightarrow> HotReloadSupport \<times> gerror option" where
  "GetHotReloadSupportForWazuh order wazuhVersion = (case WazuhToOpenSearchVersion order wazuhVersion of
     Inl err \<Rightarrow> (HotReloadNotSupported, Some err)
   | Inr osVersion \<Rightarrow> (GetHotReloadSupport (Some osVersion), None))"

definition SupportsHotReload :: "(string \<times> WazuhVersionInfo) list \<Rightarrow> string \<Rightarrow> bool" where
  "SupportsHotReload order v = (case GetHotReloadSupportForWazuh order v of
     (support, Some err) \<Rightarrow> False | (support, None) \<Rightarrow> support \<noteq> HotReloadNotSupported)"

definition RequiresAPIReload :: "(string \<times> WazuhVersionInfo) list \<Rightarrow> string \<Rightarrow> bool" where
  "RequiresAPIReload order v = (case GetHotReloadSupportForWazuh order v of
     (support, Some err) \<Rightarrow> False | (support, None) \<Rightarrow> support = HotReloadWithAPICall)"

definition SupportsAutomaticHotReload :: "(string \<times> WazuhVersionInfo) list \<Rightarrow> string \<Rightarrow> bool" where
  "SupportsAutomaticHotReload order v = (case GetHotReloadSupportForWazuh order v of
     (support, Some err) \<Rightarrow> False | (support, None) \<Rightarrow> support = HotReloadAutomatic)"

definition GetOpenSearchVersionFromWazuh :: "(string \<times> WazuhVersionInfo) list \<Rightarrow> string \<Rightarrow> string result" where
  "GetOpenSearchVersionFromWazuh order v = map_sum id wvi_OpenSearchVersion (GetWazuhVersionInfo order v)"

definition GetPrometheusExporterPluginVersion :: "(string \<times> WazuhVersionInfo) list \<Rightarrow> string \<Rightarrow> string result" where
  "GetPrometheusExporterPluginVersion order v = map_sum id wvi_PluginVersion (GetWazuhVersionInfo order v)"

definition GetPrometheusExporterDownloadURL :: "(string \<times> WazuhVersionInfo) list \<Rightarrow> string \<Rightarrow> string result" where
  "GetPrometheusExporterDownloadURL order v = (case GetPrometheusExporterPluginVersion order v of
     Inl e \<Rightarrow> Inl e
   | Inr p \<Rightarrow> Inr (''https://github.com/opensearch-project/opensearch-prometheus-exporter/releases/download/'' @ p @
       ''/prometheus-exporter-'' @ p @ ''.zip''))"

definition ExtractOpenSearchVersionFromPluginVersion :: "string \<Rightarrow> string" where
  "ExtractOpenSearchVersionFromPluginVersion pluginVersion =
     (let parts = split_on CHR ''.'' pluginVersion in
      if length parts \<ge> 3 then parts ! 0 @ ''.'' @ parts ! 1 @ ''.'' @ parts ! 2 else pluginVersion)"

subsection \<open>The feature table\<close>

record OpenSearchFeatureSupport =
  ofs_Version :: string
  ofs_SupportsHotReload :: bool
  ofs_HotReloadMethod :: string
  ofs_SecurityAPIVersion :: int
  ofs_ReloadCertAPIPath :: string

definition reload_path :: string where
  "reload_path = ''/_plugins/_security/api/ssl/certs/reload''"

definition openSearchFeatureMapping :: "(string \<times> OpenSearchFeatureSupport) list" where
  "openSearchFeatureMapping = [
     (''2.19'', \<lparr>ofs_Version = ''2.19'', ofs_SupportsHotReload = True, ofs_HotReloadMethod = ''automatic-file-watch'',
       ofs_SecurityAPIVersion = 2, ofs_ReloadCertAPIPath = reload_path\<rparr>),
     (''2.18'', \<lparr>ofs_Version = ''2.18'', ofs_SupportsHotReload = True, ofs_HotReloadMethod = ''api-call'',
       ofs_SecurityAPIVersion = 2, ofs_ReloadCertAPIPath = reload_path\<rparr>),
     (''2.17'', \<lparr>ofs_Version = ''2.17'', ofs_SupportsHotReload = True, ofs_HotReloadMethod = ''api-call'',
       ofs_SecurityAPIVersion = 2, ofs_ReloadCertAPIPath = reload_path\<rparr>),
     (''2.16'', \<lparr>ofs_Version = ''2.16'', ofs_SupportsHotReload = True, ofs_HotReloadMethod = ''api-call'',
       ofs_SecurityAPIVersion = 2, ofs_ReloadCertAPIPath = reload_path\<rparr>),
     (''2.15'', \<lparr>ofs_Version = ''2.15'', ofs_SupportsHotReload = True, ofs_HotReloadMethod = ''api-call'',
       ofs_SecurityAPIVersion = 2, ofs_ReloadCertAPIPath = reload_path\<rparr>),
     (''2.14'', \<lparr>ofs_Version = ''2.14'', ofs_SupportsHotReload = True, ofs_HotReloadMethod = ''api-call'',
       ofs_SecurityAPIVersion = 2, ofs_ReloadCertAPIPath = reload_path\<rparr>),
     (''2.13'', \<lparr>ofs_Version = ''2.13'', ofs_SupportsHotReload = True, ofs_HotReloadMethod = ''api-call'',
       ofs_SecurityAPIVersion = 2, ofs_ReloadCertAPIPath = reload_path\<rparr>),
     (''2.12'', \<lparr>ofs_Version = ''2.12'', ofs_SupportsHotReload = False, ofs_HotReloadMethod = ''restart-required'',
       ofs_SecurityAPIVersion = 2, ofs_ReloadCertAPIPath = []\<rparr>),
     (''2.11'', \<lparr>ofs_Version = ''2.11'', ofs_SupportsHotReload = False, ofs_HotReloadMethod = ''restart-required'',
       ofs_SecurityAPIVersion = 2, ofs_ReloadCertAPIPath = []\<rparr>),
     (''2.10'', \<lparr>ofs_Version = ''2.10'', ofs_SupportsHotReload = False, ofs_HotReloadMethod = ''restart-required'',
       ofs_SecurityAPIVersion = 2, ofs_ReloadCertAPIPath = []\<rparr>)]"

definition GetOpenSearchFeatureSupport :: "string \<Rightarrow> OpenSearchFeatureSupport result" where
  "GetOpenSearchFeatureSupport version = (case ParseVersion version of
     Inl e \<Rightarrow> Inl e
   | Inr v \<Rightarrow> Inr
      (case map_of openSearchFeatureMapping (show_int (v_Major v) @ ''.'' @ show_int (v_Minor v)) of
         Some support \<Rightarrow> support
       | None \<Rightarrow>
          if v_Major v = 2 \<and> v_Minor v \<ge> 19 then \<lparr>ofs_Version = version, ofs_SupportsHotReload = True,
            ofs_HotReloadMethod = ''automatic-file-watch'', ofs_SecurityAPIVersion = 2, ofs_ReloadCertAPIPath = reload_path\<rparr>
          else if v_Major v = 2 \<and> v_Minor v \<ge> 13 then \<lparr>ofs_Version = version, ofs_SupportsHotReload = True,
            ofs_HotReloadMethod = ''api-call'', ofs_SecurityAPIVersion = 2, ofs_ReloadCertAPIPath = reload_path\<rparr>
          else \<lparr>ofs_Version = version, ofs_SupportsHotReload = False, ofs_HotReloadMethod = ''restart-required'',
            ofs_SecurityAPIVersion = 2, ofs_ReloadCertAPIPath = []\<rparr>))"

definition GetHotReloadAPIPath :: "string \<Rightarrow> string" where
  "GetHotReloadAPIPath v = (case GetOpenSearchFeatureSupport v of Inl e \<Rightarrow> [] | Inr s \<Rightarrow> ofs_ReloadCertAPIPath s)"

definition IsWazuhVersionSupported :: "string \<Rightarrow> bool" where
  "IsWazuhVersionSupported wazuhVersion = (case ParseVersion wazuhVersion of Inl e \<Rightarrow> False
   | Inr v \<Rightarrow> v_Major v \<ge> 5 \<or> v_Major v = 4 \<and> v_Minor v \<ge> 9)"

definition GetSupportedWazuhVersionRange :: "string \<times> string" where
  "GetSupportedWazuhVersionRange = (''4.9.0'', ''5.x.x'')"

definition GetAllSupportedWazuhVersions :: "(string \<times> WazuhVersionInfo) list \<Rightarrow> string list" where
  "GetAllSupportedWazuhVersions order = map fst order"

subsection \<open>Parsing\<close>

lemma atoi_range: "atoi s = Some k \<Longrightarrow> in_i64 k"
  by (auto simp: atoi_def Let_def split: prod.splits option.splits if_splits)

lemma atoi_nonneg: "atoi s = Some k \<Longrightarrow> CHR ''-'' \<notin> set s \<Longrightarrow> 0 \<le> k"
  by (auto simp: atoi_def signed_part_def Let_def split: prod.splits option.splits if_splits list.splits)

lemma split_on_notin: "p \<in> set (split_on sep s) \<Longrightarrow> sep \<notin> set p"
  by (induction s arbitrary: p) (auto split: if_splits list.splits)

lemma parse_patch_nonneg: "0 \<le> parse_patch s"
  using split_on_notin [of "hd (split_on CHR ''-'' s)" "CHR ''-''" s]
  by (auto simp: parse_patch_def split: option.splits intro: atoi_nonneg)

lemma ParseVersion_range:
  "ParseVersion s = Inr v \<Longrightarrow> in_i64 (v_Major v) \<and> in_i64 (v_Minor v) \<and> 0 \<le> v_Patch v"
  by (auto simp: ParseVersion_def Let_def parse_patch_nonneg split: if_splits option.splits dest: atoi_range)

lemma is_digit_eqs [simp]: "\<not> is_digit CHR ''.''" "\<not> is_digit CHR ''v''"
  by (simp_all add: is_digit_def)

lemma show_int_chars: "c \<in> set (show_int k) \<Longrightarrow> is_digit c \<or> c = CHR ''-''"
  using show_nat_digits by (auto simp: show_int_def list_all_iff split: if_splits)

lemma show_int_nonneg_chars: "c \<in> set (show_int k) \<Longrightarrow> 0 \<le> k \<Longrightarrow> is_digit c"
  using show_nat_digits by (auto simp: show_int_def list_all_iff split: if_splits)

lemma dot_notin_show_int [simp]: "CHR ''.'' \<notin> set (show_int k)"
  using show_int_chars [of "CHR ''.''" k] by auto

lemma TrimPrefix_show: "TrimPrefix_v (show_int k @ s) = show_int k @ s"
proof -
  obtain c cs where c: "show_int k = c # cs" using show_int_nonempty [of k] by (cases "show_int k") auto
  then have "c \<noteq> CHR ''v''" using show_int_chars [of c k] by auto
  with c show ?thesis by (simp add: TrimPrefix_v_def)
qed

lemma ParseVersion_String:
  assumes "in_i64 (v_Major v)" "in_i64 (v_Minor v)" "in_i64 (v_Patch v)" "0 \<le> v_Patch v"
  shows "ParseVersion (Version_String v) = Inr v"
proof -
  have parts: "split_on CHR ''.'' (Version_String v) = [show_int (v_Major v), show_int (v_Minor v), show_int (v_Patch v)]"
    by (simp add: Version_String_def split_on_append split_on_free)
  have "CHR ''-'' \<notin> set (show_int (v_Patch v))" using show_int_nonneg_chars assms(4) sign_not_digit(1) by blast
  then have "parse_patch (show_int (v_Patch v)) = v_Patch v"
    using assms(3) by (simp add: parse_patch_def split_on_free atoi_show_int)
  moreover have "TrimPrefix_v (Version_String v) = Version_String v" by (simp add: Version_String_def TrimPrefix_show)
  ultimately show ?thesis using assms parts by (simp add: ParseVersion_def atoi_show_int)
qed

lemma Compare_less: "Compare v w < 0 \<longleftrightarrow> v < w" "Compare v w \<ge> 0 \<longleftrightarrow> w \<le> v" "Compare v w = 0 \<longleftrightarrow> v = w"
  by (auto simp: Compare_def less_Version_def less_eq_Version_def intro: Version.expand)

subsection \<open>The lookup does not depend on the order of the map\<close>

definition candidate :: "Version \<Rightarrow> string \<times> WazuhVersionInfo \<Rightarrow> Version \<Rightarrow> bool" where
  "candidate wv entry m \<longleftrightarrow> ParseVersion (fst entry) = Inr m \<and> v_Major m = v_Major wv \<and> v_Minor m = v_Minor wv \<and> v_Patch m \<le> v_Patch wv"

lemma consider_take:
  "candidate wv e m \<Longrightarrow> (case best of None \<Rightarrow> True | Some (i, b) \<Rightarrow> v_Patch m > v_Patch b) \<Longrightarrow>
    consider_release wv e best = Some (snd e, m)"
  by (cases e) (auto simp: consider_release_def candidate_def)

lemma consider_skip:
  "\<nexists>m. candidate wv e m \<and> (case best of None \<Rightarrow> True | Some (i, b) \<Rightarrow> v_Patch m > v_Patch b) \<Longrightarrow>
    consider_release wv e best = best"
  by (cases e) (auto simp: consider_release_def candidate_def split: sum.splits)

lemma best_release:
  assumes "foldl (\<lambda>best entry. consider_release wv entry best) None order = best"
  shows "case best of None \<Rightarrow> \<forall>e \<in> set order. \<forall>m. \<not> candidate wv e m
    | Some (i, b) \<Rightarrow> \<exists>e \<in> set order. candidate wv e b \<and> i = snd e \<and> (\<forall>e' \<in> set order. \<forall>m. candidate wv e' m \<longrightarrow> v_Patch m \<le> v_Patch b)"
  using assms
proof (induction order arbitrary: best rule: rev_induct)
  case (snoc e order)
  let ?b = "foldl (\<lambda>best entry. consider_release wv entry best) None order"
  note IH = snoc.IH [OF refl]
  have best: "best = consider_release wv e ?b" using snoc.prems by simp
  show ?case
  proof (cases "\<exists>m. candidate wv e m \<and> (case ?b of None \<Rightarrow> True | Some (i, b) \<Rightarrow> v_Patch m > v_Patch b)")
    case True
    then obtain m where m: "candidate wv e m" "case ?b of None \<Rightarrow> True | Some (i, b) \<Rightarrow> v_Patch m > v_Patch b" by blast
    then have "best = Some (snd e, m)" using best consider_take by metis
    then show ?thesis using IH m by (cases ?b) (force simp: candidate_def split: prod.splits)+
  next
    case False
    then have "best = ?b" using best consider_skip by metis
    then show ?thesis using IH False by (cases ?b) (force split: prod.splits)+
  qed
qed simp

lemma table_versions_distinct: "distinct (map (\<lambda>e. ParseVersion (fst e)) wazuhVersionMapping)"
  by code_simp

lemma candidate_unique:
  assumes "e \<in> set wazuhVersionMapping" "e' \<in> set wazuhVersionMapping" "candidate wv e m" "candidate wv e' m"
  shows "e = e'"
  using assms table_versions_distinct by (auto simp: candidate_def distinct_map inj_on_def)

lemma best_unique:
  assumes "set order = set wazuhVersionMapping"
  shows "foldl (\<lambda>best entry. consider_release wv entry best) None order =
    foldl (\<lambda>best entry. consider_release wv entry best) None wazuhVersionMapping" (is "?l = ?r")
proof (cases ?l)
  case None
  then show ?thesis using best_release [of wv order, OF refl] best_release [of wv wazuhVersionMapping, OF refl] assms
    by (cases ?r) auto
next
  case (Some ib)
  obtain i b where l: "?l = Some (i, b)" using Some by (cases ib) auto
  then obtain e where e: "e \<in> set wazuhVersionMapping" "candidate wv e b" "i = snd e"
      "\<And>e' m. e' \<in> set wazuhVersionMapping \<Longrightarrow> candidate wv e' m \<Longrightarrow> v_Patch m \<le> v_Patch b"
    using best_release [of wv order, OF refl] assms by auto
  then obtain i' b' where r: "?r = Some (i', b')"
    using best_release [of wv wazuhVersionMapping, OF refl] by (cases ?r) auto
  then obtain e' where e': "e' \<in> set wazuhVersionMapping" "candidate wv e' b'" "i' = snd e'"
      "\<And>e m. e \<in> set wazuhVersionMapping \<Longrightarrow> candidate wv e m \<Longrightarrow> v_Patch m \<le> v_Patch b'"
    using best_release [of wv wazuhVersionMapping, OF refl] by auto
  have "v_Patch b = v_Patch b'" using e(4) [OF e'(1, 2)] e'(4) [OF e(1, 2)] by simp
  then have "b = b'" using e(2) e'(2) by (auto simp: candidate_def intro: Version.expand)
  then show ?thesis using l r e e' candidate_unique by metis
qed

subsection \<open>The feature table by numbers\<close>

definition minor_key :: "int \<Rightarrow> int \<Rightarrow> string" where
  "minor_key major minor = show_int major @ ''.'' @ show_int minor"

lemma minor_key_inject:
  "in_i64 a \<Longrightarrow> in_i64 b \<Longrightarrow> in_i64 c \<Longrightarrow> in_i64 d \<Longrightarrow> minor_key a b = minor_key c d \<longleftrightarrow> a = c \<and> b = d"
  by (auto simp: minor_key_def append_eq_marker show_int_inject)

lemma feature_keys: "map fst openSearchFeatureMapping = map (minor_key 2) [19, 18, 17, 16, 15, 14, 13, 12, 11, 10]"
  by code_simp

lemma feature_row:
  assumes "(k, f) \<in> set openSearchFeatureMapping"
  shows "\<exists>minor. k = minor_key 2 minor \<and> 10 \<le> minor \<and> minor \<le> 19 \<and>
    ofs_SupportsHotReload f = (13 \<le> minor) \<and> (ofs_HotReloadMethod f = ''automatic-file-watch'') = (19 \<le> minor)"
proof -
  have rows: "list_all (\<lambda>(minor, k, f). k = minor_key 2 minor \<and> 10 \<le> minor \<and> minor \<le> 19 \<and> ofs_SupportsHotReload f = (13 \<le> minor) \<and>
      (ofs_HotReloadMethod f = ''automatic-file-watch'') = (19 \<le> minor)) (zip [19, 18, 17, 16, 15, 14, 13, 12, 11, 10] openSearchFeatureMapping)"
    by code_simp
  have "length openSearchFeatureMapping = 10" by code_simp
  then obtain i where "i < 10" "openSearchFeatureMapping ! i = (k, f)" using assms by (metis in_set_conv_nth)
  then have "([19, 18, 17, 16, 15, 14, 13, 12, 11, 10 :: int] ! i, k, f) \<in>
      set (zip [19, 18, 17, 16, 15, 14, 13, 12, 11, 10] openSearchFeatureMapping)"
    using \<open>length openSearchFeatureMapping = 10\<close> by (auto simp: set_zip)
  then show ?thesis using rows by (auto simp: list_all_iff)
qed

lemma feature_support:
  assumes "ParseVersion s = Inr v" and "GetOpenSearchFeatureSupport s = Inr f"
  shows "ofs_SupportsHotReload f = (v_Major v = 2 \<and> 13 \<le> v_Minor v) \<and>
    (ofs_HotReloadMethod f = ''automatic-file-watch'') = (v_Major v = 2 \<and> 19 \<le> v_Minor v)"
proof (cases "map_of openSearchFeatureMapping (minor_key (v_Major v) (v_Minor v))")
  case None
  then show ?thesis using assms by (auto simp: GetOpenSearchFeatureSupport_def minor_key_def split: if_splits)
next
  case (Some g)
  then have f: "f = g" using assms by (simp add: GetOpenSearchFeatureSupport_def minor_key_def)
  obtain minor where minor: "minor_key (v_Major v) (v_Minor v) = minor_key 2 minor" "10 \<le> minor" "minor \<le> 19"
      "ofs_SupportsHotReload g = (13 \<le> minor)" "(ofs_HotReloadMethod g = ''automatic-file-watch'') = (19 \<le> minor)"
    using feature_row [OF map_of_SomeD [OF Some]] by blast
  moreover have "in_i64 2" "in_i64 minor" using minor(2, 3) by (simp_all add: in_i64_def)
  ultimately have "v_Major v = 2" "v_Minor v = minor" using ParseVersion_range [OF assms(1)] minor_key_inject by auto
  then show ?thesis using f minor by simp
qed

lemma hot_reload_support:
  assumes "0 \<le> v_Patch v"
  shows "(GetHotReloadSupport (Some v) = HotReloadNotSupported) = (v_Major v < 2 \<or> v_Major v = 2 \<and> v_Minor v < 13)"
    and "(GetHotReloadSupport (Some v) = HotReloadAutomatic) = (v_Major v > 2 \<or> v_Major v = 2 \<and> v_Minor v \<ge> 19)"
  using assms by (auto simp: GetHotReloadSupport_def LessThan_def GreaterThanOrEqual_def Compare_less
      MinOpenSearchVersionForHotReload_def MinOpenSearchVersionForAutoHotReload_def less_Version_def less_eq_Version_def)

subsection \<open>Properties\<close>

text \<open>
  The release a Wazuh version is mapped to does not depend on the order in which Go visits
  the map of releases, although the loop picks the best match seen so far.
\<close>

theorem GetWazuhVersionInfo_order:
  assumes "set order = set wazuhVersionMapping"
  shows "GetWazuhVersionInfo order s = GetWazuhVersionInfo wazuhVersionMapping s \<and>
    WazuhToOpenSearchVersion order s = WazuhToOpenSearchVersion wazuhVersionMapping s"
  unfolding WazuhToOpenSearchVersion_def GetWazuhVersionInfo_def best_unique [OF assms] by simp

theorem GetWazuhVersionInfo_order_witness:
  "GetWazuhVersionInfo (rev wazuhVersionMapping) ''v4.14.9'' = GetWazuhVersionInfo wazuhVersionMapping ''v4.14.9'' \<and>
   map_sum id wvi_OpenSearchVersion (GetWazuhVersionInfo wazuhVersionMapping ''v4.14.9'') = Inr ''2.19.4''"
proof -
  have "map_sum id wvi_OpenSearchVersion (GetWazuhVersionInfo wazuhVersionMapping ''v4.14.9'') = Inr ''2.19.4''" by code_simp
  then show ?thesis using GetWazuhVersionInfo_order [of "rev wazuhVersionMapping" "''v4.14.9''"] by simp
qed

text \<open>
  The operator's two answers to "can this OpenSearch reload certificates without a restart"
  agree for every version up to 2.x, and contradict each other for every later one: the version
  comparison says the reload is automatic, the feature table that a restart is required.
\<close>

theorem hot_reload_answers:
  assumes "ParseVersion s = Inr v" and "GetOpenSearchFeatureSupport s = Inr f"
  shows "(v_Major v \<le> 2 \<longrightarrow> ofs_SupportsHotReload f = (GetHotReloadSupport (Some v) \<noteq> HotReloadNotSupported) \<and>
      (ofs_HotReloadMethod f = ''automatic-file-watch'') = (GetHotReloadSupport (Some v) = HotReloadAutomatic)) \<and>
    (v_Major v > 2 \<longrightarrow> \<not> ofs_SupportsHotReload f \<and> GetHotReloadSupport (Some v) = HotReloadAutomatic)"
  using feature_support [OF assms] hot_reload_support [of v] ParseVersion_range [OF assms(1)] by auto

theorem hot_reload_answers_witness:
  "\<exists>f g. GetOpenSearchFeatureSupport ''2.19.3'' = Inr f \<and> ofs_SupportsHotReload f \<and>
    GetOpenSearchFeatureSupport ''3.1.0'' = Inr g \<and> \<not> ofs_SupportsHotReload g \<and> GetHotReloadSupport (Some (Version 3 1 0)) = HotReloadAutomatic"
proof -
  have v: "ParseVersion ''2.19.3'' = Inr (Version 2 19 3)" "ParseVersion ''3.1.0'' = Inr (Version 3 1 0)" by code_simp+
  obtain f g where fg: "GetOpenSearchFeatureSupport ''2.19.3'' = Inr f" "GetOpenSearchFeatureSupport ''3.1.0'' = Inr g"
    using v by (simp add: GetOpenSearchFeatureSupport_def)
  have "GetHotReloadSupport (Some (Version 2 19 3)) = HotReloadAutomatic" by code_simp
  then show ?thesis using hot_reload_answers [OF v(1) fg(1)] hot_reload_answers [OF v(2) fg(2)] fg by auto
qed

text \<open>Releases the operator calls supported, but for which it finds no OpenSearch release.\<close>

lemma supported_without_release:
  "IsWazuhVersionSupported ''4.15.0'' \<and> IsWazuhVersionSupported ''5.0.0'' \<and>
   \<not> isl (WazuhToOpenSearchVersion wazuhVersionMapping ''5.0.0'') \<and>
   isl (GetWazuhVersionInfo wazuhVersionMapping ''4.15.0'') \<and> isl (GetWazuhVersionInfo wazuhVersionMapping ''5.0.0'')"
  by code_simp

end
