(* ===== verification/Placement.thy ===== *)
theory Placement
  imports ClusterTypes Labels
begin

section \<open>Which objects the operator's selectors find\<close>

text \<open>
  The labels and selectors of the workloads the operator builds (builder/deployments), the
  PodDisruptionBudgets (shared/pdb), the anti-affinity rules (shared/affinity) and the
  NetworkPolicies (networking/builder/networkpolicies). A label selector is its
  \<open>matchLabels\<close>; selectors by expressions, which only users can write, are not modelled.
\<close>

subsection \<open>Workloads\<close>

definition LabelNodePool :: string where "LabelNodePool = ''wazuh.com/node-pool''"
definition LabelInstance :: string where "LabelInstance = ''app.kubernetes.io/instance''"
definition LabelComponent :: string where "LabelComponent = ''app.kubernetes.io/component''"

definition Indexer_buildLabels :: "string \<Rightarrow> string \<Rightarrow> labels \<Rightarrow> labels" where
  "Indexer_buildLabels clusterName version custom = label_merge (CommonLabels clusterName ComponentIndexer version) custom"

definition Indexer_buildSelectorLabels :: "string \<Rightarrow> labels" where
  "Indexer_buildSelectorLabels clusterName = SelectorLabels clusterName ComponentIndexer"

definition NodePool_buildLabels :: "string \<Rightarrow> string \<Rightarrow> string \<Rightarrow> labels \<Rightarrow> labels" where
  "NodePool_buildLabels clusterName poolName version custom =
     label_merge (label_set (CommonLabels clusterName ComponentIndexer version) LabelNodePool poolName) custom"

definition NodePool_buildSelectorLabels :: "string \<Rightarrow> string \<Rightarrow> labels" where
  "NodePool_buildSelectorLabels clusterName poolName =
     label_set (SelectorLabels clusterName ComponentIndexer) LabelNodePool poolName"

definition Manager_buildLabels :: "string \<Rightarrow> string \<Rightarrow> string \<Rightarrow> labels \<Rightarrow> labels" where
  "Manager_buildLabels clusterName nodeType version custom =
     label_merge (label_set (CommonLabels clusterName ''wazuh-manager'' version) LabelManagerNodeType nodeType) custom"

definition Manager_buildSelectorLabels :: "string \<Rightarrow> string \<Rightarrow> labels" where
  "Manager_buildSelectorLabels clusterName nodeType =
     label_set (SelectorLabels clusterName ''wazuh-manager'') LabelManagerNodeType nodeType"

definition Worker_buildLabels :: "string \<Rightarrow> string \<Rightarrow> labels \<Rightarrow> labels" where
  "Worker_buildLabels clusterName version custom =
     label_merge (label_set (CommonLabels clusterName ''wazuh-manager'' version) LabelManagerNodeType ''worker'') custom"

definition Worker_buildSelectorLabels :: "string \<Rightarrow> labels" where
  "Worker_buildSelectorLabels clusterName = label_set (SelectorLabels clusterName ''wazuh-manager'') LabelManagerNodeType ''worker''"

definition Dashboard_buildLabels :: "string \<Rightarrow> string \<Rightarrow> labels \<Rightarrow> labels" where
  "Dashboard_buildLabels clusterName version custom = label_merge (CommonLabels clusterName ComponentDashboard version) custom"

definition Dashboard_buildSelectorLabels :: "string \<Rightarrow> labels" where
  "Dashboard_buildSelectorLabels clusterName = SelectorLabels clusterName ComponentDashboard"

subsection \<open>PodDisruptionBudgets (shared/pdb)\<close>

record built_pdb =
  bp_Name :: string
  bp_Namespace :: string
  bp_Labels :: labels
  bp_Selector :: labels
  bp_MinAvailable :: "i32 option"
  bp_MaxUnavailable :: "i32 option"

definition DefaultIndexerPDBMinAvailable :: i32 where "DefaultIndexerPDBMinAvailable = 2"
definition DefaultManagerPDBMinAvailable :: i32 where "DefaultManagerPDBMinAvailable = 2"
definition DefaultDashboardPDBMinAvailable :: i32 where "DefaultDashboardPDBMinAvailable = 1"

definition BuildIndexerPDB :: "WazuhCluster \<Rightarrow> built_pdb" where
  "BuildIndexerPDB cluster =
     (let pdb = \<lparr>bp_Name = wc_Name cluster @ ''-indexer'', bp_Namespace = wc_Namespace cluster,
            bp_Labels = CommonLabels (wc_Name cluster) ComponentIndexer (wc_Version cluster),
            bp_Selector = SelectorLabels (wc_Name cluster) ComponentIndexer, bp_MinAvailable = None, bp_MaxUnavailable = None\<rparr>;
          default = pdb\<lparr>bp_MinAvailable := Some DefaultIndexerPDBMinAvailable\<rparr>
      in case Option.bind (wc_Indexer cluster) ics_PodDisruptionBudget of
           None \<Rightarrow> default
         | Some spec \<Rightarrow>
            if pds_MaxUnavailable spec \<noteq> None then pdb\<lparr>bp_MaxUnavailable := pds_MaxUnavailable spec\<rparr>
            else if pds_MinAvailable spec \<noteq> None then pdb\<lparr>bp_MinAvailable := pds_MinAvailable spec\<rparr>
            else default)"

definition ShouldCreateIndexerPDB :: "WazuhCluster \<Rightarrow> bool" where
  "ShouldCreateIndexerPDB cluster = (case wc_Indexer cluster of None \<Rightarrow> False | Some spec \<Rightarrow>
     (case ics_PodDisruptionBudget spec of
        Some p \<Rightarrow> if \<not> pds_Enabled p then False else sint (Indexer_GetTotalReplicas spec) \<ge> 2
      | None \<Rightarrow> sint (Indexer_GetTotalReplicas spec) \<ge> 2))"

definition BuildManagerPDB :: "WazuhCluster \<Rightarrow> built_pdb" where
  "BuildManagerPDB cluster =
     (let minAvailable = (case Option.bind (Option.bind (wc_Manager cluster) mcs_PodDisruptionBudget) pds_MinAvailable of
            None \<Rightarrow> DefaultManagerPDBMinAvailable | Some m \<Rightarrow> m)
      in \<lparr>bp_Name = wc_Name cluster @ ''-manager'', bp_Namespace = wc_Namespace cluster,
          bp_Labels = CommonLabels (wc_Name cluster) ComponentManager (wc_Version cluster),
          bp_Selector = SelectorLabels (wc_Name cluster) ''wazuh-manager'',
          bp_MinAvailable = Some minAvailable, bp_MaxUnavailable = None\<rparr>)"

definition ShouldCreateManagerPDB :: "WazuhCluster \<Rightarrow> bool" where
  "ShouldCreateManagerPDB cluster = (case wc_Manager cluster of None \<Rightarrow> False | Some spec \<Rightarrow>
     if (case mcs_PodDisruptionBudget spec of Some p \<Rightarrow> \<not> pds_Enabled p | None \<Rightarrow> False) then False
     else sint ((case mcs_WorkerReplicas spec of None \<Rightarrow> 1 | Some n \<Rightarrow> 1 + n) :: i32) \<ge> 2)"

definition BuildDashboardPDB :: "WazuhCluster \<Rightarrow> built_pdb" where
  "BuildDashboardPDB cluster =
     (let minAvailable = (case Option.bind (Option.bind (wc_Dashboard cluster) dcs_PodDisruptionBudget) pds_MinAvailable of
            None \<Rightarrow> DefaultDashboardPDBMinAvailable | Some m \<Rightarrow> m)
      in \<lparr>bp_Name = wc_Name cluster @ ''-dashboard'', bp_Namespace = wc_Namespace cluster,
          bp_Labels = CommonLabels (wc_Name cluster) ComponentDashboard (wc_Version cluster),
          bp_Selector = SelectorLabels (wc_Name cluster) ComponentDashboard,
          bp_MinAvailable = Some minAvailable, bp_MaxUnavailable = None\<rparr>)"

definition ShouldCreatePDB :: "WazuhCluster \<Rightarrow> bool" where
  "ShouldCreatePDB cluster = (case wc_Dashboard cluster of None \<Rightarrow> False | Some spec \<Rightarrow>
     if (case dcs_PodDisruptionBudget spec of Some p \<Rightarrow> \<not> pds_Enabled p | None \<Rightarrow> False) then False
     else sint (if dcs_Replicas spec = 0 then 1 else dcs_Replicas spec) \<ge> 1)"

text \<open>The three \<open>BuildWithMaxUnavailable\<close> differ from the builds above in the limit only.\<close>

definition BuildWithMaxUnavailable :: "(WazuhCluster \<Rightarrow> built_pdb) \<Rightarrow> WazuhCluster \<Rightarrow> i32 \<Rightarrow> built_pdb" where
  "BuildWithMaxUnavailable Build cluster maxUnavailable =
     (Build cluster)\<lparr>bp_MinAvailable := None, bp_MaxUnavailable := Some maxUnavailable\<rparr>"

subsection \<open>Anti-affinity (shared/affinity)\<close>

record PodAffinityTerm =
  pat_LabelSelector :: labels
  pat_TopologyKey :: string

record PodAntiAffinity =
  paa_Required :: "PodAffinityTerm list"
  paa_Preferred :: "(i32 \<times> PodAffinityTerm) list"

text \<open>The node affinity and the pod affinity, only ever copied, are values of any type.\<close>

record ('n, 'p) Affinity =
  aff_NodeAffinity :: "'n option"
  aff_PodAffinity :: "'p option"
  aff_PodAntiAffinity :: "PodAntiAffinity option"

definition build_anti_affinity :: "labels \<Rightarrow> AntiAffinitySpec option \<Rightarrow> ('n, 'p) Affinity option" where
  "build_anti_affinity selector spec = (case spec of None \<Rightarrow> None | Some a \<Rightarrow>
     if \<not> aas_Enabled a then None
     else
       let topologyKey = (if aas_TopologyKey a \<noteq> [] then aas_TopologyKey a else ''kubernetes.io/hostname'');
           antiAffinityType = (if aas_Type a \<noteq> [] then aas_Type a else ''required'');
           weight = (if sint (aas_Weight a) > 0 \<and> sint (aas_Weight a) \<le> 100 then aas_Weight a else 100);
           affinity_term = \<lparr>pat_LabelSelector = selector, pat_TopologyKey = topologyKey\<rparr>
       in Some \<lparr>aff_NodeAffinity = None, aff_PodAffinity = None, aff_PodAntiAffinity = Some
            (if antiAffinityType = ''required'' then \<lparr>paa_Required = [affinity_term], paa_Preferred = []\<rparr>
             else \<lparr>paa_Required = [], paa_Preferred = [(weight, affinity_term)]\<rparr>)\<rparr>)"

definition BuildIndexerAntiAffinity :: "string \<Rightarrow> AntiAffinitySpec option \<Rightarrow> ('n, 'p) Affinity option" where
  "BuildIndexerAntiAffinity clusterName spec = build_anti_affinity (SelectorLabels clusterName ''wazuh-indexer'') spec"

definition BuildManagerAntiAffinity :: "string \<Rightarrow> AntiAffinitySpec option \<Rightarrow> ('n, 'p) Affinity option" where
  "BuildManagerAntiAffinity clusterName spec = build_anti_affinity (SelectorLabels clusterName ''wazuh-manager'') spec"

definition MergeAntiAffinity :: "('n, 'p) Affinity option \<Rightarrow> ('n, 'p) Affinity option \<Rightarrow> ('n, 'p) Affinity option" where
  "MergeAntiAffinity clusterAntiAffinity individualAffinity = (case individualAffinity of
     None \<Rightarrow> clusterAntiAffinity
   | Some ind \<Rightarrow> (case clusterAntiAffinity of
        None \<Rightarrow> Some ind
      | Some cl \<Rightarrow>
         let own = (case aff_PodAntiAffinity ind of None \<Rightarrow> \<lparr>paa_Required = [], paa_Preferred = []\<rparr> | Some a \<Rightarrow> a)
         in Some (ind\<lparr>aff_PodAntiAffinity := Some (case aff_PodAntiAffinity cl of
              None \<Rightarrow> own
            | Some a \<Rightarrow> own\<lparr>paa_Required := paa_Required own @ paa_Required a,
                paa_Preferred := paa_Preferred own @ paa_Preferred a\<rparr>)\<rparr>)))"

definition ShouldApplyIndexerAntiAffinity :: "WazuhCluster \<Rightarrow> bool" where
  "ShouldApplyIndexerAntiAffinity cluster = (case Option.bind (wc_Indexer cluster) ics_AntiAffinity of
     None \<Rightarrow> False | Some a \<Rightarrow> aas_Enabled a)"

definition ShouldApplyAntiAffinity :: "WazuhCluster \<Rightarrow> bool" where
  "ShouldApplyAntiAffinity cluster = (case Option.bind (wc_Manager cluster) mcs_AntiAffinity of
     None \<Rightarrow> False | Some a \<Rightarrow> aas_Enabled a)"

subsection \<open>NetworkPolicies (networking/builder/networkpolicies)\<close>

datatype protocol = TCP | UDP | SCTP

text \<open>A user's rule and a rule of Kubernetes have the same shape; \<open>From\<close> and \<open>To\<close> are the peers.\<close>

record policy_peer =
  peer_PodSelector :: "labels option"
  peer_NamespaceSelector :: "labels option"

record policy_port =
  port_Protocol :: "protocol option"
  port_Port :: "i32 option"

record policy_rule =
  rule_Peers :: "policy_peer list"
  rule_Ports :: "policy_port list"

record NetworkPolicySpec =
  nps_Enabled :: bool
  nps_Ingress :: "policy_rule list"
  nps_Egress :: "policy_rule list"

record NetworkPolicy =
  np_Name :: string
  np_Namespace :: string
  np_Labels :: labels
  np_PodSelector :: labels
  np_Ingress :: "policy_rule list"
  np_Egress :: "policy_rule list"

definition convertIngressRules :: "policy_rule list \<Rightarrow> policy_rule list" where
  "convertIngressRules rules = map (\<lambda>rule. \<lparr>
     rule_Peers = map (\<lambda>p. \<lparr>peer_PodSelector = peer_PodSelector p, peer_NamespaceSelector = peer_NamespaceSelector p\<rparr>) (rule_Peers rule),
     rule_Ports = map (\<lambda>p. \<lparr>port_Protocol = port_Protocol p, port_Port = port_Port p\<rparr>) (rule_Ports rule)\<rparr>) rules"

definition convertEgressRules :: "policy_rule list \<Rightarrow> policy_rule list" where
  "convertEgressRules rules = map (\<lambda>rule. \<lparr>
     rule_Peers = map (\<lambda>p. \<lparr>peer_PodSelector = peer_PodSelector p, peer_NamespaceSelector = peer_NamespaceSelector p\<rparr>) (rule_Peers rule),
     rule_Ports = map (\<lambda>p. \<lparr>port_Protocol = port_Protocol p, port_Port = port_Port p\<rparr>) (rule_Ports rule)\<rparr>) rules"

definition pods_of :: "string \<Rightarrow> string \<Rightarrow> policy_peer" where
  "pods_of clusterName component = \<lparr>peer_PodSelector = Some (SelectorLabels clusterName component), peer_NamespaceSelector = None\<rparr>"

definition tcp_port :: "i32 \<Rightarrow> policy_port" where
  "tcp_port n = \<lparr>port_Protocol = Some TCP, port_Port = Some n\<rparr>"

definition dns_rule :: policy_rule where
  "dns_rule = \<lparr>rule_Peers = [], rule_Ports = [tcp_port 53, \<lparr>port_Protocol = Some UDP, port_Port = Some 53\<rparr>]\<rparr>"

definition PortManagerAPI :: i32 where "PortManagerAPI = 55000"
definition PortManagerAgentEvents :: i32 where "PortManagerAgentEvents = 1514"
definition PortManagerAgentAuth :: i32 where "PortManagerAgentAuth = 1515"
definition PortManagerCluster :: i32 where "PortManagerCluster = 1516"
definition PortIndexerREST :: i32 where "PortIndexerREST = 9200"
definition PortIndexerTransport :: i32 where "PortIndexerTransport = 9300"
definition PortIndexerMetrics :: i32 where "PortIndexerMetrics = 9600"
definition PortDashboardHTTP :: i32 where "PortDashboardHTTP = 5601"

lemmas port_defs = PortManagerAPI_def PortManagerAgentEvents_def PortManagerAgentAuth_def PortManagerCluster_def
  PortIndexerREST_def PortIndexerTransport_def PortIndexerMetrics_def PortDashboardHTTP_def

definition BuildIndexerNetworkPolicy :: "string \<Rightarrow> string \<Rightarrow> NetworkPolicySpec \<Rightarrow> NetworkPolicy" where
  "BuildIndexerNetworkPolicy clusterName namespace spec = \<lparr>
     np_Name = clusterName @ ''-indexer'', np_Namespace = namespace, np_Labels = CommonLabels clusterName ComponentIndexer [],
     np_PodSelector = SelectorLabels clusterName ComponentIndexer,
     np_Ingress = [\<lparr>rule_Peers = [pods_of clusterName ComponentIndexer, pods_of clusterName ComponentManager,
         pods_of clusterName ComponentDashboard],
       rule_Ports = [tcp_port PortIndexerREST, tcp_port PortIndexerTransport, tcp_port PortIndexerMetrics]\<rparr>]
       @ convertIngressRules (nps_Ingress spec),
     np_Egress = [dns_rule, \<lparr>rule_Peers = [pods_of clusterName ComponentIndexer],
       rule_Ports = [tcp_port PortIndexerREST, tcp_port PortIndexerTransport]\<rparr>] @ convertEgressRules (nps_Egress spec)\<rparr>"

definition BuildManagerNetworkPolicy :: "string \<Rightarrow> string \<Rightarrow> NetworkPolicySpec \<Rightarrow> NetworkPolicy" where
  "BuildManagerNetworkPolicy clusterName namespace spec = \<lparr>
     np_Name = clusterName @ ''-manager'', np_Namespace = namespace, np_Labels = CommonLabels clusterName ComponentManager [],
     np_PodSelector = SelectorLabels clusterName ComponentManager,
     np_Ingress = [\<lparr>rule_Peers = [pods_of clusterName ComponentManager, pods_of clusterName ComponentDashboard],
         rule_Ports = [tcp_port PortManagerAPI, tcp_port PortManagerCluster]\<rparr>,
       \<lparr>rule_Peers = [], rule_Ports = [tcp_port PortManagerAgentEvents, tcp_port PortManagerAgentAuth]\<rparr>]
       @ convertIngressRules (nps_Ingress spec),
     np_Egress = [dns_rule, \<lparr>rule_Peers = [pods_of clusterName ComponentIndexer], rule_Ports = [tcp_port PortIndexerREST]\<rparr>,
       \<lparr>rule_Peers = [pods_of clusterName ComponentManager], rule_Ports = [tcp_port PortManagerCluster, tcp_port PortManagerAPI]\<rparr>]
       @ convertEgressRules (nps_Egress spec)\<rparr>"

definition BuildDashboardNetworkPolicy :: "string \<Rightarrow> string \<Rightarrow> NetworkPolicySpec \<Rightarrow> NetworkPolicy" where
  "BuildDashboardNetworkPolicy clusterName namespace spec = \<lparr>
     np_Name = clusterName @ ''-dashboard'', np_Namespace = namespace, np_Labels = CommonLabels clusterName ComponentDashboard [],
     np_PodSelector = SelectorLabels clusterName ComponentDashboard,
     np_Ingress = [\<lparr>rule_Peers = [], rule_Ports = [tcp_port PortDashboardHTTP]\<rparr>] @ convertIngressRules (nps_Ingress spec),
     np_Egress = [dns_rule, \<lparr>rule_Peers = [pods_of clusterName ComponentIndexer], rule_Ports = [tcp_port PortIndexerREST]\<rparr>,
       \<lparr>rule_Peers = [pods_of clusterName ComponentManager], rule_Ports = [tcp_port PortManagerAPI]\<rparr>]
       @ convertEgressRules (nps_Egress spec)\<rparr>"

subsection \<open>What Kubernetes makes of them\<close>

text \<open>
  The documented meaning of a NetworkPolicy: a pod that some policy of its namespace selects
  may only receive what a rule of such a policy admits, and likewise for what it sends; a rule
  without peers admits every peer, one without ports every port, and a peer with a pod
  selector alone stands for the pods of the policy's namespace. A pod is its namespace, the
  labels of the namespace and its own labels.
\<close>

type_synonym pod_view = "string \<times> labels \<times> labels"

definition peer_matches :: "string \<Rightarrow> pod_view \<Rightarrow> policy_peer \<Rightarrow> bool" where
  "peer_matches namespace pod peer = (case pod of (ns, nsLabels, podLabels) \<Rightarrow>
     (case peer_NamespaceSelector peer of None \<Rightarrow> ns = namespace | Some sel \<Rightarrow> selects sel nsLabels) \<and>
     (case peer_PodSelector peer of None \<Rightarrow> True | Some sel \<Rightarrow> selects sel podLabels))"

definition port_matches :: "protocol \<Rightarrow> i32 \<Rightarrow> policy_port \<Rightarrow> bool" where
  "port_matches proto n p = ((case port_Protocol p of None \<Rightarrow> proto = TCP | Some q \<Rightarrow> proto = q) \<and>
     (case port_Port p of None \<Rightarrow> True | Some m \<Rightarrow> n = m))"

definition rule_admits :: "string \<Rightarrow> pod_view \<Rightarrow> protocol \<Rightarrow> i32 \<Rightarrow> policy_rule \<Rightarrow> bool" where
  "rule_admits namespace peer proto n rule =
     ((rule_Peers rule = [] \<or> list_ex (peer_matches namespace peer) (rule_Peers rule)) \<and>
      (rule_Ports rule = [] \<or> list_ex (port_matches proto n) (rule_Ports rule)))"

definition applies_to :: "NetworkPolicy \<Rightarrow> pod_view \<Rightarrow> bool" where
  "applies_to p pod = (case pod of (ns, nsLabels, podLabels) \<Rightarrow> np_Namespace p = ns \<and> selects (np_PodSelector p) podLabels)"

definition may_receive :: "NetworkPolicy list \<Rightarrow> pod_view \<Rightarrow> pod_view \<Rightarrow> protocol \<Rightarrow> i32 \<Rightarrow> bool" where
  "may_receive policies src dst proto n =
     (let ps = filter (\<lambda>p. applies_to p dst) policies in
      ps = [] \<or> list_ex (\<lambda>p. list_ex (rule_admits (np_Namespace p) src proto n) (np_Ingress p)) ps)"

definition may_send :: "NetworkPolicy list \<Rightarrow> pod_view \<Rightarrow> pod_view \<Rightarrow> protocol \<Rightarrow> i32 \<Rightarrow> bool" where
  "may_send policies src dst proto n =
     (let ps = filter (\<lambda>p. applies_to p src) policies in
      ps = [] \<or> list_ex (\<lambda>p. list_ex (rule_admits (np_Namespace p) dst proto n) (np_Egress p)) ps)"

definition connects :: "NetworkPolicy list \<Rightarrow> pod_view \<Rightarrow> pod_view \<Rightarrow> protocol \<Rightarrow> i32 \<Rightarrow> bool" where
  "connects policies src dst proto n \<longleftrightarrow> may_send policies src dst proto n \<and> may_receive policies src dst proto n"

subsection \<open>Selectors and labels\<close>

text \<open>The workloads by name; custom labels that do not touch the keys the selectors use.\<close>

datatype workload = WIndexer | WPool string | WManager string | WDashboard

fun workload_labels :: "workload \<Rightarrow> string \<Rightarrow> string \<Rightarrow> labels \<Rightarrow> labels" where
  "workload_labels WIndexer c version custom = Indexer_buildLabels c version custom"
| "workload_labels (WPool p) c version custom = NodePool_buildLabels c p version custom"
| "workload_labels (WManager t) c version custom =
     (if t = ''worker'' then Worker_buildLabels c version custom else Manager_buildLabels c t version custom)"
| "workload_labels WDashboard c version custom = Dashboard_buildLabels c version custom"

fun workload_selector :: "workload \<Rightarrow> string \<Rightarrow> labels" where
  "workload_selector WIndexer c = Indexer_buildSelectorLabels c"
| "workload_selector (WPool p) c = NodePool_buildSelectorLabels c p"
| "workload_selector (WManager t) c = (if t = ''worker'' then Worker_buildSelectorLabels c else Manager_buildSelectorLabels c t)"
| "workload_selector WDashboard c = Dashboard_buildSelectorLabels c"

fun workload_component :: "workload \<Rightarrow> string" where
  "workload_component (WManager t) = ''wazuh-manager''"
| "workload_component WDashboard = ComponentDashboard"
| "workload_component w = ComponentIndexer"

definition reserved_labels :: "string set" where
  "reserved_labels = {LabelName, LabelInstance, LabelComponent, ''wazuh.com/cluster'', LabelManagerNodeType, LabelNodePool}"

definition harmless :: "labels \<Rightarrow> bool" where
  "harmless custom \<longleftrightarrow> fst ` set custom \<inter> reserved_labels = {}"

lemmas label_key_defs = LabelName_def LabelInstance_def LabelComponent_def LabelManagerNodeType_def LabelNodePool_def

lemma merged_get: "harmless custom \<Longrightarrow> k \<in> reserved_labels \<Longrightarrow> map_of (label_merge ls custom) k = map_of ls k"
  by (rule label_merge_get) (auto simp: harmless_def)

lemma workload_get:
  assumes "harmless custom"
  shows "map_of (workload_labels w c version custom) LabelName = Some (''wazuh-'' @ workload_component w)"
    and "map_of (workload_labels w c version custom) ''app.kubernetes.io/instance'' = Some c"
    and "map_of (workload_labels w c version custom) ''wazuh.com/cluster'' = Some c"
    and "map_of (workload_labels w c version custom) LabelManagerNodeType = (case w of WManager t \<Rightarrow> Some t | _ \<Rightarrow> None)"
    and "map_of (workload_labels w c version custom) LabelNodePool = (case w of WPool p \<Rightarrow> Some p | _ \<Rightarrow> None)"
  using assms by (cases w; simp add: merged_get reserved_labels_def Indexer_buildLabels_def NodePool_buildLabels_def
      Manager_buildLabels_def Worker_buildLabels_def Dashboard_buildLabels_def label_set_get CommonLabels_def label_key_defs)+

lemma selects_simps [simp]:
  "selects [] ls" "selects ((k, v) # sel) ls \<longleftrightarrow> map_of ls k = Some v \<and> selects sel ls"
  by (simp_all add: selects_def)

lemma component_selects:
  "harmless custom \<Longrightarrow> selects (SelectorLabels c k) (workload_labels w d version custom) \<longleftrightarrow> c = d \<and> k = workload_component w"
  by (auto simp: SelectorLabels_def workload_get)

lemma set_selects:
  assumes "\<forall>(j, u) \<in> set sel. j \<noteq> k"
  shows "selects (label_set sel k v) ls \<longleftrightarrow> map_of ls k = Some v \<and> selects sel ls"
  using assms by (auto simp: label_set_def selects_def list_all_iff)

lemma component_names [simp]:
  "ComponentIndexer \<noteq> ''wazuh-manager''" "ComponentDashboard \<noteq> ''wazuh-manager''" "ComponentIndexer \<noteq> ComponentDashboard"
  "ComponentManager \<noteq> ''wazuh-manager''" "ComponentManager \<noteq> ComponentIndexer" "ComponentManager \<noteq> ComponentDashboard"
  "ComponentIndexer \<noteq> ''wazuh-indexer''" "ComponentDashboard \<noteq> ''wazuh-indexer''"
  by (simp_all add: ComponentIndexer_def ComponentManager_def ComponentDashboard_def)

lemma workload_selects:
  assumes "harmless custom"
  shows "selects (workload_selector w c) (workload_labels w' d version custom) \<longleftrightarrow>
    c = d \<and> (w = w' \<or> w = WIndexer \<and> (\<exists>p. w' = WPool p))"
proof -
  have keys: "\<forall>(j, u) \<in> set (SelectorLabels c k). j \<noteq> LabelManagerNodeType" "\<forall>(j, u) \<in> set (SelectorLabels c k). j \<noteq> LabelNodePool" for k
    by (simp_all add: SelectorLabels_def label_key_defs)
  show ?thesis using assms component_names not_sym [OF component_names(3)]
    by (cases w; cases w') (auto simp: Indexer_buildSelectorLabels_def NodePool_buildSelectorLabels_def Manager_buildSelectorLabels_def
        Worker_buildSelectorLabels_def Dashboard_buildSelectorLabels_def set_selects [OF keys(1)] set_selects [OF keys(2)]
        component_selects workload_get simp del: workload_labels.simps)
qed

text \<open>
  How many of \<open>n\<close> healthy pods a budget lets be evicted at a time. With the default budgets
  an indexer of two nodes, and a dashboard of one, can never be evicted.
\<close>

definition disruptions_allowed :: "built_pdb \<Rightarrow> int \<Rightarrow> int" where
  "disruptions_allowed pdb n = (case bp_MaxUnavailable pdb of
     Some m \<Rightarrow> min n (sint m)
   | None \<Rightarrow> (case bp_MinAvailable pdb of None \<Rightarrow> n | Some m \<Rightarrow> max 0 (n - sint m)))"

lemma default_budgets_block:
  assumes "wc_Indexer cluster = Some spec" and "ics_PodDisruptionBudget spec = None" and "Indexer_GetTotalReplicas spec = 2"
    and "wc_Dashboard cluster = Some d" and "dcs_PodDisruptionBudget d = None" and "dcs_Replicas d = 1"
  shows "ShouldCreateIndexerPDB cluster \<and> disruptions_allowed (BuildIndexerPDB cluster) 2 = 0 \<and>
    ShouldCreatePDB cluster \<and> disruptions_allowed (BuildDashboardPDB cluster) 1 = 0"
  using assms by (simp add: ShouldCreateIndexerPDB_def BuildIndexerPDB_def ShouldCreatePDB_def BuildDashboardPDB_def Let_def
      disruptions_allowed_def DefaultIndexerPDBMinAvailable_def DefaultDashboardPDBMinAvailable_def)

subsection \<open>Properties\<close>

text \<open>
  C22: The selector of each workload finds the pods of that workload and of that cluster, and no
  others, with one exception: the selector of the simple-mode indexer also finds the pods of
  every node pool. Custom labels do not change this as long as they leave the reserved keys alone.
\<close>

theorem workload_selectors_exact:
  assumes "harmless custom"
  shows "selects (workload_selector w c) (workload_labels w' d version custom) \<longleftrightarrow>
    c = d \<and> (w = w' \<or> w = WIndexer \<and> (\<exists>p. w' = WPool p))"
  by (rule workload_selects [OF assms])

theorem workload_selectors_exact_witness:
  "harmless [(''team'', ''soc'')] \<and>
   selects (workload_selector (WManager ''worker'') ''a'') (workload_labels (WManager ''worker'') ''a'' ''4.14.1'' [(''team'', ''soc'')]) \<and>
   \<not> selects (workload_selector (WManager ''worker'') ''a'') (workload_labels (WManager ''master'') ''a'' ''4.14.1'' [(''team'', ''soc'')])"
proof -
  have h: "harmless [(''team'', ''soc'')]" by (simp add: harmless_def reserved_labels_def label_key_defs)
  show ?thesis
    using h workload_selectors_exact [OF h, of "WManager ''worker''" "''a''" "WManager ''worker''" "''a''"]
      workload_selectors_exact [OF h, of "WManager ''worker''" "''a''" "WManager ''master''" "''a''"] by simp
qed

text \<open>
  C34: With the three network policies in force, the dashboard and the indexer reach the indexer,
  but no manager pod does: the policies look for pods named \<open>wazuh-manager\<close>, while the builders
  name them \<open>wazuh-wazuh-manager\<close>. For the same reason the policy for the manager applies to no
  manager pod, and the dashboard may not reach the manager's API. The indexer's anti-affinity
  rule has the opposite mistake and keeps no two indexer pods apart.
\<close>

theorem policies_cut_off_manager:
  assumes "harmless custom" and "no_rules = \<lparr>nps_Enabled = True, nps_Ingress = [], nps_Egress = []\<rparr>"
    and "policies = [BuildIndexerNetworkPolicy c ns no_rules, BuildManagerNetworkPolicy c ns no_rules, BuildDashboardNetworkPolicy c ns no_rules]"
    and "pod = (\<lambda>w. (ns, nsLabels, workload_labels w c version custom))"
  shows "connects policies (pod WDashboard) (pod WIndexer) TCP PortIndexerREST \<and>
    connects policies (pod WIndexer) (pod WIndexer) TCP PortIndexerTransport \<and>
    \<not> connects policies (pod (WManager t)) (pod WIndexer) TCP PortIndexerREST \<and>
    \<not> applies_to (BuildManagerNetworkPolicy c ns no_rules) (pod (WManager t)) \<and>
    \<not> connects policies (pod WDashboard) (pod (WManager t)) TCP PortManagerAPI \<and>
    (\<forall>spec a affinity_term. BuildIndexerAntiAffinity c (Some spec) = Some (a :: ('n, 'p) Affinity) \<longrightarrow>
      affinity_term \<in> set (case aff_PodAntiAffinity a of None \<Rightarrow> [] | Some p \<Rightarrow> paa_Required p @ map snd (paa_Preferred p)) \<longrightarrow>
      \<not> selects (pat_LabelSelector affinity_term) (workload_labels w c version custom))"
proof -
  note policy_defs = BuildIndexerNetworkPolicy_def BuildManagerNetworkPolicy_def BuildDashboardNetworkPolicy_def
    convertIngressRules_def convertEgressRules_def pods_of_def tcp_port_def dns_rule_def port_defs
    connects_def may_send_def may_receive_def applies_to_def rule_admits_def peer_matches_def port_matches_def
  have anti: "\<not> selects (SelectorLabels c ''wazuh-indexer'') (workload_labels w c version custom)"
    using assms(1) by (cases w) (simp_all add: component_selects ComponentIndexer_def ComponentDashboard_def del: workload_labels.simps)
  then have "\<forall>spec a affinity_term. BuildIndexerAntiAffinity c (Some spec) = Some (a :: ('n, 'p) Affinity) \<longrightarrow>
      affinity_term \<in> set (case aff_PodAntiAffinity a of None \<Rightarrow> [] | Some p \<Rightarrow> paa_Required p @ map snd (paa_Preferred p)) \<longrightarrow>
      \<not> selects (pat_LabelSelector affinity_term) (workload_labels w c version custom)"
    by (auto simp: BuildIndexerAntiAffinity_def build_anti_affinity_def Let_def split: if_splits)
  moreover note sel = component_selects [OF assms(1)]
  ultimately show ?thesis using component_names
    unfolding assms(2, 3, 4) by (simp add: policy_defs sel del: workload_labels.simps)
qed

theorem policies_cut_off_manager_witness:
  "let pod = (\<lambda>w. (''ns'', [], workload_labels w ''wz'' ''4.14.1'' []));
       no_rules = \<lparr>nps_Enabled = True, nps_Ingress = [], nps_Egress = []\<rparr>;
       policies = [BuildIndexerNetworkPolicy ''wz'' ''ns'' no_rules, BuildManagerNetworkPolicy ''wz'' ''ns'' no_rules,
         BuildDashboardNetworkPolicy ''wz'' ''ns'' no_rules]
   in \<not> connects policies (pod (WManager ''worker'')) (pod WIndexer) TCP PortIndexerREST"
proof -
  have "harmless []" by (simp add: harmless_def)
  from policies_cut_off_manager [OF this refl refl refl, of "''wz''" "''ns''" "[]" "''4.14.1''" "''worker''" WIndexer]
  show ?thesis unfolding Let_def by blast
qed

end
