(* ===== verification/GoTime.thy ===== *)
theory GoTime
  imports Prelude
begin

section \<open>Printing instants (time.Format with RFC 3339)\<close>

text \<open>
  \<open>Time.Format(time.RFC3339)\<close> for an instant and the offset of its zone in seconds: the civil
  date of the proleptic Gregorian calendar, the time of day, and \<open>Z\<close> or the offset.
\<close>

definition civil_of_days :: "int \<Rightarrow> int \<times> int \<times> int" where
  "civil_of_days days =
     (let z = days + 719468; era = z div 146097; doe = z mod 146097;
          yoe = (doe - doe div 1460 + doe div 36524 - doe div 146096) div 365;
          doy = doe - (365 * yoe + yoe div 4 - yoe div 100);
          mp = (5 * doy + 2) div 153; d = doy - (153 * mp + 2) div 5 + 1;
          m = (if mp < 10 then mp + 3 else mp - 9); y = yoe + era * 400
      in (if m \<le> 2 then y + 1 else y, m, d))"

definition pad_int :: "nat \<Rightarrow> int \<Rightarrow> string" where
  "pad_int width k = (let ds = show_nat (nat \<bar>k\<bar>) in
     (if k < 0 then ''-'' else []) @ replicate (width - length ds) CHR ''0'' @ ds)"

definition zone_text :: "int \<Rightarrow> string" where
  "zone_text offset = (if offset = 0 then ''Z''
     else let mins = \<bar>offset\<bar> div 60 in
       (if offset < 0 then ''-'' else ''+'') @ pad_int 2 (mins div 60) @ '':'' @ pad_int 2 (mins mod 60))"

definition format_RFC3339 :: "int \<Rightarrow> time \<Rightarrow> string" where
  "format_RFC3339 offset t =
     (let secs = t div 1000000000 + offset; (y, m, d) = civil_of_days (secs div 86400); s = secs mod 86400 in
      pad_int 4 y @ ''-'' @ pad_int 2 m @ ''-'' @ pad_int 2 d @ ''T'' @ pad_int 2 (s div 3600) @ '':'' @
      pad_int 2 (s div 60 mod 60) @ '':'' @ pad_int 2 (s mod 60) @ zone_text offset)"

lemma civil_of_days_examples:
  "civil_of_days 0 = (1970, 1, 1)" "civil_of_days 19782 = (2024, 2, 29)" "civil_of_days 47540 = (2100, 2, 28)" "civil_of_days 47541 = (2100, 3, 1)"
  by code_simp+

end
