(* ===== verification/Storage.thy ===== *)
theory Storage
  imports ClusterWorld Placement GoTime
begin

section \<open>Volume expansion (internal/shared/storage and the three reconcilers that use it)\<close>

text \<open>
  Storage classes, the checks before an expansion, the patch of a volume claim, the expansion
  status, and the handlers for the volumes of the indexer, of the manager master and of the
  workers. The handler of the indexer has its own copy of the loop that the manager's
  reconcilers share; the model has the loop once, with the component's name as an argument.
\<close>

subsection \<open>storageclass.go\<close>

definition CanStorageClassExpand :: "'s env \<Rightarrow> string \<Rightarrow> ('s, bool result) io" where
  "CanStorageClassExpand E storageClassName =
     (if storageClassName = [] then ret (Inl (errorf ''storage class name cannot be empty''))
      else try_io (get_storageclass E storageClassName) (wrapf (''failed to get StorageClass '' @ storageClassName @ '': ''))
        (\<lambda>sc. ret (Inr (case sc_AllowVolumeExpansion sc of None \<Rightarrow> False | Some b \<Rightarrow> b))))"

definition DefaultStorageClassAnnotation :: string where
  "DefaultStorageClassAnnotation = ''storageclass.kubernetes.io/is-default-class''"

definition GetDefaultStorageClass :: "'s env \<Rightarrow> ('s, string result) io" where
  "GetDefaultStorageClass E = try_io (list_storageclasses E) (wrapf ''failed to list StorageClasses: '')
     (\<lambda>items. ret (case find (\<lambda>sc. label_get (sc_Annotations sc) DefaultStorageClassAnnotation = ''true'') items of
        Some sc \<Rightarrow> Inr (sc_Name sc)
      | None \<Rightarrow> Inl (errorf ''no default StorageClass found in the cluster'')))"

definition GetStorageClassName :: "'s env \<Rightarrow> string option \<Rightarrow> ('s, string result) io" where
  "GetStorageClassName E storageClassName = (case storageClassName of
     Some name \<Rightarrow> if name \<noteq> [] then ret (Inr name) else GetDefaultStorageClass E
   | None \<Rightarrow> GetDefaultStorageClass E)"

definition GetStorageClassForPVC :: "'s env \<Rightarrow> string option \<Rightarrow> ('s, string result) io" where
  "GetStorageClassForPVC E pvcStorageClassName = (case pvcStorageClassName of
     Some name \<Rightarrow> if name \<noteq> [] then ret (Inr name) else GetDefaultStorageClass E
   | None \<Rightarrow> GetDefaultStorageClass E)"

subsection \<open>validation.go\<close>

record ExpansionValidationResult =
  evr_Valid :: bool
  evr_NeedsExpansion :: bool
  evr_CurrentSize :: Quantity
  evr_RequestedSize :: Quantity
  evr_ErrorMessage :: string
  evr_StorageClassSupportsExpansion :: bool

definition zero_validation :: ExpansionValidationResult where
  "zero_validation = \<lparr>evr_Valid = False, evr_NeedsExpansion = False, evr_CurrentSize = zero_quantity,
     evr_RequestedSize = zero_quantity, evr_ErrorMessage = [], evr_StorageClassSupportsExpansion = False\<rparr>"

text \<open>\<open>pvc.Spec.Resources.Requests[corev1.ResourceStorage]\<close>: the zero quantity where there is none.\<close>

definition storage_request :: "PersistentVolumeClaim \<Rightarrow> Quantity" where
  "storage_request pvc = (case pvc_Requests pvc of None \<Rightarrow> zero_quantity
     | Some rs \<Rightarrow> (case map_of rs ''storage'' of None \<Rightarrow> zero_quantity | Some q \<Rightarrow> q))"

text \<open>\<open>%q\<close>, with the escapes of ASCII characters; the bytes of other characters are kept.\<close>

definition hex_digit :: "nat \<Rightarrow> char" where
  "hex_digit n = ''0123456789abcdef'' ! n"

definition quote_char :: "char \<Rightarrow> string" where
  "quote_char c = (let n = (of_char c :: nat) in
     if n = 34 then [CHR 0x5C, CHR 0x22] else if n = 92 then [CHR 0x5C, CHR 0x5C]
     else if 7 \<le> n \<and> n \<le> 13 then [CHR 0x5C, ''abtnvfr'' ! (n - 7)]
     else if n < 32 \<or> n = 127 then [CHR 0x5C, CHR ''x'', hex_digit (n div 16), hex_digit (n mod 16)]
     else [c])"

definition quoted :: "string \<Rightarrow> string" where
  "quoted s = [CHR 0x22] @ concat (map quote_char s) @ [CHR 0x22]"

definition CompareStorageSizes :: "Quantity \<Rightarrow> Quantity \<Rightarrow> int" where
  "CompareStorageSizes a b = quantity_Cmp a b"

definition ValidateExpansion :: "'s env \<Rightarrow> PersistentVolumeClaim \<Rightarrow> string \<Rightarrow> ('s, ExpansionValidationResult result) io" where
  "ValidateExpansion E pvc requestedSizeStr = (case e_parse_quantity E requestedSizeStr of
     Inl err \<Rightarrow> ret (Inr (zero_validation\<lparr>evr_ErrorMessage :=
       ''invalid requested size '' @ quoted requestedSizeStr @ '': '' @ text_of err\<rparr>))
   | Inr requestedSize \<Rightarrow>
      let currentSize = storage_request pvc;
          result = zero_validation\<lparr>evr_RequestedSize := requestedSize, evr_CurrentSize := currentSize\<rparr>;
          comparison = CompareStorageSizes currentSize requestedSize in
      if comparison = 0 then ret (Inr (result\<lparr>evr_Valid := True, evr_NeedsExpansion := False\<rparr>))
      else if comparison = 1 then ret (Inr (result\<lparr>evr_ErrorMessage := ''cannot decrease storage size from '' @
        e_quantity_string E currentSize @ '' to '' @ e_quantity_string E requestedSize @
        '': Kubernetes does not support shrinking PVCs''\<rparr>))
      else
        let needed = result\<lparr>evr_NeedsExpansion := True\<rparr> in
        do { rn \<leftarrow> GetStorageClassForPVC E (pvc_StorageClassName pvc);
             case rn of
               Inl err \<Rightarrow> ret (Inr (needed\<lparr>evr_ErrorMessage := ''failed to determine storage class: '' @ text_of err\<rparr>))
             | Inr storageClassName \<Rightarrow> do {
                 rc \<leftarrow> CanStorageClassExpand E storageClassName;
                 ret (case rc of
                   Inl err \<Rightarrow> Inr (needed\<lparr>evr_ErrorMessage := ''failed to check StorageClass expansion support: '' @ text_of err\<rparr>)
                 | Inr canExpand \<Rightarrow>
                    if \<not> canExpand then Inr (needed\<lparr>evr_StorageClassSupportsExpansion := False, evr_ErrorMessage :=
                      ''StorageClass '' @ quoted storageClassName @ '' does not support volume expansion (allowVolumeExpansion is not true)''\<rparr>)
                    else Inr (needed\<lparr>evr_StorageClassSupportsExpansion := True, evr_Valid := True\<rparr>)) } })"

definition CompareStorageSizeStrings :: "'s env \<Rightarrow> string \<Rightarrow> string \<Rightarrow> int result" where
  "CompareStorageSizeStrings E aStr bStr = (case e_parse_quantity E aStr of
     Inl err \<Rightarrow> Inl (wrapf (''failed to parse size '' @ quoted aStr @ '': '') err)
   | Inr a \<Rightarrow> (case e_parse_quantity E bStr of
        Inl err \<Rightarrow> Inl (wrapf (''failed to parse size '' @ quoted bStr @ '': '') err)
      | Inr b \<Rightarrow> Inr (CompareStorageSizes a b)))"

definition IsShrinkRequest :: "'s env \<Rightarrow> string \<Rightarrow> string \<Rightarrow> bool result" where
  "IsShrinkRequest E currentSizeStr requestedSizeStr = map_sum id (\<lambda>comparison. comparison > 0)
     (CompareStorageSizeStrings E currentSizeStr requestedSizeStr)"

definition IsExpansionRequest :: "'s env \<Rightarrow> string \<Rightarrow> string \<Rightarrow> bool result" where
  "IsExpansionRequest E currentSizeStr requestedSizeStr = map_sum id (\<lambda>comparison. comparison < 0)
     (CompareStorageSizeStrings E currentSizeStr requestedSizeStr)"

subsection \<open>expansion.go\<close>

datatype PVCExpansionPhase = PVCExpansionPhaseNone | PVCExpansionPhaseResizing
  | PVCExpansionPhaseFileSystemResizePending | PVCExpansionPhaseCompleted

record PVCExpansionCondition =
  pec_Phase :: PVCExpansionPhase
  pec_Message :: string
  pec_IsComplete :: bool

definition AnnotationRequestedStorageSize :: string where
  "AnnotationRequestedStorageSize = ''wazuh.com/requested-storage-size''"

definition AnnotationLastExpansionTime :: string where
  "AnnotationLastExpansionTime = ''wazuh.com/last-expansion-time''"

text \<open>The claim with the new request, and the patch.\<close>

definition with_request :: "PersistentVolumeClaim \<Rightarrow> Quantity \<Rightarrow> string \<Rightarrow> time \<Rightarrow> PersistentVolumeClaim" where
  "with_request pvc newQuantity newSize now = pvc\<lparr>
     pvc_Requests := Some ((''storage'', newQuantity) #
       filter (\<lambda>kv. fst kv \<noteq> ''storage'') (case pvc_Requests pvc of None \<Rightarrow> [] | Some rs \<Rightarrow> rs)),
     pvc_Annotations := label_set (label_set (pvc_Annotations pvc) AnnotationRequestedStorageSize newSize)
       AnnotationLastExpansionTime (format_RFC3339 0 now)\<rparr>"

definition ExpandPVC :: "'s env \<Rightarrow> PersistentVolumeClaim \<Rightarrow> string \<Rightarrow> ('s, unit result) io" where
  "ExpandPVC E pvc newSize = (case e_parse_quantity E newSize of
     Inl err \<Rightarrow> ret (Inl (wrapf (''invalid storage size '' @ quoted newSize @ '': '') err))
   | Inr newQuantity \<Rightarrow> do {
       now \<leftarrow> time_now E;
       try_io (patch_pvc E pvc (with_request pvc newQuantity newSize now))
         (wrapf (''failed to patch PVC '' @ pvc_Namespace pvc @ ''/'' @ pvc_Name pvc @ '': '')) (\<lambda>u. ret (Inr ())) })"

fun first_resize :: "(string \<times> bool \<times> string) list \<Rightarrow> (PVCExpansionPhase \<times> string) option" where
  "first_resize [] = None"
| "first_resize ((ty, status, message) # cs) =
     (if ty = ''Resizing'' \<and> status then Some (PVCExpansionPhaseResizing, message)
      else if ty = ''FileSystemResizePending'' \<and> status then Some (PVCExpansionPhaseFileSystemResizePending, message)
      else first_resize cs)"

definition GetPVCExpansionCondition :: "'s env \<Rightarrow> PersistentVolumeClaim \<Rightarrow> PVCExpansionCondition" where
  "GetPVCExpansionCondition E pvc = (case first_resize (pvc_Conditions pvc) of
     Some (phase, message) \<Rightarrow> \<lparr>pec_Phase = phase, pec_Message = message, pec_IsComplete = False\<rparr>
   | None \<Rightarrow>
      let result = \<lparr>pec_Phase = PVCExpansionPhaseNone, pec_Message = [], pec_IsComplete = True\<rparr> in
      (case map_of (pvc_Annotations pvc) AnnotationRequestedStorageSize of
         None \<Rightarrow> result
       | Some requestedSize \<Rightarrow> (case e_parse_quantity E requestedSize of
            Inl err \<Rightarrow> result
          | Inr requestedQty \<Rightarrow>
             if quantity_Cmp (storage_request pvc) requestedQty \<ge> 0
             then \<lparr>pec_Phase = PVCExpansionPhaseCompleted, pec_Message = ''Expansion completed successfully'', pec_IsComplete = True\<rparr>
             else result)))"

definition IsPVCExpansionComplete :: "'s env \<Rightarrow> PersistentVolumeClaim \<Rightarrow> string \<Rightarrow> bool result" where
  "IsPVCExpansionComplete E pvc requestedSize =
     (if \<not> pec_IsComplete (GetPVCExpansionCondition E pvc) then Inr False
      else case e_parse_quantity E requestedSize of
        Inl err \<Rightarrow> Inl (wrapf (''invalid requested size '' @ quoted requestedSize @ '': '') err)
      | Inr requestedQty \<Rightarrow> Inr (quantity_Cmp (storage_request pvc) requestedQty \<ge> 0))"

definition GetPVCStorageSize :: "'s env \<Rightarrow> PersistentVolumeClaim \<Rightarrow> string" where
  "GetPVCStorageSize E pvc = (if pvc_Requests pvc = None then [] else e_quantity_string E (storage_request pvc))"

subsection \<open>status.go\<close>

record ExpansionStatusUpdate =
  esu_Phase :: ExpansionPhase
  esu_RequestedSize :: string
  esu_CurrentSize :: string
  esu_Message :: string
  esu_PVCsExpanded :: "string list"
  esu_PVCsPending :: "string list"

definition NewComponentExpansionStatus :: "time \<Rightarrow> ExpansionStatusUpdate \<Rightarrow> ComponentExpansionStatus" where
  "NewComponentExpansionStatus now update = \<lparr>ces_Phase = esu_Phase update, ces_RequestedSize = esu_RequestedSize update,
     ces_CurrentSize = esu_CurrentSize update, ces_Message = esu_Message update, ces_LastTransitionTime = now,
     ces_PVCsExpanded = esu_PVCsExpanded update, ces_PVCsPending = esu_PVCsPending update\<rparr>"

definition UpdateComponentExpansionStatus ::
    "time \<Rightarrow> ComponentExpansionStatus option \<Rightarrow> ExpansionStatusUpdate \<Rightarrow> ComponentExpansionStatus" where
  "UpdateComponentExpansionStatus now existing update = (case existing of
     None \<Rightarrow> NewComponentExpansionStatus now update
   | Some old \<Rightarrow> \<lparr>ces_Phase = esu_Phase update, ces_RequestedSize = esu_RequestedSize update,
       ces_CurrentSize = esu_CurrentSize update, ces_Message = esu_Message update,
       ces_LastTransitionTime = (if ces_Phase old \<noteq> esu_Phase update then now else ces_LastTransitionTime old),
       ces_PVCsExpanded = esu_PVCsExpanded update, ces_PVCsPending = esu_PVCsPending update\<rparr>)"

definition CreatePendingStatus :: "string \<Rightarrow> string \<Rightarrow> string list \<Rightarrow> ExpansionStatusUpdate" where
  "CreatePendingStatus requestedSize currentSize pvcsPending = \<lparr>esu_Phase = ExpansionPhasePending,
     esu_RequestedSize = requestedSize, esu_CurrentSize = currentSize,
     esu_Message = ''Waiting to expand '' @ show_nat (length pvcsPending) @ '' PVC(s) from '' @ currentSize @ '' to '' @ requestedSize,
     esu_PVCsExpanded = [], esu_PVCsPending = pvcsPending\<rparr>"

definition CreateInProgressStatus :: "string \<Rightarrow> string \<Rightarrow> string list \<Rightarrow> string list \<Rightarrow> ExpansionStatusUpdate" where
  "CreateInProgressStatus requestedSize currentSize pvcsExpanded pvcsPending = \<lparr>esu_Phase = ExpansionPhaseInProgress,
     esu_RequestedSize = requestedSize, esu_CurrentSize = currentSize,
     esu_Message = ''Expanding PVCs: '' @ show_nat (length pvcsExpanded) @ '' completed, '' @ show_nat (length pvcsPending) @ '' pending'',
     esu_PVCsExpanded = pvcsExpanded, esu_PVCsPending = pvcsPending\<rparr>"

definition CreateCompletedStatus :: "string \<Rightarrow> string list \<Rightarrow> ExpansionStatusUpdate" where
  "CreateCompletedStatus requestedSize pvcsExpanded = \<lparr>esu_Phase = ExpansionPhaseCompleted,
     esu_RequestedSize = requestedSize, esu_CurrentSize = requestedSize,
     esu_Message = ''All '' @ show_nat (length pvcsExpanded) @ '' PVC(s) expanded successfully to '' @ requestedSize,
     esu_PVCsExpanded = pvcsExpanded, esu_PVCsPending = []\<rparr>"

definition CreateFailedStatus :: "string \<Rightarrow> string \<Rightarrow> string \<Rightarrow> string list \<Rightarrow> string list \<Rightarrow> ExpansionStatusUpdate" where
  "CreateFailedStatus requestedSize currentSize errorMessage pvcsExpanded pvcsPending = \<lparr>esu_Phase = ExpansionPhaseFailed,
     esu_RequestedSize = requestedSize, esu_CurrentSize = currentSize, esu_Message = errorMessage,
     esu_PVCsExpanded = pvcsExpanded, esu_PVCsPending = pvcsPending\<rparr>"

definition expansion_components :: "VolumeExpansionStatus \<Rightarrow> ComponentExpansionStatus list" where
  "expansion_components status = List.map_filter id
     [ves_IndexerExpansion status, ves_ManagerMasterExpansion status, ves_ManagerWorkersExpansion status]"

definition IsExpansionInProgress :: "VolumeExpansionStatus option \<Rightarrow> bool" where
  "IsExpansionInProgress status = (case status of None \<Rightarrow> False | Some s \<Rightarrow>
     list_ex (\<lambda>c. ces_Phase c \<in> {ExpansionPhasePending, ExpansionPhaseInProgress}) (expansion_components s))"

definition IsAnyExpansionFailed :: "VolumeExpansionStatus option \<Rightarrow> bool" where
  "IsAnyExpansionFailed status = (case status of None \<Rightarrow> False | Some s \<Rightarrow>
     list_ex (\<lambda>c. ces_Phase c = ExpansionPhaseFailed) (expansion_components s))"

subsection \<open>The reconcilers\<close>

text \<open>What the loop over the claims carries; \<open>recorder\<close> tells whether the reconciler's recorder is set.\<close>

record expansion_run =
  xr_Expanded :: "string list"
  xr_Pending :: "string list"
  xr_Needed :: bool
  xr_Error :: "gerror option"

definition notify :: "bool \<Rightarrow> bool \<Rightarrow> string \<Rightarrow> string \<Rightarrow> ('s, unit) io" where
  "notify recorder warning reason message = (if recorder then record_event warning reason message else ret ())"

definition is_shrink :: "'s env \<Rightarrow> ExpansionValidationResult \<Rightarrow> string \<Rightarrow> bool" where
  "is_shrink E v requestedSize = (IsShrinkRequest E (e_quantity_string E (evr_CurrentSize v)) requestedSize = Inr True)"

definition reject_expansion :: "'s env \<Rightarrow> bool \<Rightarrow> string \<Rightarrow> PersistentVolumeClaim \<Rightarrow> ExpansionValidationResult \<Rightarrow>
    expansion_run \<Rightarrow> ('s, expansion_run) io" where
  "reject_expansion E recorder requestedSize pvc v st =
     (if evr_ErrorMessage v = [] then ret st
      else if is_shrink E v requestedSize then do {
        _ \<leftarrow> notify recorder True ''StorageSizeDecreaseRejected''
          (''Cannot decrease storage size for PVC '' @ pvc_Name pvc @ '': Kubernetes does not support shrinking PVCs'');
        ret st }
      else if \<not> evr_StorageClassSupportsExpansion v \<and> evr_NeedsExpansion v then do {
        _ \<leftarrow> notify recorder True ''StorageClassNotExpandable''
          (''StorageClass for PVC '' @ pvc_Name pvc @ '' does not support volume expansion'');
        ret (st\<lparr>xr_Error := Some (errorf (''storage class does not support expansion: '' @ evr_ErrorMessage v))\<rparr>) }
      else ret st)"

definition start_expansion :: "'s env \<Rightarrow> bool \<Rightarrow> string \<Rightarrow> string \<Rightarrow> PersistentVolumeClaim \<Rightarrow>
    expansion_run \<Rightarrow> ('s, expansion_run) io" where
  "start_expansion E recorder requestedSize componentName pvc st = do {
     _ \<leftarrow> (if length (xr_Pending st) = 1 \<and> xr_Expanded st = [] then notify recorder False ''VolumeExpansionStarted''
             (''Starting volume expansion for '' @ componentName @ '' PVCs to '' @ requestedSize) else ret ());
     r \<leftarrow> ExpandPVC E pvc requestedSize;
     case r of
       Inl err \<Rightarrow> do {
         _ \<leftarrow> notify recorder True ''VolumeExpansionFailed'' (''Failed to expand PVC '' @ pvc_Name pvc @ '': '' @ text_of err);
         ret (st\<lparr>xr_Error := Some err\<rparr>) }
     | Inr u \<Rightarrow> ret st }"

definition expand_claim :: "'s env \<Rightarrow> bool \<Rightarrow> string \<Rightarrow> string \<Rightarrow> PersistentVolumeClaim \<Rightarrow>
    expansion_run \<Rightarrow> ('s, expansion_run) io" where
  "expand_claim E recorder requestedSize componentName pvc st = do {
     r \<leftarrow> ValidateExpansion E pvc requestedSize;
     case r of
       Inl err \<Rightarrow> ret (st\<lparr>xr_Error := Some err\<rparr>)
     | Inr v \<Rightarrow>
        if \<not> evr_Valid v then reject_expansion E recorder requestedSize pvc v st
        else if \<not> evr_NeedsExpansion v then ret (st\<lparr>xr_Expanded := xr_Expanded st @ [pvc_Name pvc]\<rparr>)
        else
          let st' = st\<lparr>xr_Needed := True, xr_Pending := xr_Pending st @ [pvc_Name pvc]\<rparr> in
          if \<not> pec_IsComplete (GetPVCExpansionCondition E pvc) then ret st'
          else start_expansion E recorder requestedSize componentName pvc st' }"

fun expand_claims :: "'s env \<Rightarrow> bool \<Rightarrow> string \<Rightarrow> string \<Rightarrow> PersistentVolumeClaim list \<Rightarrow>
    expansion_run \<Rightarrow> ('s, expansion_run) io" where
  "expand_claims E recorder requestedSize componentName [] st = ret st"
| "expand_claims E recorder requestedSize componentName (pvc # pvcs) st = do {
     st' \<leftarrow> expand_claim E recorder requestedSize componentName pvc st;
     expand_claims E recorder requestedSize componentName pvcs st' }"

definition processVolumeExpansion :: "'s env \<Rightarrow> bool \<Rightarrow> PersistentVolumeClaim list \<Rightarrow> string \<Rightarrow> string \<Rightarrow> ('s, expansion_run) io" where
  "processVolumeExpansion E recorder pvcs requestedSize componentName =
     expand_claims E recorder requestedSize componentName pvcs \<lparr>xr_Expanded = [], xr_Pending = [], xr_Needed = False, xr_Error = None\<rparr>"

definition component_pvc_selector :: "WazuhCluster \<Rightarrow> string \<Rightarrow> labels" where
  "component_pvc_selector cluster component = [(LabelInstance, wc_Name cluster), (LabelComponent, component)]"

definition getIndexerPVCs :: "'s env \<Rightarrow> WazuhCluster \<Rightarrow> ('s, PersistentVolumeClaim list result) io" where
  "getIndexerPVCs E cluster = try_io (list_pvcs E (wc_Namespace cluster) (component_pvc_selector cluster ComponentIndexer))
     (wrapf ''failed to list indexer PVCs: '') (\<lambda>ps. ret (Inr ps))"

definition getManagerMasterPVCs :: "'s env \<Rightarrow> WazuhCluster \<Rightarrow> ('s, PersistentVolumeClaim list result) io" where
  "getManagerMasterPVCs E cluster = try_io (list_pvcs E (wc_Namespace cluster) (component_pvc_selector cluster ''manager-master''))
     (wrapf ''failed to list manager master PVCs: '') (\<lambda>ps. ret (Inr ps))"

definition getManagerWorkerPVCs :: "'s env \<Rightarrow> WazuhCluster \<Rightarrow> ('s, PersistentVolumeClaim list result) io" where
  "getManagerWorkerPVCs E cluster = try_io (list_pvcs E (wc_Namespace cluster) (component_pvc_selector cluster ''manager-worker''))
     (wrapf ''failed to list manager worker PVCs: '') (\<lambda>ps. ret (Inr ps))"

text \<open>
  The three functions that write the status differ in the claims they list and in the field
  they set; \<open>expansion_status\<close> is their common body, with the new value of that field.
\<close>

definition expansion_update :: "string \<Rightarrow> string \<Rightarrow> expansion_run \<Rightarrow> ExpansionStatusUpdate option" where
  "expansion_update requestedSize currentSize st = (case xr_Error st of
     Some err \<Rightarrow> Some (CreateFailedStatus requestedSize currentSize (text_of err) (xr_Expanded st) (xr_Pending st))
   | None \<Rightarrow>
      if xr_Pending st \<noteq> [] then
        (if xr_Expanded st \<noteq> [] then Some (CreateInProgressStatus requestedSize currentSize (xr_Expanded st) (xr_Pending st))
         else Some (CreatePendingStatus requestedSize currentSize (xr_Pending st)))
      else if xr_Expanded st \<noteq> [] then Some (CreateCompletedStatus requestedSize (xr_Expanded st))
      else None)"

definition expansion_status :: "'s env \<Rightarrow> ('s, PersistentVolumeClaim list result) io \<Rightarrow> string \<Rightarrow> expansion_run \<Rightarrow>
    ComponentExpansionStatus option \<Rightarrow> ('s, ComponentExpansionStatus option) io" where
  "expansion_status E getPVCs requestedSize st existing = do {
     currentSize \<leftarrow> (if xr_Expanded st = [] \<and> xr_Pending st \<noteq> [] then do {
         r \<leftarrow> getPVCs;
         ret (case r of Inr (pvc # pvcs) \<Rightarrow> GetPVCStorageSize E pvc | _ \<Rightarrow> requestedSize) }
       else ret requestedSize);
     case expansion_update requestedSize currentSize st of
       None \<Rightarrow> ret None
     | Some update \<Rightarrow> do { now \<leftarrow> time_now E; ret (Some (UpdateComponentExpansionStatus now existing update)) } }"

definition expansion_of :: "WazuhCluster \<Rightarrow> VolumeExpansionStatus" where
  "expansion_of cluster = (case wc_stVolumeExpansion cluster of Some s \<Rightarrow> s
     | None \<Rightarrow> \<lparr>ves_IndexerExpansion = None, ves_ManagerMasterExpansion = None, ves_ManagerWorkersExpansion = None\<rparr>)"

definition updateIndexerExpansionStatus :: "'s env \<Rightarrow> WazuhCluster \<Rightarrow> string \<Rightarrow> expansion_run \<Rightarrow> ('s, WazuhCluster) io" where
  "updateIndexerExpansionStatus E cluster requestedSize st = do {
     new \<leftarrow> expansion_status E (getIndexerPVCs E cluster) requestedSize st (ves_IndexerExpansion (expansion_of cluster));
     ret (cluster\<lparr>wc_stVolumeExpansion := Some ((expansion_of cluster)\<lparr>ves_IndexerExpansion := new\<rparr>)\<rparr>) }"

definition updateManagerMasterExpansionStatus :: "'s env \<Rightarrow> WazuhCluster \<Rightarrow> string \<Rightarrow> expansion_run \<Rightarrow> ('s, WazuhCluster) io" where
  "updateManagerMasterExpansionStatus E cluster requestedSize st = do {
     new \<leftarrow> expansion_status E (getManagerMasterPVCs E cluster) requestedSize st (ves_ManagerMasterExpansion (expansion_of cluster));
     ret (cluster\<lparr>wc_stVolumeExpansion := Some ((expansion_of cluster)\<lparr>ves_ManagerMasterExpansion := new\<rparr>)\<rparr>) }"

definition updateManagerWorkerExpansionStatus :: "'s env \<Rightarrow> WazuhCluster \<Rightarrow> string \<Rightarrow> expansion_run \<Rightarrow> ('s, WazuhCluster) io" where
  "updateManagerWorkerExpansionStatus E cluster requestedSize st = do {
     new \<leftarrow> expansion_status E (getManagerWorkerPVCs E cluster) requestedSize st (ves_ManagerWorkersExpansion (expansion_of cluster));
     ret (cluster\<lparr>wc_stVolumeExpansion := Some ((expansion_of cluster)\<lparr>ves_ManagerWorkersExpansion := new\<rparr>)\<rparr>) }"

definition completion_event :: "bool \<Rightarrow> string \<Rightarrow> string \<Rightarrow> expansion_run \<Rightarrow> ('s, unit) io" where
  "completion_event recorder what requestedSize st =
     (if xr_Pending st = [] \<and> xr_Expanded st \<noteq> [] \<and> xr_Needed st
      then notify recorder False ''VolumeExpansionCompleted'' (''All '' @ what @ '' PVCs expanded successfully to '' @ requestedSize)
      else ret ())"

definition or_default :: "string \<Rightarrow> string \<Rightarrow> string" where
  "or_default fallback s = (if s \<noteq> [] then s else fallback)"

definition indexer_storage_size :: "WazuhCluster \<Rightarrow> string" where
  "indexer_storage_size cluster = (case wc_Indexer cluster of None \<Rightarrow> ''10Gi'' | Some i \<Rightarrow> or_default ''10Gi'' (ics_StorageSize i))"

definition master_storage_size :: "WazuhCluster \<Rightarrow> string" where
  "master_storage_size cluster = (case wc_Manager cluster of None \<Rightarrow> ''10Gi'' | Some m \<Rightarrow> or_default ''10Gi'' (mcs_MasterStorageSize m))"

definition worker_storage_size :: "WazuhCluster \<Rightarrow> string" where
  "worker_storage_size cluster = (case wc_Manager cluster of None \<Rightarrow> ''10Gi'' | Some m \<Rightarrow> or_default ''10Gi'' (mcs_WorkersStorageSize m))"

definition reconcileVolumeExpansion :: "'s env \<Rightarrow> bool \<Rightarrow> WazuhCluster \<Rightarrow> ('s, WazuhCluster result) io" where
  "reconcileVolumeExpansion E recorder cluster =
     (let requestedSize = indexer_storage_size cluster in
      try_io (getIndexerPVCs E cluster) (wrapf ''failed to list indexer PVCs: '') (\<lambda>pvcs.
        if pvcs = [] then ret (Inr cluster) else do {
          st \<leftarrow> processVolumeExpansion E recorder pvcs requestedSize ''indexer'';
          cluster' \<leftarrow> updateIndexerExpansionStatus E cluster requestedSize st;
          _ \<leftarrow> completion_event recorder ''indexer'' requestedSize st;
          ret (Inr cluster') }))"

definition reconcileMasterVolumeExpansion :: "'s env \<Rightarrow> bool \<Rightarrow> WazuhCluster \<Rightarrow> ('s, WazuhCluster result) io" where
  "reconcileMasterVolumeExpansion E recorder cluster =
     (let requestedSize = master_storage_size cluster in
      try_io (getManagerMasterPVCs E cluster) (wrapf ''failed to list manager master PVCs: '') (\<lambda>pvcs.
        if pvcs = [] then ret (Inr cluster) else do {
          st \<leftarrow> processVolumeExpansion E recorder pvcs requestedSize ''manager-master'';
          cluster' \<leftarrow> updateManagerMasterExpansionStatus E cluster requestedSize st;
          _ \<leftarrow> completion_event recorder ''manager master'' requestedSize st;
          ret (Inr cluster') }))"

definition reconcileWorkerVolumeExpansion :: "'s env \<Rightarrow> bool \<Rightarrow> WazuhCluster \<Rightarrow> ('s, WazuhCluster result) io" where
  "reconcileWorkerVolumeExpansion E recorder cluster =
     (let requestedSize = worker_storage_size cluster in
      try_io (getManagerWorkerPVCs E cluster) (wrapf ''failed to list manager worker PVCs: '') (\<lambda>pvcs.
        if pvcs = [] then ret (Inr cluster) else do {
          st \<leftarrow> processVolumeExpansion E recorder pvcs requestedSize ''manager-worker'';
          cluster' \<leftarrow> updateManagerWorkerExpansionStatus E cluster requestedSize st;
          _ \<leftarrow> completion_event recorder ''manager worker'' requestedSize st;
          ret (Inr cluster') }))"

subsection \<open>What an expansion does\<close>

text \<open>A storage class of the claim was seen to allow expansion.\<close>

definition class_allows :: "'s env \<Rightarrow> PersistentVolumeClaim \<Rightarrow> bool" where
  "class_allows E pvc \<longleftrightarrow> (\<exists>name s sc s'. e_get_storageclass E name s = (Inr sc, s') \<and> sc_AllowVolumeExpansion sc = Some True \<and>
     (\<forall>n. pvc_StorageClassName pvc = Some n \<and> n \<noteq> [] \<longrightarrow> name = n))"

lemma storage_class_silent [logs]:
  "logs_only P (GetStorageClassForPVC E c)" "logs_only P (CanStorageClassExpand E n)"
  unfolding GetStorageClassForPVC_def GetDefaultStorageClass_def CanStorageClassExpand_def prim_defs by (intro logs logs_case logs_if)+

lemma GetStorageClassForPVC_own:
  "run_state (GetStorageClassForPVC E (Some n)) w = (Inr name, w') \<Longrightarrow> n \<noteq> [] \<Longrightarrow> name = n"
  by (simp add: GetStorageClassForPVC_def)

lemma CanStorageClassExpand_saw:
  "run_state (CanStorageClassExpand E name) w = (Inr True, w') \<Longrightarrow>
    \<exists>s sc s'. e_get_storageclass E name s = (Inr sc, s') \<and> sc_AllowVolumeExpansion sc = Some True"
  by (auto simp: CanStorageClassExpand_def run_io prim_defs split: if_splits prod.splits sum.splits option.splits)

definition checked :: "'s env \<Rightarrow> PersistentVolumeClaim \<Rightarrow> string \<Rightarrow> ExpansionValidationResult \<Rightarrow> bool" where
  "checked E pvc requestedSize v \<longleftrightarrow> (evr_Valid v \<longrightarrow> (\<exists>q. e_parse_quantity E requestedSize = Inr q \<and>
     (if evr_NeedsExpansion v then q_nano (storage_request pvc) < q_nano q \<and> class_allows E pvc
      else q_nano (storage_request pvc) = q_nano q)))"

text \<open>The rest of the check once the class is known, with its messages as arguments.\<close>

lemma class_check_run:
  assumes "run_state (do { rn \<leftarrow> GetStorageClassForPVC E (pvc_StorageClassName pvc); case rn of Inl err \<Rightarrow> ret (Inr (v\<lparr>evr_ErrorMessage := m1 err\<rparr>))
      | Inr name \<Rightarrow> do { rc \<leftarrow> CanStorageClassExpand E name; ret (case rc of Inl err \<Rightarrow> Inr (v\<lparr>evr_ErrorMessage := m2 err\<rparr>)
          | Inr canExpand \<Rightarrow> if \<not> canExpand then Inr (v\<lparr>evr_StorageClassSupportsExpansion := False, evr_ErrorMessage := m3 name\<rparr>)
             else Inr (v\<lparr>evr_StorageClassSupportsExpansion := True, evr_Valid := True\<rparr>)) } }) w = (r, w')"
    and "\<not> evr_Valid v"
  shows "\<exists>v'. r = Inr v' \<and> evr_NeedsExpansion v' = evr_NeedsExpansion v \<and> (evr_Valid v' \<longrightarrow> class_allows E pvc)"
proof -
  obtain rn w1 where n: "run_state (GetStorageClassForPVC E (pvc_StorageClassName pvc)) w = (rn, w1)" by fastforce
  show ?thesis
  proof (cases rn)
    case (Inr name)
    obtain rc w2 where c: "run_state (CanStorageClassExpand E name) w1 = (rc, w2)" by fastforce
    have "class_allows E pvc" if "rc = Inr True"
      using CanStorageClassExpand_saw [of E name w1 w2] c n Inr that GetStorageClassForPVC_own [of E _ w name w1]
      unfolding class_allows_def by metis
    then show ?thesis using assms n Inr c by (cases rc) (auto simp: run_bind)
  qed (use assms n in \<open>auto simp: run_bind\<close>)
qed

lemma ValidateExpansion_checked:
  assumes "run_state (ValidateExpansion E pvc sz) w = (r, w')"
  shows "\<exists>v. r = Inr v \<and> checked E pvc sz v"
proof (cases "e_parse_quantity E sz")
  case (Inl e)
  show ?thesis
    unfolding assms [unfolded ValidateExpansion_def Inl sum.case run_ret prod.inject, THEN conjunct1, symmetric]
    by (simp add: checked_def zero_validation_def)
next
  case q: (Inr q)
  note run = assms [unfolded ValidateExpansion_def q sum.case Let_def CompareStorageSizes_def]
  consider "quantity_Cmp (storage_request pvc) q = 0" | "quantity_Cmp (storage_request pvc) q = 1" |
      "quantity_Cmp (storage_request pvc) q \<noteq> 0" "quantity_Cmp (storage_request pvc) q \<noteq> 1" by blast
  then show ?thesis
  proof cases
    case 1
    have "q_nano (storage_request pvc) = q_nano q" using 1 by (simp add: quantity_Cmp_def split: if_splits)
    then show ?thesis
      unfolding run [unfolded if_P [OF 1] run_ret prod.inject, THEN conjunct1, symmetric] using q by (simp add: checked_def)
  next
    case 2
    have "quantity_Cmp (storage_request pvc) q \<noteq> 0" using 2 by simp
    then show ?thesis
      unfolding run [unfolded if_not_P [OF \<open>quantity_Cmp (storage_request pvc) q \<noteq> 0\<close>] if_P [OF 2] run_ret prod.inject, THEN conjunct1, symmetric]
      by (simp add: checked_def zero_validation_def)
  next
    case 3
    then have "q_nano (storage_request pvc) < q_nano q" by (auto simp: quantity_Cmp_def split: if_splits)
    moreover have "\<not> evr_Valid (zero_validation\<lparr>evr_RequestedSize := q, evr_CurrentSize := storage_request pvc, evr_NeedsExpansion := True\<rparr>)"
      by (simp add: zero_validation_def)
    ultimately show ?thesis using class_check_run [OF run [unfolded if_not_P [OF 3(1)] if_not_P [OF 3(2)]]] q by (auto simp: checked_def)
  qed
qed

lemma ValidateExpansion_silent [logs]: "logs_only P (ValidateExpansion E pvc sz)"
  unfolding ValidateExpansion_def Let_def by (intro logs logs_case logs_if)

text \<open>The effects of a run for a requested size: events other than a completion, and patches that grow a claim.\<close>

definition growing :: "'s env \<Rightarrow> string \<Rightarrow> effect \<Rightarrow> bool" where
  "growing E requestedSize e \<longleftrightarrow> (\<exists>warning reason message. e = EEvent warning reason message \<and> reason \<noteq> ''VolumeExpansionCompleted'') \<or>
     (\<exists>pvc q now. e = EPatchPVC pvc (with_request pvc q requestedSize now) \<and> e_parse_quantity E requestedSize = Inr q \<and>
       q_nano (storage_request pvc) < q_nano q \<and> class_allows E pvc)"

lemma with_request_sel [simp]:
  "storage_request (with_request pvc q sz now) = q" "pvc_Name (with_request pvc q sz now) = pvc_Name pvc"
  "pvc_StorageClassName (with_request pvc q sz now) = pvc_StorageClassName pvc"
  "pvc_Conditions (with_request pvc q sz now) = pvc_Conditions pvc"
  by (simp_all add: with_request_def storage_request_def)

lemma notify_growing [logs]: "reason \<noteq> ''VolumeExpansionCompleted'' \<Longrightarrow> logs_only (growing E sz) (notify recorder warning reason message)"
  unfolding notify_def record_event_def by (intro logs logs_if) (auto simp: growing_def)

lemma reject_growing [logs]: "logs_only (growing E sz) (reject_expansion E' recorder sz' pvc v st)"
  unfolding reject_expansion_def by (intro logs logs_if) simp_all

lemma start_growing:
  assumes "e_parse_quantity E sz = Inr q" and "q_nano (storage_request pvc) < q_nano q" and "class_allows E pvc"
  shows "logs_only (growing E sz) (start_expansion E recorder sz name pvc st)"
proof -
  have "growing E sz (EPatchPVC pvc (with_request pvc q sz now))" for now
    using assms unfolding growing_def by blast
  then have "logs_only (growing E sz) (ExpandPVC E pvc sz)"
    unfolding ExpandPVC_def prim_defs assms(1) sum.case by (intro logs logs_case)
  then show ?thesis unfolding start_expansion_def by (intro logs logs_if logs_case) simp_all
qed

lemma run_rejected:
  "run_state (if A then ret st else if B then do { _ \<leftarrow> m1; ret st } else if C then do { _ \<leftarrow> m2; ret st2 } else ret st) w = (st', w') \<Longrightarrow>
    st' = st \<or> st' = st2"
  by (cases "run_state m1 w"; cases "run_state m2 w") (auto simp: run_bind split: if_splits)

lemma reject_keeps:
  "run_state (reject_expansion E recorder sz pvc v st) w = (st', w') \<Longrightarrow> xr_Needed st' = xr_Needed st \<and> xr_Pending st' = xr_Pending st"
  unfolding reject_expansion_def by (drule run_rejected) auto

lemma run_started:
  "run_state (do { _ \<leftarrow> m0; r \<leftarrow> m1; case r of Inl err \<Rightarrow> do { _ \<leftarrow> m2 err; ret (st2 err) } | Inr u \<Rightarrow> ret st }) w = (st', w') \<Longrightarrow>
    st' = st \<or> (\<exists>err. st' = st2 err)"
  by (auto simp: run_bind split: prod.splits sum.splits)

lemma start_keeps:
  "run_state (start_expansion E recorder sz name pvc st) w = (st', w') \<Longrightarrow> xr_Needed st' = xr_Needed st \<and> xr_Pending st' = xr_Pending st"
  unfolding start_expansion_def by (drule run_started) auto

lemma claim_growing:
  assumes "run_state (expand_claim E recorder sz name pvc st) w = (st', w')"
  shows "\<exists>es. w_log w' = w_log w @ es \<and> list_all (growing E sz) es \<and>
    ((xr_Needed st \<longrightarrow> xr_Pending st \<noteq> []) \<longrightarrow> (xr_Needed st' \<longrightarrow> xr_Pending st' \<noteq> []))"
proof -
  obtain r w1 where v: "run_state (ValidateExpansion E pvc sz) w = (r, w1)" by fastforce
  obtain v' where r: "r = Inr v'" and ok: "checked E pvc sz v'" using ValidateExpansion_checked [OF v] by blast
  obtain es1 where es1: "w_log w1 = w_log w @ es1" "list_all (growing E sz) es1" by (rule logs_onlyD [OF ValidateExpansion_silent v])
  let ?st = "st\<lparr>xr_Needed := True, xr_Pending := xr_Pending st @ [pvc_Name pvc]\<rparr>"
  have run: "run_state (if \<not> evr_Valid v' then reject_expansion E recorder sz pvc v' st
      else if \<not> evr_NeedsExpansion v' then ret (st\<lparr>xr_Expanded := xr_Expanded st @ [pvc_Name pvc]\<rparr>)
      else if \<not> pec_IsComplete (GetPVCExpansionCondition E pvc) then ret ?st
      else start_expansion E recorder sz name pvc ?st) w1 = (st', w')" (is "run_state ?m w1 = _")
    by (rule assms [unfolded expand_claim_def run_bind v r prod.case sum.case Let_def])
  have "logs_only (growing E sz) ?m"
    using ok start_growing [of E sz _ pvc recorder name] by (intro logs_if logs) (auto simp: checked_def)
  then obtain es2 where es2: "w_log w' = w_log w1 @ es2" "list_all (growing E sz) es2" using run by (rule logs_onlyD)
  have "(xr_Needed st \<longrightarrow> xr_Pending st \<noteq> []) \<longrightarrow> (xr_Needed st' \<longrightarrow> xr_Pending st' \<noteq> [])"
    using run by (auto split: if_splits dest: reject_keeps start_keeps)
  then show ?thesis using es1 es2 by auto
qed

lemma claims_growing:
  assumes "run_state (expand_claims E recorder sz name pvcs st) w = (st', w')"
  shows "\<exists>es. w_log w' = w_log w @ es \<and> list_all (growing E sz) es \<and>
    ((xr_Needed st \<longrightarrow> xr_Pending st \<noteq> []) \<longrightarrow> (xr_Needed st' \<longrightarrow> xr_Pending st' \<noteq> []))"
  using assms
proof (induction pvcs arbitrary: st w)
  case (Cons pvc pvcs)
  obtain st1 w1 where one: "run_state (expand_claim E recorder sz name pvc st) w = (st1, w1)" by fastforce
  have rest: "run_state (expand_claims E recorder sz name pvcs st1) w1 = (st', w')" using Cons.prems by (simp add: run_bind one)
  obtain es1 where "w_log w1 = w_log w @ es1" "list_all (growing E sz) es1"
      "(xr_Needed st \<longrightarrow> xr_Pending st \<noteq> []) \<longrightarrow> (xr_Needed st1 \<longrightarrow> xr_Pending st1 \<noteq> [])"
    using claim_growing [OF one] by blast
  moreover obtain es2 where "w_log w' = w_log w1 @ es2" "list_all (growing E sz) es2"
      "(xr_Needed st1 \<longrightarrow> xr_Pending st1 \<noteq> []) \<longrightarrow> (xr_Needed st' \<longrightarrow> xr_Pending st' \<noteq> [])"
    using Cons.IH [OF rest] by blast
  ultimately show ?case by (intro exI [of _ "es1 @ es2"]) simp
qed simp

text \<open>The body of the three handlers, once the claims are listed.\<close>

definition expansion_body :: "'s env \<Rightarrow> bool \<Rightarrow> PersistentVolumeClaim list \<Rightarrow> string \<Rightarrow> string \<Rightarrow>
    (expansion_run \<Rightarrow> ('s, WazuhCluster) io) \<Rightarrow> string \<Rightarrow> ('s, WazuhCluster result) io" where
  "expansion_body E recorder pvcs sz name update what = do {
     st \<leftarrow> processVolumeExpansion E recorder pvcs sz name;
     cluster' \<leftarrow> update st;
     _ \<leftarrow> completion_event recorder what sz st;
     ret (Inr cluster') }"

lemma getPVCs_silent [logs]:
  "logs_only P (getIndexerPVCs E cluster)" "logs_only P (getManagerMasterPVCs E cluster)" "logs_only P (getManagerWorkerPVCs E cluster)"
  unfolding getIndexerPVCs_def getManagerMasterPVCs_def getManagerWorkerPVCs_def prim_defs by (intro logs)+

lemma expansion_status_silent: "logs_only P m \<Longrightarrow> logs_only P (expansion_status E m sz st existing)"
  unfolding expansion_status_def prim_defs by (intro logs logs_if logs_case)

lemma updates_silent [logs]:
  "logs_only P (updateIndexerExpansionStatus E cluster sz st)" "logs_only P (updateManagerMasterExpansionStatus E cluster sz st)"
  "logs_only P (updateManagerWorkerExpansionStatus E cluster sz st)"
  unfolding updateIndexerExpansionStatus_def updateManagerMasterExpansionStatus_def updateManagerWorkerExpansionStatus_def
  by (intro logs expansion_status_silent)+

lemma body_growing:
  assumes "\<And>st. logs_only (growing E sz) (update st)"
  shows "logs_only (growing E sz) (expansion_body E recorder pvcs sz name update what)"
  unfolding logs_only_def
proof
  fix w
  obtain st w1 where p: "run_state (processVolumeExpansion E recorder pvcs sz name) w = (st, w1)" by fastforce
  obtain es1 where es1: "w_log w1 = w_log w @ es1" "list_all (growing E sz) es1" "xr_Needed st \<longrightarrow> xr_Pending st \<noteq> []"
    using claims_growing [OF p [unfolded processVolumeExpansion_def]] by auto
  obtain c w2 where u: "run_state (update st) w1 = (c, w2)" by fastforce
  obtain es2 where "w_log w2 = w_log w1 @ es2" "list_all (growing E sz) es2" by (rule logs_onlyD [OF assms u])
  moreover have "run_state (completion_event recorder what sz st) w2 = ((), w2)" using es1(3) by (auto simp: completion_event_def)
  ultimately show "\<exists>es. w_log (snd (run_state (expansion_body E recorder pvcs sz name update what) w)) = w_log w @ es \<and>
      list_all (growing E sz) es"
    using es1 by (simp add: expansion_body_def run_bind p u)
qed

lemma handlers_growing:
  "logs_only (growing E (indexer_storage_size cluster)) (reconcileVolumeExpansion E recorder cluster)"
  "logs_only (growing E (master_storage_size cluster)) (reconcileMasterVolumeExpansion E recorder cluster)"
  "logs_only (growing E (worker_storage_size cluster)) (reconcileWorkerVolumeExpansion E recorder cluster)"
  unfolding reconcileVolumeExpansion_def reconcileMasterVolumeExpansion_def reconcileWorkerVolumeExpansion_def Let_def
    expansion_body_def [symmetric]
  by (intro logs logs_if body_growing)+

subsection \<open>A server that keeps the claims\<close>

text \<open>
  What the liveness of an expansion needs of Kubernetes: the claims of the component are those
  of the store, a patch replaces the claim of that name, the storage classes allow expansion,
  and reading changes nothing.
\<close>

definition put_claim :: "PersistentVolumeClaim \<Rightarrow> PersistentVolumeClaim list \<Rightarrow> PersistentVolumeClaim list" where
  "put_claim pvc = map (\<lambda>p. if pvc_Name p = pvc_Name pvc then pvc else p)"

definition keeps_claims :: "'s env \<Rightarrow> string \<Rightarrow> labels \<Rightarrow> ('s \<Rightarrow> PersistentVolumeClaim list) \<Rightarrow> bool" where
  "keeps_claims E ns sel store \<longleftrightarrow>
     (\<forall>s. \<exists>s'. e_list_pvcs E ns sel s = (Inr (store s), s') \<and> store s' = store s) \<and>
     (\<forall>s. store (snd (e_now E s)) = store s) \<and>
     (\<forall>name s. \<exists>sc s'. e_get_storageclass E name s = (Inr sc, s') \<and> sc_AllowVolumeExpansion sc = Some True \<and> store s' = store s) \<and>
     (\<forall>old new s. \<exists>s'. e_patch_pvc E old new s = (Inr (), s') \<and> store s' = put_claim new (store s))"

definition named_class :: "PersistentVolumeClaim \<Rightarrow> bool" where
  "named_class pvc \<longleftrightarrow> (\<exists>c cs. pvc_StorageClassName pvc = Some (c # cs))"

lemma validate_at:
  assumes "e_parse_quantity E sz = Inr q" and "q_nano (storage_request pvc) = q_nano q"
  shows "\<exists>v. run_state (ValidateExpansion E pvc sz) w = (Inr v, w) \<and> evr_Valid v \<and> \<not> evr_NeedsExpansion v"
  using assms by (simp add: ValidateExpansion_def CompareStorageSizes_def quantity_Cmp_def)

lemma validate_below:
  assumes "keeps_claims E ns sel store" and "e_parse_quantity E sz = Inr q" and "q_nano (storage_request pvc) < q_nano q" and "named_class pvc"
  shows "\<exists>v w'. run_state (ValidateExpansion E pvc sz) w = (Inr v, w') \<and> evr_Valid v \<and> evr_NeedsExpansion v \<and> store (w_env w') = store (w_env w)"
proof -
  obtain c cs where name: "pvc_StorageClassName pvc = Some (c # cs)" using assms(4) by (auto simp: named_class_def)
  obtain sc s' where "e_get_storageclass E (c # cs) (w_env w) = (Inr sc, s')" "sc_AllowVolumeExpansion sc = Some True" "store s' = store (w_env w)"
    using assms(1) unfolding keeps_claims_def by metis
  then have "run_state (CanStorageClassExpand E (c # cs)) w = (Inr True, w\<lparr>w_env := s'\<rparr>)"
    by (simp add: CanStorageClassExpand_def run_io prim_defs)
  moreover have "run_state (GetStorageClassForPVC E (Some (c # cs))) w = (Inr (c # cs), w)" by (simp add: GetStorageClassForPVC_def)
  moreover have "quantity_Cmp (storage_request pvc) q = -1" using assms(3) by (simp add: quantity_Cmp_def)
  ultimately show ?thesis using \<open>store s' = store (w_env w)\<close>
    by (simp add: ValidateExpansion_def CompareStorageSizes_def assms(2) Let_def run_bind name)
qed

lemma notify_env: "w_env (snd (run_state (if A then notify r b reason m else ret ()) w)) = w_env w"
  by (simp add: notify_def record_event_def run_emit)

lemma run_start:
  "run_state m0 w = (u, w1) \<Longrightarrow> run_state m1 w1 = (Inr (), w2) \<Longrightarrow>
    run_state (do { _ \<leftarrow> m0; r \<leftarrow> m1; case r of Inl err \<Rightarrow> do { _ \<leftarrow> m2 err; ret (st2 err) } | Inr u \<Rightarrow> ret st }) w = (st, w2)"
  by (simp add: run_bind)

lemma expand_run:
  assumes "keeps_claims E ns sel store" and "e_parse_quantity E sz = Inr q"
  shows "\<exists>now w'. run_state (start_expansion E recorder sz name pvc st) w = (st, w') \<and>
    store (w_env w') = put_claim (with_request pvc q sz now) (store (w_env w))"
proof -
  let ?m = "if length (xr_Pending st) = 1 \<and> xr_Expanded st = [] then notify recorder False ''VolumeExpansionStarted''
      (''Starting volume expansion for '' @ name @ '' PVCs to '' @ sz) else ret ()"
  obtain u w1 where ev: "run_state ?m w = (u, w1)" by (cases "run_state ?m w")
  have "w_env (snd (run_state ?m w)) = w_env w" by (rule notify_env)
  then have w1: "w_env w1 = w_env w" unfolding ev snd_conv .
  obtain now s1 where n: "e_now E (w_env w1) = (now, s1)" by fastforce
  then have s1: "store s1 = store (w_env w)" using assms(1) w1 unfolding keeps_claims_def by (metis snd_conv)
  obtain s2 where s2: "e_patch_pvc E pvc (with_request pvc q sz now) s1 = (Inr (), s2)" "store s2 = put_claim (with_request pvc q sz now) (store s1)"
    using assms(1) unfolding keeps_claims_def by metis
  let ?w = "w1\<lparr>w_env := s2, w_log := w_log w1 @ [EPatchPVC pvc (with_request pvc q sz now)]\<rparr>"
  have "run_state (ExpandPVC E pvc sz) w1 = (Inr (), ?w)"
    using n s2 by (simp add: ExpandPVC_def assms(2) prim_defs run_io)
  from run_start [OF ev this] have "run_state (start_expansion E recorder sz name pvc st) w = (st, ?w)"
    unfolding start_expansion_def .
  then show ?thesis using s1 s2 by (intro exI [of _ now] exI [of _ ?w]) simp
qed

text \<open>One claim of the list: the claims before it are at the requested size, those after it as listed.\<close>

definition ready_claim :: "'s env \<Rightarrow> Quantity \<Rightarrow> PersistentVolumeClaim \<Rightarrow> bool" where
  "ready_claim E q pvc \<longleftrightarrow> q_nano (storage_request pvc) \<le> q_nano q \<and> named_class pvc \<and> pec_IsComplete (GetPVCExpansionCondition E pvc)"

lemma put_claim_middle:
  assumes "distinct (map pvc_Name (before @ pvc # after))" and "pvc_Name new = pvc_Name pvc"
  shows "put_claim new (before @ pvc # after) = before @ new # after"
proof -
  have "pvc_Name pvc \<notin> pvc_Name ` set before" "pvc_Name pvc \<notin> pvc_Name ` set after" using assms(1) by auto
  then have "pvc_Name p \<noteq> pvc_Name pvc" if "p \<in> set before \<or> p \<in> set after" for p using that by (metis image_eqI)
  then have "map (\<lambda>p. if pvc_Name p = pvc_Name pvc then new else p) ps = ps" if "set ps \<subseteq> set before \<union> set after" for ps
    using that by (intro map_idI) auto
  then show ?thesis unfolding put_claim_def assms(2) by simp
qed

lemma claim_step:
  assumes "keeps_claims E ns sel store" and "e_parse_quantity E sz = Inr q" and "ready_claim E q pvc"
    and "store (w_env w) = before @ pvc # after" and "distinct (map pvc_Name (before @ pvc # after))"
  shows "\<exists>st' w' new. run_state (expand_claim E recorder sz name pvc st) w = (st', w') \<and> store (w_env w') = before @ new # after \<and>
    pvc_Name new = pvc_Name pvc \<and> q_nano (storage_request new) = q_nano q"
proof (cases "q_nano (storage_request pvc) = q_nano q")
  case True
  then obtain v where "run_state (ValidateExpansion E pvc sz) w = (Inr v, w)" "evr_Valid v" "\<not> evr_NeedsExpansion v"
    using validate_at [OF assms(2)] by blast
  then have "run_state (expand_claim E recorder sz name pvc st) w = (st\<lparr>xr_Expanded := xr_Expanded st @ [pvc_Name pvc]\<rparr>, w)"
    by (simp add: expand_claim_def run_bind)
  then show ?thesis using assms(4) True by blast
next
  case False
  then have "q_nano (storage_request pvc) < q_nano q" "named_class pvc" "pec_IsComplete (GetPVCExpansionCondition E pvc)"
    using assms(3) by (simp_all add: ready_claim_def)
  moreover then obtain v w1 where v: "run_state (ValidateExpansion E pvc sz) w = (Inr v, w1)" "evr_Valid v" "evr_NeedsExpansion v"
      "store (w_env w1) = store (w_env w)"
    using validate_below [OF assms(1, 2)] by blast
  moreover obtain now w2 where "run_state (start_expansion E recorder sz name pvc
      (st\<lparr>xr_Needed := True, xr_Pending := xr_Pending st @ [pvc_Name pvc]\<rparr>)) w1 =
        (st\<lparr>xr_Needed := True, xr_Pending := xr_Pending st @ [pvc_Name pvc]\<rparr>, w2)"
      "store (w_env w2) = put_claim (with_request pvc q sz now) (store (w_env w1))"
    using expand_run [OF assms(1, 2)] by blast
  moreover have "put_claim (with_request pvc q sz now) (before @ pvc # after) = before @ with_request pvc q sz now # after"
    using assms(5) by (intro put_claim_middle) simp_all
  ultimately show ?thesis
    using assms(4) by (intro exI [of _ "st\<lparr>xr_Needed := True, xr_Pending := xr_Pending st @ [pvc_Name pvc]\<rparr>"]
        exI [of _ w2] exI [of _ "with_request pvc q sz now"]) (simp add: expand_claim_def run_bind Let_def)
qed

lemma claims_reach_size:
  assumes "keeps_claims E ns sel store" and "e_parse_quantity E sz = Inr q" and "list_all (ready_claim E q) after"
    and "store (w_env w) = before @ after" and "distinct (map pvc_Name (before @ after))"
    and "list_all (\<lambda>p. q_nano (storage_request p) = q_nano q) before"
  shows "\<exists>st' w'. run_state (expand_claims E recorder sz name after st) w = (st', w') \<and>
    map pvc_Name (store (w_env w')) = map pvc_Name (before @ after) \<and>
    list_all (\<lambda>p. q_nano (storage_request p) = q_nano q) (store (w_env w'))"
  using assms(3-6)
proof (induction after arbitrary: before w st)
  case Nil
  then show ?case by simp
next
  case (Cons pvc after)
  obtain st1 w1 new where one: "run_state (expand_claim E recorder sz name pvc st) w = (st1, w1)" "store (w_env w1) = before @ new # after"
      "pvc_Name new = pvc_Name pvc" "q_nano (storage_request new) = q_nano q"
    using claim_step [OF assms(1, 2) _ Cons.prems(2, 3)] Cons.prems(1) by (metis list.pred_inject(2))
  have "\<exists>st' w'. run_state (expand_claims E recorder sz name after st1) w1 = (st', w') \<and>
      map pvc_Name (store (w_env w')) = map pvc_Name ((before @ [new]) @ after) \<and>
      list_all (\<lambda>p. q_nano (storage_request p) = q_nano q) (store (w_env w'))"
    using Cons.prems one by (intro Cons.IH) auto
  then show ?case using one by (auto simp: run_bind)
qed

lemma claims_at_size:
  assumes "e_parse_quantity E sz = Inr q" and "list_all (\<lambda>p. q_nano (storage_request p) = q_nano q) pvcs"
  shows "run_state (expand_claims E recorder sz name pvcs st) w = (st\<lparr>xr_Expanded := xr_Expanded st @ map pvc_Name pvcs\<rparr>, w)"
  using assms(2)
proof (induction pvcs arbitrary: st)
  case (Cons pvc pvcs)
  then obtain v where "run_state (ValidateExpansion E pvc sz) w = (Inr v, w)" "evr_Valid v" "\<not> evr_NeedsExpansion v"
    using validate_at [OF assms(1)] by (metis list.pred_inject(2))
  then show ?case using Cons by (simp add: expand_claim_def run_bind)
qed simp

lemma list_claims_run:
  assumes "keeps_claims E (wc_Namespace cluster) (component_pvc_selector cluster ComponentIndexer) store"
  shows "\<exists>v'. run_state (getIndexerPVCs E cluster) v = (Inr (store (w_env v)), v') \<and> store (w_env v') = store (w_env v) \<and> w_log v' = w_log v"
proof -
  obtain s' where "e_list_pvcs E (wc_Namespace cluster) (component_pvc_selector cluster ComponentIndexer) (w_env v) = (Inr (store (w_env v)), s')"
      "store s' = store (w_env v)"
    using assms unfolding keeps_claims_def by blast
  then show ?thesis by (simp add: getIndexerPVCs_def run_io prim_defs)
qed

lemma now_run:
  assumes "keeps_claims E ns sel store"
  shows "\<exists>t v'. run_state (time_now E) v = (t, v') \<and> store (w_env v') = store (w_env v) \<and> w_log v' = w_log v"
proof -
  obtain t s' where "e_now E (w_env v) = (t, s')" by fastforce
  moreover then have "store s' = store (w_env v)" using assms unfolding keeps_claims_def by (metis snd_conv)
  ultimately show ?thesis by (simp add: run_io prim_defs)
qed

lemma update_run:
  assumes "keeps_claims E (wc_Namespace cluster) (component_pvc_selector cluster ComponentIndexer) store"
  shows "\<exists>c v'. run_state (updateIndexerExpansionStatus E cluster sz st) v = (c, v') \<and> store (w_env v') = store (w_env v) \<and> w_log v' = w_log v"
proof -
  obtain v1 where l: "run_state (getIndexerPVCs E cluster) v = (Inr (store (w_env v)), v1)" "store (w_env v1) = store (w_env v)" "w_log v1 = w_log v"
    using list_claims_run [OF assms] by blast
  obtain t2 v2 where n: "run_state (time_now E) v = (t2, v2)" "store (w_env v2) = store (w_env v)" "w_log v2 = w_log v"
    using now_run [OF assms] by blast
  obtain t3 v3 where n1: "run_state (time_now E) v1 = (t3, v3)" "store (w_env v3) = store (w_env v1)" "w_log v3 = w_log v1"
    using now_run [OF assms] by blast
  show ?thesis using l n n1
    unfolding updateIndexerExpansionStatus_def expansion_status_def run_bind by (auto simp: run_bind split: option.split)
qed

lemma completed_run:
  assumes "keeps_claims E (wc_Namespace cluster) (component_pvc_selector cluster ComponentIndexer) store"
    and "xr_Expanded st \<noteq> []" and "xr_Pending st = []" and "xr_Error st = None"
  shows "\<exists>x c v'. run_state (updateIndexerExpansionStatus E cluster sz st) v = (c, v') \<and> w_log v' = w_log v \<and>
    ves_IndexerExpansion (expansion_of c) = Some x \<and> ces_Phase x = ExpansionPhaseCompleted \<and> ces_PVCsExpanded x = xr_Expanded st"
proof -
  obtain t v' where "run_state (time_now E) v = (t, v')" "w_log v' = w_log v" using now_run [OF assms(1)] by blast
  moreover have "expansion_update sz sz st = Some (CreateCompletedStatus sz (xr_Expanded st))" using assms by (simp add: expansion_update_def)
  moreover have "esu_Phase (CreateCompletedStatus sz ps) = ExpansionPhaseCompleted" "esu_PVCsExpanded (CreateCompletedStatus sz ps) = ps" for ps
    unfolding CreateCompletedStatus_def by (simp_all only: ExpansionStatusUpdate.simps)
  ultimately show ?thesis using assms(2, 3)
    by (simp add: updateIndexerExpansionStatus_def expansion_status_def run_bind expansion_of_def UpdateComponentExpansionStatus_def
        NewComponentExpansionStatus_def split: option.split)
qed

lemma reconcile_run:
  assumes "keeps_claims E (wc_Namespace cluster) (component_pvc_selector cluster ComponentIndexer) store" and "store (w_env w) \<noteq> []"
  shows "\<exists>v. run_state (reconcileVolumeExpansion E recorder cluster) w = run_state (expansion_body E recorder (store (w_env w))
      (indexer_storage_size cluster) ''indexer'' (updateIndexerExpansionStatus E cluster (indexer_storage_size cluster)) ''indexer'') v \<and>
    store (w_env v) = store (w_env w) \<and> w_log v = w_log w"
proof -
  obtain v where "run_state (getIndexerPVCs E cluster) w = (Inr (store (w_env w)), v)" "store (w_env v) = store (w_env w)" "w_log v = w_log w"
    using list_claims_run [OF assms(1)] by blast
  then show ?thesis using assms(2)
    unfolding reconcileVolumeExpansion_def Let_def expansion_body_def [symmetric] run_try by (intro exI [of _ v]) simp
qed

lemma completion_run:
  "\<exists>v'. run_state (completion_event recorder what sz st) v = ((), v') \<and> w_env v' = w_env v \<and> (xr_Pending st \<noteq> [] \<or> \<not> xr_Needed st \<longrightarrow> v' = v)"
  by (simp add: completion_event_def notify_def record_event_def run_emit)

lemma two_reconciliations:
  assumes "keeps_claims E (wc_Namespace cluster) (component_pvc_selector cluster ComponentIndexer) store"
    and "e_parse_quantity E (indexer_storage_size cluster) = Inr q" and "list_all (ready_claim E q) (store (w_env w))"
    and "distinct (map pvc_Name (store (w_env w)))" and "store (w_env w) \<noteq> []"
  shows "\<exists>c1 w1 c2 w2 x. run_state (reconcileVolumeExpansion E recorder cluster) w = (Inr c1, w1) \<and>
    list_all (\<lambda>p. q_nano (storage_request p) = q_nano q) (store (w_env w1)) \<and>
    run_state (reconcileVolumeExpansion E recorder cluster) w1 = (Inr c2, w2) \<and> w_log w2 = w_log w1 \<and>
    ves_IndexerExpansion (expansion_of c2) = Some x \<and> ces_Phase x = ExpansionPhaseCompleted \<and>
    ces_PVCsExpanded x = map pvc_Name (store (w_env w))"
proof -
  let ?sz = "indexer_storage_size cluster" and ?st = "\<lparr>xr_Expanded = [], xr_Pending = [], xr_Needed = False, xr_Error = None\<rparr>"
  obtain v where v: "run_state (reconcileVolumeExpansion E recorder cluster) w = run_state (expansion_body E recorder (store (w_env w)) ?sz
      ''indexer'' (updateIndexerExpansionStatus E cluster ?sz) ''indexer'') v" "store (w_env v) = store (w_env w)"
    using reconcile_run [OF assms(1, 5)] by blast
  obtain st v1 where p: "run_state (expand_claims E recorder ?sz ''indexer'' (store (w_env w)) ?st) v = (st, v1)"
      "map pvc_Name (store (w_env v1)) = map pvc_Name (store (w_env w))"
      "list_all (\<lambda>p. q_nano (storage_request p) = q_nano q) (store (w_env v1))"
    using claims_reach_size [OF assms(1-3), of v "[]" recorder "''indexer''" ?st] v(2) assms(4) by auto
  obtain c1 v2 where u: "run_state (updateIndexerExpansionStatus E cluster ?sz st) v1 = (c1, v2)" "store (w_env v2) = store (w_env v1)"
    using update_run [OF assms(1)] by blast
  obtain w1 where e: "run_state (completion_event recorder ''indexer'' ?sz st) v2 = ((), w1)" "w_env w1 = w_env v2"
    using completion_run by blast
  have first: "run_state (reconcileVolumeExpansion E recorder cluster) w = (Inr c1, w1)"
    unfolding v(1) expansion_body_def processVolumeExpansion_def run_bind p(1) u(1) e(1) prod.case run_ret ..
  have store: "store (w_env w1) = store (w_env v1)" using e u by simp
  then have ne: "store (w_env w1) \<noteq> []" using p(2) assms(5) by (metis map_is_Nil_conv)
  obtain y where y: "run_state (reconcileVolumeExpansion E recorder cluster) w1 = run_state (expansion_body E recorder (store (w_env w1)) ?sz
      ''indexer'' (updateIndexerExpansionStatus E cluster ?sz) ''indexer'') y" "w_log y = w_log w1"
    using reconcile_run [OF assms(1) ne] by blast
  let ?st' = "?st\<lparr>xr_Expanded := map pvc_Name (store (w_env w1))\<rparr>"
  have q: "run_state (expand_claims E recorder ?sz ''indexer'' (store (w_env w1)) ?st) y = (?st', y)"
    using claims_at_size [OF assms(2) p(3), of recorder "''indexer''" ?st y] unfolding store by simp
  obtain x c2 y1 where d: "run_state (updateIndexerExpansionStatus E cluster ?sz ?st') y = (c2, y1)" "w_log y1 = w_log y"
      "ves_IndexerExpansion (expansion_of c2) = Some x" "ces_Phase x = ExpansionPhaseCompleted" "ces_PVCsExpanded x = xr_Expanded ?st'"
    using completed_run [OF assms(1), of ?st' ?sz y] ne by auto
  have last: "run_state (completion_event recorder ''indexer'' ?sz ?st') y1 = ((), y1)" by (simp add: completion_event_def)
  have "run_state (reconcileVolumeExpansion E recorder cluster) w1 = (Inr c2, y1)"
    unfolding y(1) expansion_body_def processVolumeExpansion_def run_bind q d(1) last prod.case run_ret ..
  then show ?thesis using first store p y(2) d by (intro exI [of _ c1] exI [of _ w1] exI [of _ c2] exI [of _ y1] exI [of _ x]) simp
qed

subsection \<open>Properties\<close>

text \<open>
  C23: Volume expansion never shrinks a volume: whatever the API server answers, the only writes
  of the three handlers are patches that raise the storage request of a claim to the size asked
  for, where the old request was smaller and a storage class of the claim was seen to allow
  expansion; all else they do is to send events.
\<close>

theorem expansions_only_grow:
  assumes "run_state (reconcileVolumeExpansion E recorder cluster) w = (r, w') \<and> sz = indexer_storage_size cluster \<or>
    run_state (reconcileMasterVolumeExpansion E recorder cluster) w = (r, w') \<and> sz = master_storage_size cluster \<or>
    run_state (reconcileWorkerVolumeExpansion E recorder cluster) w = (r, w') \<and> sz = worker_storage_size cluster"
  shows "\<exists>es. w_log w' = w_log w @ es \<and> (\<forall>e \<in> set es. (\<exists>warning reason message. e = EEvent warning reason message) \<or>
    (\<exists>pvc new q. e = EPatchPVC pvc new \<and> e_parse_quantity E sz = Inr q \<and> storage_request new = q \<and>
      q_nano (storage_request pvc) < q_nano q \<and> pvc_Name new = pvc_Name pvc \<and> class_allows E pvc))"
proof -
  obtain es where "w_log w' = w_log w @ es" "list_all (growing E sz) es"
    using assms by (elim disjE conjE) (auto elim: logs_onlyD [OF handlers_growing(1)] logs_onlyD [OF handlers_growing(2)]
        logs_onlyD [OF handlers_growing(3)])
  moreover have "(\<exists>warning reason message. e = EEvent warning reason message) \<or>
    (\<exists>pvc new q. e = EPatchPVC pvc new \<and> e_parse_quantity E sz = Inr q \<and> storage_request new = q \<and>
      q_nano (storage_request pvc) < q_nano q \<and> pvc_Name new = pvc_Name pvc \<and> class_allows E pvc)" if "growing E sz e" for e
    using that with_request_sel(1, 2) unfolding growing_def by blast
  ultimately show ?thesis by (intro exI [of _ es]) (simp add: list_all_iff)
qed

text \<open>
  The event that announces a completed expansion is never sent. It needs a claim that has
  to grow and at the same time no claim left to grow, and a claim found to need expansion stays
  on the list of pending ones until the end of the call.
\<close>

theorem expansion_completion_unannounced:
  assumes "run_state (reconcileVolumeExpansion E recorder cluster) w = (r, w') \<or>
    run_state (reconcileMasterVolumeExpansion E recorder cluster) w = (r, w') \<or>
    run_state (reconcileWorkerVolumeExpansion E recorder cluster) w = (r, w')"
    and "EEvent warning ''VolumeExpansionCompleted'' message \<notin> set (w_log w)"
  shows "EEvent warning ''VolumeExpansionCompleted'' message \<notin> set (w_log w')"
proof -
  obtain sz es where "w_log w' = w_log w @ es" "list_all (growing E sz) es"
    using assms(1) by (elim disjE) (auto elim: logs_onlyD [OF handlers_growing(1)] logs_onlyD [OF handlers_growing(2)]
        logs_onlyD [OF handlers_growing(3)])
  moreover have "\<not> growing E sz (EEvent warning ''VolumeExpansionCompleted'' message)" by (simp add: growing_def)
  ultimately show ?thesis using assms(2) by (auto simp: list_all_iff)
qed

text \<open>
  What the expansion does with claims it is given. Where the server lists claims for its selector -
  none that the operator made, see below - and lets them grow, two reconciliations complete the
  expansion of the indexer's volumes: the first raises every request that is too small, the
  second writes nothing and reports all claims as expanded. That is the state of the requests:
  whether the volumes themselves have grown is not looked at.
\<close>

theorem expansion_completes:
  assumes "keeps_claims E (wc_Namespace cluster) (component_pvc_selector cluster ComponentIndexer) store"
    and "e_parse_quantity E (indexer_storage_size cluster) = Inr q" and "list_all (ready_claim E q) (store (w_env w))"
    and "distinct (map pvc_Name (store (w_env w)))" and "store (w_env w) \<noteq> []"
  shows "\<exists>c1 w1 c2 w2 x. run_state (reconcileVolumeExpansion E recorder cluster) w = (Inr c1, w1) \<and>
    list_all (\<lambda>p. q_nano (storage_request p) = q_nano q) (store (w_env w1)) \<and>
    run_state (reconcileVolumeExpansion E recorder cluster) w1 = (Inr c2, w2) \<and> w_log w2 = w_log w1 \<and>
    ves_IndexerExpansion (expansion_of c2) = Some x \<and> ces_Phase x = ExpansionPhaseCompleted \<and>
    ces_PVCsExpanded x = map pvc_Name (store (w_env w))"
  by (rule two_reconciliations [OF assms])

text \<open>A server with one claim of 10 GB, labelled by hand, where 20 GB are asked for.\<close>

definition gigabytes :: "int \<Rightarrow> Quantity" where
  "gigabytes n = \<lparr>q_nano = n * 10 ^ 18, q_format = ''DecimalSI''\<rparr>"

definition growing_env :: "PersistentVolumeClaim list env" where
  "growing_env = dead_env\<lparr>e_list_pvcs := (\<lambda>ns sel s. (Inr s, s)), e_patch_pvc := (\<lambda>old new s. (Inr (), put_claim new s)),
     e_get_storageclass := (\<lambda>n s. (Inr \<lparr>sc_Name = n, sc_Annotations = [], sc_AllowVolumeExpansion = Some True\<rparr>, s)),
     e_parse_quantity := (\<lambda>t. if t = ''20G'' then Inr (gigabytes 20) else Inl not_found)\<rparr>"

definition small_claim :: PersistentVolumeClaim where
  "small_claim = \<lparr>pvc_Name = ''data-wz-indexer-0'', pvc_Namespace = ''ns'', pvc_Labels = [(LabelInstance, ''wz''), (LabelComponent, ComponentIndexer)], pvc_Annotations = [],
     pvc_Requests = Some [(''storage'', gigabytes 10)], pvc_StorageClassName = Some ''fast'', pvc_Conditions = []\<rparr>"

definition larger_cluster :: WazuhCluster where
  "larger_cluster = empty_cluster\<lparr>wc_Indexer := Some ((plain_indexer 1 [])\<lparr>ics_StorageSize := ''20G''\<rparr>)\<rparr>"

lemma growing_sample:
  "keeps_claims growing_env (wc_Namespace larger_cluster) (component_pvc_selector larger_cluster ComponentIndexer) id"
  "e_parse_quantity growing_env (indexer_storage_size larger_cluster) = Inr (gigabytes 20)"
  "list_all (ready_claim growing_env (gigabytes 20)) [small_claim]" "storage_request small_claim = gigabytes 10"
  by (simp_all add: keeps_claims_def growing_env_def dead_env_def indexer_storage_size_def larger_cluster_def or_default_def ready_claim_def
      small_claim_def named_class_def GetPVCExpansionCondition_def storage_request_def gigabytes_def)

theorem expansion_completes_witness:
  "\<exists>c1 w1 c2 w2 x. run_state (reconcileVolumeExpansion growing_env True larger_cluster) (new_world [small_claim]) = (Inr c1, w1) \<and>
    list_all (\<lambda>p. q_nano (storage_request p) = 20 * 10 ^ 18) (w_env w1) \<and> q_nano (storage_request small_claim) = 10 * 10 ^ 18 \<and>
    run_state (reconcileVolumeExpansion growing_env True larger_cluster) w1 = (Inr c2, w2) \<and>
    ves_IndexerExpansion (expansion_of c2) = Some x \<and> ces_Phase x = ExpansionPhaseCompleted"
  using expansion_completes [OF growing_sample(1, 2), of "new_world [small_claim]" True] growing_sample(3, 4)
  by (auto simp: new_world_def gigabytes_def)

theorem expansions_only_grow_witness:
  "\<exists>es. w_log (snd (run_state (reconcileVolumeExpansion growing_env True larger_cluster) (new_world [small_claim]))) = es \<and>
    (\<forall>e \<in> set es. (\<exists>warning reason message. e = EEvent warning reason message) \<or>
      (\<exists>pvc new. e = EPatchPVC pvc new \<and> storage_request new = gigabytes 20 \<and> q_nano (storage_request pvc) < q_nano (gigabytes 20)))"
proof -
  let ?run = "run_state (reconcileVolumeExpansion growing_env True larger_cluster) (new_world [small_claim])"
  obtain es where "w_log (snd ?run) = w_log (new_world [small_claim]) @ es" and "\<forall>e \<in> set es. (\<exists>warning reason message. e = EEvent warning reason message) \<or>
      (\<exists>pvc new q. e = EPatchPVC pvc new \<and> e_parse_quantity growing_env (indexer_storage_size larger_cluster) = Inr q \<and>
        storage_request new = q \<and> q_nano (storage_request pvc) < q_nano q \<and> pvc_Name new = pvc_Name pvc \<and> class_allows growing_env pvc)"
    using expansions_only_grow [OF disjI1 [OF conjI [OF prod.collapse [symmetric] refl]]] by blast
  moreover have "w_log (new_world [small_claim]) = []" by (simp add: new_world_def)
  ultimately show ?thesis unfolding growing_sample(2) by (intro exI [of _ es]) auto
qed

theorem expansion_completion_unannounced_witness:
  "\<forall>message. EEvent False ''VolumeExpansionCompleted'' message \<notin>
    set (w_log (snd (run_state (reconcileVolumeExpansion growing_env True larger_cluster) (new_world [small_claim]))))"
proof
  fix message
  have "EEvent False ''VolumeExpansionCompleted'' message \<notin> set (w_log (new_world [small_claim]))" by (simp add: new_world_def)
  from expansion_completion_unannounced [OF disjI1 [OF prod.collapse [symmetric]] this]
  show "EEvent False ''VolumeExpansionCompleted'' message \<notin>
    set (w_log (snd (run_state (reconcileVolumeExpansion growing_env True larger_cluster) (new_world [small_claim]))))" .
qed

subsection \<open>The claims of the operator\<close>

text \<open>
  A claim made from the template of a workload carries the labels of the selector of its
  StatefulSet. None of them is the component label that the expansion looks for.
\<close>

lemma selector_misses_claims: "\<not> selects (component_pvc_selector cluster component) (workload_selector w c)"
proof -
  have "LabelComponent \<notin> fst ` set (workload_selector w c)"
    by (cases w) (auto simp: Indexer_buildSelectorLabels_def NodePool_buildSelectorLabels_def Manager_buildSelectorLabels_def
        Worker_buildSelectorLabels_def Dashboard_buildSelectorLabels_def label_set_def SelectorLabels_def label_key_defs)
  then have "map_of (workload_selector w c) LabelComponent = None" by (simp add: map_of_eq_None_iff)
  then show ?thesis by (simp add: component_pvc_selector_def)
qed

text \<open>
  The API server answers a list request by claims that match its selector, and all claims were
  made from the templates of workloads, of this cluster or another.
\<close>

definition template_claims :: "'s env \<Rightarrow> bool" where
  "template_claims E \<longleftrightarrow> (\<forall>ns sel s ps s'. e_list_pvcs E ns sel s = (Inr ps, s') \<longrightarrow>
     list_all (\<lambda>p. selects sel (pvc_Labels p) \<and> (\<exists>w c. pvc_Labels p = workload_selector w c)) ps)"

lemma no_claims_listed:
  assumes "template_claims E" and "e_list_pvcs E ns (component_pvc_selector cluster component) s = (Inr ps, s')"
  shows "ps = []"
  using assms selector_misses_claims unfolding template_claims_def by (cases ps) fastforce+

text \<open>
  C24: Changing a storage size has no effect on the volumes the operator creates. When the API
  server answers list requests by matching claims and every claim was made from the template of
  a workload, each of the three expansion handlers finds no claim: it writes nothing, sends no
  event and reports success on the cluster as it was, or fails with the error of the list request.
\<close>

theorem expansion_misses_claims:
  assumes "template_claims E"
    and "run_state (reconcileVolumeExpansion E recorder cluster) w = (r, w') \<or>
      run_state (reconcileMasterVolumeExpansion E recorder cluster) w = (r, w') \<or>
      run_state (reconcileWorkerVolumeExpansion E recorder cluster) w = (r, w')"
  shows "w_log w' = w_log w \<and> (r = Inr cluster \<or> (\<exists>err. r = Inl err))"
proof -
  have silent: "w_log w' = w_log w \<and> (r = Inr cluster \<or> (\<exists>err. r = Inl err))"
    if "run_state (try_io (try_io (list_pvcs E (wc_Namespace cluster) (component_pvc_selector cluster component)) wrap (\<lambda>ps. ret (Inr ps))) wrap'
      (\<lambda>pvcs. if pvcs = [] then ret (Inr cluster) else k pvcs)) w = (r, w')" for component wrap wrap' k
  proof -
    obtain a s' where "e_list_pvcs E (wc_Namespace cluster) (component_pvc_selector cluster component) (w_env w) = (a, s')" by fastforce
    then show ?thesis using that no_claims_listed [OF assms(1)] by (cases a) (auto simp: list_pvcs_def run_try run_ask)
  qed
  show ?thesis
    using assms(2) unfolding reconcileVolumeExpansion_def reconcileMasterVolumeExpansion_def reconcileWorkerVolumeExpansion_def Let_def
      getIndexerPVCs_def getManagerMasterPVCs_def getManagerWorkerPVCs_def
    by (elim disjE) (erule silent)+
qed

text \<open>The claim of an indexer pod, on a server that lists by labels, when 20 GB are asked for.\<close>

definition operator_claim :: PersistentVolumeClaim where
  "operator_claim = small_claim\<lparr>pvc_Labels := workload_selector WIndexer (wc_Name larger_cluster)\<rparr>"

definition template_env :: "unit env" where
  "template_env = dead_env\<lparr>e_list_pvcs := (\<lambda>ns sel s. (Inr (filter (\<lambda>p. selects sel (pvc_Labels p)) [operator_claim]), s)),
     e_parse_quantity := (\<lambda>t. Inr (gigabytes 20))\<rparr>"

theorem expansion_misses_claims_witness:
  "e_list_pvcs template_env ''ns'' (workload_selector WIndexer ''wz'') () = (Inr [operator_claim], ()) \<and>
   (\<exists>w'. run_state (reconcileVolumeExpansion template_env True larger_cluster) (new_world ()) = (Inr larger_cluster, w') \<and> w_log w' = [])"
proof -
  have name: "wc_Name larger_cluster = ''wz''" by (simp add: larger_cluster_def empty_cluster_def)
  have own: "selects (workload_selector WIndexer ''wz'') (workload_selector WIndexer ''wz'')" by code_simp
  have t: "template_claims template_env"
    unfolding template_claims_def template_env_def by (auto simp: operator_claim_def simp del: workload_selector.simps)
  obtain r w' where run: "run_state (reconcileVolumeExpansion template_env True larger_cluster) (new_world ()) = (r, w')" by fastforce
  have "w_log (new_world ()) = []" by (simp add: new_world_def)
  then have "w_log w' = []" "r = Inr larger_cluster \<or> (\<exists>err. r = Inl err)" using expansion_misses_claims [OF t disjI1 [OF run]] by simp_all
  moreover have "\<not> selects (component_pvc_selector larger_cluster ComponentIndexer) (pvc_Labels operator_claim)"
    by (simp add: operator_claim_def selector_misses_claims del: workload_selector.simps)
  then have "r = Inr larger_cluster"
    using run by (simp add: reconcileVolumeExpansion_def getIndexerPVCs_def list_pvcs_def run_try run_ask Let_def template_env_def)
  ultimately show ?thesis using run own by (simp add: template_env_def operator_claim_def name del: workload_selector.simps)
qed

end
