(* ===== verification/KubeRetry.thy ===== *)
theory KubeRetry
  imports ClusterWorld GoFloat
begin

section \<open>Retrying calls of the API server (internal/utils/retry.go)\<close>

text \<open>
  A call is retried while it fails, with growing intervals in between; \<open>RetryOnConflict\<close> only
  retries the errors the API server may not repeat. The function that is retried is any
  computation. \<open>oor\<close> is what a conversion of a float out of the range of \<open>int64\<close> yields, which
  Go leaves to the implementation. \<open>CalculateBackoff\<close>, which nothing calls, needs \<open>math.Pow\<close>
  and is not modelled.
\<close>

record RetryConfig =
  rc_MaxRetries :: i64
  rc_InitialInterval :: duration
  rc_MaxInterval :: duration
  rc_Multiplier :: f64
  rc_Jitter :: bool

definition DefaultRetryConfig :: RetryConfig where
  "DefaultRetryConfig = \<lparr>rc_MaxRetries = 5, rc_InitialInterval = second, rc_MaxInterval = 30 * second, rc_Multiplier = Fin 2, rc_Jitter = True\<rparr>"

definition ConflictRetryConfig :: RetryConfig where
  "ConflictRetryConfig = \<lparr>rc_MaxRetries = 3, rc_InitialInterval = 100 * 1000000, rc_MaxInterval = second, rc_Multiplier = Fin 2, rc_Jitter = True\<rparr>"

text \<open>\<open>0.75 + rand.Float64() * 0.5\<close>; a random float64 is a multiple of \<open>2\<^sup>-\<^sup>5\<^sup>3\<close>, so that half of it is exact.\<close>

definition jitter_factor :: "int \<Rightarrow> f64" where
  "jitter_factor r = round_f64 (3 / 4 + of_int r / 2 ^ 54)"

definition applyJitter :: "'s env \<Rightarrow> (f64 \<Rightarrow> i64) \<Rightarrow> duration \<Rightarrow> ('s, duration) io" where
  "applyJitter E oor d = do { r \<leftarrow> ask (e_rand E); ret (scale_duration oor (jitter_factor r) d) }"

definition nextInterval :: "'s env \<Rightarrow> (f64 \<Rightarrow> i64) \<Rightarrow> duration \<Rightarrow> RetryConfig \<Rightarrow> ('s, duration) io" where
  "nextInterval E oor current config =
     (let grown = scale_duration oor (rc_Multiplier config) current;
          capped = (if sint grown > sint (rc_MaxInterval config) then rc_MaxInterval config else grown)
      in if rc_Jitter config then applyJitter E oor capped else ret capped)"

definition IsRetryableKubernetesError :: "gerror \<Rightarrow> bool" where
  "IsRetryableKubernetesError err =
     (reason_of err \<in> {Conflict, AlreadyExists, ServerTimeout, TooManyRequests, ServiceUnavailable, InternalError})"

text \<open>
  The loops of the four functions: \<open>n\<close> attempts are left after this one, \<open>retryable\<close> tells which
  errors are retried, \<open>exhausted\<close> is the error after the last attempt.
\<close>

fun retry_loop :: "'s env \<Rightarrow> (f64 \<Rightarrow> i64) \<Rightarrow> RetryConfig \<Rightarrow> (gerror \<Rightarrow> bool) \<Rightarrow> (gerror \<Rightarrow> gerror) \<Rightarrow>
    ('s, 'a result) io \<Rightarrow> nat \<Rightarrow> duration \<Rightarrow> ('s, 'a result) io" where
  "retry_loop E oor config retryable exhausted fn n interval = do {
     r \<leftarrow> fn;
     case r of
       Inr a \<Rightarrow> ret (Inr a)
     | Inl err \<Rightarrow>
        if \<not> retryable err then ret (Inl err)
        else case n of
          0 \<Rightarrow> ret (Inl (exhausted err))
        | Suc m \<Rightarrow> do {
            done \<leftarrow> wait_io E interval;
            case done of
              Some ctxErr \<Rightarrow> ret (Inl ctxErr)
            | None \<Rightarrow> do { next \<leftarrow> nextInterval E oor interval config;
                retry_loop E oor config retryable exhausted fn m next } } }"

declare retry_loop.simps [simp del]

definition RetryWithResult :: "'s env \<Rightarrow> (f64 \<Rightarrow> i64) \<Rightarrow> RetryConfig \<Rightarrow> 'a \<Rightarrow> ('s, 'a result) io \<Rightarrow> ('s, 'a result) io" where
  "RetryWithResult E oor config zero fn = (if sint (rc_MaxRetries config) < 0 then ret (Inr zero)
     else retry_loop E oor config (\<lambda>err. True) id fn (nat (sint (rc_MaxRetries config))) (rc_InitialInterval config))"

definition RetryWithBackoff :: "'s env \<Rightarrow> (f64 \<Rightarrow> i64) \<Rightarrow> RetryConfig \<Rightarrow> ('s, unit result) io \<Rightarrow> ('s, unit result) io" where
  "RetryWithBackoff E oor config fn = (if sint (rc_MaxRetries config) < 0 then ret (Inr ())
     else retry_loop E oor config (\<lambda>err. True) id fn (nat (sint (rc_MaxRetries config))) (rc_InitialInterval config))"

definition Retry :: "'s env \<Rightarrow> (f64 \<Rightarrow> i64) \<Rightarrow> ('s, unit result) io \<Rightarrow> ('s, unit result) io" where
  "Retry E oor fn = RetryWithBackoff E oor DefaultRetryConfig fn"

definition max_retries_exceeded :: "RetryConfig \<Rightarrow> gerror \<Rightarrow> gerror" where
  "max_retries_exceeded config = wrapf (''max retries ('' @ show_i64 (rc_MaxRetries config) @ '') exceeded: '')"

text \<open>The text of \<open>%w\<close> for the nil error, where no attempt is made.\<close>

definition never_tried :: "RetryConfig \<Rightarrow> gerror" where
  "never_tried config = errorf (''max retries ('' @ show_i64 (rc_MaxRetries config) @ '') exceeded: %!w(<nil>)'')"

definition RetryOnConflictWithResultAndConfig :: "'s env \<Rightarrow> (f64 \<Rightarrow> i64) \<Rightarrow> RetryConfig \<Rightarrow> ('s, 'a result) io \<Rightarrow> ('s, 'a result) io" where
  "RetryOnConflictWithResultAndConfig E oor config fn = (if sint (rc_MaxRetries config) < 0 then ret (Inl (never_tried config))
     else retry_loop E oor config IsRetryableKubernetesError (max_retries_exceeded config) fn
       (nat (sint (rc_MaxRetries config))) (rc_InitialInterval config))"

definition RetryOnConflictWithConfig :: "'s env \<Rightarrow> (f64 \<Rightarrow> i64) \<Rightarrow> RetryConfig \<Rightarrow> ('s, unit result) io \<Rightarrow> ('s, unit result) io" where
  "RetryOnConflictWithConfig E oor config fn = (if sint (rc_MaxRetries config) < 0 then ret (Inl (never_tried config))
     else retry_loop E oor config IsRetryableKubernetesError (max_retries_exceeded config) fn
       (nat (sint (rc_MaxRetries config))) (rc_InitialInterval config))"

definition RetryOnConflictWithResult :: "'s env \<Rightarrow> (f64 \<Rightarrow> i64) \<Rightarrow> ('s, 'a result) io \<Rightarrow> ('s, 'a result) io" where
  "RetryOnConflictWithResult E oor fn = RetryOnConflictWithResultAndConfig E oor ConflictRetryConfig fn"

definition RetryOnConflict :: "'s env \<Rightarrow> (f64 \<Rightarrow> i64) \<Rightarrow> ('s, unit result) io \<Rightarrow> ('s, unit result) io" where
  "RetryOnConflict E oor fn = RetryOnConflictWithConfig E oor ConflictRetryConfig fn"

definition RetryWithRefresh :: "'s env \<Rightarrow> (f64 \<Rightarrow> i64) \<Rightarrow> ('s, 'a result) io \<Rightarrow> ('a \<Rightarrow> ('s, unit result) io) \<Rightarrow> ('s, unit result) io" where
  "RetryWithRefresh E oor refreshFn updateFn = RetryOnConflict E oor (try_io refreshFn id updateFn)"

subsection \<open>Runs of the loop\<close>

text \<open>
  What a retried call did: \<open>retried E fn ok k w r w'\<close> says that \<open>fn\<close> was called \<open>k\<close> times, each
  call but the last ended in an error that \<open>ok\<close> retries, and \<open>r\<close> is the answer of the last
  call, or the error of the context that ended a wait.
\<close>

inductive retried :: "'s env \<Rightarrow> ('s, 'a result) io \<Rightarrow> (gerror \<Rightarrow> bool) \<Rightarrow> nat \<Rightarrow> 's world \<Rightarrow> 'a result \<Rightarrow> bool \<Rightarrow> 's world \<Rightarrow> bool"
  for E fn ok where
  last: "run_state fn w = (r, w') \<Longrightarrow> retried E fn ok 1 w r True w'"
| cancelled: "run_state fn w = (Inl err, w1) \<Longrightarrow> ok err \<Longrightarrow> run_state (wait_io E d) w1 = (Some ctxErr, w') \<Longrightarrow>
    retried E fn ok 1 w (Inl ctxErr) False w'"
| again: "run_state fn w = (Inl err, w1) \<Longrightarrow> ok err \<Longrightarrow> run_state (wait_io E d) w1 = (None, w2) \<Longrightarrow>
    w_log w3 = w_log w2 \<Longrightarrow> retried E fn ok k w3 r own w' \<Longrightarrow> retried E fn ok (Suc k) w r own w'"

lemma nextInterval_log: "run_state (nextInterval E oor d config) w = (next, w') \<Longrightarrow> w_log w' = w_log w"
  by (auto simp: nextInterval_def applyJitter_def Let_def run_io split: if_splits prod.splits)

lemma nextInterval_silent [logs]: "logs_only P (nextInterval E oor d config)"
  unfolding nextInterval_def applyJitter_def Let_def by (intro logs logs_if)

lemma retry_silent [logs]: "logs_only P fn \<Longrightarrow> logs_only P (retry_loop E oor config ok ex fn n interval)"
proof (induction n arbitrary: interval)
  case 0
  then show ?case unfolding retry_loop.simps [of _ _ _ _ _ _ 0] by (intro logs logs_case logs_if) (simp_all add: logs_ret)
next
  case (Suc n)
  then show ?case unfolding retry_loop.simps [of _ _ _ _ _ _ "Suc n"] nat.case wait_io_def by (intro logs logs_case logs_if) simp_all
qed

lemma RetryOnConflict_logs [logs]: "logs_only P fn \<Longrightarrow> logs_only P (RetryOnConflict E oor fn)"
  unfolding RetryOnConflict_def RetryOnConflictWithConfig_def by (intro logs_if retry_silent logs_ret)

lemma retry_run:
  "run_state (retry_loop E oor config ok ex fn n interval) w = (r, w') \<Longrightarrow>
    \<exists>k own a. retried E fn ok k w a own w' \<and> 1 \<le> k \<and> k \<le> Suc n \<and>
      (case a of Inl err \<Rightarrow> if own \<and> ok err then k = Suc n \<and> r = Inl (ex err) else r = a | Inr x \<Rightarrow> r = a)"
proof (induction n arbitrary: interval w)
  case 0
  obtain a w1 where a: "run_state fn w = (a, w1)" by fastforce
  have w1: "w1 = w'" using 0 a by (auto simp: retry_loop.simps [of _ _ _ _ _ _ 0] run_bind split: sum.splits if_splits)
  have "case a of Inl err \<Rightarrow> if ok err then r = Inl (ex err) else r = a | Inr x \<Rightarrow> r = a"
    using 0 a by (auto simp: retry_loop.simps [of _ _ _ _ _ _ 0] run_bind split: sum.splits if_splits)
  then show ?case using retried.last [OF a, of E ok] unfolding w1
    by (intro exI [of _ 1] exI [of _ True] exI [of _ a]) (auto split: sum.splits)
next
  case (Suc n)
  obtain a w1 where a: "run_state fn w = (a, w1)" by fastforce
  note run = Suc.prems [unfolded retry_loop.simps [of _ _ _ _ _ _ "Suc n"] run_bind a prod.case]
  show ?case
  proof (cases "\<exists>err. a = Inl err \<and> ok err")
    case False
    then have "r = a" "w1 = w'" using run by (auto split: sum.splits)
    then show ?thesis using retried.last [OF a, of E ok] False
      by (intro exI [of _ 1] exI [of _ True] exI [of _ a]) (auto split: sum.splits)
  next
    case True
    then obtain err where err: "a = Inl err" "ok err" by blast
    obtain d w2 where d: "run_state (wait_io E interval) w1 = (d, w2)" by fastforce
    show ?thesis
    proof (cases d)
      case (Some ctxErr)
      then have "r = Inl ctxErr" "w2 = w'" using run d err by (simp_all add: run_bind)
      then show ?thesis using retried.cancelled [OF a [unfolded err(1)], of ok E interval ctxErr w'] d Some err
        by (intro exI [of _ 1] exI [of _ False] exI [of _ r]) simp
    next
      case None
      obtain i w3 where i: "run_state (nextInterval E oor interval config) w2 = (i, w3)" by fastforce
      have rest: "run_state (retry_loop E oor config ok ex fn n i) w3 = (r, w')" using run d err None i by (simp add: run_bind)
      obtain k own b where b: "retried E fn ok k w3 b own w'" "1 \<le> k" "k \<le> Suc n"
          "case b of Inl e \<Rightarrow> if own \<and> ok e then k = Suc n \<and> r = Inl (ex e) else r = b | Inr x \<Rightarrow> r = b"
        using Suc.IH [OF rest] by blast
      have "retried E fn ok (Suc k) w b own w'"
        using a [unfolded err(1)] err(2) d [unfolded None] nextInterval_log [OF i] b(1) by (rule retried.again)
      then show ?thesis using b by (intro exI [of _ "Suc k"] exI [of _ own] exI [of _ b]) (auto split: sum.splits if_splits)
    qed
  qed
qed

lemma conflict_attempts: "nat (sint (rc_MaxRetries ConflictRetryConfig)) = 3" "\<not> sint (rc_MaxRetries ConflictRetryConfig) < 0" "Suc 3 = 4"
  by (simp_all add: ConflictRetryConfig_def)

lemma RetryOnConflict_run:
  assumes "run_state (RetryOnConflict E oor fn) w = (r, w')"
  shows "\<exists>k own a. retried E fn IsRetryableKubernetesError k w a own w' \<and> 1 \<le> k \<and> k \<le> 4 \<and>
    (case a of Inl err \<Rightarrow> if own \<and> IsRetryableKubernetesError err
       then k = 4 \<and> r = Inl (max_retries_exceeded ConflictRetryConfig err) else r = a | Inr x \<Rightarrow> r = a)"
  by (rule retry_run [OF assms [unfolded RetryOnConflict_def RetryOnConflictWithConfig_def if_not_P [OF conflict_attempts(2)]
        conflict_attempts(1)], unfolded conflict_attempts(3)])

text \<open>The number of effects of a kind: each call of \<open>fn\<close> adds at most \<open>b\<close> of them.\<close>

lemma retried_effects:
  assumes "retried E fn ok k w r own w'" and "\<And>w a w1. run_state fn w = (a, w1) \<Longrightarrow> \<exists>es. w_log w1 = w_log w @ es \<and> length (filter P es) \<le> b"
  shows "\<exists>es. w_log w' = w_log w @ es \<and> length (filter P es) \<le> k * b"
  using assms
proof (induction rule: retried.induct)
  case (last w r w')
  then show ?case by fastforce
next
  case (cancelled w err w1 d ctxErr w')
  then show ?case by (fastforce simp: wait_io_def run_ask split: prod.splits)
next
  case (again w err w1 d w2 w3 k r own w')
  obtain es where es: "w_log w1 = w_log w @ es" "length (filter P es) \<le> b" using again.prems [OF again.hyps(1)] by blast
  obtain fs where fs: "w_log w' = w_log w3 @ fs" "length (filter P fs) \<le> k * b" using again.IH again.prems by blast
  have "w_log w2 = w_log w1" using again.hyps(3) by (auto simp: wait_io_def run_ask split: prod.splits)
  then show ?case using es fs again.hyps(4) by (intro exI [of _ "es @ fs"]) simp
qed

end
