(* ===== verification/Rollout.thy ===== *)
theory Rollout
  imports ClusterWorld
begin

section \<open>Waiting for rollouts (internal/utils/rollout.go and the controller's bookkeeping)\<close>

text \<open>
  The status of a rollout that a certificate renewal started, the loop that waits for it, and
  the list of pending rollouts in the status of the cluster, which the controller checks at the
  start of a reconciliation and extends at its end. The wait loop takes the number of rounds it
  may make; a loop that is still waiting after them is \<open>None\<close>.
\<close>

subsection \<open>rollout.go\<close>

record PendingRollout =
  pr_Name :: string
  pr_Namespace :: string
  pr_Type :: string
  pr_Component :: string
  pr_Reason :: string
  pr_StartTime :: "time option"
  pr_Generation :: i64

record RolloutStatus =
  rs_Complete :: bool
  rs_Ready :: bool
  rs_ReadyReplicas :: i32
  rs_Desired :: i32
  rs_Updated :: i32
  rs_Duration :: duration
  rs_Message :: string
  rs_Error :: "gerror option"

definition rollout_error :: "gerror \<Rightarrow> RolloutStatus" where
  "rollout_error err = \<lparr>rs_Complete = False, rs_Ready = False, rs_ReadyReplicas = 0, rs_Desired = 0, rs_Updated = 0,
     rs_Duration = 0, rs_Message = [], rs_Error = Some err\<rparr>"

definition DefaultRolloutTimeout :: duration where "DefaultRolloutTimeout = 10 * minute"

definition since_start :: "'s env \<Rightarrow> PendingRollout \<Rightarrow> ('s, duration) io" where
  "since_start E rollout = (case pr_StartTime rollout of None \<Rightarrow> ret 0
     | Some t \<Rightarrow> do { now \<leftarrow> time_now E; ret (time_sub now t) })"

definition progress_status :: "i32 \<Rightarrow> i32 \<Rightarrow> i32 \<Rightarrow> duration \<Rightarrow> bool \<Rightarrow> RolloutStatus" where
  "progress_status ready updated desired d complete = \<lparr>rs_Complete = complete, rs_Ready = complete, rs_ReadyReplicas = ready,
     rs_Desired = desired, rs_Updated = updated, rs_Duration = d,
     rs_Message = (if complete then ''Rollout complete: '' @ show_i32 desired @ ''/'' @ show_i32 desired @ '' pods ready''
       else show_i32 ready @ ''/'' @ show_i32 desired @ '' pods ready, '' @ show_i32 updated @ '' updated''),
     rs_Error = None\<rparr>"

definition desired_of :: "i32 option \<Rightarrow> i32" where
  "desired_of replicas = (case replicas of None \<Rightarrow> 1 | Some n \<Rightarrow> n)"

definition sts_rolled_out :: "StatefulSet \<Rightarrow> bool" where
  "sts_rolled_out sts = (let desired = desired_of (sts_SpecReplicas sts) in
     sts_UpdatedReplicas sts = desired \<and> sts_ReadyReplicas sts = desired \<and> sts_CurrentRevision sts = sts_UpdateRevision sts)"

definition deployment_rolled_out :: "Deployment \<Rightarrow> bool" where
  "deployment_rolled_out dep = (let desired = desired_of (dep_SpecReplicas dep) in
     dep_UpdatedReplicas dep = desired \<and> dep_ReadyReplicas dep = desired \<and> dep_AvailableReplicas dep = desired \<and>
     sint (dep_ObservedGeneration dep) \<ge> sint (dep_Generation dep))"

definition checkStatefulSetStatus :: "'s env \<Rightarrow> PendingRollout \<Rightarrow> ('s, RolloutStatus) io" where
  "checkStatefulSetStatus E rollout = do {
     r \<leftarrow> get_sts E (pr_Namespace rollout) (pr_Name rollout);
     case r of
       Inl err \<Rightarrow> ret (rollout_error err)
     | Inr sts \<Rightarrow> do {
         d \<leftarrow> since_start E rollout;
         ret (progress_status (sts_ReadyReplicas sts) (sts_UpdatedReplicas sts) (desired_of (sts_SpecReplicas sts)) d (sts_rolled_out sts)) } }"

definition checkDeploymentStatus :: "'s env \<Rightarrow> PendingRollout \<Rightarrow> ('s, RolloutStatus) io" where
  "checkDeploymentStatus E rollout = do {
     r \<leftarrow> get_deployment E (pr_Namespace rollout) (pr_Name rollout);
     case r of
       Inl err \<Rightarrow> ret (rollout_error err)
     | Inr dep \<Rightarrow> do {
         d \<leftarrow> since_start E rollout;
         ret (progress_status (dep_ReadyReplicas dep) (dep_UpdatedReplicas dep) (desired_of (dep_SpecReplicas dep)) d (deployment_rolled_out dep)) } }"

definition CheckRolloutStatus :: "'s env \<Rightarrow> PendingRollout \<Rightarrow> ('s, RolloutStatus) io" where
  "CheckRolloutStatus E rollout =
     (if pr_Type rollout = ''StatefulSet'' then checkStatefulSetStatus E rollout
      else if pr_Type rollout = ''Deployment'' then checkDeploymentStatus E rollout
      else ret (rollout_error (errorf (''unknown rollout type: '' @ pr_Type rollout))))"

definition IsRolloutComplete :: "'s env \<Rightarrow> PendingRollout \<Rightarrow> ('s, bool) io" where
  "IsRolloutComplete E rollout = do { s \<leftarrow> CheckRolloutStatus E rollout; ret (rs_Complete s \<and> rs_Error s = None) }"

definition rollout_timeout :: "PendingRollout \<Rightarrow> gerror" where
  "rollout_timeout rollout = errorf (''timeout waiting for rollout of '' @ pr_Type rollout @ ''/'' @ pr_Name rollout)"

fun wait_rollout :: "'s env \<Rightarrow> PendingRollout \<Rightarrow> time \<Rightarrow> nat \<Rightarrow> ('s, unit result option) io" where
  "wait_rollout E rollout deadline 0 = ret None"
| "wait_rollout E rollout deadline (Suc n) = do {
     now \<leftarrow> time_now E;
     if now > deadline then ret (Some (Inl (rollout_timeout rollout)))
     else do {
       s \<leftarrow> CheckRolloutStatus E rollout;
       case rs_Error s of
         Some err \<Rightarrow> ret (Some (Inl err))
       | None \<Rightarrow>
          if rs_Complete s then ret (Some (Inr ()))
          else do { c \<leftarrow> wait_io E (5 * second);
            case c of Some ctxErr \<Rightarrow> ret (Some (Inl ctxErr)) | None \<Rightarrow> wait_rollout E rollout deadline n } } }"

definition WaitForRollout :: "'s env \<Rightarrow> duration \<Rightarrow> PendingRollout \<Rightarrow> nat \<Rightarrow> ('s, unit result option) io" where
  "WaitForRollout E timeout rollout rounds = do {
     now \<leftarrow> time_now E;
     wait_rollout E rollout (time_add now timeout) rounds }"

record RolloutWaitResult =
  rwr_Success :: bool
  rwr_TimedOut :: bool
  rwr_Error :: "gerror option"
  rwr_Duration :: duration
  rwr_FinalStatus :: RolloutStatus

definition wait_with_result :: "'s env \<Rightarrow> duration \<Rightarrow> PendingRollout \<Rightarrow> nat \<Rightarrow> ('s, RolloutWaitResult option) io" where
  "wait_with_result E timeout rollout rounds = do {
     start \<leftarrow> time_now E;
     r \<leftarrow> WaitForRollout E timeout rollout rounds;
     case r of
       None \<Rightarrow> ret None
     | Some outcome \<Rightarrow> do {
         now \<leftarrow> time_now E;
         final \<leftarrow> CheckRolloutStatus E rollout;
         ret (Some (case outcome of
           Inl err \<Rightarrow> \<lparr>rwr_Success = False, rwr_TimedOut = (text_of err = text_of (rollout_timeout rollout)), rwr_Error = Some err,
             rwr_Duration = time_sub now start, rwr_FinalStatus = final\<rparr>
         | Inr u \<Rightarrow> \<lparr>rwr_Success = True, rwr_TimedOut = False, rwr_Error = None,
             rwr_Duration = time_sub now start, rwr_FinalStatus = final\<rparr>)) } }"

definition named_rollout :: "string \<Rightarrow> string \<Rightarrow> string \<Rightarrow> PendingRollout" where
  "named_rollout namespace name ty = \<lparr>pr_Name = name, pr_Namespace = namespace, pr_Type = ty, pr_Component = [], pr_Reason = [], pr_StartTime = None,
     pr_Generation = 0\<rparr>"

definition WaitForStatefulSetReadyWithResult :: "'s env \<Rightarrow> duration \<Rightarrow> string \<Rightarrow> string \<Rightarrow> nat \<Rightarrow> ('s, RolloutWaitResult option) io" where
  "WaitForStatefulSetReadyWithResult E timeout namespace name rounds =
     wait_with_result E timeout (named_rollout namespace name ''StatefulSet'') rounds"

definition WaitForDeploymentReadyWithResult :: "'s env \<Rightarrow> duration \<Rightarrow> string \<Rightarrow> string \<Rightarrow> nat \<Rightarrow> ('s, RolloutWaitResult option) io" where
  "WaitForDeploymentReadyWithResult E timeout namespace name rounds =
     wait_with_result E timeout (named_rollout namespace name ''Deployment'') rounds"

subsection \<open>The pending rollouts of a cluster (wazuhcluster_controller.go)\<close>

definition to_rollout :: "WazuhCluster \<Rightarrow> PendingCertRollout \<Rightarrow> PendingRollout" where
  "to_rollout cluster r = \<lparr>pr_Name = pcr_WorkloadName r, pr_Namespace = wc_Namespace cluster, pr_Type = pcr_WorkloadType r,
     pr_Component = pcr_Component r, pr_Reason = pcr_Reason r, pr_StartTime = pcr_StartTime r, pr_Generation = 0\<rparr>"

definition check_rollout :: "'s env \<Rightarrow> WazuhCluster \<Rightarrow> PendingCertRollout \<Rightarrow> ('s, PendingCertRollout \<times> bool) io" where
  "check_rollout E cluster rollout =
     (if pcr_Ready rollout then ret (rollout, False)
      else do {
        s \<leftarrow> CheckRolloutStatus E (to_rollout cluster rollout);
        ret (if rs_Error s \<noteq> None then (rollout, True)
             else if rs_Ready s then (rollout\<lparr>pcr_Ready := True\<rparr>, False) else (rollout, True)) })"

fun check_rollouts :: "'s env \<Rightarrow> WazuhCluster \<Rightarrow> PendingCertRollout list \<Rightarrow> ('s, PendingCertRollout list \<times> bool) io" where
  "check_rollouts E cluster [] = ret ([], False)"
| "check_rollouts E cluster (r # rs) = do {
     (r', p) \<leftarrow> check_rollout E cluster r;
     (rs', ps) \<leftarrow> check_rollouts E cluster rs;
     ret (r' # rs', p \<or> ps) }"

definition checkAndUpdatePendingRollouts :: "'s env \<Rightarrow> WazuhCluster \<Rightarrow> ('s, bool \<times> WazuhCluster) io" where
  "checkAndUpdatePendingRollouts E cluster = (case wc_stCertificateRollouts cluster of
     None \<Rightarrow> ret (False, cluster)
   | Some st \<Rightarrow>
      if crs_PendingRollouts st = [] then ret (False, cluster)
      else do {
        (updated, hasPending) \<leftarrow> check_rollouts E cluster (crs_PendingRollouts st);
        ret (hasPending, cluster\<lparr>wc_stCertificateRollouts := Some (st\<lparr>crs_PendingRollouts := updated, crs_RolloutsInProgress := hasPending\<rparr>)\<rparr>) })"

definition new_entry :: "PendingRollout \<Rightarrow> PendingCertRollout" where
  "new_entry rollout = \<lparr>pcr_Component = pr_Component rollout, pcr_WorkloadName = pr_Name rollout, pcr_WorkloadType = pr_Type rollout,
     pcr_StartTime = pr_StartTime rollout, pcr_Reason = pr_Reason rollout, pcr_Ready = False\<rparr>"

text \<open>The first pending entry of the component is replaced; without one, the new entry goes to the end.\<close>

fun add_rollout :: "PendingRollout \<Rightarrow> PendingCertRollout list \<Rightarrow> PendingCertRollout list" where
  "add_rollout rollout [] = [new_entry rollout]"
| "add_rollout rollout (e # es) = (if pcr_Component e = pr_Component rollout \<and> \<not> pcr_Ready e
     then new_entry rollout # es else e # add_rollout rollout es)"

definition addPendingRollouts :: "time \<Rightarrow> WazuhCluster \<Rightarrow> PendingRollout list \<Rightarrow> WazuhCluster" where
  "addPendingRollouts now cluster rollouts =
     (let st = (case wc_stCertificateRollouts cluster of Some s \<Rightarrow> s
          | None \<Rightarrow> \<lparr>crs_PendingRollouts = [], crs_LastRolloutTime = None, crs_RolloutsInProgress = False\<rparr>)
      in cluster\<lparr>wc_stCertificateRollouts := Some \<lparr>
           crs_PendingRollouts = foldl (\<lambda>es r. add_rollout r es) (crs_PendingRollouts st) rollouts,
           crs_LastRolloutTime = Some now, crs_RolloutsInProgress = True\<rparr>\<rparr>)"

subsection \<open>The wait loop ends\<close>

text \<open>
  A clock the API calls do not turn back and that a wait of \<open>d\<close> moves by at least \<open>d\<close>.
\<close>

definition waiting_clock :: "'s env \<Rightarrow> ('s \<Rightarrow> time) \<Rightarrow> bool" where
  "waiting_clock E clk \<longleftrightarrow>
     (\<forall>s. clk s \<le> fst (e_now E s) \<and> clk (snd (e_now E s)) = fst (e_now E s)) \<and>
     (\<forall>ns n s. clk s \<le> clk (snd (e_get_sts E ns n s))) \<and>
     (\<forall>ns n s. clk s \<le> clk (snd (e_get_deployment E ns n s))) \<and>
     (\<forall>d s. fst (e_wait E d s) = None \<longrightarrow> clk s + sint d \<le> clk (snd (e_wait E d s)))"

lemma clock_now:
  assumes "waiting_clock E clk" and "run_state (time_now E) w = (t, w1)"
  shows "clk (w_env w) \<le> t" and "clk (w_env w1) = t"
  using assms by (auto simp: waiting_clock_def time_now_def run_ask split: prod.splits) (metis fst_conv snd_conv)+

lemma clock_wait:
  assumes "waiting_clock E clk" and "run_state (wait_io E d) w = (None, w1)"
  shows "clk (w_env w) + sint d \<le> clk (w_env w1)"
  using assms by (auto simp: waiting_clock_def wait_io_def run_ask split: prod.splits) (metis fst_conv snd_conv)

lemma clock_check:
  assumes "waiting_clock E clk"
  shows "keeps_clock clk (CheckRolloutStatus E rollout)"
proof -
  have now: "keeps_clock clk (time_now E)"
    using assms unfolding time_now_def waiting_clock_def by (intro keeps_clock_ask) metis
  have gets: "keeps_clock clk (get_sts E ns n)" "keeps_clock clk (get_deployment E ns n)" for ns n
    using assms unfolding get_sts_def get_deployment_def waiting_clock_def by (auto intro: keeps_clock_ask)
  show ?thesis
    unfolding CheckRolloutStatus_def checkStatefulSetStatus_def checkDeploymentStatus_def since_start_def
    by (auto intro!: keeps_clock_bind keeps_clock_ret now gets split: sum.split option.split)
qed

lemma wait_rollout_ends:
  assumes clock: "waiting_clock E clk"
  shows "deadline < clk (w_env w) + 5000000000 * int n \<Longrightarrow>
    \<exists>r w'. run_state (wait_rollout E rollout deadline (Suc n)) w = (Some r, w')"
proof (induction n arbitrary: w)
  case 0
  obtain t w1 where t: "run_state (time_now E) w = (t, w1)" by fastforce
  then show ?case
    using 0 clock_now(1) [OF clock t] by (simp add: run_io)
next
  case (Suc n)
  obtain t w1 where t: "run_state (time_now E) w = (t, w1)" by fastforce
  obtain s w2 where s: "run_state (CheckRolloutStatus E rollout) w1 = (s, w2)" by fastforce
  obtain c w3 where c: "run_state (wait_io E (5 * second)) w2 = (c, w3)" by fastforce
  have five: "sint (5 * second) = 5000000000" by (simp add: second_def)
  have "clk (w_env w) \<le> clk (w_env w2)"
    using clock_now [OF clock t] keeps_clockD [OF clock_check [OF clock] s] by simp
  then have "deadline < clk (w_env w3) + 5000000000 * int n" if "c = None"
    using clock_wait [OF clock c [unfolded that]] Suc.prems five by (simp add: algebra_simps)
  then have "\<exists>r w'. run_state (wait_rollout E rollout deadline (Suc n)) w3 = (Some r, w')" if "c = None"
    using Suc.IH that by blast
  then show ?case
    unfolding wait_rollout.simps(2) [of E rollout deadline "Suc n"]
    by (cases c) (simp_all add: run_bind run_ret t s c split: option.split del: wait_rollout.simps)
qed

subsection \<open>A rollout that is reported complete is complete\<close>

text \<open>The object the API server has in the state \<open>s\<close> is rolled out.\<close>

definition workload_done :: "'s env \<Rightarrow> PendingRollout \<Rightarrow> 's \<Rightarrow> bool" where
  "workload_done E rollout s \<longleftrightarrow>
     (pr_Type rollout = ''StatefulSet'' \<and>
       (\<exists>sts s'. e_get_sts E (pr_Namespace rollout) (pr_Name rollout) s = (Inr sts, s') \<and> sts_rolled_out sts)) \<or>
     (pr_Type rollout = ''Deployment'' \<and>
       (\<exists>dep s'. e_get_deployment E (pr_Namespace rollout) (pr_Name rollout) s = (Inr dep, s') \<and> deployment_rolled_out dep))"

lemma status_fields [simp]:
  "rs_Complete (progress_status r u d t c) = c" "rs_Ready (progress_status r u d t c) = c"
  "rs_Error (progress_status r u d t c) = None"
  "rs_Error (rollout_error err) = Some err"
  by (simp_all add: progress_status_def rollout_error_def)

lemma CheckRolloutStatus_done:
  assumes "run_state (CheckRolloutStatus E rollout) w = (s, w')" and "rs_Error s = None" and "rs_Ready s \<or> rs_Complete s"
  shows "workload_done E rollout (w_env w)"
proof (cases "pr_Type rollout = ''StatefulSet''")
  case True
  then show ?thesis
    using assms unfolding CheckRolloutStatus_def checkStatefulSetStatus_def workload_done_def if_P [OF True]
    by (auto simp: get_sts_def since_start_def time_now_def run_io split: sum.splits prod.splits option.splits)
next
  case ty: False
  show ?thesis
  proof (cases "pr_Type rollout = ''Deployment''")
    case True
    then show ?thesis
      using assms unfolding CheckRolloutStatus_def checkDeploymentStatus_def workload_done_def if_not_P [OF ty] if_P [OF True]
      by (auto simp: get_deployment_def since_start_def time_now_def run_io split: sum.splits prod.splits option.splits)
  next
    case False
    then have "rs_Error s \<noteq> None"
      using assms(1) unfolding CheckRolloutStatus_def if_not_P [OF ty] if_not_P [OF False] by (auto simp: run_ret)
    then show ?thesis using assms(2) by simp
  qed
qed

lemma wait_rollout_sound:
  "run_state (wait_rollout E rollout deadline n) w = (Some (Inr ()), w') \<Longrightarrow>
    \<exists>w1. workload_done E rollout (w_env w1) \<and> snd (run_state (CheckRolloutStatus E rollout) w1) = w'"
proof (induction n arbitrary: w)
  case (Suc n)
  obtain t w1 where t: "run_state (time_now E) w = (t, w1)" by fastforce
  obtain s w2 where s: "run_state (CheckRolloutStatus E rollout) w1 = (s, w2)" by fastforce
  obtain c w3 where c: "run_state (wait_io E (5 * second)) w2 = (c, w3)" by fastforce
  show ?case
    using Suc.prems Suc.IH [of w3] CheckRolloutStatus_done [OF s]
    by (auto simp: run_bind run_ret t s c intro!: exI [of _ w1] split: option.splits if_splits)
qed (simp add: run_ret)

subsection \<open>The bookkeeping\<close>

abbreviation waiting :: "PendingCertRollout list \<Rightarrow> PendingCertRollout list" where
  "waiting es \<equiv> filter (\<lambda>e. \<not> pcr_Ready e) es"

definition one_per_component :: "PendingCertRollout list \<Rightarrow> bool" where
  "one_per_component es \<longleftrightarrow> distinct (map pcr_Component (waiting es))"

lemma new_entry_simps [simp]: "pcr_Component (new_entry r) = pr_Component r" "\<not> pcr_Ready (new_entry r)"
  by (simp_all add: new_entry_def)

lemma waiting_components_add:
  "pcr_Component ` set (waiting (add_rollout r es)) = insert (pr_Component r) (pcr_Component ` set (waiting es))"
  by (induction es) (simp_all add: insert_commute del: set_filter)

lemma one_per_component_add:
  "one_per_component es \<Longrightarrow> one_per_component (add_rollout r es)"
proof (induction es)
  case (Cons e es)
  then show ?case
    using waiting_components_add [of r es] by (auto simp: one_per_component_def)
qed (simp add: one_per_component_def)

lemma add_rollouts:
  "one_per_component es \<Longrightarrow> one_per_component (foldl (\<lambda>es r. add_rollout r es) es rs)"
  "pcr_Component ` set (waiting (foldl (\<lambda>es r. add_rollout r es) es rs)) = pcr_Component ` set (waiting es) \<union> pr_Component ` set rs"
   by (induction rs arbitrary: es)
    (simp_all add: one_per_component_add waiting_components_add Un_insert_left Un_insert_right del: set_filter)

text \<open>What a check does to an entry.\<close>

definition checked_entry :: "'s env \<Rightarrow> WazuhCluster \<Rightarrow> PendingCertRollout \<Rightarrow> PendingCertRollout \<Rightarrow> bool" where
  "checked_entry E cluster e e' \<longleftrightarrow> e' = e \<or>
     (\<not> pcr_Ready e \<and> e' = e\<lparr>pcr_Ready := True\<rparr> \<and> (\<exists>s. workload_done E (to_rollout cluster e) s))"

lemma check_rollout_entry:
  assumes "run_state (check_rollout E cluster e) w = ((e', p), w')"
  shows "checked_entry E cluster e e'" and "p = (\<not> pcr_Ready e')"
proof -
  obtain s w1 where s: "run_state (CheckRolloutStatus E (to_rollout cluster e)) w = (s, w1)" by fastforce
  show "checked_entry E cluster e e'" "p = (\<not> pcr_Ready e')"
    using assms CheckRolloutStatus_done [OF s] s
    by (auto simp: check_rollout_def checked_entry_def run_bind run_ret split: if_splits)
qed

lemma check_rollouts_entries:
  "run_state (check_rollouts E cluster es) w = ((es', p), w') \<Longrightarrow>
    list_all2 (checked_entry E cluster) es es' \<and> p = (waiting es' \<noteq> [])"
proof (induction es arbitrary: w es' p w')
  case (Cons e es)
  obtain e1 p1 w1 where e: "run_state (check_rollout E cluster e) w = ((e1, p1), w1)" by (metis surj_pair)
  obtain es2 p2 w2 where r: "run_state (check_rollouts E cluster es) w1 = ((es2, p2), w2)" by (metis surj_pair)
  show ?case
    using Cons.prems check_rollout_entry [OF e] Cons.IH [OF r] by (auto simp: run_bind run_ret e r)
qed (simp add: run_ret)

lemma checked_waiting:
  "list_all2 (checked_entry E cluster) es es' \<Longrightarrow>
    one_per_component es \<Longrightarrow> one_per_component es' \<and> pcr_Component ` set (waiting es') \<subseteq> pcr_Component ` set (waiting es)"
  by (induction rule: list_all2_induct) (auto simp: one_per_component_def checked_entry_def image_subset_iff)

text \<open>The states of the list over any sequence of the two operations; a reconciliation adds rollouts only when it has some.\<close>

inductive rollout_reach :: "'s env \<Rightarrow> WazuhCluster \<Rightarrow> bool" for E where
  fresh: "wc_stCertificateRollouts cluster = None \<Longrightarrow> rollout_reach E cluster"
| added: "rollout_reach E cluster \<Longrightarrow> rollouts \<noteq> [] \<Longrightarrow> rollout_reach E (addPendingRollouts now cluster rollouts)"
| polled: "rollout_reach E cluster \<Longrightarrow>
    run_state (checkAndUpdatePendingRollouts E cluster) w = ((pending, cluster'), w') \<Longrightarrow> rollout_reach E cluster'"

definition rollouts_ok :: "CertificateRolloutStatus \<Rightarrow> bool" where
  "rollouts_ok st \<longleftrightarrow> one_per_component (crs_PendingRollouts st) \<and>
     (crs_RolloutsInProgress st \<longleftrightarrow> waiting (crs_PendingRollouts st) \<noteq> [])"

lemma addPendingRollouts_ok:
  assumes "\<And>st. wc_stCertificateRollouts cluster = Some st \<Longrightarrow> rollouts_ok st" and "rollouts \<noteq> []"
  shows "\<exists>st. wc_stCertificateRollouts (addPendingRollouts now cluster rollouts) = Some st \<and> rollouts_ok st"
proof -
  define es where "es = (case wc_stCertificateRollouts cluster of Some s \<Rightarrow> crs_PendingRollouts s | None \<Rightarrow> [])"
  have es: "one_per_component es"
    using assms(1) by (auto simp: es_def rollouts_ok_def one_per_component_def split: option.split)
  let ?es = "foldl (\<lambda>es r. add_rollout r es) es rollouts"
  have "waiting ?es \<noteq> []"
    using add_rollouts(2) [of es rollouts] assms(2) by (metis Un_empty image_is_empty set_empty)
  moreover have "wc_stCertificateRollouts (addPendingRollouts now cluster rollouts) =
    Some \<lparr>crs_PendingRollouts = ?es, crs_LastRolloutTime = Some now, crs_RolloutsInProgress = True\<rparr>"
    by (simp add: addPendingRollouts_def es_def Let_def split: option.split)
  ultimately show ?thesis
    using add_rollouts(1) [OF es, of rollouts] by (simp add: rollouts_ok_def)
qed

lemma check_ok:
  assumes "run_state (checkAndUpdatePendingRollouts E cluster) w = ((pending, cluster'), w')"
    and "wc_stCertificateRollouts cluster = Some st" and "rollouts_ok st"
  shows "\<exists>st'. wc_stCertificateRollouts cluster' = Some st' \<and> rollouts_ok st' \<and> pending = crs_RolloutsInProgress st' \<and>
    list_all2 (checked_entry E cluster) (crs_PendingRollouts st) (crs_PendingRollouts st')"
proof (cases "crs_PendingRollouts st = []")
  case False
  obtain es p w1 where r: "run_state (check_rollouts E cluster (crs_PendingRollouts st)) w = ((es, p), w1)" by (metis surj_pair)
  note es = check_rollouts_entries [OF r]
  have "one_per_component es"
    using checked_waiting es assms(3) unfolding rollouts_ok_def by blast
  then show ?thesis
    using assms False es by (auto simp: checkAndUpdatePendingRollouts_def run_bind run_ret r rollouts_ok_def)
qed (use assms in \<open>auto simp: checkAndUpdatePendingRollouts_def run_ret rollouts_ok_def\<close>)

lemma rollout_reach_ok: "rollout_reach E cluster \<Longrightarrow> wc_stCertificateRollouts cluster = Some st \<Longrightarrow> rollouts_ok st"
proof (induction arbitrary: st rule: rollout_reach.induct)
  case (added cluster rollouts now)
  then show ?case using addPendingRollouts_ok [of cluster rollouts now] by auto
next
  case (polled cluster w pending cluster' w')
  show ?case
  proof (cases "wc_stCertificateRollouts cluster")
    case None
    then show ?thesis using polled by (auto simp: checkAndUpdatePendingRollouts_def run_ret)
  next
    case (Some st0)
    then show ?thesis using check_ok [OF polled.hyps(2) Some polled.IH [OF Some]] polled.prems by auto
  qed
qed simp

subsection \<open>Properties\<close>

text \<open>
  the list of pending certificate rollouts stays consistent. However adding and checking
  are interleaved, at most one unfinished entry exists per component; after a check the
  in-progress flag and the returned value both say exactly whether an unfinished entry is
  left; a check drops no entry and changes none except to mark it ready, which it does only
  for a workload that the API server showed as fully updated and ready.
\<close>

theorem pending_rollouts_tracked:
  assumes "rollout_reach E cluster" and "wc_stCertificateRollouts cluster = Some st"
    and "run_state (checkAndUpdatePendingRollouts E cluster) w = ((pending, cluster'), w')"
  shows "\<exists>st'. wc_stCertificateRollouts cluster' = Some st' \<and> one_per_component (crs_PendingRollouts st') \<and>
    pending = crs_RolloutsInProgress st' \<and> (pending \<longleftrightarrow> (\<exists>e \<in> set (crs_PendingRollouts st'). \<not> pcr_Ready e)) \<and>
    list_all2 (checked_entry E cluster) (crs_PendingRollouts st) (crs_PendingRollouts st')"
  using check_ok [OF assms(3,2) rollout_reach_ok [OF assms(1,2)]] by (auto simp: rollouts_ok_def filter_empty_conv)

definition done_sts :: StatefulSet where
  "done_sts = \<lparr>sts_Name = ''w-manager-master'', sts_Namespace = ''ns'', sts_UID = ''u'', sts_MatchLabels = [], sts_SpecReplicas = Some 1,
     sts_Replicas = 1, sts_ReadyReplicas = 1, sts_UpdatedReplicas = 1, sts_CurrentRevision = ''r'', sts_UpdateRevision = ''r'',
     sts_Generation = 1, sts_ObservedGeneration = 1, sts_TemplateAnnotations = [], sts_Labels = [], sts_Annotations = [], sts_OwnerReferences = [],
     sts_Deleting = False, sts_PodManagementPolicy = ''Parallel'', sts_UpdateStrategy = ''OnDelete'', sts_MinReadySeconds = 30,
     sts_TemplateLabels = [], sts_PodSpec = empty_pod_spec\<rparr>"

text \<open>A world whose clock is its state: every wait moves it, and every StatefulSet is rolled out.\<close>

definition ticking_env :: "time env" where
  "ticking_env = dead_env\<lparr>e_now := \<lambda>s. (s, s), e_wait := \<lambda>d s. (None, s + sint d), e_get_sts := \<lambda>ns n s. (Inr done_sts, s)\<rparr>"

definition master_rollout :: PendingRollout where
  "master_rollout = (named_rollout ''ns'' ''w-manager-master'' ''StatefulSet'')\<lparr>pr_Component := ''manager-master''\<rparr>"

theorem pending_rollouts_tracked_witness:
  "\<exists>pending cluster' w' st'. run_state (checkAndUpdatePendingRollouts ticking_env (addPendingRollouts 5 empty_cluster [master_rollout]))
      (new_world 7) = ((pending, cluster'), w') \<and> wc_stCertificateRollouts cluster' = Some st' \<and> pending = crs_RolloutsInProgress st'"
proof -
  let ?c = "addPendingRollouts 5 empty_cluster [master_rollout]"
  obtain pending cluster' w' where
    run: "run_state (checkAndUpdatePendingRollouts ticking_env ?c) (new_world 7) = ((pending, cluster'), w')" by (metis surj_pair)
  have "rollout_reach ticking_env empty_cluster" by (rule fresh) (simp add: empty_cluster_def)
  then have "rollout_reach ticking_env ?c" by (rule added) simp
  moreover obtain st where "wc_stCertificateRollouts ?c = Some st" by (simp add: addPendingRollouts_def Let_def)
  ultimately show ?thesis
    using pending_rollouts_tracked [OF _ _ run] run by blast
qed

text \<open>
  waiting for a rollout ends. On a clock that waiting moves forward, more rounds than the
  timeout has five-second pauses are enough for the loop to return, 121 of them for the
  default timeout of ten minutes; and when it reports success, its last check found the
  workload fully updated and ready.
\<close>

theorem WaitForRollout_ends:
  assumes "waiting_clock E clk" and "sint timeout < 5 * 1000000000 * int n"
  shows "\<exists>r w'. run_state (WaitForRollout E timeout rollout (Suc n)) w = (Some r, w') \<and>
    (r = Inr () \<longrightarrow> (\<exists>w1. workload_done E rollout (w_env w1) \<and> snd (run_state (CheckRolloutStatus E rollout) w1) = w'))"
proof -
  obtain t w1 where t: "run_state (time_now E) w = (t, w1)" by fastforce
  have "time_add t timeout < clk (w_env w1) + 5000000000 * int n"
    using clock_now(2) [OF assms(1) t] assms(2) by (simp add: time_add_def)
  from wait_rollout_ends [OF assms(1) this]
  obtain r w' where r: "run_state (wait_rollout E rollout (time_add t timeout) (Suc n)) w1 = (Some r, w')" by blast
  then have "run_state (WaitForRollout E timeout rollout (Suc n)) w = (Some r, w')"
    unfolding WaitForRollout_def by (simp add: run_bind t del: wait_rollout.simps)
  then show ?thesis
    using wait_rollout_sound r by blast
qed

lemma ticking_clock: "waiting_clock ticking_env (\<lambda>s. s)"
  by (simp add: waiting_clock_def ticking_env_def dead_env_def)

theorem WaitForRollout_ends_witness:
  "\<exists>r w'. run_state (WaitForRollout ticking_env DefaultRolloutTimeout master_rollout 122) (new_world 7) = (Some r, w')"
proof -
  have "sint DefaultRolloutTimeout < 5 * 1000000000 * int 121"
    by (simp add: DefaultRolloutTimeout_def minute_def second_def)
  from WaitForRollout_ends [OF ticking_clock this] show ?thesis by (simp del: wait_rollout.simps) blast
qed

end
