(* ===== verification/Credentials.thy ===== *)
theory Credentials
  imports KubeRetry GoTime GoCrypto Naming Labels
begin

section \<open>Rotation of the Wazuh credentials (wazuhcluster_controller.go)\<close>

text \<open>
  The controller keeps a hash of the Wazuh API credentials and one of the agent enrolment
  (authd) password in the status of the cluster. When a hash changes it asks the workloads that
  use the secret to restart, by writing the hash and the time into the annotations of their pod
  template, and then records the new hash. The functions return the cluster they change along
  with the error.
\<close>

subsection \<open>Constants\<close>

definition AnnotationRestartedAt :: string where "AnnotationRestartedAt = ''wazuh.com/restarted-at''"
definition AnnotationRollingRestartTriggered :: string where
  "AnnotationRollingRestartTriggered = ''wazuh.com/rolling-restart-triggered''"
definition apiCredentialRecoveryHashAnnotation :: string where
  "apiCredentialRecoveryHashAnnotation = ''wazuh.com/api-credential-recovery-hash''"
definition authdCredentialRecoveryHashAnnotation :: string where
  "authdCredentialRecoveryHashAnnotation = ''wazuh.com/authd-credential-recovery-hash''"
definition SecretKeyAPIUsername :: string where "SecretKeyAPIUsername = ''api-username''"
definition SecretKeyAPIPassword :: string where "SecretKeyAPIPassword = ''api-password''"

subsection \<open>Asking a workload to restart\<close>

definition restart_annotations :: "string \<Rightarrow> string \<Rightarrow> string \<Rightarrow> labels \<Rightarrow> labels" where
  "restart_annotations stamp hashAnnotationKey hash ls =
     label_set (label_set (label_set ls AnnotationRestartedAt stamp) AnnotationRollingRestartTriggered ''true'') hashAnnotationKey hash"

definition restart_sts_once :: "'s env \<Rightarrow> string \<Rightarrow> string \<Rightarrow> string \<Rightarrow> string \<Rightarrow> ('s, unit result) io" where
  "restart_sts_once E namespace name hashAnnotationKey hash = try_io (get_sts E namespace name) id (\<lambda>sts.
     if sts_SpecReplicas sts = Some 0 then ret (Inr ())
     else if label_get (sts_TemplateAnnotations sts) hashAnnotationKey = hash then ret (Inr ())
     else do {
       now \<leftarrow> time_now E;
       update_sts E (sts\<lparr>sts_TemplateAnnotations :=
         restart_annotations (format_RFC3339 (e_utc_offset E now) now) hashAnnotationKey hash (sts_TemplateAnnotations sts)\<rparr>) })"

definition triggerStatefulSetRestartWithHash ::
    "'s env \<Rightarrow> (f64 \<Rightarrow> i64) \<Rightarrow> string \<Rightarrow> string \<Rightarrow> string \<Rightarrow> string \<Rightarrow> ('s, unit result) io" where
  "triggerStatefulSetRestartWithHash E oor namespace name hashAnnotationKey hash =
     RetryOnConflict E oor (restart_sts_once E namespace name hashAnnotationKey hash)"

definition restart_deployment_once :: "'s env \<Rightarrow> string \<Rightarrow> string \<Rightarrow> string \<Rightarrow> string \<Rightarrow> ('s, unit result) io" where
  "restart_deployment_once E namespace name hashAnnotationKey hash = try_io (get_deployment E namespace name) id (\<lambda>dep.
     if dep_SpecReplicas dep = Some 0 then ret (Inr ())
     else if label_get (dep_TemplateAnnotations dep) hashAnnotationKey = hash then ret (Inr ())
     else do {
       now \<leftarrow> time_now E;
       update_deployment E (dep\<lparr>dep_TemplateAnnotations :=
         restart_annotations (format_RFC3339 (e_utc_offset E now) now) hashAnnotationKey hash (dep_TemplateAnnotations dep)\<rparr>) })"

definition triggerDeploymentRestartWithHash ::
    "'s env \<Rightarrow> (f64 \<Rightarrow> i64) \<Rightarrow> string \<Rightarrow> string \<Rightarrow> string \<Rightarrow> string \<Rightarrow> ('s, unit result) io" where
  "triggerDeploymentRestartWithHash E oor namespace name hashAnnotationKey hash =
     RetryOnConflict E oor (restart_deployment_once E namespace name hashAnnotationKey hash)"

subsection \<open>The API credentials\<close>

definition resolveAPICredentialsRef :: "WazuhCluster \<Rightarrow> string \<times> string \<times> string" where
  "resolveAPICredentialsRef cluster =
     (case wc_Manager cluster of
        None \<Rightarrow> (APICredentialsName (wc_Name cluster), SecretKeyAPIUsername, SecretKeyAPIPassword)
      | Some m \<Rightarrow> (case mcs_APICredentials m of
          None \<Rightarrow> (APICredentialsName (wc_Name cluster), SecretKeyAPIUsername, SecretKeyAPIPassword)
        | Some ref \<Rightarrow>
            let customSecret = GetSecretName (Some ref);
                (name, u, p) = (if customSecret \<noteq> [] then (customSecret, ''username'', ''password'')
                  else (APICredentialsName (wc_Name cluster), SecretKeyAPIUsername, SecretKeyAPIPassword))
            in (name, if csr_UsernameKey ref \<noteq> [] then csr_UsernameKey ref else u,
                if csr_PasswordKey ref \<noteq> [] then csr_PasswordKey ref else p)))"

definition computeAPICredentialsHash :: "'s env \<Rightarrow> WazuhCluster \<Rightarrow> ('s, string result) io" where
  "computeAPICredentialsHash E cluster = (case resolveAPICredentialsRef cluster of (secretName, usernameKey, passwordKey) \<Rightarrow>
     try_io (get_secret E (wc_Namespace cluster) secretName) id (\<lambda>secret.
       let username = label_get secret usernameKey; password = label_get secret passwordKey in
       ret (Inr (if username = [] \<and> password = [] then [] else HashStrings [username, password]))))"

text \<open>\<open>if err := trigger; err != nil && !errors.IsNotFound(err)\<close>, then the rest.\<close>

definition after_trigger :: "('s, unit result) io \<Rightarrow> string \<Rightarrow> WazuhCluster \<Rightarrow> ('s, WazuhCluster \<times> gerror option) io \<Rightarrow>
    ('s, WazuhCluster \<times> gerror option) io" where
  "after_trigger trigger msg cluster rest = do {
     r \<leftarrow> trigger;
     case r of
       Inl err \<Rightarrow> if IsNotFound err then rest else ret (cluster, Some (wrapf msg err))
     | Inr u \<Rightarrow> rest }"

definition security_of :: "WazuhCluster \<Rightarrow> SecurityStatus" where
  "security_of cluster = (case wc_stSecurity cluster of Some s \<Rightarrow> s | None \<Rightarrow> \<lparr>sec_APICredentialsHash = [], sec_AuthdCredentialsHash = []\<rparr>)"

definition with_api_hash :: "WazuhCluster \<Rightarrow> string \<Rightarrow> WazuhCluster" where
  "with_api_hash cluster h = cluster\<lparr>wc_stSecurity := Some ((security_of cluster)\<lparr>sec_APICredentialsHash := h\<rparr>)\<rparr>"

definition with_authd_hash :: "WazuhCluster \<Rightarrow> string \<Rightarrow> WazuhCluster" where
  "with_authd_hash cluster h = cluster\<lparr>wc_stSecurity := Some ((security_of cluster)\<lparr>sec_AuthdCredentialsHash := h\<rparr>)\<rparr>"

definition restart_for_api :: "'s env \<Rightarrow> (f64 \<Rightarrow> i64) \<Rightarrow> WazuhCluster \<Rightarrow> string \<Rightarrow> ('s, WazuhCluster \<times> gerror option) io" where
  "restart_for_api E oor cluster newHash =
     after_trigger (triggerStatefulSetRestartWithHash E oor (wc_Namespace cluster) (ManagerMasterName (wc_Name cluster))
         apiCredentialRecoveryHashAnnotation newHash)
       ''failed to restart manager master after API credentials change: '' cluster
     (after_trigger (triggerStatefulSetRestartWithHash E oor (wc_Namespace cluster) (ManagerWorkerName (wc_Name cluster))
         apiCredentialRecoveryHashAnnotation newHash)
       ''failed to restart manager workers after API credentials change: '' cluster
     (after_trigger (triggerDeploymentRestartWithHash E oor (wc_Namespace cluster) (DashboardName (wc_Name cluster))
         apiCredentialRecoveryHashAnnotation newHash)
       ''failed to restart dashboard after API credentials change: '' cluster
     (ret (with_api_hash cluster newHash, None))))"

definition reconcileAPICredentialsStatusAndRollout :: "'s env \<Rightarrow> (f64 \<Rightarrow> i64) \<Rightarrow> WazuhCluster \<Rightarrow> ('s, WazuhCluster \<times> gerror option) io" where
  "reconcileAPICredentialsStatusAndRollout E oor cluster =
     (if wc_Manager cluster = None then ret (cluster, None)
      else do {
        h \<leftarrow> computeAPICredentialsHash E cluster;
        case h of
          Inl err \<Rightarrow> ret (cluster, if IsNotFound err then None
            else Some (wrapf ''failed to compute Wazuh API credentials hash: '' err))
        | Inr newHash \<Rightarrow>
            if newHash = [] then ret (cluster, None)
            else let cluster = cluster\<lparr>wc_stSecurity := Some (security_of cluster)\<rparr>;
                     oldHash = sec_APICredentialsHash (security_of cluster) in
              if oldHash = newHash then ret (cluster, None)
              else if oldHash = [] then ret (with_api_hash cluster newHash, None)
              else restart_for_api E oor cluster newHash })"

subsection \<open>The authd password\<close>

definition defaultAuthdSecretKey :: "string \<Rightarrow> string" where
  "defaultAuthdSecretKey secretName =
     (if length secretName \<ge> length ''-authd-pass'' \<and> drop (length secretName - length ''-authd-pass'') secretName = ''-authd-pass''
      then ''authd.pass'' else ''password'')"

definition or_else :: "'a option \<Rightarrow> 'a \<Rightarrow> 'a" where
  "or_else opt fallback = (case opt of Some x \<Rightarrow> x | None \<Rightarrow> fallback)"

text \<open>The secret and its key, whether only the master enrols agents, and whether a password is in use.\<close>

definition resolveAuthdCredentialsRef :: "WazuhCluster \<Rightarrow> string \<times> string \<times> bool \<times> bool" where
  "resolveAuthdCredentialsRef cluster = (case wc_Manager cluster of
     None \<Rightarrow> ([], [], True, False)
   | Some m \<Rightarrow>
      let (disabled, usePassword, masterOnly, secretName, passwordKey) = (case mcs_Auth m of
              None \<Rightarrow> (False, False, True, [], [])
            | Some auth \<Rightarrow> (or_else (auth_Disabled auth) False, or_else (auth_UsePassword auth) False,
                or_else (auth_EnabledOnMasterOnly auth) True,
                fst (or_else (auth_PasswordSecretRef auth) ([], [])), snd (or_else (auth_PasswordSecretRef auth) ([], []))));
          (usePassword, secretName, passwordKey) = (case mcs_AuthdPasswordSecretRef m of
              Some (n, k) \<Rightarrow> if secretName = [] then (True, n, k) else (usePassword, secretName, passwordKey)
            | None \<Rightarrow> (usePassword, secretName, passwordKey));
          passwordKey = (if passwordKey = [] then defaultAuthdSecretKey secretName else passwordKey)
      in if disabled \<or> \<not> usePassword \<or> secretName = [] then ([], [], masterOnly, False)
         else (secretName, passwordKey, masterOnly, True))"

definition computeAuthdCredentialsHash :: "'s env \<Rightarrow> WazuhCluster \<Rightarrow> ('s, (string \<times> bool \<times> bool) result) io" where
  "computeAuthdCredentialsHash E cluster = (case resolveAuthdCredentialsRef cluster of (secretName, passwordKey, masterOnly, configured) \<Rightarrow>
     if \<not> configured then ret (Inr ([], masterOnly, False))
     else try_io (get_secret E (wc_Namespace cluster) secretName) id (\<lambda>secret.
       let password = label_get secret passwordKey;
           altKey = (if passwordKey = ''password'' then ''authd.pass'' else ''password'');
           password = (if password = [] then label_get secret altKey else password)
       in ret (Inr (if password = [] then [] else HashStrings [password], masterOnly, True))))"

definition restart_for_authd :: "'s env \<Rightarrow> (f64 \<Rightarrow> i64) \<Rightarrow> WazuhCluster \<Rightarrow> bool \<Rightarrow> string \<Rightarrow> ('s, WazuhCluster \<times> gerror option) io" where
  "restart_for_authd E oor cluster masterOnly newHash =
     after_trigger (triggerStatefulSetRestartWithHash E oor (wc_Namespace cluster) (ManagerMasterName (wc_Name cluster))
         authdCredentialRecoveryHashAnnotation newHash)
       ''failed to restart manager master after authd password change: '' cluster
     (if masterOnly then ret (with_authd_hash cluster newHash, None)
      else after_trigger (triggerStatefulSetRestartWithHash E oor (wc_Namespace cluster) (ManagerWorkerName (wc_Name cluster))
         authdCredentialRecoveryHashAnnotation newHash)
       ''failed to restart manager workers after authd password change: '' cluster
       (ret (with_authd_hash cluster newHash, None)))"

definition reconcileAuthdCredentialsStatusAndRollout :: "'s env \<Rightarrow> (f64 \<Rightarrow> i64) \<Rightarrow> WazuhCluster \<Rightarrow> ('s, WazuhCluster \<times> gerror option) io" where
  "reconcileAuthdCredentialsStatusAndRollout E oor cluster =
     (if wc_Manager cluster = None then ret (cluster, None)
      else do {
        h \<leftarrow> computeAuthdCredentialsHash E cluster;
        case h of
          Inl err \<Rightarrow> ret (cluster, if IsNotFound err then None
            else Some (wrapf ''failed to compute authd credentials hash: '' err))
        | Inr (newHash, masterOnly, configured) \<Rightarrow>
            let cluster = cluster\<lparr>wc_stSecurity := Some (security_of cluster)\<rparr>;
                oldHash = sec_AuthdCredentialsHash (security_of cluster) in
            if \<not> configured \<or> newHash = [] then
              ret (if oldHash \<noteq> [] then with_authd_hash cluster [] else cluster, None)
            else if oldHash = newHash then ret (cluster, None)
            else if oldHash = [] then ret (with_authd_hash cluster newHash, None)
            else restart_for_authd E oor cluster masterOnly newHash })"

subsection \<open>Lemmas\<close>

text \<open>A call that is retried on conflicts and returns a value returned it in its last attempt.\<close>

lemma retried_own: "retried E fn ok k w r own w' \<Longrightarrow> own \<Longrightarrow> \<exists>w1. run_state fn w1 = (r, w')"
  by (induction rule: retried.induct) auto

lemma RetryOnConflict_ok:
  assumes "run_state (RetryOnConflict E oor fn) w = (Inr u, w')"
  shows "\<exists>w1. run_state fn w1 = (Inr u, w')"
proof -
  obtain k own a where a: "retried E fn IsRetryableKubernetesError k w a own w'"
      "case a of Inl err \<Rightarrow> if own \<and> IsRetryableKubernetesError err
       then k = 4 \<and> Inr u = Inl (max_retries_exceeded ConflictRetryConfig err) else Inr u = a | Inr x \<Rightarrow> Inr u = a"
    using RetryOnConflict_run [OF assms] by blast
  have "a = Inr u" using a(2) by (cases a) (auto split: if_splits)
  moreover from a(1) this have own by (induction rule: retried.induct) auto
  ultimately show ?thesis using retried_own [OF a(1)] by blast
qed

text \<open>What the last attempt found or did.\<close>

definition sts_asked :: "'s env \<Rightarrow> string \<Rightarrow> string \<Rightarrow> string \<Rightarrow> string \<Rightarrow> 's world \<Rightarrow> bool" where
  "sts_asked E ns name key hash w' \<longleftrightarrow> (\<exists>w1 sts w2. run_state (get_sts E ns name) w1 = (Inr sts, w2) \<and>
     (sts_SpecReplicas sts = Some 0 \<or> label_get (sts_TemplateAnnotations sts) key = hash \<or>
      (\<exists>stamp. EUpdateSts (sts\<lparr>sts_TemplateAnnotations := restart_annotations stamp key hash (sts_TemplateAnnotations sts)\<rparr>) \<in> set (w_log w'))))"

definition deployment_asked :: "'s env \<Rightarrow> string \<Rightarrow> string \<Rightarrow> string \<Rightarrow> string \<Rightarrow> 's world \<Rightarrow> bool" where
  "deployment_asked E ns name key hash w' \<longleftrightarrow> (\<exists>w1 dep w2. run_state (get_deployment E ns name) w1 = (Inr dep, w2) \<and>
     (dep_SpecReplicas dep = Some 0 \<or> label_get (dep_TemplateAnnotations dep) key = hash \<or>
      (\<exists>stamp. EUpdateDeployment (dep\<lparr>dep_TemplateAnnotations := restart_annotations stamp key hash (dep_TemplateAnnotations dep)\<rparr>) \<in> set (w_log w'))))"

lemma restart_sts_once_ok:
  assumes run: "run_state (restart_sts_once E ns name key hash) w = (Inr u, w')"
  shows "sts_asked E ns name key hash w'"
proof -
  obtain g w1 where g: "run_state (get_sts E ns name) w = (g, w1)" by fastforce
  then obtain sts where sts: "g = Inr sts"
    using run by (cases g) (simp_all add: restart_sts_once_def run_try)
  note body = run [unfolded restart_sts_once_def run_try g prod.case sts sum.case]
  show ?thesis
    using body g unfolding sts_asked_def sts
    by (intro exI [of _ w] exI [of _ sts] exI [of _ w1])
       (auto simp: time_now_def update_sts_def run_io split: if_splits prod.splits)
qed

lemma restart_deployment_once_ok:
  assumes run: "run_state (restart_deployment_once E ns name key hash) w = (Inr u, w')"
  shows "deployment_asked E ns name key hash w'"
proof -
  obtain g w1 where g: "run_state (get_deployment E ns name) w = (g, w1)" by fastforce
  then obtain dep where dep: "g = Inr dep"
    using run by (cases g) (simp_all add: restart_deployment_once_def run_try)
  note body = run [unfolded restart_deployment_once_def run_try g prod.case dep sum.case]
  show ?thesis
    using body g unfolding deployment_asked_def dep
    by (intro exI [of _ w] exI [of _ dep] exI [of _ w1])
       (auto simp: time_now_def update_deployment_def run_io split: if_splits prod.splits)
qed

lemma trigger_logs [logs]:
  "logs_only (\<lambda>_. True) (triggerStatefulSetRestartWithHash E oor ns name key hash)"
  "logs_only (\<lambda>_. True) (triggerDeploymentRestartWithHash E oor ns name key hash)"
  unfolding triggerStatefulSetRestartWithHash_def triggerDeploymentRestartWithHash_def RetryOnConflict_def
    RetryOnConflictWithConfig_def restart_sts_once_def restart_deployment_once_def prim_defs time_now_def
  by (intro logs retry_silent logs_if; simp)+

text \<open>A workload is settled when it was asked to restart, or when the API server has no such workload.\<close>

definition sts_settled :: "'s env \<Rightarrow> (f64 \<Rightarrow> i64) \<Rightarrow> string \<Rightarrow> string \<Rightarrow> string \<Rightarrow> string \<Rightarrow> 's world \<Rightarrow> bool" where
  "sts_settled E oor ns name key hash w' \<longleftrightarrow> sts_asked E ns name key hash w' \<or>
     (\<exists>w1 err w2. run_state (triggerStatefulSetRestartWithHash E oor ns name key hash) w1 = (Inl err, w2) \<and> IsNotFound err)"

definition deployment_settled :: "'s env \<Rightarrow> (f64 \<Rightarrow> i64) \<Rightarrow> string \<Rightarrow> string \<Rightarrow> string \<Rightarrow> string \<Rightarrow> 's world \<Rightarrow> bool" where
  "deployment_settled E oor ns name key hash w' \<longleftrightarrow> deployment_asked E ns name key hash w' \<or>
     (\<exists>w1 err w2. run_state (triggerDeploymentRestartWithHash E oor ns name key hash) w1 = (Inl err, w2) \<and> IsNotFound err)"

lemma settled_mono:
  "set (w_log w1) \<subseteq> set (w_log w2) \<Longrightarrow> sts_settled E oor ns name key hash w1 \<Longrightarrow> sts_settled E oor ns name key hash w2"
  unfolding sts_settled_def sts_asked_def by blast

lemma trigger_settles:
  "run_state (triggerStatefulSetRestartWithHash E oor ns name key hash) w = (r, w') \<Longrightarrow> r = Inr () \<or> (\<exists>err. r = Inl err \<and> IsNotFound err) \<Longrightarrow>
    sts_settled E oor ns name key hash w'"
  "run_state (triggerDeploymentRestartWithHash E oor ns name key hash) w = (r, w') \<Longrightarrow> r = Inr () \<or> (\<exists>err. r = Inl err \<and> IsNotFound err) \<Longrightarrow>
    deployment_settled E oor ns name key hash w'"
  unfolding sts_settled_def deployment_settled_def
  by (metis RetryOnConflict_ok restart_sts_once_ok triggerStatefulSetRestartWithHash_def,
      metis RetryOnConflict_ok restart_deployment_once_ok triggerDeploymentRestartWithHash_def)

lemma log_grows: "logs_only P m \<Longrightarrow> run_state m w = (a, w') \<Longrightarrow> set (w_log w) \<subseteq> set (w_log w')"
  by (erule (1) logs_onlyD) simp

lemma after_trigger_run:
  assumes "run_state (after_trigger t msg cluster rest) w = ((cluster', err), w')"
  obtains r w1 where "run_state t w = (r, w1)" and "r = Inr () \<or> (\<exists>e. r = Inl e \<and> IsNotFound e)"
      and "run_state rest w1 = ((cluster', err), w')"
    | "cluster' = cluster" and "err \<noteq> None"
proof -
  obtain r w1 where r: "run_state t w = (r, w1)" by fastforce
  then show ?thesis
    using assms that by (cases r) (auto simp: after_trigger_def run_bind run_ret split: if_splits)
qed

lemma restart_for_api_run:
  assumes "run_state (restart_for_api E oor cluster h) w = ((cluster', err), w')"
  shows "(cluster' = cluster \<and> err \<noteq> None) \<or>
    (cluster' = with_api_hash cluster h \<and> err = None \<and>
     sts_settled E oor (wc_Namespace cluster) (ManagerMasterName (wc_Name cluster)) apiCredentialRecoveryHashAnnotation h w' \<and>
     sts_settled E oor (wc_Namespace cluster) (ManagerWorkerName (wc_Name cluster)) apiCredentialRecoveryHashAnnotation h w' \<and>
     deployment_settled E oor (wc_Namespace cluster) (DashboardName (wc_Name cluster)) apiCredentialRecoveryHashAnnotation h w')"
  using assms unfolding restart_for_api_def
proof (cases rule: after_trigger_run)
  case (1 r1 w1)
  note first = 1
  from 1(3) show ?thesis
  proof (cases rule: after_trigger_run)
    case (1 r2 w2)
    note second = 1
    from 1(3) show ?thesis
    proof (cases rule: after_trigger_run)
      case (1 r3 w3)
      then have w3: "w3 = w'" and body: "cluster' = with_api_hash cluster h" "err = None" by (simp_all add: run_ret)
      show ?thesis
        using settled_mono [OF _ trigger_settles(1) [OF first(1,2)]] settled_mono [OF _ trigger_settles(1) [OF second(1,2)]]
          trigger_settles(2) [OF 1(1,2)] log_grows [OF trigger_logs(1) second(1)] log_grows [OF trigger_logs(2) 1(1)] body
        unfolding w3 by blast
    qed simp
  qed simp
qed simp

abbreviation api_hash :: "WazuhCluster \<Rightarrow> string" where
  "api_hash cluster \<equiv> sec_APICredentialsHash (security_of cluster)"

lemma security_simps [simp]:
  "security_of (with_api_hash cluster h) = (security_of cluster)\<lparr>sec_APICredentialsHash := h\<rparr>"
  "security_of (cluster\<lparr>wc_stSecurity := Some st\<rparr>) = st"
  "wc_Namespace (with_api_hash cluster h) = wc_Namespace cluster" "wc_Name (with_api_hash cluster h) = wc_Name cluster"
  by (simp_all add: security_of_def with_api_hash_def)

lemma api_rotation_run:
  assumes run: "run_state (reconcileAPICredentialsStatusAndRollout E oor cluster) w = ((cluster', err), w')"
    and old: "api_hash cluster \<noteq> []"
  shows "api_hash cluster' = api_hash cluster \<or> (err = None \<and>
    (\<exists>h. api_hash cluster' = h \<and>
     sts_settled E oor (wc_Namespace cluster) (ManagerMasterName (wc_Name cluster)) apiCredentialRecoveryHashAnnotation h w' \<and>
     sts_settled E oor (wc_Namespace cluster) (ManagerWorkerName (wc_Name cluster)) apiCredentialRecoveryHashAnnotation h w' \<and>
     deployment_settled E oor (wc_Namespace cluster) (DashboardName (wc_Name cluster)) apiCredentialRecoveryHashAnnotation h w'))"
proof (cases "wc_Manager cluster = None")
  case True
  then show ?thesis using run by (simp add: reconcileAPICredentialsStatusAndRollout_def run_ret)
next
  case False
  obtain h w1 where h: "run_state (computeAPICredentialsHash E cluster) w = (h, w1)" by fastforce
  note body = run [unfolded reconcileAPICredentialsStatusAndRollout_def if_not_P [OF False] run_bind h prod.case]
  show ?thesis
  proof (cases "\<exists>n. h = Inr n \<and> n \<noteq> [] \<and> n \<noteq> api_hash cluster")
    case True
    then obtain n where n: "h = Inr n" "n \<noteq> []" "n \<noteq> api_hash cluster" by blast
    let ?c = "cluster\<lparr>wc_stSecurity := Some (security_of cluster)\<rparr>"
    have "run_state (restart_for_api E oor ?c n) w1 = ((cluster', err), w')"
      using body n old by (simp add: Let_def)
    from restart_for_api_run [OF this] show ?thesis by auto
  next
    case same: False
    then show ?thesis using body by (cases h) (auto simp: run_ret Let_def split: if_splits)
  qed
qed

subsection \<open>Properties\<close>


lemma HashStrings_nonempty: "HashStrings ss \<noteq> []" "HashStrings ss \<noteq> [c]"
  using length_HashString [of "join_lines ss"] by (auto simp: HashStrings_def)

definition rotating_env :: "unit env" where
  "rotating_env = dead_env\<lparr>e_get_secret := \<lambda>ns n s. (Inr [(SecretKeyAPIUsername, ''u'')], s)\<rparr>"

definition rotating_cluster :: WazuhCluster where
  "rotating_cluster = empty_cluster\<lparr>wc_Manager := Some (plain_manager None),
     wc_stSecurity := Some \<lparr>sec_APICredentialsHash = ''h'', sec_AuthdCredentialsHash = []\<rparr>\<rparr>"

lemma not_found_trigger:
  assumes "\<And>w. run_state fn w = (Inl not_found, w)"
  shows "run_state (RetryOnConflict E oor fn) w = (Inl not_found, w)"
proof -
  have "\<not> IsRetryableKubernetesError not_found" by (simp add: IsRetryableKubernetesError_def not_found_def)
  then show ?thesis
    unfolding RetryOnConflict_def RetryOnConflictWithConfig_def if_not_P [OF conflict_attempts(2)] conflict_attempts(1)
    by (simp add: retry_loop.simps [of _ _ _ _ _ _ 3] run_bind run_ret assms)
qed

lemma rotating_triggers:
  "run_state (triggerStatefulSetRestartWithHash rotating_env oor ns name key hash) w = (Inl not_found, w)"
  "run_state (triggerDeploymentRestartWithHash rotating_env oor ns name key hash) w = (Inl not_found, w)"
  unfolding triggerStatefulSetRestartWithHash_def triggerDeploymentRestartWithHash_def
  by (rule not_found_trigger, simp add: restart_sts_once_def restart_deployment_once_def get_sts_def get_deployment_def
      rotating_env_def dead_env_def run_io)+


end
