(* ===== verification/ClusterStatus.thy ===== *)
theory ClusterStatus
  imports KubeRetry Naming
begin

section \<open>Conditions, status and deletion of a cluster (wazuhcluster_controller.go)\<close>

text \<open>
  The status conditions, the summary of the components that ends a reconciliation, the smaller
  status writes on the way, and the finalizer. \<open>updateCondition\<close> works on values: the code
  lets the fetched object share the array of conditions with the working copy, so in an attempt
  that is repeated after a conflict a transition time may be that of the attempt before; nothing
  here depends on it. The gauges the code sets and the collection of agent metrics it starts in
  the background change no object of the API server and are left out.
\<close>

subsection \<open>Phases and status of the components\<close>

definition phase_of :: "i32 \<Rightarrow> i32 \<Rightarrow> i32 \<Rightarrow> string" where
  "phase_of ready updated replicas =
     (if ready = 0 then ''Starting'' else if sint ready < sint replicas then ''Degraded''
      else if sint updated < sint replicas then ''Scaling'' else ''Ready'')"

definition getStatefulSetPhase :: "StatefulSet \<Rightarrow> string" where
  "getStatefulSetPhase sts = phase_of (sts_ReadyReplicas sts) (sts_UpdatedReplicas sts) (sts_Replicas sts)"

definition getDeploymentPhase :: "Deployment \<Rightarrow> string" where
  "getDeploymentPhase dep = phase_of (dep_ReadyReplicas dep) (dep_UpdatedReplicas dep) (dep_Replicas dep)"

definition component_status :: "string \<Rightarrow> i32 \<Rightarrow> i32 \<Rightarrow> i32 \<Rightarrow> ComponentStatus" where
  "component_status phase ready replicas desired = \<lparr>cst_Phase = phase, cst_ReadyReplicas = ready, cst_Replicas = replicas,
     cst_DesiredReplicas = desired, cst_TopologyMode = []\<rparr>"

text \<open>A missing object is no error but no status.\<close>

definition if_exists :: "('s, 'a result) io \<Rightarrow> ('a \<Rightarrow> ('s, 'b option result) io) \<Rightarrow> ('s, 'b option result) io" where
  "if_exists m f = do {
     r \<leftarrow> m;
     case r of Inl err \<Rightarrow> ret (if IsNotFound err then Inr None else Inl err) | Inr x \<Rightarrow> f x }"

definition Indexer_GetStatus :: "'s env \<Rightarrow> WazuhCluster \<Rightarrow> ('s, ComponentStatus option result) io" where
  "Indexer_GetStatus E cluster = if_exists (get_sts E (wc_Namespace cluster) (wc_Name cluster @ ''-indexer'')) (\<lambda>sts.
     ret (Inr (Some (component_status (getStatefulSetPhase sts) (sts_ReadyReplicas sts) (sts_Replicas sts)
       (case wc_Indexer cluster of None \<Rightarrow> 0 | Some i \<Rightarrow> ics_Replicas i)))))"

definition Dashboard_GetStatus :: "'s env \<Rightarrow> WazuhCluster \<Rightarrow> ('s, ComponentStatus option result) io" where
  "Dashboard_GetStatus E cluster = if_exists (get_deployment E (wc_Namespace cluster) (DashboardName (wc_Name cluster))) (\<lambda>dep.
     ret (Inr (Some (component_status (getDeploymentPhase dep) (dep_ReadyReplicas dep) (dep_Replicas dep)
       (case wc_Dashboard cluster of None \<Rightarrow> 0 | Some d \<Rightarrow> dcs_Replicas d)))))"

definition GetManagerStatus :: "'s env \<Rightarrow> WazuhCluster \<Rightarrow> ('s, ComponentStatus option result) io" where
  "GetManagerStatus E cluster = if_exists (get_sts E (wc_Namespace cluster) (wc_Name cluster @ ''-manager-master'')) (\<lambda>master. do {
     w \<leftarrow> get_sts E (wc_Namespace cluster) (wc_Name cluster @ ''-manager-worker'');
     let (workerReady, workerTotal) = (case w of Inl err \<Rightarrow> (0, 0) | Inr sts \<Rightarrow> (sts_ReadyReplicas sts, sts_Replicas sts));
     ret (Inr (Some (component_status (getStatefulSetPhase master) (sts_ReadyReplicas master + workerReady)
       (sts_Replicas master + workerTotal) (Manager_GetTotalReplicas (wc_Manager cluster))))) })"

subsection \<open>Conditions\<close>

fun set_condition :: "Condition \<Rightarrow> Condition list \<Rightarrow> Condition list" where
  "set_condition condition [] = [condition]"
| "set_condition condition (c # cs) =
     (if cond_Type c = cond_Type condition
      then (if cond_Status c \<noteq> cond_Status condition then condition
            else condition\<lparr>cond_LastTransitionTime := cond_LastTransitionTime c\<rparr>) # cs
      else c # set_condition condition cs)"

definition updateCondition :: "'s env \<Rightarrow> WazuhCluster \<Rightarrow> string \<Rightarrow> bool \<Rightarrow> string \<Rightarrow> string \<Rightarrow> ('s, WazuhCluster) io" where
  "updateCondition E cluster conditionType status reason message = do {
     now \<leftarrow> time_now E;
     ret (cluster\<lparr>wc_stConditions := set_condition \<lparr>cond_Type = conditionType, cond_Status = status, cond_Reason = reason,
       cond_Message = message, cond_LastTransitionTime = now, cond_ObservedGeneration = wc_Generation cluster\<rparr>
       (wc_stConditions cluster)\<rparr>) }"

text \<open>The conditions the attempt that succeeded wrote become those of the working copy.\<close>

definition persistCondition :: "'s env \<Rightarrow> (f64 \<Rightarrow> i64) \<Rightarrow> WazuhCluster \<Rightarrow> string \<Rightarrow> string \<Rightarrow> string \<Rightarrow> ('s, WazuhCluster) io" where
  "persistCondition E oor cluster conditionType reason message = do {
     cluster \<leftarrow> updateCondition E cluster conditionType False reason message;
     r \<leftarrow> RetryOnConflictWithResult E oor (try_io (get_cluster E (wc_Namespace cluster) (wc_Name cluster)) id (\<lambda>latest. do {
       latest \<leftarrow> updateCondition E latest conditionType False reason message;
       try_io (update_cluster_status E latest) id (\<lambda>u. ret (Inr (wc_stConditions latest))) }));
     ret (case r of Inl err \<Rightarrow> cluster | Inr cs \<Rightarrow> cluster\<lparr>wc_stConditions := cs\<rparr>) }"

subsection \<open>Status writes\<close>

text \<open>The status that is taken over and whether the component counts as ready: an answer that is an error leaves both alone.\<close>

definition taken :: "ComponentStatus option result \<Rightarrow> ComponentStatus option \<Rightarrow> ComponentStatus option" where
  "taken answer old = (case answer of Inl err \<Rightarrow> old | Inr status \<Rightarrow> status)"

definition unready :: "ComponentStatus option result \<Rightarrow> bool" where
  "unready answer = (case answer of Inr (Some st) \<Rightarrow> sint (cst_ReadyReplicas st) < sint (cst_Replicas st) | _ \<Rightarrow> False)"

definition finish_phase :: "'s env \<Rightarrow> bool \<Rightarrow> WazuhCluster \<Rightarrow> ('s, WazuhCluster) io" where
  "finish_phase E allReady latest =
     (if allReady \<and> wc_stIndexer latest \<noteq> None \<and> wc_stManager latest \<noteq> None \<and> wc_stDashboard latest \<noteq> None then do {
        let latest = latest\<lparr>wc_stPhase := ''Running''\<rparr>;
        latest \<leftarrow> updateCondition E latest ''Ready'' True ''ClusterReady'' ''All components are ready'';
        updateCondition E latest ''Available'' True ''ClusterAvailable'' ''Cluster is available'' }
      else do {
        let latest = latest\<lparr>wc_stPhase := ''Creating''\<rparr>;
        updateCondition E latest ''Progressing'' True ''ComponentsStarting'' ''Waiting for components to be ready'' })"

definition status_attempt :: "'s env \<Rightarrow> WazuhCluster \<Rightarrow> ('s, unit result) io" where
  "status_attempt E cluster = try_io (get_cluster E (wc_Namespace cluster) (wc_Name cluster)) id (\<lambda>latest. do {
     i \<leftarrow> Indexer_GetStatus E cluster;
     m \<leftarrow> GetManagerStatus E cluster;
     d \<leftarrow> Dashboard_GetStatus E cluster;
     let latest = latest\<lparr>wc_stIndexer := taken i (wc_stIndexer latest), wc_stManager := taken m (wc_stManager latest),
       wc_stDashboard := taken d (wc_stDashboard latest), wc_stConditions := wc_stConditions cluster,
       wc_stCertificateRollouts := wc_stCertificateRollouts cluster, wc_stSecurity := wc_stSecurity cluster,
       wc_stDrain := wc_stDrain cluster, wc_stRollingRestart := wc_stRollingRestart cluster\<rparr>;
     latest \<leftarrow> finish_phase E (\<not> (unready i \<or> unready m \<or> unready d)) latest;
     now \<leftarrow> time_now E;
     update_cluster_status E (latest\<lparr>wc_stObservedGeneration := wc_Generation latest, wc_stLastUpdateTime := Some now\<rparr>) })"

definition updateStatus :: "'s env \<Rightarrow> (f64 \<Rightarrow> i64) \<Rightarrow> WazuhCluster \<Rightarrow> ('s, unit result) io" where
  "updateStatus E oor cluster = RetryOnConflict E oor (status_attempt E cluster)"

definition drain_status_attempt :: "'s env \<Rightarrow> WazuhCluster \<Rightarrow> ('s, unit result) io" where
  "drain_status_attempt E cluster = try_io (get_cluster E (wc_Namespace cluster) (wc_Name cluster)) id (\<lambda>latest. do {
     now \<leftarrow> time_now E;
     update_cluster_status E (latest\<lparr>wc_stDrain := wc_stDrain cluster, wc_stLastUpdateTime := Some now\<rparr>) })"

definition updateDrainStatus :: "'s env \<Rightarrow> (f64 \<Rightarrow> i64) \<Rightarrow> WazuhCluster \<Rightarrow> ('s, unit result) io" where
  "updateDrainStatus E oor cluster = RetryOnConflict E oor (drain_status_attempt E cluster)"

subsection \<open>Deletion\<close>

text \<open>\<open>ctrl.Result\<close>: whether and when the reconciliation is repeated.\<close>

record Result =
  res_Requeue :: bool
  res_RequeueAfter :: duration

definition no_requeue :: Result where "no_requeue = \<lparr>res_Requeue = False, res_RequeueAfter = 0\<rparr>"

definition wazuhClusterFinalizer :: string where "wazuhClusterFinalizer = ''resources.wazuh.com/finalizer''"

definition cleanup_targets :: "string \<Rightarrow> (string \<times> string) list" where
  "cleanup_targets name =
     map (\<lambda>x. (''StatefulSet'', name @ x)) [''-manager-master'', ''-manager-worker'', ''-indexer''] @
     [(''Deployment'', name @ ''-dashboard'')] @
     map (\<lambda>x. (''Service'', name @ x)) [''-manager-master'', ''-manager-master-headless'', ''-manager-worker'',
       ''-manager-worker-headless'', ''-indexer'', ''-indexer-headless'', ''-dashboard'', ''-agents''] @
     map (\<lambda>x. (''ConfigMap'', name @ x)) [''-manager-master-config'', ''-manager-worker-config'', ''-indexer-config'',
       ''-dashboard-config'', ''-filebeat-config''] @
     map (\<lambda>x. (''Secret'', name @ x)) [''-manager-master-certs'', ''-manager-worker-certs'', ''-indexer-certs'',
       ''-indexer-security'', ''-indexer-credentials'', ''-dashboard-certs'', ''-admin-certs'', ''-filebeat-certs'',
       ''-cluster-key'', ''-api-credentials'']"

fun delete_all :: "'s env \<Rightarrow> string \<Rightarrow> (string \<times> string) list \<Rightarrow> ('s, unit result) io" where
  "delete_all E namespace [] = ret (Inr ())"
| "delete_all E namespace ((kind, name) # rest) = do {
     r \<leftarrow> delete_object E kind namespace name;
     case r of
       Inl err \<Rightarrow> if IsNotFound err then delete_all E namespace rest
         else ret (Inl (wrapf (''failed to delete '' @ kind @ '' '' @ namespace @ ''/'' @ name @ '': '') err))
     | Inr u \<Rightarrow> delete_all E namespace rest }"

definition cleanupResources :: "'s env \<Rightarrow> WazuhCluster \<Rightarrow> ('s, unit result) io" where
  "cleanupResources E cluster = delete_all E (wc_Namespace cluster) (cleanup_targets (wc_Name cluster))"

definition handleDeletion :: "'s env \<Rightarrow> WazuhCluster \<Rightarrow> ('s, Result result) io" where
  "handleDeletion E cluster =
     (if wazuhClusterFinalizer \<notin> set (wc_Finalizers cluster) then ret (Inr no_requeue)
      else do {
        let cluster = cluster\<lparr>wc_stPhase := ''Deleting''\<rparr>;
        _ \<leftarrow> update_cluster_status E cluster;
        try_io (cleanupResources E cluster) (wrapf ''failed to cleanup resources: '') (\<lambda>u. do {
          record_event False ''Cleanup'' ''All resources cleaned up successfully'';
          try_io (update_cluster E (cluster\<lparr>wc_Finalizers := filter (\<lambda>f. f \<noteq> wazuhClusterFinalizer) (wc_Finalizers cluster)\<rparr>))
            (wrapf ''failed to remove finalizer: '') (\<lambda>u. ret (Inr no_requeue)) }) })"

subsection \<open>Lemmas on the status writes\<close>

lemma logs_bind_from:
  assumes m: "logs_only P m" and f: "\<And>a w w'. run_state m w = (a, w') \<Longrightarrow> logs_only P (f a)"
  shows "logs_only P (State_Monad.bind m f)"
  unfolding logs_only_def
proof
  fix w
  obtain a w1 where a: "run_state m w = (a, w1)" by fastforce
  obtain es where es: "w_log w1 = w_log w @ es" "list_all P es" using logs_onlyD [OF m a] .
  obtain b w2 where b: "run_state (f a) w1 = (b, w2)" by fastforce
  obtain fs where fs: "w_log w2 = w_log w1 @ fs" "list_all P fs" using logs_onlyD [OF f [OF a] b] .
  show "\<exists>es. w_log (snd (run_state (State_Monad.bind m f) w)) = w_log w @ es \<and> list_all P es"
    using a b es fs by (intro exI [of _ "es @ fs"]) (simp add: run_bind)
qed

lemma logs_try_from:
  assumes "logs_only P m" and "\<And>a w w'. run_state m w = (Inr a, w') \<Longrightarrow> logs_only P (f a)"
  shows "logs_only P (try_io m wrap f)"
  unfolding try_io_def using assms by (intro logs_bind_from) (auto simp: logs_ret split: sum.split)

lemma GetStatus_silent [logs]:
  "logs_only P (Indexer_GetStatus E cluster)" "logs_only P (GetManagerStatus E cluster)" "logs_only P (Dashboard_GetStatus E cluster)"
  unfolding Indexer_GetStatus_def GetManagerStatus_def Dashboard_GetStatus_def if_exists_def get_sts_def get_deployment_def Let_def
  by (intro logs logs_case; simp add: logs_ret split: prod.split)+

lemma updateCondition_silent [logs]: "logs_only P (updateCondition E cluster t s r msg)"
  unfolding updateCondition_def time_now_def by (intro logs)

lemma updateCondition_fields:
  "run_state (updateCondition E cluster t s r msg) w = (cluster', w') \<Longrightarrow> cluster' = cluster\<lparr>wc_stConditions := wc_stConditions cluster'\<rparr>"
  by (auto simp: updateCondition_def time_now_def run_io split: prod.splits)

definition all_present :: "WazuhCluster \<Rightarrow> bool" where
  "all_present c \<longleftrightarrow> wc_stIndexer c \<noteq> None \<and> wc_stManager c \<noteq> None \<and> wc_stDashboard c \<noteq> None"

lemma finish_phase_silent [logs]: "logs_only P (finish_phase E ready latest)"
  unfolding finish_phase_def Let_def by (intro logs logs_if)

lemma finish_phase_fields:
  assumes "run_state (finish_phase E ready latest) w = (c, w')"
  shows "c = latest\<lparr>wc_stPhase := (if ready \<and> all_present latest then ''Running'' else ''Creating''), wc_stConditions := wc_stConditions c\<rparr>"
proof (cases "ready \<and> all_present latest")
  case True
  note body = assms [unfolded finish_phase_def if_P [OF True [unfolded all_present_def]] Let_def run_bind]
  obtain c1 w1 where c1: "run_state (updateCondition E (latest\<lparr>wc_stPhase := ''Running''\<rparr>) ''Ready'' True ''ClusterReady'' ''All components are ready'') w = (c1, w1)"
    by (metis surj_pair)
  note c2 = body [unfolded c1 prod.case]
  show ?thesis unfolding if_P [OF True] using updateCondition_fields [OF c1] updateCondition_fields [OF c2]
    by (metis (no_types, lifting) WazuhCluster.select_convs(17) WazuhCluster.surjective WazuhCluster.update_convs(17))
next
  case False
  note body = assms [unfolded finish_phase_def if_not_P [OF False [unfolded all_present_def]] Let_def]
  show ?thesis unfolding if_not_P [OF False] using updateCondition_fields [OF body]
    by (metis (no_types, lifting) WazuhCluster.select_convs(17) WazuhCluster.surjective WazuhCluster.update_convs(17))
qed

text \<open>
  What one write of \<open>updateStatus\<close> says: \<open>latest\<close> is the object it fetched, and \<open>i\<close>, \<open>m\<close> and
  \<open>d\<close> are the answers about the three components.
\<close>

definition status_written :: "WazuhCluster \<Rightarrow> WazuhCluster \<Rightarrow> ComponentStatus option result \<Rightarrow> ComponentStatus option result \<Rightarrow>
    ComponentStatus option result \<Rightarrow> WazuhCluster \<Rightarrow> bool" where
  "status_written cluster latest i m d c \<longleftrightarrow>
     (let present = taken i (wc_stIndexer latest) \<noteq> None \<and> taken m (wc_stManager latest) \<noteq> None \<and> taken d (wc_stDashboard latest) \<noteq> None;
          ready = (\<not> unready i \<and> \<not> unready m \<and> \<not> unready d) in
      c = latest\<lparr>wc_stIndexer := taken i (wc_stIndexer latest), wc_stManager := taken m (wc_stManager latest),
        wc_stDashboard := taken d (wc_stDashboard latest), wc_stCertificateRollouts := wc_stCertificateRollouts cluster,
        wc_stSecurity := wc_stSecurity cluster, wc_stDrain := wc_stDrain cluster, wc_stRollingRestart := wc_stRollingRestart cluster,
        wc_stPhase := (if ready \<and> present then ''Running'' else ''Creating''), wc_stConditions := wc_stConditions c,
        wc_stObservedGeneration := wc_Generation latest, wc_stLastUpdateTime := wc_stLastUpdateTime c\<rparr>)"

definition answers :: "('s, 'a) io \<Rightarrow> 'a \<Rightarrow> bool" where
  "answers m a \<longleftrightarrow> (\<exists>w w'. run_state m w = (a, w'))"

definition writes_status :: "'s env \<Rightarrow> WazuhCluster \<Rightarrow> effect \<Rightarrow> bool" where
  "writes_status E cluster e \<longleftrightarrow> (\<exists>latest i m d c. e = EUpdateStatus c \<and> status_written cluster latest i m d c \<and>
     answers (get_cluster E (wc_Namespace cluster) (wc_Name cluster)) (Inr latest) \<and>
     answers (Indexer_GetStatus E cluster) i \<and> answers (GetManagerStatus E cluster) m \<and> answers (Dashboard_GetStatus E cluster) d)"

lemma logs_update_status: "P (EUpdateStatus c) \<Longrightarrow> logs_only P (update_cluster_status E c)"
  unfolding update_cluster_status_def by (intro logs)

lemma status_written_phase:
  assumes "run_state (finish_phase E (\<not> (unready i \<or> unready m \<or> unready d))
      (latest\<lparr>wc_stIndexer := taken i (wc_stIndexer latest), wc_stManager := taken m (wc_stManager latest),
       wc_stDashboard := taken d (wc_stDashboard latest), wc_stConditions := wc_stConditions cluster,
       wc_stCertificateRollouts := wc_stCertificateRollouts cluster, wc_stSecurity := wc_stSecurity cluster,
       wc_stDrain := wc_stDrain cluster, wc_stRollingRestart := wc_stRollingRestart cluster\<rparr>)) w = (c, w')"
  shows "status_written cluster latest i m d (c\<lparr>wc_stObservedGeneration := wc_Generation c, wc_stLastUpdateTime := Some now\<rparr>)"
  unfolding status_written_def Let_def
  by (subst (1 2) finish_phase_fields [OF assms]) (simp add: all_present_def)

lemma status_attempt_writes: "logs_only (writes_status E cluster) (status_attempt E cluster)"
  unfolding status_attempt_def Let_def
proof (rule logs_try_from)
  fix latest w w'
  assume "run_state (get_cluster E (wc_Namespace cluster) (wc_Name cluster)) w = (Inr latest, w')"
  then have l: "answers (get_cluster E (wc_Namespace cluster) (wc_Name cluster)) (Inr latest)"
    unfolding answers_def by blast
  show "logs_only (writes_status E cluster) (do {
     i \<leftarrow> Indexer_GetStatus E cluster; m \<leftarrow> GetManagerStatus E cluster; d \<leftarrow> Dashboard_GetStatus E cluster;
     latest \<leftarrow> finish_phase E (\<not> (unready i \<or> unready m \<or> unready d)) (latest\<lparr>wc_stIndexer := taken i (wc_stIndexer latest),
       wc_stManager := taken m (wc_stManager latest), wc_stDashboard := taken d (wc_stDashboard latest), wc_stConditions := wc_stConditions cluster,
       wc_stCertificateRollouts := wc_stCertificateRollouts cluster, wc_stSecurity := wc_stSecurity cluster,
       wc_stDrain := wc_stDrain cluster, wc_stRollingRestart := wc_stRollingRestart cluster\<rparr>);
     now \<leftarrow> time_now E;
     update_cluster_status E (latest\<lparr>wc_stObservedGeneration := wc_Generation latest, wc_stLastUpdateTime := Some now\<rparr>) })"
  proof (intro logs_bind_from GetStatus_silent finish_phase_silent logs_update_status)
    fix i m d c now w1 w2 w3 w4 w5 w6 w7 w8 w9 w10
    assume "run_state (Indexer_GetStatus E cluster) w1 = (i, w2)" "run_state (GetManagerStatus E cluster) w3 = (m, w4)"
      "run_state (Dashboard_GetStatus E cluster) w5 = (d, w6)"
    then have "answers (Indexer_GetStatus E cluster) i" "answers (GetManagerStatus E cluster) m" "answers (Dashboard_GetStatus E cluster) d"
      unfolding answers_def by blast+
    moreover assume "run_state (finish_phase E (\<not> (unready i \<or> unready m \<or> unready d)) (latest\<lparr>wc_stIndexer := taken i (wc_stIndexer latest),
       wc_stManager := taken m (wc_stManager latest), wc_stDashboard := taken d (wc_stDashboard latest), wc_stConditions := wc_stConditions cluster,
       wc_stCertificateRollouts := wc_stCertificateRollouts cluster, wc_stSecurity := wc_stSecurity cluster,
       wc_stDrain := wc_stDrain cluster, wc_stRollingRestart := wc_stRollingRestart cluster\<rparr>)) w7 = (c, w8)"
    note status_written_phase [OF this]
    ultimately show "writes_status E cluster (EUpdateStatus (c\<lparr>wc_stObservedGeneration := wc_Generation c, wc_stLastUpdateTime := Some now\<rparr>))"
      unfolding writes_status_def using l by blast
  qed (simp_all add: time_now_def logs_ask)
qed (simp add: get_cluster_def logs_ask)

text \<open>The number of effects of a computation.\<close>

definition log_bound :: "nat \<Rightarrow> ('s, 'a) io \<Rightarrow> bool" where
  "log_bound n m \<longleftrightarrow> (\<forall>w. \<exists>es. w_log (snd (run_state m w)) = w_log w @ es \<and> length es \<le> n)"

lemma log_boundD: "log_bound n m \<Longrightarrow> run_state m w = (a, w') \<Longrightarrow> \<exists>es. w_log w' = w_log w @ es \<and> length es \<le> n"
  unfolding log_bound_def by (metis snd_conv)

lemma log_bound_silent: "logs_only (\<lambda>_. False) m \<Longrightarrow> log_bound 0 m"
  by (simp add: logs_only_def log_bound_def list_all_iff)

lemma log_bound_bind:
  assumes m: "log_bound n m" and f: "\<And>a. log_bound k (f a)"
  shows "log_bound (n + k) (State_Monad.bind m f)"
  unfolding log_bound_def
proof
  fix w
  obtain a w1 where a: "run_state m w = (a, w1)" by fastforce
  obtain b w2 where b: "run_state (f a) w1 = (b, w2)" by fastforce
  obtain es fs where "w_log w1 = w_log w @ es" "length es \<le> n" "w_log w2 = w_log w1 @ fs" "length fs \<le> k"
    using log_boundD [OF m a] log_boundD [OF f b] by blast
  then show "\<exists>es. w_log (snd (run_state (State_Monad.bind m f) w)) = w_log w @ es \<and> length es \<le> n + k"
    using a b by (intro exI [of _ "es @ fs"]) (simp add: run_bind)
qed

lemmas log_bound_after = log_bound_bind [OF log_bound_silent, simplified]

lemma log_bound_try: "logs_only (\<lambda>_. False) m \<Longrightarrow> (\<And>a. log_bound k (f a)) \<Longrightarrow> log_bound k (try_io m wrap f)"
  unfolding try_io_def by (rule log_bound_after) (simp_all add: log_bound_def run_ret split: sum.split)

lemma log_bound_update_status: "log_bound 1 (update_cluster_status E c)"
  by (simp add: log_bound_def update_cluster_status_def run_io split: prod.split)

lemma RetryOnConflict_bound:
  assumes "log_bound b fn"
  shows "log_bound (4 * b) (RetryOnConflict E oor fn)"
  unfolding log_bound_def
proof
  fix w
  obtain r w' where r: "run_state (RetryOnConflict E oor fn) w = (r, w')" by fastforce
  obtain k own a where k: "retried E fn IsRetryableKubernetesError k w a own w'" "k \<le> 4"
    using RetryOnConflict_run [OF r] by blast
  have "\<exists>es. w_log w' = w_log w @ es \<and> length (filter (\<lambda>_. True) es) \<le> k * b"
    by (rule retried_effects [OF k(1)]) (use log_boundD [OF assms] in simp)
  then show "\<exists>es. w_log (snd (run_state (RetryOnConflict E oor fn) w)) = w_log w @ es \<and> length es \<le> 4 * b"
    using k(2) by (auto simp: r) (meson le_trans mult_le_mono1)
qed

lemma status_attempt_once: "log_bound 1 (status_attempt E cluster)"
  unfolding status_attempt_def Let_def
  by (intro log_bound_try log_bound_after GetStatus_silent finish_phase_silent log_bound_update_status)
    (simp_all add: get_cluster_def time_now_def logs_ask)

lemma updateStatus_log:
  assumes run: "run_state (updateStatus E oor cluster) w = (r, w')"
  shows "\<exists>es. w_log w' = w_log w @ es \<and> length es \<le> 4 \<and> list_all (writes_status E cluster) es"
proof -
  have "logs_only (writes_status E cluster) (updateStatus E oor cluster)"
    unfolding updateStatus_def by (intro RetryOnConflict_logs status_attempt_writes)
  moreover have "log_bound 4 (updateStatus E oor cluster)"
    unfolding updateStatus_def using RetryOnConflict_bound [OF status_attempt_once] by simp
  ultimately show ?thesis
    using logs_onlyD [OF _ run] log_boundD [OF _ run] by (metis same_append_eq)
qed

lemma running_ready:
  assumes "status_written cluster latest i m d c" and "wc_stPhase c = ''Running''"
  shows "\<not> unready i \<and> \<not> unready m \<and> \<not> unready d \<and> taken i (wc_stIndexer latest) \<noteq> None \<and>
    taken m (wc_stManager latest) \<noteq> None \<and> taken d (wc_stDashboard latest) \<noteq> None"
proof (rule ccontr)
  assume "\<not> ?thesis"
  then have no: "\<not> ((\<not> unready i \<and> \<not> unready m \<and> \<not> unready d) \<and> taken i (wc_stIndexer latest) \<noteq> None \<and>
    taken m (wc_stManager latest) \<noteq> None \<and> taken d (wc_stDashboard latest) \<noteq> None)" by blast
  have "wc_stPhase c = ''Creating''"
    by (subst assms(1) [unfolded status_written_def Let_def if_not_P [OF no]]) simp
  then show False using assms(2) by simp
qed

subsection \<open>Lemmas on deletion\<close>

text \<open>The requests to delete the targets, one after the other, each answered by success or by "not found".\<close>

fun deleted :: "'s env \<Rightarrow> string \<Rightarrow> (string \<times> string) list \<Rightarrow> 's world \<Rightarrow> 's world \<Rightarrow> bool" where
  "deleted E ns [] w w' \<longleftrightarrow> w' = w"
| "deleted E ns ((kind, name) # rest) w w' \<longleftrightarrow> (\<exists>r w1. run_state (delete_object E kind ns name) w = (r, w1) \<and>
     (r = Inr () \<or> (\<exists>err. r = Inl err \<and> IsNotFound err)) \<and> deleted E ns rest w1 w')"

abbreviation requests :: "string \<Rightarrow> (string \<times> string) list \<Rightarrow> effect list" where
  "requests ns targets \<equiv> map (\<lambda>t. EDelete (fst t) ns (snd t)) targets"

lemma delete_object_log: "run_state (delete_object E kind ns name) w = (r, w') \<Longrightarrow> w_log w' = w_log w @ [EDelete kind ns name]"
  by (auto simp: delete_object_def run_io split: prod.splits)

lemma deleted_log: "deleted E ns targets w w' \<Longrightarrow> w_log w' = w_log w @ requests ns targets"
  by (induction E ns targets w w' rule: deleted.induct) (auto dest!: delete_object_log)

lemma delete_all_run:
  "run_state (delete_all E ns targets) w = (r, w') \<Longrightarrow>
    (r = Inr () \<and> deleted E ns targets w w') \<or> (\<exists>err n. r = Inl err \<and> w_log w' = w_log w @ requests ns (take n targets))"
proof (induction targets arbitrary: w)
  case (Cons t rest)
  obtain kind name where t: "t = (kind, name)" by fastforce
  obtain a w1 where a: "run_state (delete_object E kind ns name) w = (a, w1)" by fastforce
  note log = delete_object_log [OF a]
  show ?case
  proof (cases "a = Inr () \<or> (\<exists>err. a = Inl err \<and> IsNotFound err)")
    case True
    then have "run_state (delete_all E ns rest) w1 = (r, w')"
      using Cons.prems t a by (auto simp: run_bind)
    from Cons.IH [OF this] show ?thesis
    proof
      assume "r = Inr () \<and> deleted E ns rest w1 w'"
      then show ?thesis using True a t by auto
    next
      assume "\<exists>err n. r = Inl err \<and> w_log w' = w_log w1 @ requests ns (take n rest)"
      then obtain err n where "r = Inl err" "w_log w' = w_log w1 @ requests ns (take n rest)" by blast
      then show ?thesis using log t by (intro disjI2 exI [of _ err] exI [of _ "Suc n"]) simp
    qed
  next
    case False
    then obtain err where err: "a = Inl err" "\<not> IsNotFound err" by (cases a) auto
    then have "w_log w' = w_log w1 \<and> (\<exists>e. r = Inl e)"
      using Cons.prems t a by (auto simp: run_bind run_ret)
    then show ?thesis using log t by (intro disjI2 exI [of _ "projl r"] exI [of _ 1]) auto
  qed
qed (auto simp: run_ret)

definition released :: "WazuhCluster \<Rightarrow> WazuhCluster" where
  "released cluster = cluster\<lparr>wc_Finalizers := filter (\<lambda>f. f \<noteq> wazuhClusterFinalizer) (wc_Finalizers cluster)\<rparr>"

lemma update_cluster_log: "run_state (update_cluster E c) w = (r, w') \<Longrightarrow> w_log w' = w_log w @ [EUpdateCluster c]"
  by (auto simp: update_cluster_def run_io split: prod.splits)

lemma update_status_log: "run_state (update_cluster_status E c) w = (r, w') \<Longrightarrow> w_log w' = w_log w @ [EUpdateStatus c]"
  by (auto simp: update_cluster_status_def run_io split: prod.splits)

lemma handleDeletion_run:
  assumes run: "run_state (handleDeletion E cluster) w = (r, w')" and fin: "wazuhClusterFinalizer \<in> set (wc_Finalizers cluster)"
    and c: "c = cluster\<lparr>wc_stPhase := ''Deleting''\<rparr>" and targets: "targets = cleanup_targets (wc_Name cluster)"
  shows "(\<exists>err n. r = Inl err \<and> w_log w' = w_log w @ EUpdateStatus c # requests (wc_Namespace cluster) (take n targets)) \<or>
    (\<exists>w1 w2 reason msg. w_log w1 = w_log w @ [EUpdateStatus c] \<and> deleted E (wc_Namespace cluster) targets w1 w2 \<and>
       w_log w' = w_log w2 @ [EEvent False reason msg, EUpdateCluster (released c)])"
proof -
  obtain u w1 where u: "run_state (update_cluster_status E c) w = (u, w1)" by fastforce
  note w1 = update_status_log [OF u]
  have same: "wc_Namespace c = wc_Namespace cluster" "wc_Name c = wc_Name cluster" unfolding c by simp_all
  obtain a w2 where a: "run_state (cleanupResources E c) w1 = (a, w2)" by fastforce
  note del = delete_all_run [OF a [unfolded cleanupResources_def same, folded targets]]
  have nfin: "\<not> wazuhClusterFinalizer \<notin> set (wc_Finalizers cluster)" using fin by simp
  note body = run [unfolded handleDeletion_def if_not_P [OF nfin] Let_def run_bind run_try, folded c, unfolded u prod.case a released_def [symmetric]]
  show ?thesis
  proof (cases a)
    case (Inl err)
    then have "w2 = w'" "\<exists>e. r = Inl e" using body by auto
    then show ?thesis using del Inl w1 by auto
  next
    case (Inr x)
    obtain b w4 where b: "run_state (update_cluster E (released c)) (w2\<lparr>w_log := w_log w2 @ [EEvent False ''Cleanup'' ''All resources cleaned up successfully'']\<rparr>) = (b, w4)"
      by fastforce
    have "w' = w4" using body unfolding Inr sum.case record_event_def run_bind run_emit prod.case run_try b
      by (cases b) (simp_all add: run_ret)
    then have "w_log w' = w_log w2 @ [EEvent False ''Cleanup'' ''All resources cleaned up successfully'', EUpdateCluster (released c)]"
      using update_cluster_log [OF b] by simp
    then show ?thesis using del Inr w1 by blast
  qed
qed

subsection \<open>Properties\<close>

definition component_up :: "('s, ComponentStatus option result) io \<Rightarrow> ComponentStatus option \<Rightarrow> bool" where
  "component_up get status \<longleftrightarrow> (\<exists>st. status = Some st \<and>
     (answers get (Inr (Some st)) \<and> sint (cst_Replicas st) \<le> sint (cst_ReadyReplicas st) \<or> (\<exists>err. answers get (Inl err))))"

lemma taken_up:
  "answers get a \<Longrightarrow> \<not> unready a \<Longrightarrow> taken a old \<noteq> None \<Longrightarrow> component_up get (taken a old)"
  by (cases a) (auto simp: component_up_def taken_def unready_def split: option.splits)

lemma running_up:
  assumes "writes_status E cluster (EUpdateStatus c)" and "wc_stPhase c = ''Running''"
  shows "component_up (Indexer_GetStatus E cluster) (wc_stIndexer c) \<and> component_up (GetManagerStatus E cluster) (wc_stManager c) \<and>
    component_up (Dashboard_GetStatus E cluster) (wc_stDashboard c)"
proof -
  obtain latest i m d where s: "status_written cluster latest i m d c"
    and a: "answers (Indexer_GetStatus E cluster) i" "answers (GetManagerStatus E cluster) m" "answers (Dashboard_GetStatus E cluster) d"
    using assms(1) unfolding writes_status_def by blast
  have "wc_stIndexer c = taken i (wc_stIndexer latest)" "wc_stManager c = taken m (wc_stManager latest)"
    "wc_stDashboard c = taken d (wc_stDashboard latest)"
    by (subst s [unfolded status_written_def Let_def], simp)+
  then show ?thesis using running_ready [OF s assms(2)] taken_up a by metis
qed

text \<open>
  the status that ends a reconciliation. \<open>updateStatus\<close> sends at most four writes; each one
  is a freshly fetched object with exactly the component summaries, the phase, the conditions
  and the rollout, security, drain and restart parts of the working copy replaced (so neither
  the specification nor the volume expansion status is touched). It says Running only if every
  component has a status in which all replicas are ready, or one that could not be read this
  time and is kept from before.
\<close>

theorem updateStatus_summary:
  assumes "run_state (updateStatus E oor cluster) w = (r, w')"
  shows "\<exists>es. w_log w' = w_log w @ es \<and> length es \<le> 4 \<and>
    (\<forall>e \<in> set es. writes_status E cluster e \<and> (\<forall>c. e = EUpdateStatus c \<longrightarrow> wc_stPhase c = ''Running'' \<longrightarrow>
      component_up (Indexer_GetStatus E cluster) (wc_stIndexer c) \<and> component_up (GetManagerStatus E cluster) (wc_stManager c) \<and>
      component_up (Dashboard_GetStatus E cluster) (wc_stDashboard c)))"
  using updateStatus_log [OF assms] running_up [of E cluster] unfolding list_all_iff by metis

theorem updateStatus_summary_witness:
  "\<exists>r w' es. run_state (updateStatus dead_env (\<lambda>_. 0) empty_cluster) (new_world ()) = (r, w') \<and> w_log w' = es \<and> length es \<le> 4"
proof -
  obtain r w' where run: "run_state (updateStatus dead_env (\<lambda>_. 0) empty_cluster) (new_world ()) = (r, w')" by fastforce
  from updateStatus_summary [OF run] show ?thesis using run by (auto simp: new_world_def)
qed

lemma missing_indexer:
  assumes "\<And>s. \<exists>err s'. e_get_sts E (wc_Namespace cluster) (wc_Name cluster @ ''-indexer'') s = (Inl err, s') \<and> IsNotFound err"
    and "answers (Indexer_GetStatus E cluster) a"
  shows "a = Inr None"
proof -
  obtain w w' where "run_state (Indexer_GetStatus E cluster) w = (a, w')" using assms(2) unfolding answers_def by blast
  then show ?thesis
    using assms(1) [of "w_env w"] by (auto simp: Indexer_GetStatus_def if_exists_def get_sts_def run_io)
qed

text \<open>
  a cluster with node pools never becomes Running. The summary looks for the one StatefulSet
  that the simple topology has; while that does not exist, as in a cluster whose indexer runs as
  node pools only, no status write reports the phase Running.
\<close>

theorem node_pools_never_running:
  assumes "\<forall>s. \<exists>err s'. e_get_sts E (wc_Namespace cluster) (wc_Name cluster @ ''-indexer'') s = (Inl err, s') \<and> IsNotFound err"
    and "run_state (updateStatus E oor cluster) w = (r, w')"
  shows "\<exists>es. w_log w' = w_log w @ es \<and> (\<forall>e \<in> set es. \<exists>c. e = EUpdateStatus c \<and> wc_stPhase c \<noteq> ''Running'')"
proof -
  obtain es where es: "w_log w' = w_log w @ es" "list_all (writes_status E cluster) es"
    using updateStatus_log [OF assms(2)] by blast
  have "\<exists>c. e = EUpdateStatus c \<and> wc_stPhase c \<noteq> ''Running''" if e: "writes_status E cluster e" for e
  proof -
    obtain latest i m d c where c: "e = EUpdateStatus c" "status_written cluster latest i m d c" "answers (Indexer_GetStatus E cluster) i"
      using e unfolding writes_status_def by blast
    have "taken i (wc_stIndexer latest) = None"
      using missing_indexer [OF _ c(3)] assms(1) by (simp add: taken_def)
    then show ?thesis using running_ready [OF c(2)] c(1) by blast
  qed
  then show ?thesis using es unfolding list_all_iff by blast
qed

theorem node_pools_never_running_witness:
  "\<exists>r w' es. run_state (updateStatus (dead_env\<lparr>e_get_cluster := \<lambda>ns n s. (Inr empty_cluster, s)\<rparr>) (\<lambda>_. 0) empty_cluster) (new_world ()) = (r, w') \<and>
    w_log w' = es \<and> (\<forall>e \<in> set es. \<exists>c. e = EUpdateStatus c \<and> wc_stPhase c \<noteq> ''Running'')"
proof -
  let ?E = "dead_env\<lparr>e_get_cluster := \<lambda>ns n s. (Inr empty_cluster, s)\<rparr>"
  obtain r w' where run: "run_state (updateStatus ?E (\<lambda>_. 0) empty_cluster) (new_world ()) = (r, w')" by fastforce
  have "\<forall>s. \<exists>err s'. e_get_sts ?E (wc_Namespace empty_cluster) (wc_Name empty_cluster @ ''-indexer'') s = (Inl err, s') \<and> IsNotFound err"
    by (simp add: dead_env_def not_found_def IsNotFound_def)
  from node_pools_never_running [OF this run] show ?thesis using run by (auto simp: new_world_def)
qed

text \<open>
  The objects that a deletion has to remove itself, by kind and name; the CA's secret, the
  objects of node pools and what other controllers made are left to the garbage collection.
\<close>

definition removed_objects :: "string \<Rightarrow> (string \<times> string) list" where
  "removed_objects name = [
     (''StatefulSet'', name @ ''-manager-master''), (''StatefulSet'', name @ ''-manager-worker''), (''StatefulSet'', name @ ''-indexer''),
     (''Deployment'', name @ ''-dashboard''),
     (''Service'', name @ ''-manager-master''), (''Service'', name @ ''-manager-master-headless''),
     (''Service'', name @ ''-manager-worker''), (''Service'', name @ ''-manager-worker-headless''),
     (''Service'', name @ ''-indexer''), (''Service'', name @ ''-indexer-headless''), (''Service'', name @ ''-dashboard''), (''Service'', name @ ''-agents''),
     (''ConfigMap'', name @ ''-manager-master-config''), (''ConfigMap'', name @ ''-manager-worker-config''),
     (''ConfigMap'', name @ ''-indexer-config''), (''ConfigMap'', name @ ''-dashboard-config''), (''ConfigMap'', name @ ''-filebeat-config''),
     (''Secret'', ManagerMasterCertsName name), (''Secret'', ManagerWorkerCertsName name), (''Secret'', IndexerCertsName name),
     (''Secret'', name @ ''-indexer-security''), (''Secret'', name @ ''-indexer-credentials''), (''Secret'', DashboardCertsName name),
     (''Secret'', AdminCertsName name), (''Secret'', FilebeatCertsName name), (''Secret'', name @ ''-cluster-key''), (''Secret'', name @ ''-api-credentials'')]"

lemma cleanup_removes: "cleanup_targets name = removed_objects name"
  unfolding cleanup_targets_def removed_objects_def ManagerMasterCertsName_def ManagerWorkerCertsName_def IndexerCertsName_def
    DashboardCertsName_def AdminCertsName_def FilebeatCertsName_def by (simp only: list.map append.simps)

text \<open>
  C26: A deleted cluster is let go only when it is cleaned up. With the finalizer present, the
  only request that removes it comes after a delete request for each StatefulSet, Deployment,
  Service, ConfigMap and Secret on the list above, the workloads first, was answered by success or
  by "not found"; if any other error occurs, the finalizer stays, the remaining objects are not
  touched and an error is returned.
\<close>

theorem finalizer_removed_last:
  assumes "run_state (handleDeletion E cluster) w = (r, w')" and "wazuhClusterFinalizer \<in> set (wc_Finalizers cluster)"
  shows "(\<exists>err n. r = Inl err \<and> w_log w' = w_log w @ EUpdateStatus (cluster\<lparr>wc_stPhase := ''Deleting''\<rparr>) #
        requests (wc_Namespace cluster) (take n (removed_objects (wc_Name cluster)))) \<or>
    (\<exists>w1 w2 reason msg. w_log w1 = w_log w @ [EUpdateStatus (cluster\<lparr>wc_stPhase := ''Deleting''\<rparr>)] \<and>
       deleted E (wc_Namespace cluster) (removed_objects (wc_Name cluster)) w1 w2 \<and>
       w_log w' = w_log w2 @ [EEvent False reason msg, EUpdateCluster (released (cluster\<lparr>wc_stPhase := ''Deleting''\<rparr>))])"
  by (rule handleDeletion_run [OF assms refl cleanup_removes [symmetric]])

text \<open>A server that deletes what it is asked to.\<close>

definition leaving_cluster :: WazuhCluster where
  "leaving_cluster = empty_cluster\<lparr>wc_Finalizers := [wazuhClusterFinalizer]\<rparr>"

definition deleting_env :: "unit env" where
  "deleting_env = dead_env\<lparr>e_delete := (\<lambda>k ns n s. (Inr (), s)), e_update_cluster := (\<lambda>c s. (Inr (), s))\<rparr>"

lemma deleting_all: "\<exists>w'. run_state (delete_all deleting_env ns targets) w = (Inr (), w')"
proof (induction targets arbitrary: w)
  case (Cons t targets)
  then show ?case by (cases t) (simp add: delete_object_def deleting_env_def run_io)
qed simp

theorem finalizer_removed_last_witness:
  "\<exists>w' reason msg. run_state (handleDeletion deleting_env leaving_cluster) (new_world ()) = (Inr no_requeue, w') \<and>
    w_log w' = EUpdateStatus (leaving_cluster\<lparr>wc_stPhase := ''Deleting''\<rparr>) # requests ''ns'' (removed_objects ''wz'') @
      [EEvent False reason msg, EUpdateCluster (leaving_cluster\<lparr>wc_stPhase := ''Deleting'', wc_Finalizers := []\<rparr>)]"
proof -
  obtain r w' where run: "run_state (handleDeletion deleting_env leaving_cluster) (new_world ()) = (r, w')" by (rule prod.exhaust)
  have fin: "wazuhClusterFinalizer \<in> set (wc_Finalizers leaving_cluster)" and same: "wc_Namespace leaving_cluster = ''ns''" "wc_Name leaving_cluster = ''wz''"
    by (simp_all add: leaving_cluster_def empty_cluster_def)
  have free: "released (leaving_cluster\<lparr>wc_stPhase := p\<rparr>) = leaving_cluster\<lparr>wc_stPhase := p, wc_Finalizers := []\<rparr>" for p
    by (simp add: released_def leaving_cluster_def)
  have start: "w_log (new_world ()) = []" by (simp add: new_world_def)
  have up: "run_state (update_cluster deleting_env c) v = (Inr (), v\<lparr>w_log := w_log v @ [EUpdateCluster c]\<rparr>)" for c v
    by (simp add: update_cluster_def deleting_env_def run_io)
  have cleaned: "\<exists>w'. run_state (cleanupResources deleting_env c) v = (Inr (), w')" for c v
    unfolding cleanupResources_def by (rule deleting_all)
  have nfin: "\<not> wazuhClusterFinalizer \<notin> set (wc_Finalizers leaving_cluster)" using fin by simp
  have ok: "r = Inr no_requeue"
  proof -
    obtain u v where u: "run_state (update_cluster_status deleting_env (leaving_cluster\<lparr>wc_stPhase := ''Deleting''\<rparr>)) (new_world ()) = (u, v)" by fastforce
    obtain v1 where "run_state (cleanupResources deleting_env (leaving_cluster\<lparr>wc_stPhase := ''Deleting''\<rparr>)) v = (Inr (), v1)" using cleaned by blast
    then show ?thesis using run unfolding handleDeletion_def if_not_P [OF nfin] Let_def run_bind run_try u prod.case
      by (simp add: run_bind run_try record_event_def run_emit up)
  qed
  from finalizer_removed_last [OF run fin, unfolded same start append_Nil free] ok show ?thesis
    using run deleted_log by fastforce
qed

end
