(* ===== verification/WorkloadApply.thy ===== *)
theory WorkloadApply
  imports Rollout Credentials
begin

section \<open>Applying the workloads (internal/shared/patch, workload_recreate.go, the three reconcilers)\<close>

text \<open>
  What the reconcilers do with a StatefulSet or Deployment once its builder has built it:
  create it when it is missing, delete and create it when a field changed that cannot be
  updated, update it when one of the hashes or the placement of its pods changed, and report
  the rollout that follows. The built object and the hashes that go with it are arguments; an
  owner reference to the cluster, which can always be set on a fresh object, is its name.
  Metrics and log lines are left out.
\<close>

subsection \<open>Merging (merge.go)\<close>

text \<open>A nil map and an empty one are both the empty list; the copy the code makes of \<open>current\<close> is the list itself.\<close>

definition mergeStringMaps :: "labels \<Rightarrow> labels \<Rightarrow> labels" where
  "mergeStringMaps current desired = label_merge current desired"

definition MergeStatefulSetUpdate :: "StatefulSet \<Rightarrow> StatefulSet \<Rightarrow> StatefulSet" where
  "MergeStatefulSetUpdate current desired = current\<lparr>
     sts_Labels := mergeStringMaps (sts_Labels current) (sts_Labels desired),
     sts_Annotations := mergeStringMaps (sts_Annotations current) (sts_Annotations desired),
     sts_OwnerReferences := sts_OwnerReferences desired,
     sts_SpecReplicas := sts_SpecReplicas desired,
     sts_TemplateLabels := sts_TemplateLabels desired,
     sts_TemplateAnnotations := sts_TemplateAnnotations desired,
     sts_PodSpec := sts_PodSpec desired,
     sts_UpdateStrategy := sts_UpdateStrategy desired,
     sts_MinReadySeconds := sts_MinReadySeconds desired\<rparr>"

definition MergeDeploymentUpdate :: "Deployment \<Rightarrow> Deployment \<Rightarrow> Deployment" where
  "MergeDeploymentUpdate current desired = current\<lparr>
     dep_Labels := mergeStringMaps (dep_Labels current) (dep_Labels desired),
     dep_Annotations := mergeStringMaps (dep_Annotations current) (dep_Annotations desired),
     dep_OwnerReferences := dep_OwnerReferences desired,
     dep_SpecReplicas := dep_SpecReplicas desired,
     dep_TemplateLabels := dep_TemplateLabels desired,
     dep_TemplateAnnotations := dep_TemplateAnnotations desired,
     dep_PodSpec := dep_PodSpec desired,
     dep_Rollout := dep_Rollout desired\<rparr>"

subsection \<open>Fields that cannot be updated (immutable.go, workload_recreate.go)\<close>

definition NeedsStatefulSetRecreation :: "StatefulSet \<Rightarrow> StatefulSet \<Rightarrow> bool \<times> string" where
  "NeedsStatefulSetRecreation current desired =
     (if sts_PodManagementPolicy current \<noteq> sts_PodManagementPolicy desired
      then (True, ''PodManagementPolicy changed from '' @ sts_PodManagementPolicy current @ '' to '' @ sts_PodManagementPolicy desired)
      else if ps_SecurityContext (sts_PodSpec current) \<noteq> ps_SecurityContext (sts_PodSpec desired)
      then (True, ''SecurityContext changed'')
      else (False, []))"

text \<open>\<open>strings.Contains\<close>\<close>

fun str_contains :: "string \<Rightarrow> string \<Rightarrow> bool" where
  "str_contains [] sub = (sub = [])"
| "str_contains (c # s) sub = (take (length sub) (c # s) = sub \<or> str_contains s sub)"

definition IsStatefulSetImmutableError :: "gerror \<Rightarrow> bool" where
  "IsStatefulSetImmutableError err =
     (reason_of err \<in> {Invalid, Forbidden} \<and>
      (str_contains (text_of err) ''updates to statefulset spec'' \<or> str_contains (text_of err) ''volumeClaimTemplates''))"

definition IsDeploymentImmutableError :: "gerror \<Rightarrow> bool" where
  "IsDeploymentImmutableError err =
     (reason_of err \<in> {Invalid, Forbidden} \<and> str_contains (text_of err) ''spec.selector'' \<and>
      (str_contains (text_of err) ''field is immutable'' \<or> str_contains (text_of err) ''Invalid value''))"

definition RecreateStatefulSetOnError :: "'s env \<Rightarrow> bool \<Rightarrow> StatefulSet \<Rightarrow> gerror \<Rightarrow> ('s, bool result) io" where
  "RecreateStatefulSetOnError E recorder existing err =
     (if \<not> IsStatefulSetImmutableError err then ret (Inl err)
      else do {
        (if recorder then record_event True ''WorkloadRecreated''
           (''Deleting StatefulSet '' @ sts_Name existing @ '' due to immutable field update'') else ret ());
        if sts_Deleting existing then
          ret (Inl (errorf (''statefulset '' @ sts_Namespace existing @ ''/'' @ sts_Name existing @ '' is already being deleted'')))
        else do {
          r \<leftarrow> delete_object E ''StatefulSet'' (sts_Namespace existing) (sts_Name existing);
          ret (case r of Inl delErr \<Rightarrow> if IsNotFound delErr then Inr True else Inl delErr | Inr u \<Rightarrow> Inr True) } })"

definition RecreateDeploymentOnError :: "'s env \<Rightarrow> bool \<Rightarrow> Deployment \<Rightarrow> gerror \<Rightarrow> ('s, bool result) io" where
  "RecreateDeploymentOnError E recorder existing err =
     (if \<not> IsDeploymentImmutableError err then ret (Inl err)
      else do {
        (if recorder then record_event True ''WorkloadRecreated''
           (''Deleting Deployment '' @ dep_Name existing @ '' due to immutable field update'') else ret ());
        if dep_Deleting existing then
          ret (Inl (errorf (''deployment '' @ dep_Namespace existing @ ''/'' @ dep_Name existing @ '' is already being deleted'')))
        else do {
          r \<leftarrow> delete_object E ''Deployment'' (dep_Namespace existing) (dep_Name existing);
          ret (case r of Inl delErr \<Rightarrow> if IsNotFound delErr then Inr True else Inl delErr | Inr u \<Rightarrow> Inr True) } })"

subsection \<open>Updates with retry\<close>

definition update_sts_once :: "'s env \<Rightarrow> StatefulSet \<Rightarrow> ('s, unit result) io" where
  "update_sts_once E desired = try_io (get_sts E (sts_Namespace desired) (sts_Name desired)) id
     (\<lambda>current. update_sts E (MergeStatefulSetUpdate current desired))"

definition updateStatefulSetWithRetry :: "'s env \<Rightarrow> (f64 \<Rightarrow> i64) \<Rightarrow> StatefulSet \<Rightarrow> ('s, unit result) io" where
  "updateStatefulSetWithRetry E oor desired = RetryOnConflict E oor (update_sts_once E desired)"

definition update_deployment_once :: "'s env \<Rightarrow> Deployment \<Rightarrow> ('s, unit result) io" where
  "update_deployment_once E desired = try_io (get_deployment E (dep_Namespace desired) (dep_Name desired)) id
     (\<lambda>current. update_deployment E (MergeDeploymentUpdate current desired))"

definition updateDeploymentWithRetry :: "'s env \<Rightarrow> (f64 \<Rightarrow> i64) \<Rightarrow> Deployment \<Rightarrow> ('s, unit result) io" where
  "updateDeploymentWithRetry E oor desired = RetryOnConflict E oor (update_deployment_once E desired)"

subsection \<open>Applying a StatefulSet\<close>

definition AnnotationSpecHash :: string where "AnnotationSpecHash = ''wazuh.com/spec-hash''"
definition AnnotationConfigHash :: string where "AnnotationConfigHash = ''wazuh.com/config-hash''"
definition AnnotationRuleHash :: string where "AnnotationRuleHash = ''wazuh.com/rule-hash''"
definition AnnotationDecoderHash :: string where "AnnotationDecoderHash = ''wazuh.com/decoder-hash''"
definition AnnotationCertHash :: string where "AnnotationCertHash = ''wazuh.com/cert-hash''"

definition hash_changed :: "string \<Rightarrow> string \<Rightarrow> bool" where
  "hash_changed new existing = (new \<noteq> [] \<and> new \<noteq> existing)"

definition when_changed :: "bool \<Rightarrow> string \<Rightarrow> string list" where
  "when_changed changed reason = (if changed then [reason] else [])"

fun join_reasons :: "string \<Rightarrow> string list \<Rightarrow> string" where
  "join_reasons sep [] = []"
| "join_reasons sep [r] = r"
| "join_reasons sep (r # q # rs) = r @ sep @ join_reasons sep (q # rs)"

definition sts_rollout :: "string \<Rightarrow> StatefulSet \<Rightarrow> string \<Rightarrow> time \<Rightarrow> PendingRollout" where
  "sts_rollout component sts reason now = \<lparr>pr_Name = sts_Name sts, pr_Namespace = sts_Namespace sts, pr_Type = ''StatefulSet'',
     pr_Component = component, pr_Reason = reason, pr_StartTime = Some now, pr_Generation = 0\<rparr>"

definition report_rollout :: "'s env \<Rightarrow> (time \<Rightarrow> PendingRollout) \<Rightarrow> ('s, PendingRollout option result) io" where
  "report_rollout E rollout = do { now \<leftarrow> time_now E; ret (Inr (Some (rollout now))) }"

definition create_and_report :: "'s env \<Rightarrow> string \<Rightarrow> string \<Rightarrow> StatefulSet \<Rightarrow> string \<Rightarrow> ('s, PendingRollout option result) io" where
  "create_and_report E failure component sts reason =
     try_io (create_sts E sts) (wrapf failure) (\<lambda>u. report_rollout E (sts_rollout component sts reason))"

definition recreate_sts :: "'s env \<Rightarrow> string \<Rightarrow> string \<Rightarrow> StatefulSet \<Rightarrow> StatefulSet \<Rightarrow> string \<Rightarrow> ('s, PendingRollout option result) io" where
  "recreate_sts E what component sts found reason = do {
     r \<leftarrow> delete_object E ''StatefulSet'' (sts_Namespace found) (sts_Name found);
     case r of
       Inl err \<Rightarrow> if IsNotFound err
         then create_and_report E (''failed to create '' @ what @ '' statefulset after recreation: '') component sts (''recreation-'' @ reason)
         else ret (Inl (wrapf (''failed to delete '' @ what @ '' statefulset for recreation: '') err))
     | Inr u \<Rightarrow> create_and_report E (''failed to create '' @ what @ '' statefulset after recreation: '') component sts (''recreation-'' @ reason) }"

definition after_failed_update :: "'s env \<Rightarrow> bool \<Rightarrow> string \<Rightarrow> StatefulSet \<Rightarrow> StatefulSet \<Rightarrow> gerror \<Rightarrow> ('s, PendingRollout option result) io" where
  "after_failed_update E recorder what sts found err = do {
     rec \<leftarrow> RecreateStatefulSetOnError E recorder found err;
     case rec of
       Inl recErr \<Rightarrow> ret (Inl (wrapf (''failed to update '' @ what @ '' statefulset: '') recErr))
     | Inr recreated \<Rightarrow> if \<not> recreated then ret (Inl (wrapf (''failed to update '' @ what @ '' statefulset: '') err))
         else do {
           (if recorder then record_event True ''WorkloadRecreating'' (''Deleted StatefulSet '' @ sts_Namespace sts @ ''/'' @
              sts_Name sts @ '' due to immutable field change; re-creation on next reconciliation'') else ret ());
           ret (Inl (errorf (''statefulset '' @ sts_Namespace sts @ ''/'' @ sts_Name sts @ '' deleted for immutable field recreation''))) } }"

definition update_and_report :: "'s env \<Rightarrow> (f64 \<Rightarrow> i64) \<Rightarrow> bool \<Rightarrow> string \<Rightarrow> string \<Rightarrow> StatefulSet \<Rightarrow> StatefulSet \<Rightarrow> string \<Rightarrow>
    ('s, PendingRollout option result) io" where
  "update_and_report E oor recorder what component sts found reason = do {
     r \<leftarrow> updateStatefulSetWithRetry E oor sts;
     case r of
       Inl err \<Rightarrow> after_failed_update E recorder what sts found err
     | Inr u \<Rightarrow> report_rollout E (sts_rollout component sts reason) }"

text \<open>
  The common shape: \<open>what\<close> names the workload in errors, \<open>changes\<close> are the reasons for an update
  in the order the code finds them, \<open>announce\<close> the events it sends while it looks for them.
\<close>

definition apply_sts :: "'s env \<Rightarrow> (f64 \<Rightarrow> i64) \<Rightarrow> bool \<Rightarrow> string \<Rightarrow> string \<Rightarrow> string \<Rightarrow> (StatefulSet \<Rightarrow> string list) \<Rightarrow>
    (string list \<Rightarrow> ('s, unit) io) \<Rightarrow> StatefulSet \<Rightarrow> ('s, PendingRollout option result) io" where
  "apply_sts E oor recorder what component sep changes announce sts = do {
     f \<leftarrow> get_sts E (sts_Namespace sts) (sts_Name sts);
     case f of
       Inl err \<Rightarrow> if IsNotFound err
         then create_and_report E (''failed to create '' @ what @ '' statefulset: '') component sts ''initial-creation''
         else ret (Inl (wrapf (''failed to get '' @ what @ '' statefulset: '') err))
     | Inr found \<Rightarrow> (case NeedsStatefulSetRecreation found sts of (needsRecreation, recreationReason) \<Rightarrow>
         if needsRecreation then recreate_sts E what component sts found recreationReason
         else do {
           announce (changes found);
           if changes found \<noteq> [] then update_and_report E oor recorder what component sts found (join_reasons sep (changes found))
           else ret (Inr None) }) }"

text \<open>
  The indexer. \<open>built\<close> is what the builder makes of the specification; the hashes that the code
  adds to it are added here.
\<close>

definition own_sts :: "WazuhCluster \<Rightarrow> StatefulSet \<Rightarrow> StatefulSet" where
  "own_sts cluster sts = sts\<lparr>sts_OwnerReferences := [wc_Name cluster]\<rparr>"

definition indexer_changes :: "string \<Rightarrow> string \<Rightarrow> string \<Rightarrow> StatefulSet \<Rightarrow> StatefulSet \<Rightarrow> string list" where
  "indexer_changes specHash certHash configHash sts found =
     when_changed (hash_changed specHash (label_get (sts_Annotations found) AnnotationSpecHash)) ''spec-change'' @
     when_changed (ps_Tolerations (sts_PodSpec found) \<noteq> ps_Tolerations (sts_PodSpec sts)) ''tolerations-change'' @
     when_changed (ps_Affinity (sts_PodSpec found) \<noteq> ps_Affinity (sts_PodSpec sts)) ''affinity-change'' @
     when_changed (hash_changed certHash (label_get (sts_TemplateAnnotations found) AnnotationCertHash)) ''certificate-renewal'' @
     when_changed (hash_changed configHash (label_get (sts_TemplateAnnotations found) AnnotationConfigHash)) ''config-change''"

definition indexer_announce :: "bool \<Rightarrow> StatefulSet \<Rightarrow> string list \<Rightarrow> ('s, unit) io" where
  "indexer_announce recorder sts reasons = do {
     (if recorder \<and> ''spec-change'' \<in> set reasons
      then record_event False ''SpecChanged'' (''Indexer spec changed, updating StatefulSet '' @ sts_Name sts) else ret ());
     (if recorder \<and> ''config-change'' \<in> set reasons
      then record_event False ''ConfigChanged'' (''Indexer ConfigMap changed, pods will restart (StatefulSet '' @ sts_Name sts @ '')'') else ret ()) }"

definition with_spec_hash :: "string \<Rightarrow> StatefulSet \<Rightarrow> StatefulSet" where
  "with_spec_hash specHash sts =
     (if specHash \<noteq> [] then sts\<lparr>sts_Annotations := label_set (sts_Annotations sts) AnnotationSpecHash specHash\<rparr> else sts)"

definition with_pod_hash :: "string \<Rightarrow> string \<Rightarrow> StatefulSet \<Rightarrow> StatefulSet" where
  "with_pod_hash key hash sts =
     (if hash \<noteq> [] then sts\<lparr>sts_TemplateAnnotations := label_set (sts_TemplateAnnotations sts) key hash\<rparr> else sts)"

definition indexer_sts :: "WazuhCluster \<Rightarrow> StatefulSet \<Rightarrow> string \<Rightarrow> string \<Rightarrow> string \<Rightarrow> StatefulSet" where
  "indexer_sts cluster built specHash certHash configHash =
     own_sts cluster (with_spec_hash specHash (with_pod_hash AnnotationConfigHash configHash (with_pod_hash AnnotationCertHash certHash built)))"

definition apply_indexer :: "'s env \<Rightarrow> (f64 \<Rightarrow> i64) \<Rightarrow> bool \<Rightarrow> WazuhCluster \<Rightarrow> StatefulSet \<Rightarrow> string \<Rightarrow> string \<Rightarrow> string \<Rightarrow>
    ('s, PendingRollout option result) io" where
  "apply_indexer E oor recorder cluster built specHash certHash configHash =
     (let sts = indexer_sts cluster built specHash certHash configHash in
      apply_sts E oor recorder ''indexer'' ''indexer'' '','' (indexer_changes specHash certHash configHash sts)
        (indexer_announce recorder sts) sts)"

text \<open>The master and the workers.\<close>

definition manager_changes :: "string \<Rightarrow> string \<Rightarrow> string \<Rightarrow> string \<Rightarrow> string \<Rightarrow> StatefulSet \<Rightarrow> StatefulSet \<Rightarrow> string list" where
  "manager_changes certHash configHash specHash ruleHash decoderHash sts found =
     when_changed (hash_changed certHash (label_get (sts_TemplateAnnotations found) AnnotationCertHash)) ''certificate-change'' @
     when_changed (hash_changed configHash (label_get (sts_TemplateAnnotations found) AnnotationConfigHash)) ''config-change'' @
     when_changed (hash_changed specHash (label_get (sts_Annotations found) AnnotationSpecHash)) ''spec-change'' @
     when_changed (ps_Tolerations (sts_PodSpec found) \<noteq> ps_Tolerations (sts_PodSpec sts)) ''tolerations-change'' @
     when_changed (ps_Affinity (sts_PodSpec found) \<noteq> ps_Affinity (sts_PodSpec sts)) ''affinity-change'' @
     when_changed (ruleHash \<noteq> label_get (sts_TemplateAnnotations found) AnnotationRuleHash) ''rule-change'' @
     when_changed (decoderHash \<noteq> label_get (sts_TemplateAnnotations found) AnnotationDecoderHash) ''decoder-change''"

text \<open>
  The rules and decoders to mount are looked up first; a lookup that fails counts as finding none. \<open>build\<close> is the rest of the
  builder, given the ConfigMaps to mount.
\<close>

definition looked_up :: "('s, ('c list \<times> string) result) io option \<Rightarrow> ('s, 'c list \<times> string) io" where
  "looked_up reconciler = (case reconciler of None \<Rightarrow> ret ([], []) | Some lookup \<Rightarrow> do {
     r \<leftarrow> lookup;
     ret (case r of Inl err \<Rightarrow> ([], []) | Inr (configMaps, hash) \<Rightarrow> if configMaps = [] then ([], []) else (configMaps, hash)) })"

definition manager_sts :: "WazuhCluster \<Rightarrow> StatefulSet \<Rightarrow> string \<Rightarrow> string \<Rightarrow> string \<Rightarrow> string \<Rightarrow> string \<Rightarrow> StatefulSet" where
  "manager_sts cluster built certHash configHash specHash ruleHash decoderHash =
     own_sts cluster (with_pod_hash AnnotationDecoderHash decoderHash (with_pod_hash AnnotationRuleHash ruleHash
       (with_spec_hash specHash (with_pod_hash AnnotationConfigHash configHash (with_pod_hash AnnotationCertHash certHash built)))))"

definition apply_manager :: "'s env \<Rightarrow> (f64 \<Rightarrow> i64) \<Rightarrow> bool \<Rightarrow> string \<Rightarrow> string \<Rightarrow> WazuhCluster \<Rightarrow> ('c list \<Rightarrow> 'c list \<Rightarrow> StatefulSet) \<Rightarrow>
    ('s, ('c list \<times> string) result) io option \<Rightarrow> ('s, ('c list \<times> string) result) io option \<Rightarrow> string \<Rightarrow> string \<Rightarrow> string \<Rightarrow>
    ('s, PendingRollout option result) io" where
  "apply_manager E oor recorder what component cluster build rules decoders certHash configHash specHash = do {
     (ruleMaps, ruleHash) \<leftarrow> looked_up rules;
     (decoderMaps, decoderHash) \<leftarrow> looked_up decoders;
     let sts = manager_sts cluster (build ruleMaps decoderMaps) certHash configHash specHash ruleHash decoderHash;
     apply_sts E oor recorder what component ''+'' (manager_changes certHash configHash specHash ruleHash decoderHash sts) (\<lambda>reasons. ret ()) sts }"

definition apply_master :: "'s env \<Rightarrow> (f64 \<Rightarrow> i64) \<Rightarrow> bool \<Rightarrow> WazuhCluster \<Rightarrow> ('c list \<Rightarrow> 'c list \<Rightarrow> StatefulSet) \<Rightarrow>
    ('s, ('c list \<times> string) result) io option \<Rightarrow> ('s, ('c list \<times> string) result) io option \<Rightarrow> string \<Rightarrow> string \<Rightarrow> string \<Rightarrow>
    ('s, PendingRollout option result) io" where
  "apply_master E oor recorder = apply_manager E oor recorder ''master'' ''manager-master''"

definition apply_worker :: "'s env \<Rightarrow> (f64 \<Rightarrow> i64) \<Rightarrow> bool \<Rightarrow> WazuhCluster \<Rightarrow> ('c list \<Rightarrow> 'c list \<Rightarrow> StatefulSet) \<Rightarrow>
    ('s, ('c list \<times> string) result) io option \<Rightarrow> ('s, ('c list \<times> string) result) io option \<Rightarrow> string \<Rightarrow> string \<Rightarrow> string \<Rightarrow>
    ('s, PendingRollout option result) io" where
  "apply_worker E oor recorder = apply_manager E oor recorder ''worker'' ''manager-worker''"

subsection \<open>Applying the Deployment of the dashboard\<close>

definition with_dep_hash :: "string \<Rightarrow> string \<Rightarrow> Deployment \<Rightarrow> Deployment" where
  "with_dep_hash key hash dep =
     (if hash \<noteq> [] then dep\<lparr>dep_TemplateAnnotations := label_set (dep_TemplateAnnotations dep) key hash\<rparr> else dep)"

definition dashboard_deployment :: "WazuhCluster \<Rightarrow> Deployment \<Rightarrow> string \<Rightarrow> string \<Rightarrow> string \<Rightarrow> Deployment" where
  "dashboard_deployment cluster built specHash certHash configHash =
     (let dep = with_dep_hash AnnotationCertHash certHash built;
          dep = (if specHash \<noteq> [] then dep\<lparr>dep_Annotations := label_set (dep_Annotations dep) AnnotationSpecHash specHash\<rparr> else dep);
          dep = with_dep_hash AnnotationConfigHash configHash dep
      in dep\<lparr>dep_OwnerReferences := [wc_Name cluster]\<rparr>)"

definition dashboard_changes :: "string \<Rightarrow> string \<Rightarrow> string \<Rightarrow> Deployment \<Rightarrow> Deployment \<Rightarrow> string list" where
  "dashboard_changes specHash certHash configHash dep found =
     when_changed (hash_changed specHash (label_get (dep_Annotations found) AnnotationSpecHash)) ''spec-change'' @
     when_changed (ps_Tolerations (dep_PodSpec found) \<noteq> ps_Tolerations (dep_PodSpec dep)) ''tolerations-change'' @
     when_changed (ps_Affinity (dep_PodSpec found) \<noteq> ps_Affinity (dep_PodSpec dep)) ''affinity-change'' @
     when_changed (hash_changed certHash (label_get (dep_TemplateAnnotations found) AnnotationCertHash)) ''certificate-renewal'' @
     when_changed (hash_changed configHash (label_get (dep_TemplateAnnotations found) AnnotationConfigHash)) ''config-change''"

definition dep_rollout :: "Deployment \<Rightarrow> string \<Rightarrow> time \<Rightarrow> PendingRollout" where
  "dep_rollout dep reason now = \<lparr>pr_Name = dep_Name dep, pr_Namespace = dep_Namespace dep, pr_Type = ''Deployment'',
     pr_Component = ''dashboard'', pr_Reason = reason, pr_StartTime = Some now, pr_Generation = 0\<rparr>"

definition dashboard_announce :: "bool \<Rightarrow> string \<Rightarrow> i32 \<Rightarrow> Deployment \<Rightarrow> string list \<Rightarrow> ('s, unit) io" where
  "dashboard_announce recorder version replicas dep reasons = do {
     (if recorder \<and> ''spec-change'' \<in> set reasons
      then record_event False ''SpecChanged'' (''Dashboard spec changed (version='' @ version @ '', replicas='' @ show_i32 replicas @ '')'') else ret ());
     (if recorder \<and> ''config-change'' \<in> set reasons
      then record_event False ''ConfigChanged'' (''Dashboard ConfigMap changed, pods will restart (Deployment '' @ dep_Name dep @ '')'') else ret ()) }"

definition update_dashboard :: "'s env \<Rightarrow> (f64 \<Rightarrow> i64) \<Rightarrow> bool \<Rightarrow> Deployment \<Rightarrow> Deployment \<Rightarrow> string \<Rightarrow> ('s, PendingRollout option result) io" where
  "update_dashboard E oor recorder dep found reason = do {
     r \<leftarrow> updateDeploymentWithRetry E oor dep;
     case r of
       Inr u \<Rightarrow> report_rollout E (dep_rollout dep reason)
     | Inl err \<Rightarrow> do {
         rec \<leftarrow> RecreateDeploymentOnError E recorder found err;
         case rec of
           Inl recErr \<Rightarrow> ret (Inl (wrapf ''failed to update dashboard deployment: '' recErr))
         | Inr recreated \<Rightarrow> if \<not> recreated then ret (Inl (wrapf ''failed to update dashboard deployment: '' err))
             else do {
               (if recorder then record_event True ''WorkloadRecreating'' (''Deleted Deployment '' @ dep_Namespace dep @ ''/'' @
                  dep_Name dep @ '' due to immutable field change; re-creation on next reconciliation'') else ret ());
               ret (Inl (errorf (''deployment '' @ dep_Namespace dep @ ''/'' @ dep_Name dep @ '' deleted for immutable field recreation''))) } } }"

definition apply_dashboard :: "'s env \<Rightarrow> (f64 \<Rightarrow> i64) \<Rightarrow> bool \<Rightarrow> WazuhCluster \<Rightarrow> Deployment \<Rightarrow> i32 \<Rightarrow> string \<Rightarrow> string \<Rightarrow> string \<Rightarrow>
    ('s, PendingRollout option result) io" where
  "apply_dashboard E oor recorder cluster built replicas specHash certHash configHash =
     (let dep = dashboard_deployment cluster built specHash certHash configHash in do {
        f \<leftarrow> get_deployment E (dep_Namespace dep) (dep_Name dep);
        case f of
          Inl err \<Rightarrow> if IsNotFound err
            then try_io (create_deployment E dep) (wrapf ''failed to create dashboard deployment: '')
              (\<lambda>u. report_rollout E (dep_rollout dep ''initial-creation''))
            else ret (Inl (wrapf ''failed to get dashboard deployment: '' err))
        | Inr found \<Rightarrow> (let reasons = dashboard_changes specHash certHash configHash dep found in do {
            dashboard_announce recorder (wc_Version cluster) replicas dep reasons;
            if reasons \<noteq> [] then update_dashboard E oor recorder dep found (join_reasons '','' reasons)
            else ret (Inr None) }) })"

subsection \<open>What an application writes\<close>

definition applies :: "StatefulSet \<Rightarrow> effect \<Rightarrow> bool" where
  "applies sts e = (case e of
     ECreateSts s \<Rightarrow> s = sts
   | EUpdateSts s \<Rightarrow> sts_SpecReplicas s = sts_SpecReplicas sts \<and> (\<exists>current. s = MergeStatefulSetUpdate current sts)
   | EDelete kind ns name \<Rightarrow> kind = ''StatefulSet''
   | EEvent warning reason message \<Rightarrow> True
   | _ \<Rightarrow> False)"

lemma applies_simps [simp]:
  "applies sts (ECreateSts s) = (s = sts)" "applies sts (EEvent b r msg)"
  "applies sts (EUpdateSts (MergeStatefulSetUpdate current sts))"
  "applies sts (EDelete kind ns name) = (kind = ''StatefulSet'')"
  by (auto simp: applies_def MergeStatefulSetUpdate_def)

lemma update_retry_logs: "logs_only (applies sts) (updateStatefulSetWithRetry E oor sts)"
  unfolding updateStatefulSetWithRetry_def update_sts_once_def get_sts_def update_sts_def by (intro logs) simp

lemma event_logs: "logs_only (applies sts) (if b then record_event warning reason message else ret ())"
  unfolding record_event_def by (intro logs) simp

lemma create_report_logs: "logs_only (applies sts) (create_and_report E failure component sts reason)"
  unfolding create_and_report_def create_sts_def report_rollout_def time_now_def by (intro logs) simp

lemma delete_logs: "logs_only (applies sts) (delete_object E ''StatefulSet'' ns name)"
  unfolding delete_object_def by (intro logs) simp

lemma recreate_error_logs: "logs_only (applies sts) (RecreateStatefulSetOnError E recorder found err)"
  unfolding RecreateStatefulSetOnError_def by (intro logs_if logs_bind logs_ret event_logs delete_logs)

lemma after_failed_logs: "logs_only (applies sts) (after_failed_update E recorder what sts found err)"
  unfolding after_failed_update_def by (intro logs_bind logs_case logs_if logs_ret recreate_error_logs event_logs)

lemma report_logs: "logs_only P (report_rollout E rollout)"
  unfolding report_rollout_def time_now_def by (intro logs)

lemma update_report_logs: "logs_only (applies sts) (update_and_report E oor recorder what component sts found reason)"
  unfolding update_and_report_def by (intro logs_bind logs_case after_failed_logs report_logs update_retry_logs)

lemma recreate_logs: "logs_only (applies sts) (recreate_sts E what component sts found reason)"
  unfolding recreate_sts_def by (intro logs_bind logs_case logs_if logs_ret delete_logs create_report_logs)

lemma apply_sts_logs:
  assumes "\<And>reasons. logs_only (applies sts) (announce reasons)"
  shows "logs_only (applies sts) (apply_sts E oor recorder what component sep changes announce sts)"
  unfolding apply_sts_def get_sts_def
  by (intro logs_bind logs_case logs_ask logs_if create_report_logs recreate_logs update_report_logs logs_ret assms)

lemma indexer_announce_logs: "logs_only (applies sts) (indexer_announce recorder s reasons)"
  unfolding indexer_announce_def by (intro logs_bind event_logs)

text \<open>An application that finds what it wants does nothing.\<close>

lemma apply_sts_settled:
  assumes "e_get_sts E (sts_Namespace sts) (sts_Name sts) (w_env w) = (Inr found, s')"
    and "\<not> fst (NeedsStatefulSetRecreation found sts)" and "changes found = []" and "\<And>w. run_state (announce []) w = ((), w)"
  shows "run_state (apply_sts E oor recorder what component sep changes announce sts) w = (Inr None, w\<lparr>w_env := s'\<rparr>)"
  using assms(1,2,3) by (cases "NeedsStatefulSetRecreation found sts") (simp add: apply_sts_def get_sts_def run_bind run_ask assms(4))

lemma indexer_announce_nothing: "run_state (indexer_announce recorder s []) w = ((), w)"
  by (simp add: indexer_announce_def run_bind)

lemma label_get_set: "label_get (label_set ls k v) j = (if j = k then v else label_get ls j)"
  by (simp add: label_get_def label_set_get)

lemma merged_set: "label_get (mergeStringMaps ls (label_set d k v)) k = v"
proof -
  have "map_of (label_merge (label_set ls k v) (filter (\<lambda>kv. fst kv \<noteq> k) d)) k = map_of (label_set ls k v) k"
    by (rule label_merge_get) auto
  then show ?thesis by (simp add: mergeStringMaps_def label_get_def label_set_def label_merge_def)
qed

lemma hash_keys: "AnnotationCertHash \<noteq> AnnotationConfigHash"
  by (simp add: AnnotationCertHash_def AnnotationConfigHash_def)

lemma own_fields [simp]:
  "sts_Annotations (own_sts c s) = sts_Annotations s" "sts_TemplateAnnotations (own_sts c s) = sts_TemplateAnnotations s"
  "sts_PodSpec (own_sts c s) = sts_PodSpec s" "sts_SpecReplicas (own_sts c s) = sts_SpecReplicas s"
  "sts_PodManagementPolicy (own_sts c s) = sts_PodManagementPolicy s"
  "sts_Name (own_sts c s) = sts_Name s" "sts_Namespace (own_sts c s) = sts_Namespace s"
  by (simp_all add: own_sts_def)

lemma spec_hash_fields [simp]:
  "sts_TemplateAnnotations (with_spec_hash h s) = sts_TemplateAnnotations s" "sts_PodSpec (with_spec_hash h s) = sts_PodSpec s"
  "sts_SpecReplicas (with_spec_hash h s) = sts_SpecReplicas s" "sts_PodManagementPolicy (with_spec_hash h s) = sts_PodManagementPolicy s"
  "sts_Name (with_spec_hash h s) = sts_Name s" "sts_Namespace (with_spec_hash h s) = sts_Namespace s"
  by (simp_all add: with_spec_hash_def)

lemma pod_hash_fields [simp]:
  "sts_Annotations (with_pod_hash k h s) = sts_Annotations s" "sts_PodSpec (with_pod_hash k h s) = sts_PodSpec s"
  "sts_SpecReplicas (with_pod_hash k h s) = sts_SpecReplicas s" "sts_PodManagementPolicy (with_pod_hash k h s) = sts_PodManagementPolicy s"
  "sts_Name (with_pod_hash k h s) = sts_Name s" "sts_Namespace (with_pod_hash k h s) = sts_Namespace s"
  by (simp_all add: with_pod_hash_def)

lemma pod_hash_get: "label_get (sts_TemplateAnnotations (with_pod_hash k h s)) j =
    (if j = k \<and> h \<noteq> [] then h else label_get (sts_TemplateAnnotations s) j)"
  by (simp add: with_pod_hash_def label_get_set)

lemma settled_changes:
  assumes "stored = sts \<or> stored = MergeStatefulSetUpdate current sts"
    and "sts = indexer_sts cluster built specHash certHash configHash"
  shows "indexer_changes specHash certHash configHash sts stored = []" and "sts_PodSpec stored = sts_PodSpec built"
    and "sts_SpecReplicas stored = sts_SpecReplicas built"
proof -
  have "label_get (sts_Annotations stored) AnnotationSpecHash = specHash" if "specHash \<noteq> []"
    using assms that by (auto simp: indexer_sts_def with_spec_hash_def label_get_set MergeStatefulSetUpdate_def merged_set)
  then have spec: "hash_changed specHash (label_get (sts_Annotations stored) AnnotationSpecHash) = False"
    by (auto simp: hash_changed_def)
  have pod: "sts_TemplateAnnotations stored = sts_TemplateAnnotations sts" "sts_PodSpec stored = sts_PodSpec sts"
      "sts_SpecReplicas stored = sts_SpecReplicas sts"
    using assms(1) by (auto simp: MergeStatefulSetUpdate_def)
  have "hash_changed certHash (label_get (sts_TemplateAnnotations stored) AnnotationCertHash) = False"
      "hash_changed configHash (label_get (sts_TemplateAnnotations stored) AnnotationConfigHash) = False"
    using hash_keys by (simp_all add: pod(1) assms(2) indexer_sts_def hash_changed_def pod_hash_get)
  then show "indexer_changes specHash certHash configHash sts stored = []"
    by (simp add: indexer_changes_def when_changed_def spec pod(2))
  show "sts_PodSpec stored = sts_PodSpec built" "sts_SpecReplicas stored = sts_SpecReplicas built"
    using pod by (simp_all add: assms(2) indexer_sts_def)
qed

lemma written:
  assumes "list_all (applies sts) fs" and "ECreateSts stored \<in> set fs \<or> EUpdateSts stored \<in> set fs"
  obtains current where "stored = sts \<or> stored = MergeStatefulSetUpdate current sts"
proof -
  have "applies sts (ECreateSts stored) \<or> applies sts (EUpdateSts stored)"
    using assms unfolding list_all_iff by blast
  then have "\<exists>current. stored = sts \<or> stored = MergeStatefulSetUpdate current sts"
    by (auto simp: applies_def)
  then show thesis using that by blast
qed

text \<open>
  C16: Applying the indexer converges. Take any StatefulSet that an application of the indexer
  wrote, in any of its attempts. It has the replicas and the pod specification that the builder
  built. And once the API server answers with it, with the pod management policy unchanged, a
  further application of the same specification, certificates and configuration writes nothing,
  sends no event and starts no rollout.
\<close>

theorem indexer_apply_converges:
  assumes "run_state (apply_indexer E oor recorder cluster built specHash certHash configHash) w = (r, w')"
    and "w_log w' = w_log w @ es" and "ECreateSts stored \<in> set es \<or> EUpdateSts stored \<in> set es"
    and "e_get_sts E (sts_Namespace built) (sts_Name built) (w_env v) = (Inr stored, s')"
    and "sts_PodManagementPolicy stored = sts_PodManagementPolicy built"
  shows "sts_SpecReplicas stored = sts_SpecReplicas built \<and> sts_PodSpec stored = sts_PodSpec built \<and>
    run_state (apply_indexer E oor recorder cluster built specHash certHash configHash) v = (Inr None, v\<lparr>w_env := s'\<rparr>)"
proof -
  let ?sts = "indexer_sts cluster built specHash certHash configHash"
  obtain fs where fs: "w_log w' = w_log w @ fs" "list_all (applies ?sts) fs"
    by (rule logs_onlyD [OF apply_sts_logs [OF indexer_announce_logs] assms(1) [unfolded apply_indexer_def Let_def]])
  have es: "es = fs" using fs(1) assms(2) by simp
  obtain current where "stored = ?sts \<or> stored = MergeStatefulSetUpdate current ?sts"
    by (rule written [OF fs(2) assms(3) [unfolded es]])
  note settled = settled_changes [OF this refl]
  have names: "sts_Name ?sts = sts_Name built" "sts_Namespace ?sts = sts_Namespace built" "sts_PodSpec ?sts = sts_PodSpec built"
      "sts_PodManagementPolicy ?sts = sts_PodManagementPolicy built"
    by (simp_all add: indexer_sts_def)
  have "\<not> fst (NeedsStatefulSetRecreation stored ?sts)"
    using settled(2) assms(5) names by (simp add: NeedsStatefulSetRecreation_def)
  then have "run_state (apply_indexer E oor recorder cluster built specHash certHash configHash) v = (Inr None, v\<lparr>w_env := s'\<rparr>)"
    unfolding apply_indexer_def Let_def
    using settled(1) assms(4) names(1,2)
    by (intro apply_sts_settled [where changes = "indexer_changes specHash certHash configHash ?sts"]
        indexer_announce_nothing) simp_all
  then show ?thesis by (intro conjI settled)
qed

lemma apply_sts_creates:
  assumes "e_get_sts E (sts_Namespace sts) (sts_Name sts) (w_env w) = (Inl err, s1)" and "IsNotFound err"
    and "e_create_sts E sts s1 = (Inr u, s2)"
  shows "\<exists>r w'. run_state (apply_sts E oor recorder what component sep changes announce sts) w = (r, w') \<and>
    w_log w' = w_log w @ [ECreateSts sts]"
  using assms
  by (simp add: apply_sts_def get_sts_def run_bind run_ask create_and_report_def create_sts_def report_rollout_def time_now_def
      run_try run_emit split: prod.split)

text \<open>A server with one StatefulSet.\<close>

definition store_env :: "StatefulSet option env" where
  "store_env = dead_env\<lparr>e_get_sts := (\<lambda>ns n s. (case s of None \<Rightarrow> Inl not_found
       | Some x \<Rightarrow> if sts_Namespace x = ns \<and> sts_Name x = n then Inr x else Inl not_found, s)),
     e_create_sts := (\<lambda>t s. (Inr (), Some t)), e_update_sts := (\<lambda>t s. (Inr (), Some t))\<rparr>"

lemma store_env_sel:
  "e_get_sts store_env ns n s = (case s of None \<Rightarrow> Inl not_found
       | Some x \<Rightarrow> if sts_Namespace x = ns \<and> sts_Name x = n then Inr x else Inl not_found, s)"
  "e_create_sts store_env t s = (Inr (), Some t)" "e_update_sts store_env t s = (Inr (), Some t)"
  by (simp_all add: store_env_def)

lemma not_found_is: "IsNotFound not_found"
  by (simp add: not_found_def IsNotFound_def)

theorem indexer_apply_converges_witness:
  "\<exists>r w' es stored v s'. run_state (apply_indexer store_env (\<lambda>x. 0) True empty_cluster done_sts ''s1'' [] ''c1'') (new_world None) = (r, w') \<and>
     w_log w' = es \<and> ECreateSts stored \<in> set es \<and> sts_SpecReplicas stored = sts_SpecReplicas done_sts \<and>
     run_state (apply_indexer store_env (\<lambda>x. 0) True empty_cluster done_sts ''s1'' [] ''c1'') v = (Inr None, v\<lparr>w_env := s'\<rparr>)"
proof -
  let ?sts = "indexer_sts empty_cluster done_sts ''s1'' [] ''c1''"
  have same: "sts_Name ?sts = sts_Name done_sts" "sts_Namespace ?sts = sts_Namespace done_sts"
      "sts_PodManagementPolicy ?sts = sts_PodManagementPolicy done_sts"
    by (simp_all add: indexer_sts_def)
  have "\<exists>r w'. run_state (apply_indexer store_env (\<lambda>x. 0) True empty_cluster done_sts ''s1'' [] ''c1'') (new_world None) = (r, w') \<and>
      w_log w' = w_log (new_world (None :: StatefulSet option)) @ [ECreateSts ?sts]"
    unfolding apply_indexer_def Let_def
    using apply_sts_creates [of store_env ?sts "new_world None" not_found None "()" "Some ?sts"] not_found_is
    by (simp add: store_env_sel new_world_def)
  then obtain r w' where run: "run_state (apply_indexer store_env (\<lambda>x. 0) True empty_cluster done_sts ''s1'' [] ''c1'') (new_world None) = (r, w')"
      "w_log w' = w_log (new_world (None :: StatefulSet option)) @ [ECreateSts ?sts]" by (elim exE conjE)
  have "e_get_sts store_env (sts_Namespace done_sts) (sts_Name done_sts) (w_env (new_world (Some ?sts))) = (Inr ?sts, Some ?sts)"
    by (simp add: store_env_sel new_world_def same)
  from indexer_apply_converges [OF run _ this same(3)] run show ?thesis
    by (intro exI [of _ r] exI [of _ w'] exI [of _ "[ECreateSts ?sts]"] exI [of _ ?sts] exI [of _ "new_world (Some ?sts)"]
        exI [of _ "Some ?sts"]) (simp add: new_world_def)
qed

lemma retried_grows:
  assumes "retried E fn ok k w r own w'" and "logs_only (\<lambda>e. True) fn"
  shows "\<exists>es. w_log w' = w_log w @ es"
  using retried_effects [OF assms(1), of "\<lambda>e. False" 0] assms(2) by (metis filter_False le0 length_greater_0_conv list.size(3) logs_onlyD not_less)

lemma retried_first:
  assumes "retried E fn ok k w r own w'" and "logs_only (\<lambda>e. True) fn" and "run_state fn w = (a, w1)"
  shows "\<exists>es. w_log w' = w_log w1 @ es"
  using assms(1)
proof cases
  case last
  then show ?thesis using assms(3) by simp
next
  case (cancelled err w1' d ctxErr)
  then show ?thesis using assms(3) by (auto simp: wait_io_def run_ask split: prod.splits)
next
  case (again err w1' d w2 w3 j)
  obtain es where "w_log w' = w_log w3 @ es" using retried_grows [OF again(6) assms(2)] by blast
  then show ?thesis using again assms(3) by (auto simp: wait_io_def run_ask split: prod.splits)
qed

lemma any_effect: "logs_only (applies sts) m \<Longrightarrow> logs_only (\<lambda>e. True) m"
  by (rule logs_weaken) simp_all

lemma update_once_logs: "logs_only (applies sts) (update_sts_once E sts)"
  unfolding update_sts_once_def get_sts_def update_sts_def by (intro logs) simp

text \<open>An effect of the part of the log between two worlds.\<close>

definition adds :: "effect \<Rightarrow> 's world \<Rightarrow> 's world \<Rightarrow> bool" where
  "adds e w w' \<longleftrightarrow> (\<exists>es. w_log w' = w_log w @ es \<and> e \<in> set es)"

definition grows :: "'s world \<Rightarrow> 's world \<Rightarrow> bool" where
  "grows w w' \<longleftrightarrow> (\<exists>es. w_log w' = w_log w @ es)"

lemma adds_then: "adds e w w1 \<Longrightarrow> grows w1 w' \<Longrightarrow> adds e w w'"
  unfolding adds_def grows_def by fastforce

lemma then_adds: "grows w w1 \<Longrightarrow> adds e w1 w' \<Longrightarrow> adds e w w'"
  unfolding adds_def grows_def by fastforce

lemma grows_trans: "grows w w1 \<Longrightarrow> grows w1 w' \<Longrightarrow> grows w w'"
  unfolding grows_def by fastforce

lemma run_grows: "logs_only P m \<Longrightarrow> run_state m w = (a, w') \<Longrightarrow> grows w w'"
  unfolding grows_def by (meson logs_onlyD)

lemma update_retry_writes:
  assumes "e_get_sts E (sts_Namespace sts) (sts_Name sts) (w_env w) = (Inr found, s1)"
    and "run_state (updateStatefulSetWithRetry E oor sts) w = (r, w')"
  shows "adds (EUpdateSts (MergeStatefulSetUpdate found sts)) w w'"
proof -
  obtain a w1 where a: "run_state (update_sts_once E sts) w = (a, w1)" by fastforce
  have w1: "adds (EUpdateSts (MergeStatefulSetUpdate found sts)) w w1" unfolding adds_def
    using a assms(1) by (auto simp: update_sts_once_def get_sts_def update_sts_def run_try run_bind run_ask run_emit split: prod.splits)
  obtain k own b where "retried E (update_sts_once E sts) IsRetryableKubernetesError k w b own w'"
    using RetryOnConflict_run [OF assms(2) [unfolded updateStatefulSetWithRetry_def]] by blast
  from adds_then [OF w1] retried_first [OF this any_effect [OF update_once_logs] a] show ?thesis
    unfolding grows_def by blast
qed

lemma apply_sts_updates:
  assumes "\<And>s. e_get_sts E (sts_Namespace sts) (sts_Name sts) s = (Inr found, s)"
    and "\<not> fst (NeedsStatefulSetRecreation found sts)" and "changes found \<noteq> []" and "\<And>reasons. logs_only P (announce reasons)"
    and "run_state (apply_sts E oor recorder what component sep changes announce sts) w = (r, w')"
  shows "adds (EUpdateSts (MergeStatefulSetUpdate found sts)) w w'"
proof -
  obtain x v where v: "run_state (announce (changes found)) w = (x, v)" by (rule prod.exhaust)
  have run: "run_state (update_and_report E oor recorder what component sts found (join_reasons sep (changes found))) v = (r, w')"
    using assms(5,2,3) v by (cases "NeedsStatefulSetRecreation found sts")
      (simp add: apply_sts_def get_sts_def run_bind run_ask assms(1))
  obtain u w1 where u: "run_state (updateStatefulSetWithRetry E oor sts) v = (u, w1)" by fastforce
  note rest = run [unfolded update_and_report_def run_bind u prod.case]
  have "logs_only (applies sts) (case u of Inl err \<Rightarrow> after_failed_update E recorder what sts found err
      | Inr x \<Rightarrow> report_rollout E (sts_rollout component sts (join_reasons sep (changes found))))"
    by (intro logs_case after_failed_logs report_logs)
  from run_grows [OF this rest] have "grows w1 w'" .
  from then_adds [OF run_grows [OF assms(4) v] adds_then [OF update_retry_writes [OF assms(1) u] this]] show ?thesis .
qed

lemma manager_sts_fields [simp]:
  "sts_Name (manager_sts cluster b c f p r d) = sts_Name b" "sts_Namespace (manager_sts cluster b c f p r d) = sts_Namespace b"
  "sts_PodSpec (manager_sts cluster b c f p r d) = sts_PodSpec b"
  "sts_PodManagementPolicy (manager_sts cluster b c f p r d) = sts_PodManagementPolicy b"
  "sts_SpecReplicas (manager_sts cluster b c f p r d) = sts_SpecReplicas b"
  by (simp_all add: manager_sts_def)

lemma rule_key: "AnnotationRuleHash \<noteq> AnnotationDecoderHash" "AnnotationRuleHash \<noteq> AnnotationConfigHash" "AnnotationRuleHash \<noteq> AnnotationCertHash"
  by (simp_all add: AnnotationRuleHash_def AnnotationDecoderHash_def AnnotationConfigHash_def AnnotationCertHash_def)

lemma manager_sts_rule: "label_get (sts_TemplateAnnotations (manager_sts cluster b c f p [] d)) AnnotationRuleHash =
    label_get (sts_TemplateAnnotations b) AnnotationRuleHash"
  using rule_key by (simp add: manager_sts_def pod_hash_get)

lemma apply_manager_run:
  assumes "run_state lookup w = (Inl err, w1)" and "run_state (looked_up decoders) w1 = ((ds, decoderHash), w2)"
  shows "run_state (apply_manager E oor recorder what component cluster build (Some lookup) decoders certHash configHash specHash) w =
    run_state (let sts = manager_sts cluster (build [] ds) certHash configHash specHash [] decoderHash in
      apply_sts E oor recorder what component ''+'' (manager_changes certHash configHash specHash [] decoderHash sts) (\<lambda>reasons. ret ()) sts) w2"
proof -
  have "run_state (looked_up (Some lookup)) w = (([], []), w1)" using assms(1) by (simp add: looked_up_def run_bind)
  then show ?thesis using assms(2) by (simp only: apply_manager_def run_bind prod.case)
qed

text \<open>
  C37: A failed lookup takes the rules away. Where the master or the workers run with custom
  rules, and listing the rules fails in a reconciliation, the StatefulSet is nevertheless
  applied: it is updated to a pod template built for no rules at all and without the rule hash,
  so the managers are rolled out without their rules although no rule was removed.
\<close>

theorem failed_rule_lookup_drops_rules:
  assumes "\<And>s. e_get_sts E (sts_Namespace found) (sts_Name found) s = (Inr found, s)"
    and "sts_Namespace (build [] ds) = sts_Namespace found" and "sts_Name (build [] ds) = sts_Name found"
    and "label_get (sts_TemplateAnnotations found) AnnotationRuleHash \<noteq> []"
    and "label_get (sts_TemplateAnnotations (build [] ds)) AnnotationRuleHash = []"
    and "\<not> fst (NeedsStatefulSetRecreation found (build [] ds))"
    and "run_state lookup w = (Inl err, w1)" and "run_state (looked_up decoders) w1 = ((ds, decoderHash), w2)"
    and "run_state (apply_manager E oor recorder what component cluster build (Some lookup) decoders certHash configHash specHash) w = (r, w')"
  shows "\<exists>s. EUpdateSts s \<in> set (w_log w') \<and> sts_PodSpec s = sts_PodSpec (build [] ds) \<and>
    label_get (sts_TemplateAnnotations s) AnnotationRuleHash = []"
proof -
  let ?sts = "manager_sts cluster (build [] ds) certHash configHash specHash [] decoderHash"
  note run = assms(9) [unfolded apply_manager_run [OF assms(7,8)] Let_def]
  have get: "e_get_sts E (sts_Namespace ?sts) (sts_Name ?sts) s = (Inr found, s)" for s
    using assms(1-3) by simp
  have same: "\<not> fst (NeedsStatefulSetRecreation found ?sts)"
    using assms(6) by (simp add: NeedsStatefulSetRecreation_def split: if_splits)
  have changed: "manager_changes certHash configHash specHash [] decoderHash ?sts found \<noteq> []"
    using assms(4) by (simp add: manager_changes_def when_changed_def)
  have "adds (EUpdateSts (MergeStatefulSetUpdate found ?sts)) w2 w'"
    by (rule apply_sts_updates [where changes = "manager_changes certHash configHash specHash [] decoderHash ?sts", OF get same changed logs_ret run])
  then have "EUpdateSts (MergeStatefulSetUpdate found ?sts) \<in> set (w_log w')" by (auto simp: adds_def)
  moreover have "sts_PodSpec (MergeStatefulSetUpdate found ?sts) = sts_PodSpec (build [] ds)"
      "label_get (sts_TemplateAnnotations (MergeStatefulSetUpdate found ?sts)) AnnotationRuleHash = []"
    using assms(5) by (simp_all add: MergeStatefulSetUpdate_def manager_sts_rule)
  ultimately show ?thesis by (intro exI conjI)
qed

definition ruled_sts :: StatefulSet where
  "ruled_sts = done_sts\<lparr>sts_TemplateAnnotations := [(AnnotationRuleHash, ''r1'')]\<rparr>"

theorem failed_rule_lookup_drops_rules_witness:
  "\<exists>r w' s. run_state (apply_manager (dead_env\<lparr>e_get_sts := (\<lambda>ns n s. (Inr ruled_sts, s))\<rparr>) (\<lambda>x. 0) True ''master'' ''manager-master'' empty_cluster
      (\<lambda>rules decoders :: string list. done_sts) (Some (ret (Inl not_found))) None [] [] []) (new_world ()) = (r, w') \<and>
    EUpdateSts s \<in> set (w_log w') \<and> label_get (sts_TemplateAnnotations s) AnnotationRuleHash = []"
proof -
  let ?E = "dead_env\<lparr>e_get_sts := (\<lambda>ns n s. (Inr ruled_sts, s))\<rparr> :: unit env"
  obtain r w' where run: "run_state (apply_manager ?E (\<lambda>x. 0) True ''master'' ''manager-master'' empty_cluster
      (\<lambda>rules decoders :: string list. done_sts) (Some (ret (Inl not_found))) None [] [] []) (new_world ()) = (r, w')"
    by (rule prod.exhaust)
  have facts: "label_get (sts_TemplateAnnotations ruled_sts) AnnotationRuleHash \<noteq> []"
      "label_get (sts_TemplateAnnotations done_sts) AnnotationRuleHash = []"
      "\<not> fst (NeedsStatefulSetRecreation ruled_sts done_sts)" "sts_Name done_sts = sts_Name ruled_sts" "sts_Namespace done_sts = sts_Namespace ruled_sts"
    by (simp_all add: ruled_sts_def done_sts_def label_get_def NeedsStatefulSetRecreation_def)
  have none: "run_state (looked_up None) w = (([], []), w)" for w :: "unit world" by (simp add: looked_up_def)
  have get: "e_get_sts ?E ns n s = (Inr ruled_sts, s)" for ns n s by simp
  from failed_rule_lookup_drops_rules [where build = "\<lambda>rules decoders. done_sts", OF get facts(5,4,1,2,3) run_ret none run]
  show ?thesis using run by (elim exE conjE) (intro exI conjI)
qed

end
