(* ===== verification/Maintenance.thy ===== *)
theory Maintenance
  imports ClusterWorld GoTime
begin

section \<open>Durations and maintenance windows (duration.go, maintenance_window.go, certificate_maintenance.go)\<close>

text \<open>
  The durations a certificate configuration is written in, and the windows in which the CA may
  be renewed. The cron library and the time zone database are arguments: what a schedule and a
  zone name parse to, and for a schedule in a zone the next start after an instant, which is the
  zero time when the schedule never starts again. White space that \<open>strings.TrimSpace\<close> removes
  is that of ASCII. The loop that looks for the last start of a window may not end: its value is
  then \<open>None\<close>. The reasons in a check's result are only logged and left out.
\<close>

subsection \<open>Durations (duration.go)\<close>

definition TrimSpace :: "string \<Rightarrow> string" where
  "TrimSpace s = (let white = (\<lambda>c. is_blank c \<or> c = newline) in rev (dropWhile white (rev (dropWhile white s))))"

definition unit_length :: "char \<Rightarrow> duration option" where
  "unit_length u =
     (if u = CHR ''d'' \<or> u = CHR ''D'' then Some (24 * hour)
      else if u = CHR ''h'' \<or> u = CHR ''H'' then Some hour
      else if u = CHR ''m'' \<or> u = CHR ''M'' then Some minute else None)"

text \<open>An error of \<open>strconv.Atoi\<close>, for a text that needs no escapes in quotes.\<close>

definition atoi_error :: "string \<Rightarrow> gerror" where
  "atoi_error s = errorf (''strconv.Atoi: parsing '' @ [quote] @ s @ [quote] @
     (if parse_digits (snd (signed_part s)) = None then '': invalid syntax'' else '': value out of range''))"

definition apos :: string where "apos = [CHR 0x27]"

definition ParseCertDuration :: "string \<Rightarrow> duration result" where
  "ParseCertDuration text = (let s = TrimSpace text in
     if s = [] then Inl (errorf ''empty duration string'')
     else (case atoi (butlast s) of
         None \<Rightarrow> Inl (wrapf (''invalid duration value '' @ apos @ butlast s @ apos @ '': '') (atoi_error (butlast s)))
       | Some value \<Rightarrow>
           if value < 0 then Inl (errorf (''duration value must be positive, got '' @ show_int value))
           else (case unit_length (last s) of
               None \<Rightarrow> Inl (errorf (''invalid duration unit '' @ apos @ [last s] @ apos @
                 '': use '' @ apos @ ''d'' @ apos @ '' (days), '' @ apos @ ''h'' @ apos @ '' (hours), or '' @ apos @ ''m'' @ apos @ '' (minutes)''))
             | Some u \<Rightarrow> Inr (word_of_int value * u))))"

text \<open>A panic is \<open>None\<close>; the operator calls it with the four defaults only.\<close>

definition MustParseCertDuration :: "string \<Rightarrow> duration option" where
  "MustParseCertDuration s = (case ParseCertDuration s of Inl err \<Rightarrow> None | Inr d \<Rightarrow> Some d)"

definition FormatCertDuration :: "duration \<Rightarrow> string" where
  "FormatCertDuration d =
     (if sint d \<le> 0 then ''0m''
      else let days = sint d div sint (24 * hour); hours = sint d div sint hour in
        if days > 0 \<and> sint d mod sint (24 * hour) = 0 then show_int days @ ''d''
        else if hours > 0 \<and> sint d mod sint hour = 0 then show_int hours @ ''h''
        else show_int (sint d div sint minute) @ ''m'')"

definition DefaultCAValidityStr :: string where "DefaultCAValidityStr = ''3650d''"
definition DefaultNodeValidityStr :: string where "DefaultNodeValidityStr = ''365d''"
definition DefaultCARenewalThresholdStr :: string where "DefaultCARenewalThresholdStr = ''60d''"
definition DefaultNodeRenewalThresholdStr :: string where "DefaultNodeRenewalThresholdStr = ''30d''"

subsection \<open>Maintenance windows (maintenance_window.go)\<close>

record cron =
  cron_LoadLocation :: "string \<Rightarrow> string result"
  cron_Parse :: "string \<Rightarrow> (string \<Rightarrow> time \<Rightarrow> time) result"
  cron_Offset :: "string \<Rightarrow> time \<Rightarrow> int"

record MaintenanceWindowChecker =
  mwc_Schedule :: string
  mwc_Duration :: duration
  mwc_Timezone :: string

definition NewMaintenanceWindowChecker :: "cron \<Rightarrow> string \<Rightarrow> duration \<Rightarrow> string \<Rightarrow> MaintenanceWindowChecker result" where
  "NewMaintenanceWindowChecker C schedule d timezone =
     (if timezone \<noteq> [] \<and> timezone \<noteq> ''UTC''
      then (case cron_LoadLocation C timezone of Inl err \<Rightarrow> Inl err
        | Inr loc \<Rightarrow> Inr \<lparr>mwc_Schedule = schedule, mwc_Duration = d, mwc_Timezone = loc\<rparr>)
      else Inr \<lparr>mwc_Schedule = schedule, mwc_Duration = d, mwc_Timezone = ''UTC''\<rparr>)"

text \<open>The zero \<open>time.Time\<close>, the first of January of the year 1.\<close>

definition zero_time :: time where
  "zero_time = - 62135596800000000000"

partial_function (option) last_scheduled :: "(time \<Rightarrow> time) \<Rightarrow> time \<Rightarrow> time \<Rightarrow> time option" where
  "last_scheduled next_start now lastScheduled =
     (let nextScheduled = next_start lastScheduled in
      if nextScheduled > now then Some lastScheduled else last_scheduled next_start now nextScheduled)"

definition IsWithinWindow :: "cron \<Rightarrow> MaintenanceWindowChecker \<Rightarrow> time \<Rightarrow> bool result option" where
  "IsWithinWindow C m now = (case cron_Parse C (mwc_Schedule m) of
     Inl err \<Rightarrow> Some (Inl err)
   | Inr schedule \<Rightarrow>
      (let checkStart = now + sint (- mwc_Duration m - 24 * hour) in
       case last_scheduled (schedule (mwc_Timezone m)) now checkStart of
         None \<Rightarrow> None
       | Some lastScheduled \<Rightarrow> Some (Inr (
           lastScheduled \<noteq> checkStart \<and> lastScheduled < now \<and> now < lastScheduled + sint (mwc_Duration m)))))"

definition NextWindowStart :: "cron \<Rightarrow> MaintenanceWindowChecker \<Rightarrow> time \<Rightarrow> time result" where
  "NextWindowStart C m after = (case cron_Parse C (mwc_Schedule m) of
     Inl err \<Rightarrow> Inl err | Inr schedule \<Rightarrow> Inr (schedule (mwc_Timezone m) after))"

definition TimeUntilNextWindow :: "cron \<Rightarrow> MaintenanceWindowChecker \<Rightarrow> time \<Rightarrow> duration result" where
  "TimeUntilNextWindow C m now = (case NextWindowStart C m now of Inl err \<Rightarrow> Inl err | Inr t \<Rightarrow> Inr (time_sub t now))"

fun CheckMaintenanceWindows :: "cron \<Rightarrow> MaintenanceWindowChecker list \<Rightarrow> time \<Rightarrow> bool result option" where
  "CheckMaintenanceWindows C [] now = Some (Inr False)"
| "CheckMaintenanceWindows C (w # ws) now = (case IsWithinWindow C w now of
     None \<Rightarrow> None
   | Some (Inl err) \<Rightarrow> Some (Inl err)
   | Some (Inr inWindow) \<Rightarrow> if inWindow then Some (Inr True) else CheckMaintenanceWindows C ws now)"

subsection \<open>When the CA may be renewed (certificate_maintenance.go)\<close>

text \<open>A start of a window comes with the zone it is printed in.\<close>

record CAMaintenanceCheckResult =
  cmr_AllowRenewal :: bool
  cmr_NextWindowStart :: "time \<times> string"
  cmr_ForceRenewal :: bool

definition or_duration :: "string \<Rightarrow> duration \<Rightarrow> duration" where
  "or_duration text d = (if text = [] then d else case ParseCertDuration text of Inl err \<Rightarrow> d | Inr x \<Rightarrow> x)"

definition earlier_start :: "time \<times> string \<Rightarrow> time \<times> string \<Rightarrow> time \<times> string" where
  "earlier_start found start = (if fst found = zero_time \<or> fst start < fst found then start else found)"

definition window_checker :: "cron \<Rightarrow> MaintenanceWindow \<Rightarrow> MaintenanceWindowChecker result" where
  "window_checker C window =
     NewMaintenanceWindowChecker C (mw_Schedule window) (or_duration (mw_Duration window) (4 * hour)) (mw_Timezone window)"

fun scan_windows :: "cron \<Rightarrow> time \<Rightarrow> MaintenanceWindow list \<Rightarrow> time \<times> string \<Rightarrow> (bool \<times> time \<times> string) option" where
  "scan_windows C now [] nextWindow = Some (False, nextWindow)"
| "scan_windows C now (window # ws) nextWindow =
     (case window_checker C window of
        Inl err \<Rightarrow> scan_windows C now ws nextWindow
      | Inr checker \<Rightarrow> (case IsWithinWindow C checker now of
          None \<Rightarrow> None
        | Some (Inl err) \<Rightarrow> scan_windows C now ws nextWindow
        | Some (Inr inWindow) \<Rightarrow> if inWindow then Some (True, nextWindow)
            else (case NextWindowStart C checker now of
                Inl err \<Rightarrow> scan_windows C now ws nextWindow
              | Inr start \<Rightarrow> scan_windows C now ws (earlier_start nextWindow (start, mwc_Timezone checker)))))"

definition allow_now :: CAMaintenanceCheckResult where
  "allow_now = \<lparr>cmr_AllowRenewal = True, cmr_NextWindowStart = (zero_time, ''UTC''), cmr_ForceRenewal = False\<rparr>"

definition decide_renewal :: "CAMaintenanceConfig \<Rightarrow> time \<Rightarrow> time \<Rightarrow> bool \<times> time \<times> string \<Rightarrow> CAMaintenanceCheckResult" where
  "decide_renewal caConfig now caExpiry = (\<lambda>(inWindow, nextWindow).
     if inWindow then allow_now
     else if sint (time_sub caExpiry now) < sint (or_duration (cam_MaxWaitDuration caConfig) (7 * 24 * hour)) \<and>
       fst nextWindow \<noteq> zero_time \<and> fst nextWindow > caExpiry
     then allow_now\<lparr>cmr_ForceRenewal := True\<rparr>
     else allow_now\<lparr>cmr_AllowRenewal := False, cmr_NextWindowStart := nextWindow\<rparr>)"

definition checkCAMaintenanceWindow :: "'s env \<Rightarrow> cron \<Rightarrow> WazuhCluster \<Rightarrow> time \<Rightarrow> ('s, CAMaintenanceCheckResult option) io" where
  "checkCAMaintenanceWindow E C cluster caExpiry =
     (case Option.bind (wc_TLS cluster) tls_CAMaintenance of
        None \<Rightarrow> ret (Some allow_now)
      | Some caConfig \<Rightarrow>
          if \<not> cam_AutoRestart caConfig then ret (Some (allow_now\<lparr>cmr_AllowRenewal := False\<rparr>))
          else if cam_MaintenanceWindows caConfig = [] then ret (Some allow_now)
          else do {
            now \<leftarrow> time_now E;
            ret (map_option (decide_renewal caConfig now caExpiry)
              (scan_windows C now (cam_MaintenanceWindows caConfig) (zero_time, ''UTC''))) })"

subsection \<open>Durations survive printing\<close>

lemma no_white_digit: "is_digit c \<Longrightarrow> \<not> is_blank c \<and> c \<noteq> newline"
  by (auto simp: is_digit_def is_blank_def newline_def)

lemma TrimSpace_unit:
  assumes "list_all is_digit ds" and "ds \<noteq> []" and "\<not> is_blank u" and "u \<noteq> newline"
  shows "TrimSpace (ds @ [u]) = ds @ [u]"
proof -
  obtain c cs where ds: "ds = c # cs" using assms(2) by (cases ds) auto
  then have "\<not> is_blank c" "c \<noteq> newline" using assms(1) no_white_digit [of c] by simp_all
  then show ?thesis using assms(3,4) ds by (simp add: TrimSpace_def)
qed

lemma show_int_digits: "0 \<le> k \<Longrightarrow> list_all is_digit (show_int k)"
  by (simp add: show_int_def show_nat_digits)

lemma unit_lengths [simp]:
  "unit_length CHR ''d'' = Some (24 * hour)" "unit_length CHR ''h'' = Some hour" "unit_length CHR ''m'' = Some minute"
  by (simp_all add: unit_length_def)

lemma parse_printed:
  assumes "0 \<le> k" and "in_i64 k" and "unit_length u = Some d" and "\<not> is_blank u" and "u \<noteq> newline"
  shows "ParseCertDuration (show_int k @ [u]) = Inr (word_of_int k * d)"
  using assms by (simp add: ParseCertDuration_def Let_def TrimSpace_unit show_int_digits show_int_nonempty atoi_show_int)

lemma exact_units:
  fixes d u :: duration
  assumes "0 \<le> sint d" and "0 < sint u" and "sint d mod sint u = 0"
  shows "0 \<le> sint d div sint u" and "in_i64 (sint d div sint u)" and "word_of_int (sint d div sint u) * u = d"
proof -
  have "sint d div sint u \<le> sint d" using assms(1,2) by (smt (verit) div_by_1 zdiv_mono2)
  moreover show "0 \<le> sint d div sint u" using assms(1,2) by (simp add: pos_imp_zdiv_nonneg_iff)
  ultimately show "in_i64 (sint d div sint u)" using i64_upper [of d] by (simp add: in_i64_def)
  have "sint d div sint u * sint u = sint d" using div_mult_mod_eq [of "sint d" "sint u"] assms(3) by simp
  moreover have "word_of_int (sint d div sint u) * u = word_of_int (sint d div sint u * sint u)" by simp
  ultimately have "word_of_int (sint d div sint u) * u = word_of_int (sint d)" by (simp only:)
  then show "word_of_int (sint d div sint u) * u = d" by simp
qed

text \<open>
  Durations survive printing. Every non-negative duration of whole minutes is printed as a
  text that parses to the same duration again, whichever of the units days, hours and minutes
  the printer picks. In the other direction the multiplication may wrap: a number of days above
  106751 does not fit into 64 bits, and 213504 days, which the schema admits, is read as a
  duration of about 25 minutes.
\<close>

theorem cert_duration_roundtrip:
  assumes "0 \<le> sint d" and "sint d mod sint minute = 0"
  shows "ParseCertDuration (FormatCertDuration d) = Inr d \<and> ParseCertDuration ''213504d'' = Inr 1526290448384"
proof
  have units: "\<not> is_blank CHR ''d''" "\<not> is_blank CHR ''h''" "\<not> is_blank CHR ''m''"
      "CHR ''d'' \<noteq> newline" "CHR ''h'' \<noteq> newline" "CHR ''m'' \<noteq> newline"
    by (simp_all add: is_blank_def newline_def)
  have print: "ParseCertDuration (show_int (sint d div sint x) @ [u]) = Inr d"
    if "unit_length u = Some x" "0 < sint x" "sint d mod sint x = 0" "\<not> is_blank u" "u \<noteq> newline" for u x
    using parse_printed [OF exact_units(1,2) [OF assms(1) that(2,3)] that(1,4,5)] exact_units(3) [OF assms(1) that(2,3)] by simp
  have day: "sint (24 * hour) = 86400000000000" by (simp add: hour_def minute_def second_def)
  show "ParseCertDuration (FormatCertDuration d) = Inr d"
  proof (cases "sint d = 0")
    case True
    then have "d = 0" by (simp add: signed_eq_0_iff)
    then show ?thesis using parse_printed [of 0 "CHR ''m''"] units by (simp add: FormatCertDuration_def in_i64_def show_int_def show_nat.simps)
  next
    case False
    then show ?thesis
      using assms(1) print [of "CHR ''d''"] print [of "CHR ''h''"] print [of "CHR ''m''"] assms(2) units
      by (simp add: FormatCertDuration_def Let_def day)
  qed
  have "ParseCertDuration (show_int 213504 @ [CHR ''d'']) = Inr (word_of_int 213504 * (24 * hour))"
    using units by (intro parse_printed) (simp_all add: in_i64_def)
  moreover have "show_int 213504 = ''213504''" by code_simp
  ultimately show "ParseCertDuration ''213504d'' = Inr 1526290448384" by (simp add: hour_def minute_def second_def)
qed

theorem cert_duration_roundtrip_witness: "ParseCertDuration (FormatCertDuration (90 * minute)) = Inr (90 * minute)"
proof -
  have "0 \<le> sint (90 * minute)" "sint (90 * minute) mod sint minute = 0" by (simp_all add: minute_def second_def)
  from cert_duration_roundtrip [OF this] show ?thesis by blast
qed


subsection \<open>The loop over the starts of a window\<close>

text \<open>What the cron library documents of \<open>Next\<close>: the first start after an instant.\<close>

definition starts_at :: "time set \<Rightarrow> (time \<Rightarrow> time) \<Rightarrow> bool" where
  "starts_at S next_start \<longleftrightarrow> (\<forall>t. next_start t \<in> S \<and> t < next_start t \<and> (\<forall>s \<in> S. t < s \<longrightarrow> next_start t \<le> s))"

lemma last_scheduled_ends:
  assumes "starts_at S next_start"
  shows "\<exists>r. last_scheduled next_start now t = Some r \<and> (r = t \<or> r \<in> S \<and> t < r \<and> r \<le> now) \<and> (\<forall>s \<in> S. t < s \<and> s \<le> now \<longrightarrow> s \<le> r)"
proof (induction "nat (now - t)" arbitrary: t rule: less_induct)
  case less
  have n: "next_start t \<in> S" "t < next_start t" "\<forall>s \<in> S. t < s \<longrightarrow> next_start t \<le> s"
    using assms unfolding starts_at_def by blast+
  show ?case
  proof (cases "next_start t > now")
    case True
    then show ?thesis using n(3) by (subst last_scheduled.simps) (auto simp: Let_def)
  next
    case False
    then have "nat (now - next_start t) < nat (now - t)" using n(2) by simp
    from less.hyps [OF this] obtain r where r: "last_scheduled next_start now (next_start t) = Some r"
        "r = next_start t \<or> r \<in> S \<and> next_start t < r \<and> r \<le> now"
        "\<forall>s \<in> S. next_start t < s \<and> s \<le> now \<longrightarrow> s \<le> r" by blast
    have "last_scheduled next_start now t = Some r"
      using r(1) False by (subst last_scheduled.simps) (simp add: Let_def)
    moreover have "r \<in> S \<and> t < r \<and> r \<le> now" using r(2) n(1,2) False by auto
    moreover have "\<forall>s \<in> S. t < s \<and> s \<le> now \<longrightarrow> s \<le> r" using r(2,3) n(3) by fastforce
    ultimately show ?thesis by blast
  qed
qed

lemma last_scheduled_is_last: "last_scheduled next_start now t = Some r \<Longrightarrow> now < next_start r"
  by (rule last_scheduled.raw_induct [where P = "\<lambda>next_start now t r. now < next_start r"]) (auto simp: Let_def split: if_splits)

lemma within_window:
  assumes "cron_Parse C (mwc_Schedule m) = Inr schedule" and "starts_at S (schedule (mwc_Timezone m))"
    and "0 \<le> sint (mwc_Duration m)" and "sint (mwc_Duration m) + 86400000000000 \<le> 2 ^ 63"
  shows "IsWithinWindow C m now = Some (Inr (now \<notin> S \<and> (\<exists>s \<in> S. s < now \<and> now < s + sint (mwc_Duration m))))"
proof -
  let ?d = "sint (mwc_Duration m)"
  have start: "sint (- mwc_Duration m - 24 * hour) = - ?d - 86400000000000"
  proof -
    have "- mwc_Duration m - 24 * hour = word_of_int (- ?d - 86400000000000)" by (simp add: hour_def minute_def second_def)
    then show ?thesis using assms(3,4) by (simp only:) (rule sint_of_int_in_range, simp_all)
  qed
  obtain r where r: "last_scheduled (schedule (mwc_Timezone m)) now (now - ?d - 86400000000000) = Some r"
      "r = now - ?d - 86400000000000 \<or> r \<in> S \<and> now - ?d - 86400000000000 < r \<and> r \<le> now"
      "\<forall>s \<in> S. now - ?d - 86400000000000 < s \<and> s \<le> now \<longrightarrow> s \<le> r"
    using last_scheduled_ends [OF assms(2)] by blast
  have "(r \<noteq> now - ?d - 86400000000000 \<and> r < now \<and> now < r + ?d) \<longleftrightarrow> now \<notin> S \<and> (\<exists>s \<in> S. s < now \<and> now < s + ?d)"
    using r(2,3) assms(3) by (smt (verit))
  moreover have c: "now + sint (- mwc_Duration m - 24 * hour) = now - ?d - 86400000000000" using start by simp
  ultimately show ?thesis unfolding IsWithinWindow_def assms(1) Let_def sum.case c r(1) option.case by (simp only:)
qed

text \<open>
  C29: The window check decides. Let a schedule start at a set of instants, the next of which
  the cron library finds. Then the check of a window ends, for every instant and every duration
  of less than about 292 years, and says yes exactly when some start lies before the instant and
  the window that began there has not ended - but no at the instant of a start itself.
\<close>

theorem IsWithinWindow_decides:
  assumes "cron_Parse C (mwc_Schedule m) = Inr schedule" and "starts_at S (schedule (mwc_Timezone m))"
    and "0 \<le> sint (mwc_Duration m)" and "sint (mwc_Duration m) + 86400000000000 \<le> 2 ^ 63"
  shows "IsWithinWindow C m now = Some (Inr (now \<notin> S \<and> (\<exists>s \<in> S. s < now \<and> now < s + sint (mwc_Duration m))))"
  by (rule within_window [OF assms])

text \<open>
  C40: A schedule that never starts hangs the operator. For a schedule that parses but that no
  date satisfies, such as the 30th of February, the cron library returns the zero time as the
  next start; the window check then looks for the next start after the zero time again and
  again, and with it the check of the CA, and the reconciliation, never return.
\<close>

theorem impossible_schedule_hangs:
  assumes "cron_Parse C (mw_Schedule window) = Inr schedule" and "\<And>z t. schedule z t = zero_time"
    and "mw_Timezone window = []" and "zero_time \<le> now"
    and "wc_TLS cluster = Some tls" and "tls_CAMaintenance tls = Some caConfig" and "cam_AutoRestart caConfig"
    and "cam_MaintenanceWindows caConfig = window # ws" and "fst (e_now E (w_env w)) = now"
  shows "fst (run_state (checkCAMaintenanceWindow E C cluster caExpiry) w) = None"
proof -
  have "last_scheduled (schedule z) now t = None" for z t
    using last_scheduled_is_last [of "schedule z" now t] assms(2,4) by (cases "last_scheduled (schedule z) now t") auto
  then have "scan_windows C now (window # ws) nextWindow = None" for nextWindow
    using assms(1,3) by (simp add: window_checker_def NewMaintenanceWindowChecker_def IsWithinWindow_def Let_def)
  moreover obtain s' where "e_now E (w_env w) = (now, s')" using assms(9) by (cases "e_now E (w_env w)") simp
  ultimately show ?thesis using assms(5-8)
    by (simp add: checkCAMaintenanceWindow_def run_bind time_now_def run_ask del: scan_windows.simps)
qed


subsection \<open>The decision over the CA\<close>

definition active_window :: "cron \<Rightarrow> time \<Rightarrow> MaintenanceWindow \<Rightarrow> bool" where
  "active_window C now window \<longleftrightarrow> (\<exists>c. window_checker C window = Inr c \<and> IsWithinWindow C c now = Some (Inr True))"

definition next_starts :: "cron \<Rightarrow> time \<Rightarrow> MaintenanceWindow list \<Rightarrow> time set" where
  "next_starts C now ws = {s. \<exists>window \<in> set ws. \<exists>c. window_checker C window = Inr c \<and> NextWindowStart C c now = Inr s}"

text \<open>The schedules of these windows keep starting, where they parse; others may not.\<close>

definition keep_starting :: "cron \<Rightarrow> MaintenanceWindow list \<Rightarrow> bool" where
  "keep_starting C ws \<longleftrightarrow> (\<forall>window \<in> set ws. \<forall>schedule z. cron_Parse C (mw_Schedule window) = Inr schedule \<longrightarrow> (\<exists>S. starts_at S (schedule z)))"

lemma checker_schedule: "window_checker C window = Inr c \<Longrightarrow> mwc_Schedule c = mw_Schedule window"
  by (auto simp: window_checker_def NewMaintenanceWindowChecker_def split: if_splits sum.splits)

lemma IsWithinWindow_ends:
  assumes "\<And>z. \<exists>S. starts_at S (schedule z)" and "cron_Parse C (mwc_Schedule c) = Inr schedule"
  shows "\<exists>b. IsWithinWindow C c now = Some (Inr b)" and "now < schedule z now"
proof -
  obtain S where S: "starts_at S (schedule (mwc_Timezone c))" using assms(1) by blast
  show "\<exists>b. IsWithinWindow C c now = Some (Inr b)"
    using last_scheduled_ends [OF S, of now "now + sint (- mwc_Duration c - 24 * hour)"] assms(2)
    by (auto simp: IsWithinWindow_def Let_def)
  show "now < schedule z now" using assms(1) [of z] by (auto simp: starts_at_def)
qed

lemma next_starts_Cons:
  "next_starts C now (window # ws) = (case window_checker C window of Inl err \<Rightarrow> {}
     | Inr c \<Rightarrow> (case NextWindowStart C c now of Inl err \<Rightarrow> {} | Inr s \<Rightarrow> {s})) \<union> next_starts C now ws"
  by (auto simp: next_starts_def split: sum.splits)

lemma scan_windows_spec:
  assumes "keep_starting C ws" and "zero_time < now"
  shows "\<exists>b nw'. scan_windows C now ws nw = Some (b, nw') \<and> (b \<longleftrightarrow> (\<exists>window \<in> set ws. active_window C now window)) \<and>
    (\<not> b \<longrightarrow> (fst nw' = zero_time \<longleftrightarrow> fst nw = zero_time \<and> next_starts C now ws = {}) \<and>
      (\<forall>e. fst nw' \<noteq> zero_time \<longrightarrow> (e < fst nw' \<longleftrightarrow> (fst nw = zero_time \<or> e < fst nw) \<and> (\<forall>s \<in> next_starts C now ws. e < s))))"
  using assms(1)
proof (induction ws arbitrary: nw)
  case Nil
  then show ?case by (auto simp: next_starts_def)
next
  case (Cons window ws)
  have "keep_starting C ws" using Cons.prems by (simp add: keep_starting_def)
  note IH = Cons.IH [OF this]
  show ?case
  proof (cases "window_checker C window")
    case (Inl err)
    then show ?thesis using IH [of nw] by (simp add: next_starts_Cons active_window_def)
  next
    case c: (Inr c)
    show ?thesis
    proof (cases "cron_Parse C (mwc_Schedule c)")
      case (Inl err)
      then show ?thesis using IH [of nw] c
        by (simp add: next_starts_Cons active_window_def IsWithinWindow_def NextWindowStart_def)
    next
      case (Inr schedule)
      let ?start = "schedule (mwc_Timezone c) now"
      have fires: "\<exists>S. starts_at S (schedule z)" for z using Cons.prems Inr checker_schedule [OF c] by (auto simp: keep_starting_def)
      obtain b where b: "IsWithinWindow C c now = Some (Inr b)" using IsWithinWindow_ends(1) [OF fires Inr] by blast
      have next_: "NextWindowStart C c now = Inr ?start" using Inr by (simp add: NextWindowStart_def)
      have "zero_time < ?start" using IsWithinWindow_ends(2) [OF fires Inr] assms(2) less_trans by blast
      then have "fst (earlier_start nw (?start, mwc_Timezone c)) \<noteq> zero_time \<and>
          (e < fst (earlier_start nw (?start, mwc_Timezone c)) \<longleftrightarrow> (fst nw = zero_time \<or> e < fst nw) \<and> e < ?start)" for e
        by (auto simp: earlier_start_def)
      then show ?thesis
        using IH [of "earlier_start nw (?start, mwc_Timezone c)"] c b next_
        by (cases b) (auto simp: next_starts_Cons active_window_def)
    qed
  qed
qed


text \<open>
  C28: When the CA may be renewed. With automatic restarts and maintenance windows configured,
  and where the schedules of these windows keep starting, the check ends. It allows a renewal
  exactly when one of the windows that parse is active or the renewal is forced, and forces it
  exactly when none is active, at least one window parses, every one of them starts again only after the CA has
  expired, and the CA expires within the maximal wait. So a renewal is never forced merely
  because it has waited for that long; and where no window parses it is never allowed at all.
\<close>

theorem ca_renewal_decision:
  assumes "wc_TLS cluster = Some tls" and "tls_CAMaintenance tls = Some caConfig" and "cam_AutoRestart caConfig"
    and "cam_MaintenanceWindows caConfig \<noteq> []" and "e_now E (w_env w) = (now, s')" and "zero_time < now" and "keep_starting C (cam_MaintenanceWindows caConfig)"
  shows "\<exists>res. run_state (checkCAMaintenanceWindow E C cluster caExpiry) w = (Some res, w\<lparr>w_env := s'\<rparr>) \<and>
    (cmr_AllowRenewal res \<longleftrightarrow> (\<exists>window \<in> set (cam_MaintenanceWindows caConfig). active_window C now window) \<or> cmr_ForceRenewal res) \<and>
    (cmr_ForceRenewal res \<longleftrightarrow> (\<forall>window \<in> set (cam_MaintenanceWindows caConfig). \<not> active_window C now window) \<and>
      next_starts C now (cam_MaintenanceWindows caConfig) \<noteq> {} \<and> (\<forall>s \<in> next_starts C now (cam_MaintenanceWindows caConfig). caExpiry < s) \<and>
      sint (time_sub caExpiry now) < sint (or_duration (cam_MaxWaitDuration caConfig) (7 * 24 * hour)))"
proof -
  let ?ws = "cam_MaintenanceWindows caConfig"
  obtain b nw where spec: "scan_windows C now ?ws (zero_time, ''UTC'') = Some (b, nw) \<and> (b \<longleftrightarrow> (\<exists>window \<in> set ?ws. active_window C now window)) \<and>
      (\<not> b \<longrightarrow> (fst nw = zero_time \<longleftrightarrow> fst (zero_time, ''UTC'') = zero_time \<and> next_starts C now ?ws = {}) \<and>
        (\<forall>e. fst nw \<noteq> zero_time \<longrightarrow> (e < fst nw \<longleftrightarrow> (fst (zero_time, ''UTC'') = zero_time \<or> e < fst (zero_time, ''UTC'')) \<and> (\<forall>s \<in> next_starts C now ?ws. e < s))))"
    using scan_windows_spec [OF assms(7,6), of "(zero_time, ''UTC'')"] by blast
  then have scan: "scan_windows C now ?ws (zero_time, ''UTC'') = Some (b, nw)" "b \<longleftrightarrow> (\<exists>window \<in> set ?ws. active_window C now window)"
      "\<not> b \<longrightarrow> (fst nw = zero_time \<longleftrightarrow> next_starts C now ?ws = {})"
      "\<not> b \<and> fst nw \<noteq> zero_time \<longrightarrow> (caExpiry < fst nw \<longleftrightarrow> (\<forall>s \<in> next_starts C now ?ws. caExpiry < s))"
    by simp_all
  have run: "run_state (checkCAMaintenanceWindow E C cluster caExpiry) w = (Some (decide_renewal caConfig now caExpiry (b, nw)), w\<lparr>w_env := s'\<rparr>)"
    using assms(1-5) scan(1) by (simp add: checkCAMaintenanceWindow_def run_bind time_now_def run_ask)
  show ?thesis
  proof (cases b)
    case True
    then show ?thesis using run scan(2) by (auto simp: decide_renewal_def allow_now_def)
  next
    case False
    have "cmr_AllowRenewal (decide_renewal caConfig now caExpiry (b, nw)) \<longleftrightarrow> cmr_ForceRenewal (decide_renewal caConfig now caExpiry (b, nw))"
        "cmr_ForceRenewal (decide_renewal caConfig now caExpiry (b, nw)) \<longleftrightarrow> next_starts C now ?ws \<noteq> {} \<and> (\<forall>s \<in> next_starts C now ?ws. caExpiry < s) \<and>
          sint (time_sub caExpiry now) < sint (or_duration (cam_MaxWaitDuration caConfig) (7 * 24 * hour))"
      using False scan(3,4) by (auto simp: decide_renewal_def allow_now_def)
    then show ?thesis using run scan(2) False by blast
  qed
qed

subsection \<open>Examples\<close>

text \<open>A cron library that knows an hourly schedule and one that never starts.\<close>

definition hours_cron :: cron where
  "hours_cron = \<lparr>cron_LoadLocation = (\<lambda>z. Inl not_found), cron_Parse = (\<lambda>text.
       if text = ''0 * * * *'' then Inr (\<lambda>z t. (t div 3600000000000 + 1) * 3600000000000)
       else if text = ''0 0 30 2 *'' then Inr (\<lambda>z t. zero_time) else Inl not_found),
     cron_Offset = (\<lambda>z t. 0)\<rparr>"

lemma multiples_start:
  fixes h :: int
  assumes "0 < h"
  shows "starts_at {s. s mod h = 0} (\<lambda>t. (t div h + 1) * h)"
proof -
  have "(t div h + 1) * h \<le> s" if s: "s mod h = 0" "t < s" for s t
  proof -
    have "s = s div h * h" using s(1) div_mult_mod_eq [of s h] by simp
    moreover have "t div h * h \<le> t" using assms div_mult_mod_eq [of t h] pos_mod_sign [of h t] by linarith
    ultimately have "t div h * h < s div h * h" using s(2) by linarith
    then have "t div h + 1 \<le> s div h" using assms by simp
    then show ?thesis using assms \<open>s = s div h * h\<close> by (metis mult_right_mono order_less_imp_le)
  qed
  moreover have "t < (t div h + 1) * h" for t
    unfolding distrib_right using assms div_mult_mod_eq [of t h] pos_mod_bound [of h t] by linarith
  ultimately show ?thesis by (simp add: starts_at_def)
qed

lemma hourly_starts: "starts_at {s. s mod 3600000000000 = 0} (\<lambda>t. (t div 3600000000000 + 1) * 3600000000000)"
  by (rule multiples_start) simp

theorem IsWithinWindow_decides_witness:
  "IsWithinWindow hours_cron \<lparr>mwc_Schedule = ''0 * * * *'', mwc_Duration = 30 * minute, mwc_Timezone = ''UTC''\<rparr> (10 * 60000000000) = Some (Inr True)"
proof -
  let ?m = "\<lparr>mwc_Schedule = ''0 * * * *'', mwc_Duration = 30 * minute, mwc_Timezone = ''UTC''\<rparr>"
  have "cron_Parse hours_cron (mwc_Schedule ?m) = Inr (\<lambda>z t. (t div 3600000000000 + 1) * 3600000000000)" by (simp add: hours_cron_def)
  from IsWithinWindow_decides [of hours_cron ?m, OF this hourly_starts, of "10 * 60000000000"]
  show ?thesis by (simp add: minute_def second_def) (auto intro!: exI [of _ 0])
qed

definition window_config :: "MaintenanceWindow \<Rightarrow> CAMaintenanceConfig" where
  "window_config window = \<lparr>cam_AutoRestart = True, cam_MaintenanceWindows = [window], cam_MaxWaitDuration = []\<rparr>"

definition window_tls :: "MaintenanceWindow \<Rightarrow> TLSConfig" where
  "window_tls window = \<lparr>tls_Enabled = None, tls_CertConfig = None, tls_HotReload = None, tls_CustomCerts = None, tls_CAMaintenance = Some (window_config window)\<rparr>"

lemma window_settings:
  "wc_TLS (empty_cluster\<lparr>wc_TLS := Some (window_tls window)\<rparr>) = Some (window_tls window)"
  "tls_CAMaintenance (window_tls window) = Some (window_config window)" "cam_AutoRestart (window_config window)"
  "cam_MaintenanceWindows (window_config window) = [window]" "cam_MaxWaitDuration (window_config window) = []"
  by (simp_all add: window_tls_def window_config_def)

theorem impossible_schedule_hangs_witness:
  "fst (run_state (checkCAMaintenanceWindow (dead_env :: unit env) hours_cron
     (empty_cluster\<lparr>wc_TLS := Some (window_tls \<lparr>mw_Schedule = ''0 0 30 2 *'', mw_Duration = [], mw_Timezone = []\<rparr>)\<rparr>) 0) (new_world ())) = None"
proof -
  let ?window = "\<lparr>mw_Schedule = ''0 0 30 2 *'', mw_Duration = [], mw_Timezone = []\<rparr>"
  have "cron_Parse hours_cron (mw_Schedule ?window) = Inr (\<lambda>z t. zero_time)" by (simp add: hours_cron_def)
  then show ?thesis
    by (rule impossible_schedule_hangs [OF _ _ _ _ window_settings(1-4), where now = 0]) (simp_all add: zero_time_def dead_env_def)
qed

theorem ca_renewal_decision_witness:
  "\<exists>res. run_state (checkCAMaintenanceWindow (dead_env :: unit env) hours_cron
     (empty_cluster\<lparr>wc_TLS := Some (window_tls \<lparr>mw_Schedule = ''0 * * * *'', mw_Duration = [], mw_Timezone = []\<rparr>)\<rparr>) 5) (new_world ()) = (Some res, new_world ()) \<and> cmr_ForceRenewal res"
proof -
  let ?window = "\<lparr>mw_Schedule = ''0 * * * *'', mw_Duration = [], mw_Timezone = []\<rparr>"
  let ?m = "\<lparr>mwc_Schedule = ''0 * * * *'', mwc_Duration = 4 * hour, mwc_Timezone = ''UTC''\<rparr>"
  have regular: "keep_starting hours_cron (cam_MaintenanceWindows (window_config ?window))"
    using hourly_starts by (auto simp: keep_starting_def window_settings hours_cron_def)
  have checker: "window_checker hours_cron ?window = Inr ?m"
    by (simp add: window_checker_def NewMaintenanceWindowChecker_def or_duration_def)
  have parse: "cron_Parse hours_cron (mwc_Schedule ?m) = Inr (\<lambda>z t. (t div 3600000000000 + 1) * 3600000000000)" by (simp add: hours_cron_def)
  have "\<not> active_window hours_cron 0 ?window"
    using checker within_window [OF parse, of _ 0, OF hourly_starts] by (auto simp: active_window_def hour_def minute_def second_def)
  moreover have "next_starts hours_cron 0 [?window] = {3600000000000}"
    using checker parse by (simp add: next_starts_Cons NextWindowStart_def next_starts_def)
  moreover have "sint (time_sub 5 0) < sint (or_duration [] (7 * 24 * hour))" by (simp add: time_sub_def or_duration_def hour_def minute_def second_def)
  moreover have now: "e_now (dead_env :: unit env) (w_env (new_world ())) = (0, ())" "zero_time < 0" "new_world ()\<lparr>w_env := ()\<rparr> = new_world ()"
    by (simp_all add: dead_env_def zero_time_def new_world_def)
  moreover have "cam_MaintenanceWindows (window_config ?window) \<noteq> []" by (simp add: window_settings)
  ultimately show ?thesis
    using ca_renewal_decision [OF window_settings(1-3) _ now(1,2) regular, of 5]
    by (simp add: window_settings new_world_def) blast
qed

end
