(* ===== verification/Certificates.thy ===== *)
theory Certificates
  imports Maintenance Naming
begin

section \<open>Certificates (internal/certificates)\<close>

text \<open>
  The options of the certificates, their generation and the two reasons to renew one: its age
  and a change of the cluster domain. The cryptographic part of the standard library is an
  argument: fresh keys and serial numbers, the signature over a template, the DER forms of keys
  and certificates and their PEM encoding. The sources have a copy of the generator and parser
  for every kind of certificate; the model has the common part once. A certificate is what the
  operator sets in a template; no caller sets IP addresses.
\<close>

subsection \<open>The cryptographic library\<close>

datatype private_key = RSAKey string | ECDSAKey string | OtherKey string

datatype key_usage = DigitalSignature | KeyEncipherment | CertSign | CRLSign | ServerAuth | ClientAuth

record Certificate =
  x_SerialNumber :: int
  x_CommonName :: string
  x_Organization :: string
  x_OrganizationalUnit :: string
  x_Country :: string
  x_Province :: string
  x_Locality :: string
  x_NotBefore :: time
  x_NotAfter :: time
  x_IsCA :: bool
  x_KeyUsage :: "key_usage list"
  x_DNSNames :: "string list"

record 's crypto =
  cy_RSA :: "int \<Rightarrow> 's \<Rightarrow> private_key result \<times> 's"
  cy_ECDSA :: "string \<Rightarrow> 's \<Rightarrow> private_key result \<times> 's"
  cy_Serial :: "'s \<Rightarrow> int result \<times> 's"
  cy_CreateCertificate :: "Certificate \<Rightarrow> Certificate \<Rightarrow> private_key \<Rightarrow> private_key \<Rightarrow> 's \<Rightarrow> string result \<times> 's"
  cy_ParseCertificate :: "string \<Rightarrow> Certificate result"
  cy_MarshalPKCS1 :: "string \<Rightarrow> string"
  cy_MarshalPKCS8 :: "private_key \<Rightarrow> string result"
  cy_ParsePKCS1 :: "string \<Rightarrow> private_key result"
  cy_ParseEC :: "string \<Rightarrow> private_key result"
  cy_ParsePKCS8 :: "string \<Rightarrow> private_key result"
  cy_EncodePEM :: "string \<Rightarrow> string \<Rightarrow> string"
  cy_DecodePEM :: "string \<Rightarrow> (string \<times> string) option"

subsection \<open>Keys (key_algorithm.go)\<close>

definition GetCurve :: "string \<Rightarrow> string" where
  "GetCurve curve = (if curve = ''P521'' then ''P-521'' else if curve = ''P384'' then ''P-384'' else ''P-256'')"

definition GeneratePrivateKey :: "'s crypto \<Rightarrow> string \<Rightarrow> int \<Rightarrow> string \<Rightarrow> ('s, private_key result) io" where
  "GeneratePrivateKey cy algorithm keySize curve =
     (if algorithm = ''ECDSA'' then ask (cy_ECDSA cy (GetCurve curve))
      else ask (cy_RSA cy (if keySize \<le> 0 then 2048 else keySize)))"

definition EncodePrivateKeyToPEM :: "'s crypto \<Rightarrow> private_key \<Rightarrow> string result" where
  "EncodePrivateKeyToPEM cy key = (case key of
     RSAKey k \<Rightarrow> Inr (cy_EncodePEM cy ''RSA PRIVATE KEY'' (cy_MarshalPKCS1 cy k))
   | ECDSAKey k \<Rightarrow> (case cy_MarshalPKCS8 cy key of
       Inl err \<Rightarrow> Inl (wrapf ''failed to marshal ECDSA private key to PKCS#8: '' err)
     | Inr der \<Rightarrow> Inr (cy_EncodePEM cy ''PRIVATE KEY'' der))
   | OtherKey k \<Rightarrow> Inl (errorf ''unsupported private key type''))"

definition ParsePrivateKeyFromPEM :: "'s crypto \<Rightarrow> string \<Rightarrow> private_key result" where
  "ParsePrivateKeyFromPEM cy keyPEM = (case cy_DecodePEM cy keyPEM of
     None \<Rightarrow> Inl (errorf ''failed to decode private key PEM'')
   | Some (kind, der) \<Rightarrow>
      if kind = ''RSA PRIVATE KEY'' then cy_ParsePKCS1 cy der
      else if kind = ''EC PRIVATE KEY'' then cy_ParseEC cy der
      else if kind = ''PRIVATE KEY'' then cy_ParsePKCS8 cy der
      else Inl (errorf (''unsupported private key type: '' @ kind)))"

definition ConvertPrivateKeyPEMToPKCS8 :: "'s crypto \<Rightarrow> string \<Rightarrow> string result" where
  "ConvertPrivateKeyPEMToPKCS8 cy keyPEM = (case ParsePrivateKeyFromPEM cy keyPEM of
     Inl err \<Rightarrow> Inl (wrapf ''failed to parse private key for PKCS#8 conversion: '' err)
   | Inr key \<Rightarrow> (case cy_MarshalPKCS8 cy key of
       Inl err \<Rightarrow> Inl (wrapf ''failed to marshal private key to PKCS#8: '' err)
     | Inr der \<Rightarrow> Inr (cy_EncodePEM cy ''PRIVATE KEY'' der)))"

subsection \<open>Generation and parsing (ca.go, node_cert.go, admin_cert.go, dashboard_cert.go, filebeat_cert.go)\<close>

record CertConfig =
  cfg_CommonName :: string
  cfg_Organization :: string
  cfg_OrganizationalUnit :: string
  cfg_Country :: string
  cfg_State :: string
  cfg_Locality :: string
  cfg_Validity :: duration
  cfg_KeySize :: int
  cfg_KeyAlgorithm :: string
  cfg_ECDSACurve :: string
  cfg_DNSNames :: "string list"

record CertResult =
  cr_Certificate :: Certificate
  cr_PrivateKey :: private_key
  cr_CertificatePEM :: string
  cr_PrivateKeyPEM :: string

definition default_duration :: "string \<Rightarrow> duration" where
  "default_duration s = (case MustParseCertDuration s of None \<Rightarrow> 0 | Some d \<Rightarrow> d)"

definition default_config :: "string \<Rightarrow> string \<Rightarrow> CertConfig" where
  "default_config commonName validity = \<lparr>cfg_CommonName = commonName, cfg_Organization = ''Wazuh'', cfg_OrganizationalUnit = ''Security'',
     cfg_Country = ''US'', cfg_State = ''California'', cfg_Locality = ''San Francisco'', cfg_Validity = default_duration validity,
     cfg_KeySize = 2048, cfg_KeyAlgorithm = ''RSA'', cfg_ECDSACurve = ''P256'', cfg_DNSNames = []\<rparr>"

definition DefaultCAConfig :: "string \<Rightarrow> CertConfig" where
  "DefaultCAConfig commonName = default_config commonName DefaultCAValidityStr"

definition DefaultNodeCertConfig :: "string \<Rightarrow> CertConfig" where
  "DefaultNodeCertConfig commonName = default_config commonName DefaultNodeValidityStr"

definition DefaultAdminCertConfig :: CertConfig where
  "DefaultAdminCertConfig = default_config ''admin'' DefaultNodeValidityStr"

definition DefaultDashboardCertConfig :: CertConfig where
  "DefaultDashboardCertConfig = default_config ''dashboard'' DefaultNodeValidityStr"

definition DefaultFilebeatCertConfig :: CertConfig where
  "DefaultFilebeatCertConfig = default_config ''filebeat'' DefaultNodeValidityStr"

text \<open>The defaults for empty fields.\<close>

definition or_text :: "string \<Rightarrow> string \<Rightarrow> string" where
  "or_text s d = (if s = [] then d else s)"

definition with_defaults :: "string \<Rightarrow> CertConfig \<Rightarrow> CertConfig" where
  "with_defaults validity c = c\<lparr>cfg_Organization := or_text (cfg_Organization c) ''Wazuh'',
     cfg_OrganizationalUnit := or_text (cfg_OrganizationalUnit c) ''Security'', cfg_Country := or_text (cfg_Country c) ''US'',
     cfg_State := or_text (cfg_State c) ''California'', cfg_Locality := or_text (cfg_Locality c) ''San Francisco'',
     cfg_Validity := (if sint (cfg_Validity c) \<le> 0 then default_duration validity else cfg_Validity c),
     cfg_KeySize := (if cfg_KeySize c \<le> 0 then 2048 else cfg_KeySize c)\<rparr>"

definition template_of :: "CertConfig \<Rightarrow> int \<Rightarrow> time \<Rightarrow> bool \<Rightarrow> key_usage list \<Rightarrow> string list \<Rightarrow> Certificate" where
  "template_of c serialNumber notBefore isCA usage dnsNames = \<lparr>x_SerialNumber = serialNumber, x_CommonName = cfg_CommonName c,
     x_Organization = cfg_Organization c, x_OrganizationalUnit = cfg_OrganizationalUnit c, x_Country = cfg_Country c,
     x_Province = cfg_State c, x_Locality = cfg_Locality c, x_NotBefore = notBefore, x_NotAfter = notBefore + sint (cfg_Validity c),
     x_IsCA = isCA, x_KeyUsage = usage, x_DNSNames = dnsNames\<rparr>"

text \<open>
  What all generators do after the defaults: a key, a serial number, the signature by \<open>signer\<close>
  (the new key itself for a CA), the PEM forms. \<open>what\<close> names the certificate in errors, \<open>convert\<close>
  the last step on the key.
\<close>

definition sealed :: "'s crypto \<Rightarrow> string \<Rightarrow> private_key \<Rightarrow> (string \<Rightarrow> string result) \<Rightarrow> string \<Rightarrow> CertResult result" where
  "sealed cy what key convert certDER = (case cy_ParseCertificate cy certDER of
     Inl err \<Rightarrow> Inl (wrapf (''failed to parse '' @ what @ '' certificate: '') err)
   | Inr cert \<Rightarrow> (case EncodePrivateKeyToPEM cy key of
       Inl err \<Rightarrow> Inl (wrapf ''failed to encode private key: '' err)
     | Inr keyPEM \<Rightarrow> (case convert keyPEM of
         Inl err \<Rightarrow> Inl err
       | Inr keyPEM \<Rightarrow> Inr \<lparr>cr_Certificate = cert, cr_PrivateKey = key,
           cr_CertificatePEM = cy_EncodePEM cy ''CERTIFICATE'' certDER, cr_PrivateKeyPEM = keyPEM\<rparr>)))"

definition generate_signed :: "'s env \<Rightarrow> 's crypto \<Rightarrow> string \<Rightarrow> CertConfig \<Rightarrow> (int \<Rightarrow> time \<Rightarrow> Certificate) \<Rightarrow>
    (Certificate \<Rightarrow> private_key \<Rightarrow> Certificate \<times> private_key) \<Rightarrow> (string \<Rightarrow> string result) \<Rightarrow> ('s, CertResult result) io" where
  "generate_signed E cy what c template signer convert =
     try_io (GeneratePrivateKey cy (cfg_KeyAlgorithm c) (cfg_KeySize c) (cfg_ECDSACurve c)) (wrapf ''failed to generate private key: '') (\<lambda>key.
     try_io (ask (cy_Serial cy)) (wrapf ''failed to generate serial number: '') (\<lambda>serialNumber. do {
       notBefore \<leftarrow> time_now E;
       let t = template serialNumber notBefore;
       case signer t key of (parent, signKey) \<Rightarrow>
         try_io (ask (cy_CreateCertificate cy t parent key signKey)) (wrapf (''failed to create '' @ what @ '' certificate: ''))
           (\<lambda>certDER. ret (sealed cy what key convert certDER)) }))"

definition GenerateCA :: "'s env \<Rightarrow> 's crypto \<Rightarrow> CertConfig \<Rightarrow> ('s, CertResult result) io" where
  "GenerateCA E cy config =
     (if cfg_CommonName config = [] then ret (Inl (errorf ''common name is required''))
      else let c = with_defaults DefaultCAValidityStr config in
        generate_signed E cy ''CA'' c (\<lambda>n t. template_of c n t True [CertSign, CRLSign, DigitalSignature] [])
          (\<lambda>template key. (template, key)) Inr)"

definition signed_by :: "CertResult \<Rightarrow> Certificate \<Rightarrow> private_key \<Rightarrow> Certificate \<times> private_key" where
  "signed_by ca template key = (cr_Certificate ca, cr_PrivateKey ca)"

definition GenerateNodeCert :: "'s env \<Rightarrow> 's crypto \<Rightarrow> CertConfig \<Rightarrow> CertResult \<Rightarrow> ('s, CertResult result) io" where
  "GenerateNodeCert E cy config ca =
     (if cfg_CommonName config = [] then ret (Inl (errorf ''common name is required''))
      else let c = with_defaults DefaultNodeValidityStr config in
        generate_signed E cy ''node'' c
          (\<lambda>n t. template_of c n t False [DigitalSignature, KeyEncipherment, ServerAuth, ClientAuth] (cfg_DNSNames c)) (signed_by ca) Inr)"

definition named :: "string \<Rightarrow> CertConfig \<Rightarrow> CertConfig" where
  "named commonName c = c\<lparr>cfg_CommonName := or_text (cfg_CommonName c) commonName\<rparr>"

definition GenerateAdminCert :: "'s env \<Rightarrow> 's crypto \<Rightarrow> CertConfig \<Rightarrow> CertResult \<Rightarrow> ('s, CertResult result) io" where
  "GenerateAdminCert E cy config ca =
     (let c = with_defaults DefaultNodeValidityStr (named ''admin'' config) in
      generate_signed E cy ''admin'' c (\<lambda>n t. template_of c n t False [DigitalSignature, KeyEncipherment, ClientAuth] [''localhost'']) (signed_by ca)
        (\<lambda>keyPEM. case ConvertPrivateKeyPEMToPKCS8 cy keyPEM of
            Inl err \<Rightarrow> Inl (wrapf ''failed to convert admin private key to PKCS#8: '' err) | Inr k \<Rightarrow> Inr k))"

definition GenerateDashboardCert :: "'s env \<Rightarrow> 's crypto \<Rightarrow> CertConfig \<Rightarrow> CertResult \<Rightarrow> ('s, CertResult result) io" where
  "GenerateDashboardCert E cy config ca =
     (let c = with_defaults DefaultNodeValidityStr (named ''dashboard'' config) in
      generate_signed E cy ''dashboard'' c
        (\<lambda>n t. template_of c n t False [DigitalSignature, KeyEncipherment, ServerAuth, ClientAuth] (cfg_DNSNames c)) (signed_by ca) Inr)"

definition GenerateFilebeatCert :: "'s env \<Rightarrow> 's crypto \<Rightarrow> CertConfig \<Rightarrow> CertResult \<Rightarrow> ('s, CertResult result) io" where
  "GenerateFilebeatCert E cy config ca =
     (let c = with_defaults DefaultNodeValidityStr (named ''filebeat'' config) in
      generate_signed E cy ''filebeat'' c
        (\<lambda>n t. template_of c n t False [DigitalSignature, KeyEncipherment, ClientAuth] (cfg_DNSNames c)) (signed_by ca) Inr)"

text \<open>\<open>ParseCA\<close>, \<open>ParseNodeCert\<close>, \<open>ParseAdminCert\<close>, \<open>ParseDashboardCert\<close> and \<open>ParseFilebeatCert\<close> are the same function.\<close>

definition ParseNodeCert :: "'s crypto \<Rightarrow> string \<Rightarrow> string \<Rightarrow> CertResult result" where
  "ParseNodeCert cy certPEM keyPEM = (case cy_DecodePEM cy certPEM of
     None \<Rightarrow> Inl (errorf ''failed to decode certificate PEM'')
   | Some (kind, der) \<Rightarrow> (case cy_ParseCertificate cy der of
       Inl err \<Rightarrow> Inl (wrapf ''failed to parse certificate: '' err)
     | Inr cert \<Rightarrow> (case ParsePrivateKeyFromPEM cy keyPEM of
         Inl err \<Rightarrow> Inl (wrapf ''failed to parse private key: '' err)
       | Inr key \<Rightarrow> Inr \<lparr>cr_Certificate = cert, cr_PrivateKey = key, cr_CertificatePEM = certPEM, cr_PrivateKeyPEM = keyPEM\<rparr>)))"

definition ParseCA :: "'s crypto \<Rightarrow> string \<Rightarrow> string \<Rightarrow> CertResult result" where
  "ParseCA = ParseNodeCert"

definition NeedsRenewal :: "'s env \<Rightarrow> CertResult \<Rightarrow> duration \<Rightarrow> ('s, bool) io" where
  "NeedsRenewal E cert threshold = do {
     now \<leftarrow> time_now E;
     ret (now > x_NotAfter (cr_Certificate cert) + sint (- threshold)) }"


subsection \<open>Options (options.go, certificate_reconciler.go)\<close>

record CertificateOptions =
  co_CAValidity :: duration
  co_CARenewalThreshold :: duration
  co_NodeValidity :: duration
  co_RenewalThreshold :: duration
  co_AdminValidity :: duration
  co_AdminRenewalThreshold :: duration
  co_DashboardValidity :: duration
  co_DashboardRenewalThreshold :: duration
  co_FilebeatValidity :: duration
  co_FilebeatRenewalThreshold :: duration
  co_Country :: string
  co_State :: string
  co_Locality :: string
  co_Organization :: string
  co_OrganizationalUnit :: string
  co_KeyAlgorithm :: string
  co_ECDSACurve :: string

definition DefaultCertificateOptions :: CertificateOptions where
  "DefaultCertificateOptions = \<lparr>co_CAValidity = default_duration DefaultCAValidityStr, co_CARenewalThreshold = default_duration DefaultCARenewalThresholdStr,
     co_NodeValidity = default_duration DefaultNodeValidityStr, co_RenewalThreshold = default_duration DefaultNodeRenewalThresholdStr,
     co_AdminValidity = default_duration DefaultNodeValidityStr, co_AdminRenewalThreshold = default_duration DefaultNodeRenewalThresholdStr,
     co_DashboardValidity = default_duration DefaultNodeValidityStr, co_DashboardRenewalThreshold = default_duration DefaultNodeRenewalThresholdStr,
     co_FilebeatValidity = default_duration DefaultNodeValidityStr, co_FilebeatRenewalThreshold = default_duration DefaultNodeRenewalThresholdStr,
     co_Country = ''US'', co_State = ''California'', co_Locality = ''San Francisco'', co_Organization = ''Wazuh'',
     co_OrganizationalUnit = ''Security'', co_KeyAlgorithm = ''RSA'', co_ECDSACurve = ''P256''\<rparr>"

definition positive_or :: "duration \<Rightarrow> string \<Rightarrow> duration" where
  "positive_or d s = (if sint d > 0 then d else default_duration s)"

definition GetCAValidity :: "CertificateOptions \<Rightarrow> duration" where "GetCAValidity o1 = positive_or (co_CAValidity o1) DefaultCAValidityStr"
definition GetNodeValidity :: "CertificateOptions \<Rightarrow> duration" where "GetNodeValidity o1 = positive_or (co_NodeValidity o1) DefaultNodeValidityStr"
definition GetCARenewalThreshold :: "CertificateOptions \<Rightarrow> duration" where
  "GetCARenewalThreshold o1 = positive_or (co_CARenewalThreshold o1) DefaultCARenewalThresholdStr"
definition GetRenewalThreshold :: "CertificateOptions \<Rightarrow> duration" where
  "GetRenewalThreshold o1 = positive_or (co_RenewalThreshold o1) DefaultNodeRenewalThresholdStr"
definition GetAdminValidity :: "CertificateOptions \<Rightarrow> duration" where "GetAdminValidity o1 = positive_or (co_AdminValidity o1) DefaultNodeValidityStr"
definition GetAdminRenewalThreshold :: "CertificateOptions \<Rightarrow> duration" where
  "GetAdminRenewalThreshold o1 = positive_or (co_AdminRenewalThreshold o1) DefaultNodeRenewalThresholdStr"
definition GetDashboardValidity :: "CertificateOptions \<Rightarrow> duration" where "GetDashboardValidity o1 = positive_or (co_DashboardValidity o1) DefaultNodeValidityStr"
definition GetDashboardRenewalThreshold :: "CertificateOptions \<Rightarrow> duration" where
  "GetDashboardRenewalThreshold o1 = positive_or (co_DashboardRenewalThreshold o1) DefaultNodeRenewalThresholdStr"
definition GetFilebeatValidity :: "CertificateOptions \<Rightarrow> duration" where "GetFilebeatValidity o1 = positive_or (co_FilebeatValidity o1) DefaultNodeValidityStr"
definition GetFilebeatRenewalThreshold :: "CertificateOptions \<Rightarrow> duration" where
  "GetFilebeatRenewalThreshold o1 = positive_or (co_FilebeatRenewalThreshold o1) DefaultNodeRenewalThresholdStr"

text \<open>A duration that does not parse leaves the default in place, as does an empty one.\<close>

definition getCertOptions :: "WazuhCluster \<Rightarrow> CertificateOptions" where
  "getCertOptions cluster = (case Option.bind (wc_TLS cluster) tls_CertConfig of
     None \<Rightarrow> DefaultCertificateOptions
   | Some cfg \<Rightarrow> let d = DefaultCertificateOptions in
      \<lparr>co_CAValidity = or_duration (ccf_CAValidity cfg) (co_CAValidity d),
       co_CARenewalThreshold = or_duration (ccf_CARenewalThreshold cfg) (co_CARenewalThreshold d),
       co_NodeValidity = or_duration (ccf_IndexerValidity cfg) (co_NodeValidity d),
       co_RenewalThreshold = or_duration (ccf_IndexerRenewalThreshold cfg) (co_RenewalThreshold d),
       co_AdminValidity = or_duration (ccf_AdminValidity cfg) (co_AdminValidity d),
       co_AdminRenewalThreshold = or_duration (ccf_AdminRenewalThreshold cfg) (co_AdminRenewalThreshold d),
       co_DashboardValidity = or_duration (ccf_DashboardValidity cfg) (co_DashboardValidity d),
       co_DashboardRenewalThreshold = or_duration (ccf_DashboardRenewalThreshold cfg) (co_DashboardRenewalThreshold d),
       co_FilebeatValidity = or_duration (ccf_FilebeatValidity cfg) (co_FilebeatValidity d),
       co_FilebeatRenewalThreshold = or_duration (ccf_FilebeatRenewalThreshold cfg) (co_FilebeatRenewalThreshold d),
       co_Country = or_text (ccf_Country cfg) (co_Country d), co_State = or_text (ccf_State cfg) (co_State d),
       co_Locality = or_text (ccf_Locality cfg) (co_Locality d), co_Organization = or_text (ccf_Organization cfg) (co_Organization d),
       co_OrganizationalUnit = or_text (ccf_OrganizationalUnit cfg) (co_OrganizationalUnit d),
       co_KeyAlgorithm = or_text (ccf_KeyAlgorithm cfg) (co_KeyAlgorithm d), co_ECDSACurve = or_text (ccf_ECDSACurve cfg) (co_ECDSACurve d)\<rparr>)"

definition configured :: "CertificateOptions \<Rightarrow> duration \<Rightarrow> CertConfig \<Rightarrow> CertConfig" where
  "configured certOpts validity c = c\<lparr>cfg_Country := co_Country certOpts, cfg_State := co_State certOpts, cfg_Locality := co_Locality certOpts,
     cfg_Organization := co_Organization certOpts, cfg_OrganizationalUnit := co_OrganizationalUnit certOpts, cfg_Validity := validity,
     cfg_KeyAlgorithm := co_KeyAlgorithm certOpts, cfg_ECDSACurve := co_ECDSACurve certOpts\<rparr>"

subsection \<open>The cluster domain in a certificate (domain_validator.go)\<close>

text \<open>\<open>strings.LastIndex\<close>, as the text after the last occurrence.\<close>

fun after_last :: "string \<Rightarrow> string \<Rightarrow> string option" where
  "after_last sub [] = (if sub = [] then Some [] else None)"
| "after_last sub (c # s) = (case after_last sub s of Some t \<Rightarrow> Some t
     | None \<Rightarrow> if take (length sub) (c # s) = sub then Some (drop (length sub) (c # s)) else None)"

definition ExtractDomainFromSAN :: "string \<Rightarrow> string option" where
  "ExtractDomainFromSAN san = (case after_last ''.svc.'' san of None \<Rightarrow> None | Some domain \<Rightarrow> if domain = [] then None else Some domain)"

record DomainValidationResult =
  dvr_HasMismatch :: bool
  dvr_ExpectedDomain :: string
  dvr_MismatchedSANs :: "string list"
  dvr_ActualDomains :: "string list"

definition check_san :: "string \<Rightarrow> DomainValidationResult \<Rightarrow> string \<Rightarrow> DomainValidationResult" where
  "check_san domain r san = (case ExtractDomainFromSAN san of
     None \<Rightarrow> r
   | Some actualDomain \<Rightarrow>
      (let r = (if actualDomain \<in> set (dvr_ActualDomains r) then r else r\<lparr>dvr_ActualDomains := dvr_ActualDomains r @ [actualDomain]\<rparr>) in
       if actualDomain \<noteq> domain then r\<lparr>dvr_HasMismatch := True, dvr_MismatchedSANs := dvr_MismatchedSANs r @ [san]\<rparr> else r))"

definition ValidateCertificateDomain :: "string \<Rightarrow> Certificate \<Rightarrow> DomainValidationResult" where
  "ValidateCertificateDomain domain cert = foldl (check_san domain)
     \<lparr>dvr_HasMismatch = False, dvr_ExpectedDomain = domain, dvr_MismatchedSANs = [], dvr_ActualDomains = []\<rparr> (x_DNSNames cert)"

definition RequiresDomainRegeneration :: "string \<Rightarrow> Certificate \<Rightarrow> bool" where
  "RequiresDomainRegeneration domain cert = dvr_HasMismatch (ValidateCertificateDomain domain cert)"

lemma check_san_mismatch: "dvr_HasMismatch (check_san domain r san) \<longleftrightarrow>
    dvr_HasMismatch r \<or> (\<exists>d. ExtractDomainFromSAN san = Some d \<and> d \<noteq> domain)"
  by (simp add: check_san_def Let_def split: option.split)

lemma RequiresDomainRegeneration_iff: "RequiresDomainRegeneration domain cert \<longleftrightarrow>
    (\<exists>san \<in> set (x_DNSNames cert). \<exists>d. ExtractDomainFromSAN san = Some d \<and> d \<noteq> domain)"
proof -
  have "dvr_HasMismatch (foldl (check_san domain) r sans) \<longleftrightarrow>
      dvr_HasMismatch r \<or> (\<exists>san \<in> set sans. \<exists>d. ExtractDomainFromSAN san = Some d \<and> d \<noteq> domain)" for r sans
    by (induction sans arbitrary: r) (auto simp: check_san_mismatch)
  then show ?thesis by (simp add: RequiresDomainRegeneration_def ValidateCertificateDomain_def)
qed


subsection \<open>Fresh certificates carry the domain\<close>

lemma after_last_Some: "after_last sub s = Some t \<Longrightarrow> \<exists>p. s = p @ sub @ t"
proof (induction s arbitrary: t)
  case Nil
  then show ?case by (auto split: if_splits)
next
  case (Cons c s)
  show ?case
  proof (cases "after_last sub s")
    case None
    then have "take (length sub) (c # s) = sub" "t = drop (length sub) (c # s)" using Cons.prems by (simp_all split: if_splits)
    then have "c # s = sub @ t" by (metis append_take_drop_id)
    then show ?thesis by (metis append_Nil)
  next
    case (Some u)
    then show ?thesis using Cons.IH [OF Some] Cons.prems by (auto intro: exI [of _ "c # p" for p])
  qed
qed

lemma after_last_append: "after_last sub t = Some u \<Longrightarrow> after_last sub (s @ t) = Some u"
  by (induction s) auto

lemma svc_in_the_middle:
  assumes "ExtractDomainFromSAN san = Some d"
  shows "\<exists>ps qs. split_on CHR ''.'' san = ps @ ''svc'' # qs \<and> ps \<noteq> [] \<and> qs \<noteq> []"
proof -
  obtain p where "san = p @ CHR ''.'' # ''svc'' @ CHR ''.'' # d"
    using assms after_last_Some [of "''.svc.''" san] by (auto simp: ExtractDomainFromSAN_def split: option.splits if_splits)
  then have "split_on CHR ''.'' san = split_on CHR ''.'' p @ ''svc'' # split_on CHR ''.'' d"
    by (simp only: split_on_append) (simp add: split_on_free)
  then show ?thesis using split_on_nonempty by blast
qed

definition agrees :: "string \<Rightarrow> string \<Rightarrow> bool" where
  "agrees domain san \<longleftrightarrow> (\<forall>d. ExtractDomainFromSAN san = Some d \<longrightarrow> d = domain)"

definition clean_domain :: "string \<Rightarrow> bool" where
  "clean_domain domain \<longleftrightarrow> after_last ''.svc.'' (''svc.'' @ domain) = None"

lemma agrees_fqdn: "clean_domain domain \<Longrightarrow> agrees domain (s @ ''.svc.'' @ domain)"
proof -
  assume "clean_domain domain"
  then have "after_last ''.svc.'' (CHR ''.'' # ''svc.'' @ domain) = Some domain"
    by (simp only: clean_domain_def after_last.simps option.case) simp
  from after_last_append [OF this, of s] have "after_last ''.svc.'' (s @ ''.svc.'' @ domain) = Some domain" by simp
  then show ?thesis by (simp add: agrees_def ExtractDomainFromSAN_def split: if_splits)
qed

lemma agrees_short:
  assumes "CHR ''.'' \<notin> set x" and "CHR ''.'' \<notin> set ns" and "ns \<noteq> ''svc''"
  shows "agrees domain x" "agrees domain (x @ ''.'' @ ns)" "agrees domain (x @ ''.'' @ ns @ ''.svc'')"
proof -
  have split: "split_on CHR ''.'' x = [x]" "split_on CHR ''.'' (x @ ''.'' @ ns) = [x, ns]"
      "split_on CHR ''.'' (x @ ''.'' @ ns @ ''.svc'') = [x, ns, ''svc'']"
    using assms(1,2) split_on_append [of "CHR ''.''" x ns] split_on_append [of "CHR ''.''" x "ns @ ''.svc''"]
      split_on_append [of "CHR ''.''" ns "''svc''"] by (simp_all add: split_on_free)
  show "agrees domain x" "agrees domain (x @ ''.'' @ ns)" "agrees domain (x @ ''.'' @ ns @ ''.svc'')"
    using split assms(3) unfolding agrees_def
    by (auto dest!: svc_in_the_middle simp: append_eq_Cons_conv Cons_eq_append_conv)
qed

lemma agrees_names:
  assumes "clean_domain domain" and "CHR ''.'' \<notin> set ns" and "ns \<noteq> ''svc''"
  shows "CHR ''.'' \<notin> set x \<Longrightarrow> agrees domain x" "CHR ''.'' \<notin> set x \<Longrightarrow> agrees domain (x @ ''.'' @ ns)"
    "CHR ''.'' \<notin> set x \<Longrightarrow> agrees domain (x @ ''.'' @ ns @ ''.svc'')" "agrees domain (ServiceFQDN domain x ns)"
    "agrees domain (PodFQDN domain y x ns)" "agrees domain (WildcardServiceFQDN domain x ns)"
  using assms agrees_short [OF _ assms(2,3)] agrees_fqdn [OF assms(1), of "x @ ''.'' @ ns"] agrees_fqdn [OF assms(1), of "y @ ''.'' @ x @ ''.'' @ ns"]
    agrees_fqdn [OF assms(1), of "''*.'' @ x @ ''.'' @ ns"]
  by (simp_all add: ServiceFQDN_def PodFQDN_def WildcardServiceFQDN_def)


lemma agrees_pods:
  assumes "clean_domain domain" and "CHR ''.'' \<notin> set ns" and "ns \<noteq> ''svc''" and "\<And>i. CHR ''.'' \<notin> set (podName i)"
  shows "list_all (agrees domain) (pod_sans podName (\<lambda>pod. PodFQDN domain pod service ns) replicas)"
  using agrees_names [OF assms(1-3)] assms(4) by (auto simp: pod_sans_def list_all_iff)

lemma show_int_dotless: "CHR ''.'' \<notin> set (show_int k)"
proof
  assume "CHR ''.'' \<in> set (show_int k)"
  then have "is_digit CHR ''.''" using show_nat_digits by (auto simp: show_int_def list_all_iff split: if_splits)
  then show False by (simp add: is_digit_def)
qed

lemma generated_names_agree:
  assumes "clean_domain domain" and "CHR ''.'' \<notin> set c" and "CHR ''.'' \<notin> set ns" and "ns \<noteq> ''svc''"
  shows "list_all (agrees domain) (GenerateIndexerNodeSANs domain c ns n)" "list_all (agrees domain) (GenerateManagerNodeSANs domain c ns n)"
    "list_all (agrees domain) (GenerateFilebeatSANs domain c ns n)" "list_all (agrees domain) (GenerateDashboardSANs domain c ns)"
    "list_all (agrees domain) [''localhost'']"
  unfolding GenerateIndexerNodeSANs_def GenerateManagerNodeSANs_def GenerateFilebeatSANs_def GenerateDashboardSANs_def Let_def
    list_all_append list.pred_inject
  by (intro conjI agrees_names [OF assms(1,3,4)] agrees_pods [OF assms(1,3,4)]; simp add: assms(2) show_int_dotless)+

text \<open>
  C30: Fresh certificates are not regenerated for their domain. When the names of cluster and
  namespace have no dots, the namespace is not called \<open>svc\<close> and the cluster domain holds no
  label \<open>svc\<close> in its middle, the names that the operator puts into the certificates of the
  indexer, the managers, Filebeat, the dashboard and the administrator all pass the domain check
  it makes on the next reconciliation. In the namespace \<open>svc\<close> none of the node certificates
  passes, unless the domain itself is \<open>svc\<close>: they are regenerated in every reconciliation.
\<close>

theorem fresh_names_pass_domain_check:
  assumes "clean_domain domain" and "CHR ''.'' \<notin> set c" and "CHR ''.'' \<notin> set ns" and "ns \<noteq> ''svc''"
  shows "(\<forall>sans \<in> {GenerateIndexerNodeSANs domain c ns n, GenerateManagerNodeSANs domain c ns n, GenerateFilebeatSANs domain c ns n,
      GenerateDashboardSANs domain c ns, [''localhost'']}. \<forall>cert. x_DNSNames cert = sans \<longrightarrow> \<not> RequiresDomainRegeneration domain cert) \<and>
    (domain \<noteq> ''svc'' \<longrightarrow> (\<forall>sans \<in> {GenerateIndexerNodeSANs domain c' ''svc'' n, GenerateManagerNodeSANs domain c' ''svc'' n,
      GenerateFilebeatSANs domain c' ''svc'' n, GenerateDashboardSANs domain c' ''svc''}.
      \<forall>cert. x_DNSNames cert = sans \<longrightarrow> RequiresDomainRegeneration domain cert))"
proof
  have "list_all (agrees domain) sans" if "sans \<in> {GenerateIndexerNodeSANs domain c ns n, GenerateManagerNodeSANs domain c ns n,
      GenerateFilebeatSANs domain c ns n, GenerateDashboardSANs domain c ns, [''localhost'']}" for sans
    using that generated_names_agree [OF assms(1-4)] by (elim insertE emptyE) (simp_all only:)
  then show "\<forall>sans \<in> {GenerateIndexerNodeSANs domain c ns n, GenerateManagerNodeSANs domain c ns n, GenerateFilebeatSANs domain c ns n,
      GenerateDashboardSANs domain c ns, [''localhost'']}. \<forall>cert. x_DNSNames cert = sans \<longrightarrow> \<not> RequiresDomainRegeneration domain cert"
    by (auto simp: RequiresDomainRegeneration_iff agrees_def list_all_iff)
  have "after_last ''.svc.'' (x @ ''.svc.svc'') = Some ''svc''" for x by (rule after_last_append) code_simp
  then have short: "ExtractDomainFromSAN (x @ ''.svc.svc'') = Some ''svc''" for x by (simp add: ExtractDomainFromSAN_def)
  have "\<exists>x. x @ ''.svc.svc'' \<in> set sans" if "sans \<in> {GenerateIndexerNodeSANs domain c' ''svc'' n, GenerateManagerNodeSANs domain c' ''svc'' n,
      GenerateFilebeatSANs domain c' ''svc'' n, GenerateDashboardSANs domain c' ''svc''}" for sans
    using that by (auto simp: GenerateIndexerNodeSANs_def GenerateManagerNodeSANs_def GenerateFilebeatSANs_def GenerateDashboardSANs_def Let_def)
  then show "domain \<noteq> ''svc'' \<longrightarrow> (\<forall>sans \<in> {GenerateIndexerNodeSANs domain c' ''svc'' n, GenerateManagerNodeSANs domain c' ''svc'' n,
      GenerateFilebeatSANs domain c' ''svc'' n, GenerateDashboardSANs domain c' ''svc''}.
      \<forall>cert. x_DNSNames cert = sans \<longrightarrow> RequiresDomainRegeneration domain cert)"
    using short unfolding RequiresDomainRegeneration_iff by metis
qed

theorem fresh_names_pass_domain_check_witness:
  "clean_domain ''cluster.local'' \<and>
   \<not> RequiresDomainRegeneration ''cluster.local''
     (template_of DefaultDashboardCertConfig 1 0 False [] (GenerateDashboardSANs ''cluster.local'' ''w'' ''ns'')) \<and>
   RequiresDomainRegeneration ''cluster.local''
     (template_of DefaultDashboardCertConfig 1 0 False [] (GenerateDashboardSANs ''cluster.local'' ''w'' ''svc''))"
proof -
  have c: "clean_domain ''cluster.local''" by code_simp
  have dns: "x_DNSNames (template_of cfg k t ca u sans) = sans" for cfg k t ca u sans by (simp add: template_of_def)
  show ?thesis using fresh_names_pass_domain_check [OF c, of "''w''" "''ns''" 0 "''w''"] c dns by simp
qed

end
