(* ===== verification/CertRenewal.thy ===== *)
theory CertRenewal
  imports Certificates GoCrypto Labels Versions
begin

section \<open>Renewing certificates (internal/certificates/reconciler, hotreload.go)\<close>

text \<open>
  The certificate reconciler: the CA with its maintenance windows, the certificates signed by
  it, the hashes that make pods restart, and the decision between hot reload and restart. The
  four functions for the certificates of nodes, dashboard, Filebeat and administrator are copies
  of each other; the model has the common part once. Arguments are the cryptographic library,
  the cron library, the path for certificates the user brings along, and the calls of the reload
  API of each pod. A reconciliation that never returns is \<open>None\<close>. Metrics and log lines are left out.
\<close>

subsection \<open>Events (certificate_events.go)\<close>

datatype CertEventType = CertEventTypeCA | CertEventTypeNode | CertEventTypeAdmin | CertEventTypeFilebeat | CertEventTypeDashboard

datatype cert_action = Renewing | Renewed | RenewalFailed

definition cert_type_text :: "CertEventType \<Rightarrow> string" where
  "cert_type_text t = (case t of CertEventTypeCA \<Rightarrow> ''ca'' | CertEventTypeNode \<Rightarrow> ''node'' | CertEventTypeAdmin \<Rightarrow> ''admin''
     | CertEventTypeFilebeat \<Rightarrow> ''filebeat'' | CertEventTypeDashboard \<Rightarrow> ''dashboard'')"

definition getEventReasonForCertType :: "CertEventType \<Rightarrow> cert_action \<Rightarrow> string" where
  "getEventReasonForCertType certType action =
     (case certType of CertEventTypeCA \<Rightarrow> ''CA'' | CertEventTypeNode \<Rightarrow> ''NodeCert'' | CertEventTypeAdmin \<Rightarrow> ''AdminCert''
        | CertEventTypeFilebeat \<Rightarrow> ''FilebeatCert'' | CertEventTypeDashboard \<Rightarrow> ''DashboardCert'') @
     (case action of Renewing \<Rightarrow> ''Renewing'' | Renewed \<Rightarrow> ''Renewed'' | RenewalFailed \<Rightarrow> ''RenewalFailed'')"

definition emit_cert :: "bool \<Rightarrow> bool \<Rightarrow> string \<Rightarrow> string \<Rightarrow> ('s, unit) io" where
  "emit_cert recorder warning reason message = (if recorder then record_event warning reason message else ret ())"

definition emitCertificateDomainMismatchEvent :: "'s env \<Rightarrow> bool \<Rightarrow> string \<Rightarrow> ('s, unit) io" where
  "emitCertificateDomainMismatchEvent E recorder certName = emit_cert recorder True ''CertificateDomainMismatch''
     (''Certificate '' @ certName @ '' has SANs with wrong cluster domain (expected: '' @ e_domain E @ ''), triggering regeneration'')"

definition emitTypedCertRenewingEvent :: "bool \<Rightarrow> CertEventType \<Rightarrow> string \<Rightarrow> ('s, unit) io" where
  "emitTypedCertRenewingEvent recorder t certName = emit_cert recorder False (getEventReasonForCertType t Renewing)
     (''Starting renewal of '' @ cert_type_text t @ '' certificate: '' @ certName)"

definition emitTypedCertRenewedEvent :: "bool \<Rightarrow> CertEventType \<Rightarrow> string \<Rightarrow> ('s, unit) io" where
  "emitTypedCertRenewedEvent recorder t certName = emit_cert recorder False (getEventReasonForCertType t Renewed)
     (''Successfully renewed '' @ cert_type_text t @ '' certificate: '' @ certName)"

definition emitTypedCertRenewalFailedEvent :: "bool \<Rightarrow> CertEventType \<Rightarrow> string \<Rightarrow> gerror \<Rightarrow> ('s, unit) io" where
  "emitTypedCertRenewalFailedEvent recorder t certName err = emit_cert recorder True (getEventReasonForCertType t RenewalFailed)
     (''Failed to renew '' @ cert_type_text t @ '' certificate '' @ certName @ '': '' @ text_of err)"

definition emitTypedCertCreatedEvent :: "bool \<Rightarrow> CertEventType \<Rightarrow> string \<Rightarrow> ('s, unit) io" where
  "emitTypedCertCreatedEvent recorder t certName = emit_cert recorder False (getEventReasonForCertType t Renewed)
     (''Created new '' @ cert_type_text t @ '' certificate: '' @ certName)"

definition emitCAMaintenanceScheduledEvent :: "cron \<Rightarrow> bool \<Rightarrow> time \<times> string \<Rightarrow> ('s, unit) io" where
  "emitCAMaintenanceScheduledEvent C recorder nextWindow = emit_cert recorder False ''CertMaintenanceScheduled''
     (''CA certificate renewal scheduled for next maintenance window at '' @
      format_RFC3339 (cron_Offset C (snd nextWindow) (fst nextWindow)) (fst nextWindow))"

subsection \<open>Writing a certificate\<close>

definition SecretKeyTLSCert :: string where "SecretKeyTLSCert = ''tls.crt''"
definition SecretKeyTLSKey :: string where "SecretKeyTLSKey = ''tls.key''"
definition SecretKeyCACert :: string where "SecretKeyCACert = ''ca.crt''"
definition SecretKeyCAKey :: string where "SecretKeyCAKey = ''ca.key''"

definition cert_labels :: "WazuhCluster \<Rightarrow> string \<Rightarrow> string \<Rightarrow> labels" where
  "cert_labels cluster name component = [(LabelName, name), (''app.kubernetes.io/instance'', wc_Name cluster),
     (''app.kubernetes.io/component'', component), (''app.kubernetes.io/part-of'', ''wazuh''),
     (''app.kubernetes.io/managed-by'', ''wazuh-operator''), (''wazuh.com/cluster'', wc_Name cluster)]"

text \<open>
  The secret is created when it was not found and updated otherwise; \<open>True\<close> says that it was updated.
\<close>

definition write_cert :: "'s env \<Rightarrow> bool \<Rightarrow> CertEventType \<Rightarrow> string \<Rightarrow> bool \<Rightarrow> Secret \<Rightarrow> ('s, bool result) io" where
  "write_cert E recorder t what secretExists secret = do {
     r \<leftarrow> (if secretExists then update_secret E secret else create_secret E secret);
     case r of
       Inl err \<Rightarrow> do {
         emitTypedCertRenewalFailedEvent recorder t (scr_Name secret) err;
         ret (Inl (wrapf (''failed to '' @ (if secretExists then ''update '' else ''create '') @ what @ '' secret: '') err)) }
     | Inr u \<Rightarrow> do {
         (if secretExists then emitTypedCertRenewedEvent recorder t (scr_Name secret) else emitTypedCertCreatedEvent recorder t (scr_Name secret));
         ret (Inr secretExists) } }"

subsection \<open>The certificate authority (certificate_maintenance.go)\<close>

record CAReconcileResult =
  car_CAResult :: CertResult
  car_Renewed :: bool
  car_RenewalPending :: bool
  car_NextMaintenanceWindow :: "time \<times> string"

definition ca_config :: "WazuhCluster \<Rightarrow> CertificateOptions \<Rightarrow> CertConfig" where
  "ca_config cluster certOpts = configured certOpts (GetCAValidity certOpts) (DefaultCAConfig (wc_Name cluster @ ''-ca''))"

definition ca_secret :: "WazuhCluster \<Rightarrow> CertResult \<Rightarrow> Secret" where
  "ca_secret cluster ca = \<lparr>scr_Namespace = wc_Namespace cluster, scr_Name = wc_Name cluster @ ''-ca'',
     scr_Labels = Some (cert_labels cluster ''wazuh-ca'' ''certificates''),
     scr_Data = [(SecretKeyCACert, cr_CertificatePEM ca), (SecretKeyCAKey, cr_PrivateKeyPEM ca),
       (SecretKeyTLSCert, cr_CertificatePEM ca), (SecretKeyTLSKey, cr_PrivateKeyPEM ca)]\<rparr>"

definition new_ca :: "'s env \<Rightarrow> 's crypto \<Rightarrow> bool \<Rightarrow> WazuhCluster \<Rightarrow> CertificateOptions \<Rightarrow> bool \<Rightarrow> ('s, CAReconcileResult result option) io" where
  "new_ca E cy recorder cluster certOpts isRenewal = do {
     r \<leftarrow> try_io (GenerateCA E cy (ca_config cluster certOpts)) (wrapf ''failed to generate CA: '') (\<lambda>ca.
       try_io (write_cert E recorder CertEventTypeCA ''CA'' isRenewal (ca_secret cluster ca)) id (\<lambda>u.
         ret (Inr \<lparr>car_CAResult = ca, car_Renewed = isRenewal, car_RenewalPending = False, car_NextMaintenanceWindow = (zero_time, ''UTC'')\<rparr>)));
     ret (Some r) }"

definition ca_as_is :: "CertResult \<Rightarrow> CAReconcileResult" where
  "ca_as_is ca = \<lparr>car_CAResult = ca, car_Renewed = False, car_RenewalPending = False, car_NextMaintenanceWindow = (zero_time, ''UTC'')\<rparr>"

definition reconcileCA :: "'s env \<Rightarrow> 's crypto \<Rightarrow> cron \<Rightarrow> bool \<Rightarrow> WazuhCluster \<Rightarrow> CertificateOptions \<Rightarrow> ('s, CAReconcileResult result option) io" where
  "reconcileCA E cy C recorder cluster certOpts = do {
     f \<leftarrow> get_secret E (wc_Namespace cluster) (wc_Name cluster @ ''-ca'');
     case f of
       Inl err \<Rightarrow> if IsNotFound err then new_ca E cy recorder cluster certOpts False
         else ret (Some (Inl (wrapf ''failed to get CA secret: '' err)))
     | Inr found \<Rightarrow> (case ParseCA cy (label_get found SecretKeyCACert) (label_get found SecretKeyCAKey) of
         Inl parseErr \<Rightarrow> new_ca E cy recorder cluster certOpts True
       | Inr ca \<Rightarrow> do {
           needsRenewal \<leftarrow> NeedsRenewal E ca (GetCARenewalThreshold certOpts);
           if \<not> needsRenewal then ret (Some (Inr (ca_as_is ca)))
           else do {
             check \<leftarrow> checkCAMaintenanceWindow E C cluster (x_NotAfter (cr_Certificate ca));
             case check of
               None \<Rightarrow> ret None
             | Some m \<Rightarrow> if \<not> cmr_AllowRenewal m then do {
                   emitCAMaintenanceScheduledEvent C recorder (cmr_NextWindowStart m);
                   ret (Some (Inr ((ca_as_is ca)\<lparr>car_RenewalPending := True, car_NextMaintenanceWindow := cmr_NextWindowStart m\<rparr>))) }
                 else do {
                   emitTypedCertRenewingEvent recorder CertEventTypeCA (wc_Name cluster @ ''-ca'');
                   new_ca E cy recorder cluster certOpts True } } }) }"


subsection \<open>Certificates signed by the CA (certificate_renewal.go)\<close>

text \<open>What distinguishes the four copies; \<open>lf_kept\<close> is what happens to a certificate that stays.\<close>

record 's leaf =
  lf_Type :: CertEventType
  lf_SecretName :: string
  lf_Labels :: labels
  lf_Threshold :: duration
  lf_Generate :: "CertResult \<Rightarrow> ('s, CertResult result) io"
  lf_kept :: "labels \<Rightarrow> ('s, bool result) io"

definition leaf_secret :: "WazuhCluster \<Rightarrow> 's leaf \<Rightarrow> CertResult \<Rightarrow> CertResult \<Rightarrow> Secret" where
  "leaf_secret cluster leaf ca cert = \<lparr>scr_Namespace = wc_Namespace cluster, scr_Name = lf_SecretName leaf, scr_Labels = Some (lf_Labels leaf),
     scr_Data = [(SecretKeyCACert, cr_CertificatePEM ca), (SecretKeyTLSCert, cr_CertificatePEM cert), (SecretKeyTLSKey, cr_PrivateKeyPEM cert)]\<rparr>"

definition new_leaf :: "'s env \<Rightarrow> bool \<Rightarrow> WazuhCluster \<Rightarrow> 's leaf \<Rightarrow> CertResult \<Rightarrow> bool \<Rightarrow> ('s, bool result) io" where
  "new_leaf E recorder cluster leaf ca secretExists =
     try_io (lf_Generate leaf ca) (wrapf (''failed to generate '' @ cert_type_text (lf_Type leaf) @ '' certificate: '')) (\<lambda>cert.
       write_cert E recorder (lf_Type leaf) (cert_type_text (lf_Type leaf)) secretExists (leaf_secret cluster leaf ca cert))"

definition reconcile_leaf :: "'s env \<Rightarrow> 's crypto \<Rightarrow> bool \<Rightarrow> WazuhCluster \<Rightarrow> 's leaf \<Rightarrow> CertResult \<Rightarrow> ('s, bool result) io" where
  "reconcile_leaf E cy recorder cluster leaf ca = do {
     f \<leftarrow> get_secret E (wc_Namespace cluster) (lf_SecretName leaf);
     case f of
       Inl err \<Rightarrow> if IsNotFound err then new_leaf E recorder cluster leaf ca False
         else ret (Inl (wrapf (''failed to get '' @ cert_type_text (lf_Type leaf) @ '' secret: '') err))
     | Inr found \<Rightarrow> (case ParseNodeCert cy (label_get found SecretKeyTLSCert) (label_get found SecretKeyTLSKey) of
         Inl parseErr \<Rightarrow> new_leaf E recorder cluster leaf ca True
       | Inr cert \<Rightarrow>
           if RequiresDomainRegeneration (e_domain E) (cr_Certificate cert) then do {
             emitCertificateDomainMismatchEvent E recorder (lf_SecretName leaf);
             new_leaf E recorder cluster leaf ca True }
           else do {
             needsRenewal \<leftarrow> NeedsRenewal E cert (lf_Threshold leaf);
             if needsRenewal then do {
               emitTypedCertRenewingEvent recorder (lf_Type leaf) (lf_SecretName leaf);
               new_leaf E recorder cluster leaf ca True }
             else lf_kept leaf found }) }"

definition stays :: "labels \<Rightarrow> ('s, bool result) io" where
  "stays found = ret (Inr False)"

definition node_leaf :: "'s env \<Rightarrow> 's crypto \<Rightarrow> WazuhCluster \<Rightarrow> string \<Rightarrow> string \<Rightarrow> string list \<Rightarrow> CertificateOptions \<Rightarrow> 's leaf" where
  "node_leaf E cy cluster secretName componentName sans certOpts = \<lparr>lf_Type = CertEventTypeNode, lf_SecretName = secretName,
     lf_Labels = cert_labels cluster (''wazuh-'' @ componentName) componentName, lf_Threshold = GetRenewalThreshold certOpts,
     lf_Generate = GenerateNodeCert E cy ((configured certOpts (GetNodeValidity certOpts)
       (DefaultNodeCertConfig (wc_Name cluster @ ''-'' @ componentName)))\<lparr>cfg_DNSNames := sans\<rparr>),
     lf_kept = stays\<rparr>"

definition reconcileNodeCertWithRenewalStatus :: "'s env \<Rightarrow> 's crypto \<Rightarrow> bool \<Rightarrow> WazuhCluster \<Rightarrow> string \<Rightarrow> string \<Rightarrow> string list \<Rightarrow>
    CertResult \<Rightarrow> CertificateOptions \<Rightarrow> ('s, bool result) io" where
  "reconcileNodeCertWithRenewalStatus E cy recorder cluster secretName componentName sans ca certOpts =
     reconcile_leaf E cy recorder cluster (node_leaf E cy cluster secretName componentName sans certOpts) ca"

definition worker_replicas :: "WazuhCluster \<Rightarrow> i32" where
  "worker_replicas cluster = (case wc_Manager cluster of None \<Rightarrow> 0 | Some m \<Rightarrow> GetReplicas m)"

definition reconcileManagerCerts :: "'s env \<Rightarrow> 's crypto \<Rightarrow> bool \<Rightarrow> WazuhCluster \<Rightarrow> CertResult \<Rightarrow> CertificateOptions \<Rightarrow> ('s, bool result) io" where
  "reconcileManagerCerts E cy recorder cluster ca certOpts =
     (let sans = GenerateManagerNodeSANs (e_domain E) (wc_Name cluster) (wc_Namespace cluster) (worker_replicas cluster) in
      try_io (reconcileNodeCertWithRenewalStatus E cy recorder cluster (ManagerMasterCertsName (wc_Name cluster)) ''manager-master'' sans ca certOpts)
        (wrapf ''failed to reconcile master certificate: '') (\<lambda>a.
      try_io (reconcileNodeCertWithRenewalStatus E cy recorder cluster (ManagerWorkerCertsName (wc_Name cluster)) ''manager-worker'' sans ca certOpts)
        (wrapf ''failed to reconcile worker certificate: '') (\<lambda>b. ret (Inr False))))"

definition indexer_cert_replicas :: "WazuhCluster \<Rightarrow> i32" where
  "indexer_cert_replicas cluster = (case wc_Indexer cluster of None \<Rightarrow> 1 | Some i \<Rightarrow> if sint (ics_Replicas i) > 0 then ics_Replicas i else 1)"

definition reconcileIndexerCerts :: "'s env \<Rightarrow> 's crypto \<Rightarrow> bool \<Rightarrow> WazuhCluster \<Rightarrow> CertResult \<Rightarrow> CertificateOptions \<Rightarrow> ('s, bool result) io" where
  "reconcileIndexerCerts E cy recorder cluster ca certOpts =
     reconcileNodeCertWithRenewalStatus E cy recorder cluster (IndexerCertsName (wc_Name cluster)) ''indexer''
       (GenerateIndexerNodeSANs (e_domain E) (wc_Name cluster) (wc_Namespace cluster) (indexer_cert_replicas cluster)) ca certOpts"

definition dashboard_leaf :: "'s env \<Rightarrow> 's crypto \<Rightarrow> WazuhCluster \<Rightarrow> CertificateOptions \<Rightarrow> 's leaf" where
  "dashboard_leaf E cy cluster certOpts = \<lparr>lf_Type = CertEventTypeDashboard, lf_SecretName = DashboardCertsName (wc_Name cluster),
     lf_Labels = cert_labels cluster ''wazuh-dashboard'' ''dashboard'', lf_Threshold = GetDashboardRenewalThreshold certOpts,
     lf_Generate = GenerateDashboardCert E cy ((configured certOpts (GetDashboardValidity certOpts) DefaultDashboardCertConfig)\<lparr>
       cfg_CommonName := wc_Name cluster @ ''-dashboard'', cfg_DNSNames := GenerateDashboardSANs (e_domain E) (wc_Name cluster) (wc_Namespace cluster)\<rparr>),
     lf_kept = stays\<rparr>"

definition reconcileDashboardCerts :: "'s env \<Rightarrow> 's crypto \<Rightarrow> bool \<Rightarrow> WazuhCluster \<Rightarrow> CertResult \<Rightarrow> CertificateOptions \<Rightarrow> ('s, bool result) io" where
  "reconcileDashboardCerts E cy recorder cluster ca certOpts = reconcile_leaf E cy recorder cluster (dashboard_leaf E cy cluster certOpts) ca"

definition filebeat_leaf :: "'s env \<Rightarrow> 's crypto \<Rightarrow> WazuhCluster \<Rightarrow> CertificateOptions \<Rightarrow> 's leaf" where
  "filebeat_leaf E cy cluster certOpts = \<lparr>lf_Type = CertEventTypeFilebeat, lf_SecretName = FilebeatCertsName (wc_Name cluster),
     lf_Labels = cert_labels cluster ''wazuh-filebeat'' ''filebeat'', lf_Threshold = GetFilebeatRenewalThreshold certOpts,
     lf_Generate = GenerateFilebeatCert E cy ((configured certOpts (GetFilebeatValidity certOpts) DefaultFilebeatCertConfig)\<lparr>
       cfg_CommonName := wc_Name cluster @ ''-filebeat'',
       cfg_DNSNames := GenerateFilebeatSANs (e_domain E) (wc_Name cluster) (wc_Namespace cluster) (worker_replicas cluster)\<rparr>),
     lf_kept = stays\<rparr>"

definition reconcileFilebeatCerts :: "'s env \<Rightarrow> 's crypto \<Rightarrow> bool \<Rightarrow> WazuhCluster \<Rightarrow> CertResult \<Rightarrow> CertificateOptions \<Rightarrow> ('s, bool result) io" where
  "reconcileFilebeatCerts E cy recorder cluster ca certOpts = reconcile_leaf E cy recorder cluster (filebeat_leaf E cy cluster certOpts) ca"

text \<open>A key of the administrator in an older format is converted.\<close>

definition migrate_admin_key :: "'s env \<Rightarrow> 's crypto \<Rightarrow> WazuhCluster \<Rightarrow> labels \<Rightarrow> ('s, bool result) io" where
  "migrate_admin_key E cy cluster found = (case ConvertPrivateKeyPEMToPKCS8 cy (label_get found SecretKeyTLSKey) of
     Inl convErr \<Rightarrow> stays found
   | Inr convertedKey \<Rightarrow> if label_get found SecretKeyTLSKey = convertedKey then stays found
       else try_io (update_secret E \<lparr>scr_Namespace = wc_Namespace cluster, scr_Name = AdminCertsName (wc_Name cluster), scr_Labels = None,
           scr_Data = label_set found SecretKeyTLSKey convertedKey\<rparr>)
         (wrapf (''failed to migrate admin key to PKCS#8 in secret '' @ AdminCertsName (wc_Name cluster) @ '': '')) (\<lambda>u. stays found))"

definition admin_leaf :: "'s env \<Rightarrow> 's crypto \<Rightarrow> WazuhCluster \<Rightarrow> CertificateOptions \<Rightarrow> 's leaf" where
  "admin_leaf E cy cluster certOpts = \<lparr>lf_Type = CertEventTypeAdmin, lf_SecretName = AdminCertsName (wc_Name cluster),
     lf_Labels = cert_labels cluster ''wazuh-admin'' ''certificates'', lf_Threshold = GetAdminRenewalThreshold certOpts,
     lf_Generate = GenerateAdminCert E cy (configured certOpts (GetAdminValidity certOpts) DefaultAdminCertConfig),
     lf_kept = migrate_admin_key E cy cluster\<rparr>"

definition reconcileAdminCerts :: "'s env \<Rightarrow> 's crypto \<Rightarrow> bool \<Rightarrow> WazuhCluster \<Rightarrow> CertResult \<Rightarrow> CertificateOptions \<Rightarrow> ('s, bool result) io" where
  "reconcileAdminCerts E cy recorder cluster ca certOpts = reconcile_leaf E cy recorder cluster (admin_leaf E cy cluster certOpts) ca"


subsection \<open>Hashes of the certificates (certificate_metrics.go)\<close>

record CertHashResult =
  chr_DashboardCertHash :: string
  chr_IndexerCertHash :: string
  chr_ManagerMasterCertHash :: string
  chr_ManagerWorkerCertHash :: string
  chr_FilebeatCertHash :: string
  chr_AdminCertHash :: string
  chr_CACertHash :: string
  chr_CARenewed :: bool
  chr_CARenewalPending :: bool
  chr_CARenewalScheduledAt :: "time \<times> string"
  chr_IndexerCertsRenewed :: bool
  chr_HotReloadTriggered :: bool
  chr_HotReloadError :: "gerror option"

definition no_hashes :: CertHashResult where
  "no_hashes = \<lparr>chr_DashboardCertHash = [], chr_IndexerCertHash = [], chr_ManagerMasterCertHash = [], chr_ManagerWorkerCertHash = [],
     chr_FilebeatCertHash = [], chr_AdminCertHash = [], chr_CACertHash = [], chr_CARenewed = False, chr_CARenewalPending = False,
     chr_CARenewalScheduledAt = (zero_time, ''UTC''), chr_IndexerCertsRenewed = False, chr_HotReloadTriggered = False, chr_HotReloadError = None\<rparr>"

definition getSecretHash :: "'s env \<Rightarrow> WazuhCluster \<Rightarrow> string \<Rightarrow> ('s, string result) io" where
  "getSecretHash E cluster secretName = do {
     f \<leftarrow> get_secret E (wc_Namespace cluster) secretName;
     ret (case f of Inl err \<Rightarrow> if IsNotFound err then Inr [] else Inl err | Inr found \<Rightarrow> Inr (ShortHash (HashSecretData found))) }"

text \<open>The secrets in the order they are read; the first that cannot be read ends the collection.\<close>

fun collect_hashes :: "'s env \<Rightarrow> WazuhCluster \<Rightarrow> (string \<times> string \<times> (string \<Rightarrow> CertHashResult \<Rightarrow> CertHashResult)) list \<Rightarrow> CertHashResult \<Rightarrow>
    ('s, CertHashResult \<times> gerror option) io" where
  "collect_hashes E cluster [] result = ret (result, None)"
| "collect_hashes E cluster ((secretName, what, put) # rest) result = do {
     h \<leftarrow> getSecretHash E cluster secretName;
     case h of
       Inl err \<Rightarrow> ret (result, Some (wrapf (''failed to get '' @ what @ '' secret hash: '') err))
     | Inr hash \<Rightarrow> collect_hashes E cluster rest (put hash result) }"

definition hashed_secrets :: "string \<Rightarrow> (string \<times> string \<times> (string \<Rightarrow> CertHashResult \<Rightarrow> CertHashResult)) list" where
  "hashed_secrets c = [
     (c @ ''-ca'', ''CA'', \<lambda>h r. r\<lparr>chr_CACertHash := h\<rparr>),
     (DashboardCertsName c, ''dashboard'', \<lambda>h r. r\<lparr>chr_DashboardCertHash := h\<rparr>),
     (IndexerCertsName c, ''indexer'', \<lambda>h r. r\<lparr>chr_IndexerCertHash := h\<rparr>),
     (ManagerMasterCertsName c, ''manager master'', \<lambda>h r. r\<lparr>chr_ManagerMasterCertHash := h\<rparr>),
     (ManagerWorkerCertsName c, ''manager worker'', \<lambda>h r. r\<lparr>chr_ManagerWorkerCertHash := h\<rparr>),
     (FilebeatCertsName c, ''filebeat'', \<lambda>h r. r\<lparr>chr_FilebeatCertHash := h\<rparr>),
     (AdminCertsName c, ''admin'', \<lambda>h r. r\<lparr>chr_AdminCertHash := h\<rparr>)]"

definition collectCertHashes :: "'s env \<Rightarrow> WazuhCluster \<Rightarrow> ('s, CertHashResult \<times> gerror option) io" where
  "collectCertHashes E cluster = collect_hashes E cluster (hashed_secrets (wc_Name cluster)) no_hashes"

subsection \<open>Hot reload (hotreload.go)\<close>

record HotReloadResult =
  hrr_Supported :: bool
  hrr_RequiresAPICall :: bool
  hrr_APICallMade :: bool
  hrr_Error :: "gerror option"
  hrr_FailedPods :: "string list"
  hrr_TotalPods :: int
  hrr_SuccessfulPods :: int

definition no_reload :: HotReloadResult where
  "no_reload = \<lparr>hrr_Supported = False, hrr_RequiresAPICall = False, hrr_APICallMade = False, hrr_Error = None, hrr_FailedPods = [],
     hrr_TotalPods = 0, hrr_SuccessfulPods = 0\<rparr>"

definition ShouldTriggerHotReload :: "WazuhCluster \<Rightarrow> bool" where
  "ShouldTriggerHotReload cluster = (case wc_TLS cluster of None \<Rightarrow> False
     | Some tls \<Rightarrow> if tls_Enabled tls = Some False then False
         else (case tls_HotReload tls of None \<Rightarrow> True | Some h \<Rightarrow> hrc_Enabled h))"

definition ShouldForceAPIReload :: "WazuhCluster \<Rightarrow> bool" where
  "ShouldForceAPIReload cluster = (case Option.bind (wc_TLS cluster) tls_HotReload of None \<Rightarrow> False | Some h \<Rightarrow> hrc_ForceAPIReload h)"

fun join_pods :: "string list \<Rightarrow> string" where
  "join_pods [] = []"
| "join_pods [p] = p"
| "join_pods (p # q # ps) = p @ '', '' @ join_pods (q # ps)"

definition emitHotReloadResultEvent :: "bool \<Rightarrow> HotReloadResult \<Rightarrow> ('s, unit) io" where
  "emitHotReloadResultEvent recorder result = (case hrr_Error result of
     None \<Rightarrow> emit_cert recorder False ''CertificateHotReloadSucceeded'' (''Certificate hot reload completed successfully: '' @
       show_int (hrr_SuccessfulPods result) @ ''/'' @ show_int (hrr_TotalPods result) @ '' pods reloaded'')
   | Some err \<Rightarrow> emit_cert recorder True ''CertificateHotReloadFailed'' (''Certificate hot reload failed: '' @
       show_int (hrr_SuccessfulPods result) @ ''/'' @ show_int (hrr_TotalPods result) @ '' pods reloaded. Failed pods: '' @ join_pods (hrr_FailedPods result)))"

text \<open>\<open>call_api\<close> is \<open>callReloadCertificatesAPIPerPod\<close>, which fills in the outcome.\<close>

definition reload_by_api :: "(WazuhCluster \<Rightarrow> HotReloadResult \<Rightarrow> ('s, HotReloadResult) io) \<Rightarrow> bool \<Rightarrow> WazuhCluster \<Rightarrow> ('s, HotReloadResult) io" where
  "reload_by_api call_api recorder cluster = do {
     emit_cert recorder False ''CertificateHotReloadStarted'' (''Starting certificate hot reload for cluster '' @ wc_Name cluster);
     result \<leftarrow> call_api cluster (no_reload\<lparr>hrr_Supported := True, hrr_RequiresAPICall := True\<rparr>);
     let result = result\<lparr>hrr_APICallMade := True\<rparr>;
     emitHotReloadResultEvent recorder result;
     ret result }"

definition TriggerHotReload :: "(string \<times> WazuhVersionInfo) list \<Rightarrow> (WazuhCluster \<Rightarrow> HotReloadResult \<Rightarrow> ('s, HotReloadResult) io) \<Rightarrow>
    bool \<Rightarrow> WazuhCluster \<Rightarrow> ('s, HotReloadResult) io" where
  "TriggerHotReload order call_api recorder cluster =
     (if \<not> ShouldTriggerHotReload cluster then ret no_reload
      else case GetHotReloadSupportForWazuh order (wc_Version cluster) of
        (support, Some err) \<Rightarrow> ret (no_reload\<lparr>hrr_Error := Some err\<rparr>)
      | (HotReloadNotSupported, None) \<Rightarrow> ret no_reload
      | (HotReloadAutomatic, None) \<Rightarrow>
          if ShouldForceAPIReload cluster then reload_by_api call_api recorder cluster
          else do {
            emit_cert recorder False ''CertificateHotReloadSkipped''
              (''Certificate hot reload skipped: automatic reload enabled for version '' @ wc_Version cluster);
            ret (no_reload\<lparr>hrr_Supported := True\<rparr>) }
      | (HotReloadWithAPICall, None) \<Rightarrow> reload_by_api call_api recorder cluster)"

subsection \<open>One reconciliation (certificate_reconciler.go)\<close>

record 's cert_env =
  ce_Crypto :: "'s crypto"
  ce_Cron :: cron
  ce_Custom :: "WazuhCluster \<Rightarrow> ('s, CertHashResult result) io"
  ce_Reload :: "WazuhCluster \<Rightarrow> HotReloadResult \<Rightarrow> ('s, HotReloadResult) io"
  ce_Releases :: "(string \<times> WazuhVersionInfo) list"
  ce_Recorder :: bool

definition with_reload :: "HotReloadResult \<Rightarrow> CertHashResult \<Rightarrow> CertHashResult" where
  "with_reload h result = (case hrr_Error h of
     Some err \<Rightarrow> result\<lparr>chr_HotReloadError := Some err\<rparr>
   | None \<Rightarrow> if hrr_APICallMade h \<or> hrr_Supported h \<and> \<not> hrr_RequiresAPICall h then result\<lparr>chr_HotReloadTriggered := True\<rparr> else result)"

definition reconcile_leaves :: "'s env \<Rightarrow> 's cert_env \<Rightarrow> WazuhCluster \<Rightarrow> CertificateOptions \<Rightarrow> CertResult \<Rightarrow> ('s, bool result) io" where
  "reconcile_leaves E P cluster certOpts ca = (let cy = ce_Crypto P; recorder = ce_Recorder P in
     try_io (reconcileManagerCerts E cy recorder cluster ca certOpts) (wrapf ''failed to reconcile manager certificates: '') (\<lambda>a.
     try_io (reconcileIndexerCerts E cy recorder cluster ca certOpts) (wrapf ''failed to reconcile indexer certificates: '') (\<lambda>indexerCertsRenewed.
     try_io (reconcileDashboardCerts E cy recorder cluster ca certOpts) (wrapf ''failed to reconcile dashboard certificates: '') (\<lambda>b.
     try_io (reconcileFilebeatCerts E cy recorder cluster ca certOpts) (wrapf ''failed to reconcile filebeat certificates: '') (\<lambda>c.
     try_io (reconcileAdminCerts E cy recorder cluster ca certOpts) (wrapf ''failed to reconcile admin certificates: '') (\<lambda>d.
       ret (Inr indexerCertsRenewed)))))))"

definition finish_certs :: "'s env \<Rightarrow> 's cert_env \<Rightarrow> WazuhCluster \<Rightarrow> bool \<Rightarrow> bool \<Rightarrow> ('s, CertHashResult) io" where
  "finish_certs E P cluster caRenewed indexerCertsRenewed = do {
     (result, err) \<leftarrow> collectCertHashes E cluster;
     let result = result\<lparr>chr_CARenewed := caRenewed, chr_IndexerCertsRenewed := indexerCertsRenewed\<rparr>;
     if indexerCertsRenewed \<and> \<not> caRenewed then do {
       h \<leftarrow> TriggerHotReload (ce_Releases P) (ce_Reload P) (ce_Recorder P) cluster;
       ret (with_reload h result) }
     else ret result }"

definition ReconcileWithHashes :: "'s env \<Rightarrow> 's cert_env \<Rightarrow> WazuhCluster \<Rightarrow> ('s, CertHashResult result option) io" where
  "ReconcileWithHashes E P cluster =
     (if Option.bind (wc_TLS cluster) tls_CustomCerts \<noteq> None then do { r \<leftarrow> ce_Custom P cluster; ret (Some r) }
      else let certOpts = getCertOptions cluster in do {
        c \<leftarrow> reconcileCA E (ce_Crypto P) (ce_Cron P) (ce_Recorder P) cluster certOpts;
        case c of
          None \<Rightarrow> ret None
        | Some (Inl err) \<Rightarrow> ret (Some (Inl (wrapf ''failed to reconcile CA: '' err)))
        | Some (Inr car) \<Rightarrow>
            if car_RenewalPending car then do {
              (existing, err) \<leftarrow> collectCertHashes E cluster;
              ret (Some (Inr (existing\<lparr>chr_CARenewalPending := True, chr_CARenewalScheduledAt := car_NextMaintenanceWindow car\<rparr>))) }
            else do {
              l \<leftarrow> reconcile_leaves E P cluster certOpts (car_CAResult car);
              case l of
                Inl err \<Rightarrow> ret (Some (Inl err))
              | Inr indexerCertsRenewed \<Rightarrow> do {
                  result \<leftarrow> finish_certs E P cluster (car_Renewed car) indexerCertsRenewed;
                  ret (Some (Inr result)) } } })"


subsection \<open>What a reconciliation writes\<close>

lemma emit_cert_logs: "(\<And>m. P (EEvent warning reason m)) \<Longrightarrow> logs_only P (emit_cert recorder warning reason message)"
  unfolding emit_cert_def record_event_def by (intro logs) simp

lemma getSecretHash_logs [logs]: "logs_only P (getSecretHash E cluster secretName)"
  unfolding getSecretHash_def get_secret_def by (intro logs)

lemma collect_hashes_logs: "logs_only P (collect_hashes E cluster secrets result)"
proof (induction secrets arbitrary: result)
  case Nil
  then show ?case by (simp add: logs_ret)
next
  case (Cons s secrets)
  obtain n what put where s: "s = (n, what, put)" by (cases s)
  show ?case unfolding s collect_hashes.simps by (intro logs getSecretHash_logs Cons)
qed

lemma collectCertHashes_logs [logs]: "logs_only P (collectCertHashes E cluster)"
  unfolding collectCertHashes_def by (rule collect_hashes_logs)

text \<open>
  A certificate that the next reconciliation keeps: its secret can be read and parsed, the names
  carry the cluster domain, and its age is below the threshold whenever the clock is read.
\<close>

definition kept_cert :: "'s env \<Rightarrow> 's crypto \<Rightarrow> WazuhCluster \<Rightarrow> string \<Rightarrow> duration \<Rightarrow> bool" where
  "kept_cert E cy cluster secretName threshold \<longleftrightarrow> (\<exists>data cert.
     (\<forall>s. e_get_secret E (wc_Namespace cluster) secretName s = (Inr data, s)) \<and>
     ParseNodeCert cy (label_get data SecretKeyTLSCert) (label_get data SecretKeyTLSKey) = Inr cert \<and>
     \<not> RequiresDomainRegeneration (e_domain E) (cr_Certificate cert) \<and>
     (\<forall>s. fst (e_now E s) \<le> x_NotAfter (cr_Certificate cert) + sint (- threshold)))"

text \<open>The key in a secret is in PKCS\#8 already, as the administrator's is when the operator has made it.\<close>

definition pkcs8_stored :: "'s env \<Rightarrow> 's crypto \<Rightarrow> WazuhCluster \<Rightarrow> string \<Rightarrow> bool" where
  "pkcs8_stored E cy cluster secretName \<longleftrightarrow> (\<exists>data. (\<forall>s. e_get_secret E (wc_Namespace cluster) secretName s = (Inr data, s)) \<and>
     ConvertPrivateKeyPEMToPKCS8 cy (label_get data SecretKeyTLSKey) = Inr (label_get data SecretKeyTLSKey))"

text \<open>A computation that succeeds with \<open>a\<close> and does nothing but ask.\<close>

definition silent :: "('s, 'a result) io \<Rightarrow> 'a \<Rightarrow> bool" where
  "silent m a \<longleftrightarrow> (\<forall>w. \<exists>s'. run_state m w = (Inr a, w\<lparr>w_env := s'\<rparr>))"

lemma silent_ret: "silent (ret (Inr a)) a"
proof -
  have "w = w\<lparr>w_env := w_env w\<rparr>" for w :: "'s world" by simp
  then show ?thesis unfolding silent_def by (metis run_ret)
qed

lemma silent_try:
  assumes "silent m a" and "silent (f a) b"
  shows "silent (try_io m wrap f) b"
  unfolding silent_def
proof
  fix w
  obtain s1 where s1: "run_state m w = (Inr a, w\<lparr>w_env := s1\<rparr>)" using assms(1) unfolding silent_def by blast
  obtain s2 where "run_state (f a) (w\<lparr>w_env := s1\<rparr>) = (Inr b, w\<lparr>w_env := s1\<rparr>\<lparr>w_env := s2\<rparr>)" using assms(2) unfolding silent_def by blast
  then show "\<exists>s'. run_state (try_io m wrap f) w = (Inr b, w\<lparr>w_env := s'\<rparr>)" using s1 by (auto simp: run_try)
qed

lemma kept_leaf:
  assumes "kept_cert E cy cluster (lf_SecretName leaf) (lf_Threshold leaf)"
    and "lf_kept leaf = stays \<or> lf_kept leaf = migrate_admin_key E cy cluster \<and> pkcs8_stored E cy cluster (lf_SecretName leaf)"
  shows "silent (reconcile_leaf E cy recorder cluster leaf ca) False"
  unfolding silent_def
proof
  fix w :: "'a world"
  obtain data cert where d: "\<And>s. e_get_secret E (wc_Namespace cluster) (lf_SecretName leaf) s = (Inr data, s)"
      "ParseNodeCert cy (label_get data SecretKeyTLSCert) (label_get data SecretKeyTLSKey) = Inr cert"
      "\<not> RequiresDomainRegeneration (e_domain E) (cr_Certificate cert)"
      "\<And>s. fst (e_now E s) \<le> x_NotAfter (cr_Certificate cert) + sint (- lf_Threshold leaf)"
    using assms(1) unfolding kept_cert_def by blast
  obtain now s' where now: "e_now E (w_env w) = (now, s')" by fastforce
  have "\<not> now > x_NotAfter (cr_Certificate cert) + sint (- lf_Threshold leaf)" using d(4) [of "w_env w"] now by simp
  moreover have "run_state (lf_kept leaf data) v = (Inr False, v)" for v
    using assms(2) d(1) by (auto simp: stays_def migrate_admin_key_def pkcs8_stored_def)
  ultimately have "run_state (reconcile_leaf E cy recorder cluster leaf ca) w = (Inr False, w\<lparr>w_env := s'\<rparr>)"
    using d(1-3) now by (simp add: reconcile_leaf_def run_bind get_secret_def run_ask NeedsRenewal_def time_now_def)
  then show "\<exists>s'. run_state (reconcile_leaf E cy recorder cluster leaf ca) w = (Inr False, w\<lparr>w_env := s'\<rparr>)" ..
qed

text \<open>The five kinds of leaves with the names of their secrets and their thresholds.\<close>

definition cert_secrets :: "WazuhCluster \<Rightarrow> CertificateOptions \<Rightarrow> (string \<times> duration) list" where
  "cert_secrets cluster o1 = (let c = wc_Name cluster in [
     (ManagerMasterCertsName c, GetRenewalThreshold o1), (ManagerWorkerCertsName c, GetRenewalThreshold o1),
     (IndexerCertsName c, GetRenewalThreshold o1), (DashboardCertsName c, GetDashboardRenewalThreshold o1),
     (FilebeatCertsName c, GetFilebeatRenewalThreshold o1), (AdminCertsName c, GetAdminRenewalThreshold o1)])"

lemma kept_leaves:
  assumes "list_all (\<lambda>(n, d). kept_cert E (ce_Crypto P) cluster n d) (cert_secrets cluster certOpts)"
    and "pkcs8_stored E (ce_Crypto P) cluster (AdminCertsName (wc_Name cluster))"
  shows "silent (reconcile_leaves E P cluster certOpts ca) False"
proof -
  have kept: "kept_cert E (ce_Crypto P) cluster (ManagerMasterCertsName (wc_Name cluster)) (GetRenewalThreshold certOpts)"
      "kept_cert E (ce_Crypto P) cluster (ManagerWorkerCertsName (wc_Name cluster)) (GetRenewalThreshold certOpts)"
      "kept_cert E (ce_Crypto P) cluster (IndexerCertsName (wc_Name cluster)) (GetRenewalThreshold certOpts)"
      "kept_cert E (ce_Crypto P) cluster (DashboardCertsName (wc_Name cluster)) (GetDashboardRenewalThreshold certOpts)"
      "kept_cert E (ce_Crypto P) cluster (FilebeatCertsName (wc_Name cluster)) (GetFilebeatRenewalThreshold certOpts)"
      "kept_cert E (ce_Crypto P) cluster (AdminCertsName (wc_Name cluster)) (GetAdminRenewalThreshold certOpts)"
    using assms(1) by (simp_all add: cert_secrets_def Let_def)
  show ?thesis
    unfolding reconcile_leaves_def Let_def reconcileManagerCerts_def reconcileIndexerCerts_def reconcileNodeCertWithRenewalStatus_def
      reconcileDashboardCerts_def reconcileFilebeatCerts_def reconcileAdminCerts_def
    by (intro silent_try [where a = False] silent_ret kept_leaf) (simp_all add: kept assms(2) node_leaf_def dashboard_leaf_def filebeat_leaf_def admin_leaf_def)
qed

subsection \<open>How long a fresh certificate lasts\<close>

text \<open>
  What the code relies on of the cryptographic library: a PEM block and a key are read back as
  they were written, and a signed certificate has the names and the dates of its template, the
  dates cut down to a whole second.
\<close>

definition cut_to_second :: "time \<Rightarrow> time \<Rightarrow> bool" where
  "cut_to_second t u \<longleftrightarrow> u \<le> t \<and> t < u + 1000000000"

definition sound_crypto :: "'s crypto \<Rightarrow> bool" where
  "sound_crypto cy \<longleftrightarrow>
     (\<forall>kind der. cy_DecodePEM cy (cy_EncodePEM cy kind der) = Some (kind, der)) \<and>
     (\<forall>k. cy_ParsePKCS1 cy (cy_MarshalPKCS1 cy k) = Inr (RSAKey k)) \<and>
     (\<forall>key der. cy_MarshalPKCS8 cy key = Inr der \<longrightarrow> cy_ParsePKCS8 cy der = Inr key) \<and>
     (\<forall>t parent key signKey s der s' x. cy_CreateCertificate cy t parent key signKey s = (Inr der, s') \<longrightarrow> cy_ParseCertificate cy der = Inr x \<longrightarrow>
       x_DNSNames x = x_DNSNames t \<and> cut_to_second (x_NotBefore t) (x_NotBefore x) \<and> cut_to_second (x_NotAfter t) (x_NotAfter x))"

lemma try_io_InrE:
  assumes "run_state (try_io m wrap f) w = (Inr b, w')"
  obtains a w1 where "run_state m w = (Inr a, w1)" and "run_state (f a) w1 = (Inr b, w')"
  using assms by (auto simp: run_try split: prod.splits sum.splits)

lemma sound_key:
  assumes "sound_crypto cy" and "EncodePrivateKeyToPEM cy key = Inr pem"
  shows "ParsePrivateKeyFromPEM cy pem = Inr key"
  using assms by (cases key) (auto simp: sound_crypto_def EncodePrivateKeyToPEM_def ParsePrivateKeyFromPEM_def split: sum.splits)

lemma sealed_parses:
  assumes "sound_crypto cy" and "sealed cy what key Inr der = Inr cert"
  shows "ParseNodeCert cy (cr_CertificatePEM cert) (cr_PrivateKeyPEM cert) = Inr cert \<and> cy_ParseCertificate cy der = Inr (cr_Certificate cert)"
proof -
  obtain x pem where x: "cy_ParseCertificate cy der = Inr x" and pem: "EncodePrivateKeyToPEM cy key = Inr pem"
      and cert: "cert = \<lparr>cr_Certificate = x, cr_PrivateKey = key, cr_CertificatePEM = cy_EncodePEM cy ''CERTIFICATE'' der, cr_PrivateKeyPEM = pem\<rparr>"
    using assms(2) by (auto simp: sealed_def split: sum.splits)
  have "cy_DecodePEM cy (cy_EncodePEM cy ''CERTIFICATE'' der) = Some (''CERTIFICATE'', der)" using assms(1) by (simp add: sound_crypto_def)
  then show ?thesis using x sound_key [OF assms(1) pem] by (simp add: cert ParseNodeCert_def)
qed

lemma generated_parses:
  assumes sound: "sound_crypto cy"
    and run: "run_state (generate_signed E cy what c (\<lambda>n t. template_of c n t isCA usage dns) signer Inr) w = (Inr cert, w')"
  shows "ParseNodeCert cy (cr_CertificatePEM cert) (cr_PrivateKeyPEM cert) = Inr cert \<and> x_DNSNames (cr_Certificate cert) = dns \<and>
    \<bar>x_NotAfter (cr_Certificate cert) - (x_NotBefore (cr_Certificate cert) + sint (cfg_Validity c))\<bar> < 1000000000"
proof -
  obtain key n t0 w3 where k: "run_state (case signer (template_of c n t0 isCA usage dns) key of (parent, signKey) \<Rightarrow>
         try_io (ask (cy_CreateCertificate cy (template_of c n t0 isCA usage dns) parent key signKey))
           (wrapf (''failed to create '' @ what @ '' certificate: '')) (\<lambda>certDER. ret (sealed cy what key Inr certDER))) w3 = (Inr cert, w')"
    using run unfolding generate_signed_def by (elim try_io_InrE) (auto simp only: run_bind Let_def split: prod.splits)
  define t where "t = template_of c n t0 isCA usage dns"
  obtain parent signKey where signer: "signer t key = (parent, signKey)" by (metis surj_pair)
  obtain der w4 where der: "run_state (ask (cy_CreateCertificate cy t parent key signKey)) w3 = (Inr der, w4)"
      and seal: "run_state (ret (sealed cy what key Inr der)) w4 = (Inr cert, w')"
    using k [folded t_def, unfolded signer prod.case] by (elim try_io_InrE)
  have "sealed cy what key Inr der = Inr cert" using seal by simp
  note sealed_parses [OF sound this]
  moreover obtain s' where "cy_CreateCertificate cy t parent key signKey (w_env w3) = (Inr der, s')"
    using der by (auto simp: run_ask split: prod.splits)
  ultimately have "x_DNSNames (cr_Certificate cert) = x_DNSNames t \<and> cut_to_second (x_NotBefore t) (x_NotBefore (cr_Certificate cert)) \<and>
      cut_to_second (x_NotAfter t) (x_NotAfter (cr_Certificate cert))"
    using sound unfolding sound_crypto_def by blast
  then show ?thesis using sealed_parses [OF sound \<open>sealed cy what key Inr der = Inr cert\<close>]
    by (auto simp: t_def template_of_def cut_to_second_def)
qed

lemma positive_default: "0 < sint (default_duration DefaultNodeValidityStr)" "0 < sint (default_duration DefaultNodeRenewalThresholdStr)"
  by code_simp+

lemma node_validity_positive: "0 < sint (GetNodeValidity o1)" and node_threshold_positive: "0 < sint (GetRenewalThreshold o1)"
  using positive_default by (simp_all add: GetNodeValidity_def GetRenewalThreshold_def positive_or_def)

lemma sint_uminus_positive: "0 < sint (d :: i64) \<Longrightarrow> sint (- d) = - sint d"
  using sint_range_size [of d] by (simp add: sint_word_ariths signed_take_bit_int_eq_self word_size)

lemma stored_leaf:
  "label_get (scr_Data (leaf_secret cluster leaf ca cert)) SecretKeyTLSCert = cr_CertificatePEM cert"
  "label_get (scr_Data (leaf_secret cluster leaf ca cert)) SecretKeyTLSKey = cr_PrivateKeyPEM cert"
  by (simp_all add: leaf_secret_def label_get_def SecretKeyTLSCert_def SecretKeyTLSKey_def SecretKeyCACert_def)

lemma reconcile_leaf_found:
  assumes "e_get_secret E (wc_Namespace cluster) (lf_SecretName leaf) (w_env w) = (Inr found, s)"
    and "ParseNodeCert cy (label_get found SecretKeyTLSCert) (label_get found SecretKeyTLSKey) = Inr cert"
    and "\<not> RequiresDomainRegeneration (e_domain E) (cr_Certificate cert)"
    and "e_now E s = (now, s')"
  shows "run_state (reconcile_leaf E cy recorder cluster leaf ca) w = run_state
    (if now > x_NotAfter (cr_Certificate cert) + sint (- lf_Threshold leaf)
     then do { emitTypedCertRenewingEvent recorder (lf_Type leaf) (lf_SecretName leaf); new_leaf E recorder cluster leaf ca True }
     else lf_kept leaf found) (w\<lparr>w_env := s'\<rparr>)"
  using assms by (simp add: reconcile_leaf_def run_bind get_secret_def run_ask NeedsRenewal_def time_now_def)

text \<open>
  C15: A fresh certificate is kept and renewed in time. The certificate of a node that the operator
  generated and stored is kept, without any write, by every later reconciliation whose clock
  reads at least a second before the end of the validity less the renewal threshold, and
  renewed by every one that reads more than a second after it. So a validity that exceeds the
  threshold by more than two seconds gives a certificate that stays, while one that falls short of
  it by more than a second makes every reconciliation renew the certificate. The library's
  behaviour is assumed as documented.
\<close>

theorem node_certificate_lifetime:
  assumes "sound_crypto cy" and "leaf = node_leaf E cy cluster secretName componentName sans certOpts"
    and "list_all (agrees (e_domain E)) sans"
    and "run_state (lf_Generate leaf ca) w0 = (Inr cert, w1)"
    and "e_get_secret E (wc_Namespace cluster) secretName (w_env w) = (Inr (scr_Data (leaf_secret cluster leaf ca cert)), s)"
    and "e_now E s = (now, s')"
    and "due = x_NotBefore (cr_Certificate cert) + sint (GetNodeValidity certOpts) - sint (GetRenewalThreshold certOpts)"
  shows "(now + 1000000000 \<le> due \<longrightarrow>
      run_state (reconcileNodeCertWithRenewalStatus E cy recorder cluster secretName componentName sans ca' certOpts) w = (Inr False, w\<lparr>w_env := s'\<rparr>)) \<and>
    (now > due + 1000000000 \<longrightarrow>
      run_state (reconcileNodeCertWithRenewalStatus E cy recorder cluster secretName componentName sans ca' certOpts) w =
      run_state (do { emitTypedCertRenewingEvent recorder CertEventTypeNode secretName; new_leaf E recorder cluster leaf ca' True }) (w\<lparr>w_env := s'\<rparr>))"
proof -
  define c where "c = with_defaults DefaultNodeValidityStr ((configured certOpts (GetNodeValidity certOpts)
    (DefaultNodeCertConfig (wc_Name cluster @ ''-'' @ componentName)))\<lparr>cfg_DNSNames := sans\<rparr>)"
  have c: "cfg_Validity c = GetNodeValidity certOpts" "cfg_DNSNames c = sans"
    using node_validity_positive [of certOpts] by (simp_all add: c_def with_defaults_def configured_def)
  have gen: "run_state (generate_signed E cy ''node'' c (\<lambda>n t. template_of c n t False
      [DigitalSignature, KeyEncipherment, ServerAuth, ClientAuth] (cfg_DNSNames c)) (signed_by ca) Inr) w0 = (Inr cert, w1)"
    using assms(4) by (simp add: assms(2) node_leaf_def GenerateNodeCert_def c_def Let_def split: if_splits)
  note fresh = generated_parses [OF assms(1) gen, unfolded c]
  have "\<not> RequiresDomainRegeneration (e_domain E) (cr_Certificate cert)"
    using fresh assms(3) by (auto simp: RequiresDomainRegeneration_iff agrees_def list_all_iff)
  note run = reconcile_leaf_found [of E cluster leaf w "scr_Data (leaf_secret cluster leaf ca cert)" s cy cert now s' recorder ca',
      unfolded stored_leaf, OF _ _ this assms(6)]
  have leaf: "lf_SecretName leaf = secretName" "lf_Type leaf = CertEventTypeNode" "lf_kept leaf = stays" "lf_Threshold leaf = GetRenewalThreshold certOpts"
    by (simp_all add: assms(2) node_leaf_def)
  have "reconcileNodeCertWithRenewalStatus E cy recorder cluster secretName componentName sans ca' certOpts = reconcile_leaf E cy recorder cluster leaf ca'"
    by (simp add: reconcileNodeCertWithRenewalStatus_def assms(2))
  moreover have "sint (- lf_Threshold leaf) = - sint (GetRenewalThreshold certOpts)"
    by (simp add: leaf sint_uminus_positive node_threshold_positive)
  ultimately show ?thesis using run fresh assms(5,7) by (simp add: leaf stays_def) linarith
qed

text \<open>A library that signs one certificate, with RSA keys.\<close>

definition encode_pem :: "string \<Rightarrow> string \<Rightarrow> string" where
  "encode_pem kind der = replicate (length kind) CHR ''k'' @ CHR ''.'' # kind @ der"

definition decode_pem :: "string \<Rightarrow> (string \<times> string) option" where
  "decode_pem pem = (let n = length (takeWhile (\<lambda>c. c = CHR ''k'') pem); text = drop (Suc n) pem in Some (take n text, drop n text))"

lemma decode_encode_pem: "decode_pem (encode_pem kind der) = Some (kind, der)"
proof -
  have "takeWhile (\<lambda>c. c = CHR ''k'') (replicate n CHR ''k'' @ CHR ''.'' # s) = replicate n CHR ''k''" for n s by (induction n) simp_all
  then show ?thesis by (simp add: decode_pem_def encode_pem_def Let_def)
qed

definition one_cert_crypto :: "Certificate \<Rightarrow> unit crypto" where
  "one_cert_crypto tpl = \<lparr>cy_RSA = (\<lambda>n s. (Inr (RSAKey ''key''), s)), cy_ECDSA = (\<lambda>c s. (Inl not_found, s)), cy_Serial = (\<lambda>s. (Inr 1, s)),
     cy_CreateCertificate = (\<lambda>t p k sk s. (if t = tpl then Inr ''cert'' else Inl not_found, s)), cy_ParseCertificate = (\<lambda>der. Inr tpl),
     cy_MarshalPKCS1 = (\<lambda>k. k), cy_MarshalPKCS8 = (\<lambda>k. Inl not_found), cy_ParsePKCS1 = (\<lambda>d. Inr (RSAKey d)), cy_ParseEC = (\<lambda>d. Inl not_found),
     cy_ParsePKCS8 = (\<lambda>d. Inl not_found), cy_EncodePEM = encode_pem, cy_DecodePEM = decode_pem\<rparr>"

lemma one_cert_sound: "sound_crypto (one_cert_crypto tpl)"
  by (auto simp: sound_crypto_def one_cert_crypto_def decode_encode_pem cut_to_second_def split: if_splits)

definition one_cert_sans :: "string list" where
  "one_cert_sans = GenerateIndexerNodeSANs ''cluster.local'' ''w'' ''ns'' 1"

definition one_cert_config :: CertConfig where
  "one_cert_config = with_defaults DefaultNodeValidityStr ((configured DefaultCertificateOptions (GetNodeValidity DefaultCertificateOptions)
    (DefaultNodeCertConfig (wc_Name empty_cluster @ ''-'' @ ''indexer'')))\<lparr>cfg_DNSNames := one_cert_sans\<rparr>)"

definition one_cert_template :: Certificate where
  "one_cert_template = template_of one_cert_config 1 0 False [DigitalSignature, KeyEncipherment, ServerAuth, ClientAuth] one_cert_sans"

definition one_cert_result :: CertResult where
  "one_cert_result = \<lparr>cr_Certificate = one_cert_template, cr_PrivateKey = RSAKey ''key'', cr_CertificatePEM = encode_pem ''CERTIFICATE'' ''cert'',
     cr_PrivateKeyPEM = encode_pem ''RSA PRIVATE KEY'' ''key''\<rparr>"

definition one_cert_env :: "unit env" where
  "one_cert_env = dead_env\<lparr>e_get_secret := \<lambda>ns n s. (Inr [(SecretKeyCACert, cr_CertificatePEM one_cert_result),
     (SecretKeyTLSCert, cr_CertificatePEM one_cert_result), (SecretKeyTLSKey, cr_PrivateKeyPEM one_cert_result)], s)\<rparr>"

lemma one_cert_generated:
  "run_state (lf_Generate (node_leaf one_cert_env (one_cert_crypto one_cert_template) empty_cluster ''certs'' ''indexer'' one_cert_sans
     DefaultCertificateOptions) one_cert_result) (new_world ()) = (Inr one_cert_result, new_world ())"
proof -
  have k: "cfg_KeyAlgorithm one_cert_config = ''RSA''" "cfg_DNSNames one_cert_config = one_cert_sans"
    by (simp_all add: one_cert_config_def with_defaults_def configured_def DefaultCertificateOptions_def)
  have g: "lf_Generate (node_leaf one_cert_env (one_cert_crypto one_cert_template) empty_cluster ''certs'' ''indexer'' one_cert_sans
     DefaultCertificateOptions) one_cert_result = generate_signed one_cert_env (one_cert_crypto one_cert_template) ''node'' one_cert_config
       (\<lambda>n t. template_of one_cert_config n t False [DigitalSignature, KeyEncipherment, ServerAuth, ClientAuth] one_cert_sans) (signed_by one_cert_result) Inr"
    unfolding node_leaf_def leaf.select_convs GenerateNodeCert_def Let_def one_cert_config_def [symmetric] k(2)
    by (simp add: configured_def DefaultNodeCertConfig_def default_config_def)
  have "template_of one_cert_config 1 0 False [DigitalSignature, KeyEncipherment, ServerAuth, ClientAuth] one_cert_sans = one_cert_template"
    by (simp add: one_cert_template_def)
  then show ?thesis
    unfolding g by (simp add: generate_signed_def GeneratePrivateKey_def k run_try run_ask run_bind one_cert_crypto_def time_now_def one_cert_env_def
      dead_env_def new_world_def signed_by_def sealed_def EncodePrivateKeyToPEM_def one_cert_result_def)
qed

theorem node_certificate_lifetime_witness:
  "sound_crypto (one_cert_crypto one_cert_template) \<and>
   run_state (reconcileNodeCertWithRenewalStatus one_cert_env (one_cert_crypto one_cert_template) True empty_cluster ''certs'' ''indexer'' one_cert_sans
     one_cert_result DefaultCertificateOptions) (new_world ()) = (Inr False, new_world ())"
proof -
  define leaf where "leaf = node_leaf one_cert_env (one_cert_crypto one_cert_template) empty_cluster ''certs'' ''indexer'' one_cert_sans DefaultCertificateOptions"
  have sans: "list_all (agrees (e_domain one_cert_env)) one_cert_sans"
    using generated_names_agree(1) [of "''cluster.local''" "''w''" "''ns''" 1] by (simp add: one_cert_env_def dead_env_def one_cert_sans_def clean_domain_def)
  have stored: "e_get_secret one_cert_env (wc_Namespace empty_cluster) ''certs'' (w_env (new_world ())) =
      (Inr (scr_Data (leaf_secret empty_cluster leaf one_cert_result one_cert_result)), ())"
    by (simp add: one_cert_env_def leaf_secret_def)
  have now: "e_now one_cert_env () = (0, ())" by (simp add: one_cert_env_def dead_env_def)
  have "0 + 1000000000 \<le> (0 :: int) + sint (GetNodeValidity DefaultCertificateOptions) - sint (GetRenewalThreshold DefaultCertificateOptions)"
    by code_simp
  moreover have "x_NotBefore (cr_Certificate one_cert_result) = 0" by (simp add: one_cert_result_def one_cert_template_def template_of_def)
  ultimately show ?thesis
    using node_certificate_lifetime [OF one_cert_sound leaf_def sans one_cert_generated [folded leaf_def] stored now refl, of True one_cert_result] one_cert_sound
    by (simp add: new_world_def)
qed

subsection \<open>What a renewal of the CA does to the other certificates\<close>

lemma collect_hashes_keeps:
  assumes "list_all (\<lambda>(n, what, put). \<forall>h r. Q r \<longrightarrow> Q (put h r)) secrets" and "Q result"
  shows "Q (fst (fst (run_state (collect_hashes E cluster secrets result) w)))"
  using assms
proof (induction secrets arbitrary: result w)
  case Nil
  then show ?case by simp
next
  case (Cons s secrets)
  obtain n what put where s: "s = (n, what, put)" by (cases s)
  obtain r w1 where r: "run_state (getSecretHash E cluster n) w = (r, w1)" by (metis surj_pair)
  show ?case using Cons by (auto simp: s run_bind r split: sum.split)
qed

lemma collected_flags:
  assumes "run_state (collectCertHashes E cluster) w = ((r, err), w1)"
  shows "\<not> chr_CARenewed r \<and> \<not> chr_CARenewalPending r \<and> \<not> chr_IndexerCertsRenewed r \<and> chr_HotReloadError r = None"
  using collect_hashes_keeps [of "\<lambda>r. \<not> chr_CARenewed r \<and> \<not> chr_CARenewalPending r \<and> \<not> chr_IndexerCertsRenewed r \<and> chr_HotReloadError r = None"
      "hashed_secrets (wc_Name cluster)" no_hashes E cluster w] assms
  by (simp add: collectCertHashes_def hashed_secrets_def no_hashes_def)

lemma collected_log:
  assumes "run_state (collectCertHashes E cluster) w = (r, w1)"
  shows "w_log w1 = w_log w"
proof -
  obtain es where "w_log w1 = w_log w @ es" and "list_all (\<lambda>e. False) es"
    by (rule logs_onlyD [OF collectCertHashes_logs assms])
  then show ?thesis by (cases es) simp_all
qed

text \<open>
  C38: The other certificates do not follow the CA. When the CA's renewal waits for a maintenance
  window, a reconciliation writes no other certificate, not even an expired one. And when the CA
  was renewed or created, every other certificate that still can be read, carries the domain and
  is not due stays as it is: a reconciliation in which all are so, with the administrator's key
  in PKCS\#8 as the operator makes it, writes nothing after the CA's secret. So the nodes keep
  certificates signed by the old CA, and its copy, in their secrets.
\<close>

theorem leaves_do_not_follow_ca:
  assumes "Option.bind (wc_TLS cluster) tls_CustomCerts = None"
    and "run_state (reconcileCA E (ce_Crypto P) (ce_Cron P) (ce_Recorder P) cluster (getCertOptions cluster)) w = (Some (Inr car), w1)"
    and "car_RenewalPending car \<or>
      list_all (\<lambda>(n, d). kept_cert E (ce_Crypto P) cluster n d) (cert_secrets cluster (getCertOptions cluster)) \<and>
      pkcs8_stored E (ce_Crypto P) cluster (AdminCertsName (wc_Name cluster))"
  shows "\<exists>r w2. run_state (ReconcileWithHashes E P cluster) w = (Some (Inr r), w2) \<and> w_log w2 = w_log w1 \<and>
    chr_CARenewalPending r = car_RenewalPending car \<and> chr_CARenewed r = (car_Renewed car \<and> \<not> car_RenewalPending car) \<and>
    \<not> chr_IndexerCertsRenewed r \<and> chr_HotReloadError r = None"
proof (cases "car_RenewalPending car")
  case True
  obtain r err w2 where c: "run_state (collectCertHashes E cluster) w1 = ((r, err), w2)" by (metis surj_pair)
  show ?thesis using collected_flags [OF c] collected_log [OF c] assms(1,2) c True
    by (simp add: ReconcileWithHashes_def Let_def run_bind)
next
  case False
  then have "silent (reconcile_leaves E P cluster (getCertOptions cluster) (car_CAResult car)) False" using kept_leaves assms(3) by blast
  then obtain s where l: "run_state (reconcile_leaves E P cluster (getCertOptions cluster) (car_CAResult car)) w1 = (Inr False, w1\<lparr>w_env := s\<rparr>)"
    unfolding silent_def by blast
  obtain r err w2 where c: "run_state (collectCertHashes E cluster) (w1\<lparr>w_env := s\<rparr>) = ((r, err), w2)" by (metis surj_pair)
  show ?thesis using collected_flags [OF c] collected_log [OF c] assms(1,2) c l False
    by (simp add: ReconcileWithHashes_def finish_certs_def Let_def run_bind)
qed

text \<open>An expired CA among certificates that are in date.\<close>

definition dated_cert :: "string \<Rightarrow> Certificate" where
  "dated_cert der = template_of one_cert_config 1 (if der = ''old-ca'' then - sint (cfg_Validity one_cert_config) else 0) (der \<noteq> ''leaf'') [] []"

definition flat_crypto :: "unit crypto" where
  "flat_crypto = \<lparr>cy_RSA = (\<lambda>n s. (Inr (RSAKey ''key''), s)), cy_ECDSA = (\<lambda>c s. (Inl not_found, s)), cy_Serial = (\<lambda>s. (Inr 1, s)),
     cy_CreateCertificate = (\<lambda>t p k sk s. (Inr ''new-ca'', s)), cy_ParseCertificate = (\<lambda>der. Inr (dated_cert der)),
     cy_MarshalPKCS1 = (\<lambda>k. k), cy_MarshalPKCS8 = (\<lambda>k. case k of RSAKey d \<Rightarrow> Inr d | _ \<Rightarrow> Inl not_found), cy_ParsePKCS1 = (\<lambda>d. Inr (RSAKey d)),
     cy_ParseEC = (\<lambda>d. Inl not_found), cy_ParsePKCS8 = (\<lambda>d. Inr (RSAKey d)), cy_EncodePEM = encode_pem, cy_DecodePEM = decode_pem\<rparr>"

definition cert_pem :: "string \<Rightarrow> string" where "cert_pem der = encode_pem ''CERTIFICATE'' der"
definition rsa_pem :: string where "rsa_pem = encode_pem ''RSA PRIVATE KEY'' ''key''"
definition pkcs8_pem :: string where "pkcs8_pem = encode_pem ''PRIVATE KEY'' ''key''"

lemma flat_parse:
  assumes "pem \<in> {rsa_pem, pkcs8_pem}"
  shows "ParseNodeCert flat_crypto (cert_pem der) pem =
    Inr \<lparr>cr_Certificate = dated_cert der, cr_PrivateKey = RSAKey ''key'', cr_CertificatePEM = cert_pem der, cr_PrivateKeyPEM = pem\<rparr>"
  using assms by (auto simp: ParseNodeCert_def ParsePrivateKeyFromPEM_def flat_crypto_def cert_pem_def rsa_pem_def pkcs8_pem_def decode_encode_pem)

lemma flat_convert: "ConvertPrivateKeyPEMToPKCS8 flat_crypto pkcs8_pem = Inr pkcs8_pem"
  by (simp add: ConvertPrivateKeyPEMToPKCS8_def ParsePrivateKeyFromPEM_def flat_crypto_def pkcs8_pem_def decode_encode_pem)

definition flat_key :: "string \<Rightarrow> string" where
  "flat_key n = (if n = AdminCertsName (wc_Name empty_cluster) then pkcs8_pem else rsa_pem)"

definition flat_secrets :: "string \<Rightarrow> labels" where
  "flat_secrets n = (if n = wc_Name empty_cluster @ ''-ca'' then [(SecretKeyCACert, cert_pem ''old-ca''), (SecretKeyCAKey, rsa_pem)]
     else [(SecretKeyCACert, cert_pem ''old-ca''), (SecretKeyTLSCert, cert_pem ''leaf''), (SecretKeyTLSKey, flat_key n)])"

definition secrets_env :: "(string \<Rightarrow> labels) \<Rightarrow> unit env" where
  "secrets_env secrets = dead_env\<lparr>e_get_secret := \<lambda>ns n s. (Inr (secrets n), s), e_update_secret := \<lambda>t s. (Inr (), s)\<rparr>"

lemma secrets_env_simps [simp]:
  "e_now (secrets_env secrets) s = (0, s)" "e_get_secret (secrets_env secrets) ns n s = (Inr (secrets n), s)"
  "e_update_secret (secrets_env secrets) t s = (Inr (), s)"
  by (simp_all add: secrets_env_def dead_env_def)

definition flat_env :: "unit env" where "flat_env = secrets_env flat_secrets"

definition flat_certs :: "unit cert_env" where
  "flat_certs = \<lparr>ce_Crypto = flat_crypto, ce_Cron = hours_cron, ce_Custom = (\<lambda>c. ret (Inl not_found)), ce_Reload = (\<lambda>c r. ret r), ce_Releases = [],
     ce_Recorder = False\<rparr>"

definition renewed_ca :: CertResult where
  "renewed_ca = \<lparr>cr_Certificate = dated_cert ''new-ca'', cr_PrivateKey = RSAKey ''key'', cr_CertificatePEM = cert_pem ''new-ca'', cr_PrivateKeyPEM = rsa_pem\<rparr>"

lemma flat_default_options: "getCertOptions empty_cluster = DefaultCertificateOptions"
  by (simp add: getCertOptions_def empty_cluster_def)

lemma flat_ca:
  "run_state (reconcileCA flat_env flat_crypto hours_cron False empty_cluster DefaultCertificateOptions) (new_world ()) =
     (Some (Inr \<lparr>car_CAResult = renewed_ca, car_Renewed = True, car_RenewalPending = False, car_NextMaintenanceWindow = (zero_time, ''UTC'')\<rparr>),
      (new_world ())\<lparr>w_log := [EUpdateSecret (ca_secret empty_cluster renewed_ca)]\<rparr>)"
proof -
  define cfg where "cfg = with_defaults DefaultCAValidityStr (ca_config empty_cluster DefaultCertificateOptions)"
  have cfg: "cfg_KeyAlgorithm cfg = ''RSA''" "cfg_CommonName (ca_config empty_cluster DefaultCertificateOptions) \<noteq> []"
    by (simp_all add: cfg_def with_defaults_def ca_config_def configured_def DefaultCertificateOptions_def DefaultCAConfig_def default_config_def)
  have "run_state (GenerateCA flat_env flat_crypto (ca_config empty_cluster DefaultCertificateOptions)) (new_world ()) = (Inr renewed_ca, new_world ())"
    using cfg by (simp add: GenerateCA_def cfg_def [symmetric] Let_def generate_signed_def GeneratePrivateKey_def run_try run_ask run_bind time_now_def
      flat_crypto_def flat_env_def new_world_def sealed_def EncodePrivateKeyToPEM_def renewed_ca_def cert_pem_def rsa_pem_def)
  then have new: "run_state (new_ca flat_env flat_crypto False empty_cluster DefaultCertificateOptions True) (new_world ()) =
     (Some (Inr \<lparr>car_CAResult = renewed_ca, car_Renewed = True, car_RenewalPending = False, car_NextMaintenanceWindow = (zero_time, ''UTC'')\<rparr>),
      (new_world ())\<lparr>w_log := [EUpdateSecret (ca_secret empty_cluster renewed_ca)]\<rparr>)"
    by (simp add: new_ca_def run_bind run_try write_cert_def update_secret_def run_emit run_ask flat_env_def emitTypedCertRenewedEvent_def emit_cert_def new_world_def)
  have parse: "ParseCA flat_crypto (cert_pem ''old-ca'') rsa_pem = Inr \<lparr>cr_Certificate = dated_cert ''old-ca'', cr_PrivateKey = RSAKey ''key'',
      cr_CertificatePEM = cert_pem ''old-ca'', cr_PrivateKeyPEM = rsa_pem\<rparr>"
    by (simp add: ParseCA_def flat_parse)
  have secret: "label_get (flat_secrets (wc_Name empty_cluster @ ''-ca'')) SecretKeyCACert = cert_pem ''old-ca''"
      "label_get (flat_secrets (wc_Name empty_cluster @ ''-ca'')) SecretKeyCAKey = rsa_pem"
    by (simp_all add: flat_secrets_def label_get_def SecretKeyCACert_def SecretKeyCAKey_def)
  have "x_NotAfter (dated_cert ''old-ca'') = 0" by (simp add: dated_cert_def template_of_def)
  moreover have "sint (- GetCARenewalThreshold DefaultCertificateOptions) < 0" by code_simp
  moreover have "e_now flat_env s = (0, s)" "e_get_secret flat_env ns n s = (Inr (flat_secrets n), s)" for ns n s by (simp_all add: flat_env_def)
  moreover have "wc_TLS empty_cluster = None" by (simp add: empty_cluster_def)
  ultimately show ?thesis using new
    by (simp add: reconcileCA_def run_bind get_secret_def run_ask secret parse NeedsRenewal_def time_now_def checkCAMaintenanceWindow_def allow_now_def
      emitTypedCertRenewingEvent_def emit_cert_def new_world_def)
qed

lemma flat_kept:
  assumes "label_get (secrets n) SecretKeyTLSCert = cert_pem ''leaf''" and "label_get (secrets n) SecretKeyTLSKey \<in> {rsa_pem, pkcs8_pem}"
    and "sint (cfg_Validity one_cert_config) + sint (- d) \<ge> 0"
  shows "kept_cert (secrets_env secrets) flat_crypto empty_cluster n d"
proof -
  note p = flat_parse [OF assms(2), of "''leaf''", folded assms(1)]
  have "x_DNSNames (dated_cert ''leaf'') = []" "x_NotAfter (dated_cert ''leaf'') = sint (cfg_Validity one_cert_config)"
    by (simp_all add: dated_cert_def template_of_def)
  then show ?thesis unfolding kept_cert_def
    by (intro exI [of _ "secrets n"] exI conjI, rule_tac [2] p) (use assms(3) in \<open>simp_all add: RequiresDomainRegeneration_iff\<close>)
qed

lemma default_threshold_short:
  assumes "(n, d) \<in> set (cert_secrets cluster DefaultCertificateOptions)"
  shows "sint (cfg_Validity one_cert_config) + sint (- d) \<ge> 0"
proof -
  have "d = default_duration DefaultNodeRenewalThresholdStr"
    using assms by (auto simp: cert_secrets_def Let_def GetRenewalThreshold_def GetDashboardRenewalThreshold_def GetFilebeatRenewalThreshold_def
      GetAdminRenewalThreshold_def positive_or_def DefaultCertificateOptions_def)
  moreover have "cfg_Validity one_cert_config = default_duration DefaultNodeValidityStr"
    by (simp add: one_cert_config_def with_defaults_def configured_def GetNodeValidity_def positive_or_def DefaultCertificateOptions_def)
  moreover have "sint (default_duration DefaultNodeValidityStr) + sint (- default_duration DefaultNodeRenewalThresholdStr) \<ge> 0" by code_simp
  ultimately show ?thesis by simp
qed

lemma stored_leaves_kept:
  assumes "list_all (\<lambda>(n, d). label_get (secrets n) SecretKeyTLSCert = cert_pem ''leaf'' \<and> label_get (secrets n) SecretKeyTLSKey \<in> {rsa_pem, pkcs8_pem}) nds"
    and "set nds \<subseteq> set (cert_secrets empty_cluster DefaultCertificateOptions)"
  shows "list_all (\<lambda>(n, d). kept_cert (secrets_env secrets) flat_crypto empty_cluster n d) nds"
  using assms default_threshold_short by (fastforce simp: list_all_iff intro: flat_kept)

theorem leaves_do_not_follow_ca_witness:
  "\<exists>r w2. run_state (ReconcileWithHashes flat_env flat_certs empty_cluster) (new_world ()) = (Some (Inr r), w2) \<and>
     w_log w2 = [EUpdateSecret (ca_secret empty_cluster renewed_ca)] \<and> chr_CARenewed r \<and> \<not> chr_IndexerCertsRenewed r"
proof -
  have custom: "Option.bind (wc_TLS empty_cluster) tls_CustomCerts = None" by (simp add: empty_cluster_def)
  have ca: "run_state (reconcileCA flat_env (ce_Crypto flat_certs) (ce_Cron flat_certs) (ce_Recorder flat_certs) empty_cluster (getCertOptions empty_cluster)) (new_world ()) =
     (Some (Inr \<lparr>car_CAResult = renewed_ca, car_Renewed = True, car_RenewalPending = False, car_NextMaintenanceWindow = (zero_time, ''UTC'')\<rparr>),
      (new_world ())\<lparr>w_log := [EUpdateSecret (ca_secret empty_cluster renewed_ca)]\<rparr>)"
    using flat_ca by (simp add: flat_certs_def flat_default_options)
  have leaf: "label_get (flat_secrets n) SecretKeyTLSCert = cert_pem ''leaf''" "label_get (flat_secrets n) SecretKeyTLSKey = flat_key n"
    if "n \<noteq> wc_Name empty_cluster @ ''-ca''" for n
    using that by (simp_all add: flat_secrets_def label_get_def SecretKeyTLSCert_def SecretKeyTLSKey_def SecretKeyCACert_def)
  have names: "list_all (\<lambda>(n, d). n \<noteq> wc_Name empty_cluster @ ''-ca'') (cert_secrets empty_cluster DefaultCertificateOptions)"
    unfolding cert_secrets_def Let_def list.pred_inject prod.case by (intro conjI TrueI; code_simp)
  then have "list_all (\<lambda>(n, d). label_get (flat_secrets n) SecretKeyTLSCert = cert_pem ''leaf'' \<and>
      label_get (flat_secrets n) SecretKeyTLSKey \<in> {rsa_pem, pkcs8_pem}) (cert_secrets empty_cluster DefaultCertificateOptions)"
    by (rule list.pred_mono_strong) (auto simp: leaf flat_key_def)
  then have kept: "list_all (\<lambda>(n, d). kept_cert flat_env (ce_Crypto flat_certs) empty_cluster n d) (cert_secrets empty_cluster (getCertOptions empty_cluster))"
    using stored_leaves_kept by (simp add: flat_default_options flat_certs_def flat_env_def)
  have "AdminCertsName (wc_Name empty_cluster) \<noteq> wc_Name empty_cluster @ ''-ca''" by code_simp
  then have "pkcs8_stored flat_env (ce_Crypto flat_certs) empty_cluster (AdminCertsName (wc_Name empty_cluster))"
    using leaf(2) flat_convert by (simp add: pkcs8_stored_def flat_env_def flat_certs_def flat_key_def)
  note kept = kept this
  show ?thesis using leaves_do_not_follow_ca [OF custom ca disjI2, OF conjI, OF kept] by auto
qed

end
