(* ===== verification/Controller.thy ===== *)
theory Controller
  imports CertRenewal WorkloadApply ClusterStatus WorkerReconcile Rolling DrainRetry DryRun NodePoolValidation Storage
begin

section \<open>The reconciliation of a cluster (wazuhcluster_controller.go)\<close>

text \<open>
  \<open>Reconcile\<close> puts the components together: validation, rollbacks and retries of drains, the
  dry run, the two drain gates, the workloads behind them, the credential rotations, the rolling
  restarts and the status. What it calls and is modelled in another theory is called here;
  the other collaborators (certificates, builders and the smaller objects) are arguments, any
  computations that may change the working copy of the cluster. Traces, metrics, log lines and
  the watchdog are left out; a deferred call runs when its function returns.
\<close>

subsection \<open>Drains: events, rollback, retry\<close>

definition emitDrainEvent :: "bool \<Rightarrow> string \<Rightarrow> string \<Rightarrow> string \<Rightarrow> ('s, unit) io" where
  "emitDrainEvent recorder component reason message =
     (if recorder then record_event (reason \<in> {''DrainFailed'', ''DrainRollbackFailed'', ''DrainMaxRetries''}) reason
        (''['' @ component @ ''] '' @ message)
      else ret ())"

record Controller =
  co_Indexer :: IndexerReconciler
  co_Worker :: "WorkerReconciler option"
  co_RetryManager :: bool
  co_RollbackManager :: bool
  co_GatewayAPIEnabled :: bool

definition rollback_done :: "ComponentDrainStatus \<Rightarrow> ComponentDrainStatus" where
  "rollback_done s = s\<lparr>ds_Phase := DrainPhaseFailed, ds_Message := ''Rollback complete, waiting for retry''\<rparr>"

definition verify_rollback :: "'s env \<Rightarrow> WazuhCluster \<Rightarrow> string \<Rightarrow> ComponentDrainStatus option \<Rightarrow>
    (ComponentDrainStatus \<Rightarrow> WazuhCluster \<Rightarrow> WazuhCluster) \<Rightarrow> ('s, WazuhCluster result) io" where
  "verify_rollback E cluster component status put = (case status of
     None \<Rightarrow> ret (Inr cluster)
   | Some s \<Rightarrow> if ds_Phase s = DrainPhaseRollingBack
       then try_io (VerifyRollbackComplete E cluster component) id
         (\<lambda>complete. ret (Inr (if complete then put (rollback_done s) cluster else cluster)))
       else ret (Inr cluster))"

text \<open>The indexer's part of the status stays changed when the check of the manager fails.\<close>

definition verifyRollbackComplete :: "'s env \<Rightarrow> Controller \<Rightarrow> WazuhCluster \<Rightarrow> ('s, WazuhCluster \<times> gerror option) io" where
  "verifyRollbackComplete E ctl cluster =
     (if \<not> co_RollbackManager ctl \<or> wc_stDrain cluster = None then ret (cluster, None)
      else do {
        i \<leftarrow> verify_rollback E cluster DrainComponentIndexer (indexer_drain cluster) set_indexer_drain;
        case i of
          Inl err \<Rightarrow> ret (cluster, Some err)
        | Inr cluster \<Rightarrow> do {
            m \<leftarrow> verify_rollback E cluster DrainComponentManager (manager_drain cluster) set_manager_drain;
            ret (case m of Inl err \<Rightarrow> (cluster, Some err) | Inr cluster \<Rightarrow> (cluster, None)) } })"

definition requeue_after :: "duration \<Rightarrow> Result" where "requeue_after d = \<lparr>res_Requeue = False, res_RequeueAfter = d\<rparr>"
definition requeue_now :: Result where "requeue_now = \<lparr>res_Requeue = True, res_RequeueAfter = 0\<rparr>"

definition retry_status :: "ComponentDrainStatus \<Rightarrow> ComponentDrainStatus" where
  "retry_status s = s\<lparr>ds_Phase := DrainPhasePending, ds_Message := ''Retry attempt '' @ show_i32 (ds_AttemptCount s) @ '' starting''\<rparr>"

definition retry_due :: "'s env \<Rightarrow> Controller \<Rightarrow> ComponentDrainStatus \<Rightarrow> ('s, bool) io" where
  "retry_due E ctl s = (if \<not> co_RetryManager ctl \<or> ds_NextRetryTime s = None then ret False
     else do { now \<leftarrow> time_now E; ret (RetryManager_IsRetryDue now s) })"

definition retry_component :: "'s env \<Rightarrow> (f64 \<Rightarrow> i64) \<Rightarrow> Controller \<Rightarrow> WazuhCluster \<Rightarrow> string \<Rightarrow> ComponentDrainStatus option \<Rightarrow>
    (ComponentDrainStatus \<Rightarrow> WazuhCluster \<Rightarrow> WazuhCluster) \<Rightarrow> ('s, WazuhCluster \<times> Result option) io" where
  "retry_component E oor ctl cluster component status put = (case status of
     None \<Rightarrow> ret (cluster, None)
   | Some s \<Rightarrow>
      if ds_Phase s \<noteq> DrainPhaseFailed \<and> ds_Phase s \<noteq> DrainPhaseRollingBack then ret (cluster, None)
      else do {
        due \<leftarrow> retry_due E ctl s;
        if due then do {
          let cluster = put (retry_status s) cluster;
          emitDrainEvent (ir_Recorder (co_Indexer ctl)) component ''DrainRetry'' (ds_Message (retry_status s));
          _ \<leftarrow> updateDrainStatus E oor cluster;
          ret (cluster, Some requeue_now) }
        else (case ds_NextRetryTime s of
            None \<Rightarrow> ret (cluster, None)
          | Some t \<Rightarrow> do {
              now \<leftarrow> time_now E;
              ret (cluster, if sint (time_sub t now) > 0 then Some (requeue_after (time_sub t now)) else None) }) })"

definition checkAndHandleRetry :: "'s env \<Rightarrow> (f64 \<Rightarrow> i64) \<Rightarrow> Controller \<Rightarrow> WazuhCluster \<Rightarrow> ('s, WazuhCluster \<times> Result option) io" where
  "checkAndHandleRetry E oor ctl cluster =
     (if wc_stDrain cluster = None then ret (cluster, None)
      else do {
        (cluster, res) \<leftarrow> retry_component E oor ctl cluster DrainComponentIndexer (indexer_drain cluster) set_indexer_drain;
        case res of
          Some r \<Rightarrow> ret (cluster, Some r)
        | None \<Rightarrow> retry_component E oor ctl cluster DrainComponentManager (manager_drain cluster) set_manager_drain })"

subsection \<open>Dry runs\<close>

text \<open>The node a drain would empty: the one on record, or the last one when the replicas shrink.\<close>

definition dry_run_target :: "ComponentDrainStatus option \<Rightarrow> string \<Rightarrow> i32 \<Rightarrow> i32 \<Rightarrow> string" where
  "dry_run_target status prefix desiredReplicas currentReplicas =
     (let target = (case status of None \<Rightarrow> [] | Some s \<Rightarrow> ds_TargetPod s) in
      if target \<noteq> [] then target
      else if sint desiredReplicas < sint currentReplicas then prefix @ show_i32 (currentReplicas - 1) else [])"

definition indexer_dry_target :: "WazuhCluster \<Rightarrow> string" where
  "indexer_dry_target cluster = dry_run_target (indexer_drain cluster) (wc_Name cluster @ ''-indexer-'')
     (case wc_Indexer cluster of Some i \<Rightarrow> if sint (ics_Replicas i) > 0 then ics_Replicas i else 3 | None \<Rightarrow> 3)
     (case wc_stIndexer cluster of Some st \<Rightarrow> cst_Replicas st | None \<Rightarrow> 0)"

definition manager_dry_target :: "WazuhCluster \<Rightarrow> string" where
  "manager_dry_target cluster = dry_run_target (manager_drain cluster) (wc_Name cluster @ ''-manager-worker-'')
     (case wc_Manager cluster of Some m \<Rightarrow> GetReplicas m | None \<Rightarrow> 0)
     (case manager_drain cluster of Some s \<Rightarrow> (case ds_PreviousReplicas s of Some n \<Rightarrow> n | None \<Rightarrow> 0) | None \<Rightarrow> 0)"

definition add_durations :: "duration option \<Rightarrow> duration option \<Rightarrow> duration option" where
  "add_durations a b = (case b of None \<Rightarrow> a | Some y \<Rightarrow> (case a of None \<Rightarrow> Some y | Some x \<Rightarrow> Some (x + y)))"

definition merge_dry_run :: "string \<Rightarrow> DryRunResult result \<Rightarrow> DryRunResult \<Rightarrow> DryRunResult" where
  "merge_dry_run tag evaluated result = (case evaluated of
     Inl err \<Rightarrow> add_warning (tag @ ''Evaluation failed: '' @ text_of err) result
   | Inr r \<Rightarrow> result\<lparr>dr_Feasible := dr_Feasible result \<and> dr_Feasible r, dr_Blockers := dr_Blockers result @ map ((@) tag) (dr_Blockers r),
       dr_Warnings := dr_Warnings result @ map ((@) tag) (dr_Warnings r),
       dr_EstimatedDuration := add_durations (dr_EstimatedDuration result) (dr_EstimatedDuration r)\<rparr>)"

definition indexer_dry_run :: "'s env \<Rightarrow> WazuhCluster \<Rightarrow> Controller \<times> DryRunResult \<Rightarrow> ('s, Controller \<times> DryRunResult) io" where
  "indexer_dry_run E cluster = (\<lambda>(ctl, result).
     if \<not> indexer_drain_enabled cluster then ret (ctl, result)
     else if indexer_dry_target cluster = [] then ret (ctl, add_warning ''[indexer] No scale-down detected'' result)
     else do {
       (r, evaluated) \<leftarrow> Indexer_EvaluateDrainFeasibility E (co_Indexer ctl) cluster (indexer_dry_target cluster);
       ret (ctl\<lparr>co_Indexer := r\<rparr>, merge_dry_run ''[indexer] '' evaluated result) })"

definition manager_dry_run :: "'s env \<Rightarrow> WazuhCluster \<Rightarrow> Controller \<times> DryRunResult \<Rightarrow> ('s, Controller \<times> DryRunResult) io" where
  "manager_dry_run E cluster = (\<lambda>(ctl, result).
     if \<not> manager_drain_enabled cluster then ret (ctl, result)
     else (case co_Worker ctl of
         None \<Rightarrow> ret (ctl, add_warning ''[manager] No scale-down detected'' result)
       | Some wr \<Rightarrow>
           if manager_dry_target cluster = [] then ret (ctl, add_warning ''[manager] No scale-down detected'' result)
           else do {
             (r, evaluated) \<leftarrow> Worker_EvaluateDrainFeasibility E wr cluster (manager_dry_target cluster);
             ret (ctl\<lparr>co_Worker := Some r\<rparr>, merge_dry_run ''[manager] '' evaluated result) }))"

definition evaluateDryRun :: "'s env \<Rightarrow> Controller \<Rightarrow> WazuhCluster \<Rightarrow> ('s, Controller \<times> DryRunResult) io" where
  "evaluateDryRun E ctl cluster = do {
     now \<leftarrow> time_now E;
     s \<leftarrow> indexer_dry_run E cluster (ctl, fresh_result now ''all'');
     (ctl, result) \<leftarrow> manager_dry_run E cluster s;
     ret (ctl, if wc_Dashboard cluster \<noteq> None then add_warning ''[dashboard] PDB protection not yet implemented'' result else result) }"

definition emitDryRunEvent :: "bool \<Rightarrow> DryRunResult \<Rightarrow> ('s, unit) io" where
  "emitDryRunEvent recorder result =
     (if \<not> recorder then ret ()
      else if dr_Feasible result then record_event False ''DryRunResult''
        (''Dry-run: scale-down is feasible'' @
         (case dr_EstimatedDuration result of None \<Rightarrow> [] | Some d \<Rightarrow> '' (estimated duration: '' @ duration_string d @ '')'') @
         (if dr_Warnings result \<noteq> [] then '' with '' @ show_nat (length (dr_Warnings result)) @ '' warning(s)'' else []))
      else record_event True ''DryRunResult''
        (''Dry-run: scale-down blocked by '' @ show_nat (length (dr_Blockers result)) @ '' issue(s)'' @
         (case dr_Blockers result of [] \<Rightarrow> [] | b # bs \<Rightarrow> '': '' @ b)))"

definition err_of :: "'a result \<Rightarrow> gerror option" where
  "err_of r = (case r of Inl e \<Rightarrow> Some e | Inr a \<Rightarrow> None)"

definition dry_run_phase :: "'s env \<Rightarrow> (f64 \<Rightarrow> i64) \<Rightarrow> Controller \<Rightarrow> WazuhCluster \<Rightarrow> ('s, Controller \<times> WazuhCluster \<times> Result \<times> gerror option) io" where
  "dry_run_phase E oor ctl cluster = do {
     (ctl, result) \<leftarrow> evaluateDryRun E ctl cluster;
     let cluster = cluster\<lparr>wc_stDrain := Some ((drain_of cluster)\<lparr>dst_LastDryRun := Some result\<rparr>)\<rparr>;
     emitDryRunEvent (ir_Recorder (co_Indexer ctl)) result;
     u \<leftarrow> updateDrainStatus E oor cluster;
     ret (ctl, cluster, requeue_after (30 * second), err_of u) }"

subsection \<open>Rolling restarts and the requeue interval\<close>

definition restart_phase_text :: "RestartPhase \<Rightarrow> string" where
  "restart_phase_text p = (case p of RestartPhaseIdle \<Rightarrow> ''Idle'' | RestartPhaseInProgress \<Rightarrow> ''InProgress'' | RestartPhaseComplete \<Rightarrow> ''Complete'')"

definition component_restart :: "time \<Rightarrow> RestartResult option \<Rightarrow> ComponentRollingRestart option \<Rightarrow> ComponentRollingRestart option" where
  "component_restart now result old = (case result of
     None \<Rightarrow> None
   | Some r \<Rightarrow> if rst_Phase r = RestartPhaseIdle then None
       else Some \<lparr>crr_Phase = restart_phase_text (rst_Phase r), crr_TotalPods = rst_TotalPods r, crr_UpdatedPods = rst_UpdatedPods r,
         crr_CurrentPod = rst_CurrentPod r, crr_Message = rst_Message r, crr_LastTransitionTime = Some now,
         crr_StartTime = (case old of None \<Rightarrow> Some now | Some c \<Rightarrow> crr_StartTime c)\<rparr>)"

definition updateRollingRestartStatus :: "'s env \<Rightarrow> WazuhCluster \<Rightarrow> RestartResult option \<Rightarrow> RestartResult option \<Rightarrow> RestartResult option \<Rightarrow> bool \<Rightarrow>
    ('s, WazuhCluster) io" where
  "updateRollingRestartStatus E cluster indexerRestart masterRestart workerRestart hasRollingRestart =
     (if \<not> hasRollingRestart \<and> indexerRestart = None \<and> masterRestart = None \<and> workerRestart = None
      then ret (cluster\<lparr>wc_stRollingRestart := None\<rparr>)
      else do {
        now \<leftarrow> time_now E;
        let old = (case wc_stRollingRestart cluster of Some st \<Rightarrow> st
              | None \<Rightarrow> \<lparr>rrs_Indexer = None, rrs_ManagerMaster = None, rrs_ManagerWorker = None, rrs_InProgress = False\<rparr>);
        let st = \<lparr>rrs_Indexer = component_restart now indexerRestart (rrs_Indexer old),
              rrs_ManagerMaster = component_restart now masterRestart (rrs_ManagerMaster old),
              rrs_ManagerWorker = component_restart now workerRestart (rrs_ManagerWorker old), rrs_InProgress = hasRollingRestart\<rparr>;
        ret (cluster\<lparr>wc_stRollingRestart := (if rrs_Indexer st = None \<and> rrs_ManagerMaster st = None \<and> rrs_ManagerWorker st = None
          then None else Some st)\<rparr>) })"

definition determineRequeueInterval :: "bool \<Rightarrow> bool \<Rightarrow> duration" where
  "determineRequeueInterval hasPendingRollouts hasRollingRestart =
     (if hasPendingRollouts then 5 * second else if hasRollingRestart then 10 * second else 30 * second)"

definition in_progress :: "RestartResult option \<Rightarrow> bool" where
  "in_progress r = (case r of None \<Rightarrow> False | Some x \<Rightarrow> rst_Phase x = RestartPhaseInProgress)"

subsection \<open>The collaborators\<close>

text \<open>
  The result of the certificate reconciler, and the collaborators that are arguments: each gets
  the working copy of the cluster and returns it, changed or not, with its answer. A builder
  answers with what it builds and the hashes of the specification and the configuration; the
  builders of master and workers still take the ConfigMaps of rules and decoders to mount. The
  secrets, ConfigMap and service of the dashboard are one step, its two pod policies another.
\<close>

type_synonym ('s, 'a) step = "WazuhCluster \<Rightarrow> ('s, WazuhCluster \<times> 'a result) io"

record ('s, 'c) collaborators =
  cb_ManagerRef :: "('s, WazuhManagerClusterSpec) step"
  cb_IndexerRef :: "('s, WazuhIndexerClusterSpec) step"
  cb_DashboardRef :: "('s, WazuhDashboardClusterSpec) step"
  cb_Certificates :: "('s, CertHashResult option) step"
  cb_IndexerSecrets :: "('s, unit) step"
  cb_IndexerConfigMap :: "('s, unit) step"
  cb_IndexerServices :: "('s, unit) step"
  cb_IndexerBuilder :: "('s, StatefulSet \<times> string \<times> string) step"
  cb_SecurityInitJob :: "('s, unit) step"
  cb_CheckSecurity :: "('s, bool) step"
  cb_DefaultAdmin :: "('s, unit) step"
  cb_SyncSecurityCRDs :: "('s, unit) step"
  cb_ClusterKey :: "('s, unit) step"
  cb_APICredentials :: "('s, unit) step"
  cb_MasterBuilder :: "('s, ('c list \<Rightarrow> 'c list \<Rightarrow> StatefulSet) \<times> string \<times> string) step"
  cb_WorkerBuilder :: "('s, ('c list \<Rightarrow> 'c list \<Rightarrow> StatefulSet) \<times> string \<times> string) step"
  cb_Rules :: "('s, ('c list \<times> string) result) io option"
  cb_Decoders :: "('s, ('c list \<times> string) result) io option"
  cb_ManagerPDB :: "('s, unit) step"
  cb_LogRotation :: "('s, unit) step"
  cb_DashboardObjects :: "('s, unit) step"
  cb_DashboardBuilder :: "('s, Deployment \<times> i32 \<times> string \<times> string) step"
  cb_DashboardPolicies :: "('s, unit) step"
  cb_Monitoring :: "('s, unit) step option"
  cb_Gateway :: "('s, unit) step option"
  cb_Ingress :: "('s, unit) step option"
  cb_NetworkPolicy :: "('s, unit) step option"
  cb_NetworkPolicyEnabled :: "WazuhCluster \<Rightarrow> bool"
  cb_DetectRestart :: "('s, bool) step"
  cb_Sort :: sorter

definition step_or :: "('s, 'a) step \<Rightarrow> (gerror \<Rightarrow> gerror) \<Rightarrow> WazuhCluster \<Rightarrow>
    (WazuhCluster \<Rightarrow> 'a \<Rightarrow> ('s, WazuhCluster \<times> 'b result) io) \<Rightarrow> ('s, WazuhCluster \<times> 'b result) io" where
  "step_or f wrap cluster k = do {
     (cluster, r) \<leftarrow> f cluster;
     case r of Inl err \<Rightarrow> ret (cluster, Inl (wrap err)) | Inr a \<Rightarrow> k cluster a }"

text \<open>A step whose error is only logged.\<close>

definition step_ignored :: "('s, unit) step \<Rightarrow> WazuhCluster \<Rightarrow> ('s, WazuhCluster) io" where
  "step_ignored f cluster = do { (cluster, r) \<leftarrow> f cluster; ret cluster }"

definition as_step :: "(WazuhCluster \<Rightarrow> ('s, 'a result) io) \<Rightarrow> ('s, 'a) step" where
  "as_step f cluster = do { r \<leftarrow> f cluster; ret (cluster, r) }"

subsection \<open>The components behind the gates\<close>

definition Indexer_ReconcileNonBlocking :: "'s env \<Rightarrow> (f64 \<Rightarrow> i64) \<Rightarrow> ('s, 'c) collaborators \<Rightarrow> bool \<Rightarrow> string \<Rightarrow> ('s, PendingRollout option) step" where
  "Indexer_ReconcileNonBlocking E oor K recorder certHash cluster =
     step_or (cb_IndexerSecrets K) (wrapf ''failed to reconcile indexer secrets: '') cluster (\<lambda>cluster u.
     step_or (cb_IndexerConfigMap K) (wrapf ''failed to reconcile indexer configmap: '') cluster (\<lambda>cluster u.
     step_or (cb_IndexerServices K) (wrapf ''failed to reconcile indexer services: '') cluster (\<lambda>cluster u.
     step_or (cb_IndexerBuilder K) (wrapf ''failed to reconcile indexer statefulset: '') cluster (\<lambda>cluster (built, specHash, configHash).
     step_or (as_step (\<lambda>cluster. apply_indexer E oor recorder cluster built specHash certHash configHash))
       (wrapf ''failed to reconcile indexer statefulset: '') cluster (\<lambda>cluster pendingRollout. do {
         cluster \<leftarrow> step_ignored (cb_SecurityInitJob K) cluster;
         ret (cluster, Inr pendingRollout) })))))"

text \<open>An expansion that cannot list its claims leaves the cluster as it is; the error is only logged.\<close>

definition expansion_step :: "('s, WazuhCluster result) io \<Rightarrow> WazuhCluster \<Rightarrow> ('s, WazuhCluster) io" where
  "expansion_step m cluster = do { r \<leftarrow> m; ret (case r of Inl err \<Rightarrow> cluster | Inr c \<Rightarrow> c) }"

definition opt_list :: "'a option \<Rightarrow> 'a list" where
  "opt_list p = (case p of None \<Rightarrow> [] | Some x \<Rightarrow> [x])"

definition ReconcileManagerNonBlocking :: "'s env \<Rightarrow> (f64 \<Rightarrow> i64) \<Rightarrow> ('s, 'c) collaborators \<Rightarrow> bool \<Rightarrow> string \<Rightarrow> string \<Rightarrow> ('s, PendingRollout list) step" where
  "ReconcileManagerNonBlocking E oor K recorder masterCertHash workerCertHash cluster =
     step_or (cb_ClusterKey K) (wrapf ''failed to ensure cluster key secret: '') cluster (\<lambda>cluster u.
     step_or (cb_APICredentials K) (wrapf ''failed to ensure API credentials secret: '') cluster (\<lambda>cluster u.
     step_or (cb_MasterBuilder K) (wrapf ''failed to reconcile master: '') cluster (\<lambda>cluster (build, configHash, specHash).
     step_or (as_step (\<lambda>cluster. apply_master E oor recorder cluster build (cb_Rules K) (cb_Decoders K) masterCertHash configHash specHash))
       (wrapf ''failed to reconcile master: '') cluster (\<lambda>cluster masterRollout.
     step_or (cb_WorkerBuilder K) (wrapf ''failed to reconcile workers: '') cluster (\<lambda>cluster (build, configHash, specHash).
     step_or (as_step (\<lambda>cluster. apply_worker E oor recorder cluster build (cb_Rules K) (cb_Decoders K) workerCertHash configHash specHash))
       (wrapf ''failed to reconcile workers: '') cluster (\<lambda>cluster workerRollout.
     step_or (cb_ManagerPDB K) (wrapf ''failed to reconcile manager PDB: '') cluster (\<lambda>cluster u. do {
       cluster \<leftarrow> expansion_step (reconcileMasterVolumeExpansion E recorder cluster) cluster;
       cluster \<leftarrow> expansion_step (reconcileWorkerVolumeExpansion E recorder cluster) cluster;
       ret (cluster, Inr (opt_list masterRollout @ opt_list workerRollout)) })))))))"

definition Dashboard_ReconcileNonBlocking :: "'s env \<Rightarrow> (f64 \<Rightarrow> i64) \<Rightarrow> ('s, 'c) collaborators \<Rightarrow> bool \<Rightarrow> string \<Rightarrow> ('s, PendingRollout option) step" where
  "Dashboard_ReconcileNonBlocking E oor K recorder certHash cluster =
     step_or (cb_DashboardObjects K) id cluster (\<lambda>cluster u.
     step_or (cb_DashboardBuilder K) (wrapf ''failed to reconcile dashboard deployment: '') cluster (\<lambda>cluster (built, replicas, specHash, configHash).
     step_or (as_step (\<lambda>cluster. apply_dashboard E oor recorder cluster built replicas specHash certHash configHash))
       (wrapf ''failed to reconcile dashboard deployment: '') cluster (\<lambda>cluster pendingRollout.
     step_or (cb_DashboardPolicies K) id cluster (\<lambda>cluster u. ret (cluster, Inr pendingRollout)))))"

subsection \<open>The drain gates\<close>

type_synonym outcome = "Result \<times> gerror option"

text \<open>
  A gate answers whether the drain state is to be reset when the reconciliation returns, and
  the outcome of the reconciliation if it ends here. An error of the check does not end it.
\<close>

definition drain_wait :: "'s env \<Rightarrow> (f64 \<Rightarrow> i64) \<Rightarrow> WazuhCluster \<Rightarrow> ('s, WazuhCluster \<times> bool \<times> outcome option) io" where
  "drain_wait E oor cluster = do {
     let cluster = cluster\<lparr>wc_stDrain := Some (drain_of cluster)\<rparr>;
     u \<leftarrow> updateDrainStatus E oor cluster;
     ret (cluster, False, Some (requeue_after (10 * second), err_of u)) }"

definition gate :: "'s env \<Rightarrow> (f64 \<Rightarrow> i64) \<Rightarrow> WazuhCluster \<Rightarrow> 'p DrainCheckResult option \<Rightarrow> gerror option \<Rightarrow>
    ('s, WazuhCluster \<times> bool \<times> outcome option) io" where
  "gate E oor cluster drainResult err = (case err of
     Some e \<Rightarrow> ret (cluster, False, None)
   | None \<Rightarrow> (case drainResult of
       None \<Rightarrow> ret (cluster, False, None)
     | Some x \<Rightarrow> if dcr_DrainInProgress x then drain_wait E oor cluster else ret (cluster, dcr_DrainComplete x, None)))"

definition indexer_gate :: "'s env \<Rightarrow> (f64 \<Rightarrow> i64) \<Rightarrow> Controller \<Rightarrow> WazuhCluster \<Rightarrow> ('s, Controller \<times> WazuhCluster \<times> bool \<times> outcome option) io" where
  "indexer_gate E oor ctl cluster = (case wc_Indexer cluster of
     None \<Rightarrow> ret (ctl, cluster, False, None)
   | Some i \<Rightarrow> do {
       let desiredReplicas = (if ics_Replicas i = 0 then 3 else ics_Replicas i);
       (r, cluster, drainResult, err) \<leftarrow> Indexer_CheckScaleDownDrain E (co_Indexer ctl) cluster desiredReplicas;
       g \<leftarrow> gate E oor cluster drainResult err;
       ret (ctl\<lparr>co_Indexer := r\<rparr>, g) })"

definition worker_gate :: "'s env \<Rightarrow> (f64 \<Rightarrow> i64) \<Rightarrow> Controller \<Rightarrow> WazuhCluster \<Rightarrow> ('s, Controller \<times> WazuhCluster \<times> bool \<times> outcome option) io" where
  "worker_gate E oor ctl cluster = (case (wc_Manager cluster, co_Worker ctl) of
     (Some m, Some wr) \<Rightarrow> do {
       (r, cluster, drainResult, err) \<leftarrow> Worker_CheckScaleDownDrain E wr cluster (GetReplicas m);
       g \<leftarrow> gate E oor cluster drainResult err;
       ret (ctl\<lparr>co_Worker := Some r\<rparr>, g) }
   | _ \<Rightarrow> ret (ctl, cluster, False, None))"

definition indexer_cert_hash :: "CertHashResult option \<Rightarrow> string" where
  "indexer_cert_hash certHashes = (case certHashes of None \<Rightarrow> []
     | Some h \<Rightarrow> if chr_CARenewed h \<or> chr_IndexerCertsRenewed h \<and> chr_HotReloadError h \<noteq> None then chr_IndexerCertHash h else [])"

text \<open>A step whose failure ends the reconciliation with a condition.\<close>

definition fatal :: "'s env \<Rightarrow> (f64 \<Rightarrow> i64) \<Rightarrow> string \<Rightarrow> ('s, 'a) step \<Rightarrow> WazuhCluster \<Rightarrow>
    (WazuhCluster \<Rightarrow> 'a \<Rightarrow> ('s, WazuhCluster \<times> ('b + outcome)) io) \<Rightarrow> ('s, WazuhCluster \<times> ('b + outcome)) io" where
  "fatal E oor reason f cluster k = do {
     (cluster, r) \<leftarrow> f cluster;
     case r of
       Inl err \<Rightarrow> do {
         cluster \<leftarrow> persistCondition E oor cluster ''Progressing'' reason (text_of err);
         ret (cluster, Inr (no_requeue, Some err)) }
     | Inr a \<Rightarrow> k cluster a }"

text \<open>The gate and the indexer behind it: the rollouts it started, or the outcome.\<close>

definition indexer_phase :: "'s env \<Rightarrow> (f64 \<Rightarrow> i64) \<Rightarrow> ('s, 'c) collaborators \<Rightarrow> Controller \<Rightarrow> WazuhCluster \<Rightarrow> CertHashResult option \<Rightarrow>
    ('s, Controller \<times> bool \<times> WazuhCluster \<times> (PendingRollout list + outcome)) io" where
  "indexer_phase E oor K ctl cluster certHashes = do {
     (ctl, cluster, deferred, early) \<leftarrow> indexer_gate E oor ctl cluster;
     case early of
       Some out \<Rightarrow> ret (ctl, deferred, cluster, Inr out)
     | None \<Rightarrow> do {
         r \<leftarrow> fatal E oor ''IndexerFailed''
           (Indexer_ReconcileNonBlocking E oor K (ir_Recorder (co_Indexer ctl)) (indexer_cert_hash certHashes)) cluster
           (\<lambda>cluster pendingRollout. ret (cluster, Inl (opt_list pendingRollout)));
         ret (ctl, deferred, r) } }"

text \<open>The security plugin, once the indexer is up.\<close>

definition security_phase :: "'s env \<Rightarrow> ('s, 'c) collaborators \<Rightarrow> WazuhCluster \<Rightarrow> ('s, WazuhCluster \<times> bool) io" where
  "security_phase E K cluster = do {
     (cluster, r) \<leftarrow> cb_CheckSecurity K cluster;
     let securityInitialized = (case r of Inl err \<Rightarrow> False | Inr b \<Rightarrow> b);
     cluster \<leftarrow> (if securityInitialized then do {
         cluster \<leftarrow> updateCondition E cluster ''SecurityReady'' True ''SecurityInitialized'' ''OpenSearch security plugin is initialized'';
         cluster \<leftarrow> step_ignored (cb_DefaultAdmin K) cluster;
         step_ignored (cb_SyncSecurityCRDs K) cluster }
       else updateCondition E cluster ''SecurityReady'' False ''SecurityPending'' ''Waiting for OpenSearch security to initialize'');
     ret (cluster, securityInitialized) }"

subsection \<open>The other objects\<close>

definition gateway_on :: "GatewayAPISpec option \<Rightarrow> bool" where
  "gateway_on g = (case g of None \<Rightarrow> False | Some s \<Rightarrow> gw_Enabled s)"

definition ingress_on :: "IngressSpec option \<Rightarrow> bool" where
  "ingress_on g = (case g of None \<Rightarrow> False | Some s \<Rightarrow> ing_Enabled s)"

definition hasGatewayAPIEnabled :: "WazuhCluster \<Rightarrow> bool" where
  "hasGatewayAPIEnabled cluster =
     ((case wc_Dashboard cluster of None \<Rightarrow> False | Some d \<Rightarrow> gateway_on (dcs_GatewayAPI d)) \<or>
      (case wc_Manager cluster of None \<Rightarrow> False | Some m \<Rightarrow> gateway_on (mcs_MasterGatewayAPI m)) \<or>
      (case wc_Indexer cluster of None \<Rightarrow> False | Some i \<Rightarrow> gateway_on (ics_GatewayAPI i)))"

definition hasIngressEnabled :: "WazuhCluster \<Rightarrow> bool" where
  "hasIngressEnabled cluster =
     ((case wc_Dashboard cluster of None \<Rightarrow> False | Some d \<Rightarrow> ingress_on (dcs_Ingress d)) \<or>
      (case wc_Manager cluster of None \<Rightarrow> False | Some m \<Rightarrow> ingress_on (mcs_MasterIngress m) \<or> ingress_on (mcs_WorkersIngress m)) \<or>
      (case wc_Indexer cluster of None \<Rightarrow> False | Some i \<Rightarrow> ingress_on (ics_Ingress i)))"

text \<open>A reconciler that is run in any case: its failure ends the reconciliation only where the feature is asked for.\<close>

definition optional_phase :: "'s env \<Rightarrow> (f64 \<Rightarrow> i64) \<Rightarrow> string \<Rightarrow> bool \<Rightarrow> ('s, unit) step option \<Rightarrow> WazuhCluster \<Rightarrow>
    (WazuhCluster \<Rightarrow> ('s, WazuhCluster \<times> ('b + outcome)) io) \<Rightarrow> ('s, WazuhCluster \<times> ('b + outcome)) io" where
  "optional_phase E oor reason wanted reconciler cluster k = (case reconciler of
     None \<Rightarrow> k cluster
   | Some f \<Rightarrow> if wanted then fatal E oor reason f cluster (\<lambda>cluster u. k cluster)
       else do { cluster \<leftarrow> step_ignored f cluster; k cluster })"

definition gateway_phase :: "'s env \<Rightarrow> (f64 \<Rightarrow> i64) \<Rightarrow> ('s, 'c) collaborators \<Rightarrow> Controller \<Rightarrow> WazuhCluster \<Rightarrow>
    (WazuhCluster \<Rightarrow> ('s, WazuhCluster \<times> ('b + outcome)) io) \<Rightarrow> ('s, WazuhCluster \<times> ('b + outcome)) io" where
  "gateway_phase E oor K ctl cluster k =
     (if hasGatewayAPIEnabled cluster \<and> \<not> co_GatewayAPIEnabled ctl then do {
        record_event True ''GatewayAPIDisabled'' (''GatewayAPI is configured but operator Gateway API support is disabled. '' @
          ''Enable with: helm upgrade --set gatewayAPI.enabled=true or set GATEWAY_API_ENABLED=true'');
        k cluster }
      else if \<not> co_GatewayAPIEnabled ctl then k cluster
      else optional_phase E oor ''GatewayAPIFailed'' (hasGatewayAPIEnabled cluster) (cb_Gateway K) cluster k)"

text \<open>A step of the working copy whose error is returned as it is.\<close>

definition or_return :: "('s, WazuhCluster \<times> gerror option) io \<Rightarrow>
    (WazuhCluster \<Rightarrow> ('s, WazuhCluster \<times> ('b + outcome)) io) \<Rightarrow> ('s, WazuhCluster \<times> ('b + outcome)) io" where
  "or_return m k = do {
     (cluster, err) \<leftarrow> m;
     case err of Some e \<Rightarrow> ret (cluster, Inr (no_requeue, Some e)) | None \<Rightarrow> k cluster }"

text \<open>Manager, dashboard and what follows them, up to the rollouts that were started.\<close>

definition workloads_phase :: "'s env \<Rightarrow> (f64 \<Rightarrow> i64) \<Rightarrow> ('s, 'c) collaborators \<Rightarrow> Controller \<Rightarrow> bool \<Rightarrow> CertHashResult option \<Rightarrow> PendingRollout list \<Rightarrow>
    WazuhCluster \<Rightarrow> ('s, WazuhCluster \<times> (PendingRollout list + outcome)) io" where
  "workloads_phase E oor K ctl securityInitialized certHashes indexerRollouts cluster =
     (let certHash = (\<lambda>f. case certHashes of None \<Rightarrow> [] | Some h \<Rightarrow> f h);
          recorder = ir_Recorder (co_Indexer ctl) in
      fatal E oor ''ManagerFailed'' (ReconcileManagerNonBlocking E oor K recorder (certHash chr_ManagerMasterCertHash) (certHash chr_ManagerWorkerCertHash))
        cluster (\<lambda>cluster managerRollouts. do {
      cluster \<leftarrow> step_ignored (cb_LogRotation K) cluster;
      fatal E oor ''DashboardFailed'' (Dashboard_ReconcileNonBlocking E oor K recorder (certHash chr_DashboardCertHash)) cluster (\<lambda>cluster dashboardRollout.
      or_return (reconcileAPICredentialsStatusAndRollout E oor cluster) (\<lambda>cluster.
      or_return (reconcileAuthdCredentialsStatusAndRollout E oor cluster) (\<lambda>cluster. do {
      cluster \<leftarrow> (case cb_Monitoring K of None \<Rightarrow> ret cluster | Some f \<Rightarrow> step_ignored f cluster);
      gateway_phase E oor K ctl cluster (\<lambda>cluster.
      optional_phase E oor ''IngressFailed'' (hasIngressEnabled cluster) (cb_Ingress K) cluster (\<lambda>cluster.
      optional_phase E oor ''NetworkPolicyFailed'' (cb_NetworkPolicyEnabled K cluster) (cb_NetworkPolicy K) cluster (\<lambda>cluster. do {
      (cluster, restarted) \<leftarrow> cb_DetectRestart K cluster;
      cluster \<leftarrow> (if restarted = Inr True \<and> securityInitialized then step_ignored (cb_SyncSecurityCRDs K) cluster else ret cluster);
      ret (cluster, Inl (indexerRollouts @ managerRollouts @ opt_list dashboardRollout)) }))) }))) }))"

subsection \<open>The end of a reconciliation\<close>

definition ok_value :: "'a option result \<Rightarrow> 'a option" where
  "ok_value r = (case r of Inl err \<Rightarrow> None | Inr x \<Rightarrow> x)"

definition finish_reconcile :: "'s env \<Rightarrow> (f64 \<Rightarrow> i64) \<Rightarrow> ('s, 'c) collaborators \<Rightarrow> Controller \<Rightarrow> bool \<Rightarrow> PendingRollout list \<Rightarrow> WazuhCluster \<Rightarrow>
    ('s, Controller \<times> WazuhCluster \<times> outcome) io" where
  "finish_reconcile E oor K ctl hasPendingRollouts newPendingRollouts cluster = do {
     cluster \<leftarrow> (if newPendingRollouts \<noteq> [] then do { now \<leftarrow> time_now E; ret (addPendingRollouts now cluster newPendingRollouts) }
       else ret cluster);
     let hasPendingRollouts = (hasPendingRollouts \<or> newPendingRollouts \<noteq> []);
     (r, indexerRestart) \<leftarrow> OrchestrateRollingRestart (cb_Sort K) E (co_Indexer ctl) cluster;
     (masterRestart, workerRestart, err) \<leftarrow> OrchestrateManagerRollingRestart (cb_Sort K) E cluster;
     let hasRollingRestart = (in_progress (ok_value indexerRestart) \<or> in_progress masterRestart \<or> in_progress workerRestart);
     cluster \<leftarrow> updateRollingRestartStatus E cluster (ok_value indexerRestart) masterRestart workerRestart hasRollingRestart;
     u \<leftarrow> updateStatus E oor cluster;
     ret (ctl\<lparr>co_Indexer := r\<rparr>, cluster, (case u of Inl err \<Rightarrow> (no_requeue, Some err)
       | Inr x \<Rightarrow> (requeue_after (determineRequeueInterval hasPendingRollouts hasRollingRestart), None))) }"

subsection \<open>Reconcile\<close>

definition reset_deferred :: "'s env \<Rightarrow> bool \<Rightarrow> bool \<Rightarrow> Controller \<Rightarrow> WazuhCluster \<Rightarrow> ('s, Controller \<times> WazuhCluster) io" where
  "reset_deferred E indexerReset workerReset ctl cluster = do {
     (ctl, cluster) \<leftarrow> (case co_Worker ctl of
         Some wr \<Rightarrow> if workerReset then do {
             (wr, cluster) \<leftarrow> Worker_ResetDrainState E wr cluster;
             ret (ctl\<lparr>co_Worker := Some wr\<rparr>, cluster) } else ret (ctl, cluster)
       | None \<Rightarrow> ret (ctl, cluster));
     if indexerReset then do {
       (r, cluster) \<leftarrow> Indexer_ResetDrainState E (co_Indexer ctl) cluster;
       ret (ctl\<lparr>co_Indexer := r\<rparr>, cluster) }
     else ret (ctl, cluster) }"

text \<open>From the worker gate to the end.\<close>

definition after_indexer :: "'s env \<Rightarrow> (f64 \<Rightarrow> i64) \<Rightarrow> ('s, 'c) collaborators \<Rightarrow> Controller \<Rightarrow> bool \<Rightarrow> CertHashResult option \<Rightarrow> PendingRollout list \<Rightarrow>
    WazuhCluster \<Rightarrow> ('s, Controller \<times> bool \<times> WazuhCluster \<times> outcome) io" where
  "after_indexer E oor K ctl hasPendingRollouts certHashes rollouts cluster = do {
     (cluster, securityInitialized) \<leftarrow> security_phase E K cluster;
     (ctl, cluster, workerReset, early) \<leftarrow> worker_gate E oor ctl cluster;
     case early of
       Some out \<Rightarrow> ret (ctl, workerReset, cluster, out)
     | None \<Rightarrow> do {
         (cluster, done) \<leftarrow> workloads_phase E oor K ctl securityInitialized certHashes rollouts cluster;
         case done of
           Inr out \<Rightarrow> ret (ctl, workerReset, cluster, out)
         | Inl newPendingRollouts \<Rightarrow> do {
             (ctl, cluster, out) \<leftarrow> finish_reconcile E oor K ctl hasPendingRollouts newPendingRollouts cluster;
             ret (ctl, workerReset, cluster, out) } } }"

definition reconcile_components :: "'s env \<Rightarrow> (f64 \<Rightarrow> i64) \<Rightarrow> ('s, 'c) collaborators \<Rightarrow> Controller \<Rightarrow> bool \<Rightarrow> CertHashResult option \<Rightarrow> WazuhCluster \<Rightarrow>
    ('s, Controller \<times> WazuhCluster \<times> outcome) io" where
  "reconcile_components E oor K ctl hasPendingRollouts certHashes cluster =
     (if (case wc_Drain cluster of None \<Rightarrow> False | Some d \<Rightarrow> dc_DryRun d) then dry_run_phase E oor ctl cluster
      else do {
        (ctl, indexerReset, cluster, done) \<leftarrow> indexer_phase E oor K ctl cluster certHashes;
        case done of
          Inr out \<Rightarrow> do {
            (ctl, cluster) \<leftarrow> reset_deferred E indexerReset False ctl cluster;
            ret (ctl, cluster, out) }
        | Inl rollouts \<Rightarrow> do {
            (ctl, workerReset, cluster, out) \<leftarrow> after_indexer E oor K ctl hasPendingRollouts certHashes rollouts cluster;
            (ctl, cluster) \<leftarrow> reset_deferred E indexerReset workerReset ctl cluster;
            ret (ctl, cluster, out) } })"

definition ended :: "Controller \<Rightarrow> WazuhCluster \<times> ('b + outcome) \<Rightarrow> (WazuhCluster \<Rightarrow> 'b \<Rightarrow> ('s, Controller \<times> WazuhCluster \<times> outcome) io) \<Rightarrow>
    ('s, Controller \<times> WazuhCluster \<times> outcome) io" where
  "ended ctl r k = (case r of (cluster, Inr out) \<Rightarrow> ret (ctl, cluster, out) | (cluster, Inl b) \<Rightarrow> k cluster b)"

text \<open>The specification from the references, where there are any.\<close>

definition resolve_references :: "'s env \<Rightarrow> (f64 \<Rightarrow> i64) \<Rightarrow> ('s, 'c) collaborators \<Rightarrow> WazuhCluster \<Rightarrow> ('s, WazuhCluster \<times> (unit + outcome)) io" where
  "resolve_references E oor K cluster =
     (let manager = (\<lambda>cluster k. if wc_ManagerRef cluster = None then k cluster
            else fatal E oor ''ManagerRefResolutionFailed'' (cb_ManagerRef K) cluster (\<lambda>cluster m. k (cluster\<lparr>wc_Manager := Some m\<rparr>)));
          indexer = (\<lambda>cluster k. if wc_IndexerRef cluster = None then k cluster
            else fatal E oor ''IndexerRefResolutionFailed'' (cb_IndexerRef K) cluster (\<lambda>cluster i. k (cluster\<lparr>wc_Indexer := Some i\<rparr>)));
          dashboard = (\<lambda>cluster k. if wc_DashboardRef cluster = None then k cluster
            else fatal E oor ''DashboardRefResolutionFailed'' (cb_DashboardRef K) cluster (\<lambda>cluster d. k (cluster\<lparr>wc_Dashboard := Some d\<rparr>)))
      in manager cluster (\<lambda>cluster. indexer cluster (\<lambda>cluster. dashboard cluster (\<lambda>cluster. ret (cluster, Inl ())))))"

definition warn_not_ha :: "WazuhCluster \<Rightarrow> ('s, unit) io" where
  "warn_not_ha cluster = do {
     (case wc_Manager cluster of
        Some m \<Rightarrow> if Manager_IsHA (Some m) then ret () else record_event True ''NotHighlyAvailable''
          (''Manager cluster has only '' @ show_i32 (Manager_GetTotalReplicas (Some m)) @
           '' node(s). Minimum 3 nodes recommended for high availability (1 master + 2 workers)'')
      | None \<Rightarrow> ret ());
     (case wc_Indexer cluster of
        Some i \<Rightarrow> if Indexer_IsHA (Some i) then ret () else record_event True ''NotHighlyAvailable''
          (''Indexer cluster has only '' @ show_i32 (Indexer_GetTotalReplicas i) @
           '' node(s). Minimum 3 nodes recommended for high availability and proper quorum'')
      | None \<Rightarrow> ret ()) }"

text \<open>From the validated cluster on.\<close>

definition reconcile_valid :: "'s env \<Rightarrow> (f64 \<Rightarrow> i64) \<Rightarrow> ('s, 'c) collaborators \<Rightarrow> Controller \<Rightarrow> WazuhCluster \<Rightarrow>
    ('s, Controller \<times> WazuhCluster \<times> outcome) io" where
  "reconcile_valid E oor K ctl cluster = do {
     (hasPendingRollouts, cluster) \<leftarrow> checkAndUpdatePendingRollouts E cluster;
     (cluster, err) \<leftarrow> verifyRollbackComplete E ctl cluster;
     (cluster, retrying) \<leftarrow> checkAndHandleRetry E oor ctl cluster;
     case retrying of
       Some res \<Rightarrow> ret (ctl, cluster, res, None)
     | None \<Rightarrow> do {
         r \<leftarrow> (if IsReferenceMode cluster then resolve_references E oor K cluster else ret (cluster, Inl ()));
         ended ctl r (\<lambda>cluster u. do {
           warn_not_ha cluster;
           r \<leftarrow> fatal E oor ''CertificatesFailed'' (cb_Certificates K) cluster (\<lambda>cluster h. ret (cluster, Inl h));
           ended ctl r (\<lambda>cluster certHashes. reconcile_components E oor K ctl hasPendingRollouts certHashes cluster) }) } }"

definition mixed_mode_error :: gerror where
  "mixed_mode_error = errorf (''invalid configuration: cannot mix inline mode and reference mode. '' @
     ''Use either inline specs (manager/indexer/dashboard) OR references (managerRef/indexerRef/dashboardRef), not both'')"

definition with_topology :: "WazuhIndexerClusterSpec \<Rightarrow> WazuhCluster \<Rightarrow> WazuhCluster" where
  "with_topology i cluster =
     (let st = (case wc_stIndexer cluster of Some st \<Rightarrow> st | None \<Rightarrow> component_status [] 0 0 0) in
      cluster\<lparr>wc_stIndexer := Some (st\<lparr>cst_TopologyMode := (if IsAdvancedMode i then ''advanced'' else ''simple'')\<rparr>)\<rparr>)"

definition reconcile_present :: "'s env \<Rightarrow> (f64 \<Rightarrow> i64) \<Rightarrow> ('s, 'c) collaborators \<Rightarrow> Controller \<Rightarrow> WazuhCluster \<Rightarrow>
    ('s, Controller \<times> WazuhCluster \<times> outcome) io" where
  "reconcile_present E oor K ctl cluster =
     (if IsMixedMode cluster then do {
        record_event True ''InvalidMode'' (text_of mixed_mode_error);
        cluster \<leftarrow> persistCondition E oor cluster ''Ready'' ''InvalidMode'' (text_of mixed_mode_error);
        ret (ctl, cluster, no_requeue, Some mixed_mode_error) }
      else (case wc_Indexer cluster of
          None \<Rightarrow> reconcile_valid E oor K ctl cluster
        | Some i \<Rightarrow> (let v = ValidateNodePools i in
            if \<not> vr_Valid v then do {
              let message = snd (hd (vr_Errors v));
              emitDrainEvent (ir_Recorder (co_Indexer ctl)) DrainComponentIndexer ''ValidationFailed'' (''NodePool validation failed: '' @ message);
              cluster \<leftarrow> persistCondition E oor cluster ''Progressing'' ''NodePoolValidationFailed'' message;
              ret (ctl, cluster, no_requeue, Some (errorf (''nodePool validation failed: '' @ message))) }
            else reconcile_valid E oor K ctl (with_topology i cluster))))"

definition Reconcile :: "'s env \<Rightarrow> (f64 \<Rightarrow> i64) \<Rightarrow> ('s, 'c) collaborators \<Rightarrow> Controller \<Rightarrow> string \<Rightarrow> string \<Rightarrow> ('s, Controller \<times> outcome) io" where
  "Reconcile E oor K ctl namespace name = do {
     g \<leftarrow> get_cluster E namespace name;
     case g of
       Inl err \<Rightarrow> ret (ctl, no_requeue, if IsNotFound err then None else Some err)
     | Inr cluster \<Rightarrow>
        if wc_Deleting cluster then do {
          d \<leftarrow> handleDeletion E cluster;
          ret (ctl, case d of Inl err \<Rightarrow> (no_requeue, Some err) | Inr res \<Rightarrow> (res, None)) }
        else if wazuhClusterFinalizer \<notin> set (wc_Finalizers cluster) then do {
          u \<leftarrow> update_cluster E (cluster\<lparr>wc_Finalizers := wc_Finalizers cluster @ [wazuhClusterFinalizer]\<rparr>);
          ret (ctl, case u of Inl err \<Rightarrow> (no_requeue, Some err) | Inr x \<Rightarrow> (requeue_now, None)) }
        else do {
          let fresh = wc_stPhase cluster = [] \<or> wc_stPhase cluster = ''Pending'';
          let cluster = (if fresh then cluster\<lparr>wc_stPhase := ''Creating'', wc_stVersion := wc_Version cluster\<rparr> else cluster);
          u \<leftarrow> (if fresh then update_cluster_status E cluster else ret (Inr ()));
          case u of
            Inl err \<Rightarrow> ret (ctl, no_requeue, Some err)
          | Inr x \<Rightarrow> do {
              (ctl, cluster, out) \<leftarrow> reconcile_present E oor K ctl cluster;
              ret (ctl, out) } } }"

subsection \<open>What the indexer gate decides\<close>

text \<open>A collaborator that answers \<open>a\<close> and leaves the working copy alone.\<close>

definition answers_with :: "('s, 'a) step \<Rightarrow> 'a \<Rightarrow> bool" where
  "answers_with f a \<longleftrightarrow> (\<forall>cluster w. \<exists>w'. run_state (f cluster) w = ((cluster, Inr a), w') \<and> grows w w')"

lemma step_or_run:
  assumes "answers_with f a"
  shows "\<exists>v. grows w v \<and> run_state (step_or f wrap cluster k) w = run_state (k cluster a) v"
proof -
  obtain v where "run_state (f cluster) w = ((cluster, Inr a), v)" "grows w v" using assms unfolding answers_with_def by blast
  then show ?thesis by (intro exI [of _ v]) (simp add: step_or_def run_bind)
qed

lemma persistCondition_logs [logs]: "logs_more (persistCondition E oor cluster t reason msg)"
  unfolding persistCondition_def RetryOnConflictWithResult_def RetryOnConflictWithResultAndConfig_def get_cluster_def update_cluster_status_def
  by (intro logs retry_silent updateCondition_silent) simp_all

text \<open>A write of the drain status: the cluster as just read from the API server, with that status and the time.\<close>

definition drain_status_write :: "'s env \<Rightarrow> WazuhCluster \<Rightarrow> effect \<Rightarrow> bool" where
  "drain_status_write E cluster e \<longleftrightarrow> (\<exists>latest now s s'. e_get_cluster E (wc_Namespace cluster) (wc_Name cluster) s = (Inr latest, s') \<and>
     e = EUpdateStatus (latest\<lparr>wc_stDrain := wc_stDrain cluster, wc_stLastUpdateTime := Some now\<rparr>))"

lemma drain_status_written: "logs_only (drain_status_write E cluster) (updateDrainStatus E oor cluster)"
proof -
  have "logs_only (drain_status_write E cluster) (drain_status_attempt E cluster)"
    unfolding drain_status_attempt_def get_cluster_def update_cluster_status_def time_now_def
  proof (rule logs_try_from)
    fix latest w w'
    assume "run_state (ask (e_get_cluster E (wc_Namespace cluster) (wc_Name cluster))) w = (Inr latest, w')"
    then have "\<exists>s s'. e_get_cluster E (wc_Namespace cluster) (wc_Name cluster) s = (Inr latest, s')" by (auto simp: run_ask split: prod.splits)
    then show "logs_only (drain_status_write E cluster) (do { now \<leftarrow> ask (e_now E);
        do { emit (EUpdateStatus (latest\<lparr>wc_stDrain := wc_stDrain cluster, wc_stLastUpdateTime := Some now\<rparr>));
             ask (e_update_cluster_status E (latest\<lparr>wc_stDrain := wc_stDrain cluster, wc_stLastUpdateTime := Some now\<rparr>)) } })"
      by (intro logs) (auto simp: drain_status_write_def)
  qed (intro logs)
  then show ?thesis unfolding updateDrainStatus_def by (intro logs)
qed

lemma drain_status_writes: "logs_only (\<lambda>e. \<exists>c. e = EUpdateStatus c \<and> wc_stDrain c = wc_stDrain cluster) (updateDrainStatus E oor cluster)"
  by (rule logs_weaken [OF drain_status_written]) (auto simp: drain_status_write_def)

lemma drain_status_logs: "logs_only (\<lambda>e. \<exists>c. e = EUpdateStatus c) (updateDrainStatus E oor cluster)"
  by (rule logs_weaken [OF drain_status_writes]) blast

lemma grows_refl: "grows w w"
  by (simp add: grows_def)

lemma indexer_apply_updates:
  assumes "\<And>s. e_get_sts E (sts_Namespace built) (sts_Name built) s = (Inr found, s)"
    and "\<not> fst (NeedsStatefulSetRecreation found built)"
    and "hash_changed specHash (label_get (sts_Annotations found) AnnotationSpecHash)"
    and "run_state (apply_indexer E oor recorder cluster built specHash certHash configHash) w = (r, w')"
  shows "\<exists>s. adds (EUpdateSts s) w w' \<and> sts_SpecReplicas s = sts_SpecReplicas built"
proof -
  let ?sts = "indexer_sts cluster built specHash certHash configHash"
  have same: "sts_Name ?sts = sts_Name built" "sts_Namespace ?sts = sts_Namespace built" "sts_PodSpec ?sts = sts_PodSpec built"
      "sts_PodManagementPolicy ?sts = sts_PodManagementPolicy built" "sts_SpecReplicas ?sts = sts_SpecReplicas built"
    by (simp_all add: indexer_sts_def)
  have "NeedsStatefulSetRecreation found ?sts = NeedsStatefulSetRecreation found built"
    by (simp add: NeedsStatefulSetRecreation_def same)
  then have recreate: "\<not> fst (NeedsStatefulSetRecreation found ?sts)" using assms(2) by simp
  have changed: "indexer_changes specHash certHash configHash ?sts found \<noteq> []"
    using assms(3) by (simp add: indexer_changes_def when_changed_def)
  have "adds (EUpdateSts (MergeStatefulSetUpdate found ?sts)) w w'"
    by (rule apply_sts_updates [where changes = "indexer_changes specHash certHash configHash ?sts", OF _ recreate changed indexer_announce_logs
        assms(4) [unfolded apply_indexer_def Let_def]]) (simp add: same assms(1))
  then show ?thesis using same(5) by (intro exI [of _ "MergeStatefulSetUpdate found ?sts"]) (simp add: MergeStatefulSetUpdate_def)
qed

definition indexer_ready :: "('s, 'c) collaborators \<Rightarrow> StatefulSet \<Rightarrow> string \<Rightarrow> string \<Rightarrow> bool" where
  "indexer_ready K built specHash configHash \<longleftrightarrow> answers_with (cb_IndexerSecrets K) () \<and> answers_with (cb_IndexerConfigMap K) () \<and>
     answers_with (cb_IndexerServices K) () \<and> answers_with (cb_IndexerBuilder K) (built, specHash, configHash) \<and>
     (\<forall>cluster. logs_more (cb_SecurityInitJob K cluster))"

lemma as_step_run: "run_state (step_or (as_step f) wrap cluster k) w = (case run_state (f cluster) w of
    (Inl err, v) \<Rightarrow> ((cluster, Inl (wrap err)), v) | (Inr a, v) \<Rightarrow> run_state (k cluster a) v)"
  by (simp add: step_or_def as_step_def run_bind split: prod.split sum.split)

lemma step_ignored_logs: "logs_more (f cluster) \<Longrightarrow> logs_more (step_ignored f cluster)"
  unfolding step_ignored_def by (intro logs)

lemma step_orE:
  assumes "answers_with f a" and "run_state (step_or f wrap cluster k) w = res"
  obtains v where "grows w v" and "run_state (k cluster a) v = res"
  using step_or_run [OF assms(1)] assms(2) by metis

lemma indexer_reconcile_updates:
  assumes ready: "indexer_ready K built specHash configHash"
    and get: "\<And>s. e_get_sts E (sts_Namespace built) (sts_Name built) s = (Inr found, s)"
    and keep: "\<not> fst (NeedsStatefulSetRecreation found built)"
    and changed: "hash_changed specHash (label_get (sts_Annotations found) AnnotationSpecHash)"
    and run: "run_state (Indexer_ReconcileNonBlocking E oor K recorder certHash cluster) w = (r, w')"
  shows "\<exists>s. adds (EUpdateSts s) w w' \<and> sts_SpecReplicas s = sts_SpecReplicas built"
proof -
  note steps = ready [unfolded indexer_ready_def]
  define after where "after = (\<lambda>cluster pendingRollout. do {
         cluster \<leftarrow> step_ignored (cb_SecurityInitJob K) cluster;
         ret (cluster, Inr pendingRollout :: PendingRollout option result) })"
  have after_logs: "logs_more (after c p)" for c p
    unfolding after_def using steps by (intro logs_bind step_ignored_logs logs_ret) blast
  note run' = run [unfolded Indexer_ReconcileNonBlocking_def after_def [symmetric]]
  have s: "answers_with (cb_IndexerSecrets K) ()" "answers_with (cb_IndexerConfigMap K) ()" "answers_with (cb_IndexerServices K) ()"
      "answers_with (cb_IndexerBuilder K) (built, specHash, configHash)" using steps by blast+
  have "\<exists>v. grows w v \<and> run_state (step_or (as_step (\<lambda>cluster. apply_indexer E oor recorder cluster built specHash certHash configHash))
       (wrapf ''failed to reconcile indexer statefulset: '') cluster after) v = (r, w')"
    apply (rule step_orE [OF s(1) run'], erule step_orE [OF s(2)], erule step_orE [OF s(3)], erule step_orE [OF s(4)], unfold prod.case)
    by (rule exI, rule conjI, rule grows_trans [OF grows_trans [OF grows_trans]]; assumption)
  then obtain v where v: "grows w v" "run_state (step_or (as_step (\<lambda>cluster. apply_indexer E oor recorder cluster built specHash certHash configHash))
       (wrapf ''failed to reconcile indexer statefulset: '') cluster after) v = (r, w')" by (elim exE conjE)
  obtain a v1 where a: "run_state (apply_indexer E oor recorder cluster built specHash certHash configHash) v = (a, v1)" by fastforce
  obtain s where s: "adds (EUpdateSts s) v v1" "sts_SpecReplicas s = sts_SpecReplicas built"
    using indexer_apply_updates [OF get keep changed a] by blast
  have "grows v1 w'"
    using v(2) unfolding as_step_run a prod.case using run_grows [OF after_logs] grows_refl by (cases a) fastforce+
  then show ?thesis using then_adds [OF v(1) adds_then [OF s(1)]] s(2) by blast
qed

lemma gate_passes:
  assumes "\<not> held_back drainResult err"
  shows "\<exists>deferred. run_state (gate E oor cluster drainResult err) w = ((cluster, deferred, None), w)"
  using assms by (cases err; cases drainResult) (auto simp: gate_def held_back_def)

lemma gate_waits:
  assumes "held_back drainResult err" and "run_state (gate E oor cluster drainResult err) w = ((c, deferred, early), w')"
  shows "\<exists>es e. w_log w' = w_log w @ es \<and> list_all (drain_status_write E (cluster\<lparr>wc_stDrain := Some (drain_of cluster)\<rparr>)) es \<and>
    early = Some (requeue_after (10 * second), e) \<and> \<not> deferred"
proof -
  obtain u v where u: "run_state (updateDrainStatus E oor (cluster\<lparr>wc_stDrain := Some (drain_of cluster)\<rparr>)) w = (u, v)" by fastforce
  have "gate E oor cluster drainResult err = drain_wait E oor cluster"
    using assms(1) by (auto simp: held_back_def gate_def split: option.splits)
  then have "v = w'" "early = Some (requeue_after (10 * second), err_of u)" "deferred = False"
    using assms(2) u by (auto simp: drain_wait_def run_bind Let_def)
  then show ?thesis using logs_onlyD [OF drain_status_written u] by metis
qed

lemma fatal_run: "run_state (fatal E oor reason f cluster k) w = (case run_state (f cluster) w of
    ((c, Inl err), v) \<Rightarrow> (case run_state (persistCondition E oor c ''Progressing'' reason (text_of err)) v of (c', v') \<Rightarrow> ((c', Inr (no_requeue, Some err)), v'))
  | ((c, Inr a), v) \<Rightarrow> run_state (k c a) v)"
  by (auto simp: fatal_def run_bind split: prod.split sum.split)

lemma reset_nothing: "run_state (reset_deferred E False False ctl cluster) w = ((ctl, cluster), w)"
  by (simp add: reset_deferred_def run_bind split: option.split)

text \<open>
  C14: The drain gate decides over the indexer's replicas. Take a reconciliation without dry run,
  from its drain check on, in which the specification hash of the indexer changed, the API server
  has a StatefulSet that can be updated in place, and the secrets, ConfigMap and services are in
  order. If the check reports a drain in progress without an error, the reconciliation ends there:
  all it writes is the status of the cluster just read, with the new drain status and the time,
  and it comes back after ten seconds. In every other case - also when the check failed, when the
  drain has failed, when drains are off or when an earlier drain is still on record as complete -
  its indexer phase updates the StatefulSet to the replicas the builder built.
\<close>

theorem indexer_gate_decides:
  assumes "wc_Indexer cluster = Some i" and "\<not> (case wc_Drain cluster of None \<Rightarrow> False | Some d \<Rightarrow> dc_DryRun d)"
    and "run_state (Indexer_CheckScaleDownDrain E (co_Indexer ctl) cluster (if ics_Replicas i = 0 then 3 else ics_Replicas i)) w =
      ((r1, c1, drainResult, err), w1)"
    and "indexer_ready K built specHash configHash"
    and "\<And>s. e_get_sts E (sts_Namespace built) (sts_Name built) s = (Inr found, s)"
    and "\<not> fst (NeedsStatefulSetRecreation found built)"
    and "hash_changed specHash (label_get (sts_Annotations found) AnnotationSpecHash)"
    and "run_state (indexer_phase E oor K ctl cluster certHashes) w = ((ctl2, deferred, c2, done), w2)"
    and "run_state (reconcile_components E oor K ctl pending certHashes cluster) w = ((ctl', c', res, e), w')"
  shows "if held_back drainResult err
    then res = requeue_after (10 * second) \<and>
      (\<exists>es. w_log w' = w_log w1 @ es \<and> list_all (drain_status_write E (c1\<lparr>wc_stDrain := Some (drain_of c1)\<rparr>)) es)
    else (\<exists>s. adds (EUpdateSts s) w1 w2 \<and> sts_SpecReplicas s = sts_SpecReplicas built)"
proof -
  obtain c0 d early v where g: "run_state (gate E oor c1 drainResult err) w1 = ((c0, d, early), v)" by (metis surj_pair)
  have gated: "run_state (indexer_gate E oor ctl cluster) w = ((ctl\<lparr>co_Indexer := r1\<rparr>, c0, d, early), v)"
    using assms(1,3) g by (simp add: indexer_gate_def run_bind Let_def)
  show ?thesis
  proof (cases "held_back drainResult err")
    case True
    then obtain es e1 where es: "w_log v = w_log w1 @ es" "list_all (drain_status_write E (c1\<lparr>wc_stDrain := Some (drain_of c1)\<rparr>)) es"
        "early = Some (requeue_after (10 * second), e1)" "\<not> d"
      using gate_waits [OF _ g] by blast
    have "run_state (indexer_phase E oor K ctl cluster certHashes) w = ((ctl\<lparr>co_Indexer := r1\<rparr>, False, c0, Inr (requeue_after (10 * second), e1)), v)"
      using gated es(3,4) by (simp add: indexer_phase_def run_bind)
    then have "w' = v" "res = requeue_after (10 * second)"
      using assms(9) unfolding reconcile_components_def if_not_P [OF assms(2)] by (simp_all add: run_bind reset_nothing)
    then show ?thesis using True es by (simp only: if_True) blast
  next
    case False
    have pass: "c0 = c1" "early = None" "v = w1" using gate_passes [OF False, of E oor c1 w1] g by auto
    let ?f = "Indexer_ReconcileNonBlocking E oor K (ir_Recorder r1) (indexer_cert_hash certHashes)"
    obtain c3 a v1 where a: "run_state (?f c1) w1 = ((c3, a), v1)" by (metis surj_pair)
    obtain s where s: "adds (EUpdateSts s) w1 v1" "sts_SpecReplicas s = sts_SpecReplicas built"
      using indexer_reconcile_updates [OF assms(4-7) a] by blast
    have "grows v1 w2"
      using assms(8) gated pass a run_grows [OF persistCondition_logs] grows_refl
      by (cases a) (fastforce simp: indexer_phase_def run_bind fatal_run split: prod.splits)+
    then show ?thesis using False adds_then [OF s(1)] s(2) by (simp only: if_False) blast
  qed
qed

text \<open>Collaborators that have nothing to do.\<close>

definition calm :: "'a \<Rightarrow> ('s, 'a) step" where
  "calm a cluster = ret (cluster, Inr a)"

definition calm_collaborators :: "StatefulSet \<Rightarrow> string \<Rightarrow> string \<Rightarrow> ('s, string) collaborators" where
  "calm_collaborators built specHash configHash = \<lparr>cb_ManagerRef = calm (plain_manager None), cb_IndexerRef = calm (plain_indexer 3 []),
     cb_DashboardRef = (\<lambda>c. ret (c, Inl not_found)), cb_Certificates = calm None, cb_IndexerSecrets = calm (), cb_IndexerConfigMap = calm (),
     cb_IndexerServices = calm (), cb_IndexerBuilder = calm (built, specHash, configHash), cb_SecurityInitJob = calm (), cb_CheckSecurity = calm False,
     cb_DefaultAdmin = calm (), cb_SyncSecurityCRDs = calm (), cb_ClusterKey = calm (), cb_APICredentials = calm (),
     cb_MasterBuilder = calm (\<lambda>rules decoders. built, configHash, specHash), cb_WorkerBuilder = calm (\<lambda>rules decoders. built, configHash, specHash),
     cb_Rules = None, cb_Decoders = None, cb_ManagerPDB = calm (), cb_LogRotation = calm (), cb_DashboardObjects = calm (),
     cb_DashboardBuilder = (\<lambda>c. ret (c, Inl not_found)), cb_DashboardPolicies = calm (), cb_Monitoring = None, cb_Gateway = None,
     cb_Ingress = None, cb_NetworkPolicy = None, cb_NetworkPolicyEnabled = (\<lambda>c. False), cb_DetectRestart = calm False, cb_Sort = (\<lambda>less pods. pods)\<rparr>"

lemma calm_answers: "answers_with (calm a) a"
  by (simp add: answers_with_def calm_def grows_refl)

lemma calm_ready: "indexer_ready (calm_collaborators built specHash configHash) built specHash configHash"
  by (simp add: indexer_ready_def calm_collaborators_def calm_answers) (simp add: calm_def logs_ret)

lemma drains_off_pass:
  assumes "\<not> indexer_drain_enabled cluster" and "run_state (Indexer_CheckScaleDownDrain E r cluster n) w = ((r1, c1, drainResult, err), w1)"
  shows "\<not> held_back drainResult err"
proof -
  obtain g st where g: "run_state (get_sts E (wc_Namespace cluster) (wc_Name cluster @ ''-indexer'')) w = (g, st)" by fastforce
  show ?thesis
    using assms(2) g unfolding Indexer_CheckScaleDownDrain_def drain_check_def run_bind Let_def prod.case
    by (cases g) (auto simp: assms(1) held_back_def empty_check_def split: if_splits)
qed

definition small_cluster :: WazuhCluster where
  "small_cluster = empty_cluster\<lparr>wc_Indexer := Some (plain_indexer 2 [])\<rparr>"

definition plain_controller :: Controller where
  "plain_controller = \<lparr>co_Indexer = \<lparr>ir_drainer = None, ir_osClient = None, ir_Recorder = True, ir_ClientFactory = True\<rparr>, co_Worker = None,
     co_RetryManager = True, co_RollbackManager = True, co_GatewayAPIEnabled = False\<rparr>"

theorem indexer_gate_decides_witness:
  "\<exists>w1 out w2 s. run_state (indexer_phase (dead_env\<lparr>e_get_sts := (\<lambda>ns n s. (Inr three_replicas, s))\<rparr>) (\<lambda>x. 0)
      (calm_collaborators three_replicas ''h2'' []) plain_controller small_cluster None) (new_world ()) = (out, w2) \<and>
    adds (EUpdateSts s) w1 w2 \<and> sts_SpecReplicas s = Some 2"
proof -
  let ?E = "dead_env\<lparr>e_get_sts := (\<lambda>ns n s. (Inr three_replicas, s))\<rparr> :: unit env"
  let ?K = "calm_collaborators three_replicas ''h2'' []"
  obtain r1 c1 drainResult err w1 where check:
    "run_state (Indexer_CheckScaleDownDrain ?E (co_Indexer plain_controller) small_cluster (if ics_Replicas (plain_indexer 2 []) = 0 then 3
      else ics_Replicas (plain_indexer 2 []))) (new_world ()) = ((r1, c1, drainResult, err), w1)" by (metis surj_pair)
  obtain ctl2 d c2 out w2 where phase: "run_state (indexer_phase ?E (\<lambda>x. 0) ?K plain_controller small_cluster None) (new_world ()) = ((ctl2, d, c2, out), w2)"
    by (metis surj_pair)
  obtain ctl' c' res e w' where whole: "run_state (reconcile_components ?E (\<lambda>x. 0) ?K plain_controller False None small_cluster) (new_world ()) =
      ((ctl', c', res, e), w')" by (metis surj_pair)
  have off: "\<not> indexer_drain_enabled small_cluster"
    by (simp add: small_cluster_def empty_cluster_def indexer_drain_enabled_def indexer_drain_config_def)
  have some: "wc_Indexer small_cluster = Some (plain_indexer 2 [])" by (simp add: small_cluster_def)
  have wet: "\<not> (case wc_Drain small_cluster of None \<Rightarrow> False | Some d \<Rightarrow> dc_DryRun d)" by (simp add: small_cluster_def empty_cluster_def)
  have get: "e_get_sts ?E ns n s = (Inr three_replicas, s)" for ns n s by simp
  have keep: "\<not> fst (NeedsStatefulSetRecreation three_replicas three_replicas)" by (simp add: NeedsStatefulSetRecreation_def)
  have changed: "hash_changed ''h2'' (label_get (sts_Annotations three_replicas) AnnotationSpecHash)"
    by (simp add: hash_changed_def three_replicas_def label_get_def)
  have "sts_SpecReplicas three_replicas = Some 2" by (simp add: three_replicas_def)
  then have "\<exists>s. adds (EUpdateSts s) w1 w2 \<and> sts_SpecReplicas s = Some 2"
    using indexer_gate_decides [OF some wet check calm_ready get keep changed phase whole] drains_off_pass [OF off check] by simp
  then show ?thesis using phase by blast
qed

subsection \<open>A completed drain on record\<close>

lemma restart_status_drain:
  "run_state (updateRollingRestartStatus E cluster a b c h) w = (cluster', w') \<Longrightarrow> wc_stDrain cluster' = wc_stDrain cluster"
  by (auto simp: updateRollingRestartStatus_def time_now_def run_bind run_ask Let_def split: if_splits prod.splits)

lemma pending_drain: "wc_stDrain (addPendingRollouts now cluster rollouts) = wc_stDrain cluster"
  by (simp add: addPendingRollouts_def Let_def)

lemma written_drain: "status_written cluster latest i m d c \<Longrightarrow> wc_stDrain c = wc_stDrain cluster"
  unfolding status_written_def Let_def by (drule arg_cong [of _ _ wc_stDrain]) simp

lemma updateStatus_drain:
  assumes "run_state (updateStatus E oor cluster) w = (u, w')"
  shows "\<exists>es. w_log w' = w_log w @ es \<and> list_all (\<lambda>e. \<exists>c. e = EUpdateStatus c \<and> wc_stDrain c = wc_stDrain cluster) es"
proof -
  obtain es where es: "w_log w' = w_log w @ es" "list_all (writes_status E cluster) es" using updateStatus_log [OF assms] by blast
  moreover have "list_all (\<lambda>e. \<exists>c. e = EUpdateStatus c \<and> wc_stDrain c = wc_stDrain cluster) es"
    using es(2) by (rule list.pred_mono_strong) (auto simp: writes_status_def dest: written_drain)
  ultimately show ?thesis by blast
qed

lemma finish_updates_status:
  assumes "run_state (finish_reconcile E oor K ctl p rollouts cluster) w = ((ctl1, c1, out), w1)"
  shows "\<exists>w0 u. run_state (updateStatus E oor c1) w0 = (u, w1) \<and> wc_stDrain c1 = wc_stDrain cluster"
  using assms unfolding finish_reconcile_def run_bind Let_def
  by (auto simp: time_now_def run_bind run_ask pending_drain dest: restart_status_drain split: prod.splits if_splits)

lemma reset_status_idle: "ds_Phase (the (ResetStatus now (Some s))) = DrainPhaseIdle"
  by (simp add: ResetStatus_def clear_drain_fields_def)

lemma reset_worker_indexer:
  "run_state (Worker_ResetDrainState E wr cluster) w = ((wr', cluster'), w') \<Longrightarrow> indexer_drain cluster' = indexer_drain cluster \<and> w_log w' = w_log w"
  by (auto simp: Worker_ResetDrainState_def time_now_def run_bind run_ask split: prod.splits option.splits)

lemma reset_indexer:
  assumes "run_state (Indexer_ResetDrainState E r cluster) w = ((r', cluster'), w')" and "indexer_drain cluster = Some s"
  shows "(\<exists>s'. indexer_drain cluster' = Some s' \<and> ds_Phase s' = DrainPhaseIdle) \<and> w_log w' = w_log w"
  using assms reset_status_idle by (auto simp: Indexer_ResetDrainState_def time_now_def run_bind run_ask split: prod.splits)

lemma reset_deferred_idle:
  assumes "run_state (reset_deferred E True workerReset ctl cluster) w = ((ctl', cluster'), w')" and "indexer_drain cluster = Some s"
  shows "(\<exists>s'. indexer_drain cluster' = Some s' \<and> ds_Phase s' = DrainPhaseIdle) \<and> w_log w' = w_log w"
proof -
  obtain ctl1 c1 w1 where first: "run_state (case co_Worker ctl of
         Some wr \<Rightarrow> if workerReset then do {
             (wr, cluster) \<leftarrow> Worker_ResetDrainState E wr cluster;
             ret (ctl\<lparr>co_Worker := Some wr\<rparr>, cluster) } else ret (ctl, cluster)
       | None \<Rightarrow> ret (ctl, cluster)) w = ((ctl1, c1), w1)" by (metis surj_pair)
  have c1: "indexer_drain c1 = Some s" "w_log w1 = w_log w"
    using first assms(2)
    by (auto simp: run_bind dest: reset_worker_indexer split: option.splits if_splits prod.splits)
  obtain r c2 w2 where second: "run_state (Indexer_ResetDrainState E (co_Indexer ctl1) c1) w1 = ((r, c2), w2)" by (metis surj_pair)
  have "cluster' = c2" "w' = w2"
    using assms(1) first second by (simp_all add: reset_deferred_def run_bind)
  then show ?thesis using reset_indexer [OF second c1(1)] c1(2) by simp
qed

lemma switch_complete:
  assumes "ds_Phase s = DrainPhaseComplete"
  shows "drain_switch start monitor verify r info s =
    ret (r, s, empty_check\<lparr>dcr_NeedsDrain := True, dcr_TargetPod := sd_TargetPodName info, dcr_DrainComplete := True\<rparr>, None)"
  by (simp add: drain_switch_def Let_def assms)

lemma complete_check:
  assumes "indexer_drain cluster = Some s" and "ds_Phase s = DrainPhaseComplete" and "indexer_drain_enabled cluster"
    and "e_get_sts E (wc_Namespace cluster) (wc_Name cluster @ ''-indexer'') (w_env w) = (Inr sts, st)"
    and "sd_Detected (DetectStatefulSetScaleDown (Some sts) n)"
    and "run_state (Indexer_CheckScaleDownDrain E r cluster n) w = ((r', c', res, err), w')"
  shows "\<exists>x. res = Some x \<and> dcr_DrainComplete x \<and> \<not> dcr_DrainInProgress x \<and>
    dcr_TargetPod x = sd_TargetPodName (DetectStatefulSetScaleDown (Some sts) n) \<and> err = None \<and> w_log w' = w_log w"
proof -
  have s: "Indexer_getOrInitDrainStatus cluster = s" using assms(1) by (simp add: Indexer_getOrInitDrainStatus_def)
  note run = assms(6) [unfolded Indexer_CheckScaleDownDrain_def drain_check_run [where enabled = indexer_drain_enabled, OF assms(4,5,3)]
      s switch_complete [OF assms(2)] run_ret prod.case]
  let ?x = "empty_check\<lparr>dcr_NeedsDrain := True, dcr_TargetPod := sd_TargetPodName (DetectStatefulSetScaleDown (Some sts) n), dcr_DrainComplete := True\<rparr>"
  have x: "res = Some ?x" and rest: "err = None" "w' = w\<lparr>w_env := st\<rparr>" using run by simp_all
  have "dcr_DrainComplete ?x" "\<not> dcr_DrainInProgress ?x" "dcr_TargetPod ?x = sd_TargetPodName (DetectStatefulSetScaleDown (Some sts) n)"
    by (simp_all add: empty_check_def)
  with x rest show ?thesis by (intro exI [of _ ?x] conjI) simp_all
qed

text \<open>
  C35: A completed drain covers for the next one. A reconciliation that let the indexer shrink
  after a drain ends with a status update and then resets the drain state, but only in its
  working copy: every status it writes at its end still has the drain as complete. In any later
  reconciliation that finds that status, a scale-down of the indexer - to any number of replicas,
  of any pod - passes the drain check as drained without a single request to OpenSearch.
\<close>

theorem completed_drain_covers_next:
  assumes "indexer_drain cluster = Some s" and "ds_Phase s = DrainPhaseComplete"
    and "run_state (finish_reconcile E oor K ctl pending rollouts cluster) w = ((ctl1, c1, out), w1)"
    and "run_state (reset_deferred E True workerReset ctl1 c1) w1 = ((ctl2, c2), w2)"
    and "indexer_drain later = Some s" and "indexer_drain_enabled later"
    and "e_get_sts E' (wc_Namespace later) (wc_Name later @ ''-indexer'') (w_env v) = (Inr sts, st)"
    and "sd_Detected (DetectStatefulSetScaleDown (Some sts) n)"
    and "run_state (Indexer_CheckScaleDownDrain E' r later n) v = ((r', c', res, err), v')"
  shows "(\<exists>w0 u es. run_state (updateStatus E oor c1) w0 = (u, w1) \<and> w_log w2 = w_log w0 @ es \<and>
      list_all (\<lambda>e. \<exists>c. e = EUpdateStatus c \<and> indexer_drain c = Some s) es) \<and>
    (\<exists>s'. indexer_drain c2 = Some s' \<and> ds_Phase s' = DrainPhaseIdle) \<and>
    (\<exists>x. res = Some x \<and> dcr_DrainComplete x \<and> \<not> dcr_DrainInProgress x \<and>
      dcr_TargetPod x = sd_TargetPodName (DetectStatefulSetScaleDown (Some sts) n) \<and> err = None \<and> w_log v' = w_log v)"
proof (intro conjI)
  obtain w0 u where u: "run_state (updateStatus E oor c1) w0 = (u, w1)" "wc_stDrain c1 = wc_stDrain cluster"
    using finish_updates_status [OF assms(3)] by blast
  have c1: "indexer_drain c1 = Some s" using u(2) assms(1) by (simp add: indexer_drain_def)
  obtain es where es: "w_log w1 = w_log w0 @ es" "list_all (\<lambda>e. \<exists>c. e = EUpdateStatus c \<and> wc_stDrain c = wc_stDrain c1) es"
    using updateStatus_drain [OF u(1)] by blast
  have "list_all (\<lambda>e. \<exists>c. e = EUpdateStatus c \<and> indexer_drain c = Some s) es"
    using es(2) by (rule list.pred_mono_strong) (use c1 in \<open>auto simp: indexer_drain_def\<close>)
  then show "\<exists>w0 u es. run_state (updateStatus E oor c1) w0 = (u, w1) \<and> w_log w2 = w_log w0 @ es \<and>
      list_all (\<lambda>e. \<exists>c. e = EUpdateStatus c \<and> indexer_drain c = Some s) es"
    using u(1) es(1) reset_deferred_idle [OF assms(4) c1] by auto
  show "\<exists>s'. indexer_drain c2 = Some s' \<and> ds_Phase s' = DrainPhaseIdle" using reset_deferred_idle [OF assms(4) c1] by blast
  show "\<exists>x. res = Some x \<and> dcr_DrainComplete x \<and> \<not> dcr_DrainInProgress x \<and>
      dcr_TargetPod x = sd_TargetPodName (DetectStatefulSetScaleDown (Some sts) n) \<and> err = None \<and> w_log v' = w_log v"
    by (rule complete_check [OF assms(5,2,6-9)])
qed

definition drained_status :: ComponentDrainStatus where
  "drained_status = zero_status\<lparr>ds_Phase := DrainPhaseComplete, ds_TargetPod := ''wz-indexer-2''\<rparr>"

definition drained_cluster :: WazuhCluster where
  "drained_cluster = small_cluster\<lparr>wc_Drain := Some \<lparr>dc_Indexer = Some \<lparr>idc_Enabled = Some True, idc_Timeout = None,
       idc_HealthCheckInterval = None, idc_MinGreenHealthTimeout = None\<rparr>, dc_Manager = None, dc_Retry = None, dc_DryRun = False\<rparr>,
     wc_stDrain := Some (empty_drain_status\<lparr>dst_Indexer := Some drained_status\<rparr>)\<rparr>"

lemma drained_cluster_facts:
  "indexer_drain drained_cluster = Some drained_status" "ds_Phase drained_status = DrainPhaseComplete"
  "indexer_drain_enabled drained_cluster" "sd_Detected (DetectStatefulSetScaleDown (Some three_replicas) 1)"
  by (simp_all add: drained_cluster_def drained_status_def indexer_drain_def empty_drain_status_def indexer_drain_enabled_def
      indexer_drain_config_def DetectStatefulSetScaleDown_def three_replicas_def Let_def)

theorem completed_drain_covers_next_witness:
  "\<exists>w1 w2 r' c' x v'. run_state (finish_reconcile (dead_env\<lparr>e_get_sts := (\<lambda>ns n s. (Inr three_replicas, s))\<rparr>) (\<lambda>x. 0)
      (calm_collaborators three_replicas ''h2'' []) plain_controller False [] drained_cluster) (new_world ()) = w1 \<and>
    run_state (Indexer_CheckScaleDownDrain ((dead_env :: unit env)\<lparr>e_get_sts := (\<lambda>ns n s. (Inr three_replicas, s))\<rparr>) (co_Indexer plain_controller)
      drained_cluster 1) w2 = ((r', c', Some x, None), v') \<and> dcr_DrainComplete x \<and> w_log v' = w_log w2"
proof -
  let ?E = "dead_env\<lparr>e_get_sts := (\<lambda>ns n s. (Inr three_replicas, s))\<rparr> :: unit env"
  obtain ctl1 c1 out w1 where fin: "run_state (finish_reconcile ?E (\<lambda>x. 0) (calm_collaborators three_replicas ''h2'' []) plain_controller
      False [] drained_cluster) (new_world ()) = ((ctl1, c1, out), w1)" by (metis surj_pair)
  obtain ctl2 c2 w2 where res: "run_state (reset_deferred ?E True False ctl1 c1) w1 = ((ctl2, c2), w2)" by (metis surj_pair)
  obtain r' c' y err v' where check: "run_state (Indexer_CheckScaleDownDrain ?E (co_Indexer plain_controller) drained_cluster 1) w2 =
      ((r', c', y, err), v')" by (metis surj_pair)
  have get: "e_get_sts ?E (wc_Namespace drained_cluster) (wc_Name drained_cluster @ ''-indexer'') (w_env w2) = (Inr three_replicas, w_env w2)"
    by simp
  obtain x where x: "y = Some x" "dcr_DrainComplete x" "err = None" "w_log v' = w_log w2"
    using completed_drain_covers_next [OF drained_cluster_facts(1,2) fin res drained_cluster_facts(1,3) get drained_cluster_facts(4) check]
    by (elim conjE exE)
  from fin check [unfolded x(1,3)] x(2,4) show ?thesis by (intro exI conjI)
qed

subsection \<open>Retries\<close>

text \<open>What the drain status of the indexer can become by drain checks, in any worlds and with any changes of the specification in between.\<close>

inductive checked_from :: "'s env \<Rightarrow> ComponentDrainStatus \<Rightarrow> ComponentDrainStatus \<Rightarrow> bool" for E s0 where
  start: "checked_from E s0 s0"
| check: "checked_from E s0 s \<Longrightarrow> indexer_drain cluster = Some s \<Longrightarrow>
    run_state (Indexer_CheckScaleDownDrain E r cluster n) w = ((r', cluster', res, err), w') \<Longrightarrow>
    indexer_drain cluster' = Some s' \<Longrightarrow> checked_from E s0 s'"

lemma check_keeps_pending:
  assumes "indexer_drain cluster = Some s" and "ds_Phase s = DrainPhasePending"
    and "run_state (Indexer_CheckScaleDownDrain E r cluster n) w = ((r', cluster', res, err), w')"
  shows "(\<exists>s'. indexer_drain cluster' = Some s' \<and> ds_Phase s' = DrainPhasePending) \<and> (\<forall>x. res = Some x \<longrightarrow> \<not> dcr_DrainComplete x)"
proof -
  have "Indexer_getOrInitDrainStatus cluster = s" using assms(1) by (simp add: Indexer_getOrInitDrainStatus_def)
  from indexer_component.check_pending [OF assms(3) [unfolded Indexer_CheckScaleDownDrain_def] Indexer_upd assms(1) this assms(2)]
  show ?thesis .
qed

lemma checked_from_pending: "checked_from E s0 s \<Longrightarrow> ds_Phase s0 = DrainPhasePending \<Longrightarrow> ds_Phase s = DrainPhasePending"
  by (induction rule: checked_from.induct) (use check_keeps_pending in fastforce)+

lemma checkAndHandleRetry_due:
  assumes "indexer_drain cluster = Some s" and "ds_Phase s = DrainPhaseFailed \<or> ds_Phase s = DrainPhaseRollingBack"
    and "co_RetryManager ctl" and "ds_NextRetryTime s = Some t" and "fst (e_now E (w_env w)) > t"
    and "run_state (checkAndHandleRetry E oor ctl cluster) w = ((cluster', res), w')"
  shows "cluster' = set_indexer_drain (retry_status s) cluster \<and> res = Some requeue_now"
proof -
  have st: "wc_stDrain cluster \<noteq> None" using assms(1) by (cases "wc_stDrain cluster") (auto simp: indexer_drain_def)
  obtain now v where now: "run_state (time_now E) w = (now, v)" by fastforce
  have due: "run_state (retry_due E ctl s) w = (True, v)"
    using assms(3,4,5) now by (auto simp: retry_due_def RetryManager_IsRetryDue_def time_now_def run_bind run_ask split: prod.splits)
  obtain u1 v1 where ev: "run_state (emitDrainEvent (ir_Recorder (co_Indexer ctl)) DrainComponentIndexer ''DrainRetry'' (ds_Message (retry_status s))) v = (u1, v1)"
    by (rule prod.exhaust)
  obtain u v2 where u: "run_state (updateDrainStatus E oor (set_indexer_drain (retry_status s) cluster)) v1 = (u, v2)" by fastforce
  have "run_state (retry_component E oor ctl cluster DrainComponentIndexer (indexer_drain cluster) set_indexer_drain) w =
      ((set_indexer_drain (retry_status s) cluster, Some requeue_now), v2)"
    using assms(2) due ev u by (simp add: retry_component_def assms(1) run_bind Let_def)
  then show ?thesis using assms(6) st by (simp add: checkAndHandleRetry_def run_bind)
qed

text \<open>
  C36: A retried drain is never started again. When the retry of a failed drain of the indexer is
  due, the controller makes its status pending by hand and comes back at once. From that status
  on no sequence of drain checks - in any worlds, for any specification - leaves the phase
  pending: no check starts the drain anew and none lets the scale-down proceed as drained.
\<close>

theorem retried_drain_never_restarts:
  assumes "indexer_drain cluster = Some s" and "ds_Phase s = DrainPhaseFailed \<or> ds_Phase s = DrainPhaseRollingBack"
    and "co_RetryManager ctl" and "ds_NextRetryTime s = Some t" and "fst (e_now E (w_env w)) > t"
    and "run_state (checkAndHandleRetry E oor ctl cluster) w = ((cluster', res), w')"
  shows "res = Some requeue_now \<and> (\<exists>s'. indexer_drain cluster' = Some s' \<and> ds_Phase s' = DrainPhasePending \<and>
    (\<forall>s2. checked_from E s' s2 \<longrightarrow> ds_Phase s2 = DrainPhasePending \<and>
      (\<forall>c2 r n v r3 c3 x err v3. indexer_drain c2 = Some s2 \<and>
        run_state (Indexer_CheckScaleDownDrain E r c2 n) v = ((r3, c3, Some x, err), v3) \<longrightarrow> \<not> dcr_DrainComplete x)))"
proof -
  have r: "cluster' = set_indexer_drain (retry_status s) cluster" "res = Some requeue_now"
    using checkAndHandleRetry_due [OF assms] by blast+
  have p: "ds_Phase (retry_status s) = DrainPhasePending" by (simp add: retry_status_def)
  have "ds_Phase s2 = DrainPhasePending \<and> (\<forall>c2 r n v r3 c3 x err v3. indexer_drain c2 = Some s2 \<and>
      run_state (Indexer_CheckScaleDownDrain E r c2 n) v = ((r3, c3, Some x, err), v3) \<longrightarrow> \<not> dcr_DrainComplete x)"
    if c: "checked_from E (retry_status s) s2" for s2
    using checked_from_pending [OF c p] check_keeps_pending by fastforce
  then show ?thesis using r p by simp
qed

definition failed_cluster :: WazuhCluster where
  "failed_cluster = small_cluster\<lparr>wc_stDrain := Some (empty_drain_status\<lparr>dst_Indexer :=
     Some (zero_status\<lparr>ds_Phase := DrainPhaseFailed, ds_NextRetryTime := Some (- 1)\<rparr>)\<rparr>)\<rparr>"

theorem retried_drain_never_restarts_witness:
  "\<exists>cluster' res w' s'. run_state (checkAndHandleRetry dead_env (\<lambda>x. 0) plain_controller failed_cluster) (new_world ()) = ((cluster', res), w') \<and>
     res = Some requeue_now \<and> indexer_drain cluster' = Some s' \<and> ds_Phase s' = DrainPhasePending"
proof -
  let ?s = "zero_status\<lparr>ds_Phase := DrainPhaseFailed, ds_NextRetryTime := Some (- 1)\<rparr>"
  obtain cluster' res w' where run: "run_state (checkAndHandleRetry dead_env (\<lambda>x. 0) plain_controller failed_cluster) (new_world ()) = ((cluster', res), w')"
    by (metis surj_pair)
  have f: "indexer_drain failed_cluster = Some ?s" "ds_Phase ?s = DrainPhaseFailed \<or> ds_Phase ?s = DrainPhaseRollingBack"
      "co_RetryManager plain_controller" "ds_NextRetryTime ?s = Some (- 1)" "fst (e_now dead_env (w_env (new_world ()))) > - 1"
    by (simp_all add: failed_cluster_def indexer_drain_def plain_controller_def dead_env_def)
  show ?thesis using retried_drain_never_restarts [OF f run] run by blast
qed

subsection \<open>A dry run\<close>

lemma client_silent: "logs_only P (ensureOpenSearchClient E r cluster)"
  unfolding ensureOpenSearchClient_def factory_GetClientForCluster_def GetClientForCluster_def getCredentials_def
    getCACertificate_def cache_put_def get_secret_def Let_def NewClient_def split_beta
  by (intro logs; simp)

lemma wazuh_client_silent: "logs_only P (ensureWazuhClient E wr cluster)"
  unfolding ensureWazuhClient_def getWazuhAPICredentials_def default_credentials_def get_secret_def Let_def NewWazuhAPIAdapter_def split_beta
  by (intro logs; simp)

text \<open>A computation that only reads and answers with a consistent result, whatever it does to its reconciler.\<close>

definition evaluates :: "('s, 'r \<times> DryRunResult result) io \<Rightarrow> bool" where
  "evaluates m \<longleftrightarrow> (\<forall>w. \<exists>r d w' es. run_state m w = ((r, Inr d), w') \<and> consistent d \<and> w_log w' = w_log w @ es \<and> list_all reads_only es)"

lemma evaluates_client:
  assumes "logs_only reads_only c" and "\<And>q. sound_evaluation (f q)"
  shows "evaluates (do { (q, err) \<leftarrow> c;
     case err of
       Some e \<Rightarrow> do { now \<leftarrow> time_now E; ret (q, Inr (add_blocker (b e) (fresh_result now component))) }
     | None \<Rightarrow> do { res \<leftarrow> f q; ret (q, res) } })"
  unfolding evaluates_def
proof
  fix w
  obtain q err v where c: "run_state c w = ((q, err), v)" by (metis surj_pair)
  obtain es where es: "w_log v = w_log w @ es" "list_all reads_only es" using logs_onlyD [OF assms(1) c] .
  obtain now v1 where now: "run_state (time_now E) v = (now, v1)" by fastforce
  have v1: "w_log v1 = w_log v" using now by (auto simp: time_now_def run_ask split: prod.splits)
  obtain d v2 where d: "run_state (f q) v = (Inr d, v2)" "consistent d" using assms(2) unfolding sound_evaluation_def by blast
  obtain fs where fs: "w_log v2 = w_log v @ fs" "list_all reads_only fs"
    using assms(2) d(1) unfolding sound_evaluation_def by (meson logs_onlyD)
  show "\<exists>r d w' es. run_state (do { (q, err) \<leftarrow> c;
     case err of
       Some e \<Rightarrow> do { now \<leftarrow> time_now E; ret (q, Inr (add_blocker (b e) (fresh_result now component))) }
     | None \<Rightarrow> do { res \<leftarrow> f q; ret (q, res) } }) w = ((r, Inr d), w') \<and> consistent d \<and> w_log w' = w_log w @ es \<and> list_all reads_only es"
    using c now d es fs v1 by (cases err) (auto simp: run_bind intro!: exI [of _ es] exI [of _ "es @ fs"])
qed

lemma feasibility_evaluates:
  "evaluates (Indexer_EvaluateDrainFeasibility E r cluster node)" "evaluates (Worker_EvaluateDrainFeasibility E wr cluster node)"
  unfolding Indexer_EvaluateDrainFeasibility_def Worker_EvaluateDrainFeasibility_def
  by (intro evaluates_client client_silent wazuh_client_silent indexer_eval.evaluate_sound manager_eval.evaluate_sound)+

lemma merge_consistent: "consistent r \<Longrightarrow> consistent d \<Longrightarrow> consistent (merge_dry_run tag (Inr d) r)"
  by (auto simp: consistent_def merge_dry_run_def)

text \<open>One component of the dry run: the controller and the result, with only reads on the way.\<close>

definition dry_step :: "('s, Controller \<times> DryRunResult) io \<Rightarrow> bool" where
  "dry_step m \<longleftrightarrow> (\<forall>w. \<exists>ctl d w' es. run_state m w = ((ctl, d), w') \<and> consistent d \<and> w_log w' = w_log w @ es \<and> list_all reads_only es)"

lemma dry_step_ret: "consistent d \<Longrightarrow> dry_step (ret (ctl, d))"
  by (simp add: dry_step_def)

lemma dry_step_eval:
  assumes "evaluates m" and "consistent result"
  shows "dry_step (do { (r, evaluated) \<leftarrow> m; ret (put r, merge_dry_run tag evaluated result) })"
  unfolding dry_step_def
proof
  fix w
  obtain r d w' es where m: "run_state m w = ((r, Inr d), w')" "consistent d" "w_log w' = w_log w @ es" "list_all reads_only es"
    using assms(1) unfolding evaluates_def by blast
  then show "\<exists>ctl d w' es. run_state (do { (r, evaluated) \<leftarrow> m; ret (put r, merge_dry_run tag evaluated result) }) w = ((ctl, d), w') \<and>
      consistent d \<and> w_log w' = w_log w @ es \<and> list_all reads_only es"
    using merge_consistent [OF assms(2)] by (auto simp: run_bind)
qed

lemma dry_step_bind:
  assumes "dry_step m" and "\<And>ctl d. consistent d \<Longrightarrow> dry_step (f (ctl, d))"
  shows "dry_step (State_Monad.bind m f)"
  unfolding dry_step_def
proof
  fix w
  obtain ctl d v es where m: "run_state m w = ((ctl, d), v)" "consistent d" "w_log v = w_log w @ es" "list_all reads_only es"
    using assms(1) unfolding dry_step_def by blast
  obtain ctl' d' w' fs where f: "run_state (f (ctl, d)) v = ((ctl', d'), w')" "consistent d'" "w_log w' = w_log v @ fs" "list_all reads_only fs"
    using assms(2) [OF m(2)] unfolding dry_step_def by blast
  show "\<exists>ctl d w' es. run_state (State_Monad.bind m f) w = ((ctl, d), w') \<and> consistent d \<and> w_log w' = w_log w @ es \<and> list_all reads_only es"
    using m f by (intro exI [of _ ctl'] exI [of _ d'] exI [of _ w'] exI [of _ "es @ fs"]) (simp add: run_bind)
qed

lemma component_dry_runs:
  "consistent d \<Longrightarrow> dry_step (indexer_dry_run E cluster (ctl, d))" "consistent d \<Longrightarrow> dry_step (manager_dry_run E cluster (ctl, d))"
  unfolding indexer_dry_run_def manager_dry_run_def prod.case
  by (auto intro!: dry_step_ret dry_step_eval feasibility_evaluates consistent_simps split: option.split)

lemma evaluateDryRun_sound: "dry_step (evaluateDryRun E ctl cluster)"
proof -
  have rest: "dry_step (do { s \<leftarrow> indexer_dry_run E cluster (ctl, fresh_result now ''all''); (ctl, result) \<leftarrow> manager_dry_run E cluster s;
     ret (ctl, if wc_Dashboard cluster \<noteq> None then add_warning ''[dashboard] PDB protection not yet implemented'' result else result) })" for now
    by (intro dry_step_bind component_dry_runs consistent_simps) (auto intro!: dry_step_ret consistent_simps)
  show ?thesis unfolding dry_step_def
  proof
    fix w
    obtain now v where now: "run_state (time_now E) w = (now, v)" by fastforce
    then have "w_log v = w_log w" by (auto simp: time_now_def run_ask split: prod.splits)
    then show "\<exists>c d w' es. run_state (evaluateDryRun E ctl cluster) w = ((c, d), w') \<and> consistent d \<and> w_log w' = w_log w @ es \<and> list_all reads_only es"
      using rest [of now, unfolded dry_step_def, rule_format, of v] by (simp add: evaluateDryRun_def run_bind [of "time_now E"] now)
  qed
qed

definition one_event :: "('s, 'a) io \<Rightarrow> bool" where
  "one_event m \<longleftrightarrow> (\<forall>w a w'. run_state m w = (a, w') \<longrightarrow>
     (\<exists>es. w_log w' = w_log w @ es \<and> length es \<le> 1 \<and> list_all (\<lambda>e. \<exists>b r m. e = EEvent b r m) es))"

lemma one_event_intros:
  "one_event (ret a)" "one_event (record_event b r msg)" "one_event m \<Longrightarrow> one_event n \<Longrightarrow> one_event (if c then m else n)"
  by (simp_all add: one_event_def record_event_def run_emit)

lemma emitDryRunEvent_one: "one_event (emitDryRunEvent recorder result)"
  unfolding emitDryRunEvent_def by (intro one_event_intros)


definition dry_config :: DrainConfiguration where
  "dry_config = \<lparr>dc_Indexer = None, dc_Manager = None, dc_Retry = None, dc_DryRun = True\<rparr>"


end
