(* ===== verification/Spec2Isabelle.thy ===== *)
theory Spec2Isabelle
  imports DrainDetection IndexerDrainFacts ManagerDrain DrainRetry GoCrypto Naming ClientFactory DrainRollback DryRun
    WorkerReconcile NodePoolReconcile Rolling Webhook Versions
    Storage KubeRetry Rollout Credentials ClusterStatus WorkloadApply CertRenewal Controller
begin

text \<open>
  Verification of the Wazuh operator, a Kubernetes operator in Go that runs clusters of Wazuh
  (managers, OpenSearch indexers and dashboards). File names below are relative to \<open>src/\<close>.

  \<^bold>\<open>The program.\<close> The controller (\<open>controllers/wazuhcluster_controller.go\<close>) reconciles a
  WazuhCluster: it validates it, rolls back or retries failed drains, answers dry runs, makes the
  certificates, lets the indexer and the workers pass their drain gates before a smaller replica
  count is applied, applies the workloads, rotates credentials, restarts pods one at a time and
  writes the status. A webhook decides what clusters are stored at all. A drain moves shards off
  an indexer node (OpenSearch API) or waits for a manager's queue to empty (Wazuh API); its
  progress is a small state machine in the status of the cluster.

  \<^bold>\<open>How it is modelled.\<close> Go structs are records, enumerations datatypes, \<open>int32\<close> and \<open>int64\<close>
  words, errors values of a sum type. \<open>ClusterWorld\<close> has the outside: the API server, the HTTP
  servers and the clock are functions of an unknown state \<open>'s\<close>, collected in a record that every
  definition takes as the argument \<open>E\<close>, so two equal calls may be answered differently. A
  computation is a state monad over that state and a log of the effects it had; theorems about
  what the operator does speak of the log. A reconciler that keeps data between reconciliations
  is a record that its methods take and return. Code outside the repository (the cryptographic and
  cron libraries, the API server, map iteration order) is an argument, with the documented
  behaviour as a hypothesis where a theorem needs it.

  \<^bold>\<open>The theories.\<close>
  \<^item> Language and library: \<open>Prelude\<close> (integers, time, texts, errors), \<open>GoFloat\<close> (doubles as the
    retry code uses them), \<open>GoRegexp\<close>, \<open>GoTime\<close> (RFC 3339), \<open>GoCrypto\<close> (SHA-256 and the hashes of
    \<open>internal/utils/hash.go\<close>), \<open>Labels\<close>, \<open>Naming\<close> (\<open>pkg/constants\<close>, \<open>pkg/dns\<close>,
    \<open>internal/certificates/sans\<close>).
  \<^item> Resources and world: \<open>ClusterTypes\<close> (\<open>api/v1\<close>), \<open>ClusterWorld\<close>.
  \<^item> Admission and validation: \<open>Webhook\<close> (\<open>wazuhcluster_webhook.go\<close>), \<open>NodePoolValidation\<close>,
    \<open>Versions\<close> (\<open>pkg/versions\<close>).
  \<^item> Drains: \<open>DrainState\<close> (\<open>internal/shared/drain/state.go\<close>; a relation of phases is its abstract
    specification), \<open>DrainDetection\<close>, \<open>DrainRetry\<close>, \<open>DrainRollback\<close>, \<open>DryRun\<close>, \<open>ClusterApi\<close> and
    \<open>ClientFactory\<close> (the OpenSearch client), \<open>IndexerDrain\<close> and \<open>IndexerDrainFacts\<close>, \<open>WazuhApi\<close> and
    \<open>ManagerDrain\<close>.
  \<^item> Drain gates: \<open>DrainCheck\<close> holds what the gates share as the locale \<open>drain_component\<close>, with
    the history of a drain as an inductive relation and what a check that goes on has seen; \<open>IndexerReconcile\<close> and \<open>WorkerReconcile\<close>
    interpret it on the code of both reconcilers; \<open>NodePoolReconcile\<close> has the gate of a node pool.
  \<^item> Rolling restarts: \<open>Rolling\<close>, with the locale \<open>health_checker\<close> interpreted on the health
    checks of indexer and manager, and \<open>slice_sort\<close> on Go's sort of short slices.
  \<^item> Workloads: \<open>Placement\<close> (labels, disruption budgets, affinity, network policies), \<open>WorkloadApply\<close>
    (create, recreate, update), \<open>Rollout\<close>, \<open>Storage\<close> (volume expansion), \<open>Credentials\<close>, \<open>KubeRetry\<close>,
    \<open>ClusterStatus\<close>.
  \<^item> Certificates: \<open>Maintenance\<close> (durations and maintenance windows), \<open>Certificates\<close> (keys,
    generation, parsing, the domain check), \<open>CertRenewal\<close> (CA, leaf certificates, hashes, hot reload).
  \<^item> \<open>Controller\<close>: \<open>Reconcile\<close> and what it calls directly, over the components above. The
    certificate reconciler is one of its arguments, as are the builders; this theory joins
    \<open>CertRenewal\<close> and \<open>Controller\<close> at the result they share.

  \<^bold>\<open>What is shown.\<close> For indexers, workers and data pools: in which ways a drain check lets a
  replica count shrink - as drained, with the server's answer that shows it, after an error, or in
  a phase it does not know - and in no others. The drain status follows its life cycle and stays
  well-formed; a started drain completes within two checks once the shards have moved away;
  verification, rollback and retry do what they promise. A rolling restart deletes one pod
  at a time and only of a healthy component, and ends. Admission and the controller's own validation agree
  up to listed differences. Applying a workload reaches a fixed point. Volumes only
  grow, but the operator does not find the claims it has made. The finalizer goes only after the
  objects on the list of the cleanup. Certificates live as long as their validity
  less the threshold; windows are recognised; names of fresh certificates pass the operator's own
  check. Theorems of kind error prove where the code does not do what it means to.

  \<^bold>\<open>Loops and bounds.\<close> Loops over lists are structural recursion; the others have a termination
  proof. The search for the last start of a maintenance window may run for ever: it is a partial
  function, \<open>None\<close> when it does not return, and both sides are shown. The wait for a drain
  takes the ticks of its ticker and the wait for a rollout the number of rounds it may make; \<open>None\<close>
  is a loop still waiting, and more of them than the timeout has intervals are shown to be enough. The retries of an API call run through the steps of their
  backoff. Times are unbounded integers of nanoseconds; differences saturate as Go's do.

  \<^bold>\<open>What is not modelled.\<close> The builders' containers and volumes, configuration files, backup and
  restore jobs, gateway and ingress objects, the standalone resources and their controllers, and
  the OpenSearch security objects, which only assemble objects or pass them on; certificates the user brings along and the
  reload calls to pods, which are arguments; generated code, metrics, traces and log lines.
  Concurrent reconciliations are not modelled; a client call that another writer overtakes is a
  changed answer of the environment.
\<close>

section \<open>Certificates and the indexer\<close>

text \<open>Without hot reload the certificate reconciler never reports a reload error.\<close>

lemma no_reload_no_error:
  assumes "Option.bind (wc_TLS cluster) tls_CustomCerts = None" and "\<not> ShouldTriggerHotReload cluster"
    and "run_state (ReconcileWithHashes E P cluster) w = (Some (Inr r), w')"
  shows "chr_HotReloadError r = None"
proof -
  obtain c w1 where c: "run_state (reconcileCA E (ce_Crypto P) (ce_Cron P) (ce_Recorder P) cluster (getCertOptions cluster)) w = (c, w1)" by (metis surj_pair)
  have run: "run_state (ReconcileWithHashes E P cluster) w = (Some (Inr r), w')" by (rule assms(3))
  note start = ReconcileWithHashes_def Let_def assms(1) run_bind c
  obtain car where car: "c = Some (Inr car)"
  proof (cases c)
    case None
    then show ?thesis using run by (simp add: start)
  next
    case (Some x)
    then show ?thesis using run that by (cases x) (simp_all add: start)
  qed
  show ?thesis
  proof (cases "car_RenewalPending car")
    case True
    obtain e err w2 where e: "run_state (collectCertHashes E cluster) w1 = ((e, err), w2)" by (metis surj_pair)
    show ?thesis using run collected_flags [OF e] by (auto simp: start car True e)
  next
    case False
    obtain l w2 where l: "run_state (reconcile_leaves E P cluster (getCertOptions cluster) (car_CAResult car)) w1 = (l, w2)" by (metis surj_pair)
    then obtain b where b: "l = Inr b" using run by (cases l) (simp_all add: start car False)
    obtain e err w3 where e: "run_state (collectCertHashes E cluster) w2 = ((e, err), w3)" by (metis surj_pair)
    show ?thesis using run collected_flags [OF e] assms(2)
      by (auto simp: start car False l b finish_certs_def e TriggerHotReload_def with_reload_def no_reload_def split: if_splits)
  qed
qed

text \<open>
  C39: A renewed indexer certificate restarts the indexer only together with the CA. In a cluster
  without hot reload, which is every cluster with no TLS section, whatever a reconciliation of the
  certificates did, the indexer's StatefulSet is given the reason of a certificate renewal exactly
  if the CA was renewed and the hash of the indexer's secret differs from the one on its pods. So
  the renewal of the indexer's certificate alone restarts nothing, and the pods keep
  the old certificate until it expires.
\<close>

theorem renewed_indexer_certificate_not_loaded:
  assumes "Option.bind (wc_TLS cluster) tls_CustomCerts = None" and "\<not> ShouldTriggerHotReload cluster"
    and "run_state (ReconcileWithHashes E P cluster) w = (Some (Inr r), w')"
  shows "''certificate-renewal'' \<in> set (indexer_changes specHash (indexer_cert_hash (Some r)) configHash sts found) \<longleftrightarrow>
    chr_CARenewed r \<and> hash_changed (chr_IndexerCertHash r) (label_get (sts_TemplateAnnotations found) AnnotationCertHash)"
  using no_reload_no_error [OF assms]
  by (auto simp: indexer_changes_def when_changed_def indexer_cert_hash_def hash_changed_def)

text \<open>A cluster whose indexer certificate is expired while the CA and the other certificates are in date.\<close>

definition stale_secrets :: "string \<Rightarrow> labels" where
  "stale_secrets n = (if n = IndexerCertsName (wc_Name empty_cluster) then [(SecretKeyCACert, cert_pem ''leaf''), (SecretKeyTLSCert, cert_pem ''old-ca''), (SecretKeyTLSKey, rsa_pem)]
     else [(SecretKeyCACert, cert_pem ''leaf''), (SecretKeyCAKey, rsa_pem), (SecretKeyTLSCert, cert_pem ''leaf''), (SecretKeyTLSKey, flat_key n)])"

definition stale_env :: "unit env" where "stale_env = secrets_env stale_secrets"

lemma silent_unit: "silent (m :: (unit, 'a result) io) a \<Longrightarrow> run_state m w = (Inr a, w)"
  unfolding silent_def by (metis (full_types) old.unit.exhaust world.surjective world.update_convs(1))

lemma stale_ca:
  "\<exists>ca. run_state (reconcileCA stale_env flat_crypto hours_cron False empty_cluster DefaultCertificateOptions) w = (Some (Inr (ca_as_is ca)), w)"
proof -
  have secret: "label_get (stale_secrets (wc_Name empty_cluster @ ''-ca'')) SecretKeyCACert = cert_pem ''leaf''"
      "label_get (stale_secrets (wc_Name empty_cluster @ ''-ca'')) SecretKeyCAKey = rsa_pem"
    by (simp_all add: stale_secrets_def label_get_def SecretKeyCACert_def SecretKeyCAKey_def IndexerCertsName_def)
  define ca where "ca = \<lparr>cr_Certificate = dated_cert ''leaf'', cr_PrivateKey = RSAKey ''key'', cr_CertificatePEM = cert_pem ''leaf'', cr_PrivateKeyPEM = rsa_pem\<rparr>"
  have parse: "ParseCA flat_crypto (cert_pem ''leaf'') rsa_pem = Inr ca" by (simp add: ca_def ParseCA_def flat_parse)
  have "x_NotAfter (cr_Certificate ca) = sint (cfg_Validity one_cert_config)" by (simp add: ca_def dated_cert_def template_of_def)
  moreover have "cfg_Validity one_cert_config = default_duration DefaultNodeValidityStr"
    by (simp add: one_cert_config_def with_defaults_def configured_def GetNodeValidity_def positive_or_def DefaultCertificateOptions_def)
  moreover have "sint (default_duration DefaultNodeValidityStr) + sint (- GetCARenewalThreshold DefaultCertificateOptions) \<ge> 0" by code_simp
  ultimately have "run_state (reconcileCA stale_env flat_crypto hours_cron False empty_cluster DefaultCertificateOptions) w = (Some (Inr (ca_as_is ca)), w)"
    by (simp add: reconcileCA_def stale_env_def run_bind get_secret_def run_ask secret parse NeedsRenewal_def time_now_def)
  then show ?thesis ..
qed

lemma stale_indexer:
  "\<exists>w'. run_state (reconcileIndexerCerts stale_env flat_crypto False empty_cluster ca DefaultCertificateOptions) w = (Inr True, w')"
proof -
  define sans where "sans = GenerateIndexerNodeSANs (e_domain stale_env) (wc_Name empty_cluster) (wc_Namespace empty_cluster) (indexer_cert_replicas empty_cluster)"
  define leaf where "leaf = node_leaf stale_env flat_crypto empty_cluster (IndexerCertsName (wc_Name empty_cluster)) ''indexer'' sans DefaultCertificateOptions"
  define cert where "cert = \<lparr>cr_Certificate = dated_cert ''old-ca'', cr_PrivateKey = RSAKey ''key'', cr_CertificatePEM = cert_pem ''old-ca'', cr_PrivateKeyPEM = rsa_pem\<rparr>"
  have secret: "label_get (stale_secrets (IndexerCertsName (wc_Name empty_cluster))) SecretKeyTLSCert = cert_pem ''old-ca''"
      "label_get (stale_secrets (IndexerCertsName (wc_Name empty_cluster))) SecretKeyTLSKey = rsa_pem"
    by (simp_all add: stale_secrets_def label_get_def SecretKeyCACert_def SecretKeyTLSCert_def SecretKeyTLSKey_def)
  have parse: "ParseNodeCert flat_crypto (cert_pem ''old-ca'') rsa_pem = Inr cert" by (simp add: cert_def flat_parse)
  have domain: "\<not> RequiresDomainRegeneration (e_domain stale_env) (cr_Certificate cert)"
    by (simp add: RequiresDomainRegeneration_iff cert_def dated_cert_def template_of_def)
  have "x_NotAfter (cr_Certificate cert) = 0" by (simp add: cert_def dated_cert_def template_of_def)
  then have due: "(0 :: int) > x_NotAfter (cr_Certificate cert) + sint (- lf_Threshold leaf)"
    by (simp add: leaf_def node_leaf_def sint_uminus_positive node_threshold_positive)
  have found: "e_get_secret stale_env (wc_Namespace empty_cluster) (lf_SecretName leaf) (w_env w) =
      (Inr (stale_secrets (IndexerCertsName (wc_Name empty_cluster))), w_env w)" and now: "e_now stale_env (w_env w) = (0, w_env w)"
    by (simp_all add: stale_env_def leaf_def node_leaf_def)
  have "\<exists>c w1. run_state (lf_Generate leaf ca) v = (Inr c, w1)" for v
    by (simp add: leaf_def node_leaf_def GenerateNodeCert_def configured_def DefaultNodeCertConfig_def default_config_def with_defaults_def
      DefaultCertificateOptions_def Let_def generate_signed_def GeneratePrivateKey_def run_try run_ask run_bind time_now_def flat_crypto_def stale_env_def
      signed_by_def sealed_def EncodePrivateKeyToPEM_def)
  then obtain c w1 where gen: "run_state (lf_Generate leaf ca) (w\<lparr>w_env := w_env w\<rparr>) = (Inr c, w1)" by blast
  have update: "e_update_secret stale_env t v = (Inr (), v)" for t v by (simp add: stale_env_def)
  have "run_state (reconcile_leaf stale_env flat_crypto False empty_cluster leaf ca) w =
      run_state (do { emitTypedCertRenewingEvent False (lf_Type leaf) (lf_SecretName leaf); new_leaf stale_env False empty_cluster leaf ca True }) (w\<lparr>w_env := w_env w\<rparr>)"
    using reconcile_leaf_found [OF found _ domain now, of flat_crypto False ca] secret parse due by simp
  moreover have "reconcileIndexerCerts stale_env flat_crypto False empty_cluster ca DefaultCertificateOptions = reconcile_leaf stale_env flat_crypto False empty_cluster leaf ca"
    by (simp add: reconcileIndexerCerts_def reconcileNodeCertWithRenewalStatus_def sans_def leaf_def)
  moreover have quiet: "run_state (emitTypedCertRenewingEvent False (lf_Type leaf) (lf_SecretName leaf)) v = ((), v)" "run_state (emitTypedCertRenewedEvent False t n) v = ((), v)" for t n v
    by (simp_all add: emitTypedCertRenewingEvent_def emitTypedCertRenewedEvent_def emit_cert_def)
  ultimately show ?thesis
    by (simp only: quiet gen run_bind prod.case new_leaf_def run_try sum.case write_cert_def update_secret_def run_emit run_ask update if_True run_ret) blast
qed

lemma stale_leaves:
  "\<exists>w'. run_state (reconcile_leaves stale_env flat_certs empty_cluster DefaultCertificateOptions ca) w = (Inr True, w')"
proof -
  let ?others = "filter (\<lambda>(n, d). n \<noteq> IndexerCertsName (wc_Name empty_cluster)) (cert_secrets empty_cluster DefaultCertificateOptions)"
  have others: "?others = (let c = wc_Name empty_cluster; o1 = DefaultCertificateOptions in [
     (ManagerMasterCertsName c, GetRenewalThreshold o1), (ManagerWorkerCertsName c, GetRenewalThreshold o1),
     (DashboardCertsName c, GetDashboardRenewalThreshold o1),
     (FilebeatCertsName c, GetFilebeatRenewalThreshold o1), (AdminCertsName c, GetAdminRenewalThreshold o1)])"
    by (simp add: cert_secrets_def Let_def ManagerMasterCertsName_def ManagerWorkerCertsName_def DashboardCertsName_def FilebeatCertsName_def
      AdminCertsName_def IndexerCertsName_def)
  have secret: "label_get (stale_secrets n) SecretKeyTLSCert = cert_pem ''leaf'' \<and> label_get (stale_secrets n) SecretKeyTLSKey = flat_key n"
    if "n \<noteq> IndexerCertsName (wc_Name empty_cluster)" for n
    using that by (simp add: stale_secrets_def label_get_def SecretKeyTLSCert_def SecretKeyTLSKey_def SecretKeyCACert_def SecretKeyCAKey_def)
  then have "list_all (\<lambda>(n, d). kept_cert stale_env flat_crypto empty_cluster n d) ?others"
    unfolding stale_env_def by (intro stored_leaves_kept) (auto simp: list_all_iff flat_key_def)
  then have kept: "kept_cert stale_env flat_crypto empty_cluster (ManagerMasterCertsName (wc_Name empty_cluster)) (GetRenewalThreshold DefaultCertificateOptions)"
      "kept_cert stale_env flat_crypto empty_cluster (ManagerWorkerCertsName (wc_Name empty_cluster)) (GetRenewalThreshold DefaultCertificateOptions)"
      "kept_cert stale_env flat_crypto empty_cluster (DashboardCertsName (wc_Name empty_cluster)) (GetDashboardRenewalThreshold DefaultCertificateOptions)"
      "kept_cert stale_env flat_crypto empty_cluster (FilebeatCertsName (wc_Name empty_cluster)) (GetFilebeatRenewalThreshold DefaultCertificateOptions)"
      "kept_cert stale_env flat_crypto empty_cluster (AdminCertsName (wc_Name empty_cluster)) (GetAdminRenewalThreshold DefaultCertificateOptions)"
    unfolding others Let_def by simp_all
  have admin: "pkcs8_stored stale_env flat_crypto empty_cluster (AdminCertsName (wc_Name empty_cluster))"
    using secret [of "AdminCertsName (wc_Name empty_cluster)"] flat_convert
    by (simp add: pkcs8_stored_def stale_env_def flat_key_def AdminCertsName_def IndexerCertsName_def)
  have manager: "silent (reconcileManagerCerts stale_env flat_crypto False empty_cluster ca DefaultCertificateOptions) False"
    unfolding reconcileManagerCerts_def Let_def reconcileNodeCertWithRenewalStatus_def
    by (intro silent_try [where a = False] silent_ret kept_leaf) (simp_all add: kept node_leaf_def)
  have rest: "silent (reconcileDashboardCerts stale_env flat_crypto False empty_cluster ca DefaultCertificateOptions) False"
      "silent (reconcileFilebeatCerts stale_env flat_crypto False empty_cluster ca DefaultCertificateOptions) False"
      "silent (reconcileAdminCerts stale_env flat_crypto False empty_cluster ca DefaultCertificateOptions) False"
    unfolding reconcileDashboardCerts_def reconcileFilebeatCerts_def reconcileAdminCerts_def
    by (intro kept_leaf; simp add: kept admin dashboard_leaf_def filebeat_leaf_def admin_leaf_def)+
  obtain w1 where "run_state (reconcileIndexerCerts stale_env flat_crypto False empty_cluster ca DefaultCertificateOptions) w = (Inr True, w1)"
    using stale_indexer by blast
  then have "run_state (reconcile_leaves stale_env flat_certs empty_cluster DefaultCertificateOptions ca) w = (Inr True, w1)"
    by (simp add: reconcile_leaves_def flat_certs_def Let_def run_try silent_unit [OF manager] silent_unit [OF rest(1)] silent_unit [OF rest(2)]
      silent_unit [OF rest(3)])
  then show ?thesis ..
qed

theorem renewed_indexer_certificate_not_loaded_witness:
  "\<exists>r w'. run_state (ReconcileWithHashes stale_env flat_certs empty_cluster) (new_world ()) = (Some (Inr r), w') \<and> chr_IndexerCertsRenewed r \<and>
     ''certificate-renewal'' \<notin> set (indexer_changes [] (indexer_cert_hash (Some r)) [] done_sts done_sts)"
proof -
  have custom: "Option.bind (wc_TLS empty_cluster) tls_CustomCerts = None" and off: "\<not> ShouldTriggerHotReload empty_cluster"
    by (simp_all add: empty_cluster_def ShouldTriggerHotReload_def)
  obtain ca where ca: "run_state (reconcileCA stale_env flat_crypto hours_cron False empty_cluster DefaultCertificateOptions) (new_world ()) =
      (Some (Inr (ca_as_is ca)), new_world ())" using stale_ca by blast
  obtain w1 where leaves: "run_state (reconcile_leaves stale_env flat_certs empty_cluster DefaultCertificateOptions ca) (new_world ()) = (Inr True, w1)"
    using stale_leaves by blast
  obtain e err w2 where e: "run_state (collectCertHashes stale_env empty_cluster) w1 = ((e, err), w2)" by (metis surj_pair)
  define r where "r = e\<lparr>chr_CARenewed := False, chr_IndexerCertsRenewed := True\<rparr>"
  have plain: "car_RenewalPending (ca_as_is ca) = False" "car_Renewed (ca_as_is ca) = False" "car_CAResult (ca_as_is ca) = ca" by (simp_all add: ca_as_is_def)
  have run: "run_state (ReconcileWithHashes stale_env flat_certs empty_cluster) (new_world ()) = (Some (Inr r), w2)"
    using custom off ca leaves e plain
    by (simp add: ReconcileWithHashes_def Let_def run_bind flat_default_options flat_certs_def finish_certs_def TriggerHotReload_def with_reload_def no_reload_def r_def)
  moreover have "chr_IndexerCertsRenewed r" "\<not> chr_CARenewed r" by (simp_all add: r_def)
  ultimately show ?thesis using renewed_indexer_certificate_not_loaded [OF custom off run] by blast
qed

end
